(* ===== verification/Prelude.thy ===== *)
theory Prelude
  imports Main "HOL-Library.AList"
begin

text \<open>
  Shared ground of the development: results of code that may throw (a sum whose left side is
  the thrown error), the JavaScript object used as a dictionary, and the automation the other
  theories build on.

  \<^item> \<open>res_bind\<close> is the sequencing of the source's statements: the first throw ends the function.
    The collection \<open>res_simps\<close> inverts a chain of guards that ended normally.
  \<^item> \<open>js_get\<close> and \<open>js_set\<close> are property reads and writes on an object that started as a literal
    \<open>{}\<close>.  Such an object inherits the methods of \<open>Object.prototype\<close>, so a read of a
    key such as \<open>constructor\<close> that nobody stored is neither absent nor a stored value.
\<close>

named_theorems res_simps
  "inversion rules for chains of throwing statements"

named_theorems js_simps
  "reads and writes of JavaScript objects used as dictionaries"


section \<open>Statements that may throw\<close>

fun res_bind :: "'e + 'a \<Rightarrow> ('a \<Rightarrow> 'e + 'b) \<Rightarrow> 'e + 'b" where
  "res_bind (Inl e) f = Inl e"
| "res_bind (Inr x) f = f x"

lemma res_bind_weak_cong: "m = m' \<Longrightarrow> res_bind m f = res_bind m' f"
  by simp

lemma res_bind_eq_Inr [res_simps]:
  "res_bind m f = Inr y \<longleftrightarrow> (\<exists>x. m = Inr x \<and> f x = Inr y)"
  by (cases m) simp_all

lemma res_bind_eq_Inl:
  "res_bind m f = Inl e \<longleftrightarrow> m = Inl e \<or> (\<exists>x. m = Inr x \<and> f x = Inl e)"
  by (cases m) simp_all

lemma guard_eq_Inr [res_simps]:
  "(if c then Inl e else r) = Inr y \<longleftrightarrow> \<not> c \<and> r = Inr y"
  by simp

lemma guard_eq_Inr' [res_simps]:
  "(if c then r else Inl e) = Inr y \<longleftrightarrow> c \<and> r = Inr y"
  by simp

lemma option_eq_Inr [res_simps]:
  "(case x of None \<Rightarrow> Inl e | Some v \<Rightarrow> f v) = Inr y \<longleftrightarrow> (\<exists>v. x = Some v \<and> f v = Inr y)"
  by (cases x) simp_all

lemma option_eq_Inr' [res_simps]:
  "(case x of None \<Rightarrow> r | Some v \<Rightarrow> Inl (f v)) = Inr y \<longleftrightarrow> x = None \<and> r = Inr y"
  by (cases x) simp_all

text \<open>\<open>try { return h(...) } catch (e) { throw g(e) }\<close>\<close>

lemma catch_eq_Inr [res_simps]:
  "(case r of Inl e \<Rightarrow> Inl (g e) | Inr u \<Rightarrow> h u) = Inr y \<longleftrightarrow> (\<exists>u. r = Inr u \<and> h u = Inr y)"
  by (cases r) simp_all

text \<open>\<open>xs.map(f)\<close> where \<open>f\<close> may throw: left to right, the first throw ends the call.\<close>

fun res_mapM :: "('a \<Rightarrow> 'e + 'b) \<Rightarrow> 'a list \<Rightarrow> 'e + 'b list" where
  "res_mapM f [] = Inr []"
| "res_mapM f (x # xs) =
     res_bind (f x) (\<lambda>y. res_bind (res_mapM f xs) (\<lambda>ys. Inr (y # ys)))"

lemma res_mapM_eq_Inr:
  "res_mapM f xs = Inr ys \<longleftrightarrow> list_all2 (\<lambda>x y. f x = Inr y) xs ys"
proof (induction xs arbitrary: ys)
  case Nil
  then show ?case by auto
next
  case (Cons x xs)
  then show ?case by (cases ys) (auto simp: res_simps)
qed

lemma res_mapM_member:
  assumes "res_mapM f xs = Inr ys" and "y \<in> set ys"
  shows "\<exists>x \<in> set xs. f x = Inr y"
  using assms by (auto simp: res_mapM_eq_Inr list_all2_conv_all_nth in_set_conv_nth) (metis nth_mem)

text \<open>A caller that only wants to know whether the call threw.\<close>

definition throws :: "'e + 'a \<Rightarrow> bool" where
  "throws r = (case r of Inl _ \<Rightarrow> True | Inr _ \<Rightarrow> False)"

lemma throws_simps [simp]: "throws (Inl e)" "\<not> throws (Inr x)"
  by (simp_all add: throws_def)

lemma not_throws_iff: "\<not> throws r \<longleftrightarrow> (\<exists>x. r = Inr x)"
  by (cases r) simp_all


section \<open>Objects used as dictionaries\<close>

text \<open>
  \<open>Record<string, V>\<close> of the source: own properties in insertion order.
\<close>

type_synonym 'v js_record = "(string \<times> 'v) list"

datatype 'v js_prop = Absent | Inherited | Own 'v

text \<open>
  The names every plain object inherits and that an OpenRails identifier can spell
  (identifiers start with a letter or digit, so \<open>__proto__\<close> is not among them).
\<close>

definition prototype_keys :: "string list" where
  "prototype_keys = [''constructor'', ''toString'', ''valueOf'', ''hasOwnProperty'',
     ''isPrototypeOf'', ''propertyIsEnumerable'', ''toLocaleString'']"

definition js_get :: "'v js_record \<Rightarrow> string \<Rightarrow> 'v js_prop" where
  "js_get r k =
     (case map_of r k of
        Some v \<Rightarrow> Own v
      | None \<Rightarrow> if k \<in> set prototype_keys then Inherited else Absent)"

definition js_set :: "string \<Rightarrow> 'v \<Rightarrow> 'v js_record \<Rightarrow> 'v js_record" where
  "js_set k v r = AList.update k v r"

text \<open>The own properties as a partial map: what a dictionary is meant to be.\<close>

definition own :: "'v js_record \<Rightarrow> string \<rightharpoonup> 'v" where
  "own r = map_of r"

lemma own_Nil [simp, js_simps]: "own [] k = None"
  by (simp add: own_def)

lemma own_js_set [simp, js_simps]: "own (js_set k v r) = (own r)(k \<mapsto> v)"
  by (simp add: own_def js_set_def update_conv')

lemma js_get_own:
  "js_get r k = (case own r k of
     Some v \<Rightarrow> Own v | None \<Rightarrow> if k \<in> set prototype_keys then Inherited else Absent)"
  by (simp add: js_get_def own_def)

lemma js_get_eq_Own [simp, js_simps]: "js_get r k = Own v \<longleftrightarrow> own r k = Some v"
  by (auto simp: js_get_own split: option.splits if_splits)

lemma js_get_eq_Absent [js_simps]:
  "js_get r k = Absent \<longleftrightarrow> own r k = None \<and> k \<notin> set prototype_keys"
  by (auto simp: js_get_own split: option.splits if_splits)

lemma js_get_eq_Inherited [js_simps]:
  "js_get r k = Inherited \<longleftrightarrow> own r k = None \<and> k \<in> set prototype_keys"
  by (auto simp: js_get_own split: option.splits if_splits)

text \<open>\<open>if (r[k])\<close> for values that are objects: only an absent property is falsy.\<close>

definition present :: "'v js_prop \<Rightarrow> bool" where
  "present p = (p \<noteq> Absent)"

lemma not_presentD: "\<not> present (js_get r k) \<Longrightarrow> own r k = None"
  by (simp add: present_def js_get_eq_Absent)


section \<open>Lists\<close>

text \<open>\<open>xs.find(p)\<close>.\<close>

lemma find_SomeD: "List.find P xs = Some x \<Longrightarrow> x \<in> set xs \<and> P x"
  by (auto simp: find_Some_iff)

end
