(* ===== verification/Js_Values.thy ===== *)
theory Js_Values
  imports Prelude
begin

text \<open>
  The JavaScript values the program computes with: JSON values, \<open>bigint\<close> conversions of decimal
  strings, ASCII case folding, \<open>join\<close>, and comparisons of numbers that may be \<open>NaN\<close>.
\<close>


section \<open>JSON values\<close>

text \<open>Numbers that occur in the interface objects are integers.\<close>

datatype json =
    JNull
  | JBool bool
  | JNum int
  | JStr string
  | JArr "json list"
  | JObj "(string \<times> json) list"

text \<open>
  An object with optional members: a member whose value is \<open>undefined\<close> is not part of the JSON
  text, so the encoding of a record drops it.
\<close>

fun jfields :: "(string \<times> json option) list \<Rightarrow> (string \<times> json) list" where
  "jfields [] = []"
| "jfields ((k, None) # fs) = jfields fs"
| "jfields ((k, Some v) # fs) = (k, v) # jfields fs"

definition jobj :: "(string \<times> json option) list \<Rightarrow> json" where
  "jobj fs = JObj (jfields fs)"

lemma jfields_keys: "(k, v) \<in> set (jfields fs) \<Longrightarrow> k \<in> fst ` set fs"
  by (induction fs rule: jfields.induct) auto

lemma jfields_Cons_eq:
  assumes "k \<notin> fst ` set fs" and "k \<notin> fst ` set gs"
  shows "jfields ((k, v) # fs) = jfields ((k, w) # gs) \<longleftrightarrow> v = w \<and> jfields fs = jfields gs"
proof -
  have "(k, x) \<notin> set (jfields fs)" "(k, x) \<notin> set (jfields gs)" for x
    using assms jfields_keys by fastforce+
  then show ?thesis
    by (cases v; cases w) (metis list.set_intros(1) | auto)+
qed

lemma jobj_Cons_eq:
  assumes "k \<notin> fst ` set fs" and "k \<notin> fst ` set gs"
  shows "jobj ((k, v) # fs) = jobj ((k, w) # gs) \<longleftrightarrow> v = w \<and> jobj fs = jobj gs"
  using jfields_Cons_eq [OF assms] by (simp add: jobj_def)


section \<open>Numbers that may be NaN\<close>

text \<open>
  \<open>None\<close> is \<open>NaN\<close>.  Every relational comparison with \<open>NaN\<close> is false.
\<close>

type_synonym js_number = "int option"

definition js_less :: "js_number \<Rightarrow> js_number \<Rightarrow> bool" where
  "js_less a b = (case (a, b) of (Some x, Some y) \<Rightarrow> x < y | _ \<Rightarrow> False)"

definition js_le :: "js_number \<Rightarrow> js_number \<Rightarrow> bool" where
  "js_le a b = (case (a, b) of (Some x, Some y) \<Rightarrow> x \<le> y | _ \<Rightarrow> False)"

lemma js_less_simps [simp]:
  "js_less (Some x) (Some y) \<longleftrightarrow> x < y" "\<not> js_less None b" "\<not> js_less a None"
  by (simp_all add: js_less_def split: option.splits)

lemma js_le_simps [simp]:
  "js_le (Some x) (Some y) \<longleftrightarrow> x \<le> y" "\<not> js_le None b" "\<not> js_le a None"
  by (simp_all add: js_le_def split: option.splits)


section \<open>Characters and strings\<close>

definition char_code :: "char \<Rightarrow> nat" where
  "char_code c = of_char c"

definition is_digit :: "char \<Rightarrow> bool" where
  "is_digit c \<longleftrightarrow> 48 \<le> char_code c \<and> char_code c \<le> 57"

definition digit_value :: "char \<Rightarrow> nat" where
  "digit_value c = char_code c - 48"

definition digit_char :: "nat \<Rightarrow> char" where
  "digit_char d = char_of (48 + d)"

lemma digit_char_props:
  assumes "d < 10"
  shows "is_digit (digit_char d)" "digit_value (digit_char d) = d"
  using assms by (simp_all add: is_digit_def digit_value_def digit_char_def char_code_def)

lemma digit_char_value: "is_digit c \<Longrightarrow> digit_char (digit_value c) = c"
  by (simp add: is_digit_def digit_value_def digit_char_def char_code_def)

lemma digit_value_less: "is_digit c \<Longrightarrow> digit_value c < 10"
  by (auto simp: is_digit_def digit_value_def)

text \<open>\<open>toLowerCase\<close> on the ASCII strings of the interface (addresses, hashes).\<close>

definition lower_char :: "char \<Rightarrow> char" where
  "lower_char c =
     (if 65 \<le> char_code c \<and> char_code c \<le> 90 then char_of (char_code c + 32) else c)"

definition toLowerCase :: "string \<Rightarrow> string" where
  "toLowerCase s = map lower_char s"

lemma lower_char_idem [simp]: "lower_char (lower_char c) = lower_char c"
proof (cases "65 \<le> char_code c \<and> char_code c \<le> 90")
  case True
  then have "char_code (char_of (char_code c + 32)) = char_code c + 32"
    by (simp add: char_code_def)
  with True show ?thesis by (simp add: lower_char_def)
next
  case False
  then show ?thesis by (simp only: lower_char_def if_False)
qed

lemma toLowerCase_idem [simp]: "toLowerCase (toLowerCase s) = toLowerCase s"
  by (simp add: toLowerCase_def)

text \<open>\<open>xs.join(sep)\<close> for a one-character separator.\<close>

fun js_join :: "char \<Rightarrow> string list \<Rightarrow> string" where
  "js_join c [] = []"
| "js_join c [x] = x"
| "js_join c (x # y # ys) = x @ c # js_join c (y # ys)"

lemma append_sep_eq:
  assumes "c \<notin> set x" "c \<notin> set y" "x @ c # r = y @ c # s"
  shows "x = y \<and> r = s"
  using assms
proof (induction x arbitrary: y)
  case Nil
  then show ?case by (cases y) auto
next
  case (Cons a x)
  then show ?case by (cases y) auto
qed

text \<open>Joining is injective on lists of one length whose parts do not hold the separator.\<close>

lemma js_join_inject:
  assumes "length xs = length ys"
    and "\<forall>x \<in> set xs. c \<notin> set x" and "\<forall>y \<in> set ys. c \<notin> set y"
    and "js_join c xs = js_join c ys"
  shows "xs = ys"
  using assms
proof (induction xs arbitrary: ys rule: js_join.induct)
  case (1 c)
  then show ?case by simp
next
  case (2 c x)
  then show ?case by (cases ys) (auto simp: length_Suc_conv)
next
  case (3 c x y zs)
  obtain u v ws where ys: "ys = u # v # ws"
    using "3.prems"(1) by (cases ys; cases "tl ys") auto
  have "x @ c # js_join c (y # zs) = u @ c # js_join c (v # ws)"
    using "3.prems"(4) by (simp add: ys)
  then have "x = u \<and> js_join c (y # zs) = js_join c (v # ws)"
    by (rule append_sep_eq [rotated 2]) (use "3.prems" ys in auto)
  then show ?case using "3.IH" [of "v # ws"] "3.prems" by (simp add: ys)
qed


section \<open>Decimal strings and BigInt\<close>

fun dec_value :: "nat \<Rightarrow> string \<Rightarrow> nat" where
  "dec_value acc [] = acc"
| "dec_value acc (c # cs) = dec_value (10 * acc + digit_value c) cs"

text \<open>\<open>n.toString()\<close> for a non-negative \<open>bigint\<close>.\<close>

fun show_nat :: "nat \<Rightarrow> string" where
  "show_nat n = (if n < 10 then [digit_char n] else show_nat (n div 10) @ [digit_char (n mod 10)])"

declare show_nat.simps [simp del]

definition show_int :: "int \<Rightarrow> string" where
  "show_int i = (if i < 0 then CHR ''-'' # show_nat (nat (- i)) else show_nat (nat i))"

text \<open>The source's pattern \<open>/^(0|[1-9][0-9]*)$/\<close>.\<close>

definition is_dec_string :: "string \<Rightarrow> bool" where
  "is_dec_string s \<longleftrightarrow>
     s = ''0'' \<or> (s \<noteq> [] \<and> list_all is_digit s \<and> hd s \<noteq> CHR ''0'')"

text \<open>The source's pattern \<open>/^[1-9][0-9]*$/\<close>.\<close>

definition is_pos_dec_string :: "string \<Rightarrow> bool" where
  "is_pos_dec_string s \<longleftrightarrow> s \<noteq> [] \<and> list_all is_digit s \<and> hd s \<noteq> CHR ''0''"

text \<open>
  \<open>BigInt(s)\<close>: surrounding white space is ignored, the empty text is 0, a decimal may carry a
  sign, and the radix prefixes are unsigned.  \<open>None\<close> is the \<open>SyntaxError\<close>.
\<close>

definition is_space :: "char \<Rightarrow> bool" where
  "is_space c \<longleftrightarrow> char_code c \<in> {9, 10, 11, 12, 13, 32}"

definition trim :: "string \<Rightarrow> string" where
  "trim s = rev (dropWhile is_space (rev (dropWhile is_space s)))"

definition radix_digit :: "nat \<Rightarrow> char \<Rightarrow> nat option" where
  "radix_digit b c =
     (let n = char_code c;
          d = (if 48 \<le> n \<and> n \<le> 57 then n - 48
               else if 97 \<le> n \<and> n \<le> 102 then n - 87
               else if 65 \<le> n \<and> n \<le> 70 then n - 55 else 99)
      in if d < b then Some d else None)"

fun radix_value :: "nat \<Rightarrow> nat \<Rightarrow> string \<Rightarrow> nat option" where
  "radix_value b acc [] = Some acc"
| "radix_value b acc (c # cs) =
     (case radix_digit b c of None \<Rightarrow> None | Some d \<Rightarrow> radix_value b (b * acc + d) cs)"

definition digits_value :: "string \<Rightarrow> int option" where
  "digits_value s = (if s \<noteq> [] \<and> list_all is_digit s then Some (int (dec_value 0 s)) else None)"

definition radix_int :: "nat \<Rightarrow> string \<Rightarrow> int option" where
  "radix_int b s = (if s = [] then None else map_option int (radix_value b 0 s))"

definition unsigned_int :: "string \<Rightarrow> int option" where
  "unsigned_int s =
     (if take 2 s = ''0x'' \<or> take 2 s = ''0X'' then radix_int 16 (drop 2 s)
      else if take 2 s = ''0o'' \<or> take 2 s = ''0O'' then radix_int 8 (drop 2 s)
      else if take 2 s = ''0b'' \<or> take 2 s = ''0B'' then radix_int 2 (drop 2 s)
      else digits_value s)"

definition BigInt :: "string \<Rightarrow> int option" where
  "BigInt s =
     (let t = trim s in
      if t = [] then Some 0
      else if hd t = CHR ''-'' then map_option uminus (digits_value (tl t))
      else if hd t = CHR ''+'' then digits_value (tl t)
      else unsigned_int t)"


subsection \<open>Printing and reading decimals\<close>

lemma dec_value_append: "dec_value acc (s @ t) = dec_value (dec_value acc s) t"
  by (induction s arbitrary: acc) auto

lemma show_nat_digits: "list_all is_digit (show_nat n)"
proof (induction n rule: show_nat.induct)
  case (1 n)
  then show ?case by (simp add: show_nat.simps [of n] digit_char_props)
qed

lemma show_nat_nonempty [simp]: "show_nat n \<noteq> []"
  by (subst show_nat.simps) simp

lemma dec_value_show_nat: "dec_value 0 (show_nat n) = n"
proof (induction n rule: show_nat.induct)
  case (1 n)
  then show ?case by (simp add: show_nat.simps [of n] dec_value_append digit_char_props)
qed

lemma hd_show_nat: "0 < n \<Longrightarrow> hd (show_nat n) \<noteq> CHR ''0''"
proof (induction n rule: show_nat.induct)
  case (1 n)
  show ?case
  proof (cases "n < 10")
    case True
    have "digit_value CHR ''0'' = 0" by (simp add: digit_value_def char_code_def)
    moreover have "digit_value (digit_char n) = n" using True by (rule digit_char_props)
    ultimately have "digit_char n \<noteq> CHR ''0''" using \<open>0 < n\<close> by (intro notI) simp
    with True show ?thesis by (subst show_nat.simps) simp
  next
    case False
    then have "hd (show_nat (n div 10)) \<noteq> CHR ''0''" using "1.IH" by simp
    with False show ?thesis by (subst show_nat.simps) simp
  qed
qed

lemma is_digit_not_space: "is_digit c \<Longrightarrow> \<not> is_space c"
  by (auto simp: is_digit_def is_space_def)

lemma trim_no_space:
  assumes "\<forall>c \<in> set s. \<not> is_space c"
  shows "trim s = s"
proof -
  have "dropWhile is_space t = t" if "\<forall>c \<in> set t. \<not> is_space c" for t
    using that by (cases t) auto
  from this [of s] this [of "rev s"] show ?thesis using assms by (simp add: trim_def)
qed

lemma trim_digits: "list_all is_digit s \<Longrightarrow> trim s = s"
  using is_digit_not_space by (auto simp: list_all_iff intro: trim_no_space)

lemma BigInt_digits:
  assumes "s \<noteq> []" and "list_all is_digit s"
  shows "BigInt s = Some (int (dec_value 0 s))"
proof -
  have dig: "is_digit c" if "c \<in> set s" for c using assms(2) that by (simp add: list_all_iff)
  have "hd s \<noteq> CHR ''-''" "hd s \<noteq> CHR ''+''"
    using dig [of "hd s"] assms(1) by (auto simp: is_digit_def char_code_def)
  moreover have "take 2 s \<noteq> [CHR ''0'', c]" if "\<not> is_digit c" for c
  proof
    assume eq: "take 2 s = [CHR ''0'', c]"
    then have "c \<in> set (take 2 s)" by simp
    then have "c \<in> set s" by (rule in_set_takeD)
    with dig that show False by blast
  qed
  ultimately show ?thesis
    using assms by (simp add: BigInt_def trim_digits unsigned_int_def digits_value_def
      is_digit_def char_code_def)
qed

lemma BigInt_show_nat [simp]: "BigInt (show_nat n) = Some (int n)"
  by (simp add: BigInt_digits show_nat_digits dec_value_show_nat)

text \<open>\<open>BigInt(i.toString())\<close> is \<open>i\<close>.\<close>

lemma BigInt_show_int [simp]: "BigInt (show_int i) = Some i"
proof (cases "i < 0")
  case True
  have "\<not> is_space CHR ''-''" by (simp add: is_space_def char_code_def)
  moreover have "\<forall>c \<in> set (show_nat n). \<not> is_space c" for n
    using show_nat_digits [of n] is_digit_not_space by (auto simp: list_all_iff)
  ultimately have "trim (CHR ''-'' # show_nat n) = CHR ''-'' # show_nat n" for n
    by (intro trim_no_space) simp
  with True show ?thesis
    by (simp add: show_int_def BigInt_def digits_value_def show_nat_digits dec_value_show_nat)
next
  case False
  then show ?thesis by (simp add: show_int_def)
qed

lemma is_dec_string_show_nat: "is_dec_string (show_nat n)"
proof (cases "n = 0")
  case True
  have "digit_char 0 = CHR ''0''" by code_simp
  with True show ?thesis by (simp add: show_nat.simps [of 0] is_dec_string_def)
next
  case False
  then show ?thesis by (simp add: is_dec_string_def show_nat_digits hd_show_nat)
qed

lemma BigInt_dec_string:
  "is_dec_string s \<Longrightarrow> BigInt s = Some (int (dec_value 0 s))"
proof -
  assume s: "is_dec_string s"
  have "is_digit CHR ''0''" by (simp add: is_digit_def char_code_def)
  with s have "s \<noteq> []" "list_all is_digit s" by (auto simp: is_dec_string_def)
  then show ?thesis by (rule BigInt_digits)
qed

section \<open>The JSON text of a value\<close>

text \<open>\<open>JSON.stringify(v)\<close> and, with an indent of two, \<open>JSON.stringify(v, null, 2)\<close>.\<close>

definition hex_char :: "nat \<Rightarrow> char" where
  "hex_char n = (if n < 10 then digit_char n else char_of (n + 87))"

definition json_escape :: "char \<Rightarrow> string" where
  "json_escape c =
     (let n = char_code c in
      if n = 34 \<or> n = 92 then [char_of (92::nat), c]
      else if n = 8 then [char_of (92::nat), CHR ''b'']
      else if n = 9 then [char_of (92::nat), CHR ''t'']
      else if n = 10 then [char_of (92::nat), CHR ''n'']
      else if n = 12 then [char_of (92::nat), CHR ''f'']
      else if n = 13 then [char_of (92::nat), CHR ''r'']
      else if n < 32 then char_of (92::nat) # ''u00'' @ [hex_char (n div 16), hex_char (n mod 16)]
      else [c])"

definition json_quote :: "string \<Rightarrow> string" where
  "json_quote s = [char_of (34::nat)] @ concat (map json_escape s) @ [char_of (34::nat)]"

fun js_stringify :: "json \<Rightarrow> string" where
  "js_stringify JNull = ''null''"
| "js_stringify (JBool b) = (if b then ''true'' else ''false'')"
| "js_stringify (JNum n) = show_int n"
| "js_stringify (JStr s) = json_quote s"
| "js_stringify (JArr vs) = ''['' @ js_join CHR '','' (map js_stringify vs) @ '']''"
| "js_stringify (JObj fs) =
     ''{'' @ js_join CHR '','' (map (\<lambda>(k, v). json_quote k @ '':'' @ js_stringify v) fs) @ ''}''"

definition new_line :: "nat \<Rightarrow> string" where
  "new_line depth = [char_of (10::nat)] @ replicate (2 * depth) CHR '' ''"

definition json_lines :: "nat \<Rightarrow> string list \<Rightarrow> string" where
  "json_lines depth parts =
     js_join CHR '','' (map (\<lambda>p. new_line (Suc depth) @ p) parts) @ new_line depth"

fun js_pretty :: "nat \<Rightarrow> json \<Rightarrow> string" where
  "js_pretty d (JArr vs) =
     (if vs = [] then ''[]'' else ''['' @ json_lines d (map (js_pretty (Suc d)) vs) @ '']'')"
| "js_pretty d (JObj fs) =
     (if fs = [] then ''{}''
      else ''{'' @ json_lines d
        (map (\<lambda>(k, v). json_quote k @ '': '' @ js_pretty (Suc d) v) fs) @ ''}'')"
| "js_pretty d v = js_stringify v"

end
