(* ===== verification/Interface_Types.thy ===== *)
theory Interface_Types
  imports Js_Values
begin

text \<open>
  The objects of the Shared Interface (\<open>interface/src/generated.ts\<close>): a record per object type
  with the members of the source in the source's order, an enumeration per union of string
  literals.  An optional member is an \<open>option\<close>.  The members of one type carry a common prefix
  (\<open>ws_\<close> for Workspace, \<open>pa_\<close> for Path, \<open>pr_\<close> for Proposal, and so on).
  The source types Pact and Path by different object types although both hold references; all
  references are \<open>object_ref\<close>, and the \<open>type\<close> member tells them apart, as in the code.
\<close>


section \<open>Unions of string literals\<close>

datatype interface_version =
    IV_1_1_0 | IV_1_2_0

datatype object_type =
    OT_Workspace | OT_WorkspaceMember | OT_Actor | OT_Path | OT_Intent | OT_Proposal
    | OT_BaphometDecision | OT_SettlementIntent | OT_Pact | OT_PaymentTerms | OT_WorkUsageEvent
    | OT_ProofPolicy | OT_Proof | OT_RailsFlow | OT_RailsCard | OT_PaycardStream | OT_Receipt
    | OT_CanonicalRecord | OT_GaiaCase | OT_RectificationObligation | OT_InterfaceError
    | OT_TransactionState | OT_OperationEnvelope | OT_WalletHandoff | OT_NetworkManifest
    | OT_CapabilityDeclaration | OT_Provenance

datatype execution_profile =
    EP_direct_wallet_authorized | EP_delegated_runtime

datatype authorization_class =
    AC_PUBLIC_READ | AC_AUTHENTICATED_READ | AC_PREPARE_ONLY | AC_WALLET_SIGNATURE
    | AC_WALLET_TRANSACTION | AC_RELAY_SIGNED_ENVELOPE | AC_OPERATOR_ADMIN

datatype lifecycle_state =
    LS_DRAFT | LS_PREPARED | LS_AWAITING_AUTHORIZATION | LS_EVALUATING | LS_BLOCKED | LS_ALLOWED
    | LS_COMMITTED | LS_EXECUTING | LS_PROOF_PENDING | LS_PROOF_VERIFIED | LS_CLEARING_READY
    | LS_SUBMITTED | LS_CONFIRMED | LS_SETTLING | LS_SETTLED | LS_RESOLVING | LS_RESOLVED
    | LS_FAILED | LS_CANCELLED

datatype transaction_state_name =
    TS_NOT_REQUESTED | TS_WALLET_REQUIRED | TS_WALLET_REJECTED | TS_SUBMITTED
    | TS_PENDING_CONFIRMATION | TS_CONFIRMED | TS_REVERTED | TS_REPLACED | TS_DROPPED
    | TS_UNKNOWN

datatype error_code =
    INPUT_INVALID | NETWORK_UNSUPPORTED | CAPABILITY_UNAVAILABLE | WRONG_NETWORK
    | AUTHORIZATION_REQUIRED | WALLET_REJECTED | SIGNATURE_INVALID | SIGNATURE_EXPIRED
    | NONCE_CONFLICT | POLICY_BLOCKED | TERMS_MISMATCH | PROOF_REQUIRED | PROOF_INVALID
    | INSUFFICIENT_BALANCE | INSUFFICIENT_ALLOWANCE | RPC_UNAVAILABLE | SIMULATION_REVERTED
    | TRANSACTION_REVERTED | TRANSACTION_REPLACED | TRANSACTION_DROPPED | RECEIPT_UNVERIFIED
    | STATE_STALE | RATE_LIMITED | INTERNAL_ERROR

datatype workspace_status =
    WS_DRAFT | WS_ACTIVE | WS_SUSPENDED | WS_CLOSED

datatype actor_status =
    AS_UNVERIFIED | AS_VERIFIED | AS_SUSPENDED | AS_REVOKED

datatype actor_kind =
    AK_person | AK_application | AK_agent | AK_service | AK_sidecar

datatype asset_kind =
    AssetKind_erc20 | AssetKind_native

datatype path_status =
    PS_PREPARED | PS_ACTIVE | PS_REVOKED | PS_EXPIRED

datatype intent_action =
    IA_CREATE_RAILSFLOW | IA_PAY_RAILSFLOW | IA_ISSUE_RAILSCARD | IA_CLAIM_RAILSCARD
    | IA_OPEN_PAYCARD | IA_SETTLE_PAYCARD | IA_FLUSH_RESIDUAL

datatype settlement_shape =
    SS_one_time | SS_streamed

datatype proposal_status =
    PRS_EVALUATING | PRS_ALLOWED | PRS_BLOCKED | PRS_FAILED

datatype decision_kind =
    DK_ALLOW | DK_BLOCK

datatype financial_effect =
    FE_NONE | FE_PENDING | FE_CONFIRMED | FE_UNKNOWN | FE_RECONCILIATION_REQUIRED

datatype wallet_action =
    WA_NONE | WA_REQUIRED | WA_SUBMITTED

datatype pact_status =
    PTS_DRAFT | PTS_ACTIVE | PTS_REVOKED | PTS_EXPIRED

datatype record_exposure =
    RX_encrypted | RX_public

datatype record_mode =
    RM_omitted | RM_optional | RM_required

datatype before_transition =
    BT_NONE | BT_WALLET_SETTLEMENT_INTENT_AUTHORIZATION | BT_PAYER_SIGNATURE_AND_ISSUANCE
    | BT_RECIPIENT_CLAIM | BT_CHECKPOINT_SETTLEMENT | BT_SETTLEMENT

datatype proof_gate =
    PG_NONE | PG_AUTHORIZATION | PG_CLAIM | PG_CHECKPOINT | PG_FINAL_SETTLEMENT

datatype proof_status =
    PFS_NOT_REQUIRED | PFS_SUBMITTED | PFS_VERIFIED | PFS_REJECTED

datatype evidence_level =
    EL_repository_asserted | EL_independently_verified | EL_buyer_validated
    | EL_configuration_only | EL_runtime_observed

datatype provenance_source =
    PSrc_repository_evidence | PSrc_network_observation | PSrc_configuration
    | PSrc_wallet_signed | PSrc_runtime_evaluation | PSrc_operator_record

datatype settlement_ref_kind =
    SRK_vault | SRK_receipt | SRK_transaction | SRK_event

datatype locator_kind =
    LK_ciphertext | LK_plaintext | LK_metadata

datatype subject_role =
    SR_owner | SR_payer | SR_recipient | SR_delegate | SR_operator | SR_observer


section \<open>Objects\<close>

record network_reference =
  nr_chainId :: "string"
  nr_networkId :: "string"

record object_ref =
  ref_id :: "string"
  ref_network :: "network_reference option"
  ref_type :: "object_type"

record provenance =
  pv_authority :: "string"
  pv_commit :: "string option"
  pv_evidenceLevel :: "evidence_level"
  pv_evidenceRefs :: "(string list) option"
  pv_notes :: "string option"
  pv_observedAt :: "string"
  pv_repository :: "string option"
  pv_source :: "provenance_source"

record workspace =
  ws_createdAt :: "string"
  ws_description :: "string option"
  ws_extensions :: "(json js_record) option"
  ws_id :: "string"
  ws_interfaceVersion :: "interface_version"
  ws_name :: "string"
  ws_ownerActorRef :: "object_ref"
  ws_provenance :: "provenance"
  ws_status :: "workspace_status"
  ws_updatedAt :: "string"

record actor =
  ac_authorityStatus :: "actor_status"
  ac_createdAt :: "string"
  ac_displayName :: "string"
  ac_extensions :: "(json js_record) option"
  ac_externalSubject :: "string option"
  ac_id :: "string"
  ac_interfaceVersion :: "interface_version"
  ac_kind :: "actor_kind"
  ac_provenance :: "provenance"
  ac_walletAddress :: "string option"

record asset =
  as_address :: "string"
  as_decimals :: "int"
  as_kind :: "asset_kind"
  as_symbol :: "string"

record path_limit =
  li_asset :: "asset"
  li_maxAmount :: "string"
  li_maxAmountPerTransaction :: "string option"
  li_maxLifespanSeconds :: "string option"
  li_maxTransactionsPerPeriod :: "string"
  li_maxVelocityPerSecond :: "string option"
  li_periodSeconds :: "string"

record signature_domain =
  sd_chainId :: "string"
  sd_name :: "string"
  sd_salt :: "string option"
  sd_verifyingContract :: "string"
  sd_version :: "string"

record signature_binding =
  sb_chainId :: "string"
  sb_domain :: "signature_domain"
  sb_expiresAt :: "string"
  sb_issuedAt :: "string"
  sb_nonce :: "string"
  sb_signature :: "string"
  sb_signer :: "string"
  sb_verifyingContract :: "string"

record path =
  pa_capabilities :: "string list"
  pa_delegateActorRef :: "object_ref"
  pa_executionProfile :: "execution_profile"
  pa_extensions :: "(json js_record) option"
  pa_id :: "string"
  pa_interfaceVersion :: "interface_version"
  pa_issuerActorRef :: "object_ref"
  pa_limits :: "path_limit list"
  pa_provenance :: "provenance"
  pa_resourceRefs :: "(object_ref list) option"
  pa_signatureBinding :: "signature_binding"
  pa_status :: "path_status"
  pa_workspaceRef :: "object_ref"

record payment_terms =
  pt_allowanceAmount :: "string option"
  pt_amount :: "string"
  pt_asset :: "asset"
  pt_lifespanSeconds :: "string option"
  pt_recipient :: "string option"
  pt_settlementShape :: "settlement_shape"
  pt_velocityPerSecond :: "string option"

record subject =
  su_actorRef :: "object_ref option"
  su_role :: "subject_role option"
  su_walletAddress :: "string option"

record intent =
  in_action :: "intent_action"
  in_createdAt :: "string"
  in_executionProfile :: "execution_profile"
  in_expiresAt :: "string"
  in_extensions :: "(json js_record) option"
  in_id :: "string"
  in_interfaceVersion :: "interface_version"
  in_nonce :: "string"
  in_pactRef :: "object_ref option"
  in_pathRef :: "object_ref option"
  in_paymentTerms :: "payment_terms"
  in_provenance :: "provenance"
  in_requestedNetwork :: "network_reference option"
  in_status :: "lifecycle_state"
  in_subject :: "subject"
  in_workspaceRef :: "object_ref option"

record proposal =
  pr_createdAt :: "string"
  pr_executionProfile :: "execution_profile"
  pr_extensions :: "(json js_record) option"
  pr_id :: "string"
  pr_inputHash :: "string"
  pr_intentRef :: "object_ref"
  pr_interfaceVersion :: "interface_version"
  pr_normalizedTerms :: "payment_terms"
  pr_pathRef :: "object_ref"
  pr_policyVersion :: "string option"
  pr_provenance :: "provenance"
  pr_status :: "proposal_status"
  pr_workspaceRef :: "object_ref"

record decision_effects =
  ef_financialEffect :: "financial_effect"
  ef_paycardCreated :: "bool"
  ef_valueMoved :: "bool"
  ef_walletAction :: "wallet_action"

record baphomet_decision =
  de_decidedAt :: "string"
  de_decision :: "decision_kind"
  de_effects :: "decision_effects"
  de_executionProfile :: "execution_profile"
  de_extensions :: "(json js_record) option"
  de_id :: "string"
  de_inputHash :: "string"
  de_interfaceVersion :: "interface_version"
  de_pactRef :: "object_ref option"
  de_policyVersion :: "string"
  de_proposalRef :: "object_ref"
  de_provenance :: "provenance"
  de_reasonCodes :: "string list"

record proof_policy =
  pp_beforeTransition :: "before_transition"
  pp_executionProfile :: "execution_profile"
  pp_extensions :: "(json js_record) option"
  pp_id :: "string"
  pp_interfaceVersion :: "interface_version"
  pp_placement :: "string"
  pp_policyVersion :: "string"
  pp_required :: "bool"
  pp_requiredGate :: "proof_gate"
  pp_termsHash :: "string"

record canonical_record_policy =
  crp_exposure :: "record_exposure"
  crp_mode :: "record_mode"
  crp_signatureRequirement :: "string"

record pact =
  pc_activatedAt :: "string option"
  pc_canonicalRecordPolicy :: "canonical_record_policy option"
  pc_canonicalRecordRef :: "object_ref option"
  pc_createdAt :: "string"
  pc_decisionRef :: "object_ref option"
  pc_executionProfile :: "execution_profile"
  pc_extensions :: "(json js_record) option"
  pc_id :: "string"
  pc_interfaceVersion :: "interface_version"
  pc_parties :: "object_ref list"
  pc_pathRef :: "object_ref option"
  pc_paymentTerms :: "payment_terms"
  pc_proofPolicy :: "proof_policy"
  pc_proposalRef :: "object_ref option"
  pc_provenance :: "provenance"
  pc_signatureBinding :: "signature_binding"
  pc_status :: "pact_status"
  pc_workspaceRef :: "object_ref option"

record proof_object =
  pf_beforeTransition :: "before_transition"
  pf_evidenceHash :: "string"
  pf_executionProfile :: "execution_profile"
  pf_extensions :: "(json js_record) option"
  pf_gate :: "proof_gate"
  pf_id :: "string"
  pf_intentRef :: "object_ref option"
  pf_interfaceVersion :: "interface_version"
  pf_pactRef :: "object_ref option"
  pf_pathRef :: "object_ref option"
  pf_placement :: "string"
  pf_policyRef :: "object_ref"
  pf_proposalRef :: "object_ref option"
  pf_provenance :: "provenance"
  pf_status :: "proof_status"
  pf_subjectRef :: "object_ref"
  pf_submittedAt :: "string"
  pf_verifiedAt :: "string option"
  pf_verifierActorRef :: "object_ref option"
  pf_workspaceRef :: "object_ref option"

record encrypted_key =
  ek_counterpartyRef :: "object_ref"
  ek_encryptedKey :: "string"
  ek_keyId :: "string"

record record_encryption =
  en_algorithm :: "string"
  en_keyAgreement :: "string"
  en_mode :: "record_exposure"

record settlement_reference =
  sr_amount :: "string option"
  sr_kind :: "settlement_ref_kind"
  sr_reference :: "object_ref"

record record_signature =
  rs_actorRef :: "object_ref"
  rs_algorithm :: "string"
  rs_signature :: "string"
  rs_signedAt :: "string"
  rs_signedCommitment :: "string"

record storage_locator =
  sl_contentHash :: "string"
  sl_kind :: "locator_kind"
  sl_uri :: "string"

record canonical_record =
  cr_ciphertextHash :: "string"
  cr_createdAt :: "string"
  cr_encryptedKeys :: "encrypted_key list"
  cr_encryption :: "record_encryption"
  cr_executionProfile :: "execution_profile"
  cr_extensions :: "(json js_record) option"
  cr_id :: "string"
  cr_interfaceVersion :: "interface_version"
  cr_pactRef :: "object_ref"
  cr_plaintextCommitment :: "string"
  cr_previousCommitment :: "string"
  cr_provenance :: "provenance"
  cr_sequence :: "string"
  cr_settlementReferences :: "settlement_reference list"
  cr_signatures :: "record_signature list"
  cr_storageLocators :: "storage_locator list"

record runtime_signature_domain =
  rd_chainId :: "string"
  rd_name :: "string"
  rd_salt :: "string"
  rd_verifyingContract :: "string option"
  rd_version :: "string"

record runtime_signature_binding =
  rb_anchorContract :: "string"
  rb_chainId :: "string"
  rb_domain :: "runtime_signature_domain"
  rb_expiresAt :: "string"
  rb_issuedAt :: "string"
  rb_nonce :: "string"
  rb_operationId :: "string"
  rb_payloadHash :: "string"
  rb_primaryType :: "string"
  rb_signature :: "string"
  rb_signaturePurpose :: "string"
  rb_signatureStandard :: "string"
  rb_signer :: "string"

record transaction_state =
  ts_blockHash :: "string option"
  ts_blockNumber :: "string option"
  ts_confirmations :: "string option"
  ts_confirmedAt :: "string option"
  ts_failureCode :: "error_code option"
  ts_failureReason :: "string option"
  ts_financialEffect :: "financial_effect"
  ts_interfaceVersion :: "interface_version"
  ts_network :: "network_reference"
  ts_nonce :: "string option"
  ts_observedAt :: "string"
  ts_status :: "transaction_state_name"
  ts_submittedAt :: "string option"
  ts_txHash :: "string option"

record error_details =
  ed_field :: "string option"
  ed_providerCode :: "string option"
  ed_reason :: "string option"

record interface_error =
  ie_actualNetwork :: "network_reference option"
  ie_code :: "error_code"
  ie_details :: "error_details option"
  ie_expectedNetwork :: "network_reference option"
  ie_expiresAt :: "string option"
  ie_financialEffect :: "financial_effect"
  ie_interfaceVersion :: "interface_version"
  ie_lifecycleState :: "lifecycle_state"
  ie_message :: "string"
  ie_occurredAt :: "string"
  ie_operationId :: "string"
  ie_provenance :: "provenance"
  ie_retryable :: "bool"
  ie_transactionState :: "transaction_state_name"

end
