(* ===== verification/Interface_Json.thy ===== *)
theory Interface_Json
  imports Interface_Types
begin

text \<open>
  The JSON value of every interface object: what \<open>canonicalize\<close> and the schema validators see.
  Members appear in the order of the type, a member that is \<open>undefined\<close> is left out.  The lemmas
  \<open>json_of_<type>_inject\<close> say that an object can be read back from its JSON value, so comparing
  the canonical texts of two objects compares the objects.
\<close>

named_theorems json_inject
  "JSON encodings of the interface objects are injective"


lemma map_option_inject:
  "(\<And>a b. f a = f b \<longleftrightarrow> a = b) \<Longrightarrow> map_option f x = map_option f y \<longleftrightarrow> x = y"
  by (cases x; cases y) simp_all

lemma map_list_inject:
  "(\<And>a b. f a = f b \<longleftrightarrow> a = b) \<Longrightarrow> map f xs = map f ys \<longleftrightarrow> xs = ys"
  by (rule inj_map_eq_map) (simp add: inj_def)

lemmas encode_simps = jobj_Cons_eq map_option_inject map_list_inject


section \<open>Unions of string literals\<close>

fun interface_version_str :: "interface_version \<Rightarrow> string" where
  "interface_version_str IV_1_1_0 = ''1.1.0''"
| "interface_version_str IV_1_2_0 = ''1.2.0''"

lemma interface_version_str_inject [json_inject]: "interface_version_str a = interface_version_str b \<longleftrightarrow> a = b"
  by (cases a; cases b) simp_all

fun object_type_str :: "object_type \<Rightarrow> string" where
  "object_type_str OT_Workspace = ''Workspace''"
| "object_type_str OT_WorkspaceMember = ''WorkspaceMember''"
| "object_type_str OT_Actor = ''Actor''"
| "object_type_str OT_Path = ''Path''"
| "object_type_str OT_Intent = ''Intent''"
| "object_type_str OT_Proposal = ''Proposal''"
| "object_type_str OT_BaphometDecision = ''BaphometDecision''"
| "object_type_str OT_SettlementIntent = ''SettlementIntent''"
| "object_type_str OT_Pact = ''Pact''"
| "object_type_str OT_PaymentTerms = ''PaymentTerms''"
| "object_type_str OT_WorkUsageEvent = ''WorkUsageEvent''"
| "object_type_str OT_ProofPolicy = ''ProofPolicy''"
| "object_type_str OT_Proof = ''Proof''"
| "object_type_str OT_RailsFlow = ''RailsFlow''"
| "object_type_str OT_RailsCard = ''RailsCard''"
| "object_type_str OT_PaycardStream = ''PaycardStream''"
| "object_type_str OT_Receipt = ''Receipt''"
| "object_type_str OT_CanonicalRecord = ''CanonicalRecord''"
| "object_type_str OT_GaiaCase = ''GaiaCase''"
| "object_type_str OT_RectificationObligation = ''RectificationObligation''"
| "object_type_str OT_InterfaceError = ''InterfaceError''"
| "object_type_str OT_TransactionState = ''TransactionState''"
| "object_type_str OT_OperationEnvelope = ''OperationEnvelope''"
| "object_type_str OT_WalletHandoff = ''WalletHandoff''"
| "object_type_str OT_NetworkManifest = ''NetworkManifest''"
| "object_type_str OT_CapabilityDeclaration = ''CapabilityDeclaration''"
| "object_type_str OT_Provenance = ''Provenance''"

lemma object_type_str_inject [json_inject]: "object_type_str a = object_type_str b \<longleftrightarrow> a = b"
  by (cases a; cases b) simp_all

fun execution_profile_str :: "execution_profile \<Rightarrow> string" where
  "execution_profile_str EP_direct_wallet_authorized = ''direct-wallet-authorized''"
| "execution_profile_str EP_delegated_runtime = ''delegated-runtime''"

lemma execution_profile_str_inject [json_inject]: "execution_profile_str a = execution_profile_str b \<longleftrightarrow> a = b"
  by (cases a; cases b) simp_all

fun authorization_class_str :: "authorization_class \<Rightarrow> string" where
  "authorization_class_str AC_PUBLIC_READ = ''PUBLIC_READ''"
| "authorization_class_str AC_AUTHENTICATED_READ = ''AUTHENTICATED_READ''"
| "authorization_class_str AC_PREPARE_ONLY = ''PREPARE_ONLY''"
| "authorization_class_str AC_WALLET_SIGNATURE = ''WALLET_SIGNATURE''"
| "authorization_class_str AC_WALLET_TRANSACTION = ''WALLET_TRANSACTION''"
| "authorization_class_str AC_RELAY_SIGNED_ENVELOPE = ''RELAY_SIGNED_ENVELOPE''"
| "authorization_class_str AC_OPERATOR_ADMIN = ''OPERATOR_ADMIN''"

lemma authorization_class_str_inject [json_inject]: "authorization_class_str a = authorization_class_str b \<longleftrightarrow> a = b"
  by (cases a; cases b) simp_all

fun lifecycle_state_str :: "lifecycle_state \<Rightarrow> string" where
  "lifecycle_state_str LS_DRAFT = ''DRAFT''"
| "lifecycle_state_str LS_PREPARED = ''PREPARED''"
| "lifecycle_state_str LS_AWAITING_AUTHORIZATION = ''AWAITING_AUTHORIZATION''"
| "lifecycle_state_str LS_EVALUATING = ''EVALUATING''"
| "lifecycle_state_str LS_BLOCKED = ''BLOCKED''"
| "lifecycle_state_str LS_ALLOWED = ''ALLOWED''"
| "lifecycle_state_str LS_COMMITTED = ''COMMITTED''"
| "lifecycle_state_str LS_EXECUTING = ''EXECUTING''"
| "lifecycle_state_str LS_PROOF_PENDING = ''PROOF_PENDING''"
| "lifecycle_state_str LS_PROOF_VERIFIED = ''PROOF_VERIFIED''"
| "lifecycle_state_str LS_CLEARING_READY = ''CLEARING_READY''"
| "lifecycle_state_str LS_SUBMITTED = ''SUBMITTED''"
| "lifecycle_state_str LS_CONFIRMED = ''CONFIRMED''"
| "lifecycle_state_str LS_SETTLING = ''SETTLING''"
| "lifecycle_state_str LS_SETTLED = ''SETTLED''"
| "lifecycle_state_str LS_RESOLVING = ''RESOLVING''"
| "lifecycle_state_str LS_RESOLVED = ''RESOLVED''"
| "lifecycle_state_str LS_FAILED = ''FAILED''"
| "lifecycle_state_str LS_CANCELLED = ''CANCELLED''"

lemma lifecycle_state_str_inject [json_inject]: "lifecycle_state_str a = lifecycle_state_str b \<longleftrightarrow> a = b"
  by (cases a; cases b) simp_all

fun transaction_state_name_str :: "transaction_state_name \<Rightarrow> string" where
  "transaction_state_name_str TS_NOT_REQUESTED = ''NOT_REQUESTED''"
| "transaction_state_name_str TS_WALLET_REQUIRED = ''WALLET_REQUIRED''"
| "transaction_state_name_str TS_WALLET_REJECTED = ''WALLET_REJECTED''"
| "transaction_state_name_str TS_SUBMITTED = ''SUBMITTED''"
| "transaction_state_name_str TS_PENDING_CONFIRMATION = ''PENDING_CONFIRMATION''"
| "transaction_state_name_str TS_CONFIRMED = ''CONFIRMED''"
| "transaction_state_name_str TS_REVERTED = ''REVERTED''"
| "transaction_state_name_str TS_REPLACED = ''REPLACED''"
| "transaction_state_name_str TS_DROPPED = ''DROPPED''"
| "transaction_state_name_str TS_UNKNOWN = ''UNKNOWN''"

lemma transaction_state_name_str_inject [json_inject]: "transaction_state_name_str a = transaction_state_name_str b \<longleftrightarrow> a = b"
  by (cases a; cases b) simp_all

fun error_code_str :: "error_code \<Rightarrow> string" where
  "error_code_str INPUT_INVALID = ''INPUT_INVALID''"
| "error_code_str NETWORK_UNSUPPORTED = ''NETWORK_UNSUPPORTED''"
| "error_code_str CAPABILITY_UNAVAILABLE = ''CAPABILITY_UNAVAILABLE''"
| "error_code_str WRONG_NETWORK = ''WRONG_NETWORK''"
| "error_code_str AUTHORIZATION_REQUIRED = ''AUTHORIZATION_REQUIRED''"
| "error_code_str WALLET_REJECTED = ''WALLET_REJECTED''"
| "error_code_str SIGNATURE_INVALID = ''SIGNATURE_INVALID''"
| "error_code_str SIGNATURE_EXPIRED = ''SIGNATURE_EXPIRED''"
| "error_code_str NONCE_CONFLICT = ''NONCE_CONFLICT''"
| "error_code_str POLICY_BLOCKED = ''POLICY_BLOCKED''"
| "error_code_str TERMS_MISMATCH = ''TERMS_MISMATCH''"
| "error_code_str PROOF_REQUIRED = ''PROOF_REQUIRED''"
| "error_code_str PROOF_INVALID = ''PROOF_INVALID''"
| "error_code_str INSUFFICIENT_BALANCE = ''INSUFFICIENT_BALANCE''"
| "error_code_str INSUFFICIENT_ALLOWANCE = ''INSUFFICIENT_ALLOWANCE''"
| "error_code_str RPC_UNAVAILABLE = ''RPC_UNAVAILABLE''"
| "error_code_str SIMULATION_REVERTED = ''SIMULATION_REVERTED''"
| "error_code_str TRANSACTION_REVERTED = ''TRANSACTION_REVERTED''"
| "error_code_str TRANSACTION_REPLACED = ''TRANSACTION_REPLACED''"
| "error_code_str TRANSACTION_DROPPED = ''TRANSACTION_DROPPED''"
| "error_code_str RECEIPT_UNVERIFIED = ''RECEIPT_UNVERIFIED''"
| "error_code_str STATE_STALE = ''STATE_STALE''"
| "error_code_str RATE_LIMITED = ''RATE_LIMITED''"
| "error_code_str INTERNAL_ERROR = ''INTERNAL_ERROR''"

lemma error_code_str_inject [json_inject]: "error_code_str a = error_code_str b \<longleftrightarrow> a = b"
  by (cases a; cases b) simp_all

fun workspace_status_str :: "workspace_status \<Rightarrow> string" where
  "workspace_status_str WS_DRAFT = ''DRAFT''"
| "workspace_status_str WS_ACTIVE = ''ACTIVE''"
| "workspace_status_str WS_SUSPENDED = ''SUSPENDED''"
| "workspace_status_str WS_CLOSED = ''CLOSED''"

lemma workspace_status_str_inject [json_inject]: "workspace_status_str a = workspace_status_str b \<longleftrightarrow> a = b"
  by (cases a; cases b) simp_all

fun actor_status_str :: "actor_status \<Rightarrow> string" where
  "actor_status_str AS_UNVERIFIED = ''UNVERIFIED''"
| "actor_status_str AS_VERIFIED = ''VERIFIED''"
| "actor_status_str AS_SUSPENDED = ''SUSPENDED''"
| "actor_status_str AS_REVOKED = ''REVOKED''"

lemma actor_status_str_inject [json_inject]: "actor_status_str a = actor_status_str b \<longleftrightarrow> a = b"
  by (cases a; cases b) simp_all

fun actor_kind_str :: "actor_kind \<Rightarrow> string" where
  "actor_kind_str AK_person = ''person''"
| "actor_kind_str AK_application = ''application''"
| "actor_kind_str AK_agent = ''agent''"
| "actor_kind_str AK_service = ''service''"
| "actor_kind_str AK_sidecar = ''sidecar''"

lemma actor_kind_str_inject [json_inject]: "actor_kind_str a = actor_kind_str b \<longleftrightarrow> a = b"
  by (cases a; cases b) simp_all

fun asset_kind_str :: "asset_kind \<Rightarrow> string" where
  "asset_kind_str AssetKind_erc20 = ''erc20''"
| "asset_kind_str AssetKind_native = ''native''"

lemma asset_kind_str_inject [json_inject]: "asset_kind_str a = asset_kind_str b \<longleftrightarrow> a = b"
  by (cases a; cases b) simp_all

fun path_status_str :: "path_status \<Rightarrow> string" where
  "path_status_str PS_PREPARED = ''PREPARED''"
| "path_status_str PS_ACTIVE = ''ACTIVE''"
| "path_status_str PS_REVOKED = ''REVOKED''"
| "path_status_str PS_EXPIRED = ''EXPIRED''"

lemma path_status_str_inject [json_inject]: "path_status_str a = path_status_str b \<longleftrightarrow> a = b"
  by (cases a; cases b) simp_all

fun intent_action_str :: "intent_action \<Rightarrow> string" where
  "intent_action_str IA_CREATE_RAILSFLOW = ''CREATE_RAILSFLOW''"
| "intent_action_str IA_PAY_RAILSFLOW = ''PAY_RAILSFLOW''"
| "intent_action_str IA_ISSUE_RAILSCARD = ''ISSUE_RAILSCARD''"
| "intent_action_str IA_CLAIM_RAILSCARD = ''CLAIM_RAILSCARD''"
| "intent_action_str IA_OPEN_PAYCARD = ''OPEN_PAYCARD''"
| "intent_action_str IA_SETTLE_PAYCARD = ''SETTLE_PAYCARD''"
| "intent_action_str IA_FLUSH_RESIDUAL = ''FLUSH_RESIDUAL''"

lemma intent_action_str_inject [json_inject]: "intent_action_str a = intent_action_str b \<longleftrightarrow> a = b"
  by (cases a; cases b) simp_all

fun settlement_shape_str :: "settlement_shape \<Rightarrow> string" where
  "settlement_shape_str SS_one_time = ''one-time''"
| "settlement_shape_str SS_streamed = ''streamed''"

lemma settlement_shape_str_inject [json_inject]: "settlement_shape_str a = settlement_shape_str b \<longleftrightarrow> a = b"
  by (cases a; cases b) simp_all

fun proposal_status_str :: "proposal_status \<Rightarrow> string" where
  "proposal_status_str PRS_EVALUATING = ''EVALUATING''"
| "proposal_status_str PRS_ALLOWED = ''ALLOWED''"
| "proposal_status_str PRS_BLOCKED = ''BLOCKED''"
| "proposal_status_str PRS_FAILED = ''FAILED''"

lemma proposal_status_str_inject [json_inject]: "proposal_status_str a = proposal_status_str b \<longleftrightarrow> a = b"
  by (cases a; cases b) simp_all

fun decision_kind_str :: "decision_kind \<Rightarrow> string" where
  "decision_kind_str DK_ALLOW = ''ALLOW''"
| "decision_kind_str DK_BLOCK = ''BLOCK''"

lemma decision_kind_str_inject [json_inject]: "decision_kind_str a = decision_kind_str b \<longleftrightarrow> a = b"
  by (cases a; cases b) simp_all

fun financial_effect_str :: "financial_effect \<Rightarrow> string" where
  "financial_effect_str FE_NONE = ''NONE''"
| "financial_effect_str FE_PENDING = ''PENDING''"
| "financial_effect_str FE_CONFIRMED = ''CONFIRMED''"
| "financial_effect_str FE_UNKNOWN = ''UNKNOWN''"
| "financial_effect_str FE_RECONCILIATION_REQUIRED = ''RECONCILIATION_REQUIRED''"

lemma financial_effect_str_inject [json_inject]: "financial_effect_str a = financial_effect_str b \<longleftrightarrow> a = b"
  by (cases a; cases b) simp_all

fun wallet_action_str :: "wallet_action \<Rightarrow> string" where
  "wallet_action_str WA_NONE = ''NONE''"
| "wallet_action_str WA_REQUIRED = ''REQUIRED''"
| "wallet_action_str WA_SUBMITTED = ''SUBMITTED''"

lemma wallet_action_str_inject [json_inject]: "wallet_action_str a = wallet_action_str b \<longleftrightarrow> a = b"
  by (cases a; cases b) simp_all

fun pact_status_str :: "pact_status \<Rightarrow> string" where
  "pact_status_str PTS_DRAFT = ''DRAFT''"
| "pact_status_str PTS_ACTIVE = ''ACTIVE''"
| "pact_status_str PTS_REVOKED = ''REVOKED''"
| "pact_status_str PTS_EXPIRED = ''EXPIRED''"

lemma pact_status_str_inject [json_inject]: "pact_status_str a = pact_status_str b \<longleftrightarrow> a = b"
  by (cases a; cases b) simp_all

fun record_exposure_str :: "record_exposure \<Rightarrow> string" where
  "record_exposure_str RX_encrypted = ''encrypted''"
| "record_exposure_str RX_public = ''public''"

lemma record_exposure_str_inject [json_inject]: "record_exposure_str a = record_exposure_str b \<longleftrightarrow> a = b"
  by (cases a; cases b) simp_all

fun record_mode_str :: "record_mode \<Rightarrow> string" where
  "record_mode_str RM_omitted = ''omitted''"
| "record_mode_str RM_optional = ''optional''"
| "record_mode_str RM_required = ''required''"

lemma record_mode_str_inject [json_inject]: "record_mode_str a = record_mode_str b \<longleftrightarrow> a = b"
  by (cases a; cases b) simp_all

fun before_transition_str :: "before_transition \<Rightarrow> string" where
  "before_transition_str BT_NONE = ''NONE''"
| "before_transition_str BT_WALLET_SETTLEMENT_INTENT_AUTHORIZATION = ''WALLET_SETTLEMENT_INTENT_AUTHORIZATION''"
| "before_transition_str BT_PAYER_SIGNATURE_AND_ISSUANCE = ''PAYER_SIGNATURE_AND_ISSUANCE''"
| "before_transition_str BT_RECIPIENT_CLAIM = ''RECIPIENT_CLAIM''"
| "before_transition_str BT_CHECKPOINT_SETTLEMENT = ''CHECKPOINT_SETTLEMENT''"
| "before_transition_str BT_SETTLEMENT = ''SETTLEMENT''"

lemma before_transition_str_inject [json_inject]: "before_transition_str a = before_transition_str b \<longleftrightarrow> a = b"
  by (cases a; cases b) simp_all

fun proof_gate_str :: "proof_gate \<Rightarrow> string" where
  "proof_gate_str PG_NONE = ''NONE''"
| "proof_gate_str PG_AUTHORIZATION = ''AUTHORIZATION''"
| "proof_gate_str PG_CLAIM = ''CLAIM''"
| "proof_gate_str PG_CHECKPOINT = ''CHECKPOINT''"
| "proof_gate_str PG_FINAL_SETTLEMENT = ''FINAL_SETTLEMENT''"

lemma proof_gate_str_inject [json_inject]: "proof_gate_str a = proof_gate_str b \<longleftrightarrow> a = b"
  by (cases a; cases b) simp_all

fun proof_status_str :: "proof_status \<Rightarrow> string" where
  "proof_status_str PFS_NOT_REQUIRED = ''NOT_REQUIRED''"
| "proof_status_str PFS_SUBMITTED = ''SUBMITTED''"
| "proof_status_str PFS_VERIFIED = ''VERIFIED''"
| "proof_status_str PFS_REJECTED = ''REJECTED''"

lemma proof_status_str_inject [json_inject]: "proof_status_str a = proof_status_str b \<longleftrightarrow> a = b"
  by (cases a; cases b) simp_all

fun evidence_level_str :: "evidence_level \<Rightarrow> string" where
  "evidence_level_str EL_repository_asserted = ''repository-asserted''"
| "evidence_level_str EL_independently_verified = ''independently-verified''"
| "evidence_level_str EL_buyer_validated = ''buyer-validated''"
| "evidence_level_str EL_configuration_only = ''configuration-only''"
| "evidence_level_str EL_runtime_observed = ''runtime-observed''"

lemma evidence_level_str_inject [json_inject]: "evidence_level_str a = evidence_level_str b \<longleftrightarrow> a = b"
  by (cases a; cases b) simp_all

fun provenance_source_str :: "provenance_source \<Rightarrow> string" where
  "provenance_source_str PSrc_repository_evidence = ''repository-evidence''"
| "provenance_source_str PSrc_network_observation = ''network-observation''"
| "provenance_source_str PSrc_configuration = ''configuration''"
| "provenance_source_str PSrc_wallet_signed = ''wallet-signed''"
| "provenance_source_str PSrc_runtime_evaluation = ''runtime-evaluation''"
| "provenance_source_str PSrc_operator_record = ''operator-record''"

lemma provenance_source_str_inject [json_inject]: "provenance_source_str a = provenance_source_str b \<longleftrightarrow> a = b"
  by (cases a; cases b) simp_all

fun settlement_ref_kind_str :: "settlement_ref_kind \<Rightarrow> string" where
  "settlement_ref_kind_str SRK_vault = ''vault''"
| "settlement_ref_kind_str SRK_receipt = ''receipt''"
| "settlement_ref_kind_str SRK_transaction = ''transaction''"
| "settlement_ref_kind_str SRK_event = ''event''"

lemma settlement_ref_kind_str_inject [json_inject]: "settlement_ref_kind_str a = settlement_ref_kind_str b \<longleftrightarrow> a = b"
  by (cases a; cases b) simp_all

fun locator_kind_str :: "locator_kind \<Rightarrow> string" where
  "locator_kind_str LK_ciphertext = ''ciphertext''"
| "locator_kind_str LK_plaintext = ''plaintext''"
| "locator_kind_str LK_metadata = ''metadata''"

lemma locator_kind_str_inject [json_inject]: "locator_kind_str a = locator_kind_str b \<longleftrightarrow> a = b"
  by (cases a; cases b) simp_all

fun subject_role_str :: "subject_role \<Rightarrow> string" where
  "subject_role_str SR_owner = ''owner''"
| "subject_role_str SR_payer = ''payer''"
| "subject_role_str SR_recipient = ''recipient''"
| "subject_role_str SR_delegate = ''delegate''"
| "subject_role_str SR_operator = ''operator''"
| "subject_role_str SR_observer = ''observer''"

lemma subject_role_str_inject [json_inject]: "subject_role_str a = subject_role_str b \<longleftrightarrow> a = b"
  by (cases a; cases b) simp_all


section \<open>Objects\<close>

definition json_of_network_reference :: "network_reference \<Rightarrow> json" where
  "json_of_network_reference x = jobj [
     (''chainId'', Some (JStr (nr_chainId x))),
     (''networkId'', Some (JStr (nr_networkId x)))]"

lemma json_of_network_reference_inject [json_inject]: "json_of_network_reference x = json_of_network_reference y \<longleftrightarrow> x = y"
  by (cases x; cases y) (simp add: json_inject encode_simps json_of_network_reference_def)

definition json_of_object_ref :: "object_ref \<Rightarrow> json" where
  "json_of_object_ref x = jobj [
     (''id'', Some (JStr (ref_id x))),
     (''network'', map_option json_of_network_reference (ref_network x)),
     (''type'', Some (JStr (object_type_str (ref_type x))))]"

lemma json_of_object_ref_inject [json_inject]: "json_of_object_ref x = json_of_object_ref y \<longleftrightarrow> x = y"
  by (cases x; cases y) (simp add: json_inject encode_simps json_of_object_ref_def)

definition json_of_provenance :: "provenance \<Rightarrow> json" where
  "json_of_provenance x = jobj [
     (''authority'', Some (JStr (pv_authority x))),
     (''commit'', map_option JStr (pv_commit x)),
     (''evidenceLevel'', Some (JStr (evidence_level_str (pv_evidenceLevel x)))),
     (''evidenceRefs'', map_option (JArr \<circ> map JStr) (pv_evidenceRefs x)),
     (''notes'', map_option JStr (pv_notes x)),
     (''observedAt'', Some (JStr (pv_observedAt x))),
     (''repository'', map_option JStr (pv_repository x)),
     (''source'', Some (JStr (provenance_source_str (pv_source x))))]"

lemma json_of_provenance_inject [json_inject]: "json_of_provenance x = json_of_provenance y \<longleftrightarrow> x = y"
  by (cases x; cases y) (simp add: json_inject encode_simps json_of_provenance_def)

definition json_of_workspace :: "workspace \<Rightarrow> json" where
  "json_of_workspace x = jobj [
     (''createdAt'', Some (JStr (ws_createdAt x))),
     (''description'', map_option JStr (ws_description x)),
     (''extensions'', map_option JObj (ws_extensions x)),
     (''id'', Some (JStr (ws_id x))),
     (''interfaceVersion'', Some (JStr (interface_version_str (ws_interfaceVersion x)))),
     (''name'', Some (JStr (ws_name x))),
     (''ownerActorRef'', Some (json_of_object_ref (ws_ownerActorRef x))),
     (''provenance'', Some (json_of_provenance (ws_provenance x))),
     (''status'', Some (JStr (workspace_status_str (ws_status x)))),
     (''updatedAt'', Some (JStr (ws_updatedAt x)))]"

lemma json_of_workspace_inject [json_inject]: "json_of_workspace x = json_of_workspace y \<longleftrightarrow> x = y"
  by (cases x; cases y) (simp add: json_inject encode_simps json_of_workspace_def)

definition json_of_actor :: "actor \<Rightarrow> json" where
  "json_of_actor x = jobj [
     (''authorityStatus'', Some (JStr (actor_status_str (ac_authorityStatus x)))),
     (''createdAt'', Some (JStr (ac_createdAt x))),
     (''displayName'', Some (JStr (ac_displayName x))),
     (''extensions'', map_option JObj (ac_extensions x)),
     (''externalSubject'', map_option JStr (ac_externalSubject x)),
     (''id'', Some (JStr (ac_id x))),
     (''interfaceVersion'', Some (JStr (interface_version_str (ac_interfaceVersion x)))),
     (''kind'', Some (JStr (actor_kind_str (ac_kind x)))),
     (''provenance'', Some (json_of_provenance (ac_provenance x))),
     (''walletAddress'', map_option JStr (ac_walletAddress x))]"

lemma json_of_actor_inject [json_inject]: "json_of_actor x = json_of_actor y \<longleftrightarrow> x = y"
  by (cases x; cases y) (simp add: json_inject encode_simps json_of_actor_def)

definition json_of_asset :: "asset \<Rightarrow> json" where
  "json_of_asset x = jobj [
     (''address'', Some (JStr (as_address x))),
     (''decimals'', Some (JNum (as_decimals x))),
     (''kind'', Some (JStr (asset_kind_str (as_kind x)))),
     (''symbol'', Some (JStr (as_symbol x)))]"

lemma json_of_asset_inject [json_inject]: "json_of_asset x = json_of_asset y \<longleftrightarrow> x = y"
  by (cases x; cases y) (simp add: json_inject encode_simps json_of_asset_def)

definition json_of_path_limit :: "path_limit \<Rightarrow> json" where
  "json_of_path_limit x = jobj [
     (''asset'', Some (json_of_asset (li_asset x))),
     (''maxAmount'', Some (JStr (li_maxAmount x))),
     (''maxAmountPerTransaction'', map_option JStr (li_maxAmountPerTransaction x)),
     (''maxLifespanSeconds'', map_option JStr (li_maxLifespanSeconds x)),
     (''maxTransactionsPerPeriod'', Some (JStr (li_maxTransactionsPerPeriod x))),
     (''maxVelocityPerSecond'', map_option JStr (li_maxVelocityPerSecond x)),
     (''periodSeconds'', Some (JStr (li_periodSeconds x)))]"

lemma json_of_path_limit_inject [json_inject]: "json_of_path_limit x = json_of_path_limit y \<longleftrightarrow> x = y"
  by (cases x; cases y) (simp add: json_inject encode_simps json_of_path_limit_def)

definition json_of_signature_domain :: "signature_domain \<Rightarrow> json" where
  "json_of_signature_domain x = jobj [
     (''chainId'', Some (JStr (sd_chainId x))),
     (''name'', Some (JStr (sd_name x))),
     (''salt'', map_option JStr (sd_salt x)),
     (''verifyingContract'', Some (JStr (sd_verifyingContract x))),
     (''version'', Some (JStr (sd_version x)))]"

lemma json_of_signature_domain_inject [json_inject]: "json_of_signature_domain x = json_of_signature_domain y \<longleftrightarrow> x = y"
  by (cases x; cases y) (simp add: json_inject encode_simps json_of_signature_domain_def)

definition json_of_signature_binding :: "signature_binding \<Rightarrow> json" where
  "json_of_signature_binding x = jobj [
     (''chainId'', Some (JStr (sb_chainId x))),
     (''domain'', Some (json_of_signature_domain (sb_domain x))),
     (''expiresAt'', Some (JStr (sb_expiresAt x))),
     (''issuedAt'', Some (JStr (sb_issuedAt x))),
     (''nonce'', Some (JStr (sb_nonce x))),
     (''signature'', Some (JStr (sb_signature x))),
     (''signer'', Some (JStr (sb_signer x))),
     (''verifyingContract'', Some (JStr (sb_verifyingContract x)))]"

lemma json_of_signature_binding_inject [json_inject]: "json_of_signature_binding x = json_of_signature_binding y \<longleftrightarrow> x = y"
  by (cases x; cases y) (simp add: json_inject encode_simps json_of_signature_binding_def)

definition json_of_path :: "path \<Rightarrow> json" where
  "json_of_path x = jobj [
     (''capabilities'', Some (JArr (map JStr (pa_capabilities x)))),
     (''delegateActorRef'', Some (json_of_object_ref (pa_delegateActorRef x))),
     (''executionProfile'', Some (JStr (execution_profile_str (pa_executionProfile x)))),
     (''extensions'', map_option JObj (pa_extensions x)),
     (''id'', Some (JStr (pa_id x))),
     (''interfaceVersion'', Some (JStr (interface_version_str (pa_interfaceVersion x)))),
     (''issuerActorRef'', Some (json_of_object_ref (pa_issuerActorRef x))),
     (''limits'', Some (JArr (map json_of_path_limit (pa_limits x)))),
     (''provenance'', Some (json_of_provenance (pa_provenance x))),
     (''resourceRefs'', map_option (JArr \<circ> map json_of_object_ref) (pa_resourceRefs x)),
     (''signatureBinding'', Some (json_of_signature_binding (pa_signatureBinding x))),
     (''status'', Some (JStr (path_status_str (pa_status x)))),
     (''workspaceRef'', Some (json_of_object_ref (pa_workspaceRef x)))]"

lemma json_of_path_inject [json_inject]: "json_of_path x = json_of_path y \<longleftrightarrow> x = y"
  by (cases x; cases y) (simp add: json_inject encode_simps json_of_path_def)

definition json_of_payment_terms :: "payment_terms \<Rightarrow> json" where
  "json_of_payment_terms x = jobj [
     (''allowanceAmount'', map_option JStr (pt_allowanceAmount x)),
     (''amount'', Some (JStr (pt_amount x))),
     (''asset'', Some (json_of_asset (pt_asset x))),
     (''lifespanSeconds'', map_option JStr (pt_lifespanSeconds x)),
     (''recipient'', map_option JStr (pt_recipient x)),
     (''settlementShape'', Some (JStr (settlement_shape_str (pt_settlementShape x)))),
     (''velocityPerSecond'', map_option JStr (pt_velocityPerSecond x))]"

lemma json_of_payment_terms_inject [json_inject]: "json_of_payment_terms x = json_of_payment_terms y \<longleftrightarrow> x = y"
  by (cases x; cases y) (simp add: json_inject encode_simps json_of_payment_terms_def)

definition json_of_subject :: "subject \<Rightarrow> json" where
  "json_of_subject x = jobj [
     (''actorRef'', map_option json_of_object_ref (su_actorRef x)),
     (''role'', map_option (JStr \<circ> subject_role_str) (su_role x)),
     (''walletAddress'', map_option JStr (su_walletAddress x))]"

lemma json_of_subject_inject [json_inject]: "json_of_subject x = json_of_subject y \<longleftrightarrow> x = y"
  by (cases x; cases y) (simp add: json_inject encode_simps json_of_subject_def)

definition json_of_intent :: "intent \<Rightarrow> json" where
  "json_of_intent x = jobj [
     (''action'', Some (JStr (intent_action_str (in_action x)))),
     (''createdAt'', Some (JStr (in_createdAt x))),
     (''executionProfile'', Some (JStr (execution_profile_str (in_executionProfile x)))),
     (''expiresAt'', Some (JStr (in_expiresAt x))),
     (''extensions'', map_option JObj (in_extensions x)),
     (''id'', Some (JStr (in_id x))),
     (''interfaceVersion'', Some (JStr (interface_version_str (in_interfaceVersion x)))),
     (''nonce'', Some (JStr (in_nonce x))),
     (''pactRef'', map_option json_of_object_ref (in_pactRef x)),
     (''pathRef'', map_option json_of_object_ref (in_pathRef x)),
     (''paymentTerms'', Some (json_of_payment_terms (in_paymentTerms x))),
     (''provenance'', Some (json_of_provenance (in_provenance x))),
     (''requestedNetwork'', map_option json_of_network_reference (in_requestedNetwork x)),
     (''status'', Some (JStr (lifecycle_state_str (in_status x)))),
     (''subject'', Some (json_of_subject (in_subject x))),
     (''workspaceRef'', map_option json_of_object_ref (in_workspaceRef x))]"

lemma json_of_intent_inject [json_inject]: "json_of_intent x = json_of_intent y \<longleftrightarrow> x = y"
  by (cases x; cases y) (simp add: json_inject encode_simps json_of_intent_def)

definition json_of_proposal :: "proposal \<Rightarrow> json" where
  "json_of_proposal x = jobj [
     (''createdAt'', Some (JStr (pr_createdAt x))),
     (''executionProfile'', Some (JStr (execution_profile_str (pr_executionProfile x)))),
     (''extensions'', map_option JObj (pr_extensions x)),
     (''id'', Some (JStr (pr_id x))),
     (''inputHash'', Some (JStr (pr_inputHash x))),
     (''intentRef'', Some (json_of_object_ref (pr_intentRef x))),
     (''interfaceVersion'', Some (JStr (interface_version_str (pr_interfaceVersion x)))),
     (''normalizedTerms'', Some (json_of_payment_terms (pr_normalizedTerms x))),
     (''pathRef'', Some (json_of_object_ref (pr_pathRef x))),
     (''policyVersion'', map_option JStr (pr_policyVersion x)),
     (''provenance'', Some (json_of_provenance (pr_provenance x))),
     (''status'', Some (JStr (proposal_status_str (pr_status x)))),
     (''workspaceRef'', Some (json_of_object_ref (pr_workspaceRef x)))]"

lemma json_of_proposal_inject [json_inject]: "json_of_proposal x = json_of_proposal y \<longleftrightarrow> x = y"
  by (cases x; cases y) (simp add: json_inject encode_simps json_of_proposal_def)

definition json_of_decision_effects :: "decision_effects \<Rightarrow> json" where
  "json_of_decision_effects x = jobj [
     (''financialEffect'', Some (JStr (financial_effect_str (ef_financialEffect x)))),
     (''paycardCreated'', Some (JBool (ef_paycardCreated x))),
     (''valueMoved'', Some (JBool (ef_valueMoved x))),
     (''walletAction'', Some (JStr (wallet_action_str (ef_walletAction x))))]"

lemma json_of_decision_effects_inject [json_inject]: "json_of_decision_effects x = json_of_decision_effects y \<longleftrightarrow> x = y"
  by (cases x; cases y) (simp add: json_inject encode_simps json_of_decision_effects_def)

definition json_of_baphomet_decision :: "baphomet_decision \<Rightarrow> json" where
  "json_of_baphomet_decision x = jobj [
     (''decidedAt'', Some (JStr (de_decidedAt x))),
     (''decision'', Some (JStr (decision_kind_str (de_decision x)))),
     (''effects'', Some (json_of_decision_effects (de_effects x))),
     (''executionProfile'', Some (JStr (execution_profile_str (de_executionProfile x)))),
     (''extensions'', map_option JObj (de_extensions x)),
     (''id'', Some (JStr (de_id x))),
     (''inputHash'', Some (JStr (de_inputHash x))),
     (''interfaceVersion'', Some (JStr (interface_version_str (de_interfaceVersion x)))),
     (''pactRef'', map_option json_of_object_ref (de_pactRef x)),
     (''policyVersion'', Some (JStr (de_policyVersion x))),
     (''proposalRef'', Some (json_of_object_ref (de_proposalRef x))),
     (''provenance'', Some (json_of_provenance (de_provenance x))),
     (''reasonCodes'', Some (JArr (map JStr (de_reasonCodes x))))]"

lemma json_of_baphomet_decision_inject [json_inject]: "json_of_baphomet_decision x = json_of_baphomet_decision y \<longleftrightarrow> x = y"
  by (cases x; cases y) (simp add: json_inject encode_simps json_of_baphomet_decision_def)

definition json_of_proof_policy :: "proof_policy \<Rightarrow> json" where
  "json_of_proof_policy x = jobj [
     (''beforeTransition'', Some (JStr (before_transition_str (pp_beforeTransition x)))),
     (''executionProfile'', Some (JStr (execution_profile_str (pp_executionProfile x)))),
     (''extensions'', map_option JObj (pp_extensions x)),
     (''id'', Some (JStr (pp_id x))),
     (''interfaceVersion'', Some (JStr (interface_version_str (pp_interfaceVersion x)))),
     (''placement'', Some (JStr (pp_placement x))),
     (''policyVersion'', Some (JStr (pp_policyVersion x))),
     (''required'', Some (JBool (pp_required x))),
     (''requiredGate'', Some (JStr (proof_gate_str (pp_requiredGate x)))),
     (''termsHash'', Some (JStr (pp_termsHash x)))]"

lemma json_of_proof_policy_inject [json_inject]: "json_of_proof_policy x = json_of_proof_policy y \<longleftrightarrow> x = y"
  by (cases x; cases y) (simp add: json_inject encode_simps json_of_proof_policy_def)

definition json_of_canonical_record_policy :: "canonical_record_policy \<Rightarrow> json" where
  "json_of_canonical_record_policy x = jobj [
     (''exposure'', Some (JStr (record_exposure_str (crp_exposure x)))),
     (''mode'', Some (JStr (record_mode_str (crp_mode x)))),
     (''signatureRequirement'', Some (JStr (crp_signatureRequirement x)))]"

lemma json_of_canonical_record_policy_inject [json_inject]: "json_of_canonical_record_policy x = json_of_canonical_record_policy y \<longleftrightarrow> x = y"
  by (cases x; cases y) (simp add: json_inject encode_simps json_of_canonical_record_policy_def)

definition json_of_pact :: "pact \<Rightarrow> json" where
  "json_of_pact x = jobj [
     (''activatedAt'', map_option JStr (pc_activatedAt x)),
     (''canonicalRecordPolicy'', map_option json_of_canonical_record_policy (pc_canonicalRecordPolicy x)),
     (''canonicalRecordRef'', map_option json_of_object_ref (pc_canonicalRecordRef x)),
     (''createdAt'', Some (JStr (pc_createdAt x))),
     (''decisionRef'', map_option json_of_object_ref (pc_decisionRef x)),
     (''executionProfile'', Some (JStr (execution_profile_str (pc_executionProfile x)))),
     (''extensions'', map_option JObj (pc_extensions x)),
     (''id'', Some (JStr (pc_id x))),
     (''interfaceVersion'', Some (JStr (interface_version_str (pc_interfaceVersion x)))),
     (''parties'', Some (JArr (map json_of_object_ref (pc_parties x)))),
     (''pathRef'', map_option json_of_object_ref (pc_pathRef x)),
     (''paymentTerms'', Some (json_of_payment_terms (pc_paymentTerms x))),
     (''proofPolicy'', Some (json_of_proof_policy (pc_proofPolicy x))),
     (''proposalRef'', map_option json_of_object_ref (pc_proposalRef x)),
     (''provenance'', Some (json_of_provenance (pc_provenance x))),
     (''signatureBinding'', Some (json_of_signature_binding (pc_signatureBinding x))),
     (''status'', Some (JStr (pact_status_str (pc_status x)))),
     (''workspaceRef'', map_option json_of_object_ref (pc_workspaceRef x))]"

lemma json_of_pact_inject [json_inject]: "json_of_pact x = json_of_pact y \<longleftrightarrow> x = y"
  by (cases x; cases y) (simp add: json_inject encode_simps json_of_pact_def)

definition json_of_proof_object :: "proof_object \<Rightarrow> json" where
  "json_of_proof_object x = jobj [
     (''beforeTransition'', Some (JStr (before_transition_str (pf_beforeTransition x)))),
     (''evidenceHash'', Some (JStr (pf_evidenceHash x))),
     (''executionProfile'', Some (JStr (execution_profile_str (pf_executionProfile x)))),
     (''extensions'', map_option JObj (pf_extensions x)),
     (''gate'', Some (JStr (proof_gate_str (pf_gate x)))),
     (''id'', Some (JStr (pf_id x))),
     (''intentRef'', map_option json_of_object_ref (pf_intentRef x)),
     (''interfaceVersion'', Some (JStr (interface_version_str (pf_interfaceVersion x)))),
     (''pactRef'', map_option json_of_object_ref (pf_pactRef x)),
     (''pathRef'', map_option json_of_object_ref (pf_pathRef x)),
     (''placement'', Some (JStr (pf_placement x))),
     (''policyRef'', Some (json_of_object_ref (pf_policyRef x))),
     (''proposalRef'', map_option json_of_object_ref (pf_proposalRef x)),
     (''provenance'', Some (json_of_provenance (pf_provenance x))),
     (''status'', Some (JStr (proof_status_str (pf_status x)))),
     (''subjectRef'', Some (json_of_object_ref (pf_subjectRef x))),
     (''submittedAt'', Some (JStr (pf_submittedAt x))),
     (''verifiedAt'', map_option JStr (pf_verifiedAt x)),
     (''verifierActorRef'', map_option json_of_object_ref (pf_verifierActorRef x)),
     (''workspaceRef'', map_option json_of_object_ref (pf_workspaceRef x))]"

lemma json_of_proof_object_inject [json_inject]: "json_of_proof_object x = json_of_proof_object y \<longleftrightarrow> x = y"
  by (cases x; cases y) (simp add: json_inject encode_simps json_of_proof_object_def)

definition json_of_encrypted_key :: "encrypted_key \<Rightarrow> json" where
  "json_of_encrypted_key x = jobj [
     (''counterpartyRef'', Some (json_of_object_ref (ek_counterpartyRef x))),
     (''encryptedKey'', Some (JStr (ek_encryptedKey x))),
     (''keyId'', Some (JStr (ek_keyId x)))]"

lemma json_of_encrypted_key_inject [json_inject]: "json_of_encrypted_key x = json_of_encrypted_key y \<longleftrightarrow> x = y"
  by (cases x; cases y) (simp add: json_inject encode_simps json_of_encrypted_key_def)

definition json_of_record_encryption :: "record_encryption \<Rightarrow> json" where
  "json_of_record_encryption x = jobj [
     (''algorithm'', Some (JStr (en_algorithm x))),
     (''keyAgreement'', Some (JStr (en_keyAgreement x))),
     (''mode'', Some (JStr (record_exposure_str (en_mode x))))]"

lemma json_of_record_encryption_inject [json_inject]: "json_of_record_encryption x = json_of_record_encryption y \<longleftrightarrow> x = y"
  by (cases x; cases y) (simp add: json_inject encode_simps json_of_record_encryption_def)

definition json_of_settlement_reference :: "settlement_reference \<Rightarrow> json" where
  "json_of_settlement_reference x = jobj [
     (''amount'', map_option JStr (sr_amount x)),
     (''kind'', Some (JStr (settlement_ref_kind_str (sr_kind x)))),
     (''reference'', Some (json_of_object_ref (sr_reference x)))]"

lemma json_of_settlement_reference_inject [json_inject]: "json_of_settlement_reference x = json_of_settlement_reference y \<longleftrightarrow> x = y"
  by (cases x; cases y) (simp add: json_inject encode_simps json_of_settlement_reference_def)

definition json_of_record_signature :: "record_signature \<Rightarrow> json" where
  "json_of_record_signature x = jobj [
     (''actorRef'', Some (json_of_object_ref (rs_actorRef x))),
     (''algorithm'', Some (JStr (rs_algorithm x))),
     (''signature'', Some (JStr (rs_signature x))),
     (''signedAt'', Some (JStr (rs_signedAt x))),
     (''signedCommitment'', Some (JStr (rs_signedCommitment x)))]"

lemma json_of_record_signature_inject [json_inject]: "json_of_record_signature x = json_of_record_signature y \<longleftrightarrow> x = y"
  by (cases x; cases y) (simp add: json_inject encode_simps json_of_record_signature_def)

definition json_of_storage_locator :: "storage_locator \<Rightarrow> json" where
  "json_of_storage_locator x = jobj [
     (''contentHash'', Some (JStr (sl_contentHash x))),
     (''kind'', Some (JStr (locator_kind_str (sl_kind x)))),
     (''uri'', Some (JStr (sl_uri x)))]"

lemma json_of_storage_locator_inject [json_inject]: "json_of_storage_locator x = json_of_storage_locator y \<longleftrightarrow> x = y"
  by (cases x; cases y) (simp add: json_inject encode_simps json_of_storage_locator_def)

definition json_of_canonical_record :: "canonical_record \<Rightarrow> json" where
  "json_of_canonical_record x = jobj [
     (''ciphertextHash'', Some (JStr (cr_ciphertextHash x))),
     (''createdAt'', Some (JStr (cr_createdAt x))),
     (''encryptedKeys'', Some (JArr (map json_of_encrypted_key (cr_encryptedKeys x)))),
     (''encryption'', Some (json_of_record_encryption (cr_encryption x))),
     (''executionProfile'', Some (JStr (execution_profile_str (cr_executionProfile x)))),
     (''extensions'', map_option JObj (cr_extensions x)),
     (''id'', Some (JStr (cr_id x))),
     (''interfaceVersion'', Some (JStr (interface_version_str (cr_interfaceVersion x)))),
     (''pactRef'', Some (json_of_object_ref (cr_pactRef x))),
     (''plaintextCommitment'', Some (JStr (cr_plaintextCommitment x))),
     (''previousCommitment'', Some (JStr (cr_previousCommitment x))),
     (''provenance'', Some (json_of_provenance (cr_provenance x))),
     (''sequence'', Some (JStr (cr_sequence x))),
     (''settlementReferences'', Some (JArr (map json_of_settlement_reference (cr_settlementReferences x)))),
     (''signatures'', Some (JArr (map json_of_record_signature (cr_signatures x)))),
     (''storageLocators'', Some (JArr (map json_of_storage_locator (cr_storageLocators x))))]"

lemma json_of_canonical_record_inject [json_inject]: "json_of_canonical_record x = json_of_canonical_record y \<longleftrightarrow> x = y"
  by (cases x; cases y) (simp add: json_inject encode_simps json_of_canonical_record_def)

definition json_of_runtime_signature_domain :: "runtime_signature_domain \<Rightarrow> json" where
  "json_of_runtime_signature_domain x = jobj [
     (''chainId'', Some (JStr (rd_chainId x))),
     (''name'', Some (JStr (rd_name x))),
     (''salt'', Some (JStr (rd_salt x))),
     (''verifyingContract'', map_option JStr (rd_verifyingContract x)),
     (''version'', Some (JStr (rd_version x)))]"

lemma json_of_runtime_signature_domain_inject [json_inject]: "json_of_runtime_signature_domain x = json_of_runtime_signature_domain y \<longleftrightarrow> x = y"
  by (cases x; cases y) (simp add: json_inject encode_simps json_of_runtime_signature_domain_def)

definition json_of_runtime_signature_binding :: "runtime_signature_binding \<Rightarrow> json" where
  "json_of_runtime_signature_binding x = jobj [
     (''anchorContract'', Some (JStr (rb_anchorContract x))),
     (''chainId'', Some (JStr (rb_chainId x))),
     (''domain'', Some (json_of_runtime_signature_domain (rb_domain x))),
     (''expiresAt'', Some (JStr (rb_expiresAt x))),
     (''issuedAt'', Some (JStr (rb_issuedAt x))),
     (''nonce'', Some (JStr (rb_nonce x))),
     (''operationId'', Some (JStr (rb_operationId x))),
     (''payloadHash'', Some (JStr (rb_payloadHash x))),
     (''primaryType'', Some (JStr (rb_primaryType x))),
     (''signature'', Some (JStr (rb_signature x))),
     (''signaturePurpose'', Some (JStr (rb_signaturePurpose x))),
     (''signatureStandard'', Some (JStr (rb_signatureStandard x))),
     (''signer'', Some (JStr (rb_signer x)))]"

lemma json_of_runtime_signature_binding_inject [json_inject]: "json_of_runtime_signature_binding x = json_of_runtime_signature_binding y \<longleftrightarrow> x = y"
  by (cases x; cases y) (simp add: json_inject encode_simps json_of_runtime_signature_binding_def)

definition json_of_transaction_state :: "transaction_state \<Rightarrow> json" where
  "json_of_transaction_state x = jobj [
     (''blockHash'', map_option JStr (ts_blockHash x)),
     (''blockNumber'', map_option JStr (ts_blockNumber x)),
     (''confirmations'', map_option JStr (ts_confirmations x)),
     (''confirmedAt'', map_option JStr (ts_confirmedAt x)),
     (''failureCode'', map_option (JStr \<circ> error_code_str) (ts_failureCode x)),
     (''failureReason'', map_option JStr (ts_failureReason x)),
     (''financialEffect'', Some (JStr (financial_effect_str (ts_financialEffect x)))),
     (''interfaceVersion'', Some (JStr (interface_version_str (ts_interfaceVersion x)))),
     (''network'', Some (json_of_network_reference (ts_network x))),
     (''nonce'', map_option JStr (ts_nonce x)),
     (''observedAt'', Some (JStr (ts_observedAt x))),
     (''status'', Some (JStr (transaction_state_name_str (ts_status x)))),
     (''submittedAt'', map_option JStr (ts_submittedAt x)),
     (''txHash'', map_option JStr (ts_txHash x))]"

lemma json_of_transaction_state_inject [json_inject]: "json_of_transaction_state x = json_of_transaction_state y \<longleftrightarrow> x = y"
  by (cases x; cases y) (simp add: json_inject encode_simps json_of_transaction_state_def)

definition json_of_error_details :: "error_details \<Rightarrow> json" where
  "json_of_error_details x = jobj [
     (''field'', map_option JStr (ed_field x)),
     (''providerCode'', map_option JStr (ed_providerCode x)),
     (''reason'', map_option JStr (ed_reason x))]"

lemma json_of_error_details_inject [json_inject]: "json_of_error_details x = json_of_error_details y \<longleftrightarrow> x = y"
  by (cases x; cases y) (simp add: json_inject encode_simps json_of_error_details_def)

definition json_of_interface_error :: "interface_error \<Rightarrow> json" where
  "json_of_interface_error x = jobj [
     (''actualNetwork'', map_option json_of_network_reference (ie_actualNetwork x)),
     (''code'', Some (JStr (error_code_str (ie_code x)))),
     (''details'', map_option json_of_error_details (ie_details x)),
     (''expectedNetwork'', map_option json_of_network_reference (ie_expectedNetwork x)),
     (''expiresAt'', map_option JStr (ie_expiresAt x)),
     (''financialEffect'', Some (JStr (financial_effect_str (ie_financialEffect x)))),
     (''interfaceVersion'', Some (JStr (interface_version_str (ie_interfaceVersion x)))),
     (''lifecycleState'', Some (JStr (lifecycle_state_str (ie_lifecycleState x)))),
     (''message'', Some (JStr (ie_message x))),
     (''occurredAt'', Some (JStr (ie_occurredAt x))),
     (''operationId'', Some (JStr (ie_operationId x))),
     (''provenance'', Some (json_of_provenance (ie_provenance x))),
     (''retryable'', Some (JBool (ie_retryable x))),
     (''transactionState'', Some (JStr (transaction_state_name_str (ie_transactionState x))))]"

lemma json_of_interface_error_inject [json_inject]: "json_of_interface_error x = json_of_interface_error y \<longleftrightarrow> x = y"
  by (cases x; cases y) (simp add: json_inject encode_simps json_of_interface_error_def)

end
