(* ===== verification/Js_Date.thy ===== *)
theory Js_Date
  imports Js_Values
begin

text \<open>
  \<open>Date.parse\<close> and \<open>toISOString\<close> of the JavaScript engine, on the time stamps the Shared Interface
  admits: its schemas check every time stamp against the pattern
  \<open>YYYY-MM-DDTHH:MM:SS(.f+)?Z\<close> and nothing else, so the pattern admits month 13 or hour 99,
  on which \<open>Date.parse\<close> is \<open>NaN\<close>.  Times are milliseconds since the epoch.
\<close>


section \<open>The time stamp format\<close>

definition digits_at :: "string \<Rightarrow> nat \<Rightarrow> nat \<Rightarrow> int option" where
  "digits_at s i n =
     (let t = take n (drop i s)
      in if length t = n \<and> list_all is_digit t then Some (int (dec_value 0 t)) else None)"

text \<open>The optional fraction, as milliseconds; digits after the third are cut.\<close>

definition fraction_ms :: "string \<Rightarrow> int option" where
  "fraction_ms f =
     (if f = [] then Some 0
      else if hd f = CHR ''.'' \<and> tl f \<noteq> [] \<and> list_all is_digit (tl f)
           then Some (int (dec_value 0 (take 3 (tl f @ ''00'')))) else None)"

record time_fields =
  tf_year :: int
  tf_month :: int
  tf_day :: int
  tf_hour :: int
  tf_minute :: int
  tf_second :: int
  tf_ms :: int

definition stamp_fields :: "string \<Rightarrow> time_fields option" where
  "stamp_fields s =
     (if length s \<ge> 20 \<and> s ! 4 = CHR ''-'' \<and> s ! 7 = CHR ''-'' \<and> s ! 10 = CHR ''T''
         \<and> s ! 13 = CHR '':'' \<and> s ! 16 = CHR '':'' \<and> last s = CHR ''Z''
      then (case (digits_at s 0 4, digits_at s 5 2, digits_at s 8 2, digits_at s 11 2,
                  digits_at s 14 2, digits_at s 17 2, fraction_ms (butlast (drop 19 s))) of
              (Some y, Some mo, Some d, Some h, Some mi, Some sec, Some ms) \<Rightarrow>
                Some \<lparr>tf_year = y, tf_month = mo, tf_day = d, tf_hour = h, tf_minute = mi,
                      tf_second = sec, tf_ms = ms\<rparr>
            | _ \<Rightarrow> None)
      else None)"

definition date_time_format :: "string \<Rightarrow> bool" where
  "date_time_format s \<longleftrightarrow> stamp_fields s \<noteq> None"


section \<open>Calendar\<close>

text \<open>Days since 1970-01-01 of a proleptic Gregorian date; linear in the day.\<close>

definition days_from_civil :: "int \<Rightarrow> int \<Rightarrow> int \<Rightarrow> int" where
  "days_from_civil y m d =
     (let y' = (if m \<le> 2 then y - 1 else y);
          era = y' div 400;
          yoe = y' mod 400;
          mp = (if m > 2 then m - 3 else m + 9);
          doy = (153 * mp + 2) div 5 + d - 1;
          doe = yoe * 365 + yoe div 4 - yoe div 100 + doy
      in era * 146097 + doe - 719468)"

definition civil_from_days :: "int \<Rightarrow> int \<times> int \<times> int" where
  "civil_from_days z =
     (let z' = z + 719468;
          era = z' div 146097;
          doe = z' mod 146097;
          yoe = (doe - doe div 1460 + doe div 36524 - doe div 146096) div 365;
          doy = doe - (365 * yoe + yoe div 4 - yoe div 100);
          mp = (5 * doy + 2) div 153;
          d = doy - (153 * mp + 2) div 5 + 1;
          m = (if mp < 10 then mp + 3 else mp - 9);
          y = yoe + era * 400
      in (if m \<le> 2 then y + 1 else y, m, d))"

definition time_in_range :: "time_fields \<Rightarrow> bool" where
  "time_in_range f \<longleftrightarrow>
     1 \<le> tf_month f \<and> tf_month f \<le> 12 \<and> 1 \<le> tf_day f \<and> tf_day f \<le> 31 \<and>
     (tf_hour f \<le> 23 \<and> tf_minute f \<le> 59 \<and> tf_second f \<le> 59 \<or>
      tf_hour f = 24 \<and> tf_minute f = 0 \<and> tf_second f = 0 \<and> tf_ms f = 0)"

definition fields_ms :: "time_fields \<Rightarrow> int" where
  "fields_ms f =
     days_from_civil (tf_year f) (tf_month f) (tf_day f) * 86400000
     + tf_hour f * 3600000 + tf_minute f * 60000 + tf_second f * 1000 + tf_ms f"

definition Date_parse :: "string \<Rightarrow> js_number" where
  "Date_parse s =
     (case stamp_fields s of
        None \<Rightarrow> None
      | Some f \<Rightarrow> if time_in_range f then Some (fields_ms f) else None)"

definition pad :: "nat \<Rightarrow> int \<Rightarrow> string" where
  "pad w n = (let t = show_int n in replicate (w - length t) CHR ''0'' @ t)"

definition toISOString :: "int \<Rightarrow> string" where
  "toISOString t =
     (let (y, m, d) = civil_from_days (t div 86400000);
          r = t mod 86400000
      in (if 0 \<le> y \<and> y \<le> 9999 then pad 4 y
          else if y < 0 then CHR ''-'' # pad 6 (- y) else CHR ''+'' # pad 6 y)
         @ ''-'' @ pad 2 m @ ''-'' @ pad 2 d @ ''T'' @ pad 2 (r div 3600000) @ '':''
         @ pad 2 (r div 60000 mod 60) @ '':'' @ pad 2 (r div 1000 mod 60) @ ''.''
         @ pad 3 (r mod 1000) @ ''Z'')"

text \<open>A time stamp outside the calendar passes the format and is \<open>NaN\<close>.\<close>

lemma month_13_format: "date_time_format ''2030-13-01T00:00:00Z''"
  by code_simp

lemma month_13_NaN: "Date_parse ''2030-13-01T00:00:00Z'' = None"
  by code_simp

lemma epoch_stamp: "Date_parse ''1970-01-01T00:00:01.500Z'' = Some 1500"
  by code_simp

lemma iso_example: "toISOString 1751371200123 = ''2025-07-01T12:00:00.123Z''"
  by code_simp

end
