(* ===== verification/External.thy ===== *)
theory External
  imports Interface_Json Js_Date
begin

text \<open>
  The code the program calls and the repository does not hold, as one record of functions that
  every definition takes as its first argument (\<open>E\<close>), and the small helpers of
  \<open>packages/openrails-runtime/src/runtime.ts\<close> that wrap them.

  \<^item> \<open>ext_getAddress\<close>: \<open>getAddress\<close> of ethers, the checksummed form of an address, \<open>None\<close> when it
    throws.
  \<^item> \<open>ext_canonicalize\<close>: the canonicalize package (RFC 8785), \<open>None\<close> when it throws or gives no
    text.
  \<^item> \<open>ext_keccakUtf8\<close>: \<open>keccak256(toUtf8Bytes(s))\<close> of ethers.
  \<^item> \<open>ext_validate\<close>: the schema validators the build generates from \<open>interface/schemas\<close>, by
    schema reference: \<open>None\<close> where no validator has that name, else the validator's errors on a
    value that may be \<open>undefined\<close>; a valid value has none.
  \<^item> \<open>ext_errorsText\<close>: the indented JSON text of a list of such errors, which only error messages show.
  \<^item> \<open>ext_verifyTypedData\<close>, \<open>ext_hashTypedData\<close>: EIP-712 signer recovery (\<open>None\<close> when it
    throws) and digest, of the signing domain, the message and the signature.
  \<^item> \<open>ext_encodeIsValidSignature\<close>, \<open>ext_decodeIsValidSignature\<close>: the ABI coder for
    \<open>isValidSignature(bytes32,bytes)\<close>.
\<close>

text \<open>The domain and the message of the EIP-712 typed data, as field lists.\<close>

type_synonym typed_fields = "(string \<times> string) list"

record ajv_error =
  aj_keyword :: string
  aj_instancePath :: string
  aj_message :: "string option"
  aj_params :: json

record deps =
  ext_getAddress :: "string \<Rightarrow> string option"
  ext_canonicalize :: "json \<Rightarrow> string option"
  ext_keccakUtf8 :: "string \<Rightarrow> string"
  ext_validate :: "string \<Rightarrow> json option \<Rightarrow> ajv_error list option"
  ext_errorsText :: "ajv_error list \<Rightarrow> string"
  ext_verifyTypedData :: "typed_fields \<Rightarrow> typed_fields \<Rightarrow> string \<Rightarrow> string option"
  ext_hashTypedData :: "typed_fields \<Rightarrow> typed_fields \<Rightarrow> string option"
  ext_encodeIsValidSignature :: "string \<Rightarrow> string \<Rightarrow> string option"
  ext_decodeIsValidSignature :: "string \<Rightarrow> string option"


section \<open>Comparisons\<close>

text \<open>A throw of \<open>getAddress\<close> on either side makes the addresses different.\<close>

definition sameAddress :: "deps \<Rightarrow> string \<Rightarrow> string \<Rightarrow> bool" where
  "sameAddress E left right =
     (case (ext_getAddress E left, ext_getAddress E right) of
        (Some a, Some b) \<Rightarrow> a = b
      | _ \<Rightarrow> False)"

lemma sameAddress_iff:
  "sameAddress E x y \<longleftrightarrow> (\<exists>a. ext_getAddress E x = Some a \<and> ext_getAddress E y = Some a)"
  by (auto simp: sameAddress_def split: option.splits)

lemma sameAddress_sym: "sameAddress E x y \<Longrightarrow> sameAddress E y x"
  by (auto simp: sameAddress_iff)

lemma sameAddress_trans: "sameAddress E x y \<Longrightarrow> sameAddress E y z \<Longrightarrow> sameAddress E x z"
  by (auto simp: sameAddress_iff)

text \<open>An optional wallet address: \<open>x && sameAddress(x, y)\<close>; the empty string is falsy.\<close>

definition walletIs :: "deps \<Rightarrow> string option \<Rightarrow> string \<Rightarrow> bool" where
  "walletIs E w addr =
     (case w of None \<Rightarrow> False | Some x \<Rightarrow> x \<noteq> [] \<and> sameAddress E x addr)"

lemma walletIs_iff: "walletIs E w a \<longleftrightarrow> (\<exists>x. w = Some x \<and> x \<noteq> [] \<and> sameAddress E x a)"
  by (auto simp: walletIs_def split: option.splits)

text \<open>\<open>sameRef\<close>: both sides are objects and agree on \<open>type\<close> and \<open>id\<close>; the network is not compared.\<close>

definition mk_ref :: "object_type \<Rightarrow> string \<Rightarrow> object_ref" where
  "mk_ref t i = \<lparr>ref_id = i, ref_network = None, ref_type = t\<rparr>"

definition sameRef :: "object_ref option \<Rightarrow> object_ref option \<Rightarrow> bool" where
  "sameRef left right =
     (case (left, right) of
        (Some l, Some r) \<Rightarrow> ref_type l = ref_type r \<and> ref_id l = ref_id r
      | _ \<Rightarrow> False)"

lemma sameRef_mk_ref [simp]:
  "sameRef r (Some (mk_ref t i)) \<longleftrightarrow> (\<exists>x. r = Some x \<and> ref_type x = t \<and> ref_id x = i)"
  by (auto simp: sameRef_def mk_ref_def split: option.splits)

text \<open>\<open>sameValue\<close>: equal canonical texts; a throw makes the values different.\<close>

definition sameValue :: "deps \<Rightarrow> json \<Rightarrow> json \<Rightarrow> bool" where
  "sameValue E left right =
     (case (ext_canonicalize E left, ext_canonicalize E right) of
        (Some a, Some b) \<Rightarrow> a = b
      | _ \<Rightarrow> False)"

lemma sameValue_iff:
  "sameValue E x y \<longleftrightarrow> (\<exists>a. ext_canonicalize E x = Some a \<and> ext_canonicalize E y = Some a)"
  by (auto simp: sameValue_def split: option.splits)

lemma sameValue_sym: "sameValue E x y \<Longrightarrow> sameValue E y x"
  by (auto simp: sameValue_iff)

lemma sameValue_trans: "sameValue E x y \<Longrightarrow> sameValue E y z \<Longrightarrow> sameValue E x z"
  by (auto simp: sameValue_iff)

end
