(* ===== verification/Runtime_Errors.thy ===== *)
theory Runtime_Errors
  imports External
begin

text \<open>
  The errors of the Runtime (\<open>packages/openrails-runtime/src/errors.ts\<close>): a \<open>RuntimeError\<close> with
  its code, message, retry flag and details, or any other exception of the language
  (\<open>TypeError\<close>, \<open>SyntaxError\<close>, \<open>RangeError\<close>, a plain \<open>Error\<close>).
\<close>

datatype rt_error =
    RuntimeError (re_code: error_code) (re_message: string) (re_retryable: bool)
      (re_details: "error_details option")
  | JsError (js_message: string)

definition rt_err :: "error_code \<Rightarrow> string \<Rightarrow> rt_error" where
  "rt_err code msg = RuntimeError code msg False None"

definition reason_details :: "string \<Rightarrow> error_details option" where
  "reason_details r = Some \<lparr>ed_field = None, ed_providerCode = None, ed_reason = Some r\<rparr>"

definition field_details :: "string \<Rightarrow> error_details option" where
  "field_details f = Some \<lparr>ed_field = Some f, ed_providerCode = None, ed_reason = None\<rparr>"

text \<open>\<open>isRuntimeError\<close> and \<open>asRuntimeError\<close>.\<close>

fun isRuntimeError :: "rt_error \<Rightarrow> bool" where
  "isRuntimeError (RuntimeError c m r d) = True"
| "isRuntimeError (JsError m) = False"

fun asRuntimeError :: "rt_error \<Rightarrow> error_code \<Rightarrow> string \<Rightarrow> rt_error" where
  "asRuntimeError (RuntimeError c m r d) fallbackCode fallbackMessage = RuntimeError c m r d"
| "asRuntimeError (JsError m) fallbackCode fallbackMessage =
     RuntimeError fallbackCode m False None"

text \<open>The code of an error, where it has one.\<close>

definition has_code :: "error_code \<Rightarrow> rt_error \<Rightarrow> bool" where
  "has_code c e = (case e of RuntimeError c' m r d \<Rightarrow> c' = c | JsError m \<Rightarrow> False)"

lemma has_code_simps [simp]:
  "has_code c (RuntimeError c' m r d) \<longleftrightarrow> c' = c"
  "\<not> has_code c (JsError m)"
  "has_code c (rt_err c' m) \<longleftrightarrow> c' = c"
  by (simp_all add: has_code_def rt_err_def)

text \<open>\<open>BigInt(value)\<close> of the source's \<open>integer\<close>: a malformed text is a \<open>SyntaxError\<close>.\<close>

definition integer :: "string \<Rightarrow> rt_error + int" where
  "integer v =
     (case BigInt v of Some i \<Rightarrow> Inr i | None \<Rightarrow> Inl (JsError ''SyntaxError''))"

lemma integer_eq_Inr [res_simps]: "integer v = Inr i \<longleftrightarrow> BigInt v = Some i"
  by (auto simp: integer_def split: option.splits)

end
