(* ===== verification/Runtime_Store.thy ===== *)
theory Runtime_Store
  imports Runtime_Errors
begin

text \<open>
  The state of the Runtime and the store that holds it
  (\<open>packages/openrails-runtime/src/types.ts\<close> and \<open>store.ts\<close>).

  The state is a set of dictionaries.  A transaction runs an operation on a draft of the state
  and of the consumed replay nonces; the draft replaces the stored values only if the operation
  ends normally.  The interface of the source (\<open>RuntimeStore\<close>) is the locale
  \<open>runtime_store\<close>; the in-memory store and the Postgres store are its two implementations.
\<close>


section \<open>State\<close>

record stored_attestation =
  sa_path :: path
  sa_provenance :: provenance

text \<open>\<open>Omit<PathPeriodUsage, "transactionCount" | "amount">\<close> and its extension.\<close>

record usage_id =
  us_pathId :: string
  us_assetKey :: string
  us_limitIndex :: int
  us_periodSeconds :: string
  us_bucketStartSeconds :: string

record path_period_usage = usage_id +
  us_transactionCount :: string
  us_amount :: string

record runtime_state =
  st_workspaces :: "workspace js_record"
  st_workspaceAuthorities :: "string js_record"
  st_actors :: "actor js_record"
  st_actorWorkspaces :: "string js_record"
  st_paths :: "path js_record"
  st_pathAttestations :: "stored_attestation js_record"
  st_intents :: "intent js_record"
  st_proposals :: "proposal js_record"
  st_decisions :: "baphomet_decision js_record"
  st_pacts :: "pact js_record"
  st_proofs :: "proof_object js_record"
  st_canonicalRecords :: "canonical_record js_record"
  st_committedPacts :: "string js_record"
  st_pathPeriodUsage :: "path_period_usage js_record"

definition emptyRuntimeState :: runtime_state where
  "emptyRuntimeState =
     \<lparr>st_workspaces = [], st_workspaceAuthorities = [], st_actors = [], st_actorWorkspaces = [],
      st_paths = [], st_pathAttestations = [], st_intents = [], st_proposals = [],
      st_decisions = [], st_pacts = [], st_proofs = [], st_canonicalRecords = [],
      st_committedPacts = [], st_pathPeriodUsage = []\<rparr>"

record replay_scope =
  rp_domainSalt :: string
  rp_chainId :: string
  rp_anchorContract :: string
  rp_signer :: string
  rp_nonce :: string


section \<open>Keys\<close>

definition json_of_usage_id :: "'a usage_id_scheme \<Rightarrow> json" where
  "json_of_usage_id u = jobj [
     (''pathId'', Some (JStr (us_pathId u))),
     (''assetKey'', Some (JStr (us_assetKey u))),
     (''limitIndex'', Some (JNum (us_limitIndex u))),
     (''periodSeconds'', Some (JStr (us_periodSeconds u))),
     (''bucketStartSeconds'', Some (JStr (us_bucketStartSeconds u)))]"

definition pathPeriodUsageKey :: "deps \<Rightarrow> 'a usage_id_scheme \<Rightarrow> rt_error + string" where
  "pathPeriodUsageKey E usage =
     (case ext_canonicalize E (json_of_usage_id usage) of
        Some key \<Rightarrow> Inr key
      | None \<Rightarrow> Inl (rt_err STATE_STALE ''Path period usage key is not canonicalizable.''))"

definition replayValues :: "replay_scope \<Rightarrow> string list" where
  "replayValues scope =
     [toLowerCase (rp_domainSalt scope), rp_chainId scope,
      toLowerCase (rp_anchorContract scope), toLowerCase (rp_signer scope), rp_nonce scope]"

definition replayScopeKey :: "replay_scope \<Rightarrow> string" where
  "replayScopeKey scope = js_join CHR '':'' (replayValues scope)"

text \<open>A scope whose parts do not hold the separator: hexadecimal and decimal texts do not.\<close>

definition colon_free_scope :: "replay_scope \<Rightarrow> bool" where
  "colon_free_scope scope \<longleftrightarrow> list_all (\<lambda>x. CHR '':'' \<notin> set x) (replayValues scope)"

text \<open>On such scopes the joined key distinguishes exactly what the five columns distinguish.\<close>

lemma replayScopeKey_eq_iff:
  assumes "colon_free_scope a" and "colon_free_scope b"
  shows "replayScopeKey a = replayScopeKey b \<longleftrightarrow> replayValues a = replayValues b"
proof
  assume "replayScopeKey a = replayScopeKey b"
  then show "replayValues a = replayValues b"
    unfolding replayScopeKey_def
    by (rule js_join_inject [rotated 3])
      (use assms in \<open>auto simp: colon_free_scope_def list_all_iff replayValues_def\<close>)
qed (simp add: replayScopeKey_def)


section \<open>Reading a persisted state\<close>

text \<open>
  A persisted state is JSON: a dictionary may be missing, and a usage entry may have the wrong
  shape (not an object, or a member of the wrong type).
\<close>

datatype raw_usage = Malformed_usage | Usage path_period_usage

record persisted_state =
  ps_version :: string
  ps_workspaces :: "workspace js_record option"
  ps_workspaceAuthorities :: "string js_record option"
  ps_actors :: "actor js_record option"
  ps_actorWorkspaces :: "string js_record option"
  ps_paths :: "path js_record option"
  ps_pathAttestations :: "stored_attestation js_record option"
  ps_intents :: "intent js_record option"
  ps_proposals :: "proposal js_record option"
  ps_decisions :: "baphomet_decision js_record option"
  ps_pacts :: "pact js_record option"
  ps_proofs :: "proof_object js_record option"
  ps_canonicalRecords :: "canonical_record js_record option"
  ps_committedPacts :: "string js_record option"
  ps_pathPeriodUsage :: "raw_usage js_record option"

definition state_version :: string where
  "state_version = ''openrails-runtime-state-1.2.0''"

definition is_safe_integer :: "int \<Rightarrow> bool" where
  "is_safe_integer i \<longleftrightarrow> \<bar>i\<bar> \<le> 9007199254740991"

definition usage_well_formed :: "path_period_usage \<Rightarrow> bool" where
  "usage_well_formed u \<longleftrightarrow>
     is_safe_integer (us_limitIndex u) \<and> \<not> us_limitIndex u < 0 \<and>
     is_pos_dec_string (us_periodSeconds u) \<and> is_dec_string (us_bucketStartSeconds u) \<and>
     is_dec_string (us_transactionCount u) \<and> is_dec_string (us_amount u)"

fun normalizePathPeriodUsage ::
    "deps \<Rightarrow> raw_usage js_record \<Rightarrow> path_period_usage js_record \<Rightarrow>
     rt_error + path_period_usage js_record" where
  "normalizePathPeriodUsage E [] normalized = Inr normalized"
| "normalizePathPeriodUsage E ((key, raw) # entries) normalized =
     (case raw of
        Malformed_usage \<Rightarrow> Inl (rt_err STATE_STALE ''Path period usage state is malformed.'')
      | Usage usage \<Rightarrow>
          (if \<not> usage_well_formed usage
           then Inl (rt_err STATE_STALE ''Path period usage state is malformed.'')
           else res_bind (pathPeriodUsageKey E usage) (\<lambda>expectedKey.
             if key \<noteq> expectedKey
             then Inl (rt_err STATE_STALE ''Path period usage state has a non-canonical key.'')
             else normalizePathPeriodUsage E entries (js_set key usage normalized))))"

definition or_empty :: "'v js_record option \<Rightarrow> 'v js_record" where
  "or_empty r = (case r of None \<Rightarrow> [] | Some x \<Rightarrow> x)"

definition normalizeRuntimeState :: "deps \<Rightarrow> persisted_state \<Rightarrow> rt_error + runtime_state" where
  "normalizeRuntimeState E s =
     (if ps_version s \<noteq> state_version
      then Inl (JsError ''Unsupported OpenRails Runtime state version.'')
      else res_bind (normalizePathPeriodUsage E (or_empty (ps_pathPeriodUsage s)) []) (\<lambda>usage.
        Inr \<lparr>st_workspaces = or_empty (ps_workspaces s),
             st_workspaceAuthorities = or_empty (ps_workspaceAuthorities s),
             st_actors = or_empty (ps_actors s),
             st_actorWorkspaces = or_empty (ps_actorWorkspaces s),
             st_paths = or_empty (ps_paths s),
             st_pathAttestations = or_empty (ps_pathAttestations s),
             st_intents = or_empty (ps_intents s),
             st_proposals = or_empty (ps_proposals s),
             st_decisions = or_empty (ps_decisions s),
             st_pacts = or_empty (ps_pacts s),
             st_proofs = or_empty (ps_proofs s),
             st_canonicalRecords = or_empty (ps_canonicalRecords s),
             st_committedPacts = or_empty (ps_committedPacts s),
             st_pathPeriodUsage = usage\<rparr>))"

text \<open>What is persisted for a state: every dictionary, with the version.\<close>

definition persist :: "runtime_state \<Rightarrow> persisted_state" where
  "persist s =
     \<lparr>ps_version = state_version, ps_workspaces = Some (st_workspaces s),
      ps_workspaceAuthorities = Some (st_workspaceAuthorities s), ps_actors = Some (st_actors s),
      ps_actorWorkspaces = Some (st_actorWorkspaces s), ps_paths = Some (st_paths s),
      ps_pathAttestations = Some (st_pathAttestations s), ps_intents = Some (st_intents s),
      ps_proposals = Some (st_proposals s), ps_decisions = Some (st_decisions s),
      ps_pacts = Some (st_pacts s), ps_proofs = Some (st_proofs s),
      ps_canonicalRecords = Some (st_canonicalRecords s),
      ps_committedPacts = Some (st_committedPacts s),
      ps_pathPeriodUsage = Some (map (\<lambda>(k, u). (k, Usage u)) (st_pathPeriodUsage s))\<rparr>"

definition usage_entry_ok :: "deps \<Rightarrow> string \<times> path_period_usage \<Rightarrow> bool" where
  "usage_entry_ok E = (\<lambda>(k, u). usage_well_formed u \<and> pathPeriodUsageKey E u = Inr k)"

lemma js_set_fresh: "k \<notin> fst ` set r \<Longrightarrow> js_set k v r = r @ [(k, v)]"
  unfolding js_set_def by (induction r) auto

lemma normalize_usage_identity:
  assumes "list_all (usage_entry_ok E) r" and "distinct (map fst (acc @ r))"
  shows "normalizePathPeriodUsage E (map (\<lambda>(k, u). (k, Usage u)) r) acc = Inr (acc @ r)"
  using assms
proof (induction r arbitrary: acc)
  case Nil
  then show ?case by simp
next
  case (Cons x r)
  obtain k u where x: "x = (k, u)" by (cases x)
  have "js_set k u acc = acc @ [(k, u)]"
    using Cons.prems(2) x by (intro js_set_fresh) auto
  moreover have "normalizePathPeriodUsage E (map (\<lambda>(k, u). (k, Usage u)) r) (acc @ [x])
      = Inr ((acc @ [x]) @ r)"
    using Cons.prems by (intro Cons.IH) auto
  ultimately show ?case
    using Cons.prems(1) by (simp add: x usage_entry_ok_def)
qed

text \<open>Everything a normalised state holds passed the checks.\<close>

lemma own_js_set_ok:
  assumes "\<forall>k v. own r k = Some v \<longrightarrow> P k v" and "P k' v'"
  shows "\<forall>k v. own (js_set k' v' r) k = Some v \<longrightarrow> P k v"
  using assms by auto

lemma normalize_usage_ok:
  assumes "normalizePathPeriodUsage E raw acc = Inr r"
    and "\<forall>k u. own acc k = Some u \<longrightarrow> usage_entry_ok E (k, u)"
  shows "\<forall>k u. own r k = Some u \<longrightarrow> usage_entry_ok E (k, u)"
  using assms
proof (induction raw arbitrary: acc)
  case Nil
  then show ?case by simp
next
  case (Cons x entries)
  obtain key raw where x: "x = (key, raw)" by (cases x)
  from Cons.prems(1) x obtain u where u: "usage_well_formed u" "pathPeriodUsageKey E u = Inr key"
      "normalizePathPeriodUsage E entries (js_set key u acc) = Inr r"
    by (cases raw) (auto simp: res_simps)
  have "\<forall>k v. own (js_set key u acc) k = Some v \<longrightarrow> usage_entry_ok E (k, v)"
    using Cons.prems(2) u by (intro own_js_set_ok) (auto simp: usage_entry_ok_def)
  with u(3) show ?case by (rule Cons.IH)
qed


section \<open>Transactions\<close>

text \<open>
  An operation of a transaction sees a way to consume a replay nonce, the draft state and the
  draft of the consumed nonces (of whatever type the store keeps), and either throws or returns
  a result and the drafts.
\<close>

type_synonym 'n consume = "replay_scope \<Rightarrow> 'n \<Rightarrow> rt_error + 'n"
type_synonym ('n, 'r) tx_op =
  "'n consume \<Rightarrow> runtime_state \<Rightarrow> 'n \<Rightarrow> rt_error + ('r \<times> runtime_state \<times> 'n)"

definition nonce_conflict :: rt_error where
  "nonce_conflict = rt_err NONCE_CONFLICT ''The runtime transition nonce has already been consumed.''"


subsection \<open>The in-memory store\<close>

record memory_store =
  ms_state :: runtime_state
  ms_replayNonces :: "string list"

definition newMemoryStore :: "deps \<Rightarrow> persisted_state \<Rightarrow> rt_error + memory_store" where
  "newMemoryStore E initial =
     res_bind (normalizeRuntimeState E initial) (\<lambda>s.
       Inr \<lparr>ms_state = s, ms_replayNonces = []\<rparr>)"

definition memory_consume :: "string list consume" where
  "memory_consume scope replayDraft =
     (let key = replayScopeKey scope in
      if key \<in> set replayDraft then Inl nonce_conflict else Inr (key # replayDraft))"

definition memory_transact ::
    "(string list, 'r) tx_op \<Rightarrow> memory_store \<Rightarrow> (rt_error + 'r) \<times> memory_store" where
  "memory_transact operation s =
     (case operation memory_consume (ms_state s) (ms_replayNonces s) of
        Inl e \<Rightarrow> (Inl e, s)
      | Inr (result, draft, replayDraft) \<Rightarrow>
          (Inr result, s\<lparr>ms_state := draft, ms_replayNonces := replayDraft\<rparr>))"


subsection \<open>The Postgres store\<close>

text \<open>
  Two tables: the one-row state table (its JSON, absent before the first transaction) and the
  replay table, whose primary key is the five columns.  A connection answers every statement of
  a transaction normally or with an error; a commit may also be applied and its acknowledgement
  lost.
\<close>

record pg_tables =
  pg_state :: "persisted_state option"
  pg_nonces :: "string list list"

datatype pg_statement =
  Begin | Insert_state | Select_state | Insert_nonce | Update_state | Commit

datatype pg_answer = Answered | Failed rt_error | Lost_ack rt_error

type_synonym pg_connection = "pg_statement \<Rightarrow> pg_answer"

definition query :: "pg_connection \<Rightarrow> pg_statement \<Rightarrow> rt_error + unit" where
  "query conn stmt =
     (case conn stmt of Answered \<Rightarrow> Inr () | Failed e \<Rightarrow> Inl e | Lost_ack e \<Rightarrow> Inl e)"

definition stateFromRow :: "deps \<Rightarrow> persisted_state option \<Rightarrow> rt_error + runtime_state" where
  "stateFromRow E row =
     (case row of None \<Rightarrow> Inr emptyRuntimeState | Some raw \<Rightarrow> normalizeRuntimeState E raw)"

definition pg_snapshot :: "deps \<Rightarrow> pg_connection \<Rightarrow> pg_tables \<Rightarrow> rt_error + runtime_state" where
  "pg_snapshot E conn db =
     res_bind (query conn Select_state) (\<lambda>_. stateFromRow E (pg_state db))"

definition pg_consume :: "pg_connection \<Rightarrow> string list list consume" where
  "pg_consume conn scope rows =
     res_bind (query conn Insert_nonce) (\<lambda>_.
       if replayValues scope \<in> set rows then Inl nonce_conflict
       else Inr (replayValues scope # rows))"

text \<open>The statements up to the commit, on the transaction's view of the tables.\<close>

definition pg_body ::
    "deps \<Rightarrow> pg_connection \<Rightarrow> (string list list, 'r) tx_op \<Rightarrow> pg_tables \<Rightarrow>
     rt_error + ('r \<times> pg_tables)" where
  "pg_body E conn operation db =
     res_bind (query conn Begin) (\<lambda>_.
     res_bind (query conn Insert_state) (\<lambda>_.
     let row = (case pg_state db of None \<Rightarrow> Some (persist emptyRuntimeState) | Some r \<Rightarrow> Some r) in
     res_bind (query conn Select_state) (\<lambda>_.
     res_bind (stateFromRow E row) (\<lambda>draft.
     res_bind (operation (pg_consume conn) draft (pg_nonces db)) (\<lambda>(result, draft', rows).
     res_bind (query conn Update_state) (\<lambda>_.
     Inr (result, db\<lparr>pg_state := Some (persist draft'), pg_nonces := rows\<rparr>)))))))"

text \<open>An error before the commit rolls back, whether or not the rollback itself is answered.\<close>

definition pg_transact ::
    "deps \<Rightarrow> pg_connection \<Rightarrow> (string list list, 'r) tx_op \<Rightarrow> pg_tables \<Rightarrow>
     (rt_error + 'r) \<times> pg_tables" where
  "pg_transact E conn operation db =
     (case pg_body E conn operation db of
        Inl e \<Rightarrow> (Inl e, db)
      | Inr (result, db') \<Rightarrow>
          (case conn Commit of
             Answered \<Rightarrow> (Inr result, db')
           | Failed e \<Rightarrow> (Inl e, db)
           | Lost_ack e \<Rightarrow> (Inl e, db')))"

text \<open>
  Whatever the connection does, a transaction leaves the tables as they were or as the whole
  operation makes them, and a reported success is always the latter.
\<close>

lemma pg_transact_atomic:
  assumes "pg_transact E conn operation db = (out, db')"
  shows "(db' = db \<and> throws out) \<or> (\<exists>r. pg_body E conn operation db = Inr (r, db')
    \<and> (throws out \<or> out = Inr r))"
  using assms by (auto simp: pg_transact_def split: sum.splits pg_answer.splits)


section \<open>The interface of the stores\<close>

text \<open>
  The Runtime runs two shapes of operation: one that first consumes a nonce and then works on
  the state, and one that works on the state only.
\<close>

definition scoped_op ::
    "replay_scope \<Rightarrow> (runtime_state \<Rightarrow> rt_error + ('r \<times> runtime_state)) \<Rightarrow> ('n, 'r) tx_op" where
  "scoped_op scope f consume st ns =
     res_bind (consume scope ns) (\<lambda>ns'.
     res_bind (f st) (\<lambda>(r, st'). Inr (r, st', ns')))"

definition plain_op ::
    "(runtime_state \<Rightarrow> rt_error + ('r \<times> runtime_state)) \<Rightarrow> ('n, 'r) tx_op" where
  "plain_op f consume st ns = res_bind (f st) (\<lambda>(r, st'). Inr (r, st', ns))"

text \<open>
  What a client may rely on.  \<open>storable\<close> are the states the store can write and read back,
  \<open>same_scope\<close> is the store's notion of equal replay scopes.
\<close>

locale runtime_store =
  fixes transact :: "('n, 'r) tx_op \<Rightarrow> 's \<Rightarrow> (rt_error + 'r) \<times> 's"
    and state_of :: "'s \<Rightarrow> runtime_state"
    and consumed :: "'s \<Rightarrow> replay_scope \<Rightarrow> bool"
    and same_scope :: "replay_scope \<Rightarrow> replay_scope \<Rightarrow> bool"
    and invar :: "'s \<Rightarrow> bool"
    and storable :: "runtime_state \<Rightarrow> bool"
  assumes same_scope_refl: "same_scope x x"
    and scoped_used:
      "invar s \<Longrightarrow> consumed s scope \<Longrightarrow> transact (scoped_op scope f) s = (Inl nonce_conflict, s)"
    and scoped_error:
      "invar s \<Longrightarrow> \<not> consumed s scope \<Longrightarrow> f (state_of s) = Inl e \<Longrightarrow>
       transact (scoped_op scope f) s = (Inl e, s)"
    and scoped_done:
      "invar s \<Longrightarrow> \<not> consumed s scope \<Longrightarrow> f (state_of s) = Inr (r, st') \<Longrightarrow> storable st' \<Longrightarrow>
       \<exists>s'. transact (scoped_op scope f) s = (Inr r, s') \<and> invar s' \<and> state_of s' = st'
         \<and> (\<forall>x. consumed s' x \<longleftrightarrow> same_scope x scope \<or> consumed s x)"
    and plain_error:
      "invar s \<Longrightarrow> f (state_of s) = Inl e \<Longrightarrow> transact (plain_op f) s = (Inl e, s)"
    and plain_done:
      "invar s \<Longrightarrow> f (state_of s) = Inr (r, st') \<Longrightarrow> storable st' \<Longrightarrow>
       \<exists>s'. transact (plain_op f) s = (Inr r, s') \<and> invar s' \<and> state_of s' = st'
         \<and> (\<forall>x. consumed s' x \<longleftrightarrow> consumed s x)"
begin

text \<open>A scoped transaction that returns had a fresh scope, ran the operation, and used it up.\<close>

lemma scoped_success:
  assumes "invar s" and "transact (scoped_op scope f) s = (Inr r, s')"
    and "\<And>r st'. f (state_of s) = Inr (r, st') \<Longrightarrow> storable st'"
  shows "\<not> consumed s scope \<and> f (state_of s) = Inr (r, state_of s') \<and> invar s'
    \<and> (\<forall>x. consumed s' x \<longleftrightarrow> same_scope x scope \<or> consumed s x)"
proof (cases "consumed s scope")
  case True
  with assms(1,2) scoped_used show ?thesis by fastforce
next
  case False
  show ?thesis
  proof (cases "f (state_of s)")
    case (Inl e)
    with False assms(1,2) scoped_error show ?thesis by fastforce
  next
    case (Inr p)
    obtain r0 st0 where p: "p = (r0, st0)" by (cases p)
    with Inr assms(3) have "storable st0" by simp
    with Inr p scoped_done [OF assms(1) False, of f r0 st0] assms(2) False
    show ?thesis by fastforce
  qed
qed

text \<open>A scoped transaction that throws leaves the store as it was.\<close>

lemma scoped_failure:
  assumes "invar s" and "transact (scoped_op scope f) s = (Inl e, s')"
    and "\<And>r st'. f (state_of s) = Inr (r, st') \<Longrightarrow> storable st'"
  shows "s' = s"
proof (cases "consumed s scope")
  case True
  with assms(1,2) scoped_used show ?thesis by fastforce
next
  case False
  show ?thesis
  proof (cases "f (state_of s)")
    case (Inl e)
    with False assms(1,2) scoped_error show ?thesis by fastforce
  next
    case (Inr p)
    obtain r0 st0 where p: "p = (r0, st0)" by (cases p)
    with Inr assms(3) have "storable st0" by simp
    with Inr p scoped_done [OF assms(1) False, of f r0 st0] assms(2)
    show ?thesis by fastforce
  qed
qed

text \<open>One scope is good for one transaction, whatever the second one tries to do.\<close>

lemma replay_refused:
  assumes "invar s" and "transact (scoped_op scope f) s = (Inr r, s')"
    and "\<And>r st'. f (state_of s) = Inr (r, st') \<Longrightarrow> storable st'"
  shows "transact (scoped_op scope g) s' = (Inl nonce_conflict, s')"
proof -
  have "invar s'" and "consumed s' scope"
    using scoped_success [OF assms(1,2)] assms(3) same_scope_refl by blast+
  then show ?thesis by (rule scoped_used)
qed

end

interpretation memory: runtime_store memory_transact ms_state
  "\<lambda>s scope. replayScopeKey scope \<in> set (ms_replayNonces s)"
  "\<lambda>a b. replayScopeKey a = replayScopeKey b" "\<lambda>_. True" "\<lambda>_. True"
  by unfold_locales
    (auto simp: memory_transact_def scoped_op_def plain_op_def memory_consume_def Let_def)


subsection \<open>Postgres as a store\<close>

definition pg_ok :: "deps \<Rightarrow> pg_tables \<Rightarrow> bool" where
  "pg_ok E db \<longleftrightarrow> \<not> throws (stateFromRow E (pg_state db))"

definition pg_state_of :: "deps \<Rightarrow> pg_tables \<Rightarrow> runtime_state" where
  "pg_state_of E db =
     (case stateFromRow E (pg_state db) of Inr s \<Rightarrow> s | Inl _ \<Rightarrow> emptyRuntimeState)"

text \<open>The states whose usage entries survive the checks of a later read.\<close>

definition storable_state :: "deps \<Rightarrow> runtime_state \<Rightarrow> bool" where
  "storable_state E s \<longleftrightarrow>
     list_all (usage_entry_ok E) (st_pathPeriodUsage s) \<and>
     distinct (map fst (st_pathPeriodUsage s))"

lemma normalize_persist:
  assumes "storable_state E s"
  shows "normalizeRuntimeState E (persist s) = Inr s"
  using assms normalize_usage_identity [of E "st_pathPeriodUsage s" "[]"]
  by (simp add: normalizeRuntimeState_def persist_def storable_state_def or_empty_def)

lemma storable_empty: "storable_state E emptyRuntimeState"
  by (simp add: storable_state_def emptyRuntimeState_def)

lemma pg_initial_row:
  "stateFromRow E (case pg_state db of None \<Rightarrow> Some (persist emptyRuntimeState) | Some r \<Rightarrow> Some r)
   = stateFromRow E (pg_state db)"
  by (simp add: stateFromRow_def normalize_persist storable_empty split: option.split)

abbreviation answering :: pg_connection where
  "answering \<equiv> (\<lambda>_. Answered)"

lemma pg_body_answering:
  assumes "pg_ok E db"
  shows "pg_body E answering operation db =
    res_bind (operation (pg_consume answering) (pg_state_of E db) (pg_nonces db))
      (\<lambda>(result, draft', rows).
         Inr (result, db\<lparr>pg_state := Some (persist draft'), pg_nonces := rows\<rparr>))"
  using assms
  by (auto simp: pg_body_def query_def pg_initial_row pg_ok_def pg_state_of_def not_throws_iff
      Let_def)

lemma pg_state_of_persist:
  assumes "storable_state E s" and "pg_state db = Some (persist s)"
  shows "pg_state_of E db = s" and "pg_ok E db"
  using assms by (simp_all add: pg_state_of_def pg_ok_def stateFromRow_def normalize_persist)

text \<open>A Postgres store whose connection answers keeps the contract.\<close>

interpretation postgres: runtime_store "pg_transact E answering" "pg_state_of E"
  "\<lambda>db scope. replayValues scope \<in> set (pg_nonces db)"
  "\<lambda>a b. replayValues a = replayValues b" "pg_ok E" "storable_state E"
  for E
  by unfold_locales
    (auto simp: pg_transact_def pg_body_answering scoped_op_def plain_op_def pg_consume_def
      query_def pg_state_of_persist)

end
