(* ===== verification/Operations.thy ===== *)
theory Operations
  imports Runtime_Errors
begin

text \<open>
  The validation of operation envelopes (\<open>interface/src/operations.ts\<close>) and the payload hash
  (\<open>interface/src/runtime-signature.ts\<close>), on JSON values, as the code has them: the checks
  collect issues, an envelope is valid when there are none.
\<close>


section \<open>Reading untyped values\<close>

fun jget :: "json option \<Rightarrow> string \<Rightarrow> json option" where
  "jget (Some (JObj fs)) k = map_of fs k"
| "jget _ k = None"

fun isRecord :: "json option \<Rightarrow> bool" where
  "isRecord (Some (JObj fs)) = True"
| "isRecord _ = False"

fun is_string :: "json option \<Rightarrow> bool" where
  "is_string (Some (JStr s)) = True"
| "is_string _ = False"

text \<open>\<open>===\<close> on values read from different places: objects and arrays are never identical.\<close>

definition strict_eq :: "json option \<Rightarrow> json option \<Rightarrow> bool" where
  "strict_eq a b =
     (case a of
        None \<Rightarrow> b = None
      | Some (JObj fs) \<Rightarrow> False
      | Some (JArr xs) \<Rightarrow> False
      | Some x \<Rightarrow> b = Some x)"

lemma strict_eq_str [simp]: "strict_eq x (Some (JStr s)) \<longleftrightarrow> x = Some (JStr s)"
  by (auto simp: strict_eq_def split: option.splits json.splits)

lemma strict_eq_str' [simp]: "strict_eq (Some (JStr s)) x \<longleftrightarrow> x = Some (JStr s)"
  by (simp add: strict_eq_def)

text \<open>\<open>String(v)\<close>.\<close>

fun js_String :: "json \<Rightarrow> string" where
  "js_String JNull = ''null''"
| "js_String (JBool b) = (if b then ''true'' else ''false'')"
| "js_String (JNum n) = show_int n"
| "js_String (JStr s) = s"
| "js_String (JArr vs) =
     js_join CHR '','' (map (\<lambda>v. if v = JNull then '''' else js_String v) vs)"
| "js_String (JObj fs) = ''[object Object]''"

definition js_String_opt :: "json option \<Rightarrow> string" where
  "js_String_opt v = (case v of None \<Rightarrow> ''undefined'' | Some x \<Rightarrow> js_String x)"

definition sameReference :: "json option \<Rightarrow> json option \<Rightarrow> bool" where
  "sameReference left right \<longleftrightarrow>
     isRecord left \<and> isRecord right \<and>
     strict_eq (jget left ''type'') (jget right ''type'') \<and>
     strict_eq (jget left ''id'') (jget right ''id'')"

definition artifactReference :: "string \<Rightarrow> json option \<Rightarrow> json option" where
  "artifactReference type artifact =
     (if isRecord artifact \<and> is_string (jget artifact ''id'')
      then Some (jobj [(''type'', Some (JStr type)), (''id'', jget artifact ''id'')])
      else None)"


section \<open>The payload hash\<close>

text \<open>\<open>canonicalizeRuntimePayload\<close>: the data without its \<open>signatureBinding\<close>.\<close>

definition unsigned_payload :: "(string \<times> json) list \<Rightarrow> json" where
  "unsigned_payload fs = JObj (filter (\<lambda>(k, v). k \<noteq> ''signatureBinding'') fs)"

definition canonicalizeRuntimePayload :: "deps \<Rightarrow> json option \<Rightarrow> rt_error + string" where
  "canonicalizeRuntimePayload E data =
     (case data of
        Some (JObj fs) \<Rightarrow>
          (case ext_canonicalize E (unsigned_payload fs) of
             Some text \<Rightarrow> Inr text
           | None \<Rightarrow> Inl (JsError ''Runtime transition data is not JSON-canonicalizable.''))
      | _ \<Rightarrow> Inl (JsError ''Runtime transition data must be an object.''))"

definition hashRuntimePayload :: "deps \<Rightarrow> json option \<Rightarrow> rt_error + string" where
  "hashRuntimePayload E data =
     res_bind (canonicalizeRuntimePayload E data) (\<lambda>text. Inr (ext_keccakUtf8 E text))"


section \<open>The operation registry\<close>

record registry_entry =
  op_operationId :: string
  op_capability :: string
  op_introducedIn :: "string option"
  op_requestSchema :: string
  op_responseSchema :: string
  op_requestDataSchema :: string
  op_responseDataSchema :: string
  op_authorizationClass :: string
  op_allowedExecutionProfiles :: "string list"

definition schema_root :: string where
  "schema_root = ''https://schemas.openrails.dev/openrails/1.2.0/''"

definition any_profile :: "string list" where
  "any_profile = [''direct-wallet-authorized'', ''delegated-runtime'']"

definition delegated_only :: "string list" where
  "delegated_only = [''delegated-runtime'']"

definition registered ::
    "string \<Rightarrow> string \<Rightarrow> string option \<Rightarrow> string \<Rightarrow> string list \<Rightarrow> string \<Rightarrow> string \<Rightarrow>
     registry_entry" where
  "registered operationId capability introducedIn class profiles request response =
     \<lparr>op_operationId = operationId, op_capability = capability, op_introducedIn = introducedIn,
      op_requestSchema = schema_root @ ''operation-request.schema.json'',
      op_responseSchema = schema_root @ ''operation-response.schema.json'',
      op_requestDataSchema = schema_root @ ''operation-payloads.schema.json#/$defs/'' @ request,
      op_responseDataSchema = schema_root @ ''operation-payloads.schema.json#/$defs/'' @ response,
      op_authorizationClass = class, op_allowedExecutionProfiles = profiles\<rparr>"

definition registry :: "registry_entry list" where
  "registry = [
     registered ''network.list'' ''network.list'' None ''PUBLIC_READ''
       any_profile ''EmptyRequest'' ''NetworkListResponse'',
     registered ''network.get'' ''network.get'' None ''PUBLIC_READ''
       any_profile ''NetworkIdRequest'' ''NetworkResponse'',
     registered ''network.capabilities'' ''network.capabilities'' None ''PUBLIC_READ''
       any_profile ''NetworkIdRequest'' ''CapabilitiesResponse'',
     registered ''workspace.prepare'' ''workspace.prepare'' None ''PREPARE_ONLY''
       any_profile ''WorkspaceRequest'' ''WorkspaceResponse'',
     registered ''workspace.get'' ''workspace.get'' None ''AUTHENTICATED_READ''
       any_profile ''WorkspaceRefRequest'' ''WorkspaceResponse'',
     registered ''workspace.list'' ''workspace.list'' None ''AUTHENTICATED_READ''
       any_profile ''EmptyRequest'' ''WorkspaceListResponse'',
     registered ''actor.prepareRegistration'' ''actor.prepareRegistration'' None ''WALLET_SIGNATURE''
       any_profile ''ActorRequest'' ''ActorResponse'',
     registered ''actor.list'' ''actor.list'' None ''AUTHENTICATED_READ''
       any_profile ''EmptyRequest'' ''ActorListResponse'',
     registered ''path.prepare'' ''path.prepare'' None ''PREPARE_ONLY''
       any_profile ''PathRequest'' ''PathResponse'',
     registered ''path.activate'' ''path.activate'' None ''WALLET_SIGNATURE''
       delegated_only ''PathRequest'' ''PathResponse'',
     registered ''path.revoke'' ''path.revoke'' None ''WALLET_SIGNATURE''
       delegated_only ''PathRefRequest'' ''PathResponse'',
     registered ''path.evaluate'' ''path.evaluate'' None ''AUTHENTICATED_READ''
       delegated_only ''PathEvaluateRequest'' ''DecisionResponse'',
     registered ''intent.prepare'' ''intent.prepare'' None ''PREPARE_ONLY''
       any_profile ''IntentRequest'' ''IntentResponse'',
     registered ''intent.validate'' ''intent.validate'' None ''PUBLIC_READ''
       any_profile ''IntentRequest'' ''ValidationResponse'',
     registered ''proposal.evaluate'' ''proposal.evaluate'' None ''PREPARE_ONLY''
       delegated_only ''ProposalRequest'' ''DecisionResponse'',
     registered ''pact.prepare'' ''pact.prepare'' None ''PREPARE_ONLY''
       any_profile ''PactRequest'' ''PactResponse'',
     registered ''pact.get'' ''pact.get'' None ''AUTHENTICATED_READ''
       any_profile ''PactRefRequest'' ''PactResponse'',
     registered ''pact.activate'' ''pact.activate'' None ''WALLET_SIGNATURE''
       any_profile ''PactRequest'' ''PactResponse'',
     registered ''proof.submit'' ''proof.submit'' None ''RELAY_SIGNED_ENVELOPE''
       any_profile ''ProofRequest'' ''ProofResponse'',
     registered ''proof.verify'' ''proof.verify'' None ''PUBLIC_READ''
       any_profile ''ProofRefRequest'' ''ProofResponse'',
     registered ''proof.get'' ''proof.get'' None ''AUTHENTICATED_READ''
       any_profile ''ProofRefRequest'' ''ProofResponse'',
     registered ''railsflow.create'' ''railsflow.create'' None ''PREPARE_ONLY''
       any_profile ''RailsFlowRequest'' ''RailsFlowResponse'',
     registered ''railsflow.inspect'' ''railsflow.inspect'' None ''PUBLIC_READ''
       any_profile ''RailsFlowInspectRequest'' ''RailsFlowResponse'',
     registered ''railsflow.pay'' ''railsflow.pay'' None ''WALLET_TRANSACTION''
       any_profile ''RailsFlowPayRequest'' ''PaycardResponse'',
     registered ''railscard.issue'' ''railscard.issue'' None ''WALLET_SIGNATURE''
       any_profile ''RailsCardRequest'' ''RailsCardResponse'',
     registered ''railscard.inspect'' ''railscard.inspect'' None ''PUBLIC_READ''
       any_profile ''RailsCardInspectRequest'' ''RailsCardResponse'',
     registered ''railscard.claim'' ''railscard.claim'' None ''WALLET_TRANSACTION''
       any_profile ''RailsCardClaimRequest'' ''PaycardResponse'',
     registered ''paycard.open'' ''paycard.open'' None ''WALLET_TRANSACTION''
       any_profile ''PaycardOpenRequest'' ''PaycardResponse'',
     registered ''paycard.get'' ''paycard.get'' None ''AUTHENTICATED_READ''
       any_profile ''PaycardRefRequest'' ''PaycardResponse'',
     registered ''paycard.list'' ''paycard.list'' None ''AUTHENTICATED_READ''
       any_profile ''PaycardListRequest'' ''PaycardListResponse'',
     registered ''paycard.settle'' ''paycard.settle'' None ''WALLET_TRANSACTION''
       any_profile ''PaycardActionRequest'' ''PaycardResponse'',
     registered ''paycard.flushResidual'' ''paycard.flushResidual'' None ''WALLET_TRANSACTION''
       any_profile ''PaycardActionRequest'' ''PaycardResponse'',
     registered ''receipt.get'' ''receipt.get'' None ''AUTHENTICATED_READ''
       any_profile ''ReceiptRefRequest'' ''ReceiptResponse'',
     registered ''receipt.list'' ''receipt.list'' None ''AUTHENTICATED_READ''
       any_profile ''ReceiptListRequest'' ''ReceiptListResponse'',
     registered ''receipt.verify'' ''receipt.verify'' None ''PUBLIC_READ''
       any_profile ''ReceiptVerifyRequest'' ''ReceiptResponse'',
     registered ''gaia.open'' ''gaia.open'' None ''PREPARE_ONLY''
       delegated_only ''GaiaCaseRequest'' ''GaiaCaseResponse'',
     registered ''gaia.get'' ''gaia.get'' None ''AUTHENTICATED_READ''
       delegated_only ''GaiaCaseRefRequest'' ''GaiaCaseResponse'',
     registered ''gaia.resolve'' ''gaia.resolve'' None ''WALLET_SIGNATURE''
       delegated_only ''GaiaResolveRequest'' ''GaiaCaseResponse'',
     registered ''wallet.handoff.prepare'' ''wallet.handoff.prepare'' None ''PREPARE_ONLY''
       any_profile ''WalletHandoffRequest'' ''WalletHandoffResponse'',
     registered ''wallet.handoff.get'' ''wallet.handoff.get'' None ''AUTHENTICATED_READ''
       any_profile ''WalletHandoffRefRequest'' ''WalletHandoffResponse'',
     registered ''wallet.handoff.verify'' ''wallet.handoff.verify'' None ''PUBLIC_READ''
       any_profile ''WalletHandoffVerifyRequest'' ''WalletHandoffResponse'',
     registered ''workspace.register'' ''workspace.register'' (Some ''1.2.0'') ''RELAY_SIGNED_ENVELOPE''
       delegated_only ''WorkspaceRegisterRequest'' ''WorkspaceRegisterResponse'',
     registered ''actor.register'' ''actor.register'' (Some ''1.2.0'') ''RELAY_SIGNED_ENVELOPE''
       delegated_only ''ActorRegisterRequest'' ''ActorRegisterResponse'',
     registered ''proposal.submit'' ''proposal.submit'' (Some ''1.2.0'') ''RELAY_SIGNED_ENVELOPE''
       delegated_only ''ProposalSubmitRequest'' ''ProposalSubmitResponse'',
     registered ''pact.sign'' ''pact.sign'' (Some ''1.2.0'') ''RELAY_SIGNED_ENVELOPE''
       delegated_only ''PactSignRequest'' ''PactSignResponse'']"

definition resolveOperation :: "string \<Rightarrow> rt_error + registry_entry" where
  "resolveOperation name =
     (case List.find (\<lambda>entry. op_operationId entry = name \<or> op_capability entry = name) registry of
        Some operation \<Rightarrow> Inr operation
      | None \<Rightarrow> Inl (JsError (''Unknown OpenRails operation: '' @ name)))"

definition SIGNED_RUNTIME_TRANSITION_OPERATIONS :: "string list" where
  "SIGNED_RUNTIME_TRANSITION_OPERATIONS =
     [''workspace.register'', ''actor.register'', ''path.activate'', ''path.revoke'',
      ''intent.prepare'', ''proposal.evaluate'', ''proposal.submit'', ''pact.sign'',
      ''proof.submit'', ''proof.verify'']"

definition isSignedRuntimeTransitionOperation :: "string \<Rightarrow> bool" where
  "isSignedRuntimeTransitionOperation value \<longleftrightarrow>
     value \<in> set SIGNED_RUNTIME_TRANSITION_OPERATIONS"


section \<open>Issues\<close>

datatype issue_stage = Metadata | Wrapper | Payload

record validation_issue =
  is_stage :: issue_stage
  is_message :: string
  is_keyword :: "string option"
  is_instancePath :: "string option"
  is_params :: "json option"

definition metadata_issue :: "string \<Rightarrow> validation_issue" where
  "metadata_issue msg =
     \<lparr>is_stage = Metadata, is_message = msg, is_keyword = None, is_instancePath = None,
      is_params = None\<rparr>"

definition ajv_issue :: "issue_stage \<Rightarrow> ajv_error \<Rightarrow> validation_issue" where
  "ajv_issue stage e =
     \<lparr>is_stage = stage,
      is_message = (case aj_message e of Some m \<Rightarrow> m | None \<Rightarrow> ''schema validation failed''),
      is_keyword = Some (aj_keyword e), is_instancePath = Some (aj_instancePath e),
      is_params = Some (aj_params e)\<rparr>"

text \<open>The members of an issue, in the order the code writes them, for the texts of errors.\<close>

fun issue_stage_str :: "issue_stage \<Rightarrow> string" where
  "issue_stage_str Metadata = ''metadata''"
| "issue_stage_str Wrapper = ''wrapper''"
| "issue_stage_str Payload = ''payload''"

definition json_of_issue :: "validation_issue \<Rightarrow> json" where
  "json_of_issue i = jobj [
     (''stage'', Some (JStr (issue_stage_str (is_stage i)))),
     (''keyword'', map_option JStr (is_keyword i)),
     (''instancePath'', map_option JStr (is_instancePath i)),
     (''message'', Some (JStr (is_message i))),
     (''params'', is_params i)]"

definition json_of_issues :: "validation_issue list \<Rightarrow> json" where
  "json_of_issues issues = JArr (map json_of_issue issues)"

text \<open>One \<open>if (c) addMetadataIssue(issues, msg)\<close>.\<close>

definition issue_if :: "bool \<Rightarrow> string \<Rightarrow> validation_issue list" where
  "issue_if c msg = (if c then [metadata_issue msg] else [])"

lemma issue_if_Nil [simp]: "issue_if c msg = [] \<longleftrightarrow> \<not> c"
  by (simp add: issue_if_def)


section \<open>Interface versions\<close>

text \<open>
  \<open>Number\<close> of a version part: \<open>NaN\<close> for a text that is no integer.  The envelope schema only
  admits the versions 1.1.0 and 1.2.0; fractions and exponents do not occur in a part.
\<close>

fun split_dots :: "string \<Rightarrow> string list" where
  "split_dots [] = [[]]"
| "split_dots (c # cs) =
     (if c = CHR ''.'' then [] # split_dots cs
      else (case split_dots cs of [] \<Rightarrow> [[c]] | p # ps \<Rightarrow> (c # p) # ps))"

definition version_part :: "string list \<Rightarrow> nat \<Rightarrow> js_number" where
  "version_part parts i = (if i < length parts then BigInt (parts ! i) else Some 0)"

text \<open>\<open>difference !== 0\<close> also holds for \<open>NaN\<close>, which is then the result.\<close>

definition part_difference :: "string list \<Rightarrow> string list \<Rightarrow> nat \<Rightarrow> js_number" where
  "part_difference l r i =
     (case (version_part l i, version_part r i) of (Some a, Some b) \<Rightarrow> Some (a - b) | _ \<Rightarrow> None)"

definition compareInterfaceVersions :: "string \<Rightarrow> string \<Rightarrow> js_number" where
  "compareInterfaceVersions left right =
     (let l = split_dots left; r = split_dots right in
      if part_difference l r 0 \<noteq> Some 0 then part_difference l r 0
      else if part_difference l r 1 \<noteq> Some 0 then part_difference l r 1
      else if part_difference l r 2 \<noteq> Some 0 then part_difference l r 2
      else Some 0)"


section \<open>Checks of the signed transitions\<close>

datatype direction = Request_direction | Response_direction

fun direction_str :: "direction \<Rightarrow> string" where
  "direction_str Request_direction = ''request''"
| "direction_str Response_direction = ''response''"

definition isTerminalNullResponse :: "json option \<Rightarrow> direction \<Rightarrow> bool" where
  "isTerminalNullResponse value dir \<longleftrightarrow>
     dir = Response_direction \<and> jget value ''data'' = Some JNull \<and>
     js_String_opt (jget value ''lifecycleState'') \<in> {''FAILED'', ''BLOCKED'', ''CANCELLED''}"

text \<open>
  The references an envelope must repeat from its signed payload, in the order of the code's
  branches.  The member \<open>proofRefs\<close> of the envelope is a list.
\<close>

definition signed_references ::
    "string \<Rightarrow> json option \<Rightarrow> direction \<Rightarrow> (string \<times> json option) list" where
  "signed_references operationId payload dir =
     (let path = jget payload ''path''; intent = jget payload ''intent'';
          proposal = jget payload ''proposal''; pact = jget payload ''pact'';
          proof = jget payload ''proof''; objectRef = jget payload ''objectRef''
      in
      if operationId = ''path.activate'' \<and> isRecord path then
        [(''workspaceRef'', jget path ''workspaceRef''), (''pathRef'', artifactReference ''Path'' path)]
      else if operationId = ''path.revoke'' then
        [(''pathRef'', if dir = Request_direction then objectRef else artifactReference ''Path'' path)]
      else if operationId = ''intent.prepare'' \<and> isRecord intent then
        [(''workspaceRef'', jget intent ''workspaceRef''), (''pathRef'', jget intent ''pathRef''),
         (''intentRef'', artifactReference ''Intent'' intent)]
      else if operationId = ''actor.register'' then
        [(''workspaceRef'', jget payload ''workspaceRef'')]
      else if operationId = ''proposal.evaluate'' \<and> isRecord proposal
           \<or> operationId = ''proposal.submit'' \<and> isRecord proposal then
        [(''workspaceRef'', jget proposal ''workspaceRef''), (''pathRef'', jget proposal ''pathRef''),
         (''intentRef'', jget proposal ''intentRef''),
         (''proposalRef'', artifactReference ''Proposal'' proposal)]
      else if operationId = ''pact.sign'' \<and> isRecord pact then
        [(''workspaceRef'', jget pact ''workspaceRef''), (''pathRef'', jget pact ''pathRef''),
         (''intentRef'', jget payload ''intentRef''), (''proposalRef'', jget pact ''proposalRef''),
         (''decisionRef'', jget pact ''decisionRef''), (''pactRef'', artifactReference ''Pact'' pact)]
        @ (if isRecord (jget payload ''canonicalRecord'')
           then [(''canonicalRecordRef'',
                  artifactReference ''CanonicalRecord'' (jget payload ''canonicalRecord''))]
           else [])
      else if operationId = ''proof.submit'' \<and> isRecord proof then
        [(''workspaceRef'', jget proof ''workspaceRef''), (''pathRef'', jget proof ''pathRef''),
         (''intentRef'', jget proof ''intentRef''), (''proposalRef'', jget proof ''proposalRef''),
         (''pactRef'', jget proof ''pactRef''), (''proofRefs'', artifactReference ''Proof'' proof)]
      else if operationId = ''proof.verify'' then
        [(''proofRefs'',
          if dir = Request_direction then objectRef else artifactReference ''Proof'' proof)]
      else [])"

definition json_elements :: "json option \<Rightarrow> json list" where
  "json_elements v = (case v of Some (JArr xs) \<Rightarrow> xs | _ \<Rightarrow> [])"

definition reference_ok :: "json option \<Rightarrow> string \<times> json option \<Rightarrow> bool" where
  "reference_ok value = (\<lambda>(key, expected).
     if key = ''proofRefs''
     then list_ex (\<lambda>c. sameReference (Some c) expected) (json_elements (jget value ''proofRefs''))
     else sameReference (jget value key) expected)"

definition reference_issue :: "json option \<Rightarrow> string \<times> json option \<Rightarrow> validation_issue list" where
  "reference_issue value = (\<lambda>(key, expected).
     issue_if (\<not> reference_ok value (key, expected))
       (if key = ''proofRefs'' then ''proofRefs must include the signed payload reference.''
        else key @ '' must equal the signed payload reference.''))"

definition validateRuntimeTransitionBindings ::
    "deps \<Rightarrow> string \<Rightarrow> json option \<Rightarrow> direction \<Rightarrow> validation_issue list" where
  "validateRuntimeTransitionBindings E operationId value dir =
     (if \<not> isSignedRuntimeTransitionOperation operationId \<or> \<not> isRecord (jget value ''data'')
      then []
      else
        let payload = jget value ''data'';
            binding = jget payload ''signatureBinding'';
            domain = jget binding ''domain'';
            network = jget value ''network'';
            subject = jget value ''subject''
        in concat (map (reference_issue value) (signed_references operationId payload dir))
         @ issue_if (isRecord binding \<and> jget binding ''operationId'' \<noteq> Some (JStr operationId))
             ''signature binding operationId must equal the envelope operationId.''
         @ issue_if (isRecord binding \<and> isRecord domain
               \<and> \<not> strict_eq (jget binding ''chainId'') (jget domain ''chainId''))
             ''signature binding chainId must equal the EIP-712 domain chainId.''
         @ issue_if (isRecord binding \<and> isRecord network
               \<and> \<not> strict_eq (jget binding ''chainId'') (jget network ''chainId''))
             ''signature binding chainId must equal the envelope network chainId.''
         @ (if isRecord binding \<and> dir = Request_direction
            then (case hashRuntimePayload E payload of
                    Inr h \<Rightarrow> issue_if (jget binding ''payloadHash'' \<noteq> Some (JStr h))
                      ''signature binding payloadHash must equal the canonical request payload hash.''
                  | Inl _ \<Rightarrow> [metadata_issue ''runtime transition data must be JSON-canonicalizable.''])
            else [])
         @ issue_if (isRecord binding \<and> isRecord subject \<and> is_string (jget subject ''walletAddress'')
               \<and> toLowerCase (js_String_opt (jget subject ''walletAddress''))
                 \<noteq> toLowerCase (js_String_opt (jget binding ''signer'')))
             ''subject walletAddress must equal the runtime signature signer.'')"

text \<open>The life cycle states a successful response of an operation may report.\<close>

definition expected_states :: "string \<Rightarrow> string list" where
  "expected_states operationId =
     (if operationId = ''workspace.register'' then [''PREPARED'']
      else if operationId = ''actor.register'' then [''PREPARED'']
      else if operationId = ''path.activate'' then [''COMMITTED'']
      else if operationId = ''path.revoke'' then [''CANCELLED'']
      else if operationId = ''intent.prepare'' then [''PREPARED'']
      else if operationId = ''proposal.evaluate'' then [''ALLOWED'', ''BLOCKED'']
      else if operationId = ''proposal.submit'' then [''EVALUATING'']
      else if operationId = ''pact.sign'' then [''COMMITTED'']
      else if operationId = ''proof.submit'' then [''PROOF_PENDING'']
      else if operationId = ''proof.verify'' then [''PROOF_VERIFIED'']
      else [])"

fun join_comma :: "string list \<Rightarrow> string" where
  "join_comma [] = []"
| "join_comma [x] = x"
| "join_comma (x # y # ys) = x @ '', '' @ join_comma (y # ys)"

definition validateRuntimeTransitionLifecycle ::
    "string \<Rightarrow> json option \<Rightarrow> direction \<Rightarrow> validation_issue list" where
  "validateRuntimeTransitionLifecycle operationId value dir =
     (if dir \<noteq> Response_direction \<or> jget value ''data'' = Some JNull
         \<or> \<not> isSignedRuntimeTransitionOperation operationId
      then []
      else issue_if
        (js_String_opt (jget value ''lifecycleState'') \<notin> set (expected_states operationId))
        (operationId @ '' successful response lifecycleState must equal one of ''
         @ join_comma (expected_states operationId) @ ''.''))"


section \<open>The validation of an envelope\<close>

record validation_result =
  vr_valid :: bool
  vr_operation :: registry_entry
  vr_direction :: direction
  vr_issues :: "validation_issue list"

definition metadata_issues ::
    "registry_entry \<Rightarrow> json option \<Rightarrow> validation_issue list" where
  "metadata_issues operation value =
       issue_if (op_operationId operation \<noteq> op_capability operation)
         (''Registry operationId '' @ op_operationId operation @ '' does not equal capability ''
          @ op_capability operation @ ''.'')
     @ issue_if (jget value ''operationId'' \<noteq> Some (JStr (op_operationId operation)))
         (''operationId must equal registry operation '' @ op_operationId operation @ ''.'')
     @ issue_if (jget value ''capability'' \<noteq> Some (JStr (op_capability operation)))
         (''capability must equal registry capability '' @ op_capability operation @ ''.'')
     @ issue_if (\<not> strict_eq (jget value ''operationId'') (jget value ''capability''))
         ''operationId must equal capability.''
     @ (case op_introducedIn operation of
          None \<Rightarrow> []
        | Some v \<Rightarrow>
            issue_if (v \<noteq> [] \<and> js_less (compareInterfaceVersions
                (case jget value ''interfaceVersion'' of
                   None \<Rightarrow> ''0.0.0'' | Some JNull \<Rightarrow> ''0.0.0'' | Some x \<Rightarrow> js_String x) v) (Some 0))
              (op_operationId operation @ '' requires Shared Interface '' @ v @ '' or later.''))
     @ issue_if (jget value ''authorizationClass'' \<noteq> Some (JStr (op_authorizationClass operation)))
         (''authorizationClass must equal '' @ op_authorizationClass operation @ ''.'')
     @ issue_if (js_String_opt (jget value ''executionProfile'')
           \<notin> set (op_allowedExecutionProfiles operation))
         (''executionProfile is not allowed for '' @ op_operationId operation @ ''.'')"

definition validatorFor :: "deps \<Rightarrow> string \<Rightarrow> json option \<Rightarrow> rt_error + ajv_error list" where
  "validatorFor E schemaRef value =
     (case ext_validate E schemaRef value of
        Some errors \<Rightarrow> Inr errors
      | None \<Rightarrow> Inl (JsError (''No validator registered for '' @ schemaRef)))"

definition validateOperation ::
    "deps \<Rightarrow> string \<Rightarrow> json option \<Rightarrow> direction \<Rightarrow> rt_error + validation_result" where
  "validateOperation E name envelope dir =
     res_bind (resolveOperation name) (\<lambda>operation.
     let value = (if isRecord envelope then envelope else Some (JObj []));
         wrapperSchema = (if dir = Request_direction then op_requestSchema operation
                          else op_responseSchema operation);
         dataSchema = (if dir = Request_direction then op_requestDataSchema operation
                       else op_responseDataSchema operation)
     in
     res_bind (validatorFor E wrapperSchema envelope) (\<lambda>wrapperErrors.
     res_bind (validatorFor E dataSchema (jget value ''data'')) (\<lambda>dataErrors.
     let issues = metadata_issues operation value
           @ validateRuntimeTransitionBindings E (op_operationId operation) value dir
           @ validateRuntimeTransitionLifecycle (op_operationId operation) value dir
           @ map (ajv_issue Wrapper) wrapperErrors
           @ (if isTerminalNullResponse value dir then [] else map (ajv_issue Payload) dataErrors)
     in Inr \<lparr>vr_valid = (issues = []), vr_operation = operation, vr_direction = dir,
             vr_issues = issues\<rparr>)))"

definition assertValidOperation ::
    "deps \<Rightarrow> string \<Rightarrow> json option \<Rightarrow> direction \<Rightarrow> rt_error + json option" where
  "assertValidOperation E name envelope dir =
     res_bind (validateOperation E name envelope dir) (\<lambda>result.
       if \<not> vr_valid result
       then Inl (JsError (''Invalid '' @ direction_str dir @ '' for ''
         @ op_operationId (vr_operation result) @ [CHR '':'', char_of (10::nat)]
         @ js_pretty 0 (json_of_issues (vr_issues result))))
       else Inr envelope)"

definition assertValidSchema :: "deps \<Rightarrow> string \<Rightarrow> json \<Rightarrow> rt_error + unit" where
  "assertValidSchema E schemaRef value =
     res_bind (validatorFor E schemaRef (Some value)) (\<lambda>errors.
       if errors \<noteq> []
       then Inl (JsError (''Invalid value for '' @ schemaRef @ [CHR '':'', char_of (10::nat)]
         @ ext_errorsText E errors))
       else Inr ())"

end
