(* ===== verification/Envelope.thy ===== *)
theory Envelope
  imports Operations
begin

text \<open>
  The envelopes of the Runtime's operations: the request a caller sends and the response the
  Runtime builds (\<open>OperationRequest\<close>, \<open>OperationResponse\<close> of \<open>interface/src/generated.ts\<close>), their
  JSON values, and the constants of the Arc manifest the Runtime compares with.

  The \<open>data\<close> of a request is an untyped value the code casts after validation.  The model has one
  constructor per payload shape of the ten signed operations and \<open>RD_other\<close> for every other
  value; where the code would read a member that the payload does not have, the model throws.
  The \<open>signatureBinding\<close> of a payload may be missing, or an object some of whose members have the
  wrong type.
\<close>


section \<open>Requests\<close>

datatype sig_value = No_sig | Malformed_sig json | Sig runtime_signature_binding

datatype request_data =
    RD_workspace workspace sig_value
  | RD_actor object_ref actor sig_value
  | RD_path path sig_value
  | RD_objectRef object_ref sig_value
  | RD_intent intent sig_value
  | RD_proposal proposal sig_value
  | RD_pact object_ref pact "canonical_record option" sig_value
  | RD_proof proof_object sig_value
  | RD_other json

record operation_request =
  rq_authorizationClass :: string
  rq_canonicalRecordRef :: "object_ref option"
  rq_capability :: string
  rq_createdAt :: string
  rq_data :: request_data
  rq_decisionRef :: "object_ref option"
  rq_executionProfile :: execution_profile
  rq_intentRef :: "object_ref option"
  rq_interfaceVersion :: interface_version
  rq_network :: network_reference
  rq_operationId :: string
  rq_pactRef :: "object_ref option"
  rq_pathRef :: "object_ref option"
  rq_proofRefs :: "object_ref list option"
  rq_proposalRef :: "object_ref option"
  rq_provenance :: provenance
  rq_subject :: subject
  rq_workspaceRef :: "object_ref option"

fun json_of_sig :: "sig_value \<Rightarrow> json option" where
  "json_of_sig No_sig = None"
| "json_of_sig (Malformed_sig j) = Some j"
| "json_of_sig (Sig b) = Some (json_of_runtime_signature_binding b)"

fun json_of_request_data :: "request_data \<Rightarrow> json" where
  "json_of_request_data (RD_workspace w s) =
     jobj [(''workspace'', Some (json_of_workspace w)), (''signatureBinding'', json_of_sig s)]"
| "json_of_request_data (RD_actor r a s) =
     jobj [(''workspaceRef'', Some (json_of_object_ref r)), (''actor'', Some (json_of_actor a)),
           (''signatureBinding'', json_of_sig s)]"
| "json_of_request_data (RD_path p s) =
     jobj [(''path'', Some (json_of_path p)), (''signatureBinding'', json_of_sig s)]"
| "json_of_request_data (RD_objectRef r s) =
     jobj [(''objectRef'', Some (json_of_object_ref r)), (''signatureBinding'', json_of_sig s)]"
| "json_of_request_data (RD_intent i s) =
     jobj [(''intent'', Some (json_of_intent i)), (''signatureBinding'', json_of_sig s)]"
| "json_of_request_data (RD_proposal p s) =
     jobj [(''proposal'', Some (json_of_proposal p)), (''signatureBinding'', json_of_sig s)]"
| "json_of_request_data (RD_pact r p c s) =
     jobj [(''intentRef'', Some (json_of_object_ref r)), (''pact'', Some (json_of_pact p)),
           (''canonicalRecord'', map_option json_of_canonical_record c),
           (''signatureBinding'', json_of_sig s)]"
| "json_of_request_data (RD_proof p s) =
     jobj [(''proof'', Some (json_of_proof_object p)), (''signatureBinding'', json_of_sig s)]"
| "json_of_request_data (RD_other j) = j"

abbreviation ref_json :: "object_ref option \<Rightarrow> json option" where
  "ref_json \<equiv> map_option json_of_object_ref"

abbreviation refs_json :: "object_ref list option \<Rightarrow> json option" where
  "refs_json \<equiv> map_option (\<lambda>rs. JArr (map json_of_object_ref rs))"

definition json_of_request :: "operation_request \<Rightarrow> json" where
  "json_of_request r = jobj [
     (''authorizationClass'', Some (JStr (rq_authorizationClass r))),
     (''canonicalRecordRef'', ref_json (rq_canonicalRecordRef r)),
     (''capability'', Some (JStr (rq_capability r))),
     (''createdAt'', Some (JStr (rq_createdAt r))),
     (''data'', Some (json_of_request_data (rq_data r))),
     (''decisionRef'', ref_json (rq_decisionRef r)),
     (''executionProfile'', Some (JStr (execution_profile_str (rq_executionProfile r)))),
     (''intentRef'', ref_json (rq_intentRef r)),
     (''interfaceVersion'', Some (JStr (interface_version_str (rq_interfaceVersion r)))),
     (''network'', Some (json_of_network_reference (rq_network r))),
     (''operationId'', Some (JStr (rq_operationId r))),
     (''pactRef'', ref_json (rq_pactRef r)),
     (''pathRef'', ref_json (rq_pathRef r)),
     (''proofRefs'', refs_json (rq_proofRefs r)),
     (''proposalRef'', ref_json (rq_proposalRef r)),
     (''provenance'', Some (json_of_provenance (rq_provenance r))),
     (''subject'', Some (json_of_subject (rq_subject r))),
     (''workspaceRef'', ref_json (rq_workspaceRef r))]"


section \<open>Responses\<close>

datatype response_data =
    SD_request request_data
  | SD_path path
  | SD_intent intent
  | SD_decision baphomet_decision
  | SD_proof proof_object
  | SD_pact object_ref pact runtime_signature_binding "canonical_record option"

record operation_response =
  rsp_authorizationClass :: string
  rsp_canonicalRecordRef :: "object_ref option"
  rsp_capability :: string
  rsp_createdAt :: string
  rsp_data :: response_data
  rsp_decisionRef :: "object_ref option"
  rsp_errors :: "interface_error list"
  rsp_executionProfile :: execution_profile
  rsp_intentRef :: "object_ref option"
  rsp_interfaceVersion :: interface_version
  rsp_lifecycleState :: lifecycle_state
  rsp_network :: network_reference
  rsp_operationId :: string
  rsp_pactRef :: "object_ref option"
  rsp_pathRef :: "object_ref option"
  rsp_proofRefs :: "object_ref list option"
  rsp_proposalRef :: "object_ref option"
  rsp_provenance :: provenance
  rsp_subject :: subject
  rsp_transaction :: transaction_state
  rsp_updatedAt :: string
  rsp_workspaceRef :: "object_ref option"

fun json_of_response_data :: "response_data \<Rightarrow> json" where
  "json_of_response_data (SD_request d) = json_of_request_data d"
| "json_of_response_data (SD_path p) = jobj [(''path'', Some (json_of_path p))]"
| "json_of_response_data (SD_intent i) = jobj [(''intent'', Some (json_of_intent i))]"
| "json_of_response_data (SD_decision d) = jobj [(''decision'', Some (json_of_baphomet_decision d))]"
| "json_of_response_data (SD_proof p) = jobj [(''proof'', Some (json_of_proof_object p))]"
| "json_of_response_data (SD_pact r p b c) =
     jobj [(''intentRef'', Some (json_of_object_ref r)), (''pact'', Some (json_of_pact p)),
           (''signatureBinding'', Some (json_of_runtime_signature_binding b)),
           (''canonicalRecord'', map_option json_of_canonical_record c)]"

definition json_of_response :: "operation_response \<Rightarrow> json" where
  "json_of_response r = jobj [
     (''authorizationClass'', Some (JStr (rsp_authorizationClass r))),
     (''canonicalRecordRef'', ref_json (rsp_canonicalRecordRef r)),
     (''capability'', Some (JStr (rsp_capability r))),
     (''createdAt'', Some (JStr (rsp_createdAt r))),
     (''data'', Some (json_of_response_data (rsp_data r))),
     (''decisionRef'', ref_json (rsp_decisionRef r)),
     (''errors'', Some (JArr (map json_of_interface_error (rsp_errors r)))),
     (''executionProfile'', Some (JStr (execution_profile_str (rsp_executionProfile r)))),
     (''intentRef'', ref_json (rsp_intentRef r)),
     (''interfaceVersion'', Some (JStr (interface_version_str (rsp_interfaceVersion r)))),
     (''lifecycleState'', Some (JStr (lifecycle_state_str (rsp_lifecycleState r)))),
     (''network'', Some (json_of_network_reference (rsp_network r))),
     (''operationId'', Some (JStr (rsp_operationId r))),
     (''pactRef'', ref_json (rsp_pactRef r)),
     (''pathRef'', ref_json (rsp_pathRef r)),
     (''proofRefs'', refs_json (rsp_proofRefs r)),
     (''proposalRef'', ref_json (rsp_proposalRef r)),
     (''provenance'', Some (json_of_provenance (rsp_provenance r))),
     (''subject'', Some (json_of_subject (rsp_subject r))),
     (''transaction'', Some (json_of_transaction_state (rsp_transaction r))),
     (''updatedAt'', Some (JStr (rsp_updatedAt r))),
     (''workspaceRef'', ref_json (rsp_workspaceRef r))]"


section \<open>The Arc manifest\<close>

definition arc_network :: network_reference where
  "arc_network = \<lparr>nr_chainId = ''5042002'', nr_networkId = ''arc-testnet''\<rparr>"

definition arc_anchorContract :: string where
  "arc_anchorContract = ''0x941C8029F0f912df3fAb7423890ab2359b996D0b''"

definition arc_signaturePurpose :: string where
  "arc_signaturePurpose = ''offchain-runtime''"

definition arc_signatureDomain :: runtime_signature_domain where
  "arc_signatureDomain =
     \<lparr>rd_chainId = ''5042002'', rd_name = ''OpenRails Runtime'',
      rd_salt = ''0x1544b041010f9c62321178d4f9a37adf6a9ada7feaf89238f6c1b5f27ebd0bbf'',
      rd_verifyingContract = None, rd_version = ''1.2.0''\<rparr>"

definition arc_typedDataDomains :: "signature_domain list" where
  "arc_typedDataDomains =
     [\<lparr>sd_chainId = ''5042002'', sd_name = ''OpenRails Network'', sd_salt = None,
       sd_verifyingContract = ''0x941C8029F0f912df3fAb7423890ab2359b996D0b'',
       sd_version = ''2.0.0''\<rparr>]"

end
