(* ===== verification/Path_Authority.thy ===== *)
theory Path_Authority
  imports Runtime_Store Envelope
begin

text \<open>
  The authority of a Path in \<open>packages/openrails-runtime/src/runtime.ts\<close>: the settlement domain
  its signature must name, the limits on a payment, and the usage counted per limit and period.

  Usage is kept under a key made of the Path, the asset, the index of the limit and the period
  bucket; a payment is admitted only if the count and the amount including it stay within the
  limit, and the raised counters are the reservation the caller stores.
\<close>


section \<open>Helpers\<close>

definition canonical :: "deps \<Rightarrow> json \<Rightarrow> rt_error + string" where
  "canonical E v =
     (case ext_canonicalize E v of
        None \<Rightarrow> Inl (JsError ''Value is not JSON-canonicalizable.'')
      | Some t \<Rightarrow> Inr t)"

lemma canonical_eq_Inr [res_simps]: "canonical E v = Inr t \<longleftrightarrow> ext_canonicalize E v = Some t"
  by (auto simp: canonical_def split: option.splits)

definition sameAsset :: "deps \<Rightarrow> asset \<Rightarrow> asset \<Rightarrow> bool" where
  "sameAsset E left right \<longleftrightarrow>
     as_symbol left = as_symbol right \<and> as_decimals left = as_decimals right \<and>
     as_kind left = as_kind right \<and> sameAddress E (as_address left) (as_address right)"

definition assetKey :: "deps \<Rightarrow> asset \<Rightarrow> rt_error + string" where
  "assetKey E a =
     (case ext_getAddress E (as_address a) of
        None \<Rightarrow> Inl (JsError ''invalid address'')
      | Some addr \<Rightarrow> canonical E (json_of_asset (a\<lparr>as_address := addr\<rparr>)))"

text \<open>Assets a limit treats as the same are counted under the same key.\<close>

lemma assetKey_sameAsset: "sameAsset E a b \<Longrightarrow> assetKey E a = assetKey E b"
  by (cases a; cases b) (auto simp: sameAsset_def assetKey_def sameAddress_iff)


section \<open>The signature binding of a Path\<close>

definition settlementTypedDataDomain :: "deps \<Rightarrow> rt_error + signature_domain" where
  "settlementTypedDataDomain E =
     (case List.find (\<lambda>candidate. sd_chainId candidate = nr_chainId arc_network
             \<and> sameAddress E (sd_verifyingContract candidate) arc_anchorContract)
           arc_typedDataDomains of
        None \<Rightarrow> Inl (rt_err INTERNAL_ERROR
          ''Arc manifest has no settlement typed-data domain for the Runtime anchor.'')
      | Some domain \<Rightarrow> Inr domain)"

definition binds_settlement_domain :: "deps \<Rightarrow> signature_domain \<Rightarrow> signature_binding \<Rightarrow> bool" where
  "binds_settlement_domain E expected b \<longleftrightarrow>
     sb_chainId b = nr_chainId arc_network \<and>
     sameAddress E (sb_verifyingContract b) arc_anchorContract \<and>
     sd_name (sb_domain b) = sd_name expected \<and>
     sd_version (sb_domain b) = sd_version expected \<and>
     sd_chainId (sb_domain b) = sd_chainId expected \<and>
     sameAddress E (sd_verifyingContract (sb_domain b)) (sd_verifyingContract expected) \<and>
     sd_salt (sb_domain b) = sd_salt expected"

text \<open>The window test: both comparisons are false when a side is \<open>NaN\<close>.\<close>

definition binding_window_closed :: "signature_binding \<Rightarrow> int \<Rightarrow> bool" where
  "binding_window_closed b nowMs \<longleftrightarrow>
     js_less (Some nowMs) (Date_parse (sb_issuedAt b)) \<or>
     js_le (Date_parse (sb_expiresAt b)) (Some nowMs)"

definition assertPathBinding :: "deps \<Rightarrow> path \<Rightarrow> int \<Rightarrow> rt_error + unit" where
  "assertPathBinding E path nowMs =
     (let binding = pa_signatureBinding path in
      res_bind (settlementTypedDataDomain E) (\<lambda>expected.
      if \<not> binds_settlement_domain E expected binding
      then Inl (rt_err AUTHORIZATION_REQUIRED
        ''Path signature binding does not match the Arc settlement domain and anchor.'')
      else if binding_window_closed binding nowMs
      then Inl (rt_err AUTHORIZATION_REQUIRED ''Path signature binding is not currently valid.'')
      else Inr ()))"


section \<open>Usage of a period\<close>

definition trunc_div :: "int \<Rightarrow> int \<Rightarrow> int" where
  "trunc_div a b = sgn a * sgn b * (\<bar>a\<bar> div \<bar>b\<bar>)"

text \<open>\<open>bigint\<close> division: truncated, and a \<open>RangeError\<close> on zero.\<close>

definition usageBucketStart :: "int \<Rightarrow> int \<Rightarrow> rt_error + int" where
  "usageBucketStart nowMs periodSeconds =
     (if periodSeconds = 0 then Inl (JsError ''RangeError'')
      else Inr (trunc_div (nowMs div 1000) periodSeconds * periodSeconds))"

lemma trunc_div_nonneg: "0 \<le> a \<Longrightarrow> 0 < b \<Longrightarrow> trunc_div a b = a div b"
  by (cases "a = 0") (simp_all add: trunc_div_def)

text \<open>The bucket holds the current second and is one period long.\<close>

lemma usageBucketStart_bounds:
  assumes "0 \<le> nowMs" and "0 < p" and "usageBucketStart nowMs p = Inr b"
  shows "b \<le> nowMs div 1000 \<and> nowMs div 1000 < b + p \<and> p dvd b \<and> 0 \<le> b"
proof -
  have "0 \<le> nowMs div 1000" using assms(1) by simp
  then have b: "b = (nowMs div 1000) div p * p"
    using assms(2,3) by (simp add: usageBucketStart_def trunc_div_nonneg)
  define n where "n = nowMs div 1000"
  have "n div p * p + n mod p = n" by (rule div_mult_mod_eq)
  moreover have "0 \<le> n mod p" "n mod p < p"
    using assms(2) by simp_all
  ultimately have "n div p * p \<le> n \<and> n < n div p * p + p" by linarith
  moreover have "0 \<le> n div p * p"
    using \<open>0 \<le> nowMs div 1000\<close> assms(2) by (simp add: n_def pos_imp_zdiv_nonneg_iff)
  ultimately show ?thesis using b by (simp add: n_def)
qed

definition zero_usage :: "usage_id \<Rightarrow> path_period_usage" where
  "zero_usage u =
     \<lparr>us_pathId = us_pathId u, us_assetKey = us_assetKey u, us_limitIndex = us_limitIndex u,
      us_periodSeconds = us_periodSeconds u, us_bucketStartSeconds = us_bucketStartSeconds u,
      us_transactionCount = ''0'', us_amount = ''0''\<rparr>"

definition same_usage_id :: "usage_id \<Rightarrow> path_period_usage \<Rightarrow> bool" where
  "same_usage_id expected usage \<longleftrightarrow>
     us_pathId usage = us_pathId expected \<and> us_assetKey usage = us_assetKey expected \<and>
     us_limitIndex usage = us_limitIndex expected \<and>
     us_periodSeconds usage = us_periodSeconds expected \<and>
     us_bucketStartSeconds usage = us_bucketStartSeconds expected"

definition usage_stale :: rt_error where
  "usage_stale = rt_err STATE_STALE
     ''Path period usage state is malformed or does not match its deterministic key.''"

definition currentUsage ::
    "runtime_state \<Rightarrow> string \<Rightarrow> usage_id \<Rightarrow> rt_error + path_period_usage" where
  "currentUsage st key expected =
     (case js_get (st_pathPeriodUsage st) key of
        Absent \<Rightarrow> Inr (zero_usage expected)
      | Inherited \<Rightarrow> Inl usage_stale
      | Own usage \<Rightarrow>
          (if \<not> same_usage_id expected usage \<or> \<not> is_dec_string (us_transactionCount usage)
              \<or> \<not> is_dec_string (us_amount usage)
           then Inl usage_stale else Inr usage))"

lemma currentUsage_eq_Inr:
  "currentUsage st key expected = Inr u \<Longrightarrow>
     same_usage_id expected u \<and> is_dec_string (us_transactionCount u) \<and> is_dec_string (us_amount u)
     \<and> (own (st_pathPeriodUsage st) key = Some u
        \<or> own (st_pathPeriodUsage st) key = None \<and> u = zero_usage expected)"
  by (auto simp: currentUsage_def same_usage_id_def zero_usage_def is_dec_string_def js_get_eq_Absent
      split: js_prop.splits if_splits)


section \<open>The limits of a payment\<close>

text \<open>\<open>integer(terms.x!)\<close>: an absent member is \<open>BigInt(undefined)\<close>, a \<open>TypeError\<close>.\<close>

definition integer_opt :: "string option \<Rightarrow> rt_error + int" where
  "integer_opt v = (case v of None \<Rightarrow> Inl (JsError ''TypeError'') | Some s \<Rightarrow> integer s)"

text \<open>\<open>bound !== undefined && integer(value) > integer(bound)\<close>, and the error it raises.\<close>

definition check_bound :: "(rt_error + int) \<Rightarrow> string option \<Rightarrow> string \<Rightarrow> rt_error + unit" where
  "check_bound value bound msg =
     (case bound of
        None \<Rightarrow> Inr ()
      | Some b \<Rightarrow>
          res_bind value (\<lambda>v.
          res_bind (integer b) (\<lambda>m.
          if m < v then Inl (rt_err POLICY_BLOCKED msg) else Inr ())))"

definition assertLimitTerms :: "path_limit \<Rightarrow> payment_terms \<Rightarrow> rt_error + unit" where
  "assertLimitTerms limit terms =
     res_bind (integer (pt_amount terms)) (\<lambda>amount.
     res_bind (integer (li_maxAmount limit)) (\<lambda>maxAmount.
     if maxAmount < amount
     then Inl (rt_err POLICY_BLOCKED ''Payment amount exceeds the Path limit maximum amount.'')
     else
     res_bind (check_bound (Inr amount) (li_maxAmountPerTransaction limit)
       ''Payment amount exceeds the Path per-transaction maximum.'') (\<lambda>_.
     if pt_settlementShape terms = SS_streamed
     then
       res_bind (check_bound (integer_opt (pt_velocityPerSecond terms)) (li_maxVelocityPerSecond limit)
         ''Stream velocity exceeds the Path limit.'') (\<lambda>_.
       check_bound (integer_opt (pt_lifespanSeconds terms)) (li_maxLifespanSeconds limit)
         ''Stream lifespan exceeds the Path limit.'')
     else Inr ())))"

record usage_reservation =
  ur_key :: string
  ur_value :: path_period_usage

definition usage_id_of :: "path \<Rightarrow> string \<Rightarrow> nat \<Rightarrow> path_limit \<Rightarrow> int \<Rightarrow> usage_id" where
  "usage_id_of path normalizedAsset limitIndex limit bucketStart =
     \<lparr>us_pathId = pa_id path, us_assetKey = normalizedAsset, us_limitIndex = int limitIndex,
      us_periodSeconds = li_periodSeconds limit, us_bucketStartSeconds = show_int bucketStart\<rparr>"

definition raised_usage :: "usage_id \<Rightarrow> int \<Rightarrow> int \<Rightarrow> path_period_usage" where
  "raised_usage u nextCount nextAmount =
     (zero_usage u)\<lparr>us_transactionCount := show_int nextCount, us_amount := show_int nextAmount\<rparr>"

text \<open>The reservation of one limit: the second half of the loop body.\<close>

definition reserve_limit ::
    "deps \<Rightarrow> runtime_state \<Rightarrow> path \<Rightarrow> path_limit \<Rightarrow> nat \<Rightarrow> payment_terms \<Rightarrow> int \<Rightarrow>
     rt_error + usage_reservation" where
  "reserve_limit E st path limit limitIndex terms nowMs =
     res_bind (integer (li_periodSeconds limit)) (\<lambda>period.
     res_bind (usageBucketStart nowMs period) (\<lambda>bucketStart.
     res_bind (assetKey E (li_asset limit)) (\<lambda>normalizedAsset.
     let expected = usage_id_of path normalizedAsset limitIndex limit bucketStart in
     res_bind (pathPeriodUsageKey E expected) (\<lambda>key.
     res_bind (currentUsage st key expected) (\<lambda>usage.
     res_bind (integer (us_transactionCount usage)) (\<lambda>count.
     res_bind (integer (us_amount usage)) (\<lambda>used.
     res_bind (integer (pt_amount terms)) (\<lambda>amount.
     let nextCount = count + 1; nextAmount = used + amount in
     res_bind (integer (li_maxTransactionsPerPeriod limit)) (\<lambda>maxCount.
     if maxCount < nextCount
     then Inl (rt_err POLICY_BLOCKED ''Path transaction count exceeds the current period limit.'')
     else
     res_bind (integer (li_maxAmount limit)) (\<lambda>maxAmount.
     if maxAmount < nextAmount
     then Inl (rt_err POLICY_BLOCKED ''Path cumulative amount exceeds the current period limit.'')
     else Inr \<lparr>ur_key = key, ur_value = raised_usage expected nextCount nextAmount\<rparr>))))))))))"

fun check_limits ::
    "deps \<Rightarrow> runtime_state \<Rightarrow> path \<Rightarrow> payment_terms \<Rightarrow> int \<Rightarrow> bool \<Rightarrow> (path_limit \<times> nat) list \<Rightarrow>
     rt_error + usage_reservation list" where
  "check_limits E st path terms nowMs reserveUsage [] = Inr []"
| "check_limits E st path terms nowMs reserveUsage ((limit, limitIndex) # rest) =
     res_bind (assertLimitTerms limit terms) (\<lambda>_.
     if \<not> reserveUsage then check_limits E st path terms nowMs reserveUsage rest
     else
     res_bind (reserve_limit E st path limit limitIndex terms nowMs) (\<lambda>r.
     res_bind (check_limits E st path terms nowMs reserveUsage rest) (\<lambda>rs.
     Inr (r # rs))))"

definition applicable_limits :: "deps \<Rightarrow> path \<Rightarrow> asset \<Rightarrow> (path_limit \<times> nat) list" where
  "applicable_limits E path a =
     filter (\<lambda>(limit, i). sameAsset E (li_asset limit) a)
       (zip (pa_limits path) [0..<length (pa_limits path)])"

definition assertPathAuthority ::
    "deps \<Rightarrow> runtime_state \<Rightarrow> path \<Rightarrow> intent \<Rightarrow> payment_terms \<Rightarrow> int \<Rightarrow> bool \<Rightarrow>
     rt_error + usage_reservation list" where
  "assertPathAuthority E st path intent terms nowMs reserveUsage =
     res_bind (assertPathBinding E path nowMs) (\<lambda>_.
     if intent_action_str (in_action intent) \<notin> set (pa_capabilities path)
     then Inl (rt_err AUTHORIZATION_REQUIRED ''Intent action is outside the Path capabilities.'')
     else
     let applicable = applicable_limits E path (pt_asset terms) in
     if applicable = []
     then Inl (rt_err AUTHORIZATION_REQUIRED
       ''Path has no applicable limit for the payment asset.'')
     else check_limits E st path terms nowMs reserveUsage applicable)"

text \<open>\<open>for (const reservation of reservations) draft.pathPeriodUsage[key] = value\<close>\<close>

definition store_reservations :: "usage_reservation list \<Rightarrow> runtime_state \<Rightarrow> runtime_state" where
  "store_reservations rs draft =
     fold (\<lambda>r d. d\<lparr>st_pathPeriodUsage := js_set (ur_key r) (ur_value r) (st_pathPeriodUsage d)\<rparr>)
       rs draft"

end
