(* ===== verification/Runtime_Signature.thy ===== *)
theory Runtime_Signature
  imports Envelope
begin

text \<open>
  Signature verification of the Runtime: the typed data of a transition
  (\<open>interface/src/runtime-signature.ts\<close>), the read-only JSON-RPC provider
  (\<open>packages/openrails-runtime/src/provider.ts\<close>) and the verifier that tells externally owned
  accounts from contract accounts (\<open>signature.ts\<close>).
\<close>


section \<open>The typed data of a transition\<close>

definition RUNTIME_TRANSITION_PRIMARY_TYPE :: string where
  "RUNTIME_TRANSITION_PRIMARY_TYPE = ''OpenRailsRuntimeTransition''"

definition RUNTIME_TRANSITION_TYPES :: typed_fields where
  "RUNTIME_TRANSITION_TYPES =
     [(''operationId'', ''string''), (''payloadHash'', ''bytes32''), (''signer'', ''address''),
      (''nonce'', ''uint256''), (''issuedAt'', ''string''), (''expiresAt'', ''string''),
      (''signaturePurpose'', ''string''), (''anchorContract'', ''address'')]"

definition runtimeTransitionDomain :: "runtime_signature_binding \<Rightarrow> typed_fields" where
  "runtimeTransitionDomain b =
     (let d = rb_domain b in
      [(''name'', rd_name d), (''version'', rd_version d), (''chainId'', rd_chainId d),
       (''salt'', rd_salt d)])"

definition runtimeTransitionMessage :: "runtime_signature_binding \<Rightarrow> typed_fields" where
  "runtimeTransitionMessage b =
     [(''operationId'', rb_operationId b), (''payloadHash'', rb_payloadHash b),
      (''signer'', rb_signer b), (''nonce'', rb_nonce b), (''issuedAt'', rb_issuedAt b),
      (''expiresAt'', rb_expiresAt b), (''signaturePurpose'', rb_signaturePurpose b),
      (''anchorContract'', rb_anchorContract b)]"

text \<open>The signed message has exactly the fields of the type, in order.\<close>

lemma message_matches_types:
  "map fst (runtimeTransitionMessage b) = map fst RUNTIME_TRANSITION_TYPES"
  by (simp add: runtimeTransitionMessage_def RUNTIME_TRANSITION_TYPES_def)

text \<open>
  The typed data covers the operation, the payload hash, the signer, the nonce and the time
  window: two bindings with the same domain and message agree on all of them.
\<close>

lemma message_covers_binding:
  assumes "runtimeTransitionMessage a = runtimeTransitionMessage b"
  shows "rb_operationId a = rb_operationId b \<and> rb_payloadHash a = rb_payloadHash b
    \<and> rb_signer a = rb_signer b \<and> rb_nonce a = rb_nonce b \<and> rb_issuedAt a = rb_issuedAt b
    \<and> rb_expiresAt a = rb_expiresAt b \<and> rb_anchorContract a = rb_anchorContract b"
  using assms by (simp add: runtimeTransitionMessage_def)

definition hashRuntimeTransition :: "deps \<Rightarrow> runtime_signature_binding \<Rightarrow> rt_error + string" where
  "hashRuntimeTransition E b =
     (case ext_hashTypedData E (runtimeTransitionDomain b) (runtimeTransitionMessage b) of
        Some digest \<Rightarrow> Inr digest
      | None \<Rightarrow> Inl (JsError ''invalid typed data''))"

definition getAddress_or_throw :: "deps \<Rightarrow> string \<Rightarrow> rt_error + string" where
  "getAddress_or_throw E a =
     (case ext_getAddress E a of
        Some x \<Rightarrow> Inr x
      | None \<Rightarrow> Inl (JsError ''invalid address''))"

lemma getAddress_or_throw_eq [res_simps]:
  "getAddress_or_throw E a = Inr x \<longleftrightarrow> ext_getAddress E a = Some x"
  by (auto simp: getAddress_or_throw_def split: option.splits)

definition recoverRuntimeTransitionSigner ::
    "deps \<Rightarrow> runtime_signature_binding \<Rightarrow> rt_error + string" where
  "recoverRuntimeTransitionSigner E b =
     (case ext_verifyTypedData E (runtimeTransitionDomain b) (runtimeTransitionMessage b)
             (rb_signature b) of
        Some a \<Rightarrow> getAddress_or_throw E a
      | None \<Rightarrow> Inl (JsError ''invalid signature''))"


section \<open>The read-only provider\<close>

text \<open>The source's pattern \<open>/^0x(?:[0-9a-fA-F]{2})*$/\<close>.\<close>

definition is_hex_char :: "char \<Rightarrow> bool" where
  "is_hex_char c \<longleftrightarrow> radix_digit 16 c \<noteq> None"

definition is_hex_bytes :: "string \<Rightarrow> bool" where
  "is_hex_bytes s \<longleftrightarrow> take 2 s = ''0x'' \<and> list_all is_hex_char (drop 2 s) \<and> even (length s)"

text \<open>What the transport answers to one JSON-RPC call.\<close>

record rpc_body =
  body_result :: "json option"
  body_error :: "(int option \<times> string option) option"

datatype rpc_reply =
    Fetch_throws string
  | Http_reply (reply_ok: bool) (reply_status: int) (reply_body: "rpc_body option")

datatype rpc_method = Eth_getCode | Eth_call

fun method_name :: "rpc_method \<Rightarrow> string" where
  "method_name Eth_getCode = ''eth_getCode''"
| "method_name Eth_call = ''eth_call''"

type_synonym rpc_transport = "int \<Rightarrow> rpc_method \<Rightarrow> json list \<Rightarrow> rpc_reply"

definition assertHex :: "json option \<Rightarrow> string \<Rightarrow> rt_error + string" where
  "assertHex value field =
     (case value of
        Some (JStr s) \<Rightarrow>
          (if is_hex_bytes s then Inr s
           else Inl (JsError (''Arc RPC returned malformed '' @ field)))
      | _ \<Rightarrow> Inl (JsError (''Arc RPC returned malformed '' @ field)))"

text \<open>
  \<open>request\<close>; the counter is the provider's \<open>requestId\<close>, incremented before it is used.  A body that
  is no JSON is \<open>None\<close> (\<open>response.json()\<close> throws).
\<close>

definition rpc_request ::
    "rpc_transport \<Rightarrow> int \<Rightarrow> rpc_method \<Rightarrow> json list \<Rightarrow> (rt_error + string) \<times> int" where
  "rpc_request fetchImpl requestId method params =
     (let id' = requestId + 1 in
      (case fetchImpl id' method params of
         Fetch_throws msg \<Rightarrow> Inl (JsError msg)
       | Http_reply ok status body \<Rightarrow>
           (if \<not> ok
            then Inl (JsError (''Arc RPC '' @ method_name method @ '' failed with HTTP ''
                   @ show_int status))
            else (case body of
                    None \<Rightarrow> Inl (JsError ''SyntaxError'')
                  | Some b \<Rightarrow>
                      (case body_error b of
                         Some (code, msg) \<Rightarrow>
                           Inl (JsError (''Arc RPC '' @ method_name method @ '' error ''
                             @ (case code of Some c \<Rightarrow> show_int c | None \<Rightarrow> ''unknown'') @ '': ''
                             @ (case msg of Some m \<Rightarrow> m | None \<Rightarrow> ''unknown error'')))
                       | None \<Rightarrow> assertHex (body_result b) (method_name method)))),
       id'))"

text \<open>The interface the verifier uses: code of an account, and a read-only call.\<close>

record arc_provider =
  prov_getCode :: "string \<Rightarrow> rt_error + json"
  prov_call :: "string \<Rightarrow> string \<Rightarrow> rt_error + json"

text \<open>\<open>ArcJsonRpcProvider\<close>, for the answers of the transport to the current request.\<close>

definition arcJsonRpcProvider :: "deps \<Rightarrow> rpc_transport \<Rightarrow> int \<Rightarrow> arc_provider" where
  "arcJsonRpcProvider E fetchImpl requestId =
     \<lparr>prov_getCode = (\<lambda>address.
        res_bind (getAddress_or_throw E address) (\<lambda>a.
        res_bind (fst (rpc_request fetchImpl requestId Eth_getCode [JStr a, JStr ''latest''])) (\<lambda>h.
        Inr (JStr h)))),
      prov_call = (\<lambda>to data.
        res_bind (getAddress_or_throw E to) (\<lambda>a.
        res_bind (assertHex (Some (JStr data)) ''call data'') (\<lambda>d.
        res_bind (fst (rpc_request fetchImpl requestId Eth_call
          [jobj [(''to'', Some (JStr a)), (''data'', Some (JStr d))], JStr ''latest''])) (\<lambda>h.
        Inr (JStr h)))))\<rparr>"


section \<open>The verifier\<close>

definition EIP1271_MAGIC_VALUE :: string where
  "EIP1271_MAGIC_VALUE = ''0x1626ba7e''"

text \<open>The reason shown for an error that is caught: its message.\<close>

fun error_message :: "rt_error \<Rightarrow> string" where
  "error_message (RuntimeError c m r d) = m"
| "error_message (JsError m) = m"

definition assertRpcHex :: "json \<Rightarrow> string \<Rightarrow> rt_error + string" where
  "assertRpcHex value field =
     (case value of
        JStr s \<Rightarrow> if is_hex_bytes s then Inr s else
          Inl (RuntimeError RPC_UNAVAILABLE (''Arc provider returned malformed '' @ field @ ''.'') True
            (Some \<lparr>ed_field = Some field, ed_providerCode = None,
                   ed_reason = Some ''malformed hexadecimal response''\<rparr>))
      | _ \<Rightarrow>
          Inl (RuntimeError RPC_UNAVAILABLE (''Arc provider returned malformed '' @ field @ ''.'') True
            (Some \<lparr>ed_field = Some field, ed_providerCode = None,
                   ed_reason = Some ''malformed hexadecimal response''\<rparr>)))"

text \<open>\<open>catch (error) { if (error instanceof RuntimeError) throw error; throw new ...(RPC_UNAVAILABLE) }\<close>\<close>

definition rpc_guard :: "string \<Rightarrow> rt_error + 'a \<Rightarrow> rt_error + 'a" where
  "rpc_guard msg r =
     (case r of
        Inr x \<Rightarrow> Inr x
      | Inl e \<Rightarrow> if isRuntimeError e then Inl e
                else Inl (RuntimeError RPC_UNAVAILABLE msg True (reason_details (error_message e))))"

definition verifyEoa :: "deps \<Rightarrow> runtime_signature_binding \<Rightarrow> rt_error + unit" where
  "verifyEoa E b =
     (case res_bind (recoverRuntimeTransitionSigner E b) (\<lambda>recovered.
             res_bind (getAddress_or_throw E recovered) (\<lambda>l.
             res_bind (getAddress_or_throw E (rb_signer b)) (\<lambda>r.
             if l \<noteq> r then Inl (JsError ''recovered signer differs from binding signer'')
             else Inr ()))) of
        Inr u \<Rightarrow> Inr ()
      | Inl e \<Rightarrow> Inl (RuntimeError SIGNATURE_INVALID ''EIP-712 EOA signature is invalid.'' False
                  (reason_details (error_message e))))"

definition verifyContract ::
    "deps \<Rightarrow> arc_provider \<Rightarrow> runtime_signature_binding \<Rightarrow> rt_error + unit" where
  "verifyContract E P b =
     res_bind (hashRuntimeTransition E b) (\<lambda>digest.
     (case ext_encodeIsValidSignature E digest (rb_signature b) of
        None \<Rightarrow> Inl (RuntimeError SIGNATURE_INVALID
                  ''The contract signature input cannot be ABI encoded.'' False
                  (reason_details ''ABI encoding failed''))
      | Some callData \<Rightarrow>
          res_bind (rpc_guard ''EIP-1271 verification RPC failed.''
            (res_bind (prov_call P (rb_signer b) callData) (\<lambda>v.
               assertRpcHex v ''EIP-1271 return data''))) (\<lambda>result.
          (case ext_decodeIsValidSignature E result of
             None \<Rightarrow> Inl (RuntimeError SIGNATURE_INVALID
                       ''The contract signer rejected the EIP-1271 signature.'' False
                       (reason_details ''malformed EIP-1271 return data''))
           | Some decoded \<Rightarrow>
               (if toLowerCase decoded \<noteq> EIP1271_MAGIC_VALUE
                then Inl (RuntimeError SIGNATURE_INVALID
                       ''The contract signer rejected the EIP-1271 signature.'' False
                       (reason_details ''contract did not return the EIP-1271 magic value''))
                else Inr ())))))"

definition verify :: "deps \<Rightarrow> arc_provider \<Rightarrow> runtime_signature_binding \<Rightarrow> rt_error + unit" where
  "verify E P b =
     res_bind (rpc_guard
         ''Unable to determine whether the runtime signer is a contract account.''
         (res_bind (prov_getCode P (rb_signer b)) (\<lambda>v. assertRpcHex v ''contract code'')))
       (\<lambda>code. if code = ''0x'' then verifyEoa E b else verifyContract E P b)"


section \<open>What an accepted signature means\<close>

lemma assertRpcHex_eq_Inr [res_simps]:
  "assertRpcHex v f = Inr s \<longleftrightarrow> v = JStr s \<and> is_hex_bytes s"
  by (auto simp: assertRpcHex_def split: json.splits if_splits)

lemma rpc_guard_eq_Inr [res_simps]: "rpc_guard msg r = Inr x \<longleftrightarrow> r = Inr x"
  by (auto simp: rpc_guard_def split: sum.splits if_splits)

lemma rpc_guard_eq_Inl: "rpc_guard msg r = Inl e \<Longrightarrow> isRuntimeError e"
  by (auto simp: rpc_guard_def split: sum.splits if_splits)

lemma verifyEoa_eq_Inr:
  "verifyEoa E b = Inr () \<longleftrightarrow>
     (\<exists>recovered. recoverRuntimeTransitionSigner E b = Inr recovered
        \<and> sameAddress E recovered (rb_signer b))"
  by (auto simp: verifyEoa_def sameAddress_iff res_simps)

lemma verifyContract_eq_Inr:
  "verifyContract E P b = Inr () \<longleftrightarrow>
     (\<exists>digest callData result decoded.
        hashRuntimeTransition E b = Inr digest
        \<and> ext_encodeIsValidSignature E digest (rb_signature b) = Some callData
        \<and> prov_call P (rb_signer b) callData = Inr (JStr result) \<and> is_hex_bytes result
        \<and> ext_decodeIsValidSignature E result = Some decoded
        \<and> toLowerCase decoded = EIP1271_MAGIC_VALUE)"
  by (auto simp: verifyContract_def res_simps)

lemma verify_eq_Inr:
  "verify E P b = Inr () \<longleftrightarrow>
     (\<exists>code. prov_getCode P (rb_signer b) = Inr (JStr code) \<and> is_hex_bytes code
        \<and> (if code = ''0x'' then verifyEoa E b else verifyContract E P b) = Inr ())"
  by (auto simp: verify_def res_simps)

end
