(* ===== verification/Runtime_Checks.thy ===== *)
theory Runtime_Checks
  imports Path_Authority Runtime_Signature
begin

text \<open>
  The guards of the Runtime's transitions (\<open>packages/openrails-runtime/src/runtime.ts\<close> and
  \<open>stored-state.ts\<close>): reading a stored object with its schema, key and status checks, the
  authority behind a Workspace and a Path, the binding of a Canonical Record to its Pact, and the
  signed envelope.
\<close>


section \<open>Stored objects\<close>

text \<open>\<open>assertValidStoredState\<close>: a stored value the schema rejects is stale state.\<close>

definition schema_id :: "string \<Rightarrow> string" where
  "schema_id name = schema_root @ name @ ''.schema.json''"

definition stale_schema :: "string \<Rightarrow> string \<Rightarrow> rt_error" where
  "stale_schema label reason =
     RuntimeError STATE_STALE (label @ '' failed Shared Interface 1.2 schema validation.'') False
       (reason_details reason)"

definition assertValidStoredState :: "deps \<Rightarrow> string \<Rightarrow> json \<Rightarrow> string \<Rightarrow> rt_error + unit" where
  "assertValidStoredState E schema value label =
     (case assertValidSchema E (schema_id schema) value of
        Inl e \<Rightarrow> Inl (stale_schema label (error_message e))
      | Inr u \<Rightarrow> Inr ())"

text \<open>
  Reading \<open>state.xs[id]\<close>: an absent value is \<open>missing\<close>; an inherited method is truthy, and the
  schema rejects it since it is no object.
\<close>

definition load ::
    "deps \<Rightarrow> 'v js_record \<Rightarrow> string \<Rightarrow> rt_error \<Rightarrow> string \<Rightarrow> ('v \<Rightarrow> json) \<Rightarrow> string \<Rightarrow> rt_error + 'v" where
  "load E r oid missing schema enc label =
     (case js_get r oid of
        Absent \<Rightarrow> Inl missing
      | Inherited \<Rightarrow> Inl (stale_schema label ''must be object'')
      | Own v \<Rightarrow> res_bind (assertValidStoredState E schema (enc v) label) (\<lambda>_. Inr v))"

lemma load_eq_Inr [res_simps]:
  "load E r oid missing schema enc label = Inr v \<longleftrightarrow>
     own r oid = Some v \<and> assertValidStoredState E schema (enc v) label = Inr ()"
  by (auto simp: load_def res_simps split: js_prop.splits)
    (auto simp: js_get_own split: option.splits if_splits)

definition isUsableWorkspace :: "workspace \<Rightarrow> bool" where
  "isUsableWorkspace w \<longleftrightarrow> ws_status w = WS_DRAFT \<or> ws_status w = WS_ACTIVE"

definition isUsableActor :: "actor \<Rightarrow> bool" where
  "isUsableActor a \<longleftrightarrow> ac_authorityStatus a \<noteq> AS_SUSPENDED \<and> ac_authorityStatus a \<noteq> AS_REVOKED"

definition isUsableIntent :: "intent \<Rightarrow> int \<Rightarrow> bool" where
  "isUsableIntent i nowMs \<longleftrightarrow>
     (case Date_parse (in_expiresAt i) of None \<Rightarrow> False | Some expiry \<Rightarrow> nowMs < expiry) \<and>
     in_status i \<notin> {LS_FAILED, LS_CANCELLED, LS_SETTLED, LS_RESOLVED}"

definition requireWorkspace :: "deps \<Rightarrow> runtime_state \<Rightarrow> string \<Rightarrow> rt_error + workspace" where
  "requireWorkspace E st oid =
     res_bind (load E (st_workspaces st) oid
       (rt_err AUTHORIZATION_REQUIRED ''Workspace is missing or not usable.'')
       ''workspace'' json_of_workspace (''Workspace '' @ oid)) (\<lambda>workspace.
     if ws_id workspace \<noteq> oid
     then Inl (rt_err STATE_STALE ''Stored Workspace ID does not match its state key.'')
     else if \<not> isUsableWorkspace workspace
     then Inl (rt_err AUTHORIZATION_REQUIRED ''Workspace is missing or not usable.'')
     else Inr workspace)"

definition requireActor :: "deps \<Rightarrow> runtime_state \<Rightarrow> string \<Rightarrow> rt_error + actor" where
  "requireActor E st oid =
     res_bind (load E (st_actors st) oid
       (rt_err AUTHORIZATION_REQUIRED ''Actor is missing or not active.'')
       ''actor'' json_of_actor (''Actor '' @ oid)) (\<lambda>actor.
     if ac_id actor \<noteq> oid
     then Inl (rt_err STATE_STALE ''Stored Actor ID does not match its state key.'')
     else if \<not> isUsableActor actor
     then Inl (rt_err AUTHORIZATION_REQUIRED ''Actor is missing or not active.'')
     else Inr actor)"

definition requirePath :: "deps \<Rightarrow> runtime_state \<Rightarrow> string \<Rightarrow> rt_error + path" where
  "requirePath E st oid =
     res_bind (load E (st_paths st) oid
       (rt_err AUTHORIZATION_REQUIRED ''Path is missing or not active.'')
       ''path'' json_of_path (''Path '' @ oid)) (\<lambda>path.
     if pa_id path \<noteq> oid
     then Inl (rt_err STATE_STALE ''Stored Path ID does not match its state key.'')
     else if pa_status path \<noteq> PS_ACTIVE
     then Inl (rt_err AUTHORIZATION_REQUIRED ''Path is missing or not active.'')
     else Inr path)"

definition requireAttestedPath :: "deps \<Rightarrow> runtime_state \<Rightarrow> path \<Rightarrow> rt_error + unit" where
  "requireAttestedPath E st path =
     (case js_get (st_pathAttestations st) (pa_id path) of
        Absent \<Rightarrow>
          Inl (rt_err AUTHORIZATION_REQUIRED ''Path has not passed authenticated ingestion.'')
      | Inherited \<Rightarrow>
          Inl (rt_err AUTHORIZATION_REQUIRED ''Path has not passed authenticated ingestion.'')
      | Own stored \<Rightarrow>
          res_bind (assertValidStoredState E ''path'' (json_of_path (sa_path stored))
            (''Path attestation '' @ pa_id path)) (\<lambda>_.
          res_bind (assertValidStoredState E ''provenance''
            (json_of_provenance (sa_provenance stored))
            (''Path attestation provenance '' @ pa_id path)) (\<lambda>_.
          if pa_id (sa_path stored) \<noteq> pa_id path
             \<or> \<not> sameValue E (json_of_path (sa_path stored)) (json_of_path path)
             \<or> \<not> sameValue E (json_of_provenance (sa_provenance stored))
                   (json_of_provenance (pa_provenance path))
             \<or> \<not> sameValue E (json_of_provenance (pa_provenance (sa_path stored)))
                   (json_of_provenance (sa_provenance stored))
          then Inl (rt_err STATE_STALE
            ''Path does not match its authenticated ingestion snapshot.'')
          else Inr ())))"

definition requireIntent :: "deps \<Rightarrow> runtime_state \<Rightarrow> string \<Rightarrow> int \<Rightarrow> rt_error + intent" where
  "requireIntent E st oid nowMs =
     res_bind (load E (st_intents st) oid
       (rt_err AUTHORIZATION_REQUIRED ''Intent is missing, expired, or closed.'')
       ''intent'' json_of_intent (''Intent '' @ oid)) (\<lambda>intent.
     if in_id intent \<noteq> oid
     then Inl (rt_err STATE_STALE ''Stored Intent ID does not match its state key.'')
     else if \<not> isUsableIntent intent nowMs
     then Inl (rt_err AUTHORIZATION_REQUIRED ''Intent is missing, expired, or closed.'')
     else Inr intent)"

definition requireProposal :: "deps \<Rightarrow> runtime_state \<Rightarrow> string \<Rightarrow> rt_error + proposal" where
  "requireProposal E st oid =
     res_bind (load E (st_proposals st) oid
       (rt_err AUTHORIZATION_REQUIRED ''Proposal is missing.'')
       ''proposal'' json_of_proposal (''Proposal '' @ oid)) (\<lambda>proposal.
     if pr_id proposal \<noteq> oid
     then Inl (rt_err STATE_STALE ''Stored Proposal ID does not match its state key.'')
     else Inr proposal)"

definition requireDecision :: "deps \<Rightarrow> runtime_state \<Rightarrow> string \<Rightarrow> rt_error + baphomet_decision" where
  "requireDecision E st oid =
     res_bind (load E (st_decisions st) oid
       (rt_err AUTHORIZATION_REQUIRED ''Baphomet Decision is missing.'')
       ''decision'' json_of_baphomet_decision (''Baphomet Decision '' @ oid)) (\<lambda>decision.
     if de_id decision \<noteq> oid
     then Inl (rt_err STATE_STALE ''Stored Baphomet Decision ID does not match its state key.'')
     else Inr decision)"

definition requirePact :: "deps \<Rightarrow> runtime_state \<Rightarrow> string \<Rightarrow> rt_error + pact" where
  "requirePact E st oid =
     res_bind (load E (st_pacts st) oid
       (rt_err AUTHORIZATION_REQUIRED ''Pact is missing or not active.'')
       ''pact'' json_of_pact (''Pact '' @ oid)) (\<lambda>pact.
     if pc_id pact \<noteq> oid
     then Inl (rt_err STATE_STALE ''Stored Pact ID does not match its state key.'')
     else if pc_status pact \<noteq> PTS_ACTIVE
     then Inl (rt_err AUTHORIZATION_REQUIRED ''Pact is missing or not active.'')
     else Inr pact)"

definition requireProof :: "deps \<Rightarrow> runtime_state \<Rightarrow> string \<Rightarrow> rt_error + proof_object" where
  "requireProof E st oid =
     res_bind (load E (st_proofs st) oid
       (rt_err AUTHORIZATION_REQUIRED ''Proof is missing.'')
       ''proof'' json_of_proof_object (''Proof '' @ oid)) (\<lambda>prf.
     if pf_id prf \<noteq> oid
     then Inl (rt_err STATE_STALE ''Stored Proof ID does not match its state key.'')
     else Inr prf)"

text \<open>The wallet that registered a Workspace; an empty text is falsy.\<close>

definition requireWorkspaceAuthority :: "deps \<Rightarrow> runtime_state \<Rightarrow> string \<Rightarrow> rt_error + string" where
  "requireWorkspaceAuthority E st workspaceId =
     (case js_get (st_workspaceAuthorities st) workspaceId of
        Absent \<Rightarrow> Inl (rt_err AUTHORIZATION_REQUIRED ''Workspace authority is missing.'')
      | Inherited \<Rightarrow>
          Inl (rt_err STATE_STALE ''Stored Workspace authority is not a valid wallet address.'')
      | Own storedAuthority \<Rightarrow>
          (if storedAuthority = []
           then Inl (rt_err AUTHORIZATION_REQUIRED ''Workspace authority is missing.'')
           else (case ext_getAddress E storedAuthority of
                   None \<Rightarrow> Inl (rt_err STATE_STALE
                     ''Stored Workspace authority is not a valid wallet address.'')
                 | Some a \<Rightarrow> Inr a)))"

text \<open>\<open>requireStoredPact\<close> throws when the Pact is already recorded, in either dictionary.\<close>

definition truthy_text :: "string js_prop \<Rightarrow> bool" where
  "truthy_text p = (case p of Absent \<Rightarrow> False | Inherited \<Rightarrow> True | Own s \<Rightarrow> s \<noteq> [])"

definition requireStoredPact :: "deps \<Rightarrow> runtime_state \<Rightarrow> string \<Rightarrow> rt_error + unit" where
  "requireStoredPact E st oid =
     (if present (js_get (st_pacts st) oid)
      then res_bind (load E (st_pacts st) oid (JsError '''') ''pact'' json_of_pact (''Pact '' @ oid))
        (\<lambda>pact.
          if pc_id pact \<noteq> oid
          then Inl (rt_err STATE_STALE ''Stored Pact ID does not match its state key.'')
          else Inl (rt_err STATE_STALE ''Pact has already been recorded.''))
      else if truthy_text (js_get (st_committedPacts st) oid)
      then Inl (rt_err STATE_STALE ''Pact has already been recorded.'')
      else Inr ())"


section \<open>References\<close>

text \<open>\<open>refId\<close>: the id of a reference of the expected type.\<close>

definition refId :: "object_ref option \<Rightarrow> object_type \<Rightarrow> string \<Rightarrow> rt_error + string" where
  "refId value expectedType field =
     (case value of
        None \<Rightarrow> Inl (rt_err AUTHORIZATION_REQUIRED
          (field @ '' is not a valid '' @ object_type_str expectedType @ '' reference.''))
      | Some r \<Rightarrow>
          (if ref_type r \<noteq> expectedType
           then Inl (rt_err AUTHORIZATION_REQUIRED
             (field @ '' is not a valid '' @ object_type_str expectedType @ '' reference.''))
           else Inr (ref_id r)))"

definition assertReference ::
    "object_ref option \<Rightarrow> object_ref option \<Rightarrow> string \<Rightarrow> rt_error + unit" where
  "assertReference value expected field =
     (if \<not> sameRef value expected
      then Inl (rt_err AUTHORIZATION_REQUIRED
        (field @ '' does not match the authorized object reference.''))
      else Inr ())"

definition assertPathIssuerAuthority ::
    "deps \<Rightarrow> runtime_state \<Rightarrow> workspace \<Rightarrow> path \<Rightarrow> rt_error + unit" where
  "assertPathIssuerAuthority E st workspace path =
     res_bind (refId (Some (pa_issuerActorRef path)) OT_Actor ''path.issuerActorRef'') (\<lambda>issuerId.
     res_bind (requireActor E st issuerId) (\<lambda>issuer.
     res_bind (requireWorkspaceAuthority E st (ws_id workspace)) (\<lambda>authority.
     if \<not> walletIs E (ac_walletAddress issuer) (sb_signer (pa_signatureBinding path))
        \<or> \<not> sameAddress E authority (sb_signer (pa_signatureBinding path))
     then Inl (rt_err AUTHORIZATION_REQUIRED
       ''Path issuer, signature signer, and Workspace authority do not match.'')
     else Inr ())))"

definition assertRequestedNetwork :: "deps \<Rightarrow> intent \<Rightarrow> operation_request \<Rightarrow> rt_error + unit" where
  "assertRequestedNetwork E intent request =
     (case in_requestedNetwork intent of
        None \<Rightarrow> Inr ()
      | Some n \<Rightarrow>
          (if \<not> sameValue E (json_of_network_reference n)
                (json_of_network_reference (rq_network request))
           then Inl (rt_err WRONG_NETWORK
             ''Intent requested network does not match the Arc Testnet request network.'')
           else Inr ()))"


section \<open>Canonical Records\<close>

definition canonicalRecordCommitment :: "deps \<Rightarrow> canonical_record \<Rightarrow> rt_error + string" where
  "canonicalRecordCommitment E r =
     res_bind (canonical E (jobj [
       (''pactRef'', Some (json_of_object_ref (cr_pactRef r))),
       (''sequence'', Some (JStr (cr_sequence r))),
       (''previousCommitment'', Some (JStr (cr_previousCommitment r))),
       (''plaintextCommitment'', Some (JStr (cr_plaintextCommitment r))),
       (''ciphertextHash'', Some (JStr (cr_ciphertextHash r))),
       (''encryption'', Some (json_of_record_encryption (cr_encryption r))),
       (''encryptedKeys'', Some (JArr (map json_of_encrypted_key (cr_encryptedKeys r)))),
       (''storageLocators'', Some (JArr (map json_of_storage_locator (cr_storageLocators r)))),
       (''settlementReferences'',
         Some (JArr (map json_of_settlement_reference (cr_settlementReferences r))))]))
     (\<lambda>text. Inr (ext_keccakUtf8 E text))"

definition record_policy :: "pact \<Rightarrow> record_mode" where
  "record_policy pact =
     (case pc_canonicalRecordPolicy pact of None \<Rightarrow> RM_omitted | Some p \<Rightarrow> crp_mode p)"

text \<open>
  \<open>size !== 2 || [...parties].some(id => !ids.has(id))\<close> for two sets given by their elements.
\<close>

definition covers_parties :: "string list \<Rightarrow> string list \<Rightarrow> bool" where
  "covers_parties parties ids \<longleftrightarrow> length (remdups ids) = 2 \<and> set parties \<subseteq> set ids"

definition assertCanonicalRecordBinding ::
    "deps \<Rightarrow> pact \<Rightarrow> canonical_record option \<Rightarrow> rt_error + unit" where
  "assertCanonicalRecordBinding E pact supplied =
     (case supplied of
        None \<Rightarrow>
          (if record_policy pact = RM_required
           then Inl (rt_err AUTHORIZATION_REQUIRED ''Pact requires a Canonical Record.'')
           else Inr ())
      | Some r \<Rightarrow>
          if record_policy pact = RM_omitted
          then Inl (rt_err TERMS_MISMATCH ''Pact policy omits Canonical Records.'')
          else
          (case assertValidSchema E (schema_id ''canonical-record'') (json_of_canonical_record r) of
             Inl e \<Rightarrow> Inl (RuntimeError INPUT_INVALID
               ''Canonical Record failed Shared Interface 1.2 schema validation.'' False
               (reason_details (error_message e)))
           | Inr u \<Rightarrow>
          if \<not> sameRef (pc_canonicalRecordRef pact) (Some (mk_ref OT_CanonicalRecord (cr_id r)))
          then Inl (rt_err TERMS_MISMATCH
            ''Pact Canonical Record reference does not match the supplied record.'')
          else if \<not> sameRef (Some (cr_pactRef r)) (Some (mk_ref OT_Pact (pc_id pact)))
          then Inl (rt_err TERMS_MISMATCH
            ''Canonical Record Pact reference does not match the Pact.'')
          else
          res_bind (canonicalRecordCommitment E r) (\<lambda>commitment.
          let partyIds = map ref_id (pc_parties pact);
              signatureIds = map (\<lambda>s. ref_id (rs_actorRef s)) (cr_signatures r);
              keyIds = map (\<lambda>k. ref_id (ek_counterpartyRef k)) (cr_encryptedKeys r)
          in
          if length (remdups partyIds) \<noteq> 2
          then Inl (rt_err TERMS_MISMATCH
            ''Canonical Record binding requires exactly two distinct Pact parties.'')
          else if \<not> covers_parties partyIds signatureIds
          then Inl (rt_err AUTHORIZATION_REQUIRED
            ''Canonical Record signatures must cover both Pact parties.'')
          else if list_ex (\<lambda>s. toLowerCase (rs_signedCommitment s) \<noteq> toLowerCase commitment)
                 (cr_signatures r)
          then Inl (rt_err TERMS_MISMATCH
            ''Canonical Record signature commitment does not match the record envelope.'')
          else if en_mode (cr_encryption r) = RX_encrypted
          then (if \<not> covers_parties partyIds keyIds
                then Inl (rt_err AUTHORIZATION_REQUIRED
                  ''Encrypted Canonical Record keys must cover both Pact parties.'')
                else Inr ())
          else if cr_encryptedKeys r \<noteq> []
          then Inl (rt_err TERMS_MISMATCH
            ''Public Canonical Records cannot contain encrypted counterparty keys.'')
          else Inr ())))"


section \<open>The signed envelope\<close>

definition assertNetwork :: "operation_request \<Rightarrow> rt_error + unit" where
  "assertNetwork request =
     (if nr_networkId (rq_network request) \<noteq> nr_networkId arc_network
         \<or> nr_chainId (rq_network request) \<noteq> nr_chainId arc_network
      then Inl (RuntimeError WRONG_NETWORK
        ''Runtime transitions must target the Arc Testnet manifest network.'' False
        (reason_details (''expected '' @ nr_networkId arc_network @ ''/'' @ nr_chainId arc_network)))
      else Inr ())"

definition request_sig :: "request_data \<Rightarrow> rt_error + sig_value" where
  "request_sig d =
     (case d of
        RD_workspace w s \<Rightarrow> Inr s | RD_actor r a s \<Rightarrow> Inr s | RD_path p s \<Rightarrow> Inr s
      | RD_objectRef r s \<Rightarrow> Inr s | RD_intent i s \<Rightarrow> Inr s | RD_proposal p s \<Rightarrow> Inr s
      | RD_pact r p c s \<Rightarrow> Inr s | RD_proof p s \<Rightarrow> Inr s
      | RD_other j \<Rightarrow>
          (if isRecord (Some j)
           then (case jget (Some j) ''signatureBinding'' of
                   None \<Rightarrow> Inr No_sig | Some b \<Rightarrow> Inr (Malformed_sig b))
           else Inl (rt_err INPUT_INVALID ''payload data must be an object.'')))"

text \<open>\<open>runtimeBinding\<close>: the payload's binding, which must be an object.\<close>

definition runtimeBinding :: "request_data \<Rightarrow> string \<Rightarrow> rt_error + sig_value" where
  "runtimeBinding d operationId =
     res_bind (request_sig d) (\<lambda>s.
       (case s of
          No_sig \<Rightarrow> Inl (rt_err INPUT_INVALID (operationId @ '' payload is missing signatureBinding.''))
        | Malformed_sig j \<Rightarrow>
            (if isRecord (Some j) then Inr s
             else Inl (rt_err INPUT_INVALID
               (operationId @ '' payload is missing signatureBinding.'')))
        | Sig b \<Rightarrow> Inr s))"

record binding_options =
  bo_now :: int
  bo_maxSignatureLifetimeSeconds :: int
  bo_clockSkewSeconds :: int

definition window_details :: "string \<Rightarrow> string \<Rightarrow> rt_error" where
  "window_details msg field = RuntimeError SIGNATURE_EXPIRED msg False (field_details field)"

text \<open>The time window of the signature; the first test also rejects a \<open>NaN\<close>.\<close>

definition assertSignatureWindow ::
    "runtime_signature_binding \<Rightarrow> binding_options \<Rightarrow> rt_error + unit" where
  "assertSignatureWindow b opts =
     (case (Date_parse (rb_issuedAt b), Date_parse (rb_expiresAt b)) of
        (Some issuedAtMs, Some expiresAtMs) \<Rightarrow>
          (if expiresAtMs \<le> issuedAtMs
           then Inl (window_details ''Runtime signature time window is invalid.'' ''issuedAt/expiresAt'')
           else if bo_now opts + bo_clockSkewSeconds opts * 1000 < issuedAtMs
           then Inl (window_details ''Runtime signature was issued in the future.'' ''issuedAt'')
           else if expiresAtMs \<le> bo_now opts
           then Inl (window_details ''Runtime signature has expired.'' ''expiresAt'')
           else if bo_maxSignatureLifetimeSeconds opts * 1000 < expiresAtMs - issuedAtMs
           then Inl (window_details ''Runtime signature lifetime exceeds the configured maximum.''
             ''expiresAt'')
           else Inr ())
      | _ \<Rightarrow> Inl (window_details ''Runtime signature time window is invalid.'' ''issuedAt/expiresAt''))"

definition matches_runtime_domain :: "runtime_signature_domain \<Rightarrow> bool" where
  "matches_runtime_domain d \<longleftrightarrow>
     rd_name d = rd_name arc_signatureDomain \<and> rd_version d = rd_version arc_signatureDomain \<and>
     rd_chainId d = rd_chainId arc_signatureDomain \<and>
     toLowerCase (rd_salt d) = toLowerCase (rd_salt arc_signatureDomain) \<and>
     rd_verifyingContract d = None"

definition assertRuntimeBinding ::
    "deps \<Rightarrow> string \<Rightarrow> operation_request \<Rightarrow> sig_value \<Rightarrow> binding_options \<Rightarrow>
     rt_error + runtime_signature_binding" where
  "assertRuntimeBinding E operationId request sig opts =
     (case sig of
        No_sig \<Rightarrow> Inl (rt_err INPUT_INVALID ''Runtime signature binding is malformed.'')
      | Malformed_sig j \<Rightarrow> Inl (rt_err INPUT_INVALID ''Runtime signature binding is malformed.'')
      | Sig b \<Rightarrow>
     res_bind (assertNetwork request) (\<lambda>_.
     if rq_interfaceVersion request \<noteq> IV_1_2_0
     then Inl (rt_err INPUT_INVALID ''Signed runtime transitions require Shared Interface 1.2.0.'')
     else if rb_operationId b \<noteq> operationId
     then Inl (rt_err AUTHORIZATION_REQUIRED
       ''Signature operation binding does not match the requested operation.'')
     else if rb_signatureStandard b \<noteq> ''eip-712''
       \<or> rb_primaryType b \<noteq> RUNTIME_TRANSITION_PRIMARY_TYPE
     then Inl (rt_err SIGNATURE_INVALID
       ''Runtime signature standard or primary type is not supported.'')
     else if rb_signaturePurpose b \<noteq> arc_signaturePurpose
     then Inl (rt_err AUTHORIZATION_REQUIRED
       ''Runtime signature purpose does not match the Arc manifest.'')
     else if \<not> matches_runtime_domain (rb_domain b)
     then Inl (rt_err AUTHORIZATION_REQUIRED
       ''Runtime EIP-712 domain does not match the Arc manifest.'')
     else if rb_chainId b \<noteq> nr_chainId arc_network
       \<or> rd_chainId (rb_domain b) \<noteq> nr_chainId (rq_network request)
     then Inl (rt_err WRONG_NETWORK
       ''Runtime signature chain ID does not match the Arc manifest network.'')
     else if \<not> sameAddress E (rb_anchorContract b) arc_anchorContract
     then Inl (rt_err AUTHORIZATION_REQUIRED
       ''Runtime anchor contract does not match the Arc manifest.'')
     else if (case su_walletAddress (rq_subject request) of
                None \<Rightarrow> False | Some w \<Rightarrow> w \<noteq> [] \<and> \<not> sameAddress E w (rb_signer b))
     then Inl (rt_err AUTHORIZATION_REQUIRED
       ''Request subject wallet does not match the runtime signer.'')
     else
     (case hashRuntimePayload E (Some (json_of_request_data (rq_data request))) of
        Inl e \<Rightarrow> Inl (RuntimeError INPUT_INVALID
          ''Runtime transition payload is not canonicalizable.'' False
          (reason_details (error_message e)))
      | Inr payloadHash \<Rightarrow>
          if toLowerCase (rb_payloadHash b) \<noteq> toLowerCase payloadHash
          then Inl (rt_err AUTHORIZATION_REQUIRED
            ''Runtime signature payload hash does not match request data.'')
          else res_bind (assertSignatureWindow b opts) (\<lambda>_. Inr b))))"

end
