(* ===== verification/Runtime_Transitions.thy ===== *)
theory Runtime_Transitions
  imports Runtime_Checks
begin

text \<open>
  The ten transitions of the Runtime, one definition per \<open>prepare...\<close> method of the class
  \<open>Runtime\<close> (\<open>packages/openrails-runtime/src/runtime.ts\<close>).  A transition checks its guards
  against the draft state and, if all hold, gives the response and the change it will commit;
  it never changes the state itself.
\<close>


section \<open>Prepared transitions\<close>

record prepared_transition =
  prep_response :: operation_response
  prep_commit :: "runtime_state \<Rightarrow> runtime_state"

definition runtimeProvenance :: "string \<Rightarrow> provenance" where
  "runtimeProvenance at =
     \<lparr>pv_authority = ''OpenRails Runtime'', pv_commit = None,
      pv_evidenceLevel = EL_runtime_observed, pv_evidenceRefs = None, pv_notes = None,
      pv_observedAt = at, pv_repository = None, pv_source = PSrc_runtime_evaluation\<rparr>"

definition runtimeErrorRecord ::
    "string \<Rightarrow> error_code \<Rightarrow> string \<Rightarrow> lifecycle_state \<Rightarrow> int \<Rightarrow> bool \<Rightarrow> interface_error" where
  "runtimeErrorRecord operationId code message lifecycleState at retryable =
     \<lparr>ie_actualNetwork = None, ie_code = code, ie_details = None, ie_expectedNetwork = None,
      ie_expiresAt = None, ie_financialEffect = FE_NONE, ie_interfaceVersion = IV_1_2_0,
      ie_lifecycleState = lifecycleState, ie_message = message, ie_occurredAt = toISOString at,
      ie_operationId = operationId, ie_provenance = runtimeProvenance (toISOString at),
      ie_retryable = retryable, ie_transactionState = TS_NOT_REQUESTED\<rparr>"

definition no_transaction :: "network_reference \<Rightarrow> string \<Rightarrow> transaction_state" where
  "no_transaction network timestamp =
     \<lparr>ts_blockHash = None, ts_blockNumber = None, ts_confirmations = None, ts_confirmedAt = None,
      ts_failureCode = None, ts_failureReason = None, ts_financialEffect = FE_NONE,
      ts_interfaceVersion = IV_1_2_0, ts_network = network, ts_nonce = None,
      ts_observedAt = timestamp, ts_status = TS_NOT_REQUESTED, ts_submittedAt = None,
      ts_txHash = None\<rparr>"

text \<open>The references of the request (\<open>REF_KEYS\<close>) are copied to the response.\<close>

definition buildResponse ::
    "operation_request \<Rightarrow> string \<Rightarrow> lifecycle_state \<Rightarrow> response_data \<Rightarrow> int \<Rightarrow>
     interface_error list \<Rightarrow> rt_error + operation_response" where
  "buildResponse request operationId lifecycleState d at errors =
     res_bind (resolveOperation operationId) (\<lambda>operation.
     let timestamp = toISOString at in
     Inr \<lparr>rsp_authorizationClass = op_authorizationClass operation,
          rsp_canonicalRecordRef = rq_canonicalRecordRef request,
          rsp_capability = op_capability operation,
          rsp_createdAt = timestamp, rsp_data = d,
          rsp_decisionRef = rq_decisionRef request, rsp_errors = errors,
          rsp_executionProfile = EP_delegated_runtime,
          rsp_intentRef = rq_intentRef request, rsp_interfaceVersion = IV_1_2_0,
          rsp_lifecycleState = lifecycleState, rsp_network = rq_network request,
          rsp_operationId = operationId, rsp_pactRef = rq_pactRef request,
          rsp_pathRef = rq_pathRef request, rsp_proofRefs = rq_proofRefs request,
          rsp_proposalRef = rq_proposalRef request,
          rsp_provenance = runtimeProvenance timestamp, rsp_subject = rq_subject request,
          rsp_transaction = no_transaction (rq_network request) timestamp,
          rsp_updatedAt = timestamp, rsp_workspaceRef = rq_workspaceRef request\<rparr>)"

definition prepared ::
    "rt_error + operation_response \<Rightarrow> (runtime_state \<Rightarrow> runtime_state) \<Rightarrow>
     rt_error + prepared_transition" where
  "prepared response change =
     res_bind response (\<lambda>r. Inr \<lparr>prep_response = r, prep_commit = change\<rparr>)"

lemma prepared_eq_Inr [res_simps]:
  "prepared response change = Inr p \<longleftrightarrow>
     response = Inr (prep_response p) \<and> prep_commit p = change"
  by (cases p) (auto simp: prepared_def res_simps)

abbreviation auth :: "string \<Rightarrow> rt_error" where
  "auth \<equiv> rt_err AUTHORIZATION_REQUIRED"

abbreviation stale :: "string \<Rightarrow> rt_error" where
  "stale \<equiv> rt_err STATE_STALE"

text \<open>Reading a member a cast payload does not have.\<close>

definition shape_error :: rt_error where
  "shape_error = JsError ''TypeError''"


section \<open>Workspaces and Actors\<close>

definition prepareWorkspace ::
    "deps \<Rightarrow> operation_request \<Rightarrow> runtime_signature_binding \<Rightarrow> runtime_state \<Rightarrow> int \<Rightarrow>
     rt_error + prepared_transition" where
  "prepareWorkspace E request binding st at =
     (case rq_data request of
        RD_workspace workspace sig \<Rightarrow>
          (if present (js_get (st_workspaces st) (ws_id workspace))
              \<or> truthy_text (js_get (st_workspaceAuthorities st) (ws_id workspace))
           then Inl (stale ''Workspace has already been registered.'')
           else if ws_status workspace \<noteq> WS_DRAFT \<and> ws_status workspace \<noteq> WS_ACTIVE
           then Inl (auth ''Workspace must be DRAFT or ACTIVE at registration.'')
           else
           res_bind (getAddress_or_throw E (rb_signer binding)) (\<lambda>authority.
           prepared
             (buildResponse request ''workspace.register'' LS_PREPARED
               (SD_request (rq_data request)) at [])
             (\<lambda>draft. draft
               \<lparr>st_workspaces := js_set (ws_id workspace) workspace (st_workspaces draft),
                st_workspaceAuthorities :=
                  js_set (ws_id workspace) authority (st_workspaceAuthorities draft)\<rparr>)))
      | _ \<Rightarrow> Inl shape_error)"

definition prepareActor ::
    "deps \<Rightarrow> operation_request \<Rightarrow> runtime_signature_binding \<Rightarrow> runtime_state \<Rightarrow> int \<Rightarrow>
     rt_error + prepared_transition" where
  "prepareActor E request binding st at =
     (case rq_data request of
        RD_actor workspaceRef actor sig \<Rightarrow>
          res_bind (refId (Some workspaceRef) OT_Workspace ''workspaceRef'') (\<lambda>workspaceId.
          res_bind (requireWorkspace E st workspaceId) (\<lambda>workspace.
          res_bind (requireWorkspaceAuthority E st (ws_id workspace)) (\<lambda>authority.
          if \<not> sameAddress E authority (rb_signer binding)
          then Inl (auth ''Actor registration signer is not the Workspace authority.'')
          else if present (js_get (st_actors st) (ac_id actor))
          then Inl (stale ''Actor has already been registered.'')
          else if ac_id actor = ref_id (ws_ownerActorRef workspace)
                  \<and> \<not> walletIs E (ac_walletAddress actor) (rb_signer binding)
          then Inl (auth
            ''Workspace owner Actor ID and wallet must match the bootstrap signer.'')
          else
          prepared
            (buildResponse request ''actor.register'' LS_PREPARED
              (SD_request (rq_data request)) at [])
            (\<lambda>draft. draft
              \<lparr>st_actors := js_set (ac_id actor) actor (st_actors draft),
               st_actorWorkspaces :=
                 js_set (ac_id actor) (ws_id workspace) (st_actorWorkspaces draft)\<rparr>))))
      | _ \<Rightarrow> Inl shape_error)"


section \<open>Paths\<close>

text \<open>\<open>!issuer.walletAddress || !sameAddress(issuer.walletAddress, authority) || !sameAddress(signer, authority)\<close>\<close>

definition signed_by_authority ::
    "deps \<Rightarrow> actor \<Rightarrow> string \<Rightarrow> runtime_signature_binding \<Rightarrow> bool" where
  "signed_by_authority E issuer authority binding \<longleftrightarrow>
     walletIs E (ac_walletAddress issuer) authority \<and> sameAddress E (rb_signer binding) authority"

text \<open>\<open>existing && (!sameValue(existing, x) || bad(existing))\<close>; a method has no canonical text.\<close>

definition conflicts :: "'v js_prop \<Rightarrow> ('v \<Rightarrow> bool) \<Rightarrow> bool" where
  "conflicts existing acceptable =
     (case existing of Absent \<Rightarrow> False | Inherited \<Rightarrow> True | Own v \<Rightarrow> \<not> acceptable v)"

definition preparePathActivate ::
    "deps \<Rightarrow> operation_request \<Rightarrow> runtime_signature_binding \<Rightarrow> runtime_state \<Rightarrow> int \<Rightarrow>
     rt_error + prepared_transition" where
  "preparePathActivate E request binding st at =
     (case rq_data request of
        RD_path path sig \<Rightarrow>
          res_bind (refId (Some (pa_workspaceRef path)) OT_Workspace ''path.workspaceRef'') (\<lambda>wid.
          res_bind (requireWorkspace E st wid) (\<lambda>workspace.
          res_bind (requireWorkspaceAuthority E st (ws_id workspace)) (\<lambda>authority.
          res_bind (refId (Some (pa_issuerActorRef path)) OT_Actor ''path.issuerActorRef'') (\<lambda>iid.
          res_bind (requireActor E st iid) (\<lambda>issuer.
          res_bind (refId (Some (pa_delegateActorRef path)) OT_Actor ''path.delegateActorRef'')
            (\<lambda>did.
          res_bind (requireActor E st did) (\<lambda>delegate.
          if pa_status path \<noteq> PS_PREPARED
          then Inl (stale ''Path activation requires a PREPARED Path.'')
          else if \<not> signed_by_authority E issuer authority binding
          then Inl (auth ''Path activation signer is not the Workspace authority.'')
          else if ac_walletAddress delegate = None \<or> ac_walletAddress delegate = Some []
          then Inl (auth ''Path delegate must have a wallet address.'')
          else
          res_bind (assertPathBinding E path at) (\<lambda>_.
          if conflicts (js_get (st_paths st) (pa_id path)) (\<lambda>existing.
               sameValue E (json_of_path existing) (json_of_path path)
               \<and> pa_status existing = PS_PREPARED)
          then Inl (stale ''Path already exists with different or active content.'')
          else
          let activatedPath = path\<lparr>pa_status := PS_ACTIVE\<rparr> in
          prepared
            (buildResponse request ''path.activate'' LS_COMMITTED (SD_path activatedPath) at [])
            (\<lambda>draft. draft
              \<lparr>st_paths := js_set (pa_id path) activatedPath (st_paths draft),
               st_pathAttestations := js_set (pa_id path)
                 \<lparr>sa_path = activatedPath, sa_provenance = pa_provenance activatedPath\<rparr>
                 (st_pathAttestations draft)\<rparr>)))))))))
      | _ \<Rightarrow> Inl shape_error)"

definition preparePathRevoke ::
    "deps \<Rightarrow> operation_request \<Rightarrow> runtime_signature_binding \<Rightarrow> runtime_state \<Rightarrow> int \<Rightarrow>
     rt_error + prepared_transition" where
  "preparePathRevoke E request binding st at =
     (case rq_data request of
        RD_objectRef objectRef sig \<Rightarrow>
          res_bind (refId (Some objectRef) OT_Path ''objectRef'') (\<lambda>pathId.
          res_bind (requirePath E st pathId) (\<lambda>path.
          res_bind (requireAttestedPath E st path) (\<lambda>_.
          res_bind (refId (Some (pa_workspaceRef path)) OT_Workspace ''path.workspaceRef'') (\<lambda>wid.
          res_bind (requireWorkspace E st wid) (\<lambda>workspace.
          res_bind (requireWorkspaceAuthority E st (ws_id workspace)) (\<lambda>authority.
          res_bind (refId (Some (pa_issuerActorRef path)) OT_Actor ''path.issuerActorRef'') (\<lambda>iid.
          res_bind (requireActor E st iid) (\<lambda>issuer.
          if \<not> signed_by_authority E issuer authority binding
          then Inl (auth ''Path revocation signer is not the Workspace authority.'')
          else
          res_bind (assertPathBinding E path at) (\<lambda>_.
          let revokedPath = path\<lparr>pa_status := PS_REVOKED\<rparr> in
          prepared
            (buildResponse request ''path.revoke'' LS_CANCELLED (SD_path revokedPath) at [])
            (\<lambda>draft. draft
              \<lparr>st_paths := js_set (pa_id path) revokedPath (st_paths draft),
               st_pathAttestations :=
                 (case js_get (st_pathAttestations draft) (pa_id path) of
                    Own a \<Rightarrow> js_set (pa_id path) (a\<lparr>sa_path := revokedPath\<rparr>)
                               (st_pathAttestations draft)
                  | _ \<Rightarrow> st_pathAttestations draft)\<rparr>))))))))))
      | _ \<Rightarrow> Inl shape_error)"


section \<open>Intents and Proposals\<close>

definition prepareIntent ::
    "deps \<Rightarrow> operation_request \<Rightarrow> runtime_signature_binding \<Rightarrow> runtime_state \<Rightarrow> int \<Rightarrow>
     rt_error + prepared_transition" where
  "prepareIntent E request binding st at =
     (case rq_data request of
        RD_intent intent sig \<Rightarrow>
          res_bind (refId (in_workspaceRef intent) OT_Workspace ''intent.workspaceRef'') (\<lambda>wid.
          res_bind (requireWorkspace E st wid) (\<lambda>workspace.
          res_bind (refId (in_pathRef intent) OT_Path ''intent.pathRef'') (\<lambda>pid.
          res_bind (requirePath E st pid) (\<lambda>path.
          res_bind (requireAttestedPath E st path) (\<lambda>_.
          res_bind (assertReference (Some (pa_workspaceRef path))
            (Some (mk_ref OT_Workspace (ws_id workspace))) ''Path workspaceRef'') (\<lambda>_.
          res_bind (assertPathIssuerAuthority E st workspace path) (\<lambda>_.
          res_bind (requireWorkspaceAuthority E st (ws_id workspace)) (\<lambda>authority.
          if \<not> sameAddress E (rb_signer binding) authority
          then Inl (auth ''Intent preparation signer is not the Workspace authority.'')
          else if in_status intent \<noteq> LS_DRAFT
          then Inl (stale ''Intent preparation requires a DRAFT Intent.'')
          else
          res_bind (assertRequestedNetwork E intent request) (\<lambda>_.
          if present (js_get (st_intents st) (in_id intent))
          then Inl (stale ''Intent has already been prepared.'')
          else
          let preparedIntent = intent\<lparr>in_status := LS_PREPARED\<rparr> in
          prepared
            (buildResponse request ''intent.prepare'' LS_PREPARED (SD_intent preparedIntent) at [])
            (\<lambda>draft. draft
              \<lparr>st_intents := js_set (in_id intent) preparedIntent (st_intents draft)\<rparr>))))))))))
      | _ \<Rightarrow> Inl shape_error)"

definition BAPHOMET_POLICY_VERSION :: string where
  "BAPHOMET_POLICY_VERSION = ''baphomet-runtime-1.2.0''"

definition decision_id :: "proposal \<Rightarrow> string" where
  "decision_id proposal = ''decision:'' @ pr_id proposal"

definition baphometDecision ::
    "proposal \<Rightarrow> string \<Rightarrow> decision_kind \<Rightarrow> string list \<Rightarrow> object_ref option \<Rightarrow> wallet_action \<Rightarrow>
     int \<Rightarrow> baphomet_decision" where
  "baphometDecision proposal policyVersion kind reasons pactRef action at =
     \<lparr>de_decidedAt = toISOString at, de_decision = kind,
      de_effects = \<lparr>ef_financialEffect = FE_NONE, ef_paycardCreated = False,
        ef_valueMoved = False, ef_walletAction = action\<rparr>,
      de_executionProfile = EP_delegated_runtime, de_extensions = None,
      de_id = decision_id proposal, de_inputHash = pr_inputHash proposal,
      de_interfaceVersion = IV_1_2_0, de_pactRef = pactRef, de_policyVersion = policyVersion,
      de_proposalRef = mk_ref OT_Proposal (pr_id proposal),
      de_provenance = runtimeProvenance (toISOString at), de_reasonCodes = reasons\<rparr>"

definition allowDecision :: "proposal \<Rightarrow> string \<Rightarrow> object_ref \<Rightarrow> int \<Rightarrow> baphomet_decision" where
  "allowDecision proposal policyVersion pactRef at =
     baphometDecision proposal policyVersion DK_ALLOW [''PATH_WITHIN_LIMIT''] (Some pactRef)
       WA_REQUIRED at"

definition blockDecision :: "proposal \<Rightarrow> string \<Rightarrow> int \<Rightarrow> baphomet_decision" where
  "blockDecision proposal policyVersion at =
     baphometDecision proposal policyVersion DK_BLOCK [''PATH_LIMIT_EXCEEDED''] None WA_NONE at"

text \<open>What the \<open>try\<close> and \<open>catch\<close> blocks of \<open>prepareProposalEvaluate\<close> settle.\<close>

record evaluation =
  ev_reservations :: "usage_reservation list"
  ev_decision :: baphomet_decision
  ev_lifecycleState :: lifecycle_state
  ev_status :: proposal_status
  ev_errors :: "interface_error list"

definition evaluate_proposal ::
    "deps \<Rightarrow> runtime_state \<Rightarrow> path \<Rightarrow> intent \<Rightarrow> proposal \<Rightarrow> string \<Rightarrow> int \<Rightarrow> bool \<Rightarrow>
     rt_error + evaluation" where
  "evaluate_proposal E st path intent proposal policyVersion at reserve =
     (case res_bind (assertPathAuthority E st path intent (pr_normalizedTerms proposal) at reserve)
             (\<lambda>reservations.
               (case in_pactRef intent of
                  None \<Rightarrow> Inl (auth
                    ''An ALLOW evaluation requires a pre-bound Pact reference on the Intent.'')
                | Some pactRef \<Rightarrow> Inr (reservations, pactRef))) of
        Inr (reservations, pactRef) \<Rightarrow>
          Inr \<lparr>ev_reservations = reservations,
               ev_decision = allowDecision proposal policyVersion pactRef at,
               ev_lifecycleState = LS_ALLOWED, ev_status = PRS_ALLOWED, ev_errors = []\<rparr>
      | Inl error \<Rightarrow>
          (if \<not> has_code POLICY_BLOCKED error then Inl error
           else Inr \<lparr>ev_reservations = [],
               ev_decision = blockDecision proposal policyVersion at,
               ev_lifecycleState = LS_BLOCKED, ev_status = PRS_BLOCKED,
               ev_errors = [runtimeErrorRecord ''proposal.evaluate'' POLICY_BLOCKED
                 (error_message error) LS_BLOCKED at False]\<rparr>))"

definition prepareProposalEvaluate ::
    "deps \<Rightarrow> operation_request \<Rightarrow> runtime_signature_binding \<Rightarrow> runtime_state \<Rightarrow> int \<Rightarrow>
     rt_error + prepared_transition" where
  "prepareProposalEvaluate E request binding st at =
     (case rq_data request of
        RD_proposal proposal sig \<Rightarrow>
          res_bind (refId (Some (pr_workspaceRef proposal)) OT_Workspace ''proposal.workspaceRef'')
            (\<lambda>wid.
          res_bind (requireWorkspace E st wid) (\<lambda>workspace.
          res_bind (refId (Some (pr_pathRef proposal)) OT_Path ''proposal.pathRef'') (\<lambda>pid.
          res_bind (requirePath E st pid) (\<lambda>path.
          res_bind (requireAttestedPath E st path) (\<lambda>_.
          res_bind (refId (Some (pr_intentRef proposal)) OT_Intent ''proposal.intentRef'') (\<lambda>iid.
          res_bind (requireIntent E st iid at) (\<lambda>intent.
          res_bind (assertReference (Some (pa_workspaceRef path))
            (Some (mk_ref OT_Workspace (ws_id workspace))) ''Path workspaceRef'') (\<lambda>_.
          res_bind (assertPathIssuerAuthority E st workspace path) (\<lambda>_.
          if \<not> sameRef (in_workspaceRef intent) (Some (mk_ref OT_Workspace (ws_id workspace)))
             \<or> \<not> sameRef (in_pathRef intent) (Some (mk_ref OT_Path (pa_id path)))
          then Inl (auth ''Intent does not match the Workspace and Path chain.'')
          else
          res_bind (assertRequestedNetwork E intent request) (\<lambda>_.
          if pr_status proposal \<noteq> PRS_EVALUATING
          then Inl (stale ''Proposal evaluation requires an EVALUATING proposal.'')
          else if \<not> sameValue E (json_of_payment_terms (pr_normalizedTerms proposal))
                  (json_of_payment_terms (in_paymentTerms intent))
          then Inl (rt_err TERMS_MISMATCH ''Proposal terms do not match the existing Intent.'')
          else
          res_bind (refId (Some (pa_delegateActorRef path)) OT_Actor ''path.delegateActorRef'')
            (\<lambda>did.
          res_bind (requireActor E st did) (\<lambda>delegate.
          if \<not> walletIs E (ac_walletAddress delegate) (rb_signer binding)
          then Inl (auth ''Proposal evaluation signer is not the active Path delegate wallet.'')
          else
          res_bind (assertReference (rq_workspaceRef request) (Some (pr_workspaceRef proposal))
            ''request.workspaceRef'') (\<lambda>_.
          res_bind (assertReference (rq_pathRef request) (Some (pr_pathRef proposal))
            ''request.pathRef'') (\<lambda>_.
          res_bind (assertReference (rq_intentRef request) (Some (pr_intentRef proposal))
            ''request.intentRef'') (\<lambda>_.
          res_bind (assertReference (rq_proposalRef request)
            (Some (mk_ref OT_Proposal (pr_id proposal))) ''request.proposalRef'') (\<lambda>_.
          let policyVersion = (case pr_policyVersion proposal of
                None \<Rightarrow> BAPHOMET_POLICY_VERSION | Some v \<Rightarrow> v);
              existing = js_get (st_proposals st) (pr_id proposal)
          in
          if conflicts existing (\<lambda>p.
               sameValue E (json_of_proposal p) (json_of_proposal proposal)
               \<and> pr_status p = PRS_EVALUATING)
          then Inl (stale ''Proposal already exists with different or terminal content.'')
          else
          res_bind (evaluate_proposal E st path intent proposal policyVersion at
            (\<not> present existing)) (\<lambda>ev.
          let evaluatedProposal = proposal
                \<lparr>pr_policyVersion := Some policyVersion, pr_status := ev_status ev\<rparr>
          in
          if present (js_get (st_decisions st) (de_id (ev_decision ev)))
          then Inl (stale ''Baphomet Decision has already been recorded.'')
          else
          prepared
            (buildResponse request ''proposal.evaluate'' (ev_lifecycleState ev)
              (SD_decision (ev_decision ev)) at (ev_errors ev))
            (\<lambda>draft. store_reservations (ev_reservations ev) (draft
              \<lparr>st_proposals := js_set (pr_id proposal) evaluatedProposal (st_proposals draft),
               st_decisions := js_set (de_id (ev_decision ev)) (ev_decision ev)
                 (st_decisions draft)\<rparr>)))))))))))))))))))
      | _ \<Rightarrow> Inl shape_error)"

definition prepareProposal ::
    "deps \<Rightarrow> operation_request \<Rightarrow> runtime_signature_binding \<Rightarrow> runtime_state \<Rightarrow> int \<Rightarrow>
     rt_error + prepared_transition" where
  "prepareProposal E request binding st at =
     (case rq_data request of
        RD_proposal proposal sig \<Rightarrow>
          res_bind (refId (Some (pr_workspaceRef proposal)) OT_Workspace ''proposal.workspaceRef'')
            (\<lambda>workspaceId.
          res_bind (refId (Some (pr_pathRef proposal)) OT_Path ''proposal.pathRef'') (\<lambda>pathId.
          res_bind (refId (Some (pr_intentRef proposal)) OT_Intent ''proposal.intentRef'') (\<lambda>intentId.
          res_bind (requireWorkspace E st workspaceId) (\<lambda>workspace.
          res_bind (requirePath E st pathId) (\<lambda>path.
          res_bind (requireAttestedPath E st path) (\<lambda>_.
          res_bind (requireIntent E st intentId at) (\<lambda>intent.
          res_bind (assertReference (Some (pa_workspaceRef path))
            (Some (mk_ref OT_Workspace (ws_id workspace))) ''Path workspaceRef'') (\<lambda>_.
          res_bind (assertPathIssuerAuthority E st workspace path) (\<lambda>_.
          if \<not> sameRef (in_workspaceRef intent) (Some (mk_ref OT_Workspace (ws_id workspace)))
             \<or> \<not> sameRef (in_pathRef intent) (Some (mk_ref OT_Path (pa_id path)))
          then Inl (auth ''Intent does not match the Workspace and Path chain.'')
          else
          res_bind (assertRequestedNetwork E intent request) (\<lambda>_.
          res_bind (assertPathAuthority E st path intent (pr_normalizedTerms proposal) at True)
            (\<lambda>usageReservations.
          if pr_status proposal \<noteq> PRS_EVALUATING
          then Inl (stale ''Proposal submission requires EVALUATING proposal state.'')
          else if \<not> sameValue E (json_of_payment_terms (pr_normalizedTerms proposal))
                  (json_of_payment_terms (in_paymentTerms intent))
          then Inl (rt_err TERMS_MISMATCH ''Proposal terms do not match the existing Intent.'')
          else if present (js_get (st_proposals st) (pr_id proposal))
          then Inl (stale ''Proposal has already been submitted.'')
          else
          res_bind (refId (Some (pa_delegateActorRef path)) OT_Actor ''path.delegateActorRef'')
            (\<lambda>delegateId.
          res_bind (requireActor E st delegateId) (\<lambda>delegate.
          if \<not> walletIs E (ac_walletAddress delegate) (rb_signer binding)
          then Inl (auth ''Proposal signer is not the active Path delegate wallet.'')
          else
          res_bind (assertReference (rq_workspaceRef request) (Some (pr_workspaceRef proposal))
            ''request.workspaceRef'') (\<lambda>_.
          res_bind (assertReference (rq_pathRef request) (Some (pr_pathRef proposal))
            ''request.pathRef'') (\<lambda>_.
          res_bind (assertReference (rq_intentRef request) (Some (pr_intentRef proposal))
            ''request.intentRef'') (\<lambda>_.
          res_bind (assertReference (rq_proposalRef request)
            (Some (mk_ref OT_Proposal (pr_id proposal))) ''request.proposalRef'') (\<lambda>_.
          prepared
            (buildResponse request ''proposal.submit'' LS_EVALUATING
              (SD_request (rq_data request)) at [])
            (\<lambda>draft. store_reservations usageReservations (draft
              \<lparr>st_proposals := js_set (pr_id proposal) proposal (st_proposals draft)\<rparr>)))))))))))))))))))
      | _ \<Rightarrow> Inl shape_error)"


section \<open>Proofs\<close>

text \<open>The stored chain both proof transitions read, and the references between its links.\<close>

record proof_chain =
  ch_workspace :: workspace
  ch_path :: path
  ch_intent :: intent
  ch_proposal :: proposal
  ch_pact :: pact

definition requireProofChain ::
    "deps \<Rightarrow> runtime_state \<Rightarrow> proof_object \<Rightarrow> int \<Rightarrow> rt_error + proof_chain" where
  "requireProofChain E st prf at =
     res_bind (refId (pf_workspaceRef prf) OT_Workspace ''proof.workspaceRef'') (\<lambda>wid.
     res_bind (requireWorkspace E st wid) (\<lambda>workspace.
     res_bind (refId (pf_pathRef prf) OT_Path ''proof.pathRef'') (\<lambda>pid.
     res_bind (requirePath E st pid) (\<lambda>path.
     res_bind (refId (pf_intentRef prf) OT_Intent ''proof.intentRef'') (\<lambda>iid.
     res_bind (requireIntent E st iid at) (\<lambda>intent.
     res_bind (refId (pf_proposalRef prf) OT_Proposal ''proof.proposalRef'') (\<lambda>rid.
     res_bind (requireProposal E st rid) (\<lambda>proposal.
     res_bind (refId (pf_pactRef prf) OT_Pact ''proof.pactRef'') (\<lambda>cid.
     res_bind (requirePact E st cid) (\<lambda>pact.
     res_bind (requireAttestedPath E st path) (\<lambda>_.
     res_bind (assertReference (Some (pa_workspaceRef path))
       (Some (mk_ref OT_Workspace (ws_id workspace))) ''Path workspaceRef'') (\<lambda>_.
     res_bind (assertReference (Some (pr_workspaceRef proposal))
       (Some (mk_ref OT_Workspace (ws_id workspace))) ''Proposal workspaceRef'') (\<lambda>_.
     res_bind (assertReference (Some (pr_pathRef proposal))
       (Some (mk_ref OT_Path (pa_id path))) ''Proposal pathRef'') (\<lambda>_.
     res_bind (assertReference (Some (pr_intentRef proposal))
       (Some (mk_ref OT_Intent (in_id intent))) ''Proposal intentRef'') (\<lambda>_.
     res_bind (assertReference (pc_workspaceRef pact)
       (Some (mk_ref OT_Workspace (ws_id workspace))) ''Pact workspaceRef'') (\<lambda>_.
     res_bind (assertReference (pc_pathRef pact)
       (Some (mk_ref OT_Path (pa_id path))) ''Pact pathRef'') (\<lambda>_.
     res_bind (assertReference (pc_proposalRef pact)
       (Some (mk_ref OT_Proposal (pr_id proposal))) ''Pact proposalRef'') (\<lambda>_.
     Inr \<lparr>ch_workspace = workspace, ch_path = path, ch_intent = intent, ch_proposal = proposal,
          ch_pact = pact\<rparr>))))))))))))))))))"

text \<open>\<open>parties.map(requireActor)\<close> and the first of them whose wallet is the signer's.\<close>

definition pactActors :: "deps \<Rightarrow> runtime_state \<Rightarrow> pact \<Rightarrow> rt_error + actor list" where
  "pactActors E st pact = res_mapM (\<lambda>party. requireActor E st (ref_id party)) (pc_parties pact)"

definition signing_actor :: "deps \<Rightarrow> actor list \<Rightarrow> runtime_signature_binding \<Rightarrow> actor option" where
  "signing_actor E actors binding =
     List.find (\<lambda>a. walletIs E (ac_walletAddress a) (rb_signer binding)) actors"

definition proofSubjectSigned ::
    "deps \<Rightarrow> runtime_state \<Rightarrow> proof_object \<Rightarrow> runtime_signature_binding \<Rightarrow> rt_error + unit" where
  "proofSubjectSigned E st prf binding =
     (if ref_type (pf_subjectRef prf) = OT_Actor
      then res_bind (requireActor E st (ref_id (pf_subjectRef prf))) (\<lambda>subject.
        if \<not> walletIs E (ac_walletAddress subject) (rb_signer binding)
        then Inl (auth ''Proof subject and signer do not match.'')
        else Inr ())
      else Inr ())"

definition prepareProofSubmit ::
    "deps \<Rightarrow> operation_request \<Rightarrow> runtime_signature_binding \<Rightarrow> runtime_state \<Rightarrow> int \<Rightarrow>
     rt_error + prepared_transition" where
  "prepareProofSubmit E request binding st at =
     (case rq_data request of
        RD_proof prf sig \<Rightarrow>
          res_bind (requireProofChain E st prf at) (\<lambda>chain.
          if pf_status prf \<noteq> PFS_SUBMITTED
          then Inl (rt_err PROOF_INVALID ''Proof submission requires SUBMITTED proof state.'')
          else if \<not> sameRef (Some (pf_policyRef prf))
                  (Some (mk_ref OT_ProofPolicy (pp_id (pc_proofPolicy (ch_pact chain)))))
          then Inl (rt_err TERMS_MISMATCH ''Proof policy does not match the active Pact.'')
          else
          res_bind (pactActors E st (ch_pact chain)) (\<lambda>actors.
          if signing_actor E actors binding = None
          then Inl (auth ''Proof signer is not an active Pact party.'')
          else
          res_bind (proofSubjectSigned E st prf binding) (\<lambda>_.
          if present (js_get (st_proofs st) (pf_id prf))
          then Inl (stale ''Proof has already been submitted.'')
          else
          prepared
            (buildResponse request ''proof.submit'' LS_PROOF_PENDING (SD_proof prf) at [])
            (\<lambda>draft. draft\<lparr>st_proofs := js_set (pf_id prf) prf (st_proofs draft)\<rparr>))))
      | _ \<Rightarrow> Inl shape_error)"

definition prepareProofVerify ::
    "deps \<Rightarrow> operation_request \<Rightarrow> runtime_signature_binding \<Rightarrow> runtime_state \<Rightarrow> int \<Rightarrow>
     rt_error + prepared_transition" where
  "prepareProofVerify E request binding st at =
     (case rq_data request of
        RD_objectRef objectRef sig \<Rightarrow>
          res_bind (refId (Some objectRef) OT_Proof ''objectRef'') (\<lambda>proofId.
          res_bind (requireProof E st proofId) (\<lambda>prf.
          res_bind (requireProofChain E st prf at) (\<lambda>chain.
          if pf_status prf \<noteq> PFS_SUBMITTED
          then Inl (stale ''Proof must be submitted before verification.'')
          else
          res_bind (pactActors E st (ch_pact chain)) (\<lambda>actors.
          (case signing_actor E actors binding of
             None \<Rightarrow> Inl (auth ''Proof verifier is not an active Pact party.'')
           | Some verifier \<Rightarrow>
               let verifiedProof = prf
                     \<lparr>pf_status := PFS_VERIFIED, pf_verifiedAt := Some (toISOString at),
                      pf_verifierActorRef := Some (mk_ref OT_Actor (ac_id verifier))\<rparr>
               in
               prepared
                 (buildResponse request ''proof.verify'' LS_PROOF_VERIFIED (SD_proof verifiedProof)
                   at [])
                 (\<lambda>draft. draft
                   \<lparr>st_proofs := js_set (pf_id prf) verifiedProof (st_proofs draft)\<rparr>))))))
      | _ \<Rightarrow> Inl shape_error)"


section \<open>Pacts\<close>

definition preparePact ::
    "deps \<Rightarrow> operation_request \<Rightarrow> runtime_signature_binding \<Rightarrow> runtime_state \<Rightarrow> int \<Rightarrow>
     rt_error + prepared_transition" where
  "preparePact E request binding st at =
     (case rq_data request of
        RD_pact intentRef pact canonicalRecord sig \<Rightarrow>
          res_bind (refId (pc_workspaceRef pact) OT_Workspace ''pact.workspaceRef'') (\<lambda>workspaceId.
          res_bind (refId (pc_pathRef pact) OT_Path ''pact.pathRef'') (\<lambda>pathId.
          res_bind (refId (Some intentRef) OT_Intent ''intentRef'') (\<lambda>intentId.
          res_bind (refId (pc_proposalRef pact) OT_Proposal ''pact.proposalRef'') (\<lambda>proposalId.
          res_bind (refId (pc_decisionRef pact) OT_BaphometDecision ''pact.decisionRef'')
            (\<lambda>decisionId.
          res_bind (requireWorkspace E st workspaceId) (\<lambda>workspace.
          res_bind (requirePath E st pathId) (\<lambda>path.
          res_bind (requireAttestedPath E st path) (\<lambda>_.
          res_bind (requireIntent E st intentId at) (\<lambda>intent.
          res_bind (requireProposal E st proposalId) (\<lambda>proposal.
          res_bind (requireDecision E st decisionId) (\<lambda>decision.
          res_bind (assertReference (Some (pa_workspaceRef path))
            (Some (mk_ref OT_Workspace (ws_id workspace))) ''Path workspaceRef'') (\<lambda>_.
          res_bind (assertPathIssuerAuthority E st workspace path) (\<lambda>_.
          if \<not> sameRef (in_workspaceRef intent) (Some (mk_ref OT_Workspace (ws_id workspace)))
             \<or> \<not> sameRef (in_pathRef intent) (Some (mk_ref OT_Path (pa_id path)))
          then Inl (auth ''Intent does not match the Workspace and Path chain.'')
          else
          res_bind (assertRequestedNetwork E intent request) (\<lambda>_.
          res_bind (assertReference (Some (pr_workspaceRef proposal))
            (Some (mk_ref OT_Workspace (ws_id workspace))) ''Proposal workspaceRef'') (\<lambda>_.
          res_bind (assertReference (Some (pr_pathRef proposal))
            (Some (mk_ref OT_Path (pa_id path))) ''Proposal pathRef'') (\<lambda>_.
          res_bind (assertReference (Some (pr_intentRef proposal))
            (Some (mk_ref OT_Intent (in_id intent))) ''Proposal intentRef'') (\<lambda>_.
          if pr_status proposal \<noteq> PRS_ALLOWED \<or> de_decision decision \<noteq> DK_ALLOW
          then Inl (rt_err POLICY_BLOCKED ''Pact signing requires an ALLOW Baphomet Decision.'')
          else
          res_bind (assertReference (Some (de_proposalRef decision))
            (Some (mk_ref OT_Proposal (pr_id proposal))) ''Decision proposalRef'') (\<lambda>_.
          if de_inputHash decision \<noteq> pr_inputHash proposal
          then Inl (rt_err TERMS_MISMATCH
            ''Baphomet Decision input hash does not match Proposal input hash.'')
          else if Some (de_policyVersion decision) \<noteq> pr_policyVersion proposal
          then Inl (rt_err POLICY_BLOCKED
            ''Baphomet Decision policy version does not match the Proposal policy version.'')
          else if de_pactRef decision = None
          then Inl (auth ''ALLOW Decision is missing its required Pact reference.'')
          else
          res_bind (assertReference (de_pactRef decision) (Some (mk_ref OT_Pact (pc_id pact)))
            ''Decision pactRef'') (\<lambda>_.
          if pc_status pact \<noteq> PTS_DRAFT
          then Inl (stale ''Pact signing requires a DRAFT Pact.'')
          else if \<not> sameValue E (json_of_payment_terms (pc_paymentTerms pact))
                     (json_of_payment_terms (in_paymentTerms intent))
               \<or> \<not> sameValue E (json_of_payment_terms (pc_paymentTerms pact))
                     (json_of_payment_terms (pr_normalizedTerms proposal))
          then Inl (rt_err TERMS_MISMATCH
            ''Pact payment terms do not match the Intent and Proposal.'')
          else
          res_bind (assertPathAuthority E st path intent (pc_paymentTerms pact) at False) (\<lambda>_.
          res_bind (pactActors E st pact) (\<lambda>partyActors.
          if signing_actor E partyActors binding = None
          then Inl (auth ''Pact signer is not an authorized active Pact party.'')
          else
          res_bind (requireStoredPact E st (pc_id pact)) (\<lambda>_.
          res_bind (assertReference (rq_workspaceRef request) (pc_workspaceRef pact)
            ''request.workspaceRef'') (\<lambda>_.
          res_bind (assertReference (rq_pathRef request) (pc_pathRef pact)
            ''request.pathRef'') (\<lambda>_.
          res_bind (assertReference (rq_intentRef request) (Some intentRef)
            ''request.intentRef'') (\<lambda>_.
          res_bind (assertReference (rq_proposalRef request) (pc_proposalRef pact)
            ''request.proposalRef'') (\<lambda>_.
          res_bind (assertReference (rq_decisionRef request) (pc_decisionRef pact)
            ''request.decisionRef'') (\<lambda>_.
          res_bind (assertReference (rq_pactRef request) (Some (mk_ref OT_Pact (pc_id pact)))
            ''request.pactRef'') (\<lambda>_.
          let activatedPact = pact
                \<lparr>pc_status := PTS_ACTIVE, pc_activatedAt := Some (toISOString at)\<rparr>
          in
          res_bind (assertCanonicalRecordBinding E activatedPact canonicalRecord) (\<lambda>_.
          if (case canonicalRecord of
                None \<Rightarrow> False
              | Some r \<Rightarrow> present (js_get (st_canonicalRecords st) (cr_id r)))
          then Inl (stale ''Canonical Record has already been recorded.'')
          else
          prepared
            (res_bind (buildResponse request ''pact.sign'' LS_COMMITTED
               (SD_pact intentRef activatedPact binding canonicalRecord) at []) (\<lambda>response.
             Inr (case canonicalRecord of
                None \<Rightarrow> response
              | Some r \<Rightarrow> response
                  \<lparr>rsp_canonicalRecordRef := Some (mk_ref OT_CanonicalRecord (cr_id r))\<rparr>)))
            (\<lambda>draft. draft
              \<lparr>st_pacts := js_set (pc_id pact) activatedPact (st_pacts draft),
               st_committedPacts := js_set (pc_id pact) (toISOString at) (st_committedPacts draft),
               st_canonicalRecords :=
                 (case canonicalRecord of
                    None \<Rightarrow> st_canonicalRecords draft
                  | Some r \<Rightarrow> js_set (cr_id r) r (st_canonicalRecords draft))\<rparr>))))))))))))))))))))))))))))))
      | _ \<Rightarrow> Inl shape_error)"


section \<open>Dispatch\<close>

definition RUNTIME_OPERATION_IDS :: "string list" where
  "RUNTIME_OPERATION_IDS =
     [''workspace.register'', ''actor.register'', ''path.activate'', ''path.revoke'',
      ''intent.prepare'', ''proposal.evaluate'', ''proposal.submit'', ''pact.sign'',
      ''proof.submit'', ''proof.verify'']"

definition prepareTransition ::
    "deps \<Rightarrow> string \<Rightarrow> operation_request \<Rightarrow> runtime_signature_binding \<Rightarrow> runtime_state \<Rightarrow> int \<Rightarrow>
     rt_error + prepared_transition" where
  "prepareTransition E operationId request binding st at =
     (if operationId = ''workspace.register'' then prepareWorkspace E request binding st at
      else if operationId = ''actor.register'' then prepareActor E request binding st at
      else if operationId = ''path.activate'' then preparePathActivate E request binding st at
      else if operationId = ''path.revoke'' then preparePathRevoke E request binding st at
      else if operationId = ''intent.prepare'' then prepareIntent E request binding st at
      else if operationId = ''proposal.evaluate''
      then prepareProposalEvaluate E request binding st at
      else if operationId = ''proposal.submit'' then prepareProposal E request binding st at
      else if operationId = ''pact.sign'' then preparePact E request binding st at
      else if operationId = ''proof.submit'' then prepareProofSubmit E request binding st at
      else if operationId = ''proof.verify'' then prepareProofVerify E request binding st at
      else Inl (JsError ''undefined transition''))"

end
