(* ===== verification/Runtime_Exec.thy ===== *)
theory Runtime_Exec
  imports Runtime_Transitions
begin

text \<open>
  The class \<open>Runtime\<close> of \<open>packages/openrails-runtime/src/runtime.ts\<close>: its options, \<open>execute\<close> and
  \<open>ingestPath\<close>, over any store.  \<open>execute\<close> has two parts.  The first (\<open>admit\<close>) works outside the
  store: it validates the envelope, checks the signed binding and verifies the signature.  The
  second runs in a transaction: it consumes the replay nonce, prepares the transition at the time
  of the transaction, validates the response and commits.
\<close>


section \<open>Options\<close>

definition MAX_SIGNATURE_LIFETIME_SECONDS :: int where
  "MAX_SIGNATURE_LIFETIME_SECONDS = 15 * 60"

definition DEFAULT_CLOCK_SKEW_SECONDS :: int where
  "DEFAULT_CLOCK_SKEW_SECONDS = 30"

record runtime_config =
  cfg_maxSignatureLifetimeSeconds :: int
  cfg_clockSkewSeconds :: int

definition newRuntime :: "int option \<Rightarrow> int option \<Rightarrow> rt_error + runtime_config" where
  "newRuntime maxLifetime clockSkew =
     (let m = (case maxLifetime of None \<Rightarrow> MAX_SIGNATURE_LIFETIME_SECONDS | Some x \<Rightarrow> x);
          c = (case clockSkew of None \<Rightarrow> DEFAULT_CLOCK_SKEW_SECONDS | Some x \<Rightarrow> x)
      in
      if \<not> is_safe_integer m \<or> m < 1 \<or> MAX_SIGNATURE_LIFETIME_SECONDS < m
      then Inl (JsError ''maxSignatureLifetimeSeconds must be between 1 and 900.'')
      else if \<not> is_safe_integer c \<or> c < 0 \<or> 300 < c
      then Inl (JsError ''clockSkewSeconds must be between 0 and 300.'')
      else Inr \<lparr>cfg_maxSignatureLifetimeSeconds = m, cfg_clockSkewSeconds = c\<rparr>)"


section \<open>Admission\<close>

definition rejected :: "deps \<Rightarrow> string \<Rightarrow> validation_result \<Rightarrow> rt_error" where
  "rejected E operationId v =
     RuntimeError INPUT_INVALID (''Shared Interface rejected '' @ operationId @ ''.'') False
       (reason_details (js_stringify (json_of_issues (vr_issues v))))"

definition verifyBinding ::
    "deps \<Rightarrow> arc_provider \<Rightarrow> runtime_signature_binding \<Rightarrow> rt_error + unit" where
  "verifyBinding E P binding =
     (case verify E P binding of
        Inr u \<Rightarrow> Inr ()
      | Inl e \<Rightarrow> Inl (asRuntimeError e SIGNATURE_INVALID
                  ''Runtime signature verification failed.''))"

definition replay_scope_of :: "deps \<Rightarrow> runtime_signature_binding \<Rightarrow> rt_error + replay_scope" where
  "replay_scope_of E binding =
     res_bind (getAddress_or_throw E (rb_anchorContract binding)) (\<lambda>anchor.
     res_bind (getAddress_or_throw E (rb_signer binding)) (\<lambda>signer.
     Inr \<lparr>rp_domainSalt = rd_salt (rb_domain binding), rp_chainId = rb_chainId binding,
          rp_anchorContract = anchor, rp_signer = signer, rp_nonce = rb_nonce binding\<rparr>))"

definition admit ::
    "deps \<Rightarrow> arc_provider \<Rightarrow> runtime_config \<Rightarrow> int \<Rightarrow> operation_request \<Rightarrow>
     rt_error + (runtime_signature_binding \<times> replay_scope)" where
  "admit E P cfg now request =
     (let operationId = rq_operationId request in
      case validateOperation E operationId (Some (json_of_request request)) Request_direction of
        Inl e \<Rightarrow> Inl (rt_err INPUT_INVALID (error_message e))
      | Inr validation \<Rightarrow>
          if \<not> vr_valid validation then Inl (rejected E operationId validation)
          else if operationId \<notin> set RUNTIME_OPERATION_IDS
          then Inl (rt_err INPUT_INVALID
            (''Runtime does not accept operation '' @ operationId @ ''.''))
          else
          res_bind (runtimeBinding (rq_data request) operationId) (\<lambda>sig.
          res_bind (assertRuntimeBinding E operationId request sig
            \<lparr>bo_now = now,
             bo_maxSignatureLifetimeSeconds = cfg_maxSignatureLifetimeSeconds cfg,
             bo_clockSkewSeconds = cfg_clockSkewSeconds cfg\<rparr>) (\<lambda>binding.
          res_bind (verifyBinding E P binding) (\<lambda>_.
          res_bind (replay_scope_of E binding) (\<lambda>scope.
          Inr (binding, scope))))))"


section \<open>The transaction\<close>

definition transition ::
    "deps \<Rightarrow> operation_request \<Rightarrow> runtime_signature_binding \<Rightarrow> int \<Rightarrow> runtime_state \<Rightarrow>
     rt_error + (operation_response \<times> runtime_state)" where
  "transition E request binding at st =
     (let operationId = rq_operationId request in
      res_bind (prepareTransition E operationId request binding st at) (\<lambda>p.
      res_bind (validateOperation E operationId (Some (json_of_response (prep_response p)))
        Response_direction) (\<lambda>validation.
      if \<not> vr_valid validation
      then Inl (RuntimeError INTERNAL_ERROR
        (''Runtime produced an invalid '' @ operationId @ '' response.'') False
        (reason_details (js_stringify (json_of_issues (vr_issues validation)))))
      else Inr (prep_response p, prep_commit p st))))"

definition execute ::
    "(('n, operation_response) tx_op \<Rightarrow> 's \<Rightarrow> (rt_error + operation_response) \<times> 's) \<Rightarrow>
     deps \<Rightarrow> arc_provider \<Rightarrow> runtime_config \<Rightarrow> int \<Rightarrow> int \<Rightarrow> operation_request \<Rightarrow> 's \<Rightarrow>
     (rt_error + operation_response) \<times> 's" where
  "execute transact E P cfg now at request s =
     (case admit E P cfg now request of
        Inl e \<Rightarrow> (Inl e, s)
      | Inr (binding, scope) \<Rightarrow> transact (scoped_op scope (transition E request binding at)) s)"


section \<open>Ingesting an attested Path\<close>

type_synonym path_attestor = "path \<Rightarrow> rt_error + provenance"

definition attestedProvenance :: "deps \<Rightarrow> path_attestor \<Rightarrow> path \<Rightarrow> rt_error + provenance" where
  "attestedProvenance E attest path =
     (case res_bind (attest path) (\<lambda>provenance.
             res_bind (assertValidSchema E (schema_id ''provenance'')
               (json_of_provenance provenance)) (\<lambda>_. Inr provenance)) of
        Inr provenance \<Rightarrow> Inr provenance
      | Inl error \<Rightarrow>
          (if isRuntimeError error then Inl error
           else Inl (RuntimeError AUTHORIZATION_REQUIRED
             ''Path attestation did not produce valid provenance.'' False
             (reason_details (error_message error)))))"

definition ingest_op ::
    "deps \<Rightarrow> path \<Rightarrow> provenance \<Rightarrow> runtime_state \<Rightarrow> rt_error + (path \<times> runtime_state)" where
  "ingest_op E path provenance st =
     (let acceptedPath = path\<lparr>pa_provenance := provenance\<rparr> in
      if present (js_get (st_pathAttestations st) (pa_id acceptedPath))
      then Inl (stale ''Path has already been authenticated.'')
      else if conflicts (js_get (st_paths st) (pa_id acceptedPath)) (\<lambda>existing.
          sameValue E (json_of_path existing) (json_of_path path))
      then Inl (stale ''Path already exists with different content.'')
      else Inr (acceptedPath, st
        \<lparr>st_paths := js_set (pa_id acceptedPath) acceptedPath (st_paths st),
         st_pathAttestations := js_set (pa_id acceptedPath)
           \<lparr>sa_path = acceptedPath, sa_provenance = provenance\<rparr> (st_pathAttestations st)\<rparr>))"

definition ingestPath ::
    "(('n, path) tx_op \<Rightarrow> 's \<Rightarrow> (rt_error + path) \<times> 's) \<Rightarrow> deps \<Rightarrow> path_attestor option \<Rightarrow>
     path \<Rightarrow> 's \<Rightarrow> (rt_error + path) \<times> 's" where
  "ingestPath transact E pathAttestor path s =
     (case assertValidSchema E (schema_id ''path'') (json_of_path path) of
        Inl e \<Rightarrow> (Inl (RuntimeError INPUT_INVALID
          ''Path failed Shared Interface 1.2 schema validation.'' False
          (reason_details (error_message e))), s)
      | Inr u \<Rightarrow>
          (case pathAttestor of
             None \<Rightarrow> (Inl (auth
               ''Authenticated Path ingestion requires a caller-supplied PathAttestor.''), s)
           | Some attest \<Rightarrow>
               (case attestedProvenance E attest path of
                  Inl e \<Rightarrow> (Inl e, s)
                | Inr provenance \<Rightarrow>
                    if pv_source provenance = PSrc_configuration
                       \<or> pv_evidenceLevel provenance = EL_configuration_only
                    then (Inl (auth
                      ''Configuration-only provenance cannot authenticate a Path.''), s)
                    else transact (plain_op (ingest_op E path provenance)) s)))"


section \<open>Runs\<close>

text \<open>
  Calls and their store transactions interleave: a call is admitted as of some earlier time
  (its signature is checked while other calls run), and the transactions of admitted calls run one at a time in the order of the store's queue.
\<close>

record 's runtime_system =
  sys_store :: 's
  sys_queue :: "(operation_request \<times> runtime_signature_binding \<times> replay_scope) list"
  sys_clock :: int

inductive rt_step ::
    "(('n, operation_response) tx_op \<Rightarrow> 's \<Rightarrow> (rt_error + operation_response) \<times> 's) \<Rightarrow>
     (('n, path) tx_op \<Rightarrow> 's \<Rightarrow> (rt_error + path) \<times> 's) \<Rightarrow>
     deps \<Rightarrow> arc_provider \<Rightarrow> runtime_config \<Rightarrow> path_attestor option \<Rightarrow>
     's runtime_system \<Rightarrow> 's runtime_system \<Rightarrow> bool"
  for transact transactPath E P cfg attestor where
  tick: "sys_clock y \<le> t \<Longrightarrow>
    rt_step transact transactPath E P cfg attestor y (y\<lparr>sys_clock := t\<rparr>)"
| arrive: "t \<le> sys_clock y \<Longrightarrow> admit E P cfg t request = Inr (binding, scope) \<Longrightarrow>
    rt_step transact transactPath E P cfg attestor y
      (y\<lparr>sys_queue := sys_queue y @ [(request, binding, scope)]\<rparr>)"
| run: "sys_queue y = (request, binding, scope) # rest \<Longrightarrow>
    transact (scoped_op scope (transition E request binding (sys_clock y))) (sys_store y)
      = (out, s') \<Longrightarrow>
    rt_step transact transactPath E P cfg attestor y
      (y\<lparr>sys_queue := rest, sys_store := s'\<rparr>)"
| ingest: "ingestPath transactPath E attestor path (sys_store y) = (out, s') \<Longrightarrow>
    rt_step transact transactPath E P cfg attestor y (y\<lparr>sys_store := s'\<rparr>)"

end
