(* ===== verification/Runtime_Spec.thy ===== *)
theory Runtime_Spec
  imports Runtime_Exec
begin

text \<open>
  What the Runtime promises, as a step relation on its state: one rule per kind of step, with the
  conditions that justify the step and the change it makes and nothing about envelopes,
  responses or the order of checks.  \<open>transition_effect\<close> and \<open>ingest_effect\<close> say that the
  detailed transitions implement it; the invariants are proved on this relation.
\<close>


section \<open>The step relation\<close>

text \<open>A registered, usable Workspace and the wallet that speaks for it.\<close>

definition workspace_authority :: "deps \<Rightarrow> runtime_state \<Rightarrow> string \<Rightarrow> workspace \<Rightarrow> string \<Rightarrow> bool" where
  "workspace_authority E st wid w a \<longleftrightarrow>
     own (st_workspaces st) wid = Some w \<and> ws_id w = wid \<and> isUsableWorkspace w \<and>
     (\<exists>stored. own (st_workspaceAuthorities st) wid = Some stored \<and> stored \<noteq> [] \<and>
        ext_getAddress E stored = Some a)"

text \<open>A usable Actor whose wallet signed.\<close>

definition signed_by_actor :: "deps \<Rightarrow> runtime_state \<Rightarrow> string \<Rightarrow> string \<Rightarrow> bool" where
  "signed_by_actor E st aid signer \<longleftrightarrow>
     (\<exists>a. own (st_actors st) aid = Some a \<and> ac_id a = aid \<and> isUsableActor a \<and>
        walletIs E (ac_walletAddress a) signer)"

text \<open>An active Path that its schema accepts, with its attestation.\<close>

definition schema_accepts :: "deps \<Rightarrow> string \<Rightarrow> json \<Rightarrow> bool" where
  "schema_accepts E schema v \<longleftrightarrow> ext_validate E (schema_id schema) (Some v) = Some []"

definition active_path :: "deps \<Rightarrow> runtime_state \<Rightarrow> string \<Rightarrow> path \<Rightarrow> bool" where
  "active_path E st pid p \<longleftrightarrow>
     own (st_paths st) pid = Some p \<and> pa_id p = pid \<and> pa_status p = PS_ACTIVE \<and>
     schema_accepts E ''path'' (json_of_path p) \<and>
     (\<exists>a. own (st_pathAttestations st) pid = Some a \<and> pa_id (sa_path a) = pid \<and>
        sameValue E (json_of_path (sa_path a)) (json_of_path p))"

text \<open>A live Intent of the Workspace and the Path.\<close>

definition live_intent ::
    "runtime_state \<Rightarrow> int \<Rightarrow> string \<Rightarrow> string \<Rightarrow> string \<Rightarrow> intent \<Rightarrow> bool" where
  "live_intent st at wid pid iid i \<longleftrightarrow>
     own (st_intents st) iid = Some i \<and> in_id i = iid \<and> isUsableIntent i at \<and>
     (\<exists>r. in_workspaceRef i = Some r \<and> ref_type r = OT_Workspace \<and> ref_id r = wid) \<and>
     (\<exists>r. in_pathRef i = Some r \<and> ref_type r = OT_Path \<and> ref_id r = pid)"

inductive runtime_effect ::
    "deps \<Rightarrow> string \<Rightarrow> int \<Rightarrow> runtime_state \<Rightarrow> runtime_state \<Rightarrow> bool"
  for E signer at where
  register_workspace:
    "own (st_workspaces st) (ws_id w) = None \<Longrightarrow>
     own (st_workspaceAuthorities st) (ws_id w) = None
       \<or> own (st_workspaceAuthorities st) (ws_id w) = Some [] \<Longrightarrow>
     isUsableWorkspace w \<Longrightarrow> ext_getAddress E signer = Some a \<Longrightarrow>
     runtime_effect E signer at st (st
       \<lparr>st_workspaces := js_set (ws_id w) w (st_workspaces st),
        st_workspaceAuthorities := js_set (ws_id w) a (st_workspaceAuthorities st)\<rparr>)"
| register_actor:
    "workspace_authority E st wid w a \<Longrightarrow> sameAddress E a signer \<Longrightarrow>
     own (st_actors st) (ac_id ac) = None \<Longrightarrow>
     (ac_id ac = ref_id (ws_ownerActorRef w) \<Longrightarrow> walletIs E (ac_walletAddress ac) signer) \<Longrightarrow>
     runtime_effect E signer at st (st
       \<lparr>st_actors := js_set (ac_id ac) ac (st_actors st),
        st_actorWorkspaces := js_set (ac_id ac) wid (st_actorWorkspaces st)\<rparr>)"
| activate_path:
    "workspace_authority E st (ref_id (pa_workspaceRef p)) w a \<Longrightarrow> sameAddress E signer a \<Longrightarrow>
     signed_by_actor E st (ref_id (pa_issuerActorRef p)) a \<Longrightarrow>
     pa_status p = PS_PREPARED \<Longrightarrow> assertPathBinding E p at = Inr () \<Longrightarrow>
     (\<And>e. own (st_paths st) (pa_id p) = Some e \<Longrightarrow>
        sameValue E (json_of_path e) (json_of_path p) \<and> pa_status e = PS_PREPARED) \<Longrightarrow>
     runtime_effect E signer at st (st
       \<lparr>st_paths := js_set (pa_id p) (p\<lparr>pa_status := PS_ACTIVE\<rparr>) (st_paths st),
        st_pathAttestations := js_set (pa_id p)
          \<lparr>sa_path = p\<lparr>pa_status := PS_ACTIVE\<rparr>, sa_provenance = pa_provenance p\<rparr>
          (st_pathAttestations st)\<rparr>)"
| revoke_path:
    "active_path E st (pa_id p) p \<Longrightarrow> own (st_pathAttestations st) (pa_id p) = Some att \<Longrightarrow>
     workspace_authority E st (ref_id (pa_workspaceRef p)) w a \<Longrightarrow> sameAddress E signer a \<Longrightarrow>
     signed_by_actor E st (ref_id (pa_issuerActorRef p)) a \<Longrightarrow>
     runtime_effect E signer at st (st
       \<lparr>st_paths := js_set (pa_id p) (p\<lparr>pa_status := PS_REVOKED\<rparr>) (st_paths st),
        st_pathAttestations := js_set (pa_id p) (att\<lparr>sa_path := p\<lparr>pa_status := PS_REVOKED\<rparr>\<rparr>)
          (st_pathAttestations st)\<rparr>)"
| prepare_intent:
    "workspace_authority E st wid w a \<Longrightarrow> sameAddress E signer a \<Longrightarrow>
     active_path E st pid p \<Longrightarrow> ref_id (pa_workspaceRef p) = wid \<Longrightarrow>
     (\<exists>r. in_workspaceRef i = Some r \<and> ref_id r = wid) \<Longrightarrow>
     (\<exists>r. in_pathRef i = Some r \<and> ref_id r = pid) \<Longrightarrow>
     in_status i = LS_DRAFT \<Longrightarrow> own (st_intents st) (in_id i) = None \<Longrightarrow>
     runtime_effect E signer at st (st
       \<lparr>st_intents := js_set (in_id i) (i\<lparr>in_status := LS_PREPARED\<rparr>) (st_intents st)\<rparr>)"
| allow_proposal:
    "active_path E st (ref_id (pr_pathRef r)) p \<Longrightarrow>
     live_intent st at (ref_id (pr_workspaceRef r)) (ref_id (pr_pathRef r))
       (ref_id (pr_intentRef r)) i \<Longrightarrow>
     signed_by_actor E st (ref_id (pa_delegateActorRef p)) signer \<Longrightarrow>
     pr_status r = PRS_EVALUATING \<Longrightarrow>
     sameValue E (json_of_payment_terms (pr_normalizedTerms r))
       (json_of_payment_terms (in_paymentTerms i)) \<Longrightarrow>
     (\<And>e. own (st_proposals st) (pr_id r) = Some e \<Longrightarrow>
        sameValue E (json_of_proposal e) (json_of_proposal r) \<and> pr_status e = PRS_EVALUATING) \<Longrightarrow>
     own (st_decisions st) (decision_id r) = None \<Longrightarrow>
     assertPathAuthority E st p i (pr_normalizedTerms r) at
       (own (st_proposals st) (pr_id r) = None) = Inr rs \<Longrightarrow>
     in_pactRef i = Some pactRef \<Longrightarrow>
     runtime_effect E signer at st (store_reservations rs (st
       \<lparr>st_proposals := js_set (pr_id r)
          (r\<lparr>pr_policyVersion := Some v, pr_status := PRS_ALLOWED\<rparr>) (st_proposals st),
        st_decisions := js_set (decision_id r) (allowDecision r v pactRef at) (st_decisions st)\<rparr>))"
| block_proposal:
    "active_path E st (ref_id (pr_pathRef r)) p \<Longrightarrow>
     live_intent st at (ref_id (pr_workspaceRef r)) (ref_id (pr_pathRef r))
       (ref_id (pr_intentRef r)) i \<Longrightarrow>
     signed_by_actor E st (ref_id (pa_delegateActorRef p)) signer \<Longrightarrow>
     pr_status r = PRS_EVALUATING \<Longrightarrow>
     (\<And>e. own (st_proposals st) (pr_id r) = Some e \<Longrightarrow>
        sameValue E (json_of_proposal e) (json_of_proposal r) \<and> pr_status e = PRS_EVALUATING) \<Longrightarrow>
     own (st_decisions st) (decision_id r) = None \<Longrightarrow>
     assertPathAuthority E st p i (pr_normalizedTerms r) at
       (own (st_proposals st) (pr_id r) = None) = Inl err \<Longrightarrow>
     has_code POLICY_BLOCKED err \<Longrightarrow>
     runtime_effect E signer at st (st
       \<lparr>st_proposals := js_set (pr_id r)
          (r\<lparr>pr_policyVersion := Some v, pr_status := PRS_BLOCKED\<rparr>) (st_proposals st),
        st_decisions := js_set (decision_id r) (blockDecision r v at) (st_decisions st)\<rparr>)"
| submit_proposal:
    "active_path E st (ref_id (pr_pathRef r)) p \<Longrightarrow>
     live_intent st at (ref_id (pr_workspaceRef r)) (ref_id (pr_pathRef r))
       (ref_id (pr_intentRef r)) i \<Longrightarrow>
     signed_by_actor E st (ref_id (pa_delegateActorRef p)) signer \<Longrightarrow>
     pr_status r = PRS_EVALUATING \<Longrightarrow>
     sameValue E (json_of_payment_terms (pr_normalizedTerms r))
       (json_of_payment_terms (in_paymentTerms i)) \<Longrightarrow>
     own (st_proposals st) (pr_id r) = None \<Longrightarrow>
     assertPathAuthority E st p i (pr_normalizedTerms r) at True = Inr rs \<Longrightarrow>
     runtime_effect E signer at st (store_reservations rs (st
       \<lparr>st_proposals := js_set (pr_id r) r (st_proposals st)\<rparr>))"
| sign_pact:
    "active_path E st pid p \<Longrightarrow> live_intent st at wid pid iid i \<Longrightarrow>
     own (st_proposals st) (pr_id r) = Some r \<Longrightarrow> pr_status r = PRS_ALLOWED \<Longrightarrow>
     ref_id (pr_pathRef r) = pid \<Longrightarrow> ref_id (pr_intentRef r) = iid \<Longrightarrow>
     own (st_decisions st) (de_id d) = Some d \<Longrightarrow> de_decision d = DK_ALLOW \<Longrightarrow>
     ref_id (de_proposalRef d) = pr_id r \<Longrightarrow> de_inputHash d = pr_inputHash r \<Longrightarrow>
     pr_policyVersion r = Some (de_policyVersion d) \<Longrightarrow>
     de_pactRef d = Some pr \<Longrightarrow> ref_type pr = OT_Pact \<Longrightarrow> ref_id pr = pc_id c \<Longrightarrow>
     (\<exists>x. pc_decisionRef c = Some x \<and> ref_id x = de_id d) \<Longrightarrow>
     (\<exists>x. pc_proposalRef c = Some x \<and> ref_id x = pr_id r) \<Longrightarrow>
     sameValue E (json_of_payment_terms (pc_paymentTerms c))
       (json_of_payment_terms (in_paymentTerms i)) \<Longrightarrow>
     sameValue E (json_of_payment_terms (pc_paymentTerms c))
       (json_of_payment_terms (pr_normalizedTerms r)) \<Longrightarrow>
     assertPathAuthority E st p i (pc_paymentTerms c) at False = Inr rs \<Longrightarrow>
     (\<exists>x \<in> set (pc_parties c). signed_by_actor E st (ref_id x) signer) \<Longrightarrow>
     own (st_pacts st) (pc_id c) = None \<Longrightarrow>
     c' = c\<lparr>pc_status := PTS_ACTIVE, pc_activatedAt := Some (toISOString at)\<rparr> \<Longrightarrow>
     assertCanonicalRecordBinding E c' record = Inr () \<Longrightarrow>
     (\<And>x. record = Some x \<Longrightarrow> own (st_canonicalRecords st) (cr_id x) = None) \<Longrightarrow>
     runtime_effect E signer at st (st
       \<lparr>st_pacts := js_set (pc_id c) c' (st_pacts st),
        st_committedPacts := js_set (pc_id c) (toISOString at) (st_committedPacts st),
        st_canonicalRecords :=
          (case record of None \<Rightarrow> st_canonicalRecords st
           | Some x \<Rightarrow> js_set (cr_id x) x (st_canonicalRecords st))\<rparr>)"
| submit_proof:
    "own (st_pacts st) (pc_id c) = Some c \<Longrightarrow> pc_status c = PTS_ACTIVE \<Longrightarrow>
     (\<exists>x. pf_pactRef f = Some x \<and> ref_id x = pc_id c) \<Longrightarrow>
     active_path E st pid p \<Longrightarrow>
     (\<exists>x \<in> set (pc_parties c). signed_by_actor E st (ref_id x) signer) \<Longrightarrow>
     pf_status f = PFS_SUBMITTED \<Longrightarrow>
     own (st_proofs st) (pf_id f) = None \<Longrightarrow>
     runtime_effect E signer at st (st\<lparr>st_proofs := js_set (pf_id f) f (st_proofs st)\<rparr>)"
| verify_proof:
    "own (st_proofs st) (pf_id f) = Some f \<Longrightarrow> pf_status f = PFS_SUBMITTED \<Longrightarrow>
     own (st_pacts st) (pc_id c) = Some c \<Longrightarrow> pc_status c = PTS_ACTIVE \<Longrightarrow>
     (\<exists>x. pf_pactRef f = Some x \<and> ref_id x = pc_id c) \<Longrightarrow>
     active_path E st pid p \<Longrightarrow>
     x \<in> set (pc_parties c) \<Longrightarrow> signed_by_actor E st (ref_id x) signer \<Longrightarrow>
     runtime_effect E signer at st (st\<lparr>st_proofs := js_set (pf_id f)
       (f\<lparr>pf_status := PFS_VERIFIED, pf_verifiedAt := Some (toISOString at),
          pf_verifierActorRef := Some (mk_ref OT_Actor (ref_id x))\<rparr>) (st_proofs st)\<rparr>)"

text \<open>The step outside the signed operations: an attested Path enters the store.\<close>

inductive ingest_effect :: "deps \<Rightarrow> runtime_state \<Rightarrow> runtime_state \<Rightarrow> bool" for E where
  ingest_path:
    "own (st_pathAttestations st) (pa_id p) = None \<Longrightarrow>
     (\<And>e. own (st_paths st) (pa_id p) = Some e \<Longrightarrow>
        sameValue E (json_of_path e) (json_of_path p)) \<Longrightarrow>
     ingest_effect E st (st
       \<lparr>st_paths := js_set (pa_id p) (p\<lparr>pa_provenance := v\<rparr>) (st_paths st),
        st_pathAttestations := js_set (pa_id p)
          \<lparr>sa_path = p\<lparr>pa_provenance := v\<rparr>, sa_provenance = v\<rparr> (st_pathAttestations st)\<rparr>)"


section \<open>What the guards establish\<close>

lemma requireWorkspace_Inr:
  "requireWorkspace E st wid = Inr w \<Longrightarrow>
     own (st_workspaces st) wid = Some w \<and> ws_id w = wid \<and> isUsableWorkspace w"
  by (auto simp: requireWorkspace_def res_simps)

lemma requireActor_Inr:
  "requireActor E st aid = Inr a \<Longrightarrow>
     own (st_actors st) aid = Some a \<and> ac_id a = aid \<and> isUsableActor a"
  by (auto simp: requireActor_def res_simps)

lemma assertValidStoredState_Inr:
  "assertValidStoredState E schema v label = Inr () \<Longrightarrow> schema_accepts E schema v"
  by (auto simp: assertValidStoredState_def assertValidSchema_def validatorFor_def schema_accepts_def
      res_simps split: sum.splits option.splits if_splits)

lemma requirePath_Inr:
  "requirePath E st pid = Inr p \<Longrightarrow>
     own (st_paths st) pid = Some p \<and> pa_id p = pid \<and> pa_status p = PS_ACTIVE
     \<and> schema_accepts E ''path'' (json_of_path p)"
  by (auto simp: requirePath_def res_simps dest: assertValidStoredState_Inr)

lemma requireAttestedPath_Inr:
  "requireAttestedPath E st p = Inr () \<Longrightarrow>
     \<exists>a. own (st_pathAttestations st) (pa_id p) = Some a \<and> pa_id (sa_path a) = pa_id p
       \<and> sameValue E (json_of_path (sa_path a)) (json_of_path p)"
  by (auto simp: requireAttestedPath_def res_simps split: js_prop.splits)

lemma requireIntent_Inr:
  "requireIntent E st iid at = Inr i \<Longrightarrow>
     own (st_intents st) iid = Some i \<and> in_id i = iid \<and> isUsableIntent i at"
  by (auto simp: requireIntent_def res_simps)

lemma requireProposal_Inr:
  "requireProposal E st rid = Inr r \<Longrightarrow> own (st_proposals st) rid = Some r \<and> pr_id r = rid"
  by (auto simp: requireProposal_def res_simps)

lemma requireDecision_Inr:
  "requireDecision E st did = Inr d \<Longrightarrow> own (st_decisions st) did = Some d \<and> de_id d = did"
  by (auto simp: requireDecision_def res_simps)

lemma requirePact_Inr:
  "requirePact E st cid = Inr c \<Longrightarrow>
     own (st_pacts st) cid = Some c \<and> pc_id c = cid \<and> pc_status c = PTS_ACTIVE"
  by (auto simp: requirePact_def res_simps)

lemma requireProof_Inr:
  "requireProof E st fid = Inr f \<Longrightarrow> own (st_proofs st) fid = Some f \<and> pf_id f = fid"
  by (auto simp: requireProof_def res_simps)

lemma requireWorkspaceAuthority_Inr:
  "requireWorkspaceAuthority E st wid = Inr a \<Longrightarrow>
     \<exists>stored. own (st_workspaceAuthorities st) wid = Some stored \<and> stored \<noteq> []
       \<and> ext_getAddress E stored = Some a"
  by (auto simp: requireWorkspaceAuthority_def res_simps split: js_prop.splits)

lemma requireStoredPact_Inr:
  "requireStoredPact E st cid = Inr () \<Longrightarrow> own (st_pacts st) cid = None"
  by (auto simp: requireStoredPact_def res_simps dest: not_presentD split: if_splits)

lemma refId_Inr:
  "refId v t f = Inr i \<longleftrightarrow> (\<exists>r. v = Some r \<and> ref_type r = t \<and> ref_id r = i)"
  by (auto simp: refId_def split: option.splits)

lemma assertReference_Inr: "assertReference v e f = Inr () \<longleftrightarrow> sameRef v e"
  by (simp add: assertReference_def)

lemma workspace_authorityI:
  "requireWorkspace E st wid = Inr w \<Longrightarrow> requireWorkspaceAuthority E st (ws_id w) = Inr a \<Longrightarrow>
     workspace_authority E st wid w a"
  by (auto simp: workspace_authority_def dest!: requireWorkspace_Inr requireWorkspaceAuthority_Inr)

lemma signed_by_actorI:
  "requireActor E st aid = Inr a \<Longrightarrow> walletIs E (ac_walletAddress a) s \<Longrightarrow> signed_by_actor E st aid s"
  by (auto simp: signed_by_actor_def dest!: requireActor_Inr)

lemma active_pathI:
  "requirePath E st pid = Inr p \<Longrightarrow> requireAttestedPath E st p = Inr () \<Longrightarrow> active_path E st pid p"
  by (auto simp: active_path_def dest!: requirePath_Inr requireAttestedPath_Inr)

lemma live_intentI:
  "requireIntent E st iid at = Inr i \<Longrightarrow>
   sameRef (in_workspaceRef i) (Some (mk_ref OT_Workspace wid)) \<Longrightarrow>
   sameRef (in_pathRef i) (Some (mk_ref OT_Path pid)) \<Longrightarrow> live_intent st at wid pid iid i"
  by (auto simp: live_intent_def dest!: requireIntent_Inr)

lemma pactActors_signing:
  assumes "pactActors E st c = Inr actors" and "signing_actor E actors b = Some a"
  shows "\<exists>x \<in> set (pc_parties c). signed_by_actor E st (ref_id x) (rb_signer b) \<and> ac_id a = ref_id x"
proof -
  have a: "a \<in> set actors" "walletIs E (ac_walletAddress a) (rb_signer b)"
    using find_SomeD [OF assms(2) [unfolded signing_actor_def]] by auto
  obtain x where x: "x \<in> set (pc_parties c)" "requireActor E st (ref_id x) = Inr a"
    using res_mapM_member [OF assms(1) [unfolded pactActors_def] a(1)] by blast
  from x(2) have "ac_id a = ref_id x" by (auto dest: requireActor_Inr)
  with x signed_by_actorI [OF x(2) a(2)] show ?thesis by blast
qed

lemma conflicts_own:
  "\<not> conflicts (js_get r k) ok \<Longrightarrow> own r k = Some v \<Longrightarrow> ok v"
  by (simp add: conflicts_def js_get_own)

lemma not_conflicts_present:
  "\<not> conflicts (js_get r k) ok \<Longrightarrow> present (js_get r k) \<longleftrightarrow> own r k \<noteq> None"
  by (auto simp: conflicts_def js_get_own present_def split: option.splits if_splits)

lemmas guard_simps = refId_Inr assertReference_Inr

end
