(* ===== verification/Runtime_Refinement.thy ===== *)
theory Runtime_Refinement
  imports Runtime_Spec
begin

text \<open>
  The transitions of the Runtime implement the step relation of \<open>Runtime_Spec\<close>: one lemma per
  operation, then the dispatch, the transaction and the ingestion of a Path.
\<close>


section \<open>One operation at a time\<close>

lemma prepareWorkspace_effect:
  assumes "prepareWorkspace E request binding st at = Inr p"
  shows "runtime_effect E (rb_signer binding) at st (prep_commit p st)"
proof -
  obtain w s where d: "rq_data request = RD_workspace w s"
    using assms by (auto simp: prepareWorkspace_def shape_error_def split: request_data.splits)
  from assms obtain a where *: "\<not> present (js_get (st_workspaces st) (ws_id w))"
      "\<not> truthy_text (js_get (st_workspaceAuthorities st) (ws_id w))"
      "isUsableWorkspace w" "ext_getAddress E (rb_signer binding) = Some a"
      "prep_commit p = (\<lambda>draft. draft
        \<lparr>st_workspaces := js_set (ws_id w) w (st_workspaces draft),
         st_workspaceAuthorities := js_set (ws_id w) a (st_workspaceAuthorities draft)\<rparr>)"
    by (auto simp: prepareWorkspace_def d res_simps isUsableWorkspace_def getAddress_or_throw_def
        split: if_splits)
  have "own (st_workspaceAuthorities st) (ws_id w) = None
      \<or> own (st_workspaceAuthorities st) (ws_id w) = Some []"
    using *(2) by (auto simp: truthy_text_def js_get_own split: option.splits if_splits)
  with * show ?thesis by (auto intro: register_workspace dest: not_presentD)
qed

lemma prepareActor_effect:
  assumes "prepareActor E request binding st at = Inr p"
  shows "runtime_effect E (rb_signer binding) at st (prep_commit p st)"
proof -
  obtain r ac s where d: "rq_data request = RD_actor r ac s"
    using assms by (auto simp: prepareActor_def shape_error_def split: request_data.splits)
  from assms obtain w a where *: "requireWorkspace E st (ref_id r) = Inr w"
      "requireWorkspaceAuthority E st (ws_id w) = Inr a" "sameAddress E a (rb_signer binding)"
      "\<not> present (js_get (st_actors st) (ac_id ac))"
      "\<not> (ac_id ac = ref_id (ws_ownerActorRef w) \<and> \<not> walletIs E (ac_walletAddress ac) (rb_signer binding))"
      "prep_commit p = (\<lambda>draft. draft
        \<lparr>st_actors := js_set (ac_id ac) ac (st_actors draft),
         st_actorWorkspaces := js_set (ac_id ac) (ws_id w) (st_actorWorkspaces draft)\<rparr>)"
    by (auto simp: prepareActor_def d res_simps guard_simps split: if_splits)
  moreover have "ws_id w = ref_id r" using *(1) by (auto dest: requireWorkspace_Inr)
  ultimately show ?thesis
    using workspace_authorityI [OF *(1,2)] by (auto intro: register_actor dest: not_presentD)
qed

lemma preparePathActivate_effect:
  assumes "preparePathActivate E request binding st at = Inr p"
  shows "runtime_effect E (rb_signer binding) at st (prep_commit p st)"
proof -
  obtain pa s where d: "rq_data request = RD_path pa s"
    using assms by (auto simp: preparePathActivate_def shape_error_def split: request_data.splits)
  from assms obtain w a i where *:
      "requireWorkspace E st (ref_id (pa_workspaceRef pa)) = Inr w"
      "requireWorkspaceAuthority E st (ws_id w) = Inr a"
      "requireActor E st (ref_id (pa_issuerActorRef pa)) = Inr i"
      "pa_status pa = PS_PREPARED" "signed_by_authority E i a binding"
      "assertPathBinding E pa at = Inr ()"
      "\<not> conflicts (js_get (st_paths st) (pa_id pa)) (\<lambda>existing.
         sameValue E (json_of_path existing) (json_of_path pa) \<and> pa_status existing = PS_PREPARED)"
      "prep_commit p = (\<lambda>draft. draft
        \<lparr>st_paths := js_set (pa_id pa) (pa\<lparr>pa_status := PS_ACTIVE\<rparr>) (st_paths draft),
         st_pathAttestations := js_set (pa_id pa)
           \<lparr>sa_path = pa\<lparr>pa_status := PS_ACTIVE\<rparr>, sa_provenance = pa_provenance pa\<rparr>
           (st_pathAttestations draft)\<rparr>)"
    by (auto simp: preparePathActivate_def d res_simps guard_simps Let_def split: if_splits)
  from *(5) have s: "sameAddress E (rb_signer binding) a" "walletIs E (ac_walletAddress i) a"
    by (simp_all add: signed_by_authority_def)
  show ?thesis
    unfolding *(8)
    by (rule activate_path [OF workspace_authorityI [OF *(1,2)] s(1) signed_by_actorI [OF *(3) s(2)]
          *(4,6) conflicts_own [OF *(7)]])
qed

lemma preparePathRevoke_effect:
  assumes "preparePathRevoke E request binding st at = Inr p"
  shows "runtime_effect E (rb_signer binding) at st (prep_commit p st)"
proof -
  obtain r s where d: "rq_data request = RD_objectRef r s"
    using assms by (auto simp: preparePathRevoke_def shape_error_def split: request_data.splits)
  from assms obtain pa w a i where *:
      "requirePath E st (ref_id r) = Inr pa" "requireAttestedPath E st pa = Inr ()"
      "requireWorkspace E st (ref_id (pa_workspaceRef pa)) = Inr w"
      "requireWorkspaceAuthority E st (ws_id w) = Inr a"
      "requireActor E st (ref_id (pa_issuerActorRef pa)) = Inr i"
      "signed_by_authority E i a binding"
      "prep_commit p = (\<lambda>draft. draft
        \<lparr>st_paths := js_set (pa_id pa) (pa\<lparr>pa_status := PS_REVOKED\<rparr>) (st_paths draft),
         st_pathAttestations :=
           (case js_get (st_pathAttestations draft) (pa_id pa) of
              Own x \<Rightarrow> js_set (pa_id pa) (x\<lparr>sa_path := pa\<lparr>pa_status := PS_REVOKED\<rparr>\<rparr>)
                         (st_pathAttestations draft)
            | _ \<Rightarrow> st_pathAttestations draft)\<rparr>)"
    by (auto simp: preparePathRevoke_def d res_simps guard_simps Let_def split: if_splits)
  from *(6) have s: "sameAddress E (rb_signer binding) a" "walletIs E (ac_walletAddress i) a"
    by (simp_all add: signed_by_authority_def)
  have "pa_id pa = ref_id r" using *(1) by (auto dest: requirePath_Inr)
  then have act: "active_path E st (pa_id pa) pa" using active_pathI [OF *(1,2)] by simp
  then obtain x where x: "own (st_pathAttestations st) (pa_id pa) = Some x"
    by (auto simp: active_path_def)
  show ?thesis
    unfolding *(7)
    using revoke_path [OF act x workspace_authorityI [OF *(3,4)] s(1) signed_by_actorI [OF *(5) s(2)]] x
    by (simp add: js_get_own)
qed

lemma prepareIntent_effect:
  assumes "prepareIntent E request binding st at = Inr p"
  shows "runtime_effect E (rb_signer binding) at st (prep_commit p st)"
proof -
  obtain i s where d: "rq_data request = RD_intent i s"
    using assms by (auto simp: prepareIntent_def shape_error_def split: request_data.splits)
  from assms obtain wr w pr pa a where *:
      "in_workspaceRef i = Some wr" "requireWorkspace E st (ref_id wr) = Inr w"
      "in_pathRef i = Some pr" "requirePath E st (ref_id pr) = Inr pa"
      "requireAttestedPath E st pa = Inr ()"
      "ref_id (pa_workspaceRef pa) = ws_id w"
      "requireWorkspaceAuthority E st (ws_id w) = Inr a" "sameAddress E (rb_signer binding) a"
      "in_status i = LS_DRAFT" "\<not> present (js_get (st_intents st) (in_id i))"
      "prep_commit p = (\<lambda>draft. draft
        \<lparr>st_intents := js_set (in_id i) (i\<lparr>in_status := LS_PREPARED\<rparr>) (st_intents draft)\<rparr>)"
    by (auto simp: prepareIntent_def d res_simps guard_simps Let_def split: if_splits)
  have w: "ws_id w = ref_id wr" using *(2) by (auto dest: requireWorkspace_Inr)
  show ?thesis
    unfolding *(11)
    by (rule prepare_intent [OF workspace_authorityI [OF *(2,7)] *(8) active_pathI [OF *(4,5)]])
      (use * w in \<open>auto dest: not_presentD\<close>)
qed

lemma prepareProposalEvaluate_effect:
  assumes "prepareProposalEvaluate E request binding st at = Inr p"
  shows "runtime_effect E (rb_signer binding) at st (prep_commit p st)"
proof -
  obtain r s where d: "rq_data request = RD_proposal r s"
    using assms
    by (auto simp: prepareProposalEvaluate_def shape_error_def split: request_data.splits)
  let ?v = "case pr_policyVersion r of None \<Rightarrow> BAPHOMET_POLICY_VERSION | Some v \<Rightarrow> v"
  let ?ex = "js_get (st_proposals st) (pr_id r)"
  from assms obtain w pa i g ev where *:
      "requireWorkspace E st (ref_id (pr_workspaceRef r)) = Inr w"
      "requirePath E st (ref_id (pr_pathRef r)) = Inr pa" "requireAttestedPath E st pa = Inr ()"
      "requireIntent E st (ref_id (pr_intentRef r)) at = Inr i"
      "sameRef (in_workspaceRef i) (Some (mk_ref OT_Workspace (ws_id w)))"
      "sameRef (in_pathRef i) (Some (mk_ref OT_Path (pa_id pa)))"
      "pr_status r = PRS_EVALUATING"
      "sameValue E (json_of_payment_terms (pr_normalizedTerms r))
         (json_of_payment_terms (in_paymentTerms i))"
      "requireActor E st (ref_id (pa_delegateActorRef pa)) = Inr g"
      "walletIs E (ac_walletAddress g) (rb_signer binding)"
      "\<not> conflicts ?ex (\<lambda>p. sameValue E (json_of_proposal p) (json_of_proposal r)
         \<and> pr_status p = PRS_EVALUATING)"
      "evaluate_proposal E st pa i r ?v at (\<not> present ?ex) = Inr ev"
      "\<not> present (js_get (st_decisions st) (de_id (ev_decision ev)))"
      "prep_commit p = (\<lambda>draft. store_reservations (ev_reservations ev) (draft
         \<lparr>st_proposals := js_set (pr_id r)
            (r\<lparr>pr_policyVersion := Some ?v, pr_status := ev_status ev\<rparr>) (st_proposals draft),
          st_decisions := js_set (de_id (ev_decision ev)) (ev_decision ev) (st_decisions draft)\<rparr>))"
    by (auto simp: prepareProposalEvaluate_def d res_simps guard_simps Let_def simp del: sameRef_mk_ref)
  have ids: "ws_id w = ref_id (pr_workspaceRef r)" "pa_id pa = ref_id (pr_pathRef r)"
    using *(1,2) by (auto dest: requireWorkspace_Inr requirePath_Inr)
  note act = active_pathI [OF *(2,3)]
  note live = live_intentI [OF *(4) *(5,6) [unfolded ids]]
  note signed = signed_by_actorI [OF *(9,10)]
  note same = conflicts_own [OF *(11)]
  note fresh = not_conflicts_present [OF *(11)]
  note noDecision = not_presentD [OF *(13)]
  show ?thesis
  proof (cases "assertPathAuthority E st pa i (pr_normalizedTerms r) at (own (st_proposals st) (pr_id r) = None)")
    case (Inr rs)
    with *(12) fresh obtain x where "in_pactRef i = Some x" and
        ev: "ev = \<lparr>ev_reservations = rs, ev_decision = allowDecision r ?v x at,
               ev_lifecycleState = LS_ALLOWED, ev_status = PRS_ALLOWED, ev_errors = []\<rparr>"
      by (auto simp: evaluate_proposal_def split: option.splits)
    then show ?thesis
      unfolding *(14)
      using allow_proposal [OF act live signed *(7,8) same _ Inr] noDecision
      by (simp add: allowDecision_def baphometDecision_def)
  next
    case (Inl err)
    with *(12) fresh have "has_code POLICY_BLOCKED err"
        and ev: "ev_reservations ev = []" "ev_decision ev = blockDecision r ?v at"
          "ev_status ev = PRS_BLOCKED"
      by (auto simp: evaluate_proposal_def split: if_splits)
    then show ?thesis
      unfolding *(14)
      using block_proposal [OF act live signed *(7) same _ Inl] noDecision
      by (simp add: blockDecision_def baphometDecision_def store_reservations_def)
  qed
qed

lemma prepareProposal_effect:
  assumes "prepareProposal E request binding st at = Inr p"
  shows "runtime_effect E (rb_signer binding) at st (prep_commit p st)"
proof -
  obtain r s where d: "rq_data request = RD_proposal r s"
    using assms by (auto simp: prepareProposal_def shape_error_def split: request_data.splits)
  from assms obtain w pa i g rs where *:
      "requireWorkspace E st (ref_id (pr_workspaceRef r)) = Inr w"
      "requirePath E st (ref_id (pr_pathRef r)) = Inr pa" "requireAttestedPath E st pa = Inr ()"
      "requireIntent E st (ref_id (pr_intentRef r)) at = Inr i"
      "sameRef (in_workspaceRef i) (Some (mk_ref OT_Workspace (ws_id w)))"
      "sameRef (in_pathRef i) (Some (mk_ref OT_Path (pa_id pa)))"
      "assertPathAuthority E st pa i (pr_normalizedTerms r) at True = Inr rs"
      "pr_status r = PRS_EVALUATING"
      "sameValue E (json_of_payment_terms (pr_normalizedTerms r))
         (json_of_payment_terms (in_paymentTerms i))"
      "\<not> present (js_get (st_proposals st) (pr_id r))"
      "requireActor E st (ref_id (pa_delegateActorRef pa)) = Inr g"
      "walletIs E (ac_walletAddress g) (rb_signer binding)"
      "prep_commit p = (\<lambda>draft. store_reservations rs (draft
         \<lparr>st_proposals := js_set (pr_id r) r (st_proposals draft)\<rparr>))"
    by (auto simp: prepareProposal_def d res_simps guard_simps simp del: sameRef_mk_ref)
  have ids: "ws_id w = ref_id (pr_workspaceRef r)" "pa_id pa = ref_id (pr_pathRef r)"
    using *(1,2) by (auto dest: requireWorkspace_Inr requirePath_Inr)
  show ?thesis
    unfolding *(13)
    by (rule submit_proposal [OF active_pathI [OF *(2,3)] live_intentI [OF *(4) *(5,6) [unfolded ids]]
          signed_by_actorI [OF *(11,12)] *(8,9) not_presentD [OF *(10)] *(7)])
qed

lemma requireProofChain_Inr:
  assumes "requireProofChain E st f at = Inr ch"
  shows "\<exists>x. pf_pactRef f = Some x \<and> ref_id x = pc_id (ch_pact ch)"
    and "own (st_pacts st) (pc_id (ch_pact ch)) = Some (ch_pact ch)"
    and "pc_status (ch_pact ch) = PTS_ACTIVE"
    and "active_path E st (pa_id (ch_path ch)) (ch_path ch)"
proof -
  from assms obtain cid pid where *:
      "refId (pf_pactRef f) OT_Pact ''proof.pactRef'' = Inr cid"
      "requirePact E st cid = Inr (ch_pact ch)"
      "requirePath E st pid = Inr (ch_path ch)" "requireAttestedPath E st (ch_path ch) = Inr ()"
    by (auto simp: requireProofChain_def res_simps)
  show "\<exists>x. pf_pactRef f = Some x \<and> ref_id x = pc_id (ch_pact ch)"
    using *(1,2) by (auto simp: refId_Inr dest: requirePact_Inr)
  show "own (st_pacts st) (pc_id (ch_pact ch)) = Some (ch_pact ch)" "pc_status (ch_pact ch) = PTS_ACTIVE"
    using *(2) by (auto dest: requirePact_Inr)
  show "active_path E st (pa_id (ch_path ch)) (ch_path ch)"
    using active_pathI [OF *(3,4)] *(3) by (auto dest: requirePath_Inr)
qed

lemma pactActors_some_signed:
  "pactActors E st c = Inr actors \<Longrightarrow> signing_actor E actors b \<noteq> None \<Longrightarrow>
     \<exists>x \<in> set (pc_parties c). signed_by_actor E st (ref_id x) (rb_signer b)"
  by (auto dest: pactActors_signing)

lemma prepareProofSubmit_effect:
  assumes "prepareProofSubmit E request binding st at = Inr p"
  shows "runtime_effect E (rb_signer binding) at st (prep_commit p st)"
proof -
  obtain f s where d: "rq_data request = RD_proof f s"
    using assms by (auto simp: prepareProofSubmit_def shape_error_def split: request_data.splits)
  from assms obtain ch actors where *:
      "requireProofChain E st f at = Inr ch" "pf_status f = PFS_SUBMITTED"
      "pactActors E st (ch_pact ch) = Inr actors" "signing_actor E actors binding \<noteq> None"
      "\<not> present (js_get (st_proofs st) (pf_id f))"
      "prep_commit p = (\<lambda>draft. draft\<lparr>st_proofs := js_set (pf_id f) f (st_proofs draft)\<rparr>)"
    by (auto simp: prepareProofSubmit_def d res_simps)
  note ch = requireProofChain_Inr [OF *(1)]
  show ?thesis
    unfolding *(6)
    by (rule submit_proof [OF ch(2,3,1,4) pactActors_some_signed [OF *(3,4)] *(2)
          not_presentD [OF *(5)]])
qed

lemma prepareProofVerify_effect:
  assumes "prepareProofVerify E request binding st at = Inr p"
  shows "runtime_effect E (rb_signer binding) at st (prep_commit p st)"
proof -
  obtain r s where d: "rq_data request = RD_objectRef r s"
    using assms by (auto simp: prepareProofVerify_def shape_error_def split: request_data.splits)
  from assms obtain f ch actors v where *:
      "requireProof E st (ref_id r) = Inr f"
      "requireProofChain E st f at = Inr ch" "pf_status f = PFS_SUBMITTED"
      "pactActors E st (ch_pact ch) = Inr actors" "signing_actor E actors binding = Some v"
      "prep_commit p = (\<lambda>draft. draft\<lparr>st_proofs := js_set (pf_id f)
         (f\<lparr>pf_status := PFS_VERIFIED, pf_verifiedAt := Some (toISOString at),
            pf_verifierActorRef := Some (mk_ref OT_Actor (ac_id v))\<rparr>) (st_proofs draft)\<rparr>)"
    by (auto simp: prepareProofVerify_def d res_simps guard_simps Let_def)
  note ch = requireProofChain_Inr [OF *(2)]
  obtain x where x: "x \<in> set (pc_parties (ch_pact ch))" "ac_id v = ref_id x"
      "signed_by_actor E st (ref_id x) (rb_signer binding)"
    using pactActors_signing [OF *(4,5)] by blast
  have own: "own (st_proofs st) (pf_id f) = Some f" using *(1) by (auto dest: requireProof_Inr)
  show ?thesis
    unfolding *(6) x(2)
    by (rule verify_proof [OF own *(3) ch(2,3,1,4) x(1,3)])
qed

lemma preparePact_effect:
  assumes "preparePact E request binding st at = Inr p"
  shows "runtime_effect E (rb_signer binding) at st (prep_commit p st)"
proof -
  obtain ir c cr s where d: "rq_data request = RD_pact ir c cr s"
    using assms by (auto simp: preparePact_def shape_error_def split: request_data.splits)
  let ?c = "c\<lparr>pc_status := PTS_ACTIVE, pc_activatedAt := Some (toISOString at)\<rparr>"
  from assms obtain wr pr rr dr w pa i r de rs actors x where *:
      "pc_workspaceRef c = Some wr" "pc_pathRef c = Some pr" "pc_proposalRef c = Some rr"
      "pc_decisionRef c = Some dr"
      "requireWorkspace E st (ref_id wr) = Inr w"
      "requirePath E st (ref_id pr) = Inr pa" "requireAttestedPath E st pa = Inr ()"
      "requireIntent E st (ref_id ir) at = Inr i" "requireProposal E st (ref_id rr) = Inr r"
      "requireDecision E st (ref_id dr) = Inr de"
      "sameRef (in_workspaceRef i) (Some (mk_ref OT_Workspace (ws_id w)))"
      "sameRef (in_pathRef i) (Some (mk_ref OT_Path (pa_id pa)))"
      "ref_id (pr_pathRef r) = pa_id pa" "ref_id (pr_intentRef r) = in_id i"
      "pr_status r = PRS_ALLOWED" "de_decision de = DK_ALLOW"
      "ref_id (de_proposalRef de) = pr_id r" "de_inputHash de = pr_inputHash r"
      "Some (de_policyVersion de) = pr_policyVersion r"
      "de_pactRef de = Some x" "ref_type x = OT_Pact" "ref_id x = pc_id c"
      "sameValue E (json_of_payment_terms (pc_paymentTerms c))
         (json_of_payment_terms (in_paymentTerms i))"
      "sameValue E (json_of_payment_terms (pc_paymentTerms c))
         (json_of_payment_terms (pr_normalizedTerms r))"
      "assertPathAuthority E st pa i (pc_paymentTerms c) at False = Inr rs"
      "pactActors E st c = Inr actors" "signing_actor E actors binding \<noteq> None"
      "requireStoredPact E st (pc_id c) = Inr ()"
      "assertCanonicalRecordBinding E ?c cr = Inr ()"
      "\<not> (case cr of None \<Rightarrow> False | Some r \<Rightarrow> present (js_get (st_canonicalRecords st) (cr_id r)))"
      "prep_commit p = (\<lambda>draft. draft
         \<lparr>st_pacts := js_set (pc_id c) ?c (st_pacts draft),
          st_committedPacts := js_set (pc_id c) (toISOString at) (st_committedPacts draft),
          st_canonicalRecords := (case cr of None \<Rightarrow> st_canonicalRecords draft
            | Some r \<Rightarrow> js_set (cr_id r) r (st_canonicalRecords draft))\<rparr>)"
    by (auto simp: preparePact_def d res_simps refId_Inr assertReference_Inr Let_def)
  have ids: "ws_id w = ref_id wr" "pa_id pa = ref_id pr" "in_id i = ref_id ir"
    and own: "own (st_proposals st) (pr_id r) = Some r" "own (st_decisions st) (de_id de) = Some de"
    and refs: "pr_id r = ref_id rr" "de_id de = ref_id dr"
    using *(5,6,8,9,10)
    by (auto dest: requireWorkspace_Inr requirePath_Inr requireIntent_Inr requireProposal_Inr
        requireDecision_Inr)
  show ?thesis
    unfolding *(31)
    by (rule sign_pact [OF active_pathI [OF *(6,7)] live_intentI [OF *(8) *(11,12) [unfolded ids]]
          own(1) *(15) *(13,14) [unfolded ids] own(2) *(16-18) *(19) [symmetric] *(20-22) _ _
          *(23,24,25) pactActors_some_signed [OF *(26,27)] requireStoredPact_Inr [OF *(28)] refl *(29)])
      (use * refs in \<open>auto dest: not_presentD\<close>)
qed


section \<open>Every operation\<close>

lemma prepareTransition_effect:
  assumes "prepareTransition E opId request binding st at = Inr p"
  shows "runtime_effect E (rb_signer binding) at st (prep_commit p st)"
  using assms
  by (auto simp: prepareTransition_def prepareWorkspace_effect prepareActor_effect
      preparePathActivate_effect preparePathRevoke_effect prepareIntent_effect
      prepareProposalEvaluate_effect prepareProposal_effect preparePact_effect
      prepareProofSubmit_effect prepareProofVerify_effect split: if_splits)

lemma transition_effect:
  assumes "transition E request binding at st = Inr (response, st')"
  shows "runtime_effect E (rb_signer binding) at st st'"
  using assms
  by (auto simp: transition_def res_simps Let_def prepareTransition_effect)

lemma ingest_op_effect:
  assumes "ingest_op E path v st = Inr (accepted, st')"
  shows "ingest_effect E st st'"
proof -
  from assms have *: "\<not> present (js_get (st_pathAttestations st) (pa_id path))"
      "\<not> conflicts (js_get (st_paths st) (pa_id path)) (\<lambda>existing.
         sameValue E (json_of_path existing) (json_of_path path))"
      "st' = st\<lparr>st_paths := js_set (pa_id path) (path\<lparr>pa_provenance := v\<rparr>) (st_paths st),
         st_pathAttestations := js_set (pa_id path)
           \<lparr>sa_path = path\<lparr>pa_provenance := v\<rparr>, sa_provenance = v\<rparr> (st_pathAttestations st)\<rparr>"
    by (auto simp: ingest_op_def Let_def split: if_splits)
  show ?thesis
    unfolding *(3) by (rule ingest_path [OF not_presentD [OF *(1)] conflicts_own [OF *(2)]])
qed

end
