(* ===== verification/Path_Spending.thy ===== *)
theory Path_Spending
  imports Path_Authority
begin

text \<open>
  What a reservation of Path usage guarantees: a limit that admits a payment yields the next
  value of exactly one counter, and that value is within the limit; storing the reservations
  touches the usage dictionary only.
\<close>


section \<open>One limit\<close>

text \<open>A counter is within a limit: its count and its amount, read as integers.\<close>

definition within_limit :: "path_limit \<Rightarrow> path_period_usage \<Rightarrow> bool" where
  "within_limit limit u =
     (case (BigInt (us_transactionCount u), BigInt (us_amount u),
            BigInt (li_maxTransactionsPerPeriod limit), BigInt (li_maxAmount limit)) of
        (Some count, Some amount, Some maxCount, Some maxAmount) \<Rightarrow>
          count \<le> maxCount \<and> amount \<le> maxAmount
      | _ \<Rightarrow> False)"

text \<open>The period bucket of a counter at a time, under the limit's period.\<close>

definition counts_for ::
    "deps \<Rightarrow> path \<Rightarrow> path_limit \<Rightarrow> nat \<Rightarrow> int \<Rightarrow> usage_id \<Rightarrow> bool" where
  "counts_for E path limit limitIndex nowMs u \<longleftrightarrow>
     (\<exists>period bucket asset. BigInt (li_periodSeconds limit) = Some period \<and>
        usageBucketStart nowMs period = Inr bucket \<and> assetKey E (li_asset limit) = Inr asset \<and>
        u = usage_id_of path asset limitIndex limit bucket)"

text \<open>
  The reservation of a limit is the counter of its bucket, raised by one payment of the amount,
  and it is within the limit.
\<close>

lemma reserve_limit_Inr:
  assumes "reserve_limit E st path limit i terms now = Inr r"
  obtains u usage count used amount where
    "counts_for E path limit i now u" "pathPeriodUsageKey E u = Inr (ur_key r)"
    "currentUsage st (ur_key r) u = Inr usage"
    "BigInt (us_transactionCount usage) = Some count" "BigInt (us_amount usage) = Some used"
    "BigInt (pt_amount terms) = Some amount"
    "ur_value r = raised_usage u (count + 1) (used + amount)"
    "within_limit limit (ur_value r)"
  using assms
  by (cases r)
    (auto simp: reserve_limit_def res_simps counts_for_def Let_def within_limit_def raised_usage_def)

lemma raised_usage_id [simp]:
  "us_pathId (raised_usage u c a) = us_pathId u"
  "us_assetKey (raised_usage u c a) = us_assetKey u"
  "us_limitIndex (raised_usage u c a) = us_limitIndex u"
  "us_periodSeconds (raised_usage u c a) = us_periodSeconds u"
  "us_bucketStartSeconds (raised_usage u c a) = us_bucketStartSeconds u"
  "us_transactionCount (raised_usage u c a) = show_int c"
  "us_amount (raised_usage u c a) = show_int a"
  by (simp_all add: raised_usage_def zero_usage_def)

lemma raised_usage_key [simp]:
  "pathPeriodUsageKey E (raised_usage u c a) = pathPeriodUsageKey E u"
  by (simp add: pathPeriodUsageKey_def json_of_usage_id_def)

text \<open>A counter that belongs to a limit of a Path, by its identity and not by its key.\<close>

definition limit_of_usage :: "path \<Rightarrow> path_period_usage \<Rightarrow> path_limit option" where
  "limit_of_usage p u =
     (if us_pathId u = pa_id p \<and> 0 \<le> us_limitIndex u
         \<and> nat (us_limitIndex u) < length (pa_limits p)
         \<and> us_periodSeconds u = li_periodSeconds (pa_limits p ! nat (us_limitIndex u))
      then Some (pa_limits p ! nat (us_limitIndex u)) else None)"

definition spent_within :: "path \<Rightarrow> path_period_usage \<Rightarrow> bool" where
  "spent_within p u =
     (case limit_of_usage p u of None \<Rightarrow> False | Some limit \<Rightarrow> within_limit limit u)"

lemma applicable_limit_index:
  "(limit, i) \<in> set (applicable_limits E path a) \<Longrightarrow>
     i < length (pa_limits path) \<and> limit = pa_limits path ! i"
  by (auto simp: applicable_limits_def in_set_zip)

lemma check_limits_member:
  assumes "check_limits E st path terms now reserve ls = Inr rs" and "r \<in> set rs"
  shows "\<exists>(limit, i) \<in> set ls. reserve_limit E st path limit i terms now = Inr r"
  using assms
proof (induction ls arbitrary: rs)
  case Nil
  then show ?case by simp
next
  case (Cons x ls)
  obtain limit i where x: "x = (limit, i)" by (cases x)
  with Cons show ?case by (auto simp: res_simps split: if_splits)
qed

lemma check_limits_no_reserve:
  "check_limits E st path terms now False ls = Inr rs \<Longrightarrow> rs = []"
  by (induction ls arbitrary: rs) (auto simp: res_simps)

lemma check_limits_all_pass:
  assumes "check_limits E st path terms now reserve ls = Inr rs" and "(limit, i) \<in> set ls"
  shows "assertLimitTerms limit terms = Inr ()"
  using assms
proof (induction ls arbitrary: rs)
  case Nil
  then show ?case by simp
next
  case (Cons x ls)
  obtain l j where x: "x = (l, j)" by (cases x)
  with Cons show ?case by (auto simp: res_simps split: if_splits)
qed


section \<open>The reservations of a payment\<close>

lemma assertPathAuthority_Inr:
  assumes "assertPathAuthority E st path intent terms now reserve = Inr rs"
  shows "assertPathBinding E path now = Inr ()"
    and "intent_action_str (in_action intent) \<in> set (pa_capabilities path)"
    and "applicable_limits E path (pt_asset terms) \<noteq> []"
    and "check_limits E st path terms now reserve (applicable_limits E path (pt_asset terms)) = Inr rs"
  using assms by (auto simp: assertPathAuthority_def res_simps Let_def split: if_splits)

lemma reservation_within_limit:
  assumes "assertPathAuthority E st path intent terms now reserve = Inr rs" and "r \<in> set rs"
  shows "spent_within path (ur_value r)" and "pathPeriodUsageKey E (ur_value r) = Inr (ur_key r)"
proof -
  obtain limit i where li: "(limit, i) \<in> set (applicable_limits E path (pt_asset terms))"
      "reserve_limit E st path limit i terms now = Inr r"
    using check_limits_member [OF assertPathAuthority_Inr(4) [OF assms(1)] assms(2)] by auto
  note lim = applicable_limit_index [OF li(1)]
  obtain u c a where *: "counts_for E path limit i now u" "pathPeriodUsageKey E u = Inr (ur_key r)"
      "ur_value r = raised_usage u c a" "within_limit limit (ur_value r)"
    using reserve_limit_Inr [OF li(2)] by metis
  show "pathPeriodUsageKey E (ur_value r) = Inr (ur_key r)" using * by simp
  show "spent_within path (ur_value r)"
    using * lim
    by (auto simp: spent_within_def limit_of_usage_def counts_for_def usage_id_of_def)
qed

lemma store_reservations_eq:
  "store_reservations rs st = st\<lparr>st_pathPeriodUsage :=
     fold (\<lambda>r. js_set (ur_key r) (ur_value r)) rs (st_pathPeriodUsage st)\<rparr>"
  by (induction rs arbitrary: st) (simp_all add: store_reservations_def)

lemma own_fold_js_set:
  assumes "own (fold (\<lambda>r. js_set (ur_key r) (ur_value r)) rs d) k = Some u"
  shows "(\<exists>r \<in> set rs. ur_key r = k \<and> ur_value r = u) \<or> own d k = Some u"
  using assms
proof (induction rs arbitrary: d)
  case Nil
  then show ?case by simp
next
  case (Cons r rs)
  from Cons.IH [of "js_set (ur_key r) (ur_value r) d"] Cons.prems show ?case
    by (auto split: if_splits)
qed

lemma store_reservations_other [simp]:
  "st_workspaces (store_reservations rs st) = st_workspaces st"
  "st_workspaceAuthorities (store_reservations rs st) = st_workspaceAuthorities st"
  "st_actors (store_reservations rs st) = st_actors st"
  "st_actorWorkspaces (store_reservations rs st) = st_actorWorkspaces st"
  "st_paths (store_reservations rs st) = st_paths st"
  "st_pathAttestations (store_reservations rs st) = st_pathAttestations st"
  "st_intents (store_reservations rs st) = st_intents st"
  "st_proposals (store_reservations rs st) = st_proposals st"
  "st_decisions (store_reservations rs st) = st_decisions st"
  "st_pacts (store_reservations rs st) = st_pacts st"
  "st_proofs (store_reservations rs st) = st_proofs st"
  "st_canonicalRecords (store_reservations rs st) = st_canonicalRecords st"
  "st_committedPacts (store_reservations rs st) = st_committedPacts st"
  by (simp_all add: store_reservations_eq)

lemma own_store_reservations:
  "own (st_pathPeriodUsage (store_reservations rs st)) k = Some u \<Longrightarrow>
     (\<exists>r \<in> set rs. ur_key r = k \<and> ur_value r = u) \<or> own (st_pathPeriodUsage st) k = Some u"
  by (simp add: store_reservations_eq own_fold_js_set)

end
