(* ===== verification/Runtime_Invariants.thy ===== *)
theory Runtime_Invariants
  imports Runtime_Refinement Path_Spending
begin

text \<open>
  The invariants of the Runtime's state, each preserved by every step of \<open>runtime_effect\<close> and of
  \<open>ingest_effect\<close>.  They say that the dictionaries agree with each other: ids with keys, Paths
  with attestations, Proposals with Decisions, Pacts with the ALLOW Decision they rest on, Proofs
  with Pacts, and usage counters with the limits of the Path they belong to.
\<close>


section \<open>Ids are keys\<close>

definition keyed :: "('v \<Rightarrow> string) \<Rightarrow> 'v js_record \<Rightarrow> bool" where
  "keyed f r \<longleftrightarrow> (\<forall>k v. own r k = Some v \<longrightarrow> f v = k)"

lemma keyed_Nil [simp]: "keyed f []"
  by (simp add: keyed_def)

lemma keyed_js_set [simp]: "keyed f r \<Longrightarrow> f v = k \<Longrightarrow> keyed f (js_set k v r)"
  by (simp add: keyed_def)

lemma keyedD: "keyed f r \<Longrightarrow> own r k = Some v \<Longrightarrow> f v = k"
  by (simp add: keyed_def)

text \<open>Two dictionaries that are written together.\<close>

definition same_keys :: "'v js_record \<Rightarrow> 'w js_record \<Rightarrow> bool" where
  "same_keys r r' \<longleftrightarrow> (\<forall>k. own r k = None \<longleftrightarrow> own r' k = None)"

lemma same_keys_Nil [simp]: "same_keys [] []"
  by (simp add: same_keys_def)

lemma same_keys_js_set [simp]: "same_keys r r' \<Longrightarrow> same_keys (js_set k v r) (js_set k v' r')"
  by (simp add: same_keys_def)

lemma same_keysD: "same_keys r r' \<Longrightarrow> own r k = None \<longleftrightarrow> own r' k = None"
  by (simp add: same_keys_def)

definition ids_ok :: "runtime_state \<Rightarrow> bool" where
  "ids_ok st \<longleftrightarrow>
     keyed ws_id (st_workspaces st) \<and> keyed ac_id (st_actors st) \<and> keyed pa_id (st_paths st) \<and>
     keyed (\<lambda>a. pa_id (sa_path a)) (st_pathAttestations st) \<and> keyed in_id (st_intents st) \<and>
     keyed pr_id (st_proposals st) \<and> keyed de_id (st_decisions st) \<and> keyed pc_id (st_pacts st) \<and>
     keyed pf_id (st_proofs st) \<and> keyed cr_id (st_canonicalRecords st)"

lemma de_id_decisions [simp]:
  "de_id (allowDecision r v x at) = decision_id r" "de_id (blockDecision r v at) = decision_id r"
  "de_decision (allowDecision r v x at) = DK_ALLOW" "de_decision (blockDecision r v at) = DK_BLOCK"
  "de_pactRef (allowDecision r v x at) = Some x" "de_pactRef (blockDecision r v at) = None"
  "de_inputHash (allowDecision r v x at) = pr_inputHash r"
  "de_inputHash (blockDecision r v at) = pr_inputHash r"
  "de_policyVersion (allowDecision r v x at) = v" "de_policyVersion (blockDecision r v at) = v"
  "ref_id (de_proposalRef (allowDecision r v x at)) = pr_id r"
  "ref_id (de_proposalRef (blockDecision r v at)) = pr_id r"
  by (simp_all add: allowDecision_def blockDecision_def baphometDecision_def mk_ref_def)

lemma ids_ok_effect:
  assumes "runtime_effect E signer at st st'" and "ids_ok st"
  shows "ids_ok st'"
  using assms by cases (simp_all add: ids_ok_def split: option.split)

lemma ids_ok_ingest:
  "ingest_effect E st st' \<Longrightarrow> ids_ok st \<Longrightarrow> ids_ok st'"
  by (auto simp: ids_ok_def elim!: ingest_effect.cases)


section \<open>Workspaces, Actors and Paths\<close>

text \<open>
  A Workspace is registered together with a checksummed authority address, an Actor with the
  Workspace it belongs to, a Path with an attestation of exactly its stored content.
\<close>

definition authorities_ok :: "deps \<Rightarrow> runtime_state \<Rightarrow> bool" where
  "authorities_ok E st \<longleftrightarrow>
     same_keys (st_workspaces st) (st_workspaceAuthorities st) \<and>
     (\<forall>k a. own (st_workspaceAuthorities st) k = Some a \<longrightarrow> (\<exists>s. ext_getAddress E s = Some a))"

definition actors_ok :: "runtime_state \<Rightarrow> bool" where
  "actors_ok st \<longleftrightarrow>
     same_keys (st_actors st) (st_actorWorkspaces st) \<and>
     (\<forall>k w. own (st_actorWorkspaces st) k = Some w \<longrightarrow> own (st_workspaces st) w \<noteq> None)"

definition attestation_matches :: "path \<Rightarrow> stored_attestation \<Rightarrow> bool" where
  "attestation_matches p a \<longleftrightarrow> sa_path a = p \<and> sa_provenance a = pa_provenance p"

definition paths_ok :: "runtime_state \<Rightarrow> bool" where
  "paths_ok st \<longleftrightarrow>
     (\<forall>k. rel_option attestation_matches (own (st_paths st) k) (own (st_pathAttestations st) k))"

lemma authorities_ok_effect:
  assumes "runtime_effect E signer at st st'" and "authorities_ok E st"
  shows "authorities_ok E st'"
  using assms by cases (auto simp: authorities_ok_def)

lemma authorities_ok_ingest:
  "ingest_effect E st st' \<Longrightarrow> authorities_ok E st \<Longrightarrow> authorities_ok E st'"
  by (auto simp: authorities_ok_def elim!: ingest_effect.cases)

lemma actors_ok_effect:
  assumes "runtime_effect E signer at st st'" and "actors_ok st"
  shows "actors_ok st'"
  using assms by cases (auto simp: actors_ok_def workspace_authority_def)

lemma actors_ok_ingest: "ingest_effect E st st' \<Longrightarrow> actors_ok st \<Longrightarrow> actors_ok st'"
  by (auto simp: actors_ok_def elim!: ingest_effect.cases)

lemma paths_okD:
  assumes "paths_ok st"
  shows "own (st_paths st) k = Some p \<Longrightarrow> own (st_pathAttestations st) k = Some a \<Longrightarrow>
      sa_path a = p \<and> sa_provenance a = pa_provenance p"
    and "own (st_paths st) k = None \<longleftrightarrow> own (st_pathAttestations st) k = None"
  using assms
  by (auto simp: paths_ok_def attestation_matches_def option_rel_Some1 option_rel_Some2
      dest!: spec [where x = k] split: option.splits elim!: option.rel_cases)

lemma paths_ok_effect:
  assumes "runtime_effect E signer at st st'" and "paths_ok st"
  shows "paths_ok st'"
  using assms(1)
proof cases
  case (revoke_path p att w a)
  then have "own (st_paths st) (pa_id p) = Some p" by (simp add: active_path_def)
  then have "attestation_matches p att"
    using revoke_path(3) paths_okD(1) [OF assms(2)] by (auto simp: attestation_matches_def)
  then show ?thesis
    using assms(2) revoke_path(1) by (simp add: paths_ok_def attestation_matches_def)
qed (use assms(2) in \<open>auto simp: paths_ok_def attestation_matches_def\<close>)

lemma paths_ok_ingest: "ingest_effect E st st' \<Longrightarrow> paths_ok st \<Longrightarrow> paths_ok st'"
  by (auto simp: paths_ok_def attestation_matches_def elim!: ingest_effect.cases)


section \<open>Proposals and Decisions\<close>

text \<open>
  The Decision on a Proposal is stored under a key made of the Proposal's id, and the two agree on
  the input hash, the policy version and the outcome.  A Proposal has a Decision exactly when it
  left \<open>EVALUATING\<close>.
\<close>

definition decision_key :: "string \<Rightarrow> string" where
  "decision_key rid = ''decision:'' @ rid"

lemma decision_key_inject [simp]: "decision_key a = decision_key b \<longleftrightarrow> a = b"
  by (simp add: decision_key_def)

lemma decision_id_key: "decision_id r = decision_key (pr_id r)"
  by (simp add: decision_id_def decision_key_def)

definition evaluated :: "proposal \<Rightarrow> baphomet_decision \<Rightarrow> bool" where
  "evaluated r d \<longleftrightarrow>
     ref_id (de_proposalRef d) = pr_id r \<and> de_inputHash d = pr_inputHash r \<and>
     pr_policyVersion r = Some (de_policyVersion d) \<and>
     (pr_status r = PRS_ALLOWED \<and> de_decision d = DK_ALLOW \<and> de_pactRef d \<noteq> None \<or>
      pr_status r = PRS_BLOCKED \<and> de_decision d = DK_BLOCK \<and> de_pactRef d = None)"

definition decided :: "proposal option \<Rightarrow> baphomet_decision option \<Rightarrow> bool" where
  "decided ro d =
     (case ro of
        None \<Rightarrow> d = None
      | Some r \<Rightarrow>
          (case d of None \<Rightarrow> pr_status r = PRS_EVALUATING | Some d' \<Rightarrow> evaluated r d'))"

definition decisions_ok :: "runtime_state \<Rightarrow> bool" where
  "decisions_ok st \<longleftrightarrow>
     (\<forall>rid. decided (own (st_proposals st) rid) (own (st_decisions st) (decision_key rid))) \<and>
     (\<forall>k. own (st_decisions st) k \<noteq> None \<longrightarrow> (\<exists>rid. k = decision_key rid))"

lemma decisions_okD:
  assumes "decisions_ok st" and "ids_ok st" and "own (st_decisions st) k = Some d"
  obtains r where "own (st_proposals st) (pr_id r) = Some r" "evaluated r d" "k = decision_key (pr_id r)"
proof -
  obtain rid where k: "k = decision_key rid" using assms(1,3) by (auto simp: decisions_ok_def)
  have "decided (own (st_proposals st) rid) (Some d)"
    using assms(1,3) unfolding decisions_ok_def k by metis
  then obtain r where "own (st_proposals st) rid = Some r" "evaluated r d"
    by (auto simp: decided_def split: option.splits)
  moreover from this have "pr_id r = rid"
    using assms(2) by (auto simp: ids_ok_def dest: keyedD)
  ultimately show ?thesis using that k by blast
qed

lemma decisions_ok_write:
  assumes "decisions_ok st" and "evaluated r d"
  shows "decisions_ok (st\<lparr>st_proposals := js_set (pr_id r) r (st_proposals st),
    st_decisions := js_set (decision_key (pr_id r)) d (st_decisions st)\<rparr>)"
  using assms by (auto simp: decisions_ok_def decided_def)

lemma decisions_ok_reservations [simp]:
  "decisions_ok (store_reservations rs st) = decisions_ok st"
  by (simp add: decisions_ok_def)

lemma decisions_ok_effect:
  assumes "runtime_effect E signer at st st'" and "decisions_ok st"
  shows "decisions_ok st'"
  using assms(1)
proof cases
  case (allow_proposal r p i rs x v)
  show ?thesis
    using decisions_ok_write [OF assms(2), of "r\<lparr>pr_policyVersion := Some v, pr_status := PRS_ALLOWED\<rparr>"
        "allowDecision r v x at"]
    by (simp add: allow_proposal(1) evaluated_def decision_id_key)
next
  case (block_proposal r p i err v)
  show ?thesis
    using decisions_ok_write [OF assms(2), of "r\<lparr>pr_policyVersion := Some v, pr_status := PRS_BLOCKED\<rparr>"
        "blockDecision r v at"]
    by (simp add: block_proposal(1) evaluated_def decision_id_key)
next
  case (submit_proposal r p i rs)
  have "decided (own (st_proposals st) (pr_id r)) (own (st_decisions st) (decision_key (pr_id r)))"
    using assms(2) by (simp add: decisions_ok_def)
  with submit_proposal have "own (st_decisions st) (decision_key (pr_id r)) = None"
    by (simp add: decided_def)
  then show ?thesis
    using assms(2) submit_proposal by (simp add: decisions_ok_def decided_def)
qed (use assms(2) in \<open>simp_all add: decisions_ok_def\<close>)

lemma decisions_ok_ingest: "ingest_effect E st st' \<Longrightarrow> decisions_ok st \<Longrightarrow> decisions_ok st'"
  by (auto simp: decisions_ok_def elim!: ingest_effect.cases)


section \<open>Pacts and their records\<close>

text \<open>An active Pact rests on an ALLOW Decision that names it.\<close>

definition allowed_pact ::
    "proposal js_record \<Rightarrow> baphomet_decision js_record \<Rightarrow> pact \<Rightarrow> bool" where
  "allowed_pact proposals decisions c \<longleftrightarrow>
     (\<exists>d r x y z. pc_decisionRef c = Some x \<and> own decisions (ref_id x) = Some d \<and>
        pc_proposalRef c = Some y \<and> own proposals (ref_id y) = Some r \<and> evaluated r d \<and>
        pr_status r = PRS_ALLOWED \<and> de_pactRef d = Some z \<and> ref_id z = pc_id c)"

text \<open>What a Canonical Record shows for a Pact: it names it and both parties signed its commitment.\<close>

definition attests_pact :: "deps \<Rightarrow> canonical_record \<Rightarrow> pact \<Rightarrow> bool" where
  "attests_pact E x c \<longleftrightarrow>
     ref_id (cr_pactRef x) = pc_id c \<and>
     (\<exists>commitment. canonicalRecordCommitment E x = Inr commitment \<and>
        (\<forall>s \<in> set (cr_signatures x). toLowerCase (rs_signedCommitment s) = toLowerCase commitment)) \<and>
     ref_id ` set (pc_parties c) \<subseteq> (\<lambda>s. ref_id (rs_actorRef s)) ` set (cr_signatures x) \<and>
     card (ref_id ` set (pc_parties c)) = 2"

definition recorded_pact :: "deps \<Rightarrow> canonical_record js_record \<Rightarrow> pact \<Rightarrow> bool" where
  "recorded_pact E records c \<longleftrightarrow>
     record_policy c \<noteq> RM_required \<or>
     (\<exists>x r. pc_canonicalRecordRef c = Some r \<and> own records (ref_id r) = Some x \<and> attests_pact E x c)"

definition pacts_ok :: "deps \<Rightarrow> runtime_state \<Rightarrow> bool" where
  "pacts_ok E st \<longleftrightarrow>
     same_keys (st_pacts st) (st_committedPacts st) \<and>
     (\<forall>k c. own (st_pacts st) k = Some c \<longrightarrow>
        pc_status c = PTS_ACTIVE \<and> pc_activatedAt c = own (st_committedPacts st) k \<and>
        allowed_pact (st_proposals st) (st_decisions st) c \<and>
        recorded_pact E (st_canonicalRecords st) c)"

lemma card_remdups: "card (set xs) = length (remdups xs)"
  by (simp add: length_remdups_card_conv)

lemma canonical_binding_attests:
  assumes "assertCanonicalRecordBinding E c supplied = Inr ()"
  shows "(supplied = None \<longrightarrow> record_policy c \<noteq> RM_required) \<and>
    (\<forall>x. supplied = Some x \<longrightarrow> attests_pact E x c \<and> record_policy c \<noteq> RM_omitted \<and>
       (\<exists>r. pc_canonicalRecordRef c = Some r \<and> ref_id r = cr_id x))"
proof (cases supplied)
  case None
  with assms show ?thesis by (auto simp: assertCanonicalRecordBinding_def split: if_splits)
next
  case (Some x)
  from assms obtain commitment where
    *: "record_policy c \<noteq> RM_omitted" "\<exists>r. pc_canonicalRecordRef c = Some r \<and> ref_id r = cr_id x"
      "ref_id (cr_pactRef x) = pc_id c" "canonicalRecordCommitment E x = Inr commitment"
      "length (remdups (map ref_id (pc_parties c))) = 2"
      "covers_parties (map ref_id (pc_parties c)) (map (\<lambda>s. ref_id (rs_actorRef s)) (cr_signatures x))"
      "\<not> list_ex (\<lambda>s. toLowerCase (rs_signedCommitment s) \<noteq> toLowerCase commitment) (cr_signatures x)"
    by (auto simp: Some assertCanonicalRecordBinding_def res_simps Let_def split: sum.splits if_splits)
  have "card (ref_id ` set (pc_parties c)) = 2"
    using *(5) card_remdups [of "map ref_id (pc_parties c)"] by simp
  with * show ?thesis
    by (auto simp: Some attests_pact_def covers_parties_def list_ex_iff)
qed


text \<open>Growing dictionaries keep a Pact allowed and recorded.\<close>

definition grows :: "'v js_record \<Rightarrow> 'v js_record \<Rightarrow> bool" where
  "grows r r' \<longleftrightarrow> (\<forall>k v. own r k = Some v \<longrightarrow> own r' k = Some v)"

lemma grows_refl [simp]: "grows r r"
  by (simp add: grows_def)

lemma grows_trans: "grows r r' \<Longrightarrow> grows r' r'' \<Longrightarrow> grows r r''"
  by (simp add: grows_def)

lemma grows_js_set [simp]: "own r k = None \<Longrightarrow> grows r (js_set k v r)"
  by (auto simp: grows_def)

lemma growsD: "grows r r' \<Longrightarrow> own r k = Some v \<Longrightarrow> own r' k = Some v"
  by (simp add: grows_def)

definition settled_grow :: "proposal js_record \<Rightarrow> proposal js_record \<Rightarrow> bool" where
  "settled_grow r r' \<longleftrightarrow>
     (\<forall>k v. own r k = Some v \<longrightarrow> pr_status v \<noteq> PRS_EVALUATING \<longrightarrow> own r' k = Some v)"

lemma settled_grow_js_set:
  "(\<And>e. own r k = Some e \<Longrightarrow> pr_status e = PRS_EVALUATING) \<Longrightarrow> settled_grow r (js_set k v r)"
  by (auto simp: settled_grow_def)

lemma allowed_pact_grows:
  assumes "allowed_pact r d c" and "settled_grow r r'" and "grows d d'"
  shows "allowed_pact r' d' c"
proof -
  from assms(1) obtain da ra x y z where *: "pc_decisionRef c = Some x" "own d (ref_id x) = Some da"
      "pc_proposalRef c = Some y" "own r (ref_id y) = Some ra" "evaluated ra da"
      "pr_status ra = PRS_ALLOWED" "de_pactRef da = Some z" "ref_id z = pc_id c"
    by (auto simp: allowed_pact_def)
  have "own r' (ref_id y) = Some ra" using assms(2) *(4,6) by (simp add: settled_grow_def)
  moreover have "own d' (ref_id x) = Some da" using assms(3) *(2) by (simp add: grows_def)
  ultimately show ?thesis using * by (auto simp: allowed_pact_def)
qed

lemma recorded_pact_grows:
  "recorded_pact E r c \<Longrightarrow> grows r r' \<Longrightarrow> recorded_pact E r' c"
  unfolding recorded_pact_def grows_def by blast

lemma settled_grow_effect:
  assumes "runtime_effect E signer at st st'"
  shows "settled_grow (st_proposals st) (st_proposals st')"
  using assms
proof cases
  case (allow_proposal r p i rs x v)
  then show ?thesis by (simp add: settled_grow_js_set)
next
  case (block_proposal r p i err v)
  then show ?thesis by (simp add: settled_grow_js_set)
next
  case (submit_proposal r p i rs)
  then show ?thesis by (auto intro!: settled_grow_js_set)
qed (simp_all add: settled_grow_def)

lemma decisions_grow_effect:
  "runtime_effect E signer at st st' \<Longrightarrow> grows (st_decisions st) (st_decisions st')"
  by (auto elim!: runtime_effect.cases)

lemma records_grow_effect:
  "runtime_effect E signer at st st' \<Longrightarrow> grows (st_canonicalRecords st) (st_canonicalRecords st')"
  by (auto elim!: runtime_effect.cases split: option.splits)

lemma pacts_grow_effect:
  "runtime_effect E signer at st st' \<Longrightarrow> grows (st_pacts st) (st_pacts st')"
  by (auto elim!: runtime_effect.cases)

lemma pacts_ok_other:
  assumes "pacts_ok E st" and "st_pacts st' = st_pacts st" "st_committedPacts st' = st_committedPacts st"
    and "settled_grow (st_proposals st) (st_proposals st')"
    and "grows (st_decisions st) (st_decisions st')"
    and "grows (st_canonicalRecords st) (st_canonicalRecords st')"
  shows "pacts_ok E st'"
  using assms allowed_pact_grows [OF _ assms(4,5)] recorded_pact_grows [OF _ assms(6)]
  by (simp add: pacts_ok_def)

lemma pacts_ok_effect:
  assumes eff: "runtime_effect E signer at st st'"
    and "pacts_ok E st" and "decisions_ok st" and "ids_ok st"
  shows "pacts_ok E st'"
proof -
  note mono = settled_grow_effect [OF eff] decisions_grow_effect [OF eff] records_grow_effect [OF eff]
  from eff show ?thesis
  proof cases
    case (sign_pact pid p wid iid i r d pr c rs c' rcd)
    obtain r' where r': "own (st_proposals st) (pr_id r') = Some r'" "evaluated r' d"
        "de_id d = decision_key (pr_id r')"
      using decisions_okD [OF assms(3,4) sign_pact(8)] by blast
    then have "pr_id r' = pr_id r" using sign_pact(10) by (simp add: evaluated_def)
    with r'(1) sign_pact(4) have "r' = r" by (metis option.inject)
    with r'(2) have "evaluated r d" by simp
    moreover obtain xd xr where "pc_decisionRef c = Some xd" "ref_id xd = de_id d"
        "pc_proposalRef c = Some xr" "ref_id xr = pr_id r"
      using sign_pact(16,17) by blast
    ultimately have allowed: "allowed_pact (st_proposals st) (st_decisions st) c'"
      unfolding allowed_pact_def using sign_pact(4,5,8,13,15,23)
      by (intro exI [of _ d] exI [of _ r] exI [of _ xd] exI [of _ xr] exI [of _ pr]) simp
    have recorded: "recorded_pact E (st_canonicalRecords st') c'"
      using canonical_binding_attests [OF sign_pact(24)] sign_pact(1)
      by (cases rcd) (auto simp: recorded_pact_def)
    have old: "pc_status x = PTS_ACTIVE \<and> pc_activatedAt x = own (st_committedPacts st) k \<and>
        allowed_pact (st_proposals st) (st_decisions st) x \<and>
        recorded_pact E (st_canonicalRecords st') x"
      if "own (st_pacts st) k = Some x" for k x
      using that assms(2) recorded_pact_grows [OF _ mono(3)] by (simp add: pacts_ok_def)
    show ?thesis
      using assms(2) allowed recorded old sign_pact(1,22,23)
      by (auto simp: pacts_ok_def)
  qed (use assms(2) mono in \<open>auto intro: pacts_ok_other\<close>)
qed

lemma pacts_ok_ingest: "ingest_effect E st st' \<Longrightarrow> pacts_ok E st \<Longrightarrow> pacts_ok E st'"
  by (auto simp: pacts_ok_def elim!: ingest_effect.cases)


section \<open>Proofs\<close>

text \<open>A Proof belongs to a stored Pact; a verified one names a party of it as its verifier.\<close>

definition pact_proof :: "pact js_record \<Rightarrow> proof_object \<Rightarrow> bool" where
  "pact_proof pacts f \<longleftrightarrow>
     (\<exists>x c. pf_pactRef f = Some x \<and> own pacts (ref_id x) = Some c \<and>
        (pf_status f = PFS_SUBMITTED \<or>
         pf_status f = PFS_VERIFIED \<and> pf_verifiedAt f \<noteq> None \<and>
         (\<exists>v. pf_verifierActorRef f = Some v \<and> ref_id v \<in> ref_id ` set (pc_parties c))))"

definition proofs_ok :: "runtime_state \<Rightarrow> bool" where
  "proofs_ok st \<longleftrightarrow> (\<forall>k f. own (st_proofs st) k = Some f \<longrightarrow> pact_proof (st_pacts st) f)"

lemma pact_proof_grows: "pact_proof pacts f \<Longrightarrow> grows pacts pacts' \<Longrightarrow> pact_proof pacts' f"
  unfolding pact_proof_def grows_def by blast

lemma proofs_ok_effect:
  assumes eff: "runtime_effect E signer at st st'" and "proofs_ok st"
  shows "proofs_ok st'"
  using eff
proof cases
  case (sign_pact pid p wid iid i r d pr c rs c' rcd)
  then show ?thesis
    using assms(2) pact_proof_grows [OF _ pacts_grow_effect [OF eff]] by (simp add: proofs_ok_def)
next
  case (verify_proof f c pid p x)
  then have "pact_proof (st_pacts st) (f\<lparr>pf_status := PFS_VERIFIED,
      pf_verifiedAt := Some (toISOString at), pf_verifierActorRef := Some (mk_ref OT_Actor (ref_id x))\<rparr>)"
    by (auto simp: pact_proof_def mk_ref_def)
  then show ?thesis using assms(2) verify_proof(1) by (auto simp: proofs_ok_def)
next
  case (submit_proof c f pid p)
  then have "pact_proof (st_pacts st) f" by (auto simp: pact_proof_def)
  then show ?thesis using assms(2) submit_proof(1) by (auto simp: proofs_ok_def)
qed (use assms(2) in \<open>simp_all add: proofs_ok_def\<close>)

lemma proofs_ok_ingest: "ingest_effect E st st' \<Longrightarrow> proofs_ok st \<Longrightarrow> proofs_ok st'"
  by (auto simp: proofs_ok_def elim!: ingest_effect.cases)


section \<open>Spending\<close>

text \<open>Every counter has its canonical key and is within the limit of a Path that was activated.\<close>

definition counted :: "path js_record \<Rightarrow> path_period_usage \<Rightarrow> bool" where
  "counted paths u \<longleftrightarrow>
     (\<exists>p. own paths (us_pathId u) = Some p \<and> pa_status p \<noteq> PS_PREPARED \<and> spent_within p u)"

definition usage_ok :: "deps \<Rightarrow> runtime_state \<Rightarrow> bool" where
  "usage_ok E st \<longleftrightarrow>
     (\<forall>k u. own (st_pathPeriodUsage st) k = Some u \<longrightarrow>
        pathPeriodUsageKey E u = Inr k \<and> counted (st_paths st) u)"

lemma spent_within_status [simp]: "spent_within (p\<lparr>pa_status := s\<rparr>) u = spent_within p u"
  by (simp add: spent_within_def limit_of_usage_def)

lemma usage_ok_reservations:
  assumes "usage_ok E st" and "active_path E st pid p"
    and "assertPathAuthority E st p i t at b = Inr rs"
    and "st_paths st' = st_paths st" and "st_pathPeriodUsage st' = st_pathPeriodUsage st"
  shows "usage_ok E (store_reservations rs st')"
  unfolding usage_ok_def
proof (intro allI impI)
  fix k u
  assume "own (st_pathPeriodUsage (store_reservations rs st')) k = Some u"
  then consider r where "r \<in> set rs" "ur_key r = k" "ur_value r = u"
    | "own (st_pathPeriodUsage st) k = Some u"
    using own_store_reservations assms(5) by metis
  then show "pathPeriodUsageKey E u = Inr k \<and> counted (st_paths (store_reservations rs st')) u"
  proof cases
    case 1
    with reservation_within_limit [OF assms(3) 1(1)] have u: "spent_within p u" "pathPeriodUsageKey E u = Inr k"
      by auto
    then have "us_pathId u = pa_id p"
      by (auto simp: spent_within_def limit_of_usage_def split: if_splits)
    with u assms(2,4) show ?thesis by (auto simp: counted_def active_path_def)
  next
    case 2
    with assms(1,4) show ?thesis by (simp add: usage_ok_def)
  qed
qed

lemma usage_ok_effect:
  assumes "runtime_effect E signer at st st'" and "usage_ok E st"
  shows "usage_ok E st'"
  using assms(1)
proof cases
  case (activate_path p w a)
  have "us_pathId u \<noteq> pa_id p" if "counted (st_paths st) u" for u
    using that activate_path(7) by (auto simp: counted_def)
  then have "counted (st_paths st') u" if "counted (st_paths st) u" for u
    using that by (simp add: activate_path(1) counted_def)
  with assms(2) show ?thesis by (simp add: activate_path(1) usage_ok_def)
next
  case (revoke_path p att w a)
  have "counted (st_paths st') u" if "counted (st_paths st) u" for u
    using that revoke_path(2) by (auto simp: revoke_path(1) counted_def active_path_def)
  with assms(2) show ?thesis by (simp add: revoke_path(1) usage_ok_def)
next
  case (allow_proposal r p i rs x v)
  then show ?thesis using usage_ok_reservations [OF assms(2)] by simp
next
  case (submit_proposal r p i rs)
  then show ?thesis using usage_ok_reservations [OF assms(2)] by simp
qed (use assms(2) in \<open>simp_all add: usage_ok_def\<close>)

lemma usage_ok_ingest:
  assumes "ingest_effect E st st'" and "usage_ok E st" and "paths_ok st"
  shows "usage_ok E st'"
  using assms(1)
proof cases
  case (ingest_path p v)
  then have "own (st_paths st) (pa_id p) = None" using paths_okD(2) [OF assms(3)] by simp
  then have "us_pathId u \<noteq> pa_id p" if "counted (st_paths st) u" for u
    using that by (auto simp: counted_def)
  then have "counted (st_paths st') u" if "counted (st_paths st) u" for u
    using that by (simp add: ingest_path(1) counted_def)
  with assms(2) show ?thesis by (simp add: ingest_path(1) usage_ok_def)
qed


section \<open>The invariant\<close>

definition runtime_ok :: "deps \<Rightarrow> runtime_state \<Rightarrow> bool" where
  "runtime_ok E st \<longleftrightarrow>
     ids_ok st \<and> authorities_ok E st \<and> actors_ok st \<and> paths_ok st \<and> decisions_ok st \<and>
     pacts_ok E st \<and> proofs_ok st \<and> usage_ok E st"

lemma runtime_ok_empty: "runtime_ok E emptyRuntimeState"
  by (simp add: runtime_ok_def emptyRuntimeState_def ids_ok_def authorities_ok_def actors_ok_def
      paths_ok_def decisions_ok_def decided_def pacts_ok_def proofs_ok_def usage_ok_def)

lemma runtime_ok_effect:
  "runtime_effect E signer at st st' \<Longrightarrow> runtime_ok E st \<Longrightarrow> runtime_ok E st'"
  by (simp add: runtime_ok_def ids_ok_effect authorities_ok_effect actors_ok_effect paths_ok_effect
      decisions_ok_effect pacts_ok_effect proofs_ok_effect usage_ok_effect)

lemma runtime_ok_ingest:
  "ingest_effect E st st' \<Longrightarrow> runtime_ok E st \<Longrightarrow> runtime_ok E st'"
  by (simp add: runtime_ok_def ids_ok_ingest authorities_ok_ingest actors_ok_ingest paths_ok_ingest
      decisions_ok_ingest pacts_ok_ingest proofs_ok_ingest usage_ok_ingest)

end
