(* ===== verification/Runtime_History.thy ===== *)
theory Runtime_History
  imports Runtime_Invariants
begin

text \<open>
  How the Runtime's state moves over time: what one step keeps, what no sequence of steps can undo,
  and the states every run of the service reaches, over any store that keeps the contract.
\<close>


section \<open>One step\<close>

text \<open>Every stored value has a successor it may turn into.\<close>

definition advances :: "('v \<Rightarrow> 'v \<Rightarrow> bool) \<Rightarrow> 'v js_record \<Rightarrow> 'v js_record \<Rightarrow> bool" where
  "advances R r r' \<longleftrightarrow> (\<forall>k v. own r k = Some v \<longrightarrow> (\<exists>v'. own r' k = Some v' \<and> R v v'))"

lemma advances_refl: "(\<And>v. R v v) \<Longrightarrow> advances R r r"
  by (auto simp: advances_def)

lemma advances_js_set:
  "(\<And>v. R v v) \<Longrightarrow> (\<And>e. own r k = Some e \<Longrightarrow> R e v) \<Longrightarrow> advances R r (js_set k v r)"
  by (auto simp: advances_def)

lemma advancesD: "advances R r r' \<Longrightarrow> own r k = Some v \<Longrightarrow> \<exists>v'. own r' k = Some v' \<and> R v v'"
  by (simp add: advances_def)

definition path_moves :: "deps \<Rightarrow> path \<Rightarrow> path \<Rightarrow> bool" where
  "path_moves E p p' \<longleftrightarrow>
     p' = p \<or>
     pa_status p = PS_PREPARED \<and> pa_status p' = PS_ACTIVE \<and>
       sameValue E (json_of_path p) (json_of_path (p'\<lparr>pa_status := PS_PREPARED\<rparr>)) \<or>
     pa_status p = PS_ACTIVE \<and> p' = p\<lparr>pa_status := PS_REVOKED\<rparr>"

definition proposal_moves :: "proposal \<Rightarrow> proposal \<Rightarrow> bool" where
  "proposal_moves r r' \<longleftrightarrow>
     r' = r \<or> pr_status r = PRS_EVALUATING \<and> pr_status r' \<in> {PRS_ALLOWED, PRS_BLOCKED}"

definition proof_moves :: "proof_object \<Rightarrow> proof_object \<Rightarrow> bool" where
  "proof_moves f f' \<longleftrightarrow>
     f' = f \<or>
     pf_status f = PFS_SUBMITTED \<and>
       (\<exists>t v. f' = f\<lparr>pf_status := PFS_VERIFIED, pf_verifiedAt := Some t, pf_verifierActorRef := Some v\<rparr>)"

lemma moves_refl [simp]: "path_moves E p p" "proposal_moves r r" "proof_moves f f"
  by (simp_all add: path_moves_def proposal_moves_def proof_moves_def)

text \<open>Nothing registered, prepared, decided, signed or recorded is ever changed or removed.\<close>

definition evolves :: "deps \<Rightarrow> runtime_state \<Rightarrow> runtime_state \<Rightarrow> bool" where
  "evolves E st st' \<longleftrightarrow>
     grows (st_workspaces st) (st_workspaces st') \<and>
     grows (st_workspaceAuthorities st) (st_workspaceAuthorities st') \<and>
     grows (st_actors st) (st_actors st') \<and> grows (st_actorWorkspaces st) (st_actorWorkspaces st') \<and>
     advances (path_moves E) (st_paths st) (st_paths st') \<and>
     grows (st_intents st) (st_intents st') \<and>
     advances proposal_moves (st_proposals st) (st_proposals st') \<and>
     grows (st_decisions st) (st_decisions st') \<and> grows (st_pacts st) (st_pacts st') \<and>
     advances proof_moves (st_proofs st) (st_proofs st') \<and>
     grows (st_canonicalRecords st) (st_canonicalRecords st') \<and>
     grows (st_committedPacts st) (st_committedPacts st')"

lemmas advance_rules = advances_refl advances_js_set

lemma evolves_effect:
  assumes "runtime_effect E signer at st st'" and "runtime_ok E st"
  shows "evolves E st st'"
proof -
  have keys: "own (st_workspaceAuthorities st) k = None \<longleftrightarrow> own (st_workspaces st) k = None"
    "own (st_actorWorkspaces st) k = None \<longleftrightarrow> own (st_actors st) k = None"
    "own (st_committedPacts st) k = None \<longleftrightarrow> own (st_pacts st) k = None" for k
    using assms(2)
    by (auto simp: runtime_ok_def authorities_ok_def actors_ok_def pacts_ok_def dest: same_keysD)
  from assms(1) show ?thesis
  proof cases
    case (activate_path p w a)
    have "path_moves E e (p\<lparr>pa_status := PS_ACTIVE\<rparr>)" if "own (st_paths st) (pa_id p) = Some e" for e
      using activate_path(5,7) that by (cases p) (auto simp: path_moves_def)
    with activate_path(1) show ?thesis by (auto simp: evolves_def intro!: advance_rules)
  next
    case (revoke_path p att w a)
    then have "path_moves E e (p\<lparr>pa_status := PS_REVOKED\<rparr>)" if "own (st_paths st) (pa_id p) = Some e" for e
      using that by (simp add: path_moves_def active_path_def)
    with revoke_path(1) show ?thesis by (auto simp: evolves_def intro!: advance_rules)
  next
    case (allow_proposal r p i rs x v)
    then show ?thesis by (auto simp: evolves_def proposal_moves_def intro!: advance_rules)
  next
    case (block_proposal r p i err v)
    then show ?thesis by (auto simp: evolves_def proposal_moves_def intro!: advance_rules)
  next
    case (verify_proof f c pid p x)
    have "proof_moves e (f\<lparr>pf_status := PFS_VERIFIED, pf_verifiedAt := Some (toISOString at),
        pf_verifierActorRef := Some (mk_ref OT_Actor (ref_id x))\<rparr>)"
      if "own (st_proofs st) (pf_id f) = Some e" for e
      using verify_proof(2,3) that by (auto simp: proof_moves_def)
    with verify_proof(1) show ?thesis by (auto simp: evolves_def intro!: advance_rules)
  qed (auto simp: evolves_def keys intro!: advance_rules split: option.split)
qed

lemma evolves_ingest:
  assumes "ingest_effect E st st'" and "runtime_ok E st"
  shows "evolves E st st'"
  using assms(1)
proof cases
  case (ingest_path p v)
  then have "own (st_paths st) (pa_id p) = None"
    using assms(2) paths_okD(2) by (auto simp: runtime_ok_def)
  with ingest_path(1) show ?thesis by (auto simp: evolves_def intro!: advance_rules)
qed


section \<open>Many steps\<close>

definition runtime_step :: "deps \<Rightarrow> runtime_state \<Rightarrow> runtime_state \<Rightarrow> bool" where
  "runtime_step E st st' \<longleftrightarrow> (\<exists>signer at. runtime_effect E signer at st st') \<or> ingest_effect E st st'"

definition runtime_run :: "deps \<Rightarrow> runtime_state \<Rightarrow> runtime_state \<Rightarrow> bool" where
  "runtime_run E = (runtime_step E)\<^sup>*\<^sup>*"

lemma step_ok: "runtime_step E st st' \<Longrightarrow> runtime_ok E st \<Longrightarrow> runtime_ok E st' \<and> evolves E st st'"
  unfolding runtime_step_def
  using runtime_ok_effect runtime_ok_ingest evolves_effect evolves_ingest by blast

lemma run_refl [simp]: "runtime_run E st st"
  by (simp add: runtime_run_def)

lemma run_trans: "runtime_run E st st' \<Longrightarrow> runtime_run E st' st'' \<Longrightarrow> runtime_run E st st''"
  unfolding runtime_run_def by (rule rtranclp_trans)

lemma run_step: "runtime_step E st st' \<Longrightarrow> runtime_run E st st'"
  unfolding runtime_run_def by blast

lemma run_induct [consumes 2, case_names refl step]:
  assumes "runtime_run E st st'" and "runtime_ok E st" and "P st"
    and "\<And>s s'. runtime_run E st s \<Longrightarrow> runtime_ok E s \<Longrightarrow> P s \<Longrightarrow> evolves E s s' \<Longrightarrow> P s'"
  shows "P st' \<and> runtime_ok E st'"
  using assms(1) unfolding runtime_run_def
proof (induction rule: rtranclp_induct)
  case base
  then show ?case using assms(2,3) by simp
next
  case (step s s')
  then show ?case using step_ok [of E s s'] assms(4) [of s s'] unfolding runtime_run_def by blast
qed

lemma run_keeps:
  assumes "runtime_run E st st'" and "runtime_ok E st" and "own (f st) k = Some v"
    and "\<And>s s'. evolves E s s' \<Longrightarrow> own (f s) k = Some v \<Longrightarrow> own (f s') k = Some v"
  shows "own (f st') k = Some v"
  using run_induct [OF assms(1,2), of "\<lambda>s. own (f s) k = Some v"] assms(3,4) by blast

lemma run_ok: "runtime_run E st st' \<Longrightarrow> runtime_ok E st \<Longrightarrow> runtime_ok E st'"
  using run_induct [of E st st' "\<lambda>_. True"] by blast

end
