(* ===== verification/Envelope_Facts.thy ===== *)
theory Envelope_Facts
  imports Runtime_Refinement
begin

text \<open>
  What an accepted envelope guarantees: reading a member of an encoded object gives the member
  that was encoded, a validated request has a payload its schema accepts and repeats the
  references of the payload, and an admitted call carries a binding for exactly that request.
\<close>


section \<open>Members of encoded objects\<close>

lemma map_of_jfields:
  assumes "distinct (map fst fs)"
  shows "map_of (jfields fs) k = (case map_of fs k of Some v \<Rightarrow> v | None \<Rightarrow> None)"
  using assms
proof (induction fs rule: jfields.induct)
  case (2 k' fs)
  then have "map_of fs k' = None" by (simp add: map_of_eq_None_iff)
  with 2 show ?case by simp
next
  case (3 k' v fs)
  then show ?case by simp
qed simp

lemma jget_jobj [simp]:
  assumes "distinct (map fst fs)"
  shows "jget (Some (jobj fs)) k = (case map_of fs k of Some v \<Rightarrow> v | None \<Rightarrow> None)"
  using map_of_jfields [OF assms] by (simp add: jobj_def)

lemma isRecord_jobj [simp]: "isRecord (Some (jobj fs))"
  by (simp add: jobj_def)

lemma request_members [simp]:
  "jget (Some (json_of_request r)) ''data'' = Some (json_of_request_data (rq_data r))"
  "jget (Some (json_of_request r)) ''operationId'' = Some (JStr (rq_operationId r))"
  "jget (Some (json_of_request r)) ''capability'' = Some (JStr (rq_capability r))"
  "jget (Some (json_of_request r)) ''authorizationClass'' = Some (JStr (rq_authorizationClass r))"
  "jget (Some (json_of_request r)) ''executionProfile''
     = Some (JStr (execution_profile_str (rq_executionProfile r)))"
  "jget (Some (json_of_request r)) ''network'' = Some (json_of_network_reference (rq_network r))"
  "jget (Some (json_of_request r)) ''workspaceRef'' = ref_json (rq_workspaceRef r)"
  "jget (Some (json_of_request r)) ''pathRef'' = ref_json (rq_pathRef r)"
  "jget (Some (json_of_request r)) ''intentRef'' = ref_json (rq_intentRef r)"
  "jget (Some (json_of_request r)) ''proposalRef'' = ref_json (rq_proposalRef r)"
  "jget (Some (json_of_request r)) ''decisionRef'' = ref_json (rq_decisionRef r)"
  "jget (Some (json_of_request r)) ''pactRef'' = ref_json (rq_pactRef r)"
  "jget (Some (json_of_request r)) ''canonicalRecordRef'' = ref_json (rq_canonicalRecordRef r)"
  "jget (Some (json_of_request r)) ''proofRefs'' = refs_json (rq_proofRefs r)"
  by (simp_all add: json_of_request_def)

lemma isRecord_request [simp]: "isRecord (Some (json_of_request r))"
  by (simp add: json_of_request_def)

lemma isRecord_response [simp]: "isRecord (Some (json_of_response r))"
  by (simp add: json_of_response_def)

lemma response_members [simp]:
  "jget (Some (json_of_response r)) ''data'' = Some (json_of_response_data (rsp_data r))"
  "jget (Some (json_of_response r)) ''operationId'' = Some (JStr (rsp_operationId r))"
  "jget (Some (json_of_response r)) ''lifecycleState''
     = Some (JStr (lifecycle_state_str (rsp_lifecycleState r)))"
  by (simp_all add: json_of_response_def)


section \<open>Valid envelopes\<close>

lemma terminal_null_request [simp]: "\<not> isTerminalNullResponse v Request_direction"
  by (simp add: isTerminalNullResponse_def)

text \<open>A valid request: the schemas accept the envelope and its data, and no check raised an issue.\<close>

lemma valid_request:
  assumes "validateOperation E name (Some (json_of_request r)) Request_direction = Inr v"
    and "vr_valid v"
  obtains operation where
    "resolveOperation name = Inr operation"
    "ext_validate E (op_requestSchema operation) (Some (json_of_request r)) = Some []"
    "ext_validate E (op_requestDataSchema operation) (Some (json_of_request_data (rq_data r))) = Some []"
    "metadata_issues operation (Some (json_of_request r)) = []"
    "validateRuntimeTransitionBindings E (op_operationId operation) (Some (json_of_request r))
       Request_direction = []"
  using assms
  by (auto simp: validateOperation_def validatorFor_def res_simps Let_def split: option.splits)

lemma valid_response:
  assumes "validateOperation E name (Some (json_of_response r)) Response_direction = Inr v"
    and "vr_valid v"
  obtains operation where
    "resolveOperation name = Inr operation"
    "ext_validate E (op_responseSchema operation) (Some (json_of_response r)) = Some []"
    "validateRuntimeTransitionLifecycle (op_operationId operation) (Some (json_of_response r))
       Response_direction = []"
  using assms
  by (auto simp: validateOperation_def validatorFor_def res_simps Let_def split: option.splits)


text \<open>When an envelope is valid: the conjunction of the checks, with the entry of the registry.\<close>

definition valid_envelope :: "deps \<Rightarrow> string \<Rightarrow> json option \<Rightarrow> direction \<Rightarrow> bool" where
  "valid_envelope E name envelope dir \<longleftrightarrow>
     (\<exists>v. validateOperation E name envelope dir = Inr v \<and> vr_valid v)"

lemma valid_envelopeI:
  assumes "resolveOperation name = Inr operation" and "isRecord envelope"
    and "ext_validate E (if dir = Request_direction then op_requestSchema operation
           else op_responseSchema operation) envelope = Some []"
    and "ext_validate E (if dir = Request_direction then op_requestDataSchema operation
           else op_responseDataSchema operation) (jget envelope ''data'') = Some []"
    and "metadata_issues operation envelope = []"
    and "validateRuntimeTransitionBindings E (op_operationId operation) envelope dir = []"
    and "validateRuntimeTransitionLifecycle (op_operationId operation) envelope dir = []"
  shows "valid_envelope E name envelope dir"
  using assms by (simp add: valid_envelope_def validateOperation_def validatorFor_def Let_def)

lemma metadata_issues_request:
  "metadata_issues operation (Some (json_of_request r)) = [] \<longleftrightarrow>
     op_operationId operation = op_capability operation \<and>
     rq_operationId r = op_operationId operation \<and> rq_capability r = op_capability operation \<and>
     (case op_introducedIn operation of
        None \<Rightarrow> True
      | Some v \<Rightarrow> v = [] \<or> \<not> js_less (compareInterfaceVersions
          (interface_version_str (rq_interfaceVersion r)) v) (Some 0)) \<and>
     rq_authorizationClass r = op_authorizationClass operation \<and>
     execution_profile_str (rq_executionProfile r) \<in> set (op_allowedExecutionProfiles operation)"
proof -
  have "jget (Some (json_of_request r)) ''interfaceVersion''
      = Some (JStr (interface_version_str (rq_interfaceVersion r)))"
    by (simp add: json_of_request_def)
  then show ?thesis
    by (auto simp: metadata_issues_def js_String_opt_def split: option.splits)
qed

text \<open>The payload hash does not depend on the signature binding.\<close>

lemma hash_ignores_signature:
  "hashRuntimePayload E (Some (jobj (fs @ [(''signatureBinding'', a)])))
     = hashRuntimePayload E (Some (jobj (fs @ [(''signatureBinding'', b)])))"
proof -
  have "filter (\<lambda>(k, v). k \<noteq> ''signatureBinding'') (jfields (gs @ [(''signatureBinding'', c)]))
      = filter (\<lambda>(k, v). k \<noteq> ''signatureBinding'') (jfields gs)" for gs c
    by (induction gs rule: jfields.induct) (cases c, auto)
  then show ?thesis
    by (simp add: hashRuntimePayload_def canonicalizeRuntimePayload_def jobj_def unsigned_payload_def)
qed

lemma signature_members [simp]:
  "jget (Some (json_of_runtime_signature_binding b)) ''operationId'' = Some (JStr (rb_operationId b))"
  "jget (Some (json_of_runtime_signature_binding b)) ''chainId'' = Some (JStr (rb_chainId b))"
  "jget (Some (json_of_runtime_signature_binding b)) ''payloadHash'' = Some (JStr (rb_payloadHash b))"
  "jget (Some (json_of_runtime_signature_binding b)) ''signer'' = Some (JStr (rb_signer b))"
  "jget (Some (json_of_runtime_signature_binding b)) ''domain''
     = Some (json_of_runtime_signature_domain (rb_domain b))"
  "isRecord (Some (json_of_runtime_signature_binding b))"
  by (simp_all add: json_of_runtime_signature_binding_def)

lemma domain_members [simp]:
  "jget (Some (json_of_runtime_signature_domain d)) ''chainId'' = Some (JStr (rd_chainId d))"
  "isRecord (Some (json_of_runtime_signature_domain d))"
  by (simp_all add: json_of_runtime_signature_domain_def)

lemma network_members [simp]:
  "jget (Some (json_of_network_reference n)) ''chainId'' = Some (JStr (nr_chainId n))"
  "isRecord (Some (json_of_network_reference n))"
  by (simp_all add: json_of_network_reference_def)

lemma subject_members [simp]:
  "jget (Some (json_of_subject u)) ''walletAddress'' = map_option JStr (su_walletAddress u)"
  "isRecord (Some (json_of_subject u))"
  by (simp_all add: json_of_subject_def)

text \<open>A payload of one of the signed shapes, with its signature.\<close>

definition signed_shape :: "request_data \<Rightarrow> runtime_signature_binding \<Rightarrow> bool" where
  "signed_shape d b \<longleftrightarrow> request_sig d = Inr (Sig b) \<and> (\<forall>j. d \<noteq> RD_other j)"

lemma signed_shape_payload:
  assumes "signed_shape d b"
  shows "jget (Some (json_of_request_data d)) ''signatureBinding''
      = Some (json_of_runtime_signature_binding b)"
    and "isRecord (Some (json_of_request_data d))"
  using assms by (cases d; simp add: signed_shape_def request_sig_def)+

text \<open>
  The checks that tie an envelope to its signed payload, for a request: every reference of the
  envelope repeats the payload's, and the signature names the operation, the chain, the hash of
  the payload and the wallet of the subject.
\<close>

definition binds_envelope :: "deps \<Rightarrow> string \<Rightarrow> operation_request \<Rightarrow> runtime_signature_binding \<Rightarrow> bool" where
  "binds_envelope E operationId r b \<longleftrightarrow>
     (\<forall>kv \<in> set (signed_references operationId (Some (json_of_request_data (rq_data r)))
        Request_direction). reference_ok (Some (json_of_request r)) kv) \<and>
     rb_operationId b = operationId \<and> rb_chainId b = rd_chainId (rb_domain b) \<and>
     rb_chainId b = nr_chainId (rq_network r) \<and>
     hashRuntimePayload E (Some (json_of_request_data (rq_data r))) = Inr (rb_payloadHash b) \<and>
     (case su_walletAddress (rq_subject r) of
        None \<Rightarrow> True | Some w \<Rightarrow> toLowerCase w = toLowerCase (rb_signer b))"

lemma request_subject [simp]:
  "jget (Some (json_of_request r)) ''subject'' = Some (json_of_subject (rq_subject r))"
  by (simp add: json_of_request_def)

lemma concat_map_Nil: "concat (map f xs) = [] \<longleftrightarrow> (\<forall>x \<in> set xs. f x = [])"
  by auto

lemma reference_issue_Nil: "reference_issue v kv = [] \<longleftrightarrow> reference_ok v kv"
  by (cases kv) (simp add: reference_issue_def)

lemma bindings_request_iff:
  assumes "isSignedRuntimeTransitionOperation operationId" and "signed_shape (rq_data r) b"
  shows "validateRuntimeTransitionBindings E operationId (Some (json_of_request r)) Request_direction = []
    \<longleftrightarrow> binds_envelope E operationId r b"
proof -
  note sh = signed_shape_payload [OF assms(2)]
  have "(case su_walletAddress (rq_subject r) of None \<Rightarrow> True
        | Some w \<Rightarrow> toLowerCase w = toLowerCase (rb_signer b))
      \<longleftrightarrow> \<not> (is_string (map_option JStr (su_walletAddress (rq_subject r)))
            \<and> toLowerCase (js_String_opt (map_option JStr (su_walletAddress (rq_subject r))))
              \<noteq> toLowerCase (js_String_opt (Some (JStr (rb_signer b)))))"
    by (simp add: js_String_opt_def split: option.split)
  then show ?thesis
    using assms(1) sh
    by (auto simp add: validateRuntimeTransitionBindings_def Let_def binds_envelope_def concat_map_Nil
        reference_issue_Nil split: sum.split)
qed

lemma lifecycle_request [simp]: "validateRuntimeTransitionLifecycle operationId v Request_direction = []"
  by (simp add: validateRuntimeTransitionLifecycle_def)


section \<open>Admitted calls\<close>

lemma admit_Inr:
  assumes "admit E P cfg now request = Inr (b, scope)"
  obtains v sig where
    "validateOperation E (rq_operationId request) (Some (json_of_request request)) Request_direction
       = Inr v" "vr_valid v"
    "rq_operationId request \<in> set RUNTIME_OPERATION_IDS"
    "runtimeBinding (rq_data request) (rq_operationId request) = Inr sig"
    "assertRuntimeBinding E (rq_operationId request) request sig
       \<lparr>bo_now = now, bo_maxSignatureLifetimeSeconds = cfg_maxSignatureLifetimeSeconds cfg,
        bo_clockSkewSeconds = cfg_clockSkewSeconds cfg\<rparr> = Inr b"
    "verifyBinding E P b = Inr ()" "replay_scope_of E b = Inr scope"
  using assms by (auto simp: admit_def Let_def res_simps split: sum.splits if_splits)

lemma admitI:
  assumes "valid_envelope E (rq_operationId request) (Some (json_of_request request)) Request_direction"
    and "rq_operationId request \<in> set RUNTIME_OPERATION_IDS"
    and "runtimeBinding (rq_data request) (rq_operationId request) = Inr sig"
    and "assertRuntimeBinding E (rq_operationId request) request sig
       \<lparr>bo_now = now, bo_maxSignatureLifetimeSeconds = cfg_maxSignatureLifetimeSeconds cfg,
        bo_clockSkewSeconds = cfg_clockSkewSeconds cfg\<rparr> = Inr b"
    and "verifyBinding E P b = Inr ()" and "replay_scope_of E b = Inr scope"
  shows "admit E P cfg now request = Inr (b, scope)"
  using assms by (auto simp: admit_def Let_def valid_envelope_def)

text \<open>The payload of an admitted Proposal satisfies the schema of its operation.\<close>

lemma registered_members [simp]:
  "op_operationId (registered i c v k ps q a) = i" "op_capability (registered i c v k ps q a) = c"
  "op_introducedIn (registered i c v k ps q a) = v"
  "op_authorizationClass (registered i c v k ps q a) = k"
  "op_allowedExecutionProfiles (registered i c v k ps q a) = ps"
  "op_requestSchema (registered i c v k ps q a) = schema_root @ ''operation-request.schema.json''"
  "op_responseSchema (registered i c v k ps q a) = schema_root @ ''operation-response.schema.json''"
  "op_requestDataSchema (registered i c v k ps q a)
     = schema_root @ ''operation-payloads.schema.json#/$defs/'' @ q"
  "op_responseDataSchema (registered i c v k ps q a)
     = schema_root @ ''operation-payloads.schema.json#/$defs/'' @ a"
  by (simp_all add: registered_def)

lemma runtime_operations:
  "resolveOperation ''workspace.register''
     = Inr (registered ''workspace.register'' ''workspace.register'' (Some ''1.2.0'')
         ''RELAY_SIGNED_ENVELOPE'' delegated_only ''WorkspaceRegisterRequest''
         ''WorkspaceRegisterResponse'')"
  "resolveOperation ''actor.register''
     = Inr (registered ''actor.register'' ''actor.register'' (Some ''1.2.0'')
         ''RELAY_SIGNED_ENVELOPE'' delegated_only ''ActorRegisterRequest'' ''ActorRegisterResponse'')"
  "resolveOperation ''path.activate''
     = Inr (registered ''path.activate'' ''path.activate'' None ''WALLET_SIGNATURE'' delegated_only
         ''PathRequest'' ''PathResponse'')"
  "resolveOperation ''path.revoke''
     = Inr (registered ''path.revoke'' ''path.revoke'' None ''WALLET_SIGNATURE'' delegated_only
         ''PathRefRequest'' ''PathResponse'')"
  "resolveOperation ''intent.prepare''
     = Inr (registered ''intent.prepare'' ''intent.prepare'' None ''PREPARE_ONLY'' any_profile
         ''IntentRequest'' ''IntentResponse'')"
  "resolveOperation ''proposal.evaluate''
     = Inr (registered ''proposal.evaluate'' ''proposal.evaluate'' None ''PREPARE_ONLY''
         delegated_only ''ProposalRequest'' ''DecisionResponse'')"
  "resolveOperation ''proposal.submit''
     = Inr (registered ''proposal.submit'' ''proposal.submit'' (Some ''1.2.0'')
         ''RELAY_SIGNED_ENVELOPE'' delegated_only ''ProposalSubmitRequest'' ''ProposalSubmitResponse'')"
  "resolveOperation ''pact.sign''
     = Inr (registered ''pact.sign'' ''pact.sign'' (Some ''1.2.0'') ''RELAY_SIGNED_ENVELOPE''
         delegated_only ''PactSignRequest'' ''PactSignResponse'')"
  "resolveOperation ''proof.submit''
     = Inr (registered ''proof.submit'' ''proof.submit'' None ''RELAY_SIGNED_ENVELOPE'' any_profile
         ''ProofRequest'' ''ProofResponse'')"
  "resolveOperation ''proof.verify''
     = Inr (registered ''proof.verify'' ''proof.verify'' None ''PUBLIC_READ'' any_profile
         ''ProofRefRequest'' ''ProofResponse'')"
  by (simp_all add: resolveOperation_def registry_def)

definition payload_schema :: "string \<Rightarrow> string" where
  "payload_schema name = schema_root @ ''operation-payloads.schema.json#/$defs/'' @ name"

lemma admitted_proposal:
  assumes "admit E P cfg now request = Inr (b, scope)" and "rq_data request = RD_proposal r s"
    and "rq_operationId request \<in> {''proposal.evaluate'', ''proposal.submit''}"
  shows "\<exists>n \<in> {''ProposalRequest'', ''ProposalSubmitRequest''}.
    ext_validate E (payload_schema n) (Some (json_of_request_data (RD_proposal r s))) = Some []"
proof -
  obtain v where "validateOperation E (rq_operationId request) (Some (json_of_request request))
      Request_direction = Inr v" "vr_valid v"
    using assms(1) by (rule admit_Inr)
  then obtain operation where "resolveOperation (rq_operationId request) = Inr operation"
      "ext_validate E (op_requestDataSchema operation) (Some (json_of_request_data (rq_data request)))
        = Some []"
    by (rule valid_request)
  then show ?thesis
    using assms(2,3) by (auto simp: runtime_operations payload_schema_def)
qed


section \<open>Transitions that succeed\<close>

lemma transitionI:
  assumes "prepareTransition E (rq_operationId request) request b st at = Inr p"
    and "valid_envelope E (rq_operationId request) (Some (json_of_response (prep_response p)))
      Response_direction"
  shows "transition E request b at st = Inr (prep_response p, prep_commit p st)"
  using assms by (auto simp: transition_def valid_envelope_def Let_def)

text \<open>The answer to a transition repeats the envelope of the request.\<close>

lemma buildResponse_members:
  assumes "buildResponse request operationId state d at errors = Inr r"
  shows "rsp_operationId r = operationId" "rsp_lifecycleState r = state" "rsp_data r = d"
    "rsp_network r = rq_network request" "rsp_subject r = rq_subject request"
    "rsp_workspaceRef r = rq_workspaceRef request" "rsp_pathRef r = rq_pathRef request"
    "rsp_intentRef r = rq_intentRef request" "rsp_proposalRef r = rq_proposalRef request"
    "rsp_decisionRef r = rq_decisionRef request" "rsp_pactRef r = rq_pactRef request"
    "rsp_proofRefs r = rq_proofRefs request"
    "rsp_createdAt r = toISOString at" "rsp_interfaceVersion r = IV_1_2_0"
    "rsp_executionProfile r = EP_delegated_runtime"
    "\<exists>operation. resolveOperation operationId = Inr operation \<and>
       rsp_capability r = op_capability operation \<and>
       rsp_authorizationClass r = op_authorizationClass operation"
  using assms by (auto simp: buildResponse_def res_simps Let_def)


text \<open>The same checks on a response; its payload may or may not carry the signature.\<close>

lemma response_envelope_members [simp]:
  "jget (Some (json_of_response r)) ''network'' = Some (json_of_network_reference (rsp_network r))"
  "jget (Some (json_of_response r)) ''subject'' = Some (json_of_subject (rsp_subject r))"
  "jget (Some (json_of_response r)) ''capability'' = Some (JStr (rsp_capability r))"
  "jget (Some (json_of_response r)) ''authorizationClass'' = Some (JStr (rsp_authorizationClass r))"
  "jget (Some (json_of_response r)) ''executionProfile''
     = Some (JStr (execution_profile_str (rsp_executionProfile r)))"
  "jget (Some (json_of_response r)) ''interfaceVersion''
     = Some (JStr (interface_version_str (rsp_interfaceVersion r)))"
  "jget (Some (json_of_response r)) ''workspaceRef'' = ref_json (rsp_workspaceRef r)"
  "jget (Some (json_of_response r)) ''pathRef'' = ref_json (rsp_pathRef r)"
  "jget (Some (json_of_response r)) ''intentRef'' = ref_json (rsp_intentRef r)"
  "jget (Some (json_of_response r)) ''proposalRef'' = ref_json (rsp_proposalRef r)"
  "jget (Some (json_of_response r)) ''decisionRef'' = ref_json (rsp_decisionRef r)"
  "jget (Some (json_of_response r)) ''pactRef'' = ref_json (rsp_pactRef r)"
  "jget (Some (json_of_response r)) ''proofRefs'' = refs_json (rsp_proofRefs r)"
  by (simp_all add: json_of_response_def)

lemma metadata_issues_response:
  "metadata_issues operation (Some (json_of_response r)) = [] \<longleftrightarrow>
     op_operationId operation = op_capability operation \<and>
     rsp_operationId r = op_operationId operation \<and> rsp_capability r = op_capability operation \<and>
     (case op_introducedIn operation of
        None \<Rightarrow> True
      | Some v \<Rightarrow> v = [] \<or> \<not> js_less (compareInterfaceVersions
          (interface_version_str (rsp_interfaceVersion r)) v) (Some 0)) \<and>
     rsp_authorizationClass r = op_authorizationClass operation \<and>
     execution_profile_str (rsp_executionProfile r) \<in> set (op_allowedExecutionProfiles operation)"
  by (auto simp: metadata_issues_def js_String_opt_def split: option.splits)

lemma bindings_response:
  assumes "isRecord (Some (json_of_response_data (rsp_data r)))"
    and "\<And>kv. kv \<in> set (signed_references operationId (Some (json_of_response_data (rsp_data r)))
      Response_direction) \<Longrightarrow> reference_ok (Some (json_of_response r)) kv"
    and "jget (Some (json_of_response_data (rsp_data r))) ''signatureBinding'' = None \<or>
      jget (Some (json_of_response_data (rsp_data r))) ''signatureBinding''
        = Some (json_of_runtime_signature_binding b) \<and>
      rb_operationId b = operationId \<and> rb_chainId b = rd_chainId (rb_domain b) \<and>
      rb_chainId b = nr_chainId (rsp_network r) \<and> su_walletAddress (rsp_subject r) = None"
  shows "validateRuntimeTransitionBindings E operationId (Some (json_of_response r)) Response_direction = []"
  using assms
  by (auto simp: validateRuntimeTransitionBindings_def Let_def concat_map_Nil reference_issue_Nil)

end
