(* ===== verification/Runtime_Service.thy ===== *)
theory Runtime_Service
  imports Runtime_History Envelope_Facts
begin

text \<open>
  The Runtime over a store: what a call does to the store's state, for any store that keeps the
  contract of \<open>runtime_store\<close>, and the two stores of the source as instances.  For the Postgres
  store this needs that every state the Runtime writes can be read back, which rests on the number
  patterns of the schemas.
\<close>


section \<open>States that can be read back\<close>

text \<open>
  The facts about the generated validators that the counters rely on: a valid Path has decimal
  periods and fewer limits than an array can hold, and a valid Proposal payload a decimal amount.
\<close>

definition limits_numeric :: "path \<Rightarrow> bool" where
  "limits_numeric p \<longleftrightarrow>
     length (pa_limits p) \<le> 4294967295 \<and>
     list_all (\<lambda>l. is_pos_dec_string (li_periodSeconds l)) (pa_limits p)"

definition proposal_numeric :: "proposal \<Rightarrow> bool" where
  "proposal_numeric r \<longleftrightarrow> is_dec_string (pt_amount (pr_normalizedTerms r))"

definition numeric_schemas :: "deps \<Rightarrow> bool" where
  "numeric_schemas E \<longleftrightarrow>
     (\<forall>p. schema_accepts E ''path'' (json_of_path p) \<longrightarrow> limits_numeric p) \<and>
     (\<forall>n r s. n \<in> {''ProposalRequest'', ''ProposalSubmitRequest''} \<longrightarrow>
        ext_validate E (payload_schema n) (Some (json_of_request_data (RD_proposal r s))) = Some [] \<longrightarrow>
        proposal_numeric r)"

definition amounts_ok :: "runtime_state \<Rightarrow> bool" where
  "amounts_ok st \<longleftrightarrow> (\<forall>k r. own (st_proposals st) k = Some r \<longrightarrow> proposal_numeric r)"

lemma is_dec_string_show_int: "0 \<le> i \<Longrightarrow> is_dec_string (show_int i)"
  by (simp add: show_int_def is_dec_string_show_nat)

lemma pos_dec_is_dec: "is_pos_dec_string s \<Longrightarrow> is_dec_string s"
  by (simp add: is_pos_dec_string_def is_dec_string_def)

lemma BigInt_dec_nonneg: "is_dec_string s \<Longrightarrow> BigInt s = Some i \<Longrightarrow> 0 \<le> i"
  using BigInt_dec_string [of s] by simp

lemma reservation_well_formed:
  assumes "reserve_limit E st path limit i terms now = Inr r"
    and "0 \<le> now" and "is_dec_string (pt_amount terms)" and "is_pos_dec_string (li_periodSeconds limit)"
    and "i \<le> 4294967295"
  shows "usage_entry_ok E (ur_key r, ur_value r)"
proof -
  obtain u usage count used amount where *:
      "counts_for E path limit i now u" "pathPeriodUsageKey E u = Inr (ur_key r)"
      "currentUsage st (ur_key r) u = Inr usage"
      "BigInt (us_transactionCount usage) = Some count" "BigInt (us_amount usage) = Some used"
      "BigInt (pt_amount terms) = Some amount"
      "ur_value r = raised_usage u (count + 1) (used + amount)"
    using assms(1) by (rule reserve_limit_Inr)
  obtain period bucket asset where u: "BigInt (li_periodSeconds limit) = Some period"
      "usageBucketStart now period = Inr bucket" "u = usage_id_of path asset i limit bucket"
    using *(1) by (auto simp: counts_for_def)
  have "0 \<le> period" using BigInt_dec_nonneg [OF pos_dec_is_dec [OF assms(4)] u(1)] .
  moreover have "period \<noteq> 0" using u(2) by (auto simp: usageBucketStart_def)
  ultimately have "0 \<le> bucket" using usageBucketStart_bounds [OF assms(2) _ u(2)] by simp
  moreover have "0 \<le> count" "0 \<le> used" "0 \<le> amount"
    using currentUsage_eq_Inr [OF *(3)] *(4-6) assms(3) BigInt_dec_nonneg by auto
  ultimately show ?thesis
    using assms(4,5) *(2)
    by (auto simp: usage_entry_ok_def usage_well_formed_def *(7) u(3) usage_id_of_def
        is_safe_integer_def is_dec_string_show_int)
qed

lemma reservations_well_formed:
  assumes "assertPathAuthority E st path intent terms now reserve = Inr rs" and "r \<in> set rs"
    and "0 \<le> now" and "is_dec_string (pt_amount terms)" and "limits_numeric path"
  shows "usage_entry_ok E (ur_key r, ur_value r)"
proof -
  obtain limit i where li: "(limit, i) \<in> set (applicable_limits E path (pt_asset terms))"
      "reserve_limit E st path limit i terms now = Inr r"
    using check_limits_member [OF assertPathAuthority_Inr(4) [OF assms(1)] assms(2)] by auto
  with assms(5) applicable_limit_index [OF li(1)]
  have "is_pos_dec_string (li_periodSeconds limit)" "i \<le> 4294967295"
    by (auto simp: limits_numeric_def list_all_iff)
  with assms(3,4) li(2) show ?thesis by (intro reservation_well_formed)
qed

lemma storable_js_set:
  assumes "storable_state E (st\<lparr>st_pathPeriodUsage := d\<rparr>)" and "usage_entry_ok E (k, u)"
  shows "storable_state E (st\<lparr>st_pathPeriodUsage := js_set k u d\<rparr>)"
proof -
  have "set (js_set k u d) \<subseteq> insert (k, u) (set d)"
    unfolding js_set_def by (induction d) auto
  moreover have "distinct (map fst (js_set k u d))"
    using assms(1) unfolding js_set_def storable_state_def by (simp add: distinct_update)
  ultimately show ?thesis
    using assms by (auto simp: storable_state_def list_all_iff)
qed

lemma storable_fold:
  assumes "storable_state E (st\<lparr>st_pathPeriodUsage := d\<rparr>)"
    and "\<And>r. r \<in> set rs \<Longrightarrow> usage_entry_ok E (ur_key r, ur_value r)"
  shows "storable_state E (st\<lparr>st_pathPeriodUsage := fold (\<lambda>r. js_set (ur_key r) (ur_value r)) rs d\<rparr>)"
  using assms by (induction rs arbitrary: d) (simp_all add: storable_js_set)

lemma storable_other:
  "st_pathPeriodUsage st' = st_pathPeriodUsage st \<Longrightarrow> storable_state E st' = storable_state E st"
  by (simp add: storable_state_def)

lemma storable_reservations:
  assumes "storable_state E st" and "st_pathPeriodUsage st' = st_pathPeriodUsage st"
    and "assertPathAuthority E s path intent terms now reserve = Inr rs"
    and "0 \<le> now" and "is_dec_string (pt_amount terms)" and "limits_numeric path"
  shows "storable_state E (store_reservations rs st')"
  unfolding store_reservations_eq
  using assms reservations_well_formed [OF assms(3)]
  by (intro storable_fold) (simp_all add: storable_state_def)

lemma storable_effect:
  assumes "runtime_effect E signer at st st'" and "storable_state E st"
    and "numeric_schemas E" and "0 \<le> at" and "amounts_ok st'"
  shows "storable_state E st'"
  using assms(1)
proof cases
  case (allow_proposal r p i rs x v)
  then have "is_dec_string (pt_amount (pr_normalizedTerms r))"
    using assms(5) by (auto simp: amounts_ok_def proposal_numeric_def dest!: spec [where x = "pr_id r"])
  moreover have "limits_numeric p"
    using assms(3) allow_proposal(2) by (simp add: numeric_schemas_def active_path_def)
  ultimately show ?thesis
    unfolding allow_proposal(1)
    by (intro storable_reservations [OF assms(2) _ allow_proposal(9) assms(4)]) simp_all
next
  case (submit_proposal r p i rs)
  then have "is_dec_string (pt_amount (pr_normalizedTerms r))"
    using assms(5) by (auto simp: amounts_ok_def proposal_numeric_def dest!: spec [where x = "pr_id r"])
  moreover have "limits_numeric p"
    using assms(3) submit_proposal(2) by (simp add: numeric_schemas_def active_path_def)
  ultimately show ?thesis
    unfolding submit_proposal(1)
    by (intro storable_reservations [OF assms(2) _ submit_proposal(8) assms(4)]) simp_all
qed (use assms(2) in \<open>simp_all add: storable_state_def\<close>)

lemma storable_ingest: "ingest_effect E st st' \<Longrightarrow> storable_state E st \<Longrightarrow> storable_state E st'"
  by (auto simp: storable_state_def elim!: ingest_effect.cases)


section \<open>The amounts of stored Proposals\<close>

definition writes_proposal :: "operation_request \<Rightarrow> runtime_state \<Rightarrow> runtime_state \<Rightarrow> bool" where
  "writes_proposal request st st' \<longleftrightarrow>
     (\<exists>r0 s r. rq_data request = RD_proposal r0 s \<and>
        pr_normalizedTerms r = pr_normalizedTerms r0 \<and>
        st_proposals st' = js_set (pr_id r) r (st_proposals st))"

lemma evaluate_writes:
  assumes "prepareProposalEvaluate E request b st at = Inr p"
  shows "writes_proposal request st (prep_commit p st)"
proof -
  obtain r s where d: "rq_data request = RD_proposal r s"
    using assms
    by (auto simp: prepareProposalEvaluate_def shape_error_def split: request_data.splits)
  let ?v = "case pr_policyVersion r of None \<Rightarrow> BAPHOMET_POLICY_VERSION | Some v \<Rightarrow> v"
  from assms obtain pa i ev where
      "evaluate_proposal E st pa i r ?v at (\<not> present (js_get (st_proposals st) (pr_id r))) = Inr ev"
      and commit: "prep_commit p = (\<lambda>draft. store_reservations (ev_reservations ev) (draft
         \<lparr>st_proposals := js_set (pr_id r)
            (r\<lparr>pr_policyVersion := Some ?v, pr_status := ev_status ev\<rparr>) (st_proposals draft),
          st_decisions := js_set (de_id (ev_decision ev)) (ev_decision ev) (st_decisions draft)\<rparr>))"
    by (auto simp: prepareProposalEvaluate_def d res_simps Let_def)
  show ?thesis
    unfolding writes_proposal_def
    by (intro exI [of _ r] exI [of _ s]
        exI [of _ "r\<lparr>pr_policyVersion := Some ?v, pr_status := ev_status ev\<rparr>"]) (simp add: d commit)
qed

lemma submit_writes:
  assumes "prepareProposal E request b st at = Inr p"
  shows "writes_proposal request st (prep_commit p st)"
proof -
  obtain r s where d: "rq_data request = RD_proposal r s"
    using assms by (auto simp: prepareProposal_def shape_error_def split: request_data.splits)
  from assms obtain pa i rs where
      "assertPathAuthority E st pa i (pr_normalizedTerms r) at True = Inr rs"
      and "prep_commit p = (\<lambda>draft. store_reservations rs (draft
         \<lparr>st_proposals := js_set (pr_id r) r (st_proposals draft)\<rparr>))"
    by (auto simp: prepareProposal_def d res_simps)
  then show ?thesis by (auto simp: writes_proposal_def d)
qed

lemma other_operations_keep_proposals:
  "prepareWorkspace E request b st at = Inr p \<Longrightarrow> st_proposals (prep_commit p st) = st_proposals st"
  "prepareActor E request b st at = Inr p \<Longrightarrow> st_proposals (prep_commit p st) = st_proposals st"
  "preparePathActivate E request b st at = Inr p \<Longrightarrow> st_proposals (prep_commit p st) = st_proposals st"
  "preparePathRevoke E request b st at = Inr p \<Longrightarrow> st_proposals (prep_commit p st) = st_proposals st"
  "prepareIntent E request b st at = Inr p \<Longrightarrow> st_proposals (prep_commit p st) = st_proposals st"
  "preparePact E request b st at = Inr p \<Longrightarrow> st_proposals (prep_commit p st) = st_proposals st"
  "prepareProofSubmit E request b st at = Inr p \<Longrightarrow> st_proposals (prep_commit p st) = st_proposals st"
  "prepareProofVerify E request b st at = Inr p \<Longrightarrow> st_proposals (prep_commit p st) = st_proposals st"
  by (auto simp: prepareWorkspace_def prepareActor_def preparePathActivate_def preparePathRevoke_def
      prepareIntent_def preparePact_def prepareProofSubmit_def prepareProofVerify_def shape_error_def
      res_simps Let_def split: request_data.splits option.splits)

lemma transition_proposals:
  assumes "transition E request b at st = Inr (resp, st')"
  shows "st_proposals st' = st_proposals st
    \<or> rq_operationId request \<in> {''proposal.evaluate'', ''proposal.submit''} \<and> writes_proposal request st st'"
  using assms
  by (auto simp: transition_def Let_def res_simps prepareTransition_def other_operations_keep_proposals
      evaluate_writes submit_writes split: if_splits)

text \<open>A call that was admitted only stores Proposals with decimal amounts.\<close>

lemma amounts_ok_call:
  assumes "admit E P cfg now request = Inr (b, scope)" and "numeric_schemas E"
    and "transition E request b at st = Inr (resp, st')" and "amounts_ok st"
  shows "amounts_ok st'"
  using transition_proposals [OF assms(3)]
proof
  assume "st_proposals st' = st_proposals st"
  with assms(4) show ?thesis by (simp add: amounts_ok_def)
next
  assume w: "rq_operationId request \<in> {''proposal.evaluate'', ''proposal.submit''}
    \<and> writes_proposal request st st'"
  then obtain r0 s r where *: "rq_data request = RD_proposal r0 s"
      "pr_normalizedTerms r = pr_normalizedTerms r0"
      "st_proposals st' = js_set (pr_id r) r (st_proposals st)"
    by (auto simp: writes_proposal_def)
  have "proposal_numeric r0"
    using admitted_proposal [OF assms(1) *(1)] w assms(2) by (auto simp: numeric_schemas_def)
  then have "proposal_numeric r" by (simp add: proposal_numeric_def *(2))
  with assms(4) *(3) show ?thesis by (auto simp: amounts_ok_def)
qed

lemma amounts_ok_ingest: "ingest_effect E st st' \<Longrightarrow> amounts_ok st \<Longrightarrow> amounts_ok st'"
  by (auto simp: amounts_ok_def elim!: ingest_effect.cases)


section \<open>The service\<close>

lemma transition_step: "transition E request b at st = Inr (resp, st') \<Longrightarrow> runtime_step E st st'"
  unfolding runtime_step_def using transition_effect by blast

text \<open>
  One store for both kinds of transaction, and the states its transactions produce can be stored.
\<close>

locale runtime_service =
  calls: runtime_store transact state_of consumed same_scope invar storable +
  paths: runtime_store transactPath state_of consumed same_scope invar storable
  for transact :: "('n, operation_response) tx_op \<Rightarrow> 's \<Rightarrow> (rt_error + operation_response) \<times> 's"
    and transactPath :: "('n, path) tx_op \<Rightarrow> 's \<Rightarrow> (rt_error + path) \<times> 's"
    and state_of :: "'s \<Rightarrow> runtime_state"
    and consumed :: "'s \<Rightarrow> replay_scope \<Rightarrow> bool"
    and same_scope :: "replay_scope \<Rightarrow> replay_scope \<Rightarrow> bool"
    and invar :: "'s \<Rightarrow> bool"
    and storable :: "runtime_state \<Rightarrow> bool" +
  fixes E :: deps
  assumes storable_call:
      "invar s \<Longrightarrow> admit E P cfg now request = Inr (b, scope) \<Longrightarrow> 0 \<le> at \<Longrightarrow>
       transition E request b at (state_of s) = Inr (resp, st') \<Longrightarrow> storable st'"
    and storable_ingest:
      "invar s \<Longrightarrow> ingest_op E path v (state_of s) = Inr (accepted, st') \<Longrightarrow> storable st'"
begin

text \<open>A transaction of an admitted call: all or nothing, and its scope is used up by success only.\<close>

lemma admitted_transaction:
  assumes "invar s" and "admit E P cfg now request = Inr (b, scope)" and "0 \<le> at"
    and "transact (scoped_op scope (transition E request b at)) s = (out, s')"
  shows "invar s' \<and>
    (case out of
       Inl e \<Rightarrow> s' = s
     | Inr resp \<Rightarrow> \<not> consumed s scope \<and>
         transition E request b at (state_of s) = Inr (resp, state_of s') \<and>
         (\<forall>x. consumed s' x \<longleftrightarrow> same_scope x scope \<or> consumed s x))"
proof (cases out)
  case (Inl e)
  with calls.scoped_failure [OF assms(1), of scope "transition E request b at" e s'] assms(4)
    storable_call [OF assms(1-3)] assms(1)
  show ?thesis by simp
next
  case (Inr resp)
  with calls.scoped_success [OF assms(1), of scope "transition E request b at" resp s'] assms(4)
    storable_call [OF assms(1-3)]
  show ?thesis by simp
qed

lemma execute_outcome:
  assumes "invar s" and "0 \<le> at" and "execute transact E P cfg now at request s = (out, s')"
  shows "invar s' \<and>
    (case out of
       Inl e \<Rightarrow> s' = s
     | Inr resp \<Rightarrow> \<exists>b scope. admit E P cfg now request = Inr (b, scope) \<and> \<not> consumed s scope \<and>
         transition E request b at (state_of s) = Inr (resp, state_of s') \<and>
         (\<forall>x. consumed s' x \<longleftrightarrow> same_scope x scope \<or> consumed s x))"
proof (cases "admit E P cfg now request")
  case (Inl e)
  with assms show ?thesis by (auto simp: execute_def)
next
  case (Inr a)
  obtain b scope where a: "a = (b, scope)" by (cases a)
  with Inr assms(3) have "transact (scoped_op scope (transition E request b at)) s = (out, s')"
    by (simp add: execute_def)
  with admitted_transaction [OF assms(1) Inr [unfolded a] assms(2) this] Inr a show ?thesis
    by (auto split: sum.splits)
qed

text \<open>The same request again is refused, at any later time.\<close>

lemma execute_replay:
  assumes "invar s" and "0 \<le> at" and "execute transact E P cfg now at request s = (Inr resp, s')"
    and "admit E P cfg now' request = Inr (b, scope)" and "admit E P cfg now request = Inr (b, scope)"
  shows "execute transact E P cfg now' at' request s' = (Inl nonce_conflict, s')"
proof -
  have "transact (scoped_op scope (transition E request b at)) s = (Inr resp, s')"
    using assms(3,5) by (simp add: execute_def)
  from calls.replay_refused [OF assms(1) this storable_call [OF assms(1,5,2)]]
  show ?thesis using assms(4) by (simp add: execute_def)
qed

lemma execute_step:
  assumes "invar s" and "0 \<le> at" and "execute transact E P cfg now at request s = (out, s')"
  shows "state_of s' = state_of s \<or> runtime_step E (state_of s) (state_of s')"
  using execute_outcome [OF assms] transition_effect
  by (auto simp: runtime_step_def split: sum.splits) blast

lemma ingest_outcome:
  assumes "invar s" and "ingestPath transactPath E attestor path s = (out, s')"
  shows "invar s' \<and>
    (case out of
       Inl e \<Rightarrow> s' = s
     | Inr accepted \<Rightarrow> \<exists>v. ingest_op E path v (state_of s) = Inr (accepted, state_of s') \<and>
         (\<forall>x. consumed s' x \<longleftrightarrow> consumed s x))"
proof -
  consider e where "out = Inl e" "s' = s"
    | v where "transactPath (plain_op (ingest_op E path v)) s = (out, s')"
    using assms(2) by (auto simp: ingestPath_def split: sum.splits option.splits if_splits)
  then show ?thesis
  proof cases
    case 1
    with assms(1) show ?thesis by simp
  next
    case (2 v)
    show ?thesis
    proof (cases "ingest_op E path v (state_of s)")
      case (Inl e)
      with 2 paths.plain_error [OF assms(1), of "ingest_op E path v" e] assms(1) show ?thesis by auto
    next
      case (Inr a)
      obtain accepted st' where a: "a = (accepted, st')" by (cases a)
      with Inr 2 paths.plain_done [OF assms(1), of "ingest_op E path v" accepted st']
        storable_ingest [OF assms(1)]
      show ?thesis by fastforce
    qed
  qed
qed

lemma ingest_step:
  assumes "invar s" and "ingestPath transactPath E attestor path s = (out, s')"
  shows "state_of s' = state_of s \<or> runtime_step E (state_of s) (state_of s')"
  using ingest_outcome [OF assms] ingest_op_effect
  by (auto simp: runtime_step_def split: sum.splits)

text \<open>Executing and ingesting run the step relation, so they keep the invariant.\<close>

lemma execute_run:
  assumes "invar s" and "0 \<le> at" and "execute transact E P cfg now at request s = (out, s')"
  shows "runtime_run E (state_of s) (state_of s')"
  using execute_step [OF assms] run_step by auto

lemma ingest_run:
  assumes "invar s" and "ingestPath transactPath E attestor path s = (out, s')"
  shows "runtime_run E (state_of s) (state_of s')"
  using ingest_step [OF assms] run_step by auto

text \<open>
  A system whose queue holds admitted calls.  Every step keeps it so, moves the state along the
  step relation, and never forgets a consumed scope.
\<close>

definition sys_ok :: "arc_provider \<Rightarrow> runtime_config \<Rightarrow> 's runtime_system \<Rightarrow> bool" where
  "sys_ok P cfg y \<longleftrightarrow>
     invar (sys_store y) \<and> 0 \<le> sys_clock y \<and>
     (\<forall>(request, b, scope) \<in> set (sys_queue y). \<exists>t. admit E P cfg t request = Inr (b, scope))"

definition sys_follows :: "'s runtime_system \<Rightarrow> 's runtime_system \<Rightarrow> bool" where
  "sys_follows y y' \<longleftrightarrow>
     runtime_run E (state_of (sys_store y)) (state_of (sys_store y')) \<and>
     (\<forall>x. consumed (sys_store y) x \<longrightarrow> consumed (sys_store y') x)"

lemma sys_follows_refl: "sys_store y' = sys_store y \<Longrightarrow> sys_follows y y'"
  by (simp add: sys_follows_def)

lemma sys_follows_trans: "sys_follows x y \<Longrightarrow> sys_follows y z \<Longrightarrow> sys_follows x z"
  unfolding sys_follows_def using run_trans by blast

lemma run_step_ok:
  assumes "sys_ok P cfg y" and "sys_queue y = (request, b, scope) # rest"
    and "transact (scoped_op scope (transition E request b (sys_clock y))) (sys_store y) = (out, s')"
  shows "sys_ok P cfg (y\<lparr>sys_queue := rest, sys_store := s'\<rparr>) \<and>
    sys_follows y (y\<lparr>sys_queue := rest, sys_store := s'\<rparr>)"
proof -
  from assms(1,2) obtain t where t: "admit E P cfg t request = Inr (b, scope)"
    and y: "invar (sys_store y)" "0 \<le> sys_clock y"
    by (auto simp: sys_ok_def)
  note out = admitted_transaction [OF y(1) t y(2) assms(3)]
  have "sys_follows y (y\<lparr>sys_queue := rest, sys_store := s'\<rparr>)"
  proof (cases out)
    case (Inl e)
    with out show ?thesis by (simp add: sys_follows_refl)
  next
    case (Inr resp)
    then have "runtime_step E (state_of (sys_store y)) (state_of s')"
      using out by (auto intro: transition_step)
    with Inr out run_step show ?thesis by (simp add: sys_follows_def)
  qed
  moreover have "sys_ok P cfg (y\<lparr>sys_queue := rest, sys_store := s'\<rparr>)"
    using out assms(1,2) by (simp add: sys_ok_def)
  ultimately show ?thesis by simp
qed

lemma rt_step_ok:
  assumes "rt_step transact transactPath E P cfg attestor y y'" and "sys_ok P cfg y"
  shows "sys_ok P cfg y' \<and> sys_follows y y'"
  using assms(1)
proof cases
  case (tick t)
  then show ?thesis using assms(2) by (auto simp: sys_ok_def intro: sys_follows_refl)
next
  case (arrive t request b scope)
  then show ?thesis using assms(2) by (auto simp: sys_ok_def intro: sys_follows_refl)
next
  case (run request b scope rest out s')
  then show ?thesis using run_step_ok [OF assms(2)] by simp
next
  case (ingest path out s')
  have y: "invar (sys_store y)" using assms(2) by (simp add: sys_ok_def)
  note out = ingest_outcome [OF y ingest(2)]
  have "\<forall>x. consumed (sys_store y) x \<longrightarrow> consumed s' x"
    using out by (auto split: sum.splits)
  moreover have "runtime_run E (state_of (sys_store y)) (state_of s')"
    by (rule ingest_run [OF y ingest(2)])
  moreover have "invar s'" using out by simp
  ultimately show ?thesis
    using assms(2) by (simp add: ingest(1) sys_ok_def sys_follows_def)
qed

lemma rt_run_ok:
  assumes "(rt_step transact transactPath E P cfg attestor)\<^sup>*\<^sup>* y y'" and "sys_ok P cfg y"
  shows "sys_ok P cfg y' \<and> sys_follows y y'"
  using assms
proof (induction rule: rtranclp_induct)
  case base
  then show ?case by (simp add: sys_follows_refl)
next
  case (step y1 y2)
  then show ?case using rt_step_ok sys_follows_trans by blast
qed

lemma rt_run_invariant:
  assumes "(rt_step transact transactPath E P cfg attestor)\<^sup>*\<^sup>* y y'" and "sys_ok P cfg y"
    and "runtime_ok E (state_of (sys_store y))"
  shows "runtime_ok E (state_of (sys_store y'))"
  using rt_run_ok [OF assms(1,2)] run_ok assms(3) by (auto simp: sys_follows_def)

text \<open>Once a scope is consumed, no later transaction with it changes anything.\<close>

lemma consumed_forever:
  assumes "(rt_step transact transactPath E P cfg attestor)\<^sup>*\<^sup>* y y'" and "sys_ok P cfg y"
    and "consumed (sys_store y) scope"
  shows "transact (scoped_op scope f) (sys_store y') = (Inl nonce_conflict, sys_store y')"
  using rt_run_ok [OF assms(1,2)] assms(3) calls.scoped_used
  by (auto simp: sys_follows_def sys_ok_def)

end

text \<open>The in-memory store.\<close>

interpretation memory_service: runtime_service memory_transact memory_transact ms_state
  "\<lambda>s scope. replayScopeKey scope \<in> set (ms_replayNonces s)"
  "\<lambda>a b. replayScopeKey a = replayScopeKey b" "\<lambda>_. True" "\<lambda>_. True" E for E
  by unfold_locales simp_all

text \<open>The Postgres store with an answering connection.\<close>

definition pg_storable :: "deps \<Rightarrow> runtime_state \<Rightarrow> bool" where
  "pg_storable E st \<longleftrightarrow> storable_state E st \<and> amounts_ok st"

definition pg_invar :: "deps \<Rightarrow> pg_tables \<Rightarrow> bool" where
  "pg_invar E db \<longleftrightarrow> numeric_schemas E \<and> pg_ok E db \<and> pg_storable E (pg_state_of E db)"

lemma pg_storable_call:
  assumes "pg_invar E db" and "admit E P cfg now request = Inr (b, scope)" and "0 \<le> at"
    and "transition E request b at (pg_state_of E db) = Inr (resp, st')"
  shows "pg_storable E st'"
proof -
  have "amounts_ok st'"
    using amounts_ok_call [OF assms(2) _ assms(4)] assms(1) by (simp add: pg_invar_def pg_storable_def)
  with storable_effect [OF transition_effect [OF assms(4)] _ _ assms(3)] assms(1)
  show ?thesis by (simp add: pg_invar_def pg_storable_def)
qed

lemma pg_storable_ingest:
  assumes "pg_invar E db" and "ingest_op E path v (pg_state_of E db) = Inr (accepted, st')"
  shows "pg_storable E st'"
  using ingest_op_effect [OF assms(2)] storable_ingest amounts_ok_ingest assms(1)
  by (auto simp: pg_invar_def pg_storable_def)

lemma pg_service_store:
  "runtime_store (pg_transact E answering) (pg_state_of E)
     (\<lambda>db scope. replayValues scope \<in> set (pg_nonces db))
     (\<lambda>a b. replayValues a = replayValues b) (pg_invar E) (pg_storable E)"
  (is "runtime_store (_ :: (string list list, 'r) tx_op \<Rightarrow> _) _ _ _ _ _")
proof unfold_locales
  fix s scope st' and f :: "runtime_state \<Rightarrow> rt_error + ('r \<times> runtime_state)" and r :: 'r
  assume *: "pg_invar E s" "replayValues scope \<notin> set (pg_nonces s)"
    "f (pg_state_of E s) = Inr (r, st')" "pg_storable E st'"
  then have "pg_ok E s" "storable_state E st'" by (simp_all add: pg_invar_def pg_storable_def)
  from postgres.scoped_done [of E s scope f r st', OF this(1) *(2,3) this(2)] *(1,4)
  show "\<exists>s'. pg_transact E answering (scoped_op scope f) s = (Inr r, s') \<and> pg_invar E s' \<and>
      pg_state_of E s' = st' \<and>
      (\<forall>x. (replayValues x \<in> set (pg_nonces s')) =
        (replayValues x = replayValues scope \<or> replayValues x \<in> set (pg_nonces s)))"
    by (auto simp: pg_invar_def)
next
  fix s st' and f :: "runtime_state \<Rightarrow> rt_error + ('r \<times> runtime_state)" and r :: 'r
  assume *: "pg_invar E s" "f (pg_state_of E s) = Inr (r, st')" "pg_storable E st'"
  then have "pg_ok E s" "storable_state E st'" by (simp_all add: pg_invar_def pg_storable_def)
  from postgres.plain_done [of E s f r st', OF this(1) *(2) this(2)] *(1,3)
  show "\<exists>s'. pg_transact E answering (plain_op f) s = (Inr r, s') \<and> pg_invar E s' \<and>
      pg_state_of E s' = st' \<and>
      (\<forall>x. (replayValues x \<in> set (pg_nonces s')) = (replayValues x \<in> set (pg_nonces s)))"
    by (auto simp: pg_invar_def)
qed (simp_all add: pg_invar_def postgres.scoped_used postgres.scoped_error postgres.plain_error)

interpretation postgres_service: runtime_service "pg_transact E answering" "pg_transact E answering"
  "pg_state_of E" "\<lambda>db scope. replayValues scope \<in> set (pg_nonces db)"
  "\<lambda>a b. replayValues a = replayValues b" "pg_invar E" "pg_storable E" E for E
  by (intro runtime_service.intro runtime_service_axioms.intro pg_service_store)
    (fact pg_storable_call pg_storable_ingest)+

end
