(* ===== verification/Runtime_Demo.thy ===== *)
theory Runtime_Demo
  imports Runtime_Service
begin

text \<open>
  A concrete world for the theorems about the Runtime: simple executable functions in place of the
  external code, and one Workspace with its owner, a delegate, a Path, an Intent, a Proposal, a
  Pact and a Proof, driven through every operation.  The functions keep the documented behaviour
  the development relies on (texts that render different values are different on the values used,
  validators reject malformed numbers); they are no replacement of the packages.
\<close>


section \<open>External functions\<close>

fun render :: "json \<Rightarrow> string" where
  "render JNull = ''null''"
| "render (JBool b) = (if b then ''true'' else ''false'')"
| "render (JNum n) = show_int n"
| "render (JStr s) = CHR 34 # s @ [CHR 34]"
| "render (JArr vs) = ''['' @ concat (map (\<lambda>v. render v @ '','') vs) @ '']''"
| "render (JObj fs) = ''{'' @ concat (map (\<lambda>kv. fst kv @ '':'' @ render (snd kv) @ '','') fs) @ ''}''"

definition checksum :: "string \<Rightarrow> string" where
  "checksum s = ''0x'' @ show_nat (length s)"

definition rejected_number :: ajv_error where
  "rejected_number =
     \<lparr>aj_keyword = ''pattern'', aj_instancePath = [], aj_message = None, aj_params = JNull\<rparr>"

definition string_member :: "(string \<Rightarrow> bool) \<Rightarrow> json option \<Rightarrow> string \<Rightarrow> bool" where
  "string_member ok v k = (case jget v k of Some (JStr s) \<Rightarrow> ok s | _ \<Rightarrow> False)"

definition demo_path_ok :: "json option \<Rightarrow> bool" where
  "demo_path_ok v =
     (case jget v ''limits'' of
        Some (JArr ls) \<Rightarrow> length ls \<le> 4294967295 \<and>
          list_all (\<lambda>l. string_member is_pos_dec_string (Some l) ''periodSeconds'') ls
      | _ \<Rightarrow> False)"

definition demo_proposal_ok :: "json option \<Rightarrow> bool" where
  "demo_proposal_ok v =
     string_member is_dec_string (jget (jget v ''proposal'') ''normalizedTerms'') ''amount''"

definition demo_validate :: "string \<Rightarrow> json option \<Rightarrow> ajv_error list option" where
  "demo_validate ref v =
     (if ref = schema_id ''path''
      then Some (if demo_path_ok v then [] else [rejected_number])
      else if ref = payload_schema ''ProposalRequest'' \<or> ref = payload_schema ''ProposalSubmitRequest''
      then Some (if demo_proposal_ok v then [] else [rejected_number])
      else Some [])"

definition demo_deps :: deps where
  "demo_deps =
     \<lparr>ext_getAddress = (\<lambda>s. if take 2 s = ''0x'' then Some (toLowerCase s) else None),
      ext_canonicalize = (\<lambda>v. Some (render v)), ext_keccakUtf8 = checksum,
      ext_validate = demo_validate, ext_errorsText = (\<lambda>es. concat (map aj_keyword es)),
      ext_verifyTypedData = (\<lambda>d m signature. Some signature),
      ext_hashTypedData = (\<lambda>d m. Some (checksum (concat (map snd m)))),
      ext_encodeIsValidSignature = (\<lambda>digest signature. Some digest),
      ext_decodeIsValidSignature = (\<lambda>v. Some v)\<rparr>"

lemma demo_numeric: "numeric_schemas demo_deps"
proof -
  have "limits_numeric p" if "demo_path_ok (Some (json_of_path p))" for p
    using that
    by (simp add: demo_path_ok_def limits_numeric_def json_of_path_def string_member_def
        list_all_iff json_of_path_limit_def)
  moreover have "proposal_numeric r" if "demo_proposal_ok (Some (json_of_request_data (RD_proposal r s)))" for r s
    using that
    by (simp add: demo_proposal_ok_def proposal_numeric_def json_of_proposal_def string_member_def
        json_of_payment_terms_def)
  moreover have "payload_schema n \<noteq> schema_id ''path''"
    if "n \<in> {''ProposalRequest'', ''ProposalSubmitRequest''}" for n
    using that by (auto simp: payload_schema_def schema_id_def)
  ultimately show ?thesis
    by (auto simp: numeric_schemas_def schema_accepts_def demo_deps_def demo_validate_def
        split: if_splits)
qed

text \<open>An Arc provider for plain accounts.\<close>

definition demo_provider :: arc_provider where
  "demo_provider = \<lparr>prov_getCode = (\<lambda>a. Inr (JStr ''0x'')), prov_call = (\<lambda>a d. Inr (JStr ''0x''))\<rparr>"

definition demo_config :: runtime_config where
  "demo_config = \<lparr>cfg_maxSignatureLifetimeSeconds = 900, cfg_clockSkewSeconds = 30\<rparr>"

text \<open>2025-07-01T12:00:00Z.\<close>

definition demo_now :: int where
  "demo_now = 1751371200000"


section \<open>Objects\<close>

definition owner :: string where "owner = ''0xa1''"
definition delegate :: string where "delegate = ''0xb2''"

definition demo_provenance :: provenance where
  "demo_provenance =
     \<lparr>pv_authority = ''demo'', pv_commit = None, pv_evidenceLevel = EL_runtime_observed,
      pv_evidenceRefs = None, pv_notes = None, pv_observedAt = ''2025-07-01T11:00:00Z'',
      pv_repository = None, pv_source = PSrc_wallet_signed\<rparr>"

definition demo_workspace :: workspace where
  "demo_workspace =
     \<lparr>ws_createdAt = ''2025-07-01T11:00:00Z'', ws_description = None, ws_extensions = None,
      ws_id = ''w1'', ws_interfaceVersion = IV_1_2_0, ws_name = ''demo'',
      ws_ownerActorRef = mk_ref OT_Actor ''a1'', ws_provenance = demo_provenance,
      ws_status = WS_ACTIVE, ws_updatedAt = ''2025-07-01T11:00:00Z''\<rparr>"

definition demo_actor :: "string \<Rightarrow> string \<Rightarrow> actor" where
  "demo_actor i wallet =
     \<lparr>ac_authorityStatus = AS_VERIFIED, ac_createdAt = ''2025-07-01T11:00:00Z'',
      ac_displayName = i, ac_extensions = None, ac_externalSubject = None, ac_id = i,
      ac_interfaceVersion = IV_1_2_0, ac_kind = AK_agent, ac_provenance = demo_provenance,
      ac_walletAddress = Some wallet\<rparr>"

definition demo_asset :: asset where
  "demo_asset = \<lparr>as_address = ''0xc3'', as_decimals = 6, as_kind = AssetKind_erc20,
     as_symbol = ''USDC''\<rparr>"

definition demo_limit :: path_limit where
  "demo_limit =
     \<lparr>li_asset = demo_asset, li_maxAmount = ''100'', li_maxAmountPerTransaction = Some ''60'',
      li_maxLifespanSeconds = None, li_maxTransactionsPerPeriod = ''2'',
      li_maxVelocityPerSecond = None, li_periodSeconds = ''3600''\<rparr>"

definition demo_binding :: signature_binding where
  "demo_binding =
     \<lparr>sb_chainId = ''5042002'',
      sb_domain = \<lparr>sd_chainId = ''5042002'', sd_name = ''OpenRails Network'', sd_salt = None,
        sd_verifyingContract = arc_anchorContract, sd_version = ''2.0.0''\<rparr>,
      sb_expiresAt = ''2026-01-01T00:00:00Z'', sb_issuedAt = ''2025-01-01T00:00:00Z'',
      sb_nonce = ''1'', sb_signature = ''0x'', sb_signer = owner,
      sb_verifyingContract = arc_anchorContract\<rparr>"

definition demo_path :: path where
  "demo_path =
     \<lparr>pa_capabilities = [''PAY_RAILSFLOW''], pa_delegateActorRef = mk_ref OT_Actor ''a2'',
      pa_executionProfile = EP_delegated_runtime, pa_extensions = None, pa_id = ''p1'',
      pa_interfaceVersion = IV_1_2_0, pa_issuerActorRef = mk_ref OT_Actor ''a1'',
      pa_limits = [demo_limit], pa_provenance = demo_provenance, pa_resourceRefs = None,
      pa_signatureBinding = demo_binding, pa_status = PS_PREPARED,
      pa_workspaceRef = mk_ref OT_Workspace ''w1''\<rparr>"

definition demo_terms :: payment_terms where
  "demo_terms =
     \<lparr>pt_allowanceAmount = None, pt_amount = ''40'', pt_asset = demo_asset,
      pt_lifespanSeconds = None, pt_recipient = None, pt_settlementShape = SS_one_time,
      pt_velocityPerSecond = None\<rparr>"

definition demo_subject :: subject where
  "demo_subject = \<lparr>su_actorRef = None, su_role = None, su_walletAddress = None\<rparr>"

definition demo_intent :: intent where
  "demo_intent =
     \<lparr>in_action = IA_PAY_RAILSFLOW, in_createdAt = ''2025-07-01T11:00:00Z'',
      in_executionProfile = EP_delegated_runtime, in_expiresAt = ''2025-07-02T00:00:00Z'',
      in_extensions = None, in_id = ''i1'', in_interfaceVersion = IV_1_2_0, in_nonce = ''1'',
      in_pactRef = Some (mk_ref OT_Pact ''c1''), in_pathRef = Some (mk_ref OT_Path ''p1''),
      in_paymentTerms = demo_terms, in_provenance = demo_provenance, in_requestedNetwork = None,
      in_status = LS_DRAFT, in_subject = demo_subject,
      in_workspaceRef = Some (mk_ref OT_Workspace ''w1'')\<rparr>"

definition demo_proposal :: proposal where
  "demo_proposal =
     \<lparr>pr_createdAt = ''2025-07-01T11:00:00Z'', pr_executionProfile = EP_delegated_runtime,
      pr_extensions = None, pr_id = ''r1'', pr_inputHash = ''0x01'',
      pr_intentRef = mk_ref OT_Intent ''i1'', pr_interfaceVersion = IV_1_2_0,
      pr_normalizedTerms = demo_terms, pr_pathRef = mk_ref OT_Path ''p1'', pr_policyVersion = None,
      pr_provenance = demo_provenance, pr_status = PRS_EVALUATING,
      pr_workspaceRef = mk_ref OT_Workspace ''w1''\<rparr>"

definition demo_pact :: pact where
  "demo_pact =
     \<lparr>pc_activatedAt = None, pc_canonicalRecordPolicy = None, pc_canonicalRecordRef = None,
      pc_createdAt = ''2025-07-01T11:00:00Z'',
      pc_decisionRef = Some (mk_ref OT_BaphometDecision ''decision:r1''),
      pc_executionProfile = EP_delegated_runtime, pc_extensions = None, pc_id = ''c1'',
      pc_interfaceVersion = IV_1_2_0, pc_parties = [mk_ref OT_Actor ''a1'', mk_ref OT_Actor ''a2''],
      pc_pathRef = Some (mk_ref OT_Path ''p1''), pc_paymentTerms = demo_terms,
      pc_proofPolicy = \<lparr>pp_beforeTransition = BT_NONE, pp_executionProfile = EP_delegated_runtime,
        pp_extensions = None, pp_id = ''pp1'', pp_interfaceVersion = IV_1_2_0, pp_placement = ''none'',
        pp_policyVersion = ''1'', pp_required = True, pp_requiredGate = PG_NONE, pp_termsHash = ''0x02''\<rparr>,
      pc_proposalRef = Some (mk_ref OT_Proposal ''r1''), pc_provenance = demo_provenance,
      pc_signatureBinding = demo_binding, pc_status = PTS_DRAFT,
      pc_workspaceRef = Some (mk_ref OT_Workspace ''w1'')\<rparr>"

definition demo_proof :: proof_object where
  "demo_proof =
     \<lparr>pf_beforeTransition = BT_NONE, pf_evidenceHash = ''0x03'',
      pf_executionProfile = EP_delegated_runtime, pf_extensions = None, pf_gate = PG_NONE,
      pf_id = ''f1'', pf_intentRef = Some (mk_ref OT_Intent ''i1''), pf_interfaceVersion = IV_1_2_0,
      pf_pactRef = Some (mk_ref OT_Pact ''c1''), pf_pathRef = Some (mk_ref OT_Path ''p1''),
      pf_placement = ''none'', pf_policyRef = mk_ref OT_ProofPolicy ''pp1'',
      pf_proposalRef = Some (mk_ref OT_Proposal ''r1''), pf_provenance = demo_provenance,
      pf_status = PFS_SUBMITTED, pf_subjectRef = mk_ref OT_Actor ''a2'',
      pf_submittedAt = ''2025-07-01T11:30:00Z'', pf_verifiedAt = None, pf_verifierActorRef = None,
      pf_workspaceRef = Some (mk_ref OT_Workspace ''w1'')\<rparr>"


section \<open>Signed requests\<close>

fun with_signature :: "request_data \<Rightarrow> sig_value \<Rightarrow> request_data" where
  "with_signature (RD_workspace w s) b = RD_workspace w b"
| "with_signature (RD_actor r a s) b = RD_actor r a b"
| "with_signature (RD_path p s) b = RD_path p b"
| "with_signature (RD_objectRef r s) b = RD_objectRef r b"
| "with_signature (RD_intent i s) b = RD_intent i b"
| "with_signature (RD_proposal r s) b = RD_proposal r b"
| "with_signature (RD_pact r p c s) b = RD_pact r p c b"
| "with_signature (RD_proof f s) b = RD_proof f b"
| "with_signature (RD_other j) b = RD_other j"

definition demo_signature :: "string \<Rightarrow> string \<Rightarrow> string \<Rightarrow> request_data \<Rightarrow> runtime_signature_binding" where
  "demo_signature operationId nonce signer d =
     \<lparr>rb_anchorContract = arc_anchorContract, rb_chainId = ''5042002'', rb_domain = arc_signatureDomain,
      rb_expiresAt = ''2025-07-01T12:10:00Z'', rb_issuedAt = ''2025-07-01T11:59:00Z'',
      rb_nonce = nonce, rb_operationId = operationId,
      rb_payloadHash = (case hashRuntimePayload demo_deps (Some (json_of_request_data d)) of
         Inr h \<Rightarrow> h | Inl e \<Rightarrow> []),
      rb_primaryType = RUNTIME_TRANSITION_PRIMARY_TYPE, rb_signature = signer,
      rb_signaturePurpose = arc_signaturePurpose, rb_signatureStandard = ''eip-712'',
      rb_signer = signer\<rparr>"

definition demo_request :: "string \<Rightarrow> string \<Rightarrow> string \<Rightarrow> request_data \<Rightarrow> operation_request" where
  "demo_request operationId nonce signer d =
     \<lparr>rq_authorizationClass = (case resolveOperation operationId of
        Inr op \<Rightarrow> op_authorizationClass op | Inl e \<Rightarrow> []),
      rq_canonicalRecordRef = None, rq_capability = operationId,
      rq_createdAt = ''2025-07-01T11:59:00Z'',
      rq_data = with_signature d (Sig (demo_signature operationId nonce signer d)),
      rq_decisionRef = Some (mk_ref OT_BaphometDecision ''decision:r1''),
      rq_executionProfile = EP_delegated_runtime, rq_intentRef = Some (mk_ref OT_Intent ''i1''),
      rq_interfaceVersion = IV_1_2_0, rq_network = arc_network, rq_operationId = operationId,
      rq_pactRef = Some (mk_ref OT_Pact ''c1''), rq_pathRef = Some (mk_ref OT_Path ''p1''),
      rq_proofRefs = Some [mk_ref OT_Proof ''f1''], rq_proposalRef = Some (mk_ref OT_Proposal ''r1''),
      rq_provenance = demo_provenance, rq_subject = demo_subject,
      rq_workspaceRef = Some (mk_ref OT_Workspace ''w1'')\<rparr>"

definition demo_execute ::
    "string \<Rightarrow> string \<Rightarrow> string \<Rightarrow> request_data \<Rightarrow> memory_store \<Rightarrow>
     (rt_error + operation_response) \<times> memory_store" where
  "demo_execute operationId nonce signer d =
     execute memory_transact demo_deps demo_provider demo_config demo_now demo_now
       (demo_request operationId nonce signer d)"

definition succeeds_with ::
    "(rt_error + operation_response) \<times> memory_store \<Rightarrow> memory_store \<Rightarrow> bool" where
  "succeeds_with r s \<longleftrightarrow> \<not> throws (fst r) \<and> snd r = s"

definition demo_nonce :: "string \<Rightarrow> string \<Rightarrow> string" where
  "demo_nonce nonce signer = replayScopeKey
     \<lparr>rp_domainSalt = rd_salt arc_signatureDomain, rp_chainId = ''5042002'',
      rp_anchorContract = arc_anchorContract, rp_signer = signer, rp_nonce = nonce\<rparr>"

definition demo_store0 :: memory_store where
  "demo_store0 = \<lparr>ms_state = emptyRuntimeState, ms_replayNonces = []\<rparr>"

definition demo_state1 :: runtime_state where
  "demo_state1 = emptyRuntimeState
     \<lparr>st_workspaces := [(''w1'', demo_workspace)], st_workspaceAuthorities := [(''w1'', owner)]\<rparr>"


text \<open>What the external functions compute, one equation each.\<close>

lemma demo_ext [simp]:
  "ext_getAddress demo_deps s = (if take 2 s = ''0x'' then Some (toLowerCase s) else None)"
  "ext_canonicalize demo_deps v = Some (render v)"
  "ext_keccakUtf8 demo_deps t = checksum t"
  "ext_validate demo_deps ref w = demo_validate ref w"
  "ext_verifyTypedData demo_deps d m g = Some g"
  by (simp_all add: demo_deps_def)

lemma demo_sameValue [simp]: "sameValue demo_deps v w \<longleftrightarrow> render v = render w"
  by (simp add: sameValue_def)

lemma demo_validate_other:
  assumes "ref \<notin> {schema_id ''path'', payload_schema ''ProposalRequest'', payload_schema ''ProposalSubmitRequest''}"
  shows "demo_validate ref v = Some []"
  using assms by (simp add: demo_validate_def)

lemma lower_owner [simp]: "toLowerCase owner = owner" "take 2 owner = ''0x''"
  by code_simp+

lemma lower_delegate [simp]: "toLowerCase delegate = delegate" "take 2 delegate = ''0x''"
  by code_simp+

lemma anchor_address [simp]: "take 2 arc_anchorContract = ''0x''"
  by code_simp

lemma owner_delegate [simp]: "owner \<noteq> delegate" "delegate \<noteq> owner" "owner \<noteq> []" "delegate \<noteq> []"
  by (simp_all add: owner_def delegate_def)


section \<open>The demo requests are admitted\<close>

definition signable :: "request_data \<Rightarrow> bool" where
  "signable d \<longleftrightarrow> (case d of RD_other j \<Rightarrow> False | _ \<Rightarrow> True)"

lemma signed_shape_demo: "signable d \<Longrightarrow> signed_shape (with_signature d (Sig b)) b"
  by (cases d) (simp_all add: signable_def signed_shape_def request_sig_def)

lemma hash_with_signature:
  "signable d \<Longrightarrow> hashRuntimePayload E (Some (json_of_request_data (with_signature d s)))
     = hashRuntimePayload E (Some (json_of_request_data d))"
  using hash_ignores_signature [of E "[x, y, z]" for x y z]
    hash_ignores_signature [of E "[x, y]" for x y] hash_ignores_signature [of E "[x]" for x]
  by (cases d) (simp_all add: signable_def)

lemma hash_demo:
  "signable d \<Longrightarrow> hashRuntimePayload demo_deps (Some (json_of_request_data d))
     = Inr (rb_payloadHash (demo_signature operationId nonce signer d))"
  by (cases d) (simp_all add: signable_def demo_signature_def hashRuntimePayload_def
      canonicalizeRuntimePayload_def jobj_def)

lemma demo_members [simp]:
  "rq_operationId (demo_request operationId nonce signer d) = operationId"
  "rq_capability (demo_request operationId nonce signer d) = operationId"
  "rq_interfaceVersion (demo_request operationId nonce signer d) = IV_1_2_0"
  "rq_executionProfile (demo_request operationId nonce signer d) = EP_delegated_runtime"
  "rq_network (demo_request operationId nonce signer d) = arc_network"
  "rq_subject (demo_request operationId nonce signer d) = demo_subject"
  "rq_data (demo_request operationId nonce signer d)
     = with_signature d (Sig (demo_signature operationId nonce signer d))"
  "rq_workspaceRef (demo_request operationId nonce signer d) = Some (mk_ref OT_Workspace ''w1'')"
  "rq_pathRef (demo_request operationId nonce signer d) = Some (mk_ref OT_Path ''p1'')"
  "rq_intentRef (demo_request operationId nonce signer d) = Some (mk_ref OT_Intent ''i1'')"
  "rq_proposalRef (demo_request operationId nonce signer d) = Some (mk_ref OT_Proposal ''r1'')"
  "rq_decisionRef (demo_request operationId nonce signer d)
     = Some (mk_ref OT_BaphometDecision ''decision:r1'')"
  "rq_pactRef (demo_request operationId nonce signer d) = Some (mk_ref OT_Pact ''c1'')"
  "rq_canonicalRecordRef (demo_request operationId nonce signer d) = None"
  "rq_proofRefs (demo_request operationId nonce signer d) = Some [mk_ref OT_Proof ''f1'']"
  by (simp_all add: demo_request_def)

definition demo_options :: binding_options where
  "demo_options = \<lparr>bo_now = demo_now, bo_maxSignatureLifetimeSeconds = 900, bo_clockSkewSeconds = 30\<rparr>"

lemma demo_window: "assertSignatureWindow (demo_signature operationId nonce signer d) demo_options = Inr ()"
proof -
  have "Date_parse ''2025-07-01T11:59:00Z'' = Some 1751371140000"
    and "Date_parse ''2025-07-01T12:10:00Z'' = Some 1751371800000"
    by code_simp+
  then show ?thesis
    by (simp add: assertSignatureWindow_def demo_signature_def demo_options_def demo_now_def)
qed

lemma demo_binding_accepted:
  assumes "signable d" and "take 2 signer = ''0x''"
  shows "assertRuntimeBinding demo_deps operationId (demo_request operationId nonce signer d)
    (Sig (demo_signature operationId nonce signer d)) demo_options
      = Inr (demo_signature operationId nonce signer d)"
proof -
  define r where "r = demo_request operationId nonce signer d"
  define b where "b = demo_signature operationId nonce signer d"
  have r: "rq_network r = arc_network" "rq_interfaceVersion r = IV_1_2_0"
      "rq_subject r = demo_subject" "rq_data r = with_signature d (Sig b)"
    by (simp_all add: r_def b_def)
  have b: "rb_operationId b = operationId" "rb_signatureStandard b = ''eip-712''"
      "rb_primaryType b = RUNTIME_TRANSITION_PRIMARY_TYPE" "rb_signaturePurpose b = arc_signaturePurpose"
      "rb_domain b = arc_signatureDomain" "rb_chainId b = ''5042002''"
      "rb_anchorContract b = arc_anchorContract"
    by (simp_all add: b_def demo_signature_def)
  have h: "hashRuntimePayload demo_deps (Some (json_of_request_data (with_signature d (Sig b))))
      = Inr (rb_payloadHash b)"
    using hash_with_signature [OF assms(1)] hash_demo [OF assms(1)] by (simp add: b_def)
  have w: "assertSignatureWindow b demo_options = Inr ()"
    unfolding b_def by (rule demo_window)
  have "assertRuntimeBinding demo_deps operationId r (Sig b) demo_options = Inr b"
    by (simp add: assertRuntimeBinding_def r b h w assertNetwork_def matches_runtime_domain_def
        arc_signatureDomain_def arc_network_def sameAddress_iff demo_subject_def)
  then show ?thesis by (simp only: r_def b_def)
qed

lemma demo_verified:
  "take 2 signer = ''0x'' \<Longrightarrow>
     verifyBinding demo_deps demo_provider (demo_signature operationId nonce signer d) = Inr ()"
proof -
  assume s: "take 2 signer = ''0x''"
  then have "take 2 (toLowerCase signer) = ''0x''"
    by (auto simp: toLowerCase_def take_map lower_char_def char_code_def)
  moreover have "is_hex_bytes ''0x''" by code_simp
  ultimately have "verify demo_deps demo_provider (demo_signature operationId nonce signer d) = Inr ()"
    using s by (simp add: verify_eq_Inr demo_provider_def verifyEoa_eq_Inr demo_signature_def
        recoverRuntimeTransitionSigner_def getAddress_or_throw_def sameAddress_iff)
  then show ?thesis by (simp add: verifyBinding_def)
qed

definition demo_scope :: "string \<Rightarrow> string \<Rightarrow> replay_scope" where
  "demo_scope nonce signer =
     \<lparr>rp_domainSalt = rd_salt arc_signatureDomain, rp_chainId = ''5042002'',
      rp_anchorContract = toLowerCase arc_anchorContract, rp_signer = toLowerCase signer,
      rp_nonce = nonce\<rparr>"

lemma demo_admitted:
  assumes "signable d" and "take 2 signer = ''0x''"
    and "operationId \<in> set RUNTIME_OPERATION_IDS"
    and "resolveOperation operationId = Inr operation"
    and "op_operationId operation = operationId" "op_capability operation = operationId"
    and "op_introducedIn operation \<in> {None, Some ''1.2.0''}"
    and "''delegated-runtime'' \<in> set (op_allowedExecutionProfiles operation)"
    and "demo_validate (op_requestSchema operation)
      (Some (json_of_request (demo_request operationId nonce signer d))) = Some []"
    and "demo_validate (op_requestDataSchema operation) (Some (json_of_request_data
      (with_signature d (Sig (demo_signature operationId nonce signer d))))) = Some []"
    and "\<And>kv. kv \<in> set (signed_references operationId (Some (json_of_request_data
      (with_signature d (Sig (demo_signature operationId nonce signer d))))) Request_direction) \<Longrightarrow>
      reference_ok (Some (json_of_request (demo_request operationId nonce signer d))) kv"
  shows "admit demo_deps demo_provider demo_config demo_now (demo_request operationId nonce signer d)
    = Inr (demo_signature operationId nonce signer d, demo_scope nonce signer)"
proof (rule admitI)
  let ?r = "demo_request operationId nonce signer d"
  let ?b = "demo_signature operationId nonce signer d"
  have v: "\<not> js_less (compareInterfaceVersions ''1.2.0'' ''1.2.0'') (Some 0)" by code_simp
  have b: "rb_operationId ?b = operationId" "rb_chainId ?b = ''5042002''"
      "rb_domain ?b = arc_signatureDomain"
    by (simp_all add: demo_signature_def)
  have signed: "isSignedRuntimeTransitionOperation operationId"
    using assms(3) by (simp add: isSignedRuntimeTransitionOperation_def RUNTIME_OPERATION_IDS_def
        SIGNED_RUNTIME_TRANSITION_OPERATIONS_def)
  have "binds_envelope demo_deps operationId ?r ?b"
    unfolding binds_envelope_def
    using assms(11) hash_with_signature [OF assms(1)] hash_demo [OF assms(1)]
    by (simp add: b arc_signatureDomain_def arc_network_def demo_subject_def)
  then have bind: "validateRuntimeTransitionBindings demo_deps operationId (Some (json_of_request ?r))
      Request_direction = []"
    using bindings_request_iff [OF signed, of ?r ?b] signed_shape_demo [OF assms(1)] by simp
  have meta: "metadata_issues operation (Some (json_of_request ?r)) = []"
    using assms(4-8) v by (auto simp: metadata_issues_request demo_request_def)
  show "valid_envelope demo_deps (rq_operationId ?r) (Some (json_of_request ?r)) Request_direction"
  proof (rule valid_envelopeI)
    show "resolveOperation (rq_operationId ?r) = Inr operation" using assms(4) by simp
    show "validateRuntimeTransitionBindings demo_deps (op_operationId operation)
        (Some (json_of_request ?r)) Request_direction = []"
      unfolding assms(5) by (rule bind)
  qed (use assms(9,10) meta in simp_all)
  show "runtimeBinding (rq_data ?r) (rq_operationId ?r) = Inr (Sig ?b)"
    using signed_shape_demo [OF assms(1)] by (simp add: runtimeBinding_def signed_shape_def)
  show "assertRuntimeBinding demo_deps (rq_operationId ?r) ?r (Sig ?b) \<lparr>bo_now = demo_now,
      bo_maxSignatureLifetimeSeconds = cfg_maxSignatureLifetimeSeconds demo_config,
      bo_clockSkewSeconds = cfg_clockSkewSeconds demo_config\<rparr> = Inr ?b"
    using demo_binding_accepted [OF assms(1,2)]
    by (simp add: demo_options_def demo_config_def)
  show "verifyBinding demo_deps demo_provider ?b = Inr ()" by (rule demo_verified [OF assms(2)])
  show "replay_scope_of demo_deps ?b = Inr (demo_scope nonce signer)"
    using assms(2) by (simp add: replay_scope_of_def getAddress_or_throw_def demo_scope_def demo_signature_def)
qed (use assms(3) in simp)


section \<open>Their responses are valid\<close>

lemma demo_response_valid:
  assumes "buildResponse (demo_request operationId nonce signer q) operationId lifecycleState d at errors = Inr r"
    and "operationId \<in> set RUNTIME_OPERATION_IDS"
    and "resolveOperation operationId = Inr operation"
    and "op_operationId operation = operationId" "op_capability operation = operationId"
    and "op_introducedIn operation \<in> {None, Some ''1.2.0''}"
    and "''delegated-runtime'' \<in> set (op_allowedExecutionProfiles operation)"
    and "demo_validate (op_responseSchema operation) (Some (json_of_response r)) = Some []"
    and "demo_validate (op_responseDataSchema operation) (Some (json_of_response_data d)) = Some []"
    and "lifecycle_state_str lifecycleState \<in> set (expected_states operationId)"
    and "isRecord (Some (json_of_response_data d))"
    and "jget (Some (json_of_response_data d)) ''signatureBinding'' \<in>
        {None, Some (json_of_runtime_signature_binding (demo_signature operationId nonce signer q))}"
    and "\<And>kv. kv \<in> set (signed_references operationId (Some (json_of_response_data d)) Response_direction) \<Longrightarrow>
      reference_ok (Some (json_of_response r)) kv"
  shows "valid_envelope demo_deps operationId (Some (json_of_response r)) Response_direction"
proof (rule valid_envelopeI)
  have v: "\<not> js_less (compareInterfaceVersions ''1.2.0'' ''1.2.0'') (Some 0)" by code_simp
  note m = buildResponse_members [OF assms(1)]
  show "resolveOperation operationId = Inr operation" by fact
  show "metadata_issues operation (Some (json_of_response r)) = []"
    using m assms(3-7) v by (auto simp: metadata_issues_response)
  show "validateRuntimeTransitionBindings demo_deps (op_operationId operation) (Some (json_of_response r)) Response_direction = []"
    unfolding assms(4)
    by (rule bindings_response [where b = "demo_signature operationId nonce signer q"])
      (use m assms(11-13) in \<open>auto simp: demo_signature_def arc_signatureDomain_def arc_network_def demo_subject_def\<close>)
  show "validateRuntimeTransitionLifecycle (op_operationId operation) (Some (json_of_response r)) Response_direction = []"
    unfolding assms(4)
    using m assms(10) by (simp add: validateRuntimeTransitionLifecycle_def js_String_opt_def)
qed (use buildResponse_members [OF assms(1)] assms(8,9) in simp_all)

end
