(* ===== verification/Runtime_Walkthrough.thy ===== *)
theory Runtime_Walkthrough
  imports Runtime_Demo
begin

text \<open>
  The demo world driven through the ten operations: each request is admitted, and each transition
  takes the state to the next one.  The states are the inputs at which the theorems about the
  Runtime are applied.
\<close>


section \<open>The states\<close>

definition demo_attested :: path where
  "demo_attested = demo_path\<lparr>pa_status := PS_ACTIVE\<rparr>"

definition demo_prepared :: intent where
  "demo_prepared = demo_intent\<lparr>in_status := LS_PREPARED\<rparr>"

definition demo_allowed :: proposal where
  "demo_allowed = demo_proposal
     \<lparr>pr_policyVersion := Some BAPHOMET_POLICY_VERSION, pr_status := PRS_ALLOWED\<rparr>"

definition demo_decision :: baphomet_decision where
  "demo_decision = allowDecision demo_proposal BAPHOMET_POLICY_VERSION (mk_ref OT_Pact ''c1'') demo_now"

definition demo_usage_id :: usage_id where
  "demo_usage_id =
     \<lparr>us_pathId = ''p1'', us_assetKey = render (json_of_asset demo_asset), us_limitIndex = 0,
      us_periodSeconds = ''3600'', us_bucketStartSeconds = show_int 1751371200\<rparr>"

definition demo_usage_key :: string where
  "demo_usage_key = render (json_of_usage_id demo_usage_id)"

definition demo_signed_pact :: pact where
  "demo_signed_pact = demo_pact
     \<lparr>pc_status := PTS_ACTIVE, pc_activatedAt := Some (toISOString demo_now)\<rparr>"

definition demo_verified_proof :: proof_object where
  "demo_verified_proof = demo_proof\<lparr>pf_status := PFS_VERIFIED,
     pf_verifiedAt := Some (toISOString demo_now), pf_verifierActorRef := Some (mk_ref OT_Actor ''a1'')\<rparr>"

definition demo_state2 :: runtime_state where
  "demo_state2 = demo_state1
     \<lparr>st_actors := [(''a1'', demo_actor ''a1'' owner)], st_actorWorkspaces := [(''a1'', ''w1'')]\<rparr>"

definition demo_state3 :: runtime_state where
  "demo_state3 = demo_state2
     \<lparr>st_actors := [(''a1'', demo_actor ''a1'' owner), (''a2'', demo_actor ''a2'' delegate)],
      st_actorWorkspaces := [(''a1'', ''w1''), (''a2'', ''w1'')]\<rparr>"

definition demo_state4 :: runtime_state where
  "demo_state4 = demo_state3
     \<lparr>st_paths := [(''p1'', demo_attested)],
      st_pathAttestations := [(''p1'', \<lparr>sa_path = demo_attested, sa_provenance = demo_provenance\<rparr>)]\<rparr>"

definition demo_state5 :: runtime_state where
  "demo_state5 = demo_state4\<lparr>st_intents := [(''i1'', demo_prepared)]\<rparr>"

definition demo_state6 :: runtime_state where
  "demo_state6 = demo_state5
     \<lparr>st_proposals := [(''r1'', demo_allowed)], st_decisions := [(''decision:r1'', demo_decision)],
      st_pathPeriodUsage := [(demo_usage_key, raised_usage demo_usage_id 1 40)]\<rparr>"

definition demo_state7 :: runtime_state where
  "demo_state7 = demo_state6
     \<lparr>st_pacts := [(''c1'', demo_signed_pact)],
      st_committedPacts := [(''c1'', toISOString demo_now)]\<rparr>"

definition demo_state8 :: runtime_state where
  "demo_state8 = demo_state7\<lparr>st_proofs := [(''f1'', demo_proof)]\<rparr>"

definition demo_state9 :: runtime_state where
  "demo_state9 = demo_state8\<lparr>st_proofs := [(''f1'', demo_verified_proof)]\<rparr>"

definition demo_state10 :: runtime_state where
  "demo_state10 = demo_state9
     \<lparr>st_paths := [(''p1'', demo_path\<lparr>pa_status := PS_REVOKED\<rparr>)],
      st_pathAttestations := [(''p1'', \<lparr>sa_path = demo_path\<lparr>pa_status := PS_REVOKED\<rparr>,
        sa_provenance = demo_provenance\<rparr>)]\<rparr>"

lemmas demo_states = demo_state1_def demo_state2_def demo_state3_def demo_state4_def
  demo_state5_def demo_state6_def demo_state7_def demo_state8_def demo_state9_def
  demo_state10_def emptyRuntimeState_def


section \<open>The calls\<close>

record demo_call =
  dc_operation :: string
  dc_nonce :: string
  dc_signer :: string
  dc_data :: request_data

definition call_request :: "demo_call \<Rightarrow> operation_request" where
  "call_request c = demo_request (dc_operation c) (dc_nonce c) (dc_signer c) (dc_data c)"

definition call_signature :: "demo_call \<Rightarrow> runtime_signature_binding" where
  "call_signature c = demo_signature (dc_operation c) (dc_nonce c) (dc_signer c) (dc_data c)"

definition call_takes :: "demo_call \<Rightarrow> runtime_state \<Rightarrow> runtime_state \<Rightarrow> bool" where
  "call_takes c st st' \<longleftrightarrow>
     (\<exists>resp. transition demo_deps (call_request c) (call_signature c) demo_now st = Inr (resp, st'))"

lemmas call_defs = call_request_def call_signature_def

lemma call_takesI:
  assumes "resolveOperation (dc_operation c) = Inr operation"
    and "op_operationId operation = dc_operation c" "op_capability operation = dc_operation c"
    and "op_introducedIn operation \<in> {None, Some ''1.2.0''}"
    and "''delegated-runtime'' \<in> set (op_allowedExecutionProfiles operation)"
    and "dc_operation c \<in> set RUNTIME_OPERATION_IDS"
    and "\<And>resp. buildResponse (call_request c) (dc_operation c) state d demo_now errors = Inr resp \<Longrightarrow>
      prepareTransition demo_deps (dc_operation c) (call_request c) (call_signature c) st demo_now
        = Inr \<lparr>prep_response = resp, prep_commit = change\<rparr>"
    and "\<And>r. demo_validate (op_responseSchema operation) (Some (json_of_response r)) = Some []"
    and "demo_validate (op_responseDataSchema operation) (Some (json_of_response_data d)) = Some []"
    and "lifecycle_state_str state \<in> set (expected_states (dc_operation c))"
    and "isRecord (Some (json_of_response_data d))"
    and "jget (Some (json_of_response_data d)) ''signatureBinding'' \<in>
      {None, Some (json_of_runtime_signature_binding (call_signature c))}"
    and "\<And>r kv. rsp_workspaceRef r = Some (mk_ref OT_Workspace ''w1'') \<Longrightarrow>
      rsp_pathRef r = Some (mk_ref OT_Path ''p1'') \<Longrightarrow> rsp_intentRef r = Some (mk_ref OT_Intent ''i1'') \<Longrightarrow>
      rsp_proposalRef r = Some (mk_ref OT_Proposal ''r1'') \<Longrightarrow>
      rsp_decisionRef r = Some (mk_ref OT_BaphometDecision ''decision:r1'') \<Longrightarrow>
      rsp_pactRef r = Some (mk_ref OT_Pact ''c1'') \<Longrightarrow> rsp_proofRefs r = Some [mk_ref OT_Proof ''f1''] \<Longrightarrow>
      kv \<in> set (signed_references (dc_operation c) (Some (json_of_response_data d)) Response_direction) \<Longrightarrow>
      reference_ok (Some (json_of_response r)) kv"
    and "change st = st'"
  shows "call_takes c st st'"
proof -
  obtain resp where resp: "buildResponse (call_request c) (dc_operation c) state d demo_now errors = Inr resp"
    using assms(1) by (simp add: buildResponse_def Let_def)
  note m = buildResponse_members [OF resp]
  have "valid_envelope demo_deps (dc_operation c) (Some (json_of_response resp)) Response_direction"
    by (rule demo_response_valid [OF resp [unfolded call_request_def] assms(6,1-5,8-11)])
      (use assms(12,13) m in \<open>simp_all add: call_defs\<close>)
  then have "transition demo_deps (call_request c) (call_signature c) demo_now st = Inr (resp, change st)"
    using transitionI [of demo_deps "call_request c" "call_signature c" st demo_now
        "\<lparr>prep_response = resp, prep_commit = change\<rparr>"] assms(7) [OF resp]
    by (simp add: call_request_def)
  then show ?thesis using assms(14) by (auto simp: call_takes_def)
qed

lemmas call_side = registered_def RUNTIME_OPERATION_IDS_def delegated_only_def any_profile_def
  demo_validate_def schema_id_def payload_schema_def expected_states_def

definition register_call :: demo_call where
  "register_call = \<lparr>dc_operation = ''workspace.register'', dc_nonce = ''1'', dc_signer = owner,
     dc_data = RD_workspace demo_workspace No_sig\<rparr>"

lemma register_takes: "call_takes register_call emptyRuntimeState demo_state1"
  by (rule call_takesI [where operation = "registered ''workspace.register'' ''workspace.register''
        (Some ''1.2.0'') ''RELAY_SIGNED_ENVELOPE'' delegated_only ''WorkspaceRegisterRequest''
        ''WorkspaceRegisterResponse''" and state = LS_PREPARED and errors = "[]"
      and d = "SD_request (rq_data (call_request register_call))"
      and change = "\<lambda>draft. draft
        \<lparr>st_workspaces := js_set ''w1'' demo_workspace (st_workspaces draft),
         st_workspaceAuthorities := js_set ''w1'' owner (st_workspaceAuthorities draft)\<rparr>"])
    (simp_all add: register_call_def call_defs runtime_operations call_side signed_references_def
      demo_states js_set_def prepareTransition_def prepareWorkspace_def js_get_def prototype_keys_def
      present_def truthy_text_def demo_workspace_def getAddress_or_throw_def demo_signature_def prepared_def)

text \<open>The guards on the objects of the demo world, wherever a state holds them.\<close>

lemma own_Cons [simp]: "own ((k, v) # r) = (own r)(k \<mapsto> v)"
  by (simp add: own_def)

lemma demo_stored [simp]:
  "schema \<noteq> ''path'' \<Longrightarrow> assertValidStoredState demo_deps schema v label = Inr ()"
  by (simp add: assertValidStoredState_def assertValidSchema_def validatorFor_def demo_validate_def
      schema_id_def payload_schema_def)

lemma demo_path_valid:
  "assertValidStoredState demo_deps ''path'' (json_of_path (demo_path\<lparr>pa_status := s\<rparr>)) label = Inr ()"
  by (simp add: assertValidStoredState_def assertValidSchema_def validatorFor_def demo_validate_def
      demo_path_ok_def json_of_path_def demo_path_def string_member_def demo_limit_def
      json_of_path_limit_def is_pos_dec_string_def is_digit_def char_code_def)

lemma demo_requireWorkspace:
  "own (st_workspaces st) ''w1'' = Some demo_workspace \<Longrightarrow>
     requireWorkspace demo_deps st ''w1'' = Inr demo_workspace"
  by (simp add: requireWorkspace_def load_def js_get_own demo_workspace_def isUsableWorkspace_def)

lemma demo_requireAuthority:
  "own (st_workspaceAuthorities st) ''w1'' = Some owner \<Longrightarrow>
     requireWorkspaceAuthority demo_deps st ''w1'' = Inr owner"
  by (simp add: requireWorkspaceAuthority_def js_get_own)

lemma demo_requireActor:
  "own (st_actors st) i = Some (demo_actor i w) \<Longrightarrow> requireActor demo_deps st i = Inr (demo_actor i w)"
  by (simp add: requireActor_def load_def js_get_own demo_actor_def isUsableActor_def)

lemma demo_requirePath:
  "own (st_paths st) ''p1'' = Some demo_attested \<Longrightarrow> requirePath demo_deps st ''p1'' = Inr demo_attested"
  using demo_path_valid [of PS_ACTIVE]
  by (simp add: requirePath_def load_def js_get_own demo_attested_def) (simp add: demo_path_def)

lemma demo_requireAttestedPath:
  "own (st_pathAttestations st) ''p1'' = Some \<lparr>sa_path = demo_attested, sa_provenance = demo_provenance\<rparr> \<Longrightarrow>
     requireAttestedPath demo_deps st demo_attested = Inr ()"
proof -
  have "pa_id demo_attested = ''p1''" "pa_provenance demo_attested = demo_provenance"
    by (simp_all add: demo_attested_def demo_path_def)
  then show "own (st_pathAttestations st) ''p1'' = Some \<lparr>sa_path = demo_attested, sa_provenance = demo_provenance\<rparr> \<Longrightarrow>
      requireAttestedPath demo_deps st demo_attested = Inr ()"
    using demo_path_valid [of PS_ACTIVE]
    by (simp add: requireAttestedPath_def js_get_own flip: demo_attested_def)
qed

lemma demo_dates:
  "Date_parse ''2025-01-01T00:00:00Z'' = Some 1735689600000"
  "Date_parse ''2026-01-01T00:00:00Z'' = Some 1767225600000"
  "Date_parse ''2025-07-02T00:00:00Z'' = Some 1751414400000"
  by code_simp+

lemma demo_requireIntent:
  "own (st_intents st) ''i1'' = Some demo_prepared \<Longrightarrow>
     requireIntent demo_deps st ''i1'' demo_now = Inr demo_prepared"
  by (simp add: requireIntent_def load_def js_get_own demo_prepared_def demo_intent_def
      isUsableIntent_def demo_dates demo_now_def)

lemma demo_requireIssuer:
  "own (st_actors st) ''a1'' = Some (demo_actor ''a1'' owner) \<Longrightarrow>
   own (st_workspaceAuthorities st) ''w1'' = Some owner \<Longrightarrow>
     assertPathIssuerAuthority demo_deps st demo_workspace demo_attested = Inr ()"
proof -
  have "pa_issuerActorRef demo_attested = mk_ref OT_Actor ''a1''"
      "sb_signer (pa_signatureBinding demo_attested) = owner" "ws_id demo_workspace = ''w1''"
      "ac_walletAddress (demo_actor ''a1'' owner) = Some owner"
    by (simp_all add: demo_attested_def demo_path_def demo_binding_def demo_workspace_def demo_actor_def)
  then show "own (st_actors st) ''a1'' = Some (demo_actor ''a1'' owner) \<Longrightarrow>
   own (st_workspaceAuthorities st) ''w1'' = Some owner \<Longrightarrow>
     assertPathIssuerAuthority demo_deps st demo_workspace demo_attested = Inr ()"
    by (simp add: assertPathIssuerAuthority_def refId_def mk_ref_def demo_requireActor
        demo_requireAuthority walletIs_def sameAddress_def)
qed

lemma demo_assertPathBinding: "assertPathBinding demo_deps (demo_path\<lparr>pa_status := s\<rparr>) demo_now = Inr ()"
  by (simp add: assertPathBinding_def settlementTypedDataDomain_def arc_typedDataDomains_def
      arc_network_def sameAddress_def binds_settlement_domain_def demo_path_def demo_binding_def
      binding_window_closed_def demo_dates demo_now_def flip: arc_anchorContract_def)

lemmas demo_requires = demo_requireWorkspace demo_requireAuthority demo_requireActor demo_requirePath
  demo_requireAttestedPath demo_requireIntent demo_requireIssuer demo_assertPathBinding

lemma demo_object_members [simp]:
  "ws_id demo_workspace = ''w1''" "ws_ownerActorRef demo_workspace = mk_ref OT_Actor ''a1''"
  "ac_id (demo_actor i w) = i" "ac_walletAddress (demo_actor i w) = Some w"
  "pa_id demo_path = ''p1''" "pa_workspaceRef demo_path = mk_ref OT_Workspace ''w1''"
  "pa_issuerActorRef demo_path = mk_ref OT_Actor ''a1''"
  "pa_delegateActorRef demo_path = mk_ref OT_Actor ''a2''" "pa_status demo_path = PS_PREPARED"
  "pa_provenance demo_path = demo_provenance" "pa_limits demo_path = [demo_limit]"
  "pa_capabilities demo_path = [''PAY_RAILSFLOW'']"
  "pa_id demo_attested = ''p1''" "pa_workspaceRef demo_attested = mk_ref OT_Workspace ''w1''"
  "pa_issuerActorRef demo_attested = mk_ref OT_Actor ''a1''"
  "pa_delegateActorRef demo_attested = mk_ref OT_Actor ''a2''" "pa_status demo_attested = PS_ACTIVE"
  "pa_provenance demo_attested = demo_provenance" "pa_limits demo_attested = [demo_limit]"
  "pa_capabilities demo_attested = [''PAY_RAILSFLOW'']"
  "in_id demo_intent = ''i1''" "in_status demo_intent = LS_DRAFT"
  "in_workspaceRef demo_intent = Some (mk_ref OT_Workspace ''w1'')"
  "in_pathRef demo_intent = Some (mk_ref OT_Path ''p1'')" "in_requestedNetwork demo_intent = None"
  "in_id demo_prepared = ''i1''" "in_paymentTerms demo_prepared = demo_terms"
  "in_workspaceRef demo_prepared = Some (mk_ref OT_Workspace ''w1'')"
  "in_pathRef demo_prepared = Some (mk_ref OT_Path ''p1'')" "in_requestedNetwork demo_prepared = None"
  "in_pactRef demo_prepared = Some (mk_ref OT_Pact ''c1'')" "in_action demo_prepared = IA_PAY_RAILSFLOW"
  by (simp_all add: demo_workspace_def demo_actor_def demo_path_def demo_attested_def
      demo_intent_def demo_prepared_def)

lemma mk_ref_members [simp]: "ref_id (mk_ref t i) = i" "ref_type (mk_ref t i) = t"
  by (simp_all add: mk_ref_def)

lemma signature_signer [simp]: "rb_signer (demo_signature operationId nonce signer d) = signer"
  by (simp add: demo_signature_def)

lemma ref_members [simp]:
  "jget (Some (json_of_object_ref r)) ''type'' = Some (JStr (object_type_str (ref_type r)))"
  "jget (Some (json_of_object_ref r)) ''id'' = Some (JStr (ref_id r))"
  "isRecord (Some (json_of_object_ref r))"
  by (simp_all add: json_of_object_ref_def)

text \<open>A reference of the payload repeated in the envelope.\<close>

lemma sameReference_refs [simp]:
  "sameReference (Some (json_of_object_ref a)) (Some (json_of_object_ref b))
     \<longleftrightarrow> ref_type a = ref_type b \<and> ref_id a = ref_id b"
  by (auto simp: sameReference_def json_inject)

lemma sameReference_artifact [simp]:
  assumes "isRecord (Some v)" and "jget (Some v) ''id'' = Some (JStr i)"
  shows "sameReference (Some (json_of_object_ref a)) (artifactReference t (Some v))
    \<longleftrightarrow> object_type_str (ref_type a) = t \<and> ref_id a = i"
  using assms by (simp add: sameReference_def artifactReference_def)

lemmas step_simps = call_defs runtime_operations call_side signed_references_def reference_ok_def
  json_elements_def demo_states js_set_def prepareTransition_def js_get_own prototype_keys_def present_def prepared_def
  refId_def demo_requires walletIs_def sameAddress_def assertReference_def conflicts_def
  signed_by_authority_def assertRequestedNetwork_def

definition owner_call :: demo_call where
  "owner_call = \<lparr>dc_operation = ''actor.register'', dc_nonce = ''2'', dc_signer = owner,
     dc_data = RD_actor (mk_ref OT_Workspace ''w1'') (demo_actor ''a1'' owner) No_sig\<rparr>"

lemma owner_takes: "call_takes owner_call demo_state1 demo_state2"
  by (rule call_takesI [where operation = "registered ''actor.register'' ''actor.register''
        (Some ''1.2.0'') ''RELAY_SIGNED_ENVELOPE'' delegated_only ''ActorRegisterRequest''
        ''ActorRegisterResponse''" and state = LS_PREPARED and errors = "[]"
      and d = "SD_request (rq_data (call_request owner_call))"
      and change = "\<lambda>draft. draft
        \<lparr>st_actors := js_set ''a1'' (demo_actor ''a1'' owner) (st_actors draft),
         st_actorWorkspaces := js_set ''a1'' ''w1'' (st_actorWorkspaces draft)\<rparr>"])
    (auto simp: owner_call_def prepareActor_def step_simps)

definition delegate_call :: demo_call where
  "delegate_call = \<lparr>dc_operation = ''actor.register'', dc_nonce = ''3'', dc_signer = owner,
     dc_data = RD_actor (mk_ref OT_Workspace ''w1'') (demo_actor ''a2'' delegate) No_sig\<rparr>"

lemma delegate_takes: "call_takes delegate_call demo_state2 demo_state3"
  by (rule call_takesI [where operation = "registered ''actor.register'' ''actor.register''
        (Some ''1.2.0'') ''RELAY_SIGNED_ENVELOPE'' delegated_only ''ActorRegisterRequest''
        ''ActorRegisterResponse''" and state = LS_PREPARED and errors = "[]"
      and d = "SD_request (rq_data (call_request delegate_call))"
      and change = "\<lambda>draft. draft
        \<lparr>st_actors := js_set ''a2'' (demo_actor ''a2'' delegate) (st_actors draft),
         st_actorWorkspaces := js_set ''a2'' ''w1'' (st_actorWorkspaces draft)\<rparr>"])
    (auto simp: delegate_call_def prepareActor_def step_simps)

lemma object_json_members [simp]:
  "jget (Some (json_of_path p)) ''workspaceRef'' = Some (json_of_object_ref (pa_workspaceRef p))"
  "jget (Some (json_of_path p)) ''id'' = Some (JStr (pa_id p))" "isRecord (Some (json_of_path p))"
  "jget (Some (json_of_intent i)) ''workspaceRef'' = ref_json (in_workspaceRef i)"
  "jget (Some (json_of_intent i)) ''pathRef'' = ref_json (in_pathRef i)"
  "jget (Some (json_of_intent i)) ''id'' = Some (JStr (in_id i))" "isRecord (Some (json_of_intent i))"
  "jget (Some (json_of_proposal r)) ''workspaceRef'' = Some (json_of_object_ref (pr_workspaceRef r))"
  "jget (Some (json_of_proposal r)) ''pathRef'' = Some (json_of_object_ref (pr_pathRef r))"
  "jget (Some (json_of_proposal r)) ''intentRef'' = Some (json_of_object_ref (pr_intentRef r))"
  "jget (Some (json_of_proposal r)) ''id'' = Some (JStr (pr_id r))" "isRecord (Some (json_of_proposal r))"
  "jget (Some (json_of_pact c)) ''workspaceRef'' = ref_json (pc_workspaceRef c)"
  "jget (Some (json_of_pact c)) ''pathRef'' = ref_json (pc_pathRef c)"
  "jget (Some (json_of_pact c)) ''proposalRef'' = ref_json (pc_proposalRef c)"
  "jget (Some (json_of_pact c)) ''decisionRef'' = ref_json (pc_decisionRef c)"
  "jget (Some (json_of_pact c)) ''id'' = Some (JStr (pc_id c))" "isRecord (Some (json_of_pact c))"
  "jget (Some (json_of_proof_object f)) ''workspaceRef'' = ref_json (pf_workspaceRef f)"
  "jget (Some (json_of_proof_object f)) ''pathRef'' = ref_json (pf_pathRef f)"
  "jget (Some (json_of_proof_object f)) ''intentRef'' = ref_json (pf_intentRef f)"
  "jget (Some (json_of_proof_object f)) ''proposalRef'' = ref_json (pf_proposalRef f)"
  "jget (Some (json_of_proof_object f)) ''pactRef'' = ref_json (pf_pactRef f)"
  "jget (Some (json_of_proof_object f)) ''id'' = Some (JStr (pf_id f))"
  "isRecord (Some (json_of_proof_object f))"
  by (simp_all add: json_of_path_def json_of_intent_def json_of_proposal_def json_of_pact_def
      json_of_proof_object_def)

lemma demo_path_prepared: "demo_path\<lparr>pa_status := PS_PREPARED\<rparr> = demo_path"
  by (simp add: demo_path_def)

lemma demo_path_binding: "assertPathBinding demo_deps demo_path demo_now = Inr ()"
  using demo_assertPathBinding [of PS_PREPARED] by (simp add: demo_path_prepared)

lemma demo_attested_binding: "assertPathBinding demo_deps demo_attested demo_now = Inr ()"
  by (simp add: demo_attested_def demo_assertPathBinding)

definition activate_call :: demo_call where
  "activate_call = \<lparr>dc_operation = ''path.activate'', dc_nonce = ''4'', dc_signer = owner,
     dc_data = RD_path demo_path No_sig\<rparr>"

lemma activate_takes: "call_takes activate_call demo_state3 demo_state4"
  by (rule call_takesI [where operation = "registered ''path.activate'' ''path.activate'' None
        ''WALLET_SIGNATURE'' delegated_only ''PathRequest'' ''PathResponse''"
      and state = LS_COMMITTED and errors = "[]" and d = "SD_path demo_attested"
      and change = "\<lambda>draft. draft
        \<lparr>st_paths := js_set ''p1'' demo_attested (st_paths draft),
         st_pathAttestations := js_set ''p1'' \<lparr>sa_path = demo_attested, sa_provenance = demo_provenance\<rparr>
           (st_pathAttestations draft)\<rparr>"])
    (auto simp: activate_call_def preparePathActivate_def step_simps demo_path_binding
      simp flip: demo_attested_def)

definition prepare_call :: demo_call where
  "prepare_call = \<lparr>dc_operation = ''intent.prepare'', dc_nonce = ''5'', dc_signer = owner,
     dc_data = RD_intent demo_intent No_sig\<rparr>"

lemma prepare_takes: "call_takes prepare_call demo_state4 demo_state5"
  by (rule call_takesI [where operation = "registered ''intent.prepare'' ''intent.prepare'' None
        ''PREPARE_ONLY'' any_profile ''IntentRequest'' ''IntentResponse''"
      and state = LS_PREPARED and errors = "[]" and d = "SD_intent demo_prepared"
      and change = "\<lambda>draft. draft\<lparr>st_intents := js_set ''i1'' demo_prepared (st_intents draft)\<rparr>"])
    (auto simp: prepare_call_def prepareIntent_def step_simps simp flip: demo_prepared_def)

text \<open>The authority of the Path over the payment, with and without a reservation.\<close>

lemma demo_limit_check:
  "applicable_limits demo_deps demo_attested demo_asset = [(demo_limit, 0)]"
  "assertLimitTerms demo_limit demo_terms = Inr ()"
proof -
  have n: "BigInt ''40'' = Some 40" "BigInt ''100'' = Some 100" "BigInt ''60'' = Some 60"
    by code_simp+
  have "take 2 (as_address demo_asset) = ''0x''" by (simp add: demo_asset_def)
  then show "applicable_limits demo_deps demo_attested demo_asset = [(demo_limit, 0)]"
    by (simp add: applicable_limits_def sameAsset_def sameAddress_def demo_limit_def)
  show "assertLimitTerms demo_limit demo_terms = Inr ()"
    by (simp add: assertLimitTerms_def demo_limit_def demo_terms_def integer_def n check_bound_def)
qed

lemma demo_authority_kept:
  "assertPathAuthority demo_deps st demo_attested demo_prepared demo_terms demo_now False = Inr []"
proof -
  have "pt_asset demo_terms = demo_asset" by (simp add: demo_terms_def)
  then show ?thesis
    by (simp add: assertPathAuthority_def demo_attested_binding demo_limit_check Let_def)
qed

lemma demo_reservation:
  assumes "st_pathPeriodUsage st = []"
  shows "assertPathAuthority demo_deps st demo_attested demo_prepared demo_terms demo_now True
    = Inr [\<lparr>ur_key = demo_usage_key, ur_value = raised_usage demo_usage_id 1 40\<rparr>]"
proof -
  have n: "BigInt ''40'' = Some 40" "BigInt ''100'' = Some 100" "BigInt ''2'' = Some 2"
    "BigInt ''3600'' = Some 3600" "BigInt ''0'' = Some 0"
    by code_simp+
  have k: "assetKey demo_deps demo_asset = Inr (render (json_of_asset demo_asset))"
  proof -
    have "toLowerCase (as_address demo_asset) = as_address demo_asset"
      unfolding demo_asset_def by code_simp
    moreover have "take 2 (as_address demo_asset) = ''0x''" by (simp add: demo_asset_def)
    ultimately show ?thesis by (simp add: assetKey_def canonical_def)
  qed
  have b: "usageBucketStart demo_now 3600 = Inr 1751371200"
    by (simp add: usageBucketStart_def demo_now_def trunc_div_def)
  have u: "usage_id_of demo_attested (render (json_of_asset demo_asset)) 0 demo_limit 1751371200
      = demo_usage_id"
    by (simp add: usage_id_of_def demo_usage_id_def demo_limit_def)
  have key: "pathPeriodUsageKey demo_deps demo_usage_id = Inr demo_usage_key"
    by (simp add: pathPeriodUsageKey_def demo_usage_key_def)
  have "CHR ''{'' \<notin> set x" if "x \<in> set prototype_keys" for x
    using that by (auto simp: prototype_keys_def)
  then have "demo_usage_key \<notin> set prototype_keys"
    by (force simp: demo_usage_key_def json_of_usage_id_def jobj_def)
  then have c: "currentUsage st demo_usage_key demo_usage_id = Inr (zero_usage demo_usage_id)"
    using assms by (simp add: currentUsage_def js_get_own)
  have t: "pt_amount demo_terms = ''40''" "pt_asset demo_terms = demo_asset"
    by (simp_all add: demo_terms_def)
  have l: "li_periodSeconds demo_limit = ''3600''" "li_maxAmount demo_limit = ''100''"
    "li_maxTransactionsPerPeriod demo_limit = ''2''" "li_asset demo_limit = demo_asset"
    by (simp_all add: demo_limit_def)
  have "reserve_limit demo_deps st demo_attested demo_limit 0 demo_terms demo_now
    = Inr \<lparr>ur_key = demo_usage_key, ur_value = raised_usage demo_usage_id 1 40\<rparr>"
    by (simp add: reserve_limit_def integer_def l n b k u key c t zero_usage_def Let_def)
  then show ?thesis
    by (simp add: assertPathAuthority_def demo_attested_binding demo_limit_check t Let_def)
qed

lemma demo_chain_members [simp]:
  "pr_id demo_proposal = ''r1''" "pr_workspaceRef demo_proposal = mk_ref OT_Workspace ''w1''"
  "pr_pathRef demo_proposal = mk_ref OT_Path ''p1''" "pr_intentRef demo_proposal = mk_ref OT_Intent ''i1''"
  "pr_status demo_proposal = PRS_EVALUATING" "pr_normalizedTerms demo_proposal = demo_terms"
  "pr_policyVersion demo_proposal = None" "pr_inputHash demo_proposal = ''0x01''"
  "pr_id demo_allowed = ''r1''" "pr_workspaceRef demo_allowed = mk_ref OT_Workspace ''w1''"
  "pr_pathRef demo_allowed = mk_ref OT_Path ''p1''" "pr_intentRef demo_allowed = mk_ref OT_Intent ''i1''"
  "pr_status demo_allowed = PRS_ALLOWED" "pr_normalizedTerms demo_allowed = demo_terms"
  "pr_policyVersion demo_allowed = Some BAPHOMET_POLICY_VERSION" "pr_inputHash demo_allowed = ''0x01''"
  "de_id demo_decision = ''decision:r1''" "de_decision demo_decision = DK_ALLOW"
  "de_proposalRef demo_decision = mk_ref OT_Proposal ''r1''" "de_inputHash demo_decision = ''0x01''"
  "de_policyVersion demo_decision = BAPHOMET_POLICY_VERSION"
  "de_pactRef demo_decision = Some (mk_ref OT_Pact ''c1'')"
  "pc_id demo_pact = ''c1''" "pc_workspaceRef demo_pact = Some (mk_ref OT_Workspace ''w1'')"
  "pc_pathRef demo_pact = Some (mk_ref OT_Path ''p1'')" "pc_status demo_pact = PTS_DRAFT"
  "pc_proposalRef demo_pact = Some (mk_ref OT_Proposal ''r1'')"
  "pc_decisionRef demo_pact = Some (mk_ref OT_BaphometDecision ''decision:r1'')"
  "pc_paymentTerms demo_pact = demo_terms"
  "pc_parties demo_pact = [mk_ref OT_Actor ''a1'', mk_ref OT_Actor ''a2'']"
  "pc_id demo_signed_pact = ''c1''" "pc_status demo_signed_pact = PTS_ACTIVE"
  "pc_workspaceRef demo_signed_pact = Some (mk_ref OT_Workspace ''w1'')"
  "pc_pathRef demo_signed_pact = Some (mk_ref OT_Path ''p1'')"
  "pc_decisionRef demo_signed_pact = Some (mk_ref OT_BaphometDecision ''decision:r1'')"
  "pc_proposalRef demo_signed_pact = Some (mk_ref OT_Proposal ''r1'')"
  "pc_parties demo_signed_pact = [mk_ref OT_Actor ''a1'', mk_ref OT_Actor ''a2'']"
  "pp_id (pc_proofPolicy demo_signed_pact) = ''pp1''"
  "pf_id demo_proof = ''f1''" "pf_status demo_proof = PFS_SUBMITTED"
  "pf_workspaceRef demo_proof = Some (mk_ref OT_Workspace ''w1'')"
  "pf_pathRef demo_proof = Some (mk_ref OT_Path ''p1'')"
  "pf_intentRef demo_proof = Some (mk_ref OT_Intent ''i1'')"
  "pf_proposalRef demo_proof = Some (mk_ref OT_Proposal ''r1'')"
  "pf_pactRef demo_proof = Some (mk_ref OT_Pact ''c1'')"
  "pf_policyRef demo_proof = mk_ref OT_ProofPolicy ''pp1''"
  "pf_subjectRef demo_proof = mk_ref OT_Actor ''a2''" "pf_id demo_verified_proof = ''f1''"
  by (simp_all add: demo_proposal_def demo_allowed_def demo_decision_def allowDecision_def
      baphometDecision_def decision_id_def demo_pact_def demo_signed_pact_def demo_proof_def
      demo_verified_proof_def)

lemma demo_response_paths [simp]:
  "pa_workspaceRef (demo_path\<lparr>pa_status := s\<rparr>) = mk_ref OT_Workspace ''w1''"
  "pa_id (demo_path\<lparr>pa_status := s\<rparr>) = ''p1''"
  by simp_all

definition evaluate_call :: demo_call where
  "evaluate_call = \<lparr>dc_operation = ''proposal.evaluate'', dc_nonce = ''6'', dc_signer = delegate,
     dc_data = RD_proposal demo_proposal No_sig\<rparr>"

lemma demo_evaluation:
  "st_pathPeriodUsage st = [] \<Longrightarrow>
   evaluate_proposal demo_deps st demo_attested demo_prepared demo_proposal BAPHOMET_POLICY_VERSION demo_now True
     = Inr \<lparr>ev_reservations = [\<lparr>ur_key = demo_usage_key, ur_value = raised_usage demo_usage_id 1 40\<rparr>],
         ev_decision = demo_decision, ev_lifecycleState = LS_ALLOWED, ev_status = PRS_ALLOWED,
         ev_errors = []\<rparr>"
  by (simp add: evaluate_proposal_def demo_reservation demo_decision_def)

lemma evaluate_takes: "call_takes evaluate_call demo_state5 demo_state6"
  by (rule call_takesI [where operation = "registered ''proposal.evaluate'' ''proposal.evaluate'' None
        ''PREPARE_ONLY'' delegated_only ''ProposalRequest'' ''DecisionResponse''"
      and state = LS_ALLOWED and errors = "[]" and d = "SD_decision demo_decision"
      and change = "\<lambda>draft. store_reservations
        [\<lparr>ur_key = demo_usage_key, ur_value = raised_usage demo_usage_id 1 40\<rparr>] (draft
        \<lparr>st_proposals := js_set ''r1'' demo_allowed (st_proposals draft),
         st_decisions := js_set ''decision:r1'' demo_decision (st_decisions draft)\<rparr>)"])
    (auto simp: evaluate_call_def prepareProposalEvaluate_def step_simps demo_evaluation
      store_reservations_eq simp flip: demo_allowed_def)

lemma demo_requireProposal:
  "own (st_proposals st) ''r1'' = Some demo_allowed \<Longrightarrow> requireProposal demo_deps st ''r1'' = Inr demo_allowed"
  by (simp add: requireProposal_def load_def js_get_own)

lemma demo_requireDecision:
  "own (st_decisions st) ''decision:r1'' = Some demo_decision \<Longrightarrow>
     requireDecision demo_deps st ''decision:r1'' = Inr demo_decision"
  by (simp add: requireDecision_def load_def js_get_own)

definition pact_call :: demo_call where
  "pact_call = \<lparr>dc_operation = ''pact.sign'', dc_nonce = ''7'', dc_signer = delegate,
     dc_data = RD_pact (mk_ref OT_Intent ''i1'') demo_pact None No_sig\<rparr>"

lemma demo_binding_none: "assertCanonicalRecordBinding demo_deps demo_signed_pact None = Inr ()"
  by (simp add: assertCanonicalRecordBinding_def record_policy_def demo_signed_pact_def demo_pact_def)

lemma pact_takes: "call_takes pact_call demo_state6 demo_state7"
  by (rule call_takesI [where operation = "registered ''pact.sign'' ''pact.sign'' (Some ''1.2.0'')
        ''RELAY_SIGNED_ENVELOPE'' delegated_only ''PactSignRequest'' ''PactSignResponse''"
      and state = LS_COMMITTED and errors = "[]"
      and d = "SD_pact (mk_ref OT_Intent ''i1'') demo_signed_pact (call_signature pact_call) None"
      and change = "\<lambda>draft. draft
        \<lparr>st_pacts := js_set ''c1'' demo_signed_pact (st_pacts draft),
         st_committedPacts := js_set ''c1'' (toISOString demo_now) (st_committedPacts draft),
         st_canonicalRecords := st_canonicalRecords draft\<rparr>"])
    (auto simp: pact_call_def preparePact_def step_simps demo_requireProposal demo_requireDecision
      demo_authority_kept pactActors_def signing_actor_def requireStoredPact_def truthy_text_def
      demo_binding_none simp flip: demo_signed_pact_def)

lemma demo_requirePact:
  "own (st_pacts st) ''c1'' = Some demo_signed_pact \<Longrightarrow> requirePact demo_deps st ''c1'' = Inr demo_signed_pact"
  by (simp add: requirePact_def load_def js_get_own)

lemma demo_requireProof:
  "own (st_proofs st) ''f1'' = Some demo_proof \<Longrightarrow> requireProof demo_deps st ''f1'' = Inr demo_proof"
  by (simp add: requireProof_def load_def js_get_own)

definition submit_call :: demo_call where
  "submit_call = \<lparr>dc_operation = ''proof.submit'', dc_nonce = ''8'', dc_signer = delegate,
     dc_data = RD_proof demo_proof No_sig\<rparr>"

lemma submit_takes: "call_takes submit_call demo_state7 demo_state8"
  by (rule call_takesI [where operation = "registered ''proof.submit'' ''proof.submit'' None
        ''RELAY_SIGNED_ENVELOPE'' any_profile ''ProofRequest'' ''ProofResponse''"
      and state = LS_PROOF_PENDING and errors = "[]" and d = "SD_proof demo_proof"
      and change = "\<lambda>draft. draft\<lparr>st_proofs := js_set ''f1'' demo_proof (st_proofs draft)\<rparr>"])
    (auto simp: submit_call_def prepareProofSubmit_def requireProofChain_def step_simps
      demo_requireProposal demo_requirePact pactActors_def signing_actor_def proofSubjectSigned_def)

definition verify_call :: demo_call where
  "verify_call = \<lparr>dc_operation = ''proof.verify'', dc_nonce = ''9'', dc_signer = owner,
     dc_data = RD_objectRef (mk_ref OT_Proof ''f1'') No_sig\<rparr>"

lemma verify_takes: "call_takes verify_call demo_state8 demo_state9"
  by (rule call_takesI [where operation = "registered ''proof.verify'' ''proof.verify'' None
        ''PUBLIC_READ'' any_profile ''ProofRefRequest'' ''ProofResponse''"
      and state = LS_PROOF_VERIFIED and errors = "[]" and d = "SD_proof demo_verified_proof"
      and change = "\<lambda>draft. draft\<lparr>st_proofs := js_set ''f1'' demo_verified_proof (st_proofs draft)\<rparr>"])
    (auto simp: verify_call_def prepareProofVerify_def requireProofChain_def step_simps
      demo_requireProposal demo_requirePact demo_requireProof pactActors_def signing_actor_def
      simp flip: demo_verified_proof_def)

definition revoke_call :: demo_call where
  "revoke_call = \<lparr>dc_operation = ''path.revoke'', dc_nonce = ''10'', dc_signer = owner,
     dc_data = RD_objectRef (mk_ref OT_Path ''p1'') No_sig\<rparr>"

lemma attested_revoked: "demo_attested\<lparr>pa_status := s\<rparr> = demo_path\<lparr>pa_status := s\<rparr>"
  by (simp add: demo_attested_def)

lemma revoke_takes: "call_takes revoke_call demo_state9 demo_state10"
  by (rule call_takesI [where operation = "registered ''path.revoke'' ''path.revoke'' None
        ''WALLET_SIGNATURE'' delegated_only ''PathRefRequest'' ''PathResponse''"
      and state = LS_CANCELLED and errors = "[]" and d = "SD_path (demo_path\<lparr>pa_status := PS_REVOKED\<rparr>)"
      and change = "\<lambda>draft. draft
        \<lparr>st_paths := js_set ''p1'' (demo_path\<lparr>pa_status := PS_REVOKED\<rparr>) (st_paths draft),
         st_pathAttestations :=
           (case js_get (st_pathAttestations draft) ''p1'' of
              Own a \<Rightarrow> js_set ''p1'' (a\<lparr>sa_path := demo_path\<lparr>pa_status := PS_REVOKED\<rparr>\<rparr>)
                (st_pathAttestations draft)
            | _ \<Rightarrow> st_pathAttestations draft)\<rparr>"])
    (auto simp: revoke_call_def preparePathRevoke_def step_simps demo_attested_binding attested_revoked
      Let_def cong: js_prop.case_cong)

end
