(* ===== verification/Runtime_Properties.thy ===== *)
theory Runtime_Properties
  imports Runtime_Walkthrough
begin

text \<open>
  The properties of the Runtime: what holds in every state it reaches, what each call does to the
  store, what a signature must cover, and how much a Path can spend.  Each follows from the
  component lemmas and the interpretations of the store; each with a hypothesis is applied to the
  walkthrough of the demo world.
\<close>


section \<open>The walkthrough as a run\<close>

lemma call_takes_step: "call_takes c st st' \<Longrightarrow> runtime_step demo_deps st st'"
  using transition_step by (auto simp: call_takes_def)

lemmas walkthrough = register_takes owner_takes delegate_takes activate_takes prepare_takes
  evaluate_takes pact_takes submit_takes verify_takes revoke_takes

lemma run_to_state6: "runtime_run demo_deps emptyRuntimeState demo_state6"
  by (meson run_trans run_step call_takes_step walkthrough(1-6))

lemma run_from_state6: "runtime_run demo_deps demo_state6 demo_state9"
  by (meson run_trans run_step call_takes_step walkthrough(7-9))

lemma run_to_state9: "runtime_run demo_deps emptyRuntimeState demo_state9"
  using run_trans [OF run_to_state6 run_from_state6] .

lemma run_to_state10: "runtime_run demo_deps emptyRuntimeState demo_state10"
  by (meson run_trans run_step call_takes_step run_to_state9 walkthrough(10))

lemma demo_states_ok: "runtime_ok demo_deps demo_state6" "runtime_ok demo_deps demo_state9"
    "runtime_ok demo_deps demo_state10"
  using run_ok runtime_ok_empty run_to_state6 run_to_state9 run_to_state10 by blast+

lemma register_admitted:
  "admit demo_deps demo_provider demo_config demo_now (call_request register_call)
     = Inr (call_signature register_call, demo_scope ''1'' owner)"
proof -
  have "admit demo_deps demo_provider demo_config demo_now
      (demo_request ''workspace.register'' ''1'' owner (RD_workspace demo_workspace No_sig))
    = Inr (demo_signature ''workspace.register'' ''1'' owner (RD_workspace demo_workspace No_sig),
        demo_scope ''1'' owner)"
    by (rule demo_admitted [OF _ _ _ runtime_operations(1)])
      (simp_all add: call_side signable_def signed_references_def)
  then show ?thesis by (simp add: call_defs register_call_def)
qed

definition demo_store1 :: memory_store where
  "demo_store1 = \<lparr>ms_state = demo_state1, ms_replayNonces = [replayScopeKey (demo_scope ''1'' owner)]\<rparr>"

definition demo_db1 :: pg_tables where
  "demo_db1 = \<lparr>pg_state = Some (persist demo_state1), pg_nonces = [replayValues (demo_scope ''1'' owner)]\<rparr>"

lemma register_executes:
  "\<exists>resp. execute memory_transact demo_deps demo_provider demo_config demo_now demo_now
     (call_request register_call) demo_store0 = (Inr resp, demo_store1)"
  "\<exists>resp. memory_transact (scoped_op (demo_scope ''1'' owner)
     (transition demo_deps (call_request register_call) (call_signature register_call) demo_now))
     demo_store0 = (Inr resp, demo_store1)"
  using register_takes register_admitted
  by (auto simp: call_takes_def execute_def memory_transact_def scoped_op_def memory_consume_def
      demo_store0_def demo_store1_def Let_def)

lemma register_executes_postgres:
  "\<exists>resp. execute (pg_transact demo_deps answering) demo_deps demo_provider demo_config demo_now demo_now
     (call_request register_call) \<lparr>pg_state = None, pg_nonces = []\<rparr> = (Inr resp, demo_db1)"
proof -
  let ?db = "\<lparr>pg_state = None, pg_nonces = []\<rparr> :: pg_tables"
  have ok: "pg_ok demo_deps ?db" "pg_state_of demo_deps ?db = emptyRuntimeState"
    by (simp_all add: pg_ok_def pg_state_of_def stateFromRow_def)
  show ?thesis
    using register_takes register_admitted
    by (auto simp: call_takes_def execute_def pg_transact_def pg_body_answering [OF ok(1)] ok(2)
        scoped_op_def pg_consume_def query_def demo_db1_def)
qed

lemma pg_invar_initial: "pg_invar demo_deps \<lparr>pg_state = None, pg_nonces = []\<rparr>"
proof -
  have "amounts_ok emptyRuntimeState" by (simp add: amounts_ok_def emptyRuntimeState_def)
  then show ?thesis
    by (simp add: pg_invar_def demo_numeric pg_ok_def pg_state_of_def stateFromRow_def
        pg_storable_def storable_empty)
qed

text \<open>A run of the system in which the registration arrives and its transaction succeeds.\<close>

definition demo_system :: "'s \<Rightarrow> 's runtime_system" where
  "demo_system s = \<lparr>sys_store = s, sys_queue = [], sys_clock = demo_now\<rparr>"

lemma demo_rt_run:
  "(rt_step memory_transact memory_transact demo_deps demo_provider demo_config None)\<^sup>*\<^sup>*
     (demo_system demo_store0) (demo_system demo_store1)"
proof -
  let ?R = "rt_step memory_transact memory_transact demo_deps demo_provider demo_config None"
  let ?q = "(call_request register_call, call_signature register_call, demo_scope ''1'' owner)"
  let ?y = "(demo_system demo_store0)\<lparr>sys_queue := [?q]\<rparr>"
  have "?R (demo_system demo_store0) ((demo_system demo_store0)
      \<lparr>sys_queue := sys_queue (demo_system demo_store0) @ [?q]\<rparr>)"
    by (rule arrive [OF _ register_admitted]) (simp add: demo_system_def)
  then have 1: "?R (demo_system demo_store0) ?y" by (simp add: demo_system_def)
  obtain resp where "memory_transact (scoped_op (demo_scope ''1'' owner)
     (transition demo_deps (call_request register_call) (call_signature register_call) demo_now))
     demo_store0 = (Inr resp, demo_store1)"
    using register_executes(2) by blast
  then have "?R ?y (?y\<lparr>sys_queue := [], sys_store := demo_store1\<rparr>)"
    by (intro run [where rest = "[]"]) (simp_all add: demo_system_def)
  then have 2: "?R ?y (demo_system demo_store1)" by (simp add: demo_system_def)
  from 1 2 show ?thesis by (meson rtranclp.rtrancl_into_rtrancl r_into_rtranclp)
qed

lemma demo_store0_members [simp]:
  "ms_state demo_store0 = emptyRuntimeState" "ms_replayNonces demo_store0 = []"
  by (simp_all add: demo_store0_def)

lemma demo_system_members [simp]:
  "sys_store (demo_system s) = s" "sys_queue (demo_system s) = []" "sys_clock (demo_system s) = demo_now"
  by (simp_all add: demo_system_def)

lemma demo_now_nonneg [simp]: "0 \<le> demo_now"
  by (simp add: demo_now_def)


section \<open>Reachable states\<close>

text \<open>
  C1: Start a Runtime over an empty in-memory store with no admitted call waiting.  Whatever calls
  arrive, in whatever order their transactions and the ingestions of Paths run, the state keeps the
  invariant \<open>runtime_ok\<close>: ids are keys, every Workspace has an authority address, every Actor a
  registered Workspace, every Path an attestation of exactly its content, every decided Proposal
  its Decision, every Pact the ALLOW Decision and Canonical Record it needs, every Proof its Pact,
  and every usage counter is within the limit it counts for.
\<close>

theorem reachable_states_ok:
  assumes "(rt_step memory_transact memory_transact E P cfg attestor)\<^sup>*\<^sup>* y y'"
    and "ms_state (sys_store y) = emptyRuntimeState" and "sys_queue y = []" and "0 \<le> sys_clock y"
  shows "runtime_ok E (ms_state (sys_store y'))"
proof -
  have "memory_service.sys_ok E P cfg y"
    using assms(3,4) by (simp add: memory_service.sys_ok_def)
  with assms(1,2) show ?thesis
    by (intro memory_service.rt_run_invariant [of E P cfg attestor y y']) (simp_all add: runtime_ok_empty)
qed

theorem reachable_states_ok_witness:
  "runtime_ok demo_deps demo_state1 \<and> own (st_workspaces demo_state1) ''w1'' = Some demo_workspace"
  using reachable_states_ok [OF demo_rt_run]
  by (simp add: demo_store1_def demo_state1_def)

text \<open>
  C2: Every transition that returns is a step of the specification \<open>runtime_effect\<close>, made by the
  signer of its binding: the ten detailed transitions, with all their guards in their order,
  implement the eleven rules that say who may do what and what changes.
\<close>

theorem transition_refines_effect:
  assumes "transition E request binding at st = Inr (response, st')"
  shows "runtime_effect E (rb_signer binding) at st st'"
  using assms by (rule transition_effect)

theorem transition_refines_effect_witness:
  "runtime_effect demo_deps delegate demo_now demo_state6 demo_state7"
proof -
  have "rb_signer (call_signature pact_call) = delegate"
    by (simp add: call_signature_def pact_call_def)
  moreover obtain resp where "transition demo_deps (call_request pact_call)
      (call_signature pact_call) demo_now demo_state6 = Inr (resp, demo_state7)"
    using pact_takes by (auto simp: call_takes_def)
  ultimately show ?thesis using transition_refines_effect by metis
qed


section \<open>Calls and the store\<close>

lemma normalize_usage_distinct:
  assumes "normalizePathPeriodUsage E raw acc = Inr r" and "distinct (map fst acc)"
  shows "distinct (map fst r)"
  using assms
proof (induction raw arbitrary: acc)
  case Nil
  then show ?case by simp
next
  case (Cons x entries)
  then show ?case
    by (cases x; cases "snd x") (auto simp: res_simps js_set_def distinct_update)
qed

lemma normalize_storable:
  assumes "normalizeRuntimeState E raw = Inr s"
  shows "storable_state E s"
proof -
  obtain u where u: "normalizePathPeriodUsage E (or_empty (ps_pathPeriodUsage raw)) [] = Inr u"
      "st_pathPeriodUsage s = u"
    using assms by (auto simp: normalizeRuntimeState_def res_simps split: if_splits)
  have d: "distinct (map fst u)" by (rule normalize_usage_distinct [OF u(1)]) simp
  have "list_all (usage_entry_ok E) u"
    using normalize_usage_ok [OF u(1)] d
    by (auto simp: list_all_iff own_def)
  with d u(2) show ?thesis by (simp add: storable_state_def)
qed

text \<open>
  C3: A call on the in-memory store is all or nothing.  If it throws, the store is as it was: no
  nonce is consumed and no part of the draft is kept.  If it returns, the call was admitted, its
  replay scope was fresh and is consumed now, and the state is the one the transition computed.
\<close>

theorem execute_all_or_nothing:
  assumes "execute memory_transact E P cfg now at request s = (out, s')" and "0 \<le> at"
  shows "case out of
      Inl e \<Rightarrow> s' = s
    | Inr response \<Rightarrow> \<exists>b scope. admit E P cfg now request = Inr (b, scope) \<and>
        replayScopeKey scope \<notin> set (ms_replayNonces s) \<and>
        replayScopeKey scope \<in> set (ms_replayNonces s') \<and>
        transition E request b at (ms_state s) = Inr (response, ms_state s')"
  using memory_service.execute_outcome [OF TrueI assms(2,1)] by (auto split: sum.splits)

theorem execute_all_or_nothing_witness:
  "\<exists>b scope response. admit demo_deps demo_provider demo_config demo_now (call_request register_call)
     = Inr (b, scope) \<and> replayScopeKey scope \<in> set (ms_replayNonces demo_store1) \<and>
     transition demo_deps (call_request register_call) b demo_now emptyRuntimeState
       = Inr (response, demo_state1)"
proof -
  obtain resp where "execute memory_transact demo_deps demo_provider demo_config demo_now demo_now
     (call_request register_call) demo_store0 = (Inr resp, demo_store1)"
    using register_executes(1) by blast
  from execute_all_or_nothing [OF this demo_now_nonneg] show ?thesis
    by (auto simp: demo_store1_def)
qed

text \<open>
  C4: Once a call has succeeded, its signature is used up for good: however the system runs on, any
  later transaction with the same replay scope ends in \<open>NONCE_CONFLICT\<close> and changes nothing,
  whatever it would have done.
\<close>

theorem replay_never_succeeds:
  fixes g :: "runtime_state \<Rightarrow> rt_error + (operation_response \<times> runtime_state)"
  assumes "sys_queue y = []" and "0 \<le> sys_clock y"
    and "memory_transact (scoped_op scope f) (sys_store y) = (Inr response, s1)"
    and "(rt_step memory_transact memory_transact E P cfg attestor)\<^sup>*\<^sup>* (y\<lparr>sys_store := s1\<rparr>) y'"
  shows "memory_transact (scoped_op scope g) (sys_store y') = (Inl nonce_conflict, sys_store y')"
proof -
  have "memory_service.sys_ok E P cfg (y\<lparr>sys_store := s1\<rparr>)"
    using assms(1,2) by (simp add: memory_service.sys_ok_def)
  moreover have "replayScopeKey scope \<in> set (ms_replayNonces (sys_store (y\<lparr>sys_store := s1\<rparr>)))"
    using memory.scoped_success [OF TrueI assms(3)] by simp
  ultimately show ?thesis by (rule memory_service.consumed_forever [OF assms(4)])
qed

theorem replay_never_succeeds_witness:
  "\<forall>response :: operation_response.
     memory_transact (scoped_op (demo_scope ''1'' owner) (\<lambda>st. Inr (response, st))) demo_store1
       = (Inl nonce_conflict, demo_store1)"
proof -
  obtain resp where *: "memory_transact (scoped_op (demo_scope ''1'' owner)
     (transition demo_deps (call_request register_call) (call_signature register_call) demo_now))
     (sys_store (demo_system demo_store0)) = (Inr resp, demo_store1)"
    using register_executes(2) by auto
  have "(rt_step memory_transact memory_transact demo_deps demo_provider demo_config None)\<^sup>*\<^sup>*
      ((demo_system demo_store0)\<lparr>sys_store := demo_store1\<rparr>) (demo_system demo_store1)"
    by (simp add: demo_system_def)
  from replay_never_succeeds [OF _ _ * this] show ?thesis by simp
qed

text \<open>
  C5: The same for the Postgres store with an answering connection, and the row it writes can always
  be read back: the stored state stays well formed (\<open>pg_invar\<close>: usage counters pass the checks of
  \<open>normalizeRuntimeState\<close>, stored amounts are decimal), a failing call leaves both tables as they
  were, and a successful one stores the transition's state and its nonce.
\<close>

theorem postgres_all_or_nothing:
  assumes "pg_invar E db" and "0 \<le> at"
    and "execute (pg_transact E answering) E P cfg now at request db = (out, db')"
  shows "pg_invar E db' \<and>
    (case out of
       Inl e \<Rightarrow> db' = db
     | Inr response \<Rightarrow> \<exists>b scope. admit E P cfg now request = Inr (b, scope) \<and>
         replayValues scope \<notin> set (pg_nonces db) \<and> replayValues scope \<in> set (pg_nonces db') \<and>
         transition E request b at (pg_state_of E db) = Inr (response, pg_state_of E db'))"
  using postgres_service.execute_outcome [OF assms] by (auto split: sum.splits)

theorem postgres_all_or_nothing_witness:
  "pg_invar demo_deps demo_db1 \<and> replayValues (demo_scope ''1'' owner) \<in> set (pg_nonces demo_db1)"
proof -
  obtain resp where "execute (pg_transact demo_deps answering) demo_deps demo_provider demo_config
      demo_now demo_now (call_request register_call) \<lparr>pg_state = None, pg_nonces = []\<rparr> = (Inr resp, demo_db1)"
    using register_executes_postgres by blast
  from postgres_all_or_nothing [OF pg_invar_initial demo_now_nonneg this]
  show ?thesis by (simp add: demo_db1_def)
qed


text \<open>
  The two stores agree on which signatures are replays: on scopes whose parts hold no colon, the
  in-memory store's joined key and the Postgres store's five columns distinguish the same scopes.
\<close>

theorem replay_keys_agree:
  assumes "colon_free_scope a" and "colon_free_scope b"
  shows "replayScopeKey a = replayScopeKey b \<longleftrightarrow> replayValues a = replayValues b"
  using assms by (rule replayScopeKey_eq_iff)

theorem replay_keys_agree_witness:
  "replayScopeKey (demo_scope ''1'' owner) \<noteq> replayScopeKey (demo_scope ''2'' owner)"
proof -
  have "colon_free_scope (demo_scope ''1'' owner)" "colon_free_scope (demo_scope ''2'' owner)"
    by code_simp+
  from replay_keys_agree [OF this] show ?thesis by (simp add: replayValues_def demo_scope_def)
qed

text \<open>
  C7: Persisting and reading back is the identity on every state whose usage counters are well
  formed and canonically keyed, and whatever a row holds, reading it either throws or gives such a
  state.
\<close>

theorem persisted_state_round_trip:
  "(storable_state E s \<longrightarrow> normalizeRuntimeState E (persist s) = Inr s) \<and>
   (normalizeRuntimeState E raw = Inr s \<longrightarrow> storable_state E s)"
  using normalize_persist normalize_storable by blast

theorem persisted_state_round_trip_witness:
  "normalizeRuntimeState demo_deps (persist emptyRuntimeState) = Inr emptyRuntimeState"
  using persisted_state_round_trip storable_empty by blast


section \<open>Spending\<close>

text \<open>
  C8: In every state a Runtime reaches from an empty store, each usage counter belongs to a Path
  that was activated and to one of its limits, and both its count and its amount are within that
  limit: no period bucket is ever overspent, by any interleaving of calls.
\<close>

theorem spending_within_limits:
  assumes "runtime_run E emptyRuntimeState st" and "own (st_pathPeriodUsage st) k = Some u"
  shows "\<exists>p limit. own (st_paths st) (us_pathId u) = Some p \<and> pa_status p \<noteq> PS_PREPARED \<and>
    limit_of_usage p u = Some limit \<and> within_limit limit u \<and> pathPeriodUsageKey E u = Inr k"
proof -
  have "usage_ok E st" using run_ok [OF assms(1) runtime_ok_empty] by (simp add: runtime_ok_def)
  with assms(2) have "counted (st_paths st) u" "pathPeriodUsageKey E u = Inr k"
    by (simp_all add: usage_ok_def)
  then show ?thesis by (auto simp: counted_def spent_within_def split: option.splits)
qed

theorem spending_within_limits_witness:
  "\<exists>limit. limit_of_usage demo_attested (raised_usage demo_usage_id 1 40) = Some limit \<and>
     within_limit limit (raised_usage demo_usage_id 1 40)"
proof -
  have "own (st_pathPeriodUsage demo_state6) demo_usage_key = Some (raised_usage demo_usage_id 1 40)"
    by (simp add: demo_state6_def)
  from spending_within_limits [OF run_to_state6 this] show ?thesis
    by (auto simp: demo_states demo_usage_id_def)
qed

text \<open>
  A reservation is exact: the counter it stores is the stored counter of the payment's bucket
  (or zero), with the count raised by one and the amount by the payment's amount, under the key of
  that bucket, and it is within the limit.
\<close>

theorem reservation_is_exact:
  assumes "reserve_limit E st path limit i terms now = Inr r"
  shows "\<exists>u usage count used amount. counts_for E path limit i now u \<and>
    pathPeriodUsageKey E u = Inr (ur_key r) \<and>
    (own (st_pathPeriodUsage st) (ur_key r) = Some usage \<or>
     own (st_pathPeriodUsage st) (ur_key r) = None \<and> usage = zero_usage u) \<and>
    BigInt (us_transactionCount usage) = Some count \<and> BigInt (us_amount usage) = Some used \<and>
    BigInt (pt_amount terms) = Some amount \<and>
    BigInt (us_transactionCount (ur_value r)) = Some (count + 1) \<and>
    BigInt (us_amount (ur_value r)) = Some (used + amount) \<and> within_limit limit (ur_value r)"
proof -
  obtain u usage count used amount where *:
      "counts_for E path limit i now u" "pathPeriodUsageKey E u = Inr (ur_key r)"
      "currentUsage st (ur_key r) u = Inr usage"
      "BigInt (us_transactionCount usage) = Some count" "BigInt (us_amount usage) = Some used"
      "BigInt (pt_amount terms) = Some amount"
      "ur_value r = raised_usage u (count + 1) (used + amount)" "within_limit limit (ur_value r)"
    using assms by (rule reserve_limit_Inr)
  then show ?thesis
    using currentUsage_eq_Inr [OF *(3)]
    by (intro exI [of _ u] exI [of _ usage] exI [of _ count] exI [of _ used] exI [of _ amount]) simp
qed

theorem reservation_is_exact_witness:
  "\<exists>r. reserve_limit demo_deps demo_state5 demo_attested demo_limit 0 demo_terms demo_now = Inr r \<and>
     BigInt (us_amount (ur_value r)) = Some 40 \<and> within_limit demo_limit (ur_value r)"
proof -
  let ?r = "\<lparr>ur_key = demo_usage_key, ur_value = raised_usage demo_usage_id 1 40\<rparr>"
  have "st_pathPeriodUsage demo_state5 = []" by (simp add: demo_states)
  from demo_reservation [OF this]
  have *: "reserve_limit demo_deps demo_state5 demo_attested demo_limit 0 demo_terms demo_now = Inr ?r"
    by (auto simp: assertPathAuthority_def demo_attested_binding demo_limit_check demo_terms_def
        Let_def res_simps)
  from reservation_is_exact [OF this] have "within_limit demo_limit (ur_value ?r)" by blast
  with * show ?thesis by simp
qed

text \<open>
  The bucket a payment at time \<open>now\<close> is counted in starts at a multiple of the period and holds
  the current second: payments are never counted in a past or future bucket.
\<close>

theorem bucket_holds_now:
  assumes "0 \<le> now" and "0 < period" and "usageBucketStart now period = Inr bucket"
  shows "0 \<le> bucket \<and> period dvd bucket \<and> bucket \<le> now div 1000 \<and> now div 1000 < bucket + period"
  using usageBucketStart_bounds [OF assms] by blast

theorem bucket_holds_now_witness: "(3600 :: int) dvd 1751371200"
proof -
  have "usageBucketStart demo_now 3600 = Inr 1751371200"
    by (simp add: usageBucketStart_def demo_now_def trunc_div_def)
  from bucket_holds_now [OF demo_now_nonneg _ this] show ?thesis by simp
qed


section \<open>Paths\<close>



text \<open>
  Only the wallet that registered a Workspace changes its Paths: a transition after which some
  Path differs was signed by the authority of that Path's Workspace.
\<close>

theorem paths_change_by_authority:
  assumes "transition E request b at st = Inr (response, st')"
    and "own (st_paths st') pid \<noteq> own (st_paths st) pid"
  shows "\<exists>p w a. own (st_paths st') pid = Some p \<and> pa_status p \<in> {PS_ACTIVE, PS_REVOKED} \<and>
    workspace_authority E st (ref_id (pa_workspaceRef p)) w a \<and> sameAddress E (rb_signer b) a"
  using transition_effect [OF assms(1)] assms(2)
  by cases (auto split: if_splits)

theorem paths_change_by_authority_witness:
  "\<exists>w a. workspace_authority demo_deps demo_state9 ''w1'' w a \<and> sameAddress demo_deps owner a"
proof -
  obtain resp where *: "transition demo_deps (call_request revoke_call) (call_signature revoke_call)
      demo_now demo_state9 = Inr (resp, demo_state10)"
    using revoke_takes by (auto simp: call_takes_def)
  have "own (st_paths demo_state10) ''p1'' \<noteq> own (st_paths demo_state9) ''p1''"
    by (simp add: demo_states demo_attested_def demo_path_def)
  from paths_change_by_authority [OF * this] show ?thesis
    by (auto simp: demo_state10_def call_signature_def revoke_call_def)
qed


section \<open>Decisions, Pacts and Proofs\<close>

text \<open>
  C10: Every Pact a Runtime ever holds is active and rests on an ALLOW Decision that names it, taken
  on a Proposal that is still ALLOWED with the same input hash and policy version; a Pact whose
  policy requires a Canonical Record has one that both parties signed.
\<close>

theorem pacts_rest_on_decisions:
  assumes "runtime_run E emptyRuntimeState st" and "own (st_pacts st) pid = Some c"
  shows "pc_id c = pid \<and> pc_status c = PTS_ACTIVE \<and>
    (\<exists>d r x. pc_decisionRef c = Some x \<and> own (st_decisions st) (ref_id x) = Some d \<and>
       de_decision d = DK_ALLOW \<and> map_option ref_id (de_pactRef d) = Some pid \<and>
       own (st_proposals st) (ref_id (de_proposalRef d)) = Some r \<and> pr_status r = PRS_ALLOWED \<and>
       de_inputHash d = pr_inputHash r \<and> pr_policyVersion r = Some (de_policyVersion d)) \<and>
    recorded_pact E (st_canonicalRecords st) c"
proof -
  have ok: "ids_ok st" "pacts_ok E st"
    using run_ok [OF assms(1) runtime_ok_empty] by (simp_all add: runtime_ok_def)
  have c: "pc_id c = pid" "pc_status c = PTS_ACTIVE" "recorded_pact E (st_canonicalRecords st) c"
      "allowed_pact (st_proposals st) (st_decisions st) c"
    using ok assms(2) by (auto simp: ids_ok_def pacts_ok_def dest: keyedD)
  obtain d r x y z where *: "pc_decisionRef c = Some x" "own (st_decisions st) (ref_id x) = Some d"
      "pc_proposalRef c = Some y" "own (st_proposals st) (ref_id y) = Some r" "evaluated r d"
      "pr_status r = PRS_ALLOWED" "de_pactRef d = Some z" "ref_id z = pc_id c"
    using c(4) by (auto simp: allowed_pact_def)
  have "ref_id (de_proposalRef d) = pr_id r" using *(5) by (simp add: evaluated_def)
  also have "\<dots> = ref_id y" using ok(1) *(4) by (auto simp: ids_ok_def dest: keyedD)
  finally have "own (st_proposals st) (ref_id (de_proposalRef d)) = Some r" using *(4) by simp
  then show ?thesis
    using c * by (intro conjI exI [of _ d] exI [of _ r] exI [of _ x]) (auto simp: evaluated_def)
qed

theorem pacts_rest_on_decisions_witness:
  "pc_status demo_signed_pact = PTS_ACTIVE \<and> recorded_pact demo_deps [] demo_signed_pact"
proof -
  have "own (st_pacts demo_state9) ''c1'' = Some demo_signed_pact" by (simp add: demo_states)
  from pacts_rest_on_decisions [OF run_to_state9 this] show ?thesis by (simp add: demo_states)
qed

text \<open>
  A Decision allows one Pact: two Pacts of a reachable state that name the same Decision are the
  same Pact.
\<close>

theorem one_pact_per_decision:
  assumes "runtime_run E emptyRuntimeState st"
    and "own (st_pacts st) p1 = Some c1" and "own (st_pacts st) p2 = Some c2"
    and "pc_decisionRef c1 = Some x1" and "pc_decisionRef c2 = Some x2" and "ref_id x1 = ref_id x2"
  shows "c1 = c2 \<and> p1 = p2"
proof -
  have ok: "ids_ok st" "pacts_ok E st"
    using run_ok [OF assms(1) runtime_ok_empty] by (simp_all add: runtime_ok_def)
  have "\<exists>d z. own (st_decisions st) (ref_id x) = Some d \<and> de_pactRef d = Some z \<and> ref_id z = p"
    if "own (st_pacts st) p = Some c" "pc_decisionRef c = Some x" for p c x
  proof -
    have "allowed_pact (st_proposals st) (st_decisions st) c" "pc_id c = p"
      using ok that(1) by (auto simp: ids_ok_def pacts_ok_def dest: keyedD)
    then show ?thesis using that(2) by (auto simp: allowed_pact_def)
  qed
  from this [OF assms(2,4)] this [OF assms(3,5)] assms(6) have "p1 = p2" by auto
  with assms(2,3) show ?thesis by simp
qed

theorem one_pact_per_decision_witness:
  "{(p, c). own (st_pacts demo_state9) p = Some c \<and>
      (\<exists>x. pc_decisionRef c = Some x \<and> ref_id x = ''decision:r1'')} = {(''c1'', demo_signed_pact)}"
proof -
  have c1: "own (st_pacts demo_state9) ''c1'' = Some demo_signed_pact" by (simp add: demo_states)
  have r1: "pc_decisionRef demo_signed_pact = Some (mk_ref OT_BaphometDecision ''decision:r1'')" by simp
  from one_pact_per_decision [OF run_to_state9 _ c1 _ r1] c1 r1 show ?thesis by fastforce
qed

text \<open>
  C11: Nothing that was decided, signed or recorded is taken back: in every later state a decided
  Proposal, a Decision, a Pact, its commitment, a Canonical Record and a verified Proof are the
  same.
\<close>

theorem decisions_are_final:
  assumes "runtime_ok E st" and "runtime_run E st st'"
  shows "(\<forall>k r. own (st_proposals st) k = Some r \<longrightarrow> pr_status r \<noteq> PRS_EVALUATING \<longrightarrow>
      own (st_proposals st') k = Some r) \<and>
    (\<forall>k d. own (st_decisions st) k = Some d \<longrightarrow> own (st_decisions st') k = Some d) \<and>
    (\<forall>k c. own (st_pacts st) k = Some c \<longrightarrow> own (st_pacts st') k = Some c) \<and>
    (\<forall>k x. own (st_canonicalRecords st) k = Some x \<longrightarrow> own (st_canonicalRecords st') k = Some x) \<and>
    (\<forall>k f. own (st_proofs st) k = Some f \<longrightarrow> pf_status f = PFS_VERIFIED \<longrightarrow>
      own (st_proofs st') k = Some f)"
proof (intro conjI allI impI)
  fix k r
  assume r: "own (st_proposals st) k = Some r" "pr_status r \<noteq> PRS_EVALUATING"
  show "own (st_proposals st') k = Some r"
  proof (rule run_keeps [where f = st_proposals, OF assms(2,1) r(1)])
    fix s s' assume "evolves E s s'" "own (st_proposals s) k = Some r"
    then show "own (st_proposals s') k = Some r"
      using r(2) by (auto simp: evolves_def proposal_moves_def dest!: advancesD)
  qed
next
  fix k d assume "own (st_decisions st) k = Some d"
  then show "own (st_decisions st') k = Some d"
    by (rule run_keeps [where f = st_decisions, OF assms(2,1)]) (auto simp: evolves_def dest: growsD)
next
  fix k c assume "own (st_pacts st) k = Some c"
  then show "own (st_pacts st') k = Some c"
    by (rule run_keeps [where f = st_pacts, OF assms(2,1)]) (auto simp: evolves_def dest: growsD)
next
  fix k x assume "own (st_canonicalRecords st) k = Some x"
  then show "own (st_canonicalRecords st') k = Some x"
    by (rule run_keeps [where f = st_canonicalRecords, OF assms(2,1)])
      (auto simp: evolves_def dest: growsD)
next
  fix k f
  assume f: "own (st_proofs st) k = Some f" "pf_status f = PFS_VERIFIED"
  show "own (st_proofs st') k = Some f"
  proof (rule run_keeps [where f = st_proofs, OF assms(2,1) f(1)])
    fix s s' assume "evolves E s s'" "own (st_proofs s) k = Some f"
    then show "own (st_proofs s') k = Some f"
      using f(2) by (auto simp: evolves_def proof_moves_def dest!: advancesD)
  qed
qed

theorem decisions_are_final_witness:
  "own (st_proposals demo_state9) ''r1'' = Some demo_allowed \<and>
   own (st_decisions demo_state9) ''decision:r1'' = Some demo_decision"
proof -
  have "own (st_proposals demo_state6) ''r1'' = Some demo_allowed"
      "own (st_decisions demo_state6) ''decision:r1'' = Some demo_decision"
    by (simp_all add: demo_state6_def)
  with decisions_are_final [OF demo_states_ok(1) run_from_state6] show ?thesis by simp
qed

text \<open>
  A Pact signed with a Canonical Record is bound to it: the record names the Pact and is named by
  it, its commitment is the hash of the record's own envelope, the commitment is what every
  signature on it signs, and the signatures cover the two distinct parties; without a record the
  Pact's policy does not require one.
\<close>

theorem canonical_record_binds_pact:
  assumes "assertCanonicalRecordBinding E c supplied = Inr ()"
  shows "case supplied of
      None \<Rightarrow> record_policy c \<noteq> RM_required
    | Some x \<Rightarrow> record_policy c \<noteq> RM_omitted \<and> attests_pact E x c \<and>
        (\<exists>r. pc_canonicalRecordRef c = Some r \<and> ref_id r = cr_id x)"
  using canonical_binding_attests [OF assms] by (auto split: option.split)

definition demo_unsigned_record :: canonical_record where
  "demo_unsigned_record =
     \<lparr>cr_ciphertextHash = ''0x05'', cr_createdAt = ''2025-07-01T11:00:00Z'', cr_encryptedKeys = [],
      cr_encryption = \<lparr>en_algorithm = ''none'', en_keyAgreement = ''none'', en_mode = RX_public\<rparr>,
      cr_executionProfile = EP_delegated_runtime, cr_extensions = None, cr_id = ''x1'',
      cr_interfaceVersion = IV_1_2_0, cr_pactRef = mk_ref OT_Pact ''c1'',
      cr_plaintextCommitment = ''0x06'', cr_previousCommitment = ''0x00'',
      cr_provenance = demo_provenance, cr_sequence = ''1'', cr_settlementReferences = [],
      cr_signatures = [], cr_storageLocators = []\<rparr>"

definition demo_commitment :: string where
  "demo_commitment =
     (case canonicalRecordCommitment demo_deps demo_unsigned_record of Inr c \<Rightarrow> c | Inl e \<Rightarrow> [])"

definition demo_record_signature :: "string \<Rightarrow> record_signature" where
  "demo_record_signature i =
     \<lparr>rs_actorRef = mk_ref OT_Actor i, rs_algorithm = ''eip-712'', rs_signature = ''0x'',
      rs_signedAt = ''2025-07-01T11:30:00Z'', rs_signedCommitment = demo_commitment\<rparr>"

definition demo_record :: canonical_record where
  "demo_record = demo_unsigned_record
     \<lparr>cr_signatures := [demo_record_signature ''a1'', demo_record_signature ''a2'']\<rparr>"

definition demo_recorded_pact :: pact where
  "demo_recorded_pact = demo_signed_pact
     \<lparr>pc_canonicalRecordPolicy := Some \<lparr>crp_exposure = RX_public, crp_mode = RM_required,
        crp_signatureRequirement = ''both''\<rparr>,
      pc_canonicalRecordRef := Some (mk_ref OT_CanonicalRecord ''x1'')\<rparr>"

lemma demo_record_bound: "assertCanonicalRecordBinding demo_deps demo_recorded_pact (Some demo_record) = Inr ()"
proof -
  have commitment: "canonicalRecordCommitment demo_deps demo_record = Inr demo_commitment"
    by (simp add: demo_commitment_def canonicalRecordCommitment_def canonical_def demo_record_def
        demo_unsigned_record_def)
  have "assertValidSchema demo_deps (schema_id ''canonical-record'') v = Inr ()" for v
    by (simp add: assertValidSchema_def validatorFor_def demo_validate_def schema_id_def payload_schema_def)
  moreover have "cr_id demo_record = ''x1''" "cr_pactRef demo_record = mk_ref OT_Pact ''c1''"
      "map (\<lambda>s. ref_id (rs_actorRef s)) (cr_signatures demo_record) = [''a1'', ''a2'']"
      "list_all (\<lambda>s. rs_signedCommitment s = demo_commitment) (cr_signatures demo_record)"
      "en_mode (cr_encryption demo_record) = RX_public" "cr_encryptedKeys demo_record = []"
    by (simp_all add: demo_record_def demo_unsigned_record_def demo_record_signature_def)
  moreover have "record_policy demo_recorded_pact = RM_required" "pc_id demo_recorded_pact = ''c1''"
      "pc_canonicalRecordRef demo_recorded_pact = Some (mk_ref OT_CanonicalRecord ''x1'')"
      "pc_parties demo_recorded_pact = [mk_ref OT_Actor ''a1'', mk_ref OT_Actor ''a2'']"
    by (simp_all add: record_policy_def demo_recorded_pact_def)
  ultimately show ?thesis
    using commitment
    by (simp add: assertCanonicalRecordBinding_def covers_parties_def list_all_iff list_ex_iff Let_def)
qed

theorem canonical_record_binds_pact_witness:
  "attests_pact demo_deps demo_record demo_recorded_pact"
  using canonical_record_binds_pact [OF demo_record_bound] by simp


section \<open>Signatures and envelopes\<close>



text \<open>
  A signature is accepted only inside its time window: both ends are dates, the window is not
  empty and not longer than the configured maximum, it was not issued later than the clock skew
  allows, and it has not expired.
\<close>

theorem signature_window_exact:
  "assertSignatureWindow b opts = Inr () \<longleftrightarrow>
     (\<exists>issued expires. Date_parse (rb_issuedAt b) = Some issued \<and>
        Date_parse (rb_expiresAt b) = Some expires \<and> issued < expires \<and>
        issued \<le> bo_now opts + bo_clockSkewSeconds opts * 1000 \<and> bo_now opts < expires \<and>
        expires - issued \<le> bo_maxSignatureLifetimeSeconds opts * 1000)"
  by (auto simp: assertSignatureWindow_def not_le not_less split: option.splits if_splits)

text \<open>
  A signature is verified by recovering the signer when the account has no code, and by the
  account's own \<open>isValidSignature\<close> answering the EIP-1271 magic value when it has; nothing else is
  accepted, in particular no malformed answer of the provider.
\<close>

theorem signature_verified_exact:
  "verify E P b = Inr () \<longleftrightarrow>
     (\<exists>code. prov_getCode P (rb_signer b) = Inr (JStr code) \<and> is_hex_bytes code \<and>
        (if code = ''0x''
         then \<exists>recovered. recoverRuntimeTransitionSigner E b = Inr recovered \<and>
           sameAddress E recovered (rb_signer b)
         else \<exists>digest callData result decoded. hashRuntimeTransition E b = Inr digest \<and>
           ext_encodeIsValidSignature E digest (rb_signature b) = Some callData \<and>
           prov_call P (rb_signer b) callData = Inr (JStr result) \<and> is_hex_bytes result \<and>
           ext_decodeIsValidSignature E result = Some decoded \<and>
           toLowerCase decoded = EIP1271_MAGIC_VALUE))"
  by (simp add: verify_eq_Inr verifyEoa_eq_Inr verifyContract_eq_Inr if_distrib cong: if_cong)

text \<open>
  The envelope checks of a signed request are exactly these: every reference of the payload is
  repeated in the envelope, and the signature binding names the envelope's operation, its own
  domain's chain and the envelope's chain, the hash of the payload, and the subject's wallet.
\<close>

theorem envelope_bindings_exact:
  assumes "isSignedRuntimeTransitionOperation operationId" and "signed_shape (rq_data r) b"
  shows "validateRuntimeTransitionBindings E operationId (Some (json_of_request r)) Request_direction = []
    \<longleftrightarrow> binds_envelope E operationId r b"
  using assms by (rule bindings_request_iff)

theorem envelope_bindings_exact_witness:
  "validateRuntimeTransitionBindings demo_deps ''actor.register''
     (Some (json_of_request (call_request register_call))) Request_direction \<noteq> []"
proof -
  have s: "isSignedRuntimeTransitionOperation ''actor.register''"
    by (simp add: isSignedRuntimeTransitionOperation_def SIGNED_RUNTIME_TRANSITION_OPERATIONS_def)
  have "signed_shape (rq_data (call_request register_call)) (call_signature register_call)"
    by (simp add: call_defs register_call_def signed_shape_def request_sig_def)
  from envelope_bindings_exact [OF s this, of demo_deps]
  show ?thesis by (simp add: binds_envelope_def call_signature_def register_call_def demo_signature_def)
qed

lemma registry_names:
  "list_all (\<lambda>e. op_capability e = op_operationId e) registry"
  "distinct (map op_operationId registry)"
  by (simp_all add: registry_def)

text \<open>
  An operation is looked up unambiguously: a registered name resolves to the one entry with this
  operation id and capability, and the ten operations the Runtime runs are registered and signed.
\<close>

theorem registry_unambiguous:
  "(resolveOperation name = Inr operation \<longleftrightarrow>
      operation \<in> set registry \<and> op_operationId operation = name \<and> op_capability operation = name) \<and>
   (name \<in> set RUNTIME_OPERATION_IDS \<longrightarrow>
      isSignedRuntimeTransitionOperation name \<and> \<not> throws (resolveOperation name))"
proof -
  have cap: "op_capability e = op_operationId e" if "e \<in> set registry" for e
    using registry_names(1) that by (simp add: list_all_iff)
  have one: "e = e'" if "e \<in> set registry" "e' \<in> set registry" "op_operationId e = op_operationId e'" for e e'
    using registry_names(2) that by (simp add: distinct_map inj_on_def)
  have "resolveOperation name = Inr operation \<longleftrightarrow>
      operation \<in> set registry \<and> op_operationId operation = name \<and> op_capability operation = name"
  proof
    assume "resolveOperation name = Inr operation"
    then have "List.find (\<lambda>e. op_operationId e = name \<or> op_capability e = name) registry = Some operation"
      by (auto simp: resolveOperation_def split: option.splits)
    then show "operation \<in> set registry \<and> op_operationId operation = name \<and> op_capability operation = name"
      using cap by (auto dest: find_SomeD)
  next
    assume *: "operation \<in> set registry \<and> op_operationId operation = name \<and> op_capability operation = name"
    then obtain e where e: "List.find (\<lambda>e. op_operationId e = name \<or> op_capability e = name) registry = Some e"
      by (cases "List.find (\<lambda>e. op_operationId e = name \<or> op_capability e = name) registry")
        (auto simp: find_None_iff)
    then have "e \<in> set registry" "op_operationId e = name" using cap by (auto dest: find_SomeD)
    with * one e show "resolveOperation name = Inr operation" by (auto simp: resolveOperation_def)
  qed
  moreover have "name \<in> set RUNTIME_OPERATION_IDS \<longrightarrow>
      isSignedRuntimeTransitionOperation name \<and> \<not> throws (resolveOperation name)"
    by (auto simp: RUNTIME_OPERATION_IDS_def runtime_operations isSignedRuntimeTransitionOperation_def
        SIGNED_RUNTIME_TRANSITION_OPERATIONS_def)
  ultimately show ?thesis by blast
qed

theorem registry_unambiguous_witness: "\<not> throws (resolveOperation ''pact.sign'')"
  using registry_unambiguous [of "''pact.sign''"] by (simp add: RUNTIME_OPERATION_IDS_def)


section \<open>Options and registration\<close>

text \<open>
  A Runtime is constructed exactly with a signature lifetime of 1 to 900 seconds and a clock
  skew of 0 to 300 seconds, and keeps the values given or the defaults.
\<close>

theorem runtime_options_bounded:
  "newRuntime lifetime skew = Inr cfg \<longleftrightarrow>
     cfg_maxSignatureLifetimeSeconds cfg = (case lifetime of None \<Rightarrow> 900 | Some x \<Rightarrow> x) \<and>
     cfg_clockSkewSeconds cfg = (case skew of None \<Rightarrow> 30 | Some x \<Rightarrow> x) \<and>
     1 \<le> cfg_maxSignatureLifetimeSeconds cfg \<and> cfg_maxSignatureLifetimeSeconds cfg \<le> 900 \<and>
     0 \<le> cfg_clockSkewSeconds cfg \<and> cfg_clockSkewSeconds cfg \<le> 300"
  by (cases cfg)
    (auto simp: newRuntime_def MAX_SIGNATURE_LIFETIME_SECONDS_def DEFAULT_CLOCK_SKEW_SECONDS_def
      is_safe_integer_def Let_def split: option.splits)

text \<open>
  Registration is open and first come, first served: an authenticated \<open>workspace.register\<close> is
  prepared exactly when the id is free, the Workspace is a draft or active, the signer is an address,
  and the id is not a name that plain objects inherit (such as \<open>constructor\<close>).
\<close>

theorem registration_exact:
  assumes "rq_data request = RD_workspace w s"
  shows "(\<exists>p. prepareWorkspace E request b st at = Inr p) \<longleftrightarrow>
    own (st_workspaces st) (ws_id w) = None \<and>
    own (st_workspaceAuthorities st) (ws_id w) \<in> {None, Some []} \<and>
    ws_id w \<notin> set prototype_keys \<and> isUsableWorkspace w \<and> ext_getAddress E (rb_signer b) \<noteq> None"
proof -
  obtain resp where resp: "buildResponse request ''workspace.register'' LS_PREPARED
      (SD_request (rq_data request)) at [] = Inr resp"
    by (simp add: buildResponse_def runtime_operations Let_def)
  have p: "present (js_get r k) \<longleftrightarrow> own r k \<noteq> None \<or> k \<in> set prototype_keys" for r :: "workspace js_record" and k
    by (auto simp: present_def js_get_own split: option.split)
  have t: "truthy_text (js_get r k) \<longleftrightarrow>
      (case own r k of None \<Rightarrow> k \<in> set prototype_keys | Some x \<Rightarrow> x \<noteq> [])" for r k
    by (auto simp: truthy_text_def js_get_own split: option.split)
  show ?thesis
    using assms resp
    by (auto simp: prepareWorkspace_def p t isUsableWorkspace_def getAddress_or_throw_def prepared_def
        split: option.splits)
qed

theorem registration_exact_witness:
  "\<exists>p. prepareWorkspace demo_deps (call_request register_call) (call_signature register_call)
     emptyRuntimeState demo_now = Inr p"
proof -
  have d: "rq_data (call_request register_call)
      = RD_workspace demo_workspace (Sig (call_signature register_call))"
    by (simp add: call_defs register_call_def)
  have "isUsableWorkspace demo_workspace" by (simp add: isUsableWorkspace_def demo_workspace_def)
  with registration_exact [OF d, of demo_deps] show ?thesis
    by (simp add: emptyRuntimeState_def prototype_keys_def call_signature_def register_call_def)
qed

text \<open>
  An id that plain objects inherit can never be registered: over any state, empty ones included,
  the code takes the inherited method for a registered Workspace and answers \<open>STATE_STALE\<close>.
\<close>

theorem inherited_id_is_refused:
  assumes "rq_data request = RD_workspace w s" and "ws_id w = ''constructor''"
  shows "prepareWorkspace E request b st at
    = Inl (rt_err STATE_STALE ''Workspace has already been registered.'')"
proof -
  have "present (js_get (st_workspaces st) ''constructor'')"
    by (auto simp: present_def js_get_own prototype_keys_def split: option.split)
  with assms show ?thesis by (simp add: prepareWorkspace_def)
qed

theorem inherited_id_is_refused_witness:
  "prepareWorkspace demo_deps
     (demo_request ''workspace.register'' ''1'' owner (RD_workspace (demo_workspace\<lparr>ws_id := ''constructor''\<rparr>) No_sig))
     (call_signature register_call) emptyRuntimeState demo_now
   = Inl (rt_err STATE_STALE ''Workspace has already been registered.'')"
  by (rule inherited_id_is_refused [where w = "demo_workspace\<lparr>ws_id := ''constructor''\<rparr>"]) simp_all

text \<open>
  A Path's signature window does not close at a date that does not exist: the schema's format
  accepts \<open>2030-13-01T00:00:00Z\<close>, \<open>Date.parse\<close> gives \<open>NaN\<close> for it, and with it as the expiry the
  binding passes at every time from its issue on.
\<close>

theorem impossible_expiry_never_closes:
  assumes "sb_expiresAt (pa_signatureBinding p) = ''2030-13-01T00:00:00Z''"
    and "Date_parse (sb_issuedAt (pa_signatureBinding p)) = Some issued" and "issued \<le> now"
    and "assertPathBinding E p issued = Inr ()"
  shows "date_time_format (sb_expiresAt (pa_signatureBinding p)) \<and> assertPathBinding E p now = Inr ()"
  using assms month_13_NaN month_13_format
  by (auto simp: assertPathBinding_def binding_window_closed_def res_simps Let_def js_le_def)

definition demo_endless_path :: path where
  "demo_endless_path = demo_path
     \<lparr>pa_signatureBinding := demo_binding\<lparr>sb_expiresAt := ''2030-13-01T00:00:00Z''\<rparr>\<rparr>"

theorem impossible_expiry_never_closes_witness:
  "assertPathBinding demo_deps demo_endless_path 99999999999999 = Inr ()"
proof -
  let ?b = "pa_signatureBinding demo_endless_path"
  have b: "sb_expiresAt ?b = ''2030-13-01T00:00:00Z''" "sb_issuedAt ?b = ''2025-01-01T00:00:00Z''"
    by (simp_all add: demo_endless_path_def demo_binding_def)
  have d: "Date_parse (sb_issuedAt ?b) = Some 1735689600000" by (simp only: b demo_dates)
  have "assertPathBinding demo_deps demo_endless_path 1735689600000 = Inr ()"
    using month_13_NaN
    by (simp add: assertPathBinding_def settlementTypedDataDomain_def arc_typedDataDomains_def
        arc_network_def sameAddress_def binds_settlement_domain_def demo_endless_path_def demo_binding_def
        binding_window_closed_def demo_dates js_le_def flip: arc_anchorContract_def)
  from impossible_expiry_never_closes [OF b(1) d _ this] show ?thesis by simp
qed

end
