(* ===== verification/Js_Collections.thy ===== *)
theory Js_Collections
  imports Js_Values
begin

text \<open>
  The collections of the language that keep insertion order: \<open>Map\<close>, an association list whose
  keys are distinct (a write to a key it has keeps the key's place), and \<open>Set\<close>, a list without
  repetitions.
\<close>

section \<open>Map\<close>

type_synonym 'v js_map = "(string \<times> 'v) list"

definition map_get :: "'v js_map \<Rightarrow> string \<Rightarrow> 'v option" where
  "map_get m k = map_of m k"

definition map_put :: "string \<Rightarrow> 'v \<Rightarrow> 'v js_map \<Rightarrow> 'v js_map" where
  "map_put k v m = AList.update k v m"

definition map_delete :: "string \<Rightarrow> 'v js_map \<Rightarrow> 'v js_map" where
  "map_delete k m = AList.delete k m"

definition map_values :: "'v js_map \<Rightarrow> 'v list" where
  "map_values m = map snd m"

definition proper_map :: "'v js_map \<Rightarrow> bool" where
  "proper_map m \<longleftrightarrow> distinct (map fst m)"

lemma map_get_Nil [simp]: "map_get [] k = None"
  by (simp add: map_get_def)

lemma map_get_put [simp]: "map_get (map_put k v m) = (map_get m)(k \<mapsto> v)"
  by (rule ext) (simp add: map_get_def map_put_def update_conv')

lemma map_get_delete [simp]: "map_get (map_delete k m) = (map_get m)(k := None)"
  by (rule ext) (simp add: map_get_def map_delete_def delete_conv')

lemma proper_map_Nil [simp]: "proper_map []"
  by (simp add: proper_map_def)

lemma proper_map_put [simp]: "proper_map m \<Longrightarrow> proper_map (map_put k v m)"
  by (simp add: proper_map_def map_put_def distinct_update)

lemma proper_map_delete [simp]: "proper_map m \<Longrightarrow> proper_map (map_delete k m)"
  by (simp add: proper_map_def map_delete_def distinct_delete)

lemma map_values_iff: "proper_map m \<Longrightarrow> x \<in> set (map_values m) \<longleftrightarrow> (\<exists>k. map_get m k = Some x)"
  by (force simp: proper_map_def map_values_def map_get_def)

lemma map_values_put_fresh:
  "map_get m k = None \<Longrightarrow> map_values (map_put k v m) = map_values m @ [v]"
  by (induction m) (auto simp: map_get_def map_put_def map_values_def split: if_splits)

lemma map_put_get: "map_get m k = Some v \<Longrightarrow> map_put k v m = m"
  by (induction m) (auto simp: map_get_def map_put_def split: if_splits)

lemma map_fst_put:
  "map fst (map_put k v m) = (if map_get m k = None then map fst m @ [k] else map fst m)"
  by (induction m) (auto simp: map_get_def map_put_def)


section \<open>Set\<close>

definition set_add :: "'a \<Rightarrow> 'a list \<Rightarrow> 'a list" where
  "set_add x s = (if x \<in> set s then s else s @ [x])"

definition set_delete :: "'a \<Rightarrow> 'a list \<Rightarrow> 'a list" where
  "set_delete x s = removeAll x s"

lemma set_add_iff [simp]: "set (set_add x s) = insert x (set s)"
  by (auto simp: set_add_def)

lemma set_delete_iff [simp]: "set (set_delete x s) = set s - {x}"
  by (simp add: set_delete_def)

lemma set_delete_Nil: "set_delete x s = [] \<longleftrightarrow> set s \<subseteq> {x}"
  by (metis Diff_eq_empty_iff set_delete_iff set_empty)

lemma distinct_set_add [simp]: "distinct s \<Longrightarrow> distinct (set_add x s)"
  by (simp add: set_add_def)

lemma distinct_set_delete [simp]: "distinct s \<Longrightarrow> distinct (set_delete x s)"
  by (simp add: set_delete_def distinct_removeAll)


section \<open>Numbers\<close>

text \<open>
  A \<open>number\<close> with an integer value: integers up to \<open>2^53\<close> are exact, larger ones are rounded to
  the nearest with a 53-bit significand, ties to the even one (the values here stay far below the
  largest double).
\<close>

fun bit_count :: "nat \<Rightarrow> nat" where
  "bit_count n = (if n = 0 then 0 else Suc (bit_count (n div 2)))"

declare bit_count.simps [simp del]

definition round_nat :: "nat \<Rightarrow> nat" where
  "round_nat n =
     (let e = bit_count n - 53; q = n div 2 ^ e; r = n mod 2 ^ e in
      if e = 0 then n
      else if 2 * r < 2 ^ e \<or> (2 * r = 2 ^ e \<and> even q) then q * 2 ^ e
      else (q + 1) * 2 ^ e)"

definition js_round :: "int \<Rightarrow> int" where
  "js_round i = (if i < 0 then - int (round_nat (nat (- i))) else int (round_nat (nat i)))"

lemma bit_count_bound: "n < 2 ^ b \<Longrightarrow> bit_count n \<le> b"
proof (induction b arbitrary: n)
  case 0
  then show ?case by (simp add: bit_count.simps)
next
  case (Suc b)
  then have "n div 2 < 2 ^ b" by (simp add: less_mult_imp_div_less mult.commute)
  with Suc.IH show ?case by (simp add: bit_count.simps [of n])
qed

lemma round_nat_exact: "n < 2 ^ 53 \<Longrightarrow> round_nat n = n"
  using bit_count_bound [of n 53] by (simp add: round_nat_def)

lemma js_round_exact: "\<bar>i\<bar> < 2 ^ 53 \<Longrightarrow> js_round i = i"
  using round_nat_exact [of "nat (- i)"] round_nat_exact [of "nat i"]
  by (auto simp: js_round_def nat_less_iff)

lemma js_round_nonneg: "0 \<le> i \<Longrightarrow> 0 \<le> js_round i"
  by (simp add: js_round_def)

lemma round_nat_pos: "0 < n \<Longrightarrow> 0 < round_nat n"
proof -
  assume n: "0 < n"
  have least: "2 ^ (bit_count m - 1) \<le> m" if "0 < m" for m
    using that
  proof (induction m rule: bit_count.induct)
    case (1 m)
    show ?case
    proof (cases "m div 2 = 0")
      case True
      then have "m = 1" using "1.prems" by auto
      then show ?thesis by (simp add: bit_count.simps)
    next
      case False
      with "1.IH" "1.prems" have le: "2 ^ (bit_count (m div 2) - 1) \<le> m div 2" by simp
      from False have "0 < bit_count (m div 2)" by (simp add: bit_count.simps [of "m div 2"])
      then have "(2::nat) ^ (bit_count m - 1) = 2 * 2 ^ (bit_count (m div 2) - 1)"
        using "1.prems" by (simp add: bit_count.simps [of m] power_eq_if)
      with le show ?thesis by linarith
    qed
  qed
  define e where "e = bit_count n - 53"
  have "0 < n div 2 ^ e" if "e \<noteq> 0"
  proof -
    have "(2::nat) ^ e \<le> 2 ^ (bit_count n - 1)" using that by (simp add: e_def)
    also have "\<dots> \<le> n" using least n by simp
    finally show ?thesis by (simp add: div_greater_zero_iff)
  qed
  then show ?thesis using n by (auto simp: round_nat_def Let_def e_def [symmetric])
qed

lemma js_round_pos: "0 < i \<Longrightarrow> 0 < js_round i"
  by (simp add: js_round_def round_nat_pos)

end
