(* ===== verification/Stream_Store.thy ===== *)
theory Stream_Store
  imports Js_Collections
begin

text \<open>
  The state stores of the stream gateway (\<open>stream-gateway/state-store.ts\<close>): the projection of a
  stream, the in-memory store with its workflow index, and the file store that adds an event
  table and writes both to disk.

  A store hands out references to the objects it keeps; the gateway only mutates such an object
  and then sets it under its id again, so the model's operations take and return values.
\<close>


section \<open>Streams\<close>

datatype paycard_status = Active | PendingSettlement | Terminated

record stream_state =
  sm_paycardId :: string
  sm_payer :: string
  sm_recipient :: string
  sm_metadataHash :: string
  sm_workflowId :: "string option"
  sm_totalAllocation :: string
  sm_availableBalance :: string
  sm_projectedAvailableBalance :: "string option"
  sm_velocity :: string
  sm_genesis :: int
  sm_lifespan :: int
  sm_lastCheckpoint :: int
  sm_status :: paycard_status

record event_record =
  er_paycardId :: string
  er_eventName :: string
  er_workflowId :: "string option"
  er_metadataHash :: "string option"
  er_blockNumber :: int
  er_blockTimestamp :: "int option"
  er_transactionHash :: string
  er_logIndex :: int
  er_args :: "(string \<times> string) list"
  er_recordedAt :: int

definition eventKey :: "string \<Rightarrow> int \<Rightarrow> string" where
  "eventKey transactionHash logIndex = transactionHash @ '':'' @ show_int logIndex"

text \<open>A workflow id that is truthy.\<close>

definition workflow_of :: "stream_state \<Rightarrow> string option" where
  "workflow_of s = (case sm_workflowId s of Some w \<Rightarrow> if w = [] then None else Some w | None \<Rightarrow> None)"

lemma workflow_of_eq [simp]: "workflow_of s = Some w \<longleftrightarrow> sm_workflowId s = Some w \<and> w \<noteq> []"
  by (auto simp: workflow_of_def split: option.splits)

lemma workflow_of_None [simp]:
  "workflow_of s = None \<longleftrightarrow> sm_workflowId s = None \<or> sm_workflowId s = Some []"
  by (auto simp: workflow_of_def split: option.splits)


section \<open>The in-memory store\<close>

record memory_cache =
  mc_store :: "stream_state js_map"
  mc_workflowIndex :: "string list js_map"

definition emptyCache :: memory_cache where
  "emptyCache = \<lparr>mc_store = [], mc_workflowIndex = []\<rparr>"

text \<open>\<open>workflowIndex.get(w)?.delete(id)\<close>, and the same with the empty set removed.\<close>

definition index_delete :: "string \<Rightarrow> string \<Rightarrow> string list js_map \<Rightarrow> string list js_map" where
  "index_delete w i idx =
     (case map_get idx w of None \<Rightarrow> idx | Some ids \<Rightarrow> map_put w (set_delete i ids) idx)"

definition index_remove :: "string \<Rightarrow> string \<Rightarrow> string list js_map \<Rightarrow> string list js_map" where
  "index_remove w i idx =
     (case map_get idx w of
        None \<Rightarrow> idx
      | Some ids \<Rightarrow>
          if set_delete i ids = [] then map_delete w idx else map_put w (set_delete i ids) idx)"

definition index_add :: "string option \<Rightarrow> string \<Rightarrow> string list js_map \<Rightarrow> string list js_map" where
  "index_add w i idx =
     (case w of
        None \<Rightarrow> idx
      | Some x \<Rightarrow> map_put x (set_add i (case map_get idx x of None \<Rightarrow> [] | Some ids \<Rightarrow> ids)) idx)"

definition cache_set :: "string \<Rightarrow> stream_state \<Rightarrow> memory_cache \<Rightarrow> memory_cache" where
  "cache_set i state c =
     (let index = (case map_get (mc_store c) i of
            None \<Rightarrow> mc_workflowIndex c
          | Some previous \<Rightarrow>
              (case workflow_of previous of
                 None \<Rightarrow> mc_workflowIndex c
               | Some w \<Rightarrow>
                   if Some w \<noteq> sm_workflowId state then index_delete w i (mc_workflowIndex c)
                   else mc_workflowIndex c))
      in \<lparr>mc_store = map_put i state (mc_store c),
          mc_workflowIndex = index_add (workflow_of state) i index\<rparr>)"

definition cache_get :: "memory_cache \<Rightarrow> string \<Rightarrow> stream_state option" where
  "cache_get c i = map_get (mc_store c) i"

definition cache_delete :: "string \<Rightarrow> memory_cache \<Rightarrow> bool \<times> memory_cache" where
  "cache_delete i c =
     (case map_get (mc_store c) i of
        None \<Rightarrow> (False, c)
      | Some previous \<Rightarrow>
          (True, \<lparr>mc_store = map_delete i (mc_store c),
            mc_workflowIndex =
              (case workflow_of previous of
                 None \<Rightarrow> mc_workflowIndex c
               | Some w \<Rightarrow> index_remove w i (mc_workflowIndex c))\<rparr>))"

definition cache_bindWorkflow ::
    "string \<Rightarrow> string option \<Rightarrow> memory_cache \<Rightarrow> stream_state option \<times> memory_cache" where
  "cache_bindWorkflow i workflowId c =
     (case map_get (mc_store c) i of
        None \<Rightarrow> (None, c)
      | Some previous \<Rightarrow>
          (let index = (case workflow_of previous of
                 None \<Rightarrow> mc_workflowIndex c
               | Some w \<Rightarrow> index_remove w i (mc_workflowIndex c));
               state = previous\<lparr>sm_workflowId :=
                 (case workflowId of Some w \<Rightarrow> if w = [] then None else Some w | None \<Rightarrow> None)\<rparr>
           in (Some state,
               \<lparr>mc_store = map_put i state (mc_store c),
                mc_workflowIndex = index_add (workflow_of state) i index\<rparr>)))"

definition cache_getAll :: "memory_cache \<Rightarrow> stream_state list" where
  "cache_getAll c = map_values (mc_store c)"

definition is_active :: "stream_state \<Rightarrow> bool" where
  "is_active s \<longleftrightarrow> sm_status s = Active"

definition cache_getActive :: "memory_cache \<Rightarrow> stream_state list" where
  "cache_getActive c = filter is_active (map_values (mc_store c))"

definition cache_getByWorkflow :: "memory_cache \<Rightarrow> string \<Rightarrow> stream_state list" where
  "cache_getByWorkflow c w =
     (case map_get (mc_workflowIndex c) w of
        None \<Rightarrow> []
      | Some ids \<Rightarrow> List.map_filter (map_get (mc_store c)) ids)"

definition cache_getActiveByWorkflow :: "memory_cache \<Rightarrow> string \<Rightarrow> stream_state list" where
  "cache_getActiveByWorkflow c w = filter is_active (cache_getByWorkflow c w)"

definition cache_getExpired :: "memory_cache \<Rightarrow> int \<Rightarrow> stream_state list" where
  "cache_getExpired c nowMs =
     filter (\<lambda>s. is_active s \<and> js_round (sm_genesis s + sm_lifespan s) * 1000 \<le> nowMs)
       (map_values (mc_store c))"

definition cache_size :: "memory_cache \<Rightarrow> nat" where
  "cache_size c = length (mc_store c)"


subsection \<open>The workflow index\<close>

text \<open>An id is indexed under a workflow exactly when its stream carries that workflow.\<close>

definition indexed :: "memory_cache \<Rightarrow> string \<Rightarrow> string \<Rightarrow> bool" where
  "indexed c w i \<longleftrightarrow> (\<exists>ids. map_get (mc_workflowIndex c) w = Some ids \<and> i \<in> set ids)"

definition carries :: "memory_cache \<Rightarrow> string \<Rightarrow> string \<Rightarrow> bool" where
  "carries c w i \<longleftrightarrow> (\<exists>s. cache_get c i = Some s \<and> workflow_of s = Some w)"

definition cache_ok :: "memory_cache \<Rightarrow> bool" where
  "cache_ok c \<longleftrightarrow> proper_map (mc_store c) \<and>
     (\<forall>w ids. map_get (mc_workflowIndex c) w = Some ids \<longrightarrow> distinct ids) \<and>
     (\<forall>w i. indexed c w i \<longleftrightarrow> carries c w i)"

definition index_has :: "string list js_map \<Rightarrow> string \<Rightarrow> string \<Rightarrow> bool" where
  "index_has idx w i \<longleftrightarrow> (\<exists>ids. map_get idx w = Some ids \<and> i \<in> set ids)"

definition index_distinct :: "string list js_map \<Rightarrow> bool" where
  "index_distinct idx \<longleftrightarrow> (\<forall>w ids. map_get idx w = Some ids \<longrightarrow> distinct ids)"

lemma index_ops [simp]:
  "index_has (index_delete w i idx) v j \<longleftrightarrow> index_has idx v j \<and> \<not> (v = w \<and> j = i)"
  "index_has (index_remove w i idx) v j \<longleftrightarrow> index_has idx v j \<and> \<not> (v = w \<and> j = i)"
  "index_has (index_add u i idx) v j \<longleftrightarrow> index_has idx v j \<or> u = Some v \<and> j = i"
proof -
  show "index_has (index_delete w i idx) v j \<longleftrightarrow> index_has idx v j \<and> \<not> (v = w \<and> j = i)"
    by (auto simp: index_has_def index_delete_def split: option.splits)
  show "index_has (index_remove w i idx) v j \<longleftrightarrow> index_has idx v j \<and> \<not> (v = w \<and> j = i)"
    by (auto simp: index_has_def index_remove_def set_delete_Nil split: option.splits)
  show "index_has (index_add u i idx) v j \<longleftrightarrow> index_has idx v j \<or> u = Some v \<and> j = i"
    by (cases u; cases "map_get idx (the u)") (auto simp: index_has_def index_add_def)
qed

lemma index_distinct_ops [simp]:
  assumes "index_distinct idx"
  shows "index_distinct (index_delete w i idx)" "index_distinct (index_remove w i idx)"
    "index_distinct (index_add u i idx)"
  using assms
  by (fastforce simp: index_distinct_def index_delete_def index_remove_def index_add_def
      split: option.splits if_splits)+

lemma cache_ok_iff:
  "cache_ok c \<longleftrightarrow> proper_map (mc_store c) \<and> index_distinct (mc_workflowIndex c) \<and>
     (\<forall>w i. index_has (mc_workflowIndex c) w i \<longleftrightarrow> carries c w i)"
  by (simp add: cache_ok_def index_distinct_def indexed_def index_has_def)

lemma cache_ok_empty: "cache_ok emptyCache"
  by (simp add: cache_ok_iff emptyCache_def index_distinct_def index_has_def carries_def cache_get_def)

lemma cache_get_set [simp]: "cache_get (cache_set i s c) = (cache_get c)(i \<mapsto> s)"
  by (rule ext) (simp add: cache_get_def cache_set_def)

lemma cache_ok_set:
  assumes "cache_ok c"
  shows "cache_ok (cache_set i s c)"
proof -
  have idx: "index_has (mc_workflowIndex c) w j \<longleftrightarrow> carries c w j" for w j
    using assms by (simp add: cache_ok_iff)
  have "index_has (mc_workflowIndex (cache_set i s c)) w j \<longleftrightarrow> carries (cache_set i s c) w j" for w j
    using idx
    by (auto simp: cache_set_def carries_def cache_get_def Let_def split: option.splits)
  with assms show ?thesis
    by (simp add: cache_ok_iff) (simp add: cache_set_def Let_def split: option.split)
qed

lemma cache_delete_result: "fst (cache_delete i c) \<longleftrightarrow> cache_get c i \<noteq> None"
  by (simp add: cache_delete_def cache_get_def split: option.split)

lemma cache_get_delete [simp]:
  "cache_get (snd (cache_delete i c)) = (cache_get c)(i := None)"
  by (rule ext) (auto simp: cache_get_def cache_delete_def split: option.split)

lemma cache_ok_delete:
  assumes "cache_ok c"
  shows "cache_ok (snd (cache_delete i c))"
proof -
  have idx: "index_has (mc_workflowIndex c) w j \<longleftrightarrow> carries c w j" for w j
    using assms by (simp add: cache_ok_iff)
  have "index_has (mc_workflowIndex (snd (cache_delete i c))) w j
      \<longleftrightarrow> carries (snd (cache_delete i c)) w j" for w j
    using idx
    by (auto simp: cache_delete_def carries_def cache_get_def split: option.splits)
  with assms show ?thesis
    by (simp add: cache_ok_iff) (simp add: cache_delete_def split: option.split)
qed

text \<open>The stream a binding leaves under an id.\<close>

definition bound_to :: "string option \<Rightarrow> stream_state \<Rightarrow> stream_state" where
  "bound_to workflowId s = s\<lparr>sm_workflowId :=
     (case workflowId of Some w \<Rightarrow> if w = [] then None else Some w | None \<Rightarrow> None)\<rparr>"

lemma cache_bind_result:
  "fst (cache_bindWorkflow i w c) = map_option (bound_to w) (cache_get c i)"
  by (simp add: cache_bindWorkflow_def cache_get_def bound_to_def Let_def split: option.split)

lemma cache_get_bind [simp]:
  "cache_get (snd (cache_bindWorkflow i w c)) =
     (cache_get c)(i := map_option (bound_to w) (cache_get c i))"
  by (rule ext) (auto simp: cache_bindWorkflow_def cache_get_def bound_to_def Let_def split: option.split)

lemma cache_ok_bind:
  assumes "cache_ok c"
  shows "cache_ok (snd (cache_bindWorkflow i u c))"
proof -
  have idx: "index_has (mc_workflowIndex c) w j \<longleftrightarrow> carries c w j" for w j
    using assms by (simp add: cache_ok_iff)
  have "index_has (mc_workflowIndex (snd (cache_bindWorkflow i u c))) w j
      \<longleftrightarrow> carries (snd (cache_bindWorkflow i u c)) w j" for w j
    using idx
    by (auto simp: cache_bindWorkflow_def carries_def cache_get_def Let_def
        split: option.splits if_splits)
  with assms show ?thesis
    by (simp add: cache_ok_iff) (simp add: cache_bindWorkflow_def Let_def split: option.split)
qed

lemma cache_all_iff: "cache_ok c \<Longrightarrow> s \<in> set (cache_getAll c) \<longleftrightarrow> (\<exists>i. cache_get c i = Some s)"
  by (simp add: cache_getAll_def cache_get_def cache_ok_iff map_values_iff)

lemma cache_workflow_iff:
  assumes "cache_ok c"
  shows "s \<in> set (cache_getByWorkflow c w) \<longleftrightarrow> (\<exists>i. cache_get c i = Some s \<and> workflow_of s = Some w)"
proof -
  have "s \<in> set (cache_getByWorkflow c w)
      \<longleftrightarrow> (\<exists>i. index_has (mc_workflowIndex c) w i \<and> cache_get c i = Some s)"
    by (cases "map_get (mc_workflowIndex c) w")
      (force simp: cache_getByWorkflow_def index_has_def cache_get_def List.map_filter_def)+
  then show ?thesis using assms by (auto simp: cache_ok_iff carries_def)
qed

end
