(* ===== verification/File_Store.thy ===== *)
theory File_Store
  imports Stream_Store "HOL-Library.Product_Lexorder"
begin

text \<open>
  The durable store of the stream gateway and the read-only view the server has of its files
  (\<open>PersistentFileStateStore\<close> and \<open>PersistentStreamReader\<close> of \<open>stream-gateway/state-store.ts\<close>).

  The disk holds the snapshot file, whose text is the JSON of a list of streams or something
  \<open>JSON.parse\<close> rejects, and the lines of the event file, each the JSON of an event or a line the
  reader skips.  A missing event file reads like one without lines.  Writes succeed.
\<close>

datatype snapshot_file = Snapshot "stream_state list" | Corrupt_snapshot

datatype event_line = Event_line event_record | Other_line

record disk =
  dk_snapshot :: "snapshot_file option"
  dk_events :: "event_line list"

definition empty_disk :: disk where
  "empty_disk = \<lparr>dk_snapshot = None, dk_events = []\<rparr>"

record file_store =
  fs_inner :: memory_cache
  fs_events :: "event_record list"
  fs_eventKeys :: "string list"
  fs_disk :: disk

definition record_key :: "event_record \<Rightarrow> string" where
  "record_key r = eventKey (er_transactionHash r) (er_logIndex r)"


section \<open>Loading\<close>

definition load_snapshot :: "snapshot_file option \<Rightarrow> memory_cache" where
  "load_snapshot file =
     (case file of
        Some (Snapshot states) \<Rightarrow> fold (\<lambda>s. cache_set (sm_paycardId s) s) states emptyCache
      | _ \<Rightarrow> emptyCache)"

fun load_events ::
    "event_line list \<Rightarrow> event_record list \<times> string list \<Rightarrow> event_record list \<times> string list" where
  "load_events [] acc = acc"
| "load_events (Other_line # lines) acc = load_events lines acc"
| "load_events (Event_line r # lines) (events, keys) =
     (if record_key r \<in> set keys then load_events lines (events, keys)
      else load_events lines (events @ [r], set_add (record_key r) keys))"

definition openStore :: "disk \<Rightarrow> file_store" where
  "openStore d =
     (case load_events (dk_events d) ([], []) of
        (events, keys) \<Rightarrow>
          \<lparr>fs_inner = load_snapshot (dk_snapshot d), fs_events = events, fs_eventKeys = keys,
           fs_disk = d\<rparr>)"


section \<open>Operations\<close>

definition persistSnapshot :: "file_store \<Rightarrow> file_store" where
  "persistSnapshot st = st
     \<lparr>fs_disk := fs_disk st\<lparr>dk_snapshot := Some (Snapshot (cache_getAll (fs_inner st)))\<rparr>\<rparr>"

definition file_set :: "string \<Rightarrow> stream_state \<Rightarrow> file_store \<Rightarrow> file_store" where
  "file_set i s st = persistSnapshot (st\<lparr>fs_inner := cache_set i s (fs_inner st)\<rparr>)"

definition file_get :: "file_store \<Rightarrow> string \<Rightarrow> stream_state option" where
  "file_get st i = cache_get (fs_inner st) i"

definition file_delete :: "string \<Rightarrow> file_store \<Rightarrow> bool \<times> file_store" where
  "file_delete i st =
     (case cache_delete i (fs_inner st) of
        (deleted, c) \<Rightarrow>
          (deleted, if deleted then persistSnapshot (st\<lparr>fs_inner := c\<rparr>) else st\<lparr>fs_inner := c\<rparr>))"

definition file_bindWorkflow ::
    "string \<Rightarrow> string option \<Rightarrow> file_store \<Rightarrow> stream_state option \<times> file_store" where
  "file_bindWorkflow i w st =
     (case cache_bindWorkflow i w (fs_inner st) of
        (result, c) \<Rightarrow>
          (result, if result \<noteq> None then persistSnapshot (st\<lparr>fs_inner := c\<rparr>)
                   else st\<lparr>fs_inner := c\<rparr>))"

definition file_hasEvent :: "file_store \<Rightarrow> string \<Rightarrow> bool" where
  "file_hasEvent st key \<longleftrightarrow> key \<in> set (fs_eventKeys st)"

definition file_recordEvent :: "event_record \<Rightarrow> file_store \<Rightarrow> bool \<times> file_store" where
  "file_recordEvent r st =
     (if record_key r \<in> set (fs_eventKeys st) then (False, st)
      else (True, st
        \<lparr>fs_eventKeys := set_add (record_key r) (fs_eventKeys st),
         fs_events := fs_events st @ [r],
         fs_disk := fs_disk st\<lparr>dk_events := dk_events (fs_disk st) @ [Event_line r]\<rparr>\<rparr>))"

definition file_getEvents :: "file_store \<Rightarrow> string \<Rightarrow> event_record list" where
  "file_getEvents st i =
     sort_key (\<lambda>e. (er_blockNumber e, er_logIndex e))
       (filter (\<lambda>e. er_paycardId e = i) (fs_events st))"

definition file_getAllEvents :: "file_store \<Rightarrow> event_record list" where
  "file_getAllEvents st = fs_events st"

text \<open>
  The gateway also writes the projected balances into the active streams it was handed, without
  setting them again: one after the other, up to the first that throws.
\<close>

fun update_active ::
    "(stream_state \<Rightarrow> 'e + stream_state) \<Rightarrow> stream_state js_map \<Rightarrow>
     'e option \<times> stream_state js_map" where
  "update_active f [] = (None, [])"
| "update_active f ((k, s) # m) =
     (if is_active s
      then (case f s of
              Inl e \<Rightarrow> (Some e, (k, s) # m)
            | Inr s' \<Rightarrow> (case update_active f m of (e, m') \<Rightarrow> (e, (k, s') # m')))
      else (case update_active f m of (e, m') \<Rightarrow> (e, (k, s) # m')))"

definition cache_updateActive ::
    "(stream_state \<Rightarrow> 'e + stream_state) \<Rightarrow> memory_cache \<Rightarrow> 'e option \<times> memory_cache" where
  "cache_updateActive f c =
     (case update_active f (mc_store c) of (e, m) \<Rightarrow> (e, c\<lparr>mc_store := m\<rparr>))"

definition file_updateActive ::
    "(stream_state \<Rightarrow> 'e + stream_state) \<Rightarrow> file_store \<Rightarrow> 'e option \<times> file_store" where
  "file_updateActive f st =
     (case cache_updateActive f (fs_inner st) of (e, c) \<Rightarrow> (e, st\<lparr>fs_inner := c\<rparr>))"


section \<open>The reader\<close>

definition readStates :: "disk \<Rightarrow> stream_state list" where
  "readStates d = (case dk_snapshot d of Some (Snapshot states) \<Rightarrow> states | _ \<Rightarrow> [])"

definition readEvents :: "disk \<Rightarrow> event_record list" where
  "readEvents d = List.map_filter (\<lambda>l. case l of Event_line r \<Rightarrow> Some r | Other_line \<Rightarrow> None)
     (dk_events d)"

record stream_query =
  sq_payer :: "string option"
  sq_recipient :: "string option"
  sq_workflowId :: "string option"
  sq_metadataHash :: "string option"
  sq_status :: "paycard_status option"

text \<open>The local \<open>eq\<close>: a filter that is missing or empty accepts everything.\<close>

definition query_eq :: "string option \<Rightarrow> string option \<Rightarrow> bool" where
  "query_eq a b =
     (case b of
        None \<Rightarrow> True
      | Some y \<Rightarrow> y = [] \<or> toLowerCase (case a of None \<Rightarrow> [] | Some x \<Rightarrow> x) = toLowerCase y)"

definition listStreams :: "disk \<Rightarrow> stream_query \<Rightarrow> stream_state list" where
  "listStreams d q =
     filter (\<lambda>s. query_eq (Some (sm_payer s)) (sq_payer q)
         \<and> query_eq (Some (sm_recipient s)) (sq_recipient q)
         \<and> query_eq (sm_workflowId s) (sq_workflowId q)
         \<and> query_eq (Some (sm_metadataHash s)) (sq_metadataHash q)
         \<and> (case sq_status q of None \<Rightarrow> True | Some t \<Rightarrow> sm_status s = t))
       (readStates d)"

definition reader_getStream :: "disk \<Rightarrow> string \<Rightarrow> stream_state option" where
  "reader_getStream d i =
     List.find (\<lambda>s. toLowerCase (sm_paycardId s) = toLowerCase i) (readStates d)"

definition getStreamHistory :: "disk \<Rightarrow> string \<Rightarrow> event_record list" where
  "getStreamHistory d i =
     sort_key (\<lambda>e. (er_blockNumber e, er_logIndex e))
       (filter (\<lambda>e. toLowerCase (er_paycardId e) = toLowerCase i) (readEvents d))"

definition workflow_query :: "string \<Rightarrow> stream_query" where
  "workflow_query w =
     \<lparr>sq_payer = None, sq_recipient = None, sq_workflowId = Some w, sq_metadataHash = None,
      sq_status = None\<rparr>"

definition getWorkflow :: "disk \<Rightarrow> string \<Rightarrow> stream_state list \<times> event_record list" where
  "getWorkflow d w =
     (let streams = listStreams d (workflow_query w);
          ids = map (\<lambda>s. toLowerCase (sm_paycardId s)) streams
      in (streams,
          sort_key (\<lambda>e. (er_blockNumber e, er_logIndex e))
            (filter (\<lambda>e. er_workflowId e = Some w \<or> toLowerCase (er_paycardId e) \<in> set ids)
              (readEvents d))))"

definition getByTransaction :: "disk \<Rightarrow> string \<Rightarrow> event_record list \<times> stream_state list" where
  "getByTransaction d transactionHash =
     (let events = sort_key er_logIndex
            (filter (\<lambda>e. toLowerCase (er_transactionHash e) = toLowerCase transactionHash)
              (readEvents d));
          ids = map (\<lambda>e. toLowerCase (er_paycardId e)) events
      in (events, filter (\<lambda>s. toLowerCase (sm_paycardId s) \<in> set ids) (readStates d)))"


section \<open>Updates in place\<close>

definition updated_by :: "(stream_state \<Rightarrow> 'e + stream_state) \<Rightarrow> stream_state \<Rightarrow> stream_state \<Rightarrow> bool" where
  "updated_by f s t \<longleftrightarrow> t = s \<or> is_active s \<and> f s = Inr t"

lemma update_active_all2:
  "list_all2 (\<lambda>(k, s) (k', t). k' = k \<and> updated_by f s t) m (snd (update_active f m))"
proof (induction m)
  case (Cons p m)
  obtain k s where p: "p = (k, s)" by (cases p)
  have "list_all2 (\<lambda>(k, s) (k', t). k' = k \<and> updated_by f s t) m m"
    by (rule list.rel_refl) (auto simp: updated_by_def)
  with Cons.IH show ?case
    by (auto simp: p updated_by_def split: sum.split prod.split)
qed simp

lemma all2_keys: "list_all2 (\<lambda>(k, s) (k', t). k' = k \<and> P s t) m m' \<Longrightarrow> map fst m' = map fst m"
  by (induction rule: list_all2_induct) auto

lemma all2_get:
  "list_all2 (\<lambda>(k, s) (k', t). k' = k \<and> P s t) m m' \<Longrightarrow>
   rel_option P (map_get m i) (map_get m' i)"
  by (induction rule: list_all2_induct) (auto simp: map_get_def)

lemmas update_active_keys = all2_keys [OF update_active_all2]
lemmas update_active_get = all2_get [OF update_active_all2]

lemma update_active_Some:
  assumes "map_get m i = Some s"
  shows "\<exists>t. map_get (snd (update_active f m)) i = Some t \<and> updated_by f s t"
  using update_active_get [of f m i] assms by (auto simp: option_rel_Some1)

lemma update_active_None:
  assumes "map_get m i = None"
  shows "map_get (snd (update_active f m)) i = None"
  using update_active_get [of f m i] assms by simp

text \<open>
  The projected balance is the one member that is written without being persisted: \<open>forget\<close> drops
  it.  An update that writes nothing else keeps the index and the ids.
\<close>

definition forget :: "stream_state \<Rightarrow> stream_state" where
  "forget s = s\<lparr>sm_projectedAvailableBalance := None\<rparr>"

definition only_projects :: "(stream_state \<Rightarrow> 'e + stream_state) \<Rightarrow> bool" where
  "only_projects f \<longleftrightarrow> (\<forall>s t. f s = Inr t \<longrightarrow> forget t = forget s)"

lemma forget_members:
  assumes "forget t = forget s"
  shows "sm_paycardId t = sm_paycardId s" "sm_workflowId t = sm_workflowId s"
    "sm_status t = sm_status s" "sm_genesis t = sm_genesis s" "sm_lifespan t = sm_lifespan s"
    "sm_availableBalance t = sm_availableBalance s" "sm_lastCheckpoint t = sm_lastCheckpoint s"
    "sm_totalAllocation t = sm_totalAllocation s" "is_active t = is_active s"
  using assms by (cases s; cases t; simp add: forget_def is_active_def)+

lemma updated_forget: "only_projects f \<Longrightarrow> updated_by f s t \<Longrightarrow> forget t = forget s"
  by (auto simp: only_projects_def updated_by_def)

lemma cache_updateActive_store:
  "snd (cache_updateActive f c) = c\<lparr>mc_store := snd (update_active f (mc_store c))\<rparr>"
  by (simp add: cache_updateActive_def split: prod.split)

lemma cache_updateActive_get:
  "rel_option (updated_by f) (cache_get c i) (cache_get (snd (cache_updateActive f c)) i)"
  using update_active_get by (simp add: cache_get_def cache_updateActive_store)

lemma update_active_through:
  assumes "\<And>k s. (k, s) \<in> set m \<Longrightarrow> is_active s \<Longrightarrow> \<exists>t. f s = Inr t"
  shows "fst (update_active f m) = None"
  using assms
proof (induction m)
  case (Cons p m)
  obtain k s where p: "p = (k, s)" by (cases p)
  have tail: "fst (update_active f m) = None" using Cons.prems by (intro Cons.IH) auto
  have "\<exists>t. f s = Inr t" if "is_active s" using Cons.prems [of k s] that p by simp
  with tail show ?case by (cases "is_active s") (auto simp: p split: prod.split)
qed simp

lemma cache_updateActive_through:
  assumes "cache_ok c" and "\<And>i s. cache_get c i = Some s \<Longrightarrow> is_active s \<Longrightarrow> \<exists>t. f s = Inr t"
  shows "fst (cache_updateActive f c) = None"
proof -
  have "cache_get c k = Some s" if "(k, s) \<in> set (mc_store c)" for k s
    using that assms(1) by (simp add: cache_get_def map_get_def cache_ok_iff proper_map_def)
  with assms(2) have "fst (update_active f (mc_store c)) = None"
    by (intro update_active_through) blast
  then show ?thesis by (simp add: cache_updateActive_def case_prod_beta)
qed

lemma cache_ok_updateActive:
  assumes "cache_ok c" and "only_projects f"
  shows "cache_ok (snd (cache_updateActive f c))"
proof -
  have "carries (snd (cache_updateActive f c)) w i \<longleftrightarrow> carries c w i" for w i
    using cache_updateActive_get [of f c i] updated_forget [OF assms(2)]
    by (cases rule: option.rel_cases) (auto simp: carries_def, (metis forget_members(2))+)
  with assms(1) show ?thesis
    by (simp add: cache_ok_iff cache_updateActive_store proper_map_def update_active_keys)
qed


section \<open>Restarting\<close>

definition keyed_cache :: "memory_cache \<Rightarrow> bool" where
  "keyed_cache c \<longleftrightarrow> (\<forall>i s. cache_get c i = Some s \<longrightarrow> sm_paycardId s = i)"

definition same_streams :: "memory_cache \<Rightarrow> memory_cache \<Rightarrow> bool" where
  "same_streams c d \<longleftrightarrow> (\<forall>i. map_option forget (cache_get c i) = map_option forget (cache_get d i))"

text \<open>What a restart would read is what the store holds, but for the projected balances.\<close>

definition file_ok :: "file_store \<Rightarrow> bool" where
  "file_ok st \<longleftrightarrow> cache_ok (fs_inner st) \<and> keyed_cache (fs_inner st) \<and>
     same_streams (load_snapshot (dk_snapshot (fs_disk st))) (fs_inner st) \<and>
     load_events (dk_events (fs_disk st)) ([], []) = (fs_events st, fs_eventKeys st)"

lemma load_fold_get:
  "cache_get (fold (\<lambda>s. cache_set (sm_paycardId s) s) ss c) =
     cache_get c ++ map_of (rev (map (\<lambda>s. (sm_paycardId s, s)) ss))"
  by (induction ss arbitrary: c) simp_all

lemma keyed_set: "keyed_cache c \<Longrightarrow> sm_paycardId s = i \<Longrightarrow> keyed_cache (cache_set i s c)"
  by (auto simp: keyed_cache_def)

lemma load_fold_ok:
  assumes "cache_ok c" and "keyed_cache c"
  shows "cache_ok (fold (\<lambda>s. cache_set (sm_paycardId s) s) ss c) \<and>
    keyed_cache (fold (\<lambda>s. cache_set (sm_paycardId s) s) ss c)"
  using assms
  by (induction ss arbitrary: c) (simp_all add: cache_ok_set keyed_set)

lemma keyed_empty: "keyed_cache emptyCache"
  by (simp add: keyed_cache_def emptyCache_def cache_get_def)

lemma load_snapshot_ok: "cache_ok (load_snapshot file) \<and> keyed_cache (load_snapshot file)"
  using load_fold_ok [OF cache_ok_empty keyed_empty] cache_ok_empty keyed_empty
  by (simp add: load_snapshot_def split: option.split snapshot_file.split)

lemma keyed_pairs:
  assumes "keyed_cache c" and "cache_ok c"
  shows "map (\<lambda>s. (sm_paycardId s, s)) (cache_getAll c) = mc_store c"
proof -
  have "sm_paycardId s = k" if "(k, s) \<in> set (mc_store c)" for k s
    using assms that by (auto simp: keyed_cache_def cache_get_def map_get_def cache_ok_iff proper_map_def)
  then have "map (\<lambda>p. (sm_paycardId (snd p), snd p)) (mc_store c) = mc_store c"
    by (intro map_idI) auto
  then show ?thesis by (simp add: cache_getAll_def map_values_def o_def)
qed

text \<open>A snapshot reads back as the streams it was taken of.\<close>

lemma snapshot_round_trip:
  assumes "keyed_cache c" and "cache_ok c"
  shows "cache_get (load_snapshot (Some (Snapshot (cache_getAll c)))) = cache_get c"
proof -
  have d: "distinct (map fst (mc_store c))" using assms(2) by (simp add: cache_ok_iff proper_map_def)
  then have "map_of (rev (mc_store c)) = map_of (mc_store c)"
    by (subst map_of_inject_set) (simp_all flip: rev_map)
  then show ?thesis
    by (simp add: load_snapshot_def load_fold_get keyed_pairs [OF assms] fun_eq_iff)
      (simp add: cache_get_def map_get_def emptyCache_def map_add_def split: option.split)
qed

lemma file_ok_open: "file_ok (openStore d)"
  using load_snapshot_ok by (auto simp: file_ok_def openStore_def same_streams_def split: prod.split)

lemma file_ok_persist:
  assumes "cache_ok c" and "keyed_cache c" and "fs_inner st = c"
    and "load_events (dk_events (fs_disk st)) ([], []) = (fs_events st, fs_eventKeys st)"
  shows "file_ok (persistSnapshot st)"
  using assms snapshot_round_trip [of c]
  by (simp add: file_ok_def persistSnapshot_def same_streams_def)

lemma file_get_ops [simp]:
  "file_get (file_set i s st) = (file_get st)(i \<mapsto> s)"
  "file_get (snd (file_bindWorkflow i w st)) =
     (file_get st)(i := map_option (bound_to w) (file_get st i))"
  "file_get (snd (file_recordEvent r st)) = file_get st"
  "file_get (snd (file_delete i st)) = (file_get st)(i := None)"
proof -
  show "file_get (file_set i s st) = (file_get st)(i \<mapsto> s)"
    by (rule ext) (simp add: file_get_def file_set_def persistSnapshot_def)
  show "file_get (snd (file_recordEvent r st)) = file_get st"
    by (rule ext) (simp add: file_get_def file_recordEvent_def)
  have "fs_inner (snd (file_bindWorkflow i w st)) = snd (cache_bindWorkflow i w (fs_inner st))"
    by (simp add: file_bindWorkflow_def persistSnapshot_def split: prod.split)
  then show "file_get (snd (file_bindWorkflow i w st)) =
      (file_get st)(i := map_option (bound_to w) (file_get st i))"
    by (simp add: file_get_def fun_eq_iff)
  have "fs_inner (snd (file_delete i st)) = snd (cache_delete i (fs_inner st))"
    by (simp add: file_delete_def persistSnapshot_def split: prod.split)
  then show "file_get (snd (file_delete i st)) = (file_get st)(i := None)"
    by (simp add: file_get_def fun_eq_iff)
qed

end
