(* ===== verification/Store_Interface.thy ===== *)
theory Store_Interface
  imports File_Store
begin

text \<open>
  The interface \<open>StreamStateStore\<close> the stream gateway depends on: the operations as a record that
  every gateway operation takes as an argument, what the gateway relies on as a locale, and the
  two stores that provide it.

  \<open>recordEvent?.\<close> and \<open>hasEvent?.\<close> are only there on a durable store; on the in-memory one the
  calls do nothing.
\<close>

record 's store_ops =
  so_set :: "string \<Rightarrow> stream_state \<Rightarrow> 's \<Rightarrow> 's"
  so_get :: "'s \<Rightarrow> string \<Rightarrow> stream_state option"
  so_bindWorkflow :: "string \<Rightarrow> string option \<Rightarrow> 's \<Rightarrow> stream_state option \<times> 's"
  so_getActive :: "'s \<Rightarrow> stream_state list"
  so_getByWorkflow :: "'s \<Rightarrow> string \<Rightarrow> stream_state list"
  so_updateActive :: "(stream_state \<Rightarrow> string + stream_state) \<Rightarrow> 's \<Rightarrow> string option \<times> 's"
  so_recordEvent :: "event_record \<Rightarrow> 's \<Rightarrow> 's"
  so_hasEvent :: "'s \<Rightarrow> string \<Rightarrow> bool"

definition memory_ops :: "memory_cache store_ops" where
  "memory_ops =
     \<lparr>so_set = cache_set, so_get = cache_get, so_bindWorkflow = cache_bindWorkflow,
      so_getActive = cache_getActive, so_getByWorkflow = cache_getByWorkflow,
      so_updateActive = cache_updateActive, so_recordEvent = (\<lambda>r c. c),
      so_hasEvent = (\<lambda>c k. False)\<rparr>"

definition file_ops :: "file_store store_ops" where
  "file_ops =
     \<lparr>so_set = file_set, so_get = file_get, so_bindWorkflow = file_bindWorkflow,
      so_getActive = (\<lambda>st. cache_getActive (fs_inner st)),
      so_getByWorkflow = (\<lambda>st. cache_getByWorkflow (fs_inner st)),
      so_updateActive = file_updateActive,
      so_recordEvent = (\<lambda>r st. snd (file_recordEvent r st)), so_hasEvent = file_hasEvent\<rparr>"


section \<open>What the gateway relies on\<close>

locale stream_store =
  fixes ops :: "'s store_ops" and ok :: "'s \<Rightarrow> bool"
  assumes get_set: "so_get ops (so_set ops i x s) = (so_get ops s)(i \<mapsto> x)"
    and bind_result: "fst (so_bindWorkflow ops i w s) = map_option (bound_to w) (so_get ops s i)"
    and get_bind: "so_get ops (snd (so_bindWorkflow ops i w s)) =
      (so_get ops s)(i := map_option (bound_to w) (so_get ops s i))"
    and get_record: "so_get ops (so_recordEvent ops r s) = so_get ops s"
    and get_update: "rel_option (updated_by f) (so_get ops s i)
      (so_get ops (snd (so_updateActive ops f s)) i)"
    and update_through: "ok s \<Longrightarrow>
      (\<And>i x. so_get ops s i = Some x \<Longrightarrow> is_active x \<Longrightarrow> \<exists>y. f x = Inr y) \<Longrightarrow>
      fst (so_updateActive ops f s) = None"
    and active_iff: "ok s \<Longrightarrow>
      x \<in> set (so_getActive ops s) \<longleftrightarrow> is_active x \<and> (\<exists>i. so_get ops s i = Some x)"
    and workflow_iff: "ok s \<Longrightarrow>
      x \<in> set (so_getByWorkflow ops s wid) \<longleftrightarrow> workflow_of x = Some wid \<and> (\<exists>i. so_get ops s i = Some x)"
    and keyed: "ok s \<Longrightarrow> so_get ops s i = Some x \<Longrightarrow> sm_paycardId x = i"
    and ok_set: "ok s \<Longrightarrow> sm_paycardId x = i \<Longrightarrow> ok (so_set ops i x s)"
    and ok_bind: "ok s \<Longrightarrow> ok (snd (so_bindWorkflow ops i w s))"
    and ok_record: "ok s \<Longrightarrow> ok (so_recordEvent ops r s)"
    and ok_update: "ok s \<Longrightarrow> only_projects f \<Longrightarrow> ok (snd (so_updateActive ops f s))"
    and has_set: "so_hasEvent ops (so_set ops i x s) k = so_hasEvent ops s k"
    and has_bind: "so_hasEvent ops (snd (so_bindWorkflow ops i w s)) k = so_hasEvent ops s k"
    and has_update: "so_hasEvent ops (snd (so_updateActive ops f s)) k = so_hasEvent ops s k"
    and has_record: "so_hasEvent ops (so_recordEvent ops r s) k \<Longrightarrow>
      so_hasEvent ops s k \<or> k = record_key r"
    and has_kept: "so_hasEvent ops s k \<Longrightarrow> so_hasEvent ops (so_recordEvent ops r s) k"

text \<open>A durable store remembers every event it recorded, and a restart finds what it holds.\<close>

locale durable_store = stream_store +
  fixes restart :: "'s \<Rightarrow> 's"
  assumes has_recorded: "so_hasEvent ops (so_recordEvent ops r s) (record_key r)"
    and restart_ok: "ok s \<Longrightarrow> ok (restart s)"
    and restart_has: "ok s \<Longrightarrow> so_hasEvent ops (restart s) k = so_hasEvent ops s k"
    and restart_get: "ok s \<Longrightarrow>
      map_option forget (so_get ops (restart s) i) = map_option forget (so_get ops s i)"


section \<open>The in-memory store\<close>

definition memory_ok :: "memory_cache \<Rightarrow> bool" where
  "memory_ok c \<longleftrightarrow> cache_ok c \<and> keyed_cache c"

lemma keyed_bind: "keyed_cache c \<Longrightarrow> keyed_cache (snd (cache_bindWorkflow i w c))"
  by (auto simp: keyed_cache_def bound_to_def)

lemma keyed_updateActive:
  assumes "keyed_cache c" and "only_projects f"
  shows "keyed_cache (snd (cache_updateActive f c))"
  unfolding keyed_cache_def
proof (intro allI impI)
  fix i t
  assume "cache_get (snd (cache_updateActive f c)) i = Some t"
  with cache_updateActive_get [of f c i] obtain s where "cache_get c i = Some s" "updated_by f s t"
    by (auto simp: option_rel_Some2)
  with assms forget_members(1) [OF updated_forget [OF assms(2)]] show "sm_paycardId t = i"
    by (auto simp: keyed_cache_def)
qed

interpretation memory_streams: stream_store memory_ops memory_ok
proof unfold_locales
  show "fst (so_updateActive memory_ops f s) = None" if "memory_ok s"
    and "\<And>i x. so_get memory_ops s i = Some x \<Longrightarrow> is_active x \<Longrightarrow> \<exists>y. f x = Inr y" for s f
    using that cache_updateActive_through [of s f] by (simp add: memory_ops_def memory_ok_def)
  show "rel_option (updated_by f) (so_get memory_ops s i)
      (so_get memory_ops (snd (so_updateActive memory_ops f s)) i)" for f s i
    using cache_updateActive_get by (simp add: memory_ops_def)
  show "x \<in> set (so_getActive memory_ops s) \<longleftrightarrow>
      is_active x \<and> (\<exists>i. so_get memory_ops s i = Some x)" if "memory_ok s" for s x
    using that cache_all_iff [of s x] by (auto simp: memory_ops_def memory_ok_def cache_getActive_def cache_getAll_def)
  show "x \<in> set (so_getByWorkflow memory_ops s w) \<longleftrightarrow>
      workflow_of x = Some w \<and> (\<exists>i. so_get memory_ops s i = Some x)" if "memory_ok s" for s x w
    using that cache_workflow_iff [of s x w] by (auto simp: memory_ops_def memory_ok_def)
  show "sm_paycardId x = i" if "memory_ok s" "so_get memory_ops s i = Some x" for s i x
    using that by (simp add: memory_ops_def memory_ok_def keyed_cache_def)
qed (auto simp: memory_ops_def memory_ok_def cache_bind_result cache_ok_set keyed_set cache_ok_bind
    keyed_bind cache_ok_updateActive keyed_updateActive)


section \<open>The file store\<close>

lemma load_events_append:
  "load_events (ls @ ks) acc = load_events ks (load_events ls acc)"
  by (induction ls acc rule: load_events.induct) auto

lemma file_ok_bind:
  assumes "file_ok st"
  shows "file_ok (snd (file_bindWorkflow i w st))"
proof (cases "cache_get (fs_inner st) i")
  case None
  then have "snd (file_bindWorkflow i w st) = st"
    by (simp add: file_bindWorkflow_def cache_bindWorkflow_def cache_get_def)
  with assms show ?thesis by simp
next
  case (Some s)
  let ?c = "snd (cache_bindWorkflow i w (fs_inner st))"
  have "fst (cache_bindWorkflow i w (fs_inner st)) \<noteq> None"
    by (simp add: cache_bind_result Some)
  then have "snd (file_bindWorkflow i w st) = persistSnapshot (st\<lparr>fs_inner := ?c\<rparr>)"
    by (auto simp: file_bindWorkflow_def split: prod.split)
  moreover have "file_ok (persistSnapshot (st\<lparr>fs_inner := ?c\<rparr>))"
    by (rule file_ok_persist [where c = ?c])
      (use assms in \<open>simp_all add: file_ok_def cache_ok_bind keyed_bind\<close>)
  ultimately show ?thesis by simp
qed

lemma file_ok_set: "file_ok st \<Longrightarrow> sm_paycardId x = i \<Longrightarrow> file_ok (file_set i x st)"
  using file_ok_persist [of "cache_set i x (fs_inner st)" "st\<lparr>fs_inner := cache_set i x (fs_inner st)\<rparr>"]
  by (simp add: file_set_def file_ok_def cache_ok_set keyed_set)

lemma file_ok_record: "file_ok st \<Longrightarrow> file_ok (snd (file_recordEvent r st))"
  by (auto simp: file_ok_def file_recordEvent_def load_events_append)

lemma file_inner_update: "fs_inner (snd (file_updateActive f st)) = snd (cache_updateActive f (fs_inner st))"
  by (simp add: file_updateActive_def split: prod.split)

lemma same_streams_update:
  assumes "only_projects f"
  shows "same_streams (snd (cache_updateActive f c)) c"
  unfolding same_streams_def
proof
  fix i
  show "map_option forget (cache_get (snd (cache_updateActive f c)) i) = map_option forget (cache_get c i)"
    using cache_updateActive_get [of f c i] updated_forget [OF assms]
    by (cases rule: option.rel_cases) auto
qed

lemma file_ok_update:
  assumes "file_ok st" and "only_projects f"
  shows "file_ok (snd (file_updateActive f st))"
proof -
  have "fs_disk (snd (file_updateActive f st)) = fs_disk st \<and>
      fs_events (snd (file_updateActive f st)) = fs_events st \<and>
      fs_eventKeys (snd (file_updateActive f st)) = fs_eventKeys st"
    by (simp add: file_updateActive_def split: prod.split)
  with assms same_streams_update [OF assms(2), of "fs_inner st"] show ?thesis
    by (simp add: file_ok_def file_inner_update cache_ok_updateActive keyed_updateActive same_streams_def)
qed

definition restart_store :: "file_store \<Rightarrow> file_store" where
  "restart_store st = openStore (fs_disk st)"

lemma file_ok_restart: "file_ok (restart_store st)"
  by (simp add: restart_store_def file_ok_open)

lemma file_hasEvent_ops [simp]:
  "file_hasEvent (file_set i x st) k = file_hasEvent st k"
  "file_hasEvent (snd (file_bindWorkflow i w st)) k = file_hasEvent st k"
  "file_hasEvent (snd (file_updateActive f st)) k = file_hasEvent st k"
  "file_hasEvent (snd (file_recordEvent r st)) k \<longleftrightarrow> file_hasEvent st k \<or> k = record_key r"
  by (auto simp: file_hasEvent_def file_set_def persistSnapshot_def file_bindWorkflow_def
      file_updateActive_def file_recordEvent_def split: prod.split)

lemma restart_hasEvent: "file_ok st \<Longrightarrow> file_hasEvent (restart_store st) k = file_hasEvent st k"
  by (simp add: file_ok_def restart_store_def openStore_def file_hasEvent_def)

interpretation file_streams: durable_store file_ops file_ok restart_store
proof unfold_locales
  show "fst (so_updateActive file_ops f s) = None" if "file_ok s"
    and "\<And>i x. so_get file_ops s i = Some x \<Longrightarrow> is_active x \<Longrightarrow> \<exists>y. f x = Inr y" for s f
    using that cache_updateActive_through [of "fs_inner s" f]
    by (simp add: file_ops_def file_ok_def file_get_def file_updateActive_def case_prod_beta)
  show "rel_option (updated_by f) (so_get file_ops s i)
      (so_get file_ops (snd (so_updateActive file_ops f s)) i)" for f s i
    using cache_updateActive_get by (simp add: file_ops_def file_get_def file_inner_update)
  show "x \<in> set (so_getActive file_ops s) \<longleftrightarrow>
      is_active x \<and> (\<exists>i. so_get file_ops s i = Some x)" if "file_ok s" for s x
    using that cache_all_iff [of "fs_inner s" x]
    by (auto simp: file_ops_def file_get_def file_ok_def cache_getActive_def cache_getAll_def)
  show "x \<in> set (so_getByWorkflow file_ops s w) \<longleftrightarrow>
      workflow_of x = Some w \<and> (\<exists>i. so_get file_ops s i = Some x)" if "file_ok s" for s x w
    using that cache_workflow_iff [of "fs_inner s" x w] by (auto simp: file_ops_def file_get_def file_ok_def)
  show "sm_paycardId x = i" if "file_ok s" "so_get file_ops s i = Some x" for s i x
    using that by (simp add: file_ops_def file_get_def file_ok_def keyed_cache_def)
  show "fst (so_bindWorkflow file_ops i w s) = map_option (bound_to w) (so_get file_ops s i)" for i w s
    by (simp add: file_ops_def file_bindWorkflow_def file_get_def flip: cache_bind_result split: prod.split)
  show "map_option forget (so_get file_ops (restart_store s) i) = map_option forget (so_get file_ops s i)"
    if "file_ok s" for s i
    using that by (simp add: file_ops_def file_get_def file_ok_def same_streams_def restart_store_def
        openStore_def split: prod.split)
qed (auto simp: file_ops_def file_ok_set file_ok_bind file_ok_record file_ok_update file_ok_open
    restart_hasEvent file_ok_restart)

end
