(* ===== verification/Termination_Queue.thy ===== *)
theory Termination_Queue
  imports Js_Collections "HOL-Library.Multiset"
begin

text \<open>
  \<open>StreamTerminationQueue\<close> of \<open>stream-gateway/state-store.ts\<close>: the expirations of the streams,
  kept in ascending order by a binary-search insertion, and swept from the front.

  The index arithmetic \<open>(lo + hi) >>> 1\<close> works on 32 bits, so the search loop is a partial
  function; it returns for every queue shorter than \<open>2^31\<close>.
\<close>

record termination_entry =
  te_paycardId :: string
  te_expiresAt :: int

definition mid_index :: "nat \<Rightarrow> nat \<Rightarrow> nat" where
  "mid_index lo hi = ((lo + hi) mod 2 ^ 32) div 2"

partial_function (option) insert_index ::
    "termination_entry list \<Rightarrow> int \<Rightarrow> nat \<Rightarrow> nat \<Rightarrow> nat option" where
  "insert_index queue expiresAt lo hi =
     (if lo < hi
      then (if te_expiresAt (queue ! mid_index lo hi) \<le> expiresAt
            then insert_index queue expiresAt (mid_index lo hi + 1) hi
            else insert_index queue expiresAt lo (mid_index lo hi))
      else Some lo)"

text \<open>\<open>None\<close>: the search does not return.\<close>

definition schedule ::
    "string \<Rightarrow> int \<Rightarrow> termination_entry list \<Rightarrow> termination_entry list option" where
  "schedule paycardId expiresAt queue =
     (case insert_index queue expiresAt 0 (length queue) of
        None \<Rightarrow> None
      | Some lo \<Rightarrow> Some (take lo queue
          @ \<lparr>te_paycardId = paycardId, te_expiresAt = expiresAt\<rparr> # drop lo queue))"

text \<open>
  \<open>expiresAt <= currentTime\<close>: the time of a tick is a count of milliseconds divided by 1000, which
  is compared with a whole number of seconds.
\<close>

fun checkExpired ::
    "int \<Rightarrow> termination_entry list \<Rightarrow> string list \<times> termination_entry list" where
  "checkExpired nowMs [] = ([], [])"
| "checkExpired nowMs (e # queue) =
     (if te_expiresAt e * 1000 \<le> nowMs
      then (case checkExpired nowMs queue of (expired, rest) \<Rightarrow> (te_paycardId e # expired, rest))
      else ([], e # queue))"


section \<open>The search\<close>

definition queue_sorted :: "termination_entry list \<Rightarrow> bool" where
  "queue_sorted q \<longleftrightarrow> sorted (map te_expiresAt q)"

lemma mid_index_less: "lo < hi \<Longrightarrow> mid_index lo hi < hi"
proof -
  assume "lo < hi"
  moreover have "(lo + hi) mod 2 ^ 32 \<le> lo + hi" by simp
  ultimately show ?thesis unfolding mid_index_def by linarith
qed

lemma sorted_order:
  "queue_sorted q \<Longrightarrow> i \<le> j \<Longrightarrow> j < length q \<Longrightarrow> te_expiresAt (q ! i) \<le> te_expiresAt (q ! j)"
  using sorted_nth_mono [of "map te_expiresAt q" i j] by (simp add: queue_sorted_def)

text \<open>
  The loop's invariant: what is before \<open>lo\<close> is due by \<open>e\<close>, what is from \<open>hi\<close> on is later.  It holds
  even where the index sum wraps around.
\<close>

definition split_at :: "termination_entry list \<Rightarrow> int \<Rightarrow> nat \<Rightarrow> nat \<Rightarrow> bool" where
  "split_at q e lo hi \<longleftrightarrow> lo \<le> hi \<and> hi \<le> length q \<and>
     (\<forall>i < lo. te_expiresAt (q ! i) \<le> e) \<and>
     (\<forall>i. hi \<le> i \<longrightarrow> i < length q \<longrightarrow> e < te_expiresAt (q ! i))"

lemma split_at_due:
  assumes "queue_sorted q" and "split_at q e lo hi" and "m < hi" and "te_expiresAt (q ! m) \<le> e"
  shows "split_at q e (m + 1) hi"
proof -
  have "te_expiresAt (q ! i) \<le> e" if "i < m + 1" for i
    using sorted_order [OF assms(1), of i m] that assms(2-4) by (simp add: split_at_def)
  with assms(2,3) show ?thesis by (simp add: split_at_def)
qed

lemma split_at_later:
  assumes "queue_sorted q" and "split_at q e lo hi" and "m < hi" and "\<not> te_expiresAt (q ! m) \<le> e"
  shows "split_at q e lo m"
proof -
  have "e < te_expiresAt (q ! i)" if "m \<le> i" "i < length q" for i
    using sorted_order [OF assms(1), of m i] that assms(4) by simp
  moreover have "lo \<le> m" using assms(2,4) by (meson not_le split_at_def)
  ultimately show ?thesis using assms(2,3) by (simp add: split_at_def)
qed

lemma insert_index_correct:
  assumes "queue_sorted q" and "split_at q e lo hi" and "insert_index q e lo hi = Some k"
  shows "split_at q e k k"
proof -
  have "queue_sorted q \<longrightarrow> split_at q e lo hi \<longrightarrow> split_at q e k k"
  proof (rule insert_index.raw_induct [OF _ assms(3)], intro impI)
    fix search q e lo hi k
    assume IH: "\<And>q e lo hi k. search q e lo hi = Some k \<Longrightarrow>
        queue_sorted q \<longrightarrow> split_at q e lo hi \<longrightarrow> split_at q e k k"
      and body: "(if lo < hi
        then (if te_expiresAt (q ! mid_index lo hi) \<le> e then search q e (mid_index lo hi + 1) hi
              else search q e lo (mid_index lo hi))
        else Some lo) = Some k"
      and q: "queue_sorted q" and at: "split_at q e lo hi"
    show "split_at q e k k"
    proof (cases "lo < hi")
      case False
      with body at show ?thesis by (simp add: split_at_def)
    next
      case True
      with body IH q split_at_due [OF q at mid_index_less [OF True]]
        split_at_later [OF q at mid_index_less [OF True]]
      show ?thesis by (auto split: if_splits)
    qed
  qed
  with assms show ?thesis by simp
qed

lemma mid_index_above:
  assumes "lo < hi" and "hi \<le> 2 ^ 31"
  shows "lo \<le> mid_index lo hi"
proof -
  have "(lo + hi) mod 2 ^ 32 = lo + hi" using assms by simp
  then show ?thesis using assms(1) by (auto simp: mid_index_def)
qed

text \<open>The search returns: the distance shrinks as long as the sum does not wrap around.\<close>

lemma insert_index_returns:
  assumes "hi \<le> 2 ^ 31"
  shows "\<exists>k. insert_index q e lo hi = Some k"
  using assms
proof (induction "hi - lo" arbitrary: lo hi rule: less_induct)
  case less
  show ?case
  proof (cases "lo < hi")
    case False
    then show ?thesis by (subst insert_index.simps) simp
  next
    case True
    with less.prems mid_index_above mid_index_less
    have "lo \<le> mid_index lo hi" "mid_index lo hi < hi" by blast+
    with less True show ?thesis by (subst insert_index.simps) auto
  qed
qed

lemma schedule_returns: "length q \<le> 2 ^ 31 \<Longrightarrow> \<exists>q'. schedule i e q = Some q'"
  using insert_index_returns [of "length q" q e 0] by (auto simp: schedule_def)

text \<open>What the search finds is where the due entries end.\<close>

lemma schedule_splits:
  assumes "queue_sorted q" and "schedule i e q = Some q'"
  shows "q' = takeWhile (\<lambda>x. te_expiresAt x \<le> e) q
    @ \<lparr>te_paycardId = i, te_expiresAt = e\<rparr> # dropWhile (\<lambda>x. te_expiresAt x \<le> e) q"
proof -
  let ?P = "\<lambda>x. te_expiresAt x \<le> e"
  obtain k where k: "insert_index q e 0 (length q) = Some k"
      and q': "q' = take k q @ \<lparr>te_paycardId = i, te_expiresAt = e\<rparr> # drop k q"
    using assms(2) by (auto simp: schedule_def split: option.splits)
  have at: "split_at q e k k"
    by (rule insert_index_correct [OF assms(1) _ k]) (simp add: split_at_def)
  then have take: "takeWhile ?P q = take k q"
    by (intro takeWhile_eq_take_P_nth) (auto simp: split_at_def not_le)
  then have "dropWhile ?P q = drop k q" using at
    by (simp add: dropWhile_eq_drop split_at_def)
  with take q' show ?thesis by simp
qed


section \<open>The queue is a stable sort\<close>

lemma stable_insert:
  assumes "sorted (map f xs)"
  shows "sort_key f (xs @ [x]) = takeWhile (\<lambda>y. f y \<le> f x) xs @ x # dropWhile (\<lambda>y. f y \<le> f x) xs"
    (is "_ = ?r")
proof (rule properties_for_sort_key)
  have split: "takeWhile (\<lambda>y. f y \<le> f x) xs @ dropWhile (\<lambda>y. f y \<le> f x) xs = xs" by simp
  show "mset ?r = mset (xs @ [x])"
    using arg_cong [OF split, of mset] by (simp only: mset_append mset.simps) simp
  have parts: "sorted (map f (takeWhile (\<lambda>y. f y \<le> f x) xs))" "sorted (map f (dropWhile (\<lambda>y. f y \<le> f x) xs))"
    using assms split by (metis map_append sorted_append)+
  have later: "f x < f y" if "y \<in> set (dropWhile (\<lambda>y. f y \<le> f x) xs)" for y
  proof (cases "dropWhile (\<lambda>y. f y \<le> f x) xs")
    case (Cons z zs)
    then have "\<not> f z \<le> f x" using hd_dropWhile [of "\<lambda>y. f y \<le> f x" xs] by simp
    then show ?thesis using that parts(2) Cons by fastforce
  next
    case Nil
    show ?thesis using that unfolding Nil by simp
  qed
  have early: "f y \<le> f x" if "y \<in> set (takeWhile (\<lambda>y. f y \<le> f x) xs)" for y
    using that by (blast dest: set_takeWhileD)
  show "sorted (map f ?r)"
    using parts early later by (fastforce simp: sorted_append)
  show "filter (\<lambda>y. f k = f y) ?r = filter (\<lambda>y. f k = f y) (xs @ [x])" if "k \<in> set ?r" for k
  proof -
    have none: "filter (\<lambda>y. f k = f y) (dropWhile (\<lambda>y. f y \<le> f x) xs) = []" if "f k = f x"
      using later that by (fastforce simp: filter_empty_conv)
    have "filter (\<lambda>y. f k = f y) xs
        = filter (\<lambda>y. f k = f y) (takeWhile (\<lambda>y. f y \<le> f x) xs) @ filter (\<lambda>y. f k = f y) (dropWhile (\<lambda>y. f y \<le> f x) xs)"
      by (metis filter_append split)
    with none show ?thesis by auto
  qed
qed

lemma sort_key_snoc: "sort_key f (xs @ [x]) = sort_key f (sort_key f xs @ [x])"
proof (rule properties_for_sort_key)
  show "filter (\<lambda>y. f k = f y) (sort_key f (sort_key f xs @ [x])) = filter (\<lambda>y. f k = f y) (xs @ [x])"
    if "k \<in> set (sort_key f (sort_key f xs @ [x]))" for k
    by (simp add: sort_key_stable [where f = f] eq_commute [of "f k"])
qed simp_all

text \<open>Scheduling a list of expirations, one after the other.\<close>

fun schedule_all ::
    "(string \<times> int) list \<Rightarrow> termination_entry list \<Rightarrow> termination_entry list option" where
  "schedule_all [] queue = Some queue"
| "schedule_all ((i, e) # es) queue =
     (case schedule i e queue of None \<Rightarrow> None | Some q \<Rightarrow> schedule_all es q)"

definition entry_of :: "string \<times> int \<Rightarrow> termination_entry" where
  "entry_of = (\<lambda>(i, e). \<lparr>te_paycardId = i, te_expiresAt = e\<rparr>)"

lemma queue_sorted_sort [simp]: "queue_sorted (sort_key te_expiresAt xs)"
  by (simp add: queue_sorted_def)

lemma schedule_sorts:
  assumes "queue_sorted q" and "schedule i e q = Some q'"
  shows "q' = sort_key te_expiresAt (q @ [entry_of (i, e)])"
  using schedule_splits [OF assms] stable_insert [of te_expiresAt q "entry_of (i, e)"] assms(1)
  by (simp add: entry_of_def queue_sorted_def)

lemma schedule_all_sorts:
  assumes "length q + length es \<le> 2 ^ 31"
  shows "schedule_all es (sort_key te_expiresAt q) = Some (sort_key te_expiresAt (q @ map entry_of es))"
  using assms
proof (induction es arbitrary: q)
  case (Cons x es)
  obtain i e where x: "x = (i, e)" by (cases x)
  let ?q = "sort_key te_expiresAt q"
  obtain q' where q': "schedule i e ?q = Some q'"
    using schedule_returns [of ?q i e] Cons.prems by auto
  with schedule_sorts [of ?q i e q']
  have "schedule i e ?q = Some (sort_key te_expiresAt (q @ [entry_of (i, e)]))"
    by (simp add: sort_key_snoc [symmetric])
  with Cons.IH [of "q @ [entry_of (i, e)]"] Cons.prems show ?case by (simp add: x)
qed simp


section \<open>The sweep\<close>

lemma checkExpired_sorted:
  assumes "queue_sorted q"
  shows "checkExpired now q = (map te_paycardId (filter (\<lambda>e. te_expiresAt e * 1000 \<le> now) q),
    filter (\<lambda>e. now < te_expiresAt e * 1000) q)"
  using assms
proof (induction q)
  case (Cons e q)
  then have tail: "queue_sorted q" and above: "\<forall>x \<in> set q. te_expiresAt e \<le> te_expiresAt x"
    by (auto simp: queue_sorted_def)
  show ?case
  proof (cases "te_expiresAt e * 1000 \<le> now")
    case True
    with Cons.IH [OF tail] show ?thesis by simp
  next
    case False
    with above have "\<forall>x \<in> set q. now < te_expiresAt x * 1000" by fastforce
    with False show ?thesis by (auto simp: filter_empty_conv filter_id_conv not_le)
  qed
qed simp

lemma checkExpired_keeps_sorted:
  "queue_sorted q \<Longrightarrow> queue_sorted (snd (checkExpired now q))"
  by (simp add: checkExpired_sorted) (simp add: queue_sorted_def sorted_filter)

lemma schedule_set:
  assumes "queue_sorted q" and "schedule i e q = Some q'"
  shows "queue_sorted q' \<and> set q' = insert (entry_of (i, e)) (set q)"
  using schedule_sorts [OF assms] by auto

end
