(* ===== verification/Metadata.thy ===== *)
theory Metadata
  imports External "HOL-Library.Multiset" "HOL-Library.List_Lexorder" "HOL-Library.Char_ord"
begin

text \<open>
  The canonical metadata of a payment (\<open>sdk/src/metadata.ts\<close>): its JSON text with sorted members,
  and its hash, which the contracts store and every off-chain claim about a stream is checked
  against.
\<close>

datatype envelope_mode = Railsflow | Railscard_bearer | Railscard_recipient_bound

fun envelope_mode_str :: "envelope_mode \<Rightarrow> string" where
  "envelope_mode_str Railsflow = ''railsflow''"
| "envelope_mode_str Railscard_bearer = ''railscard_bearer''"
| "envelope_mode_str Railscard_recipient_bound = ''railscard_recipient_bound''"

record canonical_metadata =
  cm_version :: string
  cm_mode :: string
  cm_originator :: string
  cm_recipient :: string
  cm_token :: string
  cm_amount :: string
  cm_flowVelocityPerSecond :: string
  cm_lifespanSeconds :: int
  cm_workflowId :: "string option"
  cm_metadataRef :: "string option"
  cm_descriptionHash :: "string option"
  cm_expiresAt :: "int option"

definition json_of_metadata :: "canonical_metadata \<Rightarrow> json" where
  "json_of_metadata m = jobj [
     (''version'', Some (JStr (cm_version m))),
     (''mode'', Some (JStr (cm_mode m))),
     (''originator'', Some (JStr (cm_originator m))),
     (''recipient'', Some (JStr (cm_recipient m))),
     (''token'', Some (JStr (cm_token m))),
     (''amount'', Some (JStr (cm_amount m))),
     (''flowVelocityPerSecond'', Some (JStr (cm_flowVelocityPerSecond m))),
     (''lifespanSeconds'', Some (JNum (cm_lifespanSeconds m))),
     (''workflowId'', map_option JStr (cm_workflowId m)),
     (''metadataRef'', map_option JStr (cm_metadataRef m)),
     (''descriptionHash'', map_option JStr (cm_descriptionHash m)),
     (''expiresAt'', map_option JNum (cm_expiresAt m))]"

text \<open>
  Members in the order of their names; members that are \<open>undefined\<close> are not part of a JSON value
  of the model.
\<close>

fun normalizeValue :: "json \<Rightarrow> json" where
  "normalizeValue (JArr vs) = JArr (map normalizeValue vs)"
| "normalizeValue (JObj fs) = JObj (sort_key fst (map (\<lambda>(k, v). (k, normalizeValue v)) fs))"
| "normalizeValue v = v"

definition canonicalizeMetadata :: "canonical_metadata \<Rightarrow> string" where
  "canonicalizeMetadata m = js_stringify (normalizeValue (json_of_metadata m))"

definition hashOpenRailsMetadata :: "deps \<Rightarrow> canonical_metadata \<Rightarrow> string" where
  "hashOpenRailsMetadata E m = ext_keccakUtf8 E (canonicalizeMetadata m)"


section \<open>Canonical text\<close>

text \<open>The order in which the members of an object were written does not matter.\<close>

lemma sort_key_distinct:
  assumes "mset xs = mset ys" and "distinct (map f xs)"
  shows "sort_key f xs = sort_key f ys"
proof (rule sort_key_inj_key_eq)
  show "mset xs = mset (sort_key f ys)" using assms(1) by simp
  show "inj_on f (set xs)" using assms(2) by (simp add: distinct_map)
  show "sorted (map f (sort_key f ys))" by simp
qed

lemma normalize_permuted:
  assumes "mset fs = mset gs" and "distinct (map fst fs)"
  shows "normalizeValue (JObj fs) = normalizeValue (JObj gs)"
proof -
  have "map fst (map (\<lambda>(k, v). (k, normalizeValue v)) fs) = map fst fs"
    by (induction fs) auto
  with assms sort_key_distinct [of "map (\<lambda>(k, v). (k, normalizeValue v)) fs"
      "map (\<lambda>(k, v). (k, normalizeValue v)) gs" fst]
  show ?thesis by (simp del: map_map)
qed

end
