(* ===== verification/Stream_Gateway.thy ===== *)
theory Stream_Gateway
  imports Store_Interface Termination_Queue Metadata
begin

text \<open>
  The stream gateway (\<open>stream-gateway/index.ts\<close>) and its log parser
  (\<open>stream-gateway/log-parser.ts\<close>): contract logs are parsed, deduplicated, enriched with their
  block's timestamp and applied to the store; a timer projects balances and sweeps expirations.

  Handling a log is asynchronous: \<open>begin_log\<close> runs up to the request for the block and
  \<open>finish_log\<close> from its answer on, so any number of other handlers, ticks and queries may run in
  between.  Times of ticks are milliseconds; \<open>Date.now()\<close> of the event table is an argument.
  A result \<open>None\<close> of an operation that schedules an expiration is a search that does not return.
\<close>


section \<open>Logs and events\<close>

text \<open>
  \<open>parseLog\<close> of an ethers \<open>Interface\<close> is a parameter: the event's name and its decoded
  arguments, of which \<open>uint256\<close> ones are bigints and \<open>address\<close> and \<open>bytes32\<close> ones texts;
  \<open>None\<close> when no event matches or decoding throws.
\<close>

datatype abi_value = Abi_uint nat | Abi_text string

type_synonym log_decoder = "string list \<Rightarrow> string \<Rightarrow> (string \<times> (string \<times> abi_value) list) option"

record chain_log =
  cl_topics :: "string list"
  cl_data :: string
  cl_blockNumber :: int
  cl_transactionHash :: string
  cl_logIndex :: "int option"
  cl_index :: "int option"

record parsed_event =
  pe_eventName :: string
  pe_paycardId :: string
  pe_args :: "(string \<times> string) list"
  pe_blockNumber :: int
  pe_blockTimestamp :: "int option"
  pe_transactionHash :: string
  pe_logIndex :: int

definition abi_string :: "abi_value \<Rightarrow> string" where
  "abi_string v = (case v of Abi_uint n \<Rightarrow> show_nat n | Abi_text s \<Rightarrow> s)"

text \<open>\<open>a ?? b\<close>\<close>

definition or_else :: "'a option \<Rightarrow> 'a \<Rightarrow> 'a" where
  "or_else x d = (case x of Some v \<Rightarrow> v | None \<Rightarrow> d)"

lemma or_else_simps [simp]: "or_else (Some v) d = v" "or_else None d = d"
  by (simp_all add: or_else_def)

definition second_topic :: "string list \<Rightarrow> string option" where
  "second_topic topics = (case topics of t0 # t1 # ts \<Rightarrow> Some t1 | _ \<Rightarrow> None)"

definition parse :: "log_decoder \<Rightarrow> chain_log \<Rightarrow> parsed_event option" where
  "parse parseLog log =
     (case parseLog (cl_topics log) (cl_data log) of
        None \<Rightarrow> None
      | Some (name, values) \<Rightarrow>
          (let args = map (\<lambda>(k, v). (k, abi_string v)) values in
           Some \<lparr>pe_eventName = name,
                 pe_paycardId = or_else (map_of args ''paycardId'')
                   (or_else (second_topic (cl_topics log)) ''0x''),
                 pe_args = args, pe_blockNumber = cl_blockNumber log, pe_blockTimestamp = None,
                 pe_transactionHash = cl_transactionHash log,
                 pe_logIndex = or_else (cl_logIndex log) (or_else (cl_index log) 0)\<rparr>))"

definition pe_key :: "parsed_event \<Rightarrow> string" where
  "pe_key ev = eventKey (pe_transactionHash ev) (pe_logIndex ev)"

definition arg :: "parsed_event \<Rightarrow> string \<Rightarrow> string option" where
  "arg ev k = map_of (pe_args ev) k"

text \<open>\<open>Number(args[k] ?? 0)\<close> of a \<open>uint256\<close> argument, which is the text of a decimal.\<close>

definition uint_number :: "string option \<Rightarrow> int" where
  "uint_number v = (case v of None \<Rightarrow> 0 | Some s \<Rightarrow> js_round (int (dec_value 0 s)))"


section \<open>Event handlers\<close>

record 's gateway =
  gw_store :: 's
  gw_queue :: "termination_entry list"
  gw_processed :: "string list"

definition expires_at :: "stream_state \<Rightarrow> int" where
  "expires_at s = js_round (sm_genesis s + sm_lifespan s)"

definition provisioned_state :: "parsed_event \<Rightarrow> stream_state" where
  "provisioned_state ev =
     (let genesis = uint_number (arg ev ''genesisTimestamp'') in
      \<lparr>sm_paycardId = pe_paycardId ev, sm_payer = or_else (arg ev ''payer'') [],
       sm_recipient = or_else (arg ev ''recipient'') [],
       sm_metadataHash = or_else (arg ev ''metadataHash'') [], sm_workflowId = None,
       sm_totalAllocation = or_else (arg ev ''poolAllocation'') ''0'',
       sm_availableBalance = or_else (arg ev ''poolAllocation'') ''0'',
       sm_projectedAvailableBalance = None,
       sm_velocity = or_else (arg ev ''flowVelocityPerSecond'') ''0'', sm_genesis = genesis,
       sm_lifespan = uint_number (arg ev ''lifespanSeconds''), sm_lastCheckpoint = genesis,
       sm_status = Active\<rparr>)"

definition onPaycardProvisioned ::
    "'s store_ops \<Rightarrow> parsed_event \<Rightarrow> 's gateway \<Rightarrow> 's gateway option" where
  "onPaycardProvisioned ops ev gw =
     (let state = provisioned_state ev;
          gw1 = gw\<lparr>gw_store := so_set ops (pe_paycardId ev) state (gw_store gw)\<rparr>
      in if 0 < sm_lifespan state
         then map_option (\<lambda>q. gw1\<lparr>gw_queue := q\<rparr>)
                (schedule (pe_paycardId ev) (expires_at state) (gw_queue gw1))
         else Some gw1)"

text \<open>A settlement; \<open>BigInt\<close> throws on a text that is no integer.\<close>

definition settled_state :: "parsed_event \<Rightarrow> stream_state \<Rightarrow> string + stream_state" where
  "settled_state ev existing =
     (case (BigInt (or_else (arg ev ''amountWithdrawn'') ''0''), BigInt (sm_availableBalance existing)) of
        (Some withdrawn, Some current) \<Rightarrow>
          (let remaining = current - withdrawn in
           Inr (existing
             \<lparr>sm_availableBalance := show_int (if 0 < remaining then remaining else 0),
              sm_lastCheckpoint := or_else (pe_blockTimestamp ev) (sm_lastCheckpoint existing),
              sm_status := (if remaining \<le> 0 then Terminated else sm_status existing)\<rparr>))
      | _ \<Rightarrow> Inl ''SyntaxError'')"

definition onSettlementFlushed ::
    "'s store_ops \<Rightarrow> parsed_event \<Rightarrow> 's gateway \<Rightarrow> string option \<times> 's gateway" where
  "onSettlementFlushed ops ev gw =
     (case so_get ops (gw_store gw) (pe_paycardId ev) of
        None \<Rightarrow> (None, gw)
      | Some existing \<Rightarrow>
          (case settled_state ev existing of
             Inl e \<Rightarrow> (Some e, gw)
           | Inr s \<Rightarrow> (None, gw\<lparr>gw_store := so_set ops (pe_paycardId ev) s (gw_store gw)\<rparr>)))"

definition reclaimed_state :: "stream_state \<Rightarrow> stream_state" where
  "reclaimed_state existing = existing\<lparr>sm_availableBalance := ''0'', sm_status := Terminated\<rparr>"

definition onResidualDeltaReclaimed ::
    "'s store_ops \<Rightarrow> parsed_event \<Rightarrow> 's gateway \<Rightarrow> 's gateway" where
  "onResidualDeltaReclaimed ops ev gw =
     (case so_get ops (gw_store gw) (pe_paycardId ev) of
        None \<Rightarrow> gw
      | Some existing \<Rightarrow>
          gw\<lparr>gw_store := so_set ops (pe_paycardId ev) (reclaimed_state existing) (gw_store gw)\<rparr>)"

definition applyEvent ::
    "'s store_ops \<Rightarrow> parsed_event \<Rightarrow> 's gateway \<Rightarrow> (string option \<times> 's gateway) option" where
  "applyEvent ops ev gw =
     (if pe_eventName ev = ''PaycardProvisioned''
      then map_option (Pair None) (onPaycardProvisioned ops ev gw)
      else if pe_eventName ev = ''SettlementFlushed'' then Some (onSettlementFlushed ops ev gw)
      else if pe_eventName ev = ''ResidualDeltaReclaimed''
      then Some (None, onResidualDeltaReclaimed ops ev gw)
      else Some (None, gw))"


section \<open>Handling a log\<close>

definition toEventRecord :: "'s store_ops \<Rightarrow> 's \<Rightarrow> int \<Rightarrow> parsed_event \<Rightarrow> event_record" where
  "toEventRecord ops store now ev =
     (let existing = so_get ops store (pe_paycardId ev) in
      \<lparr>er_paycardId = pe_paycardId ev, er_eventName = pe_eventName ev,
       er_workflowId = (case existing of None \<Rightarrow> None | Some s \<Rightarrow> sm_workflowId s),
       er_metadataHash = (case arg ev ''metadataHash'' of
          Some h \<Rightarrow> Some h | None \<Rightarrow> map_option sm_metadataHash existing),
       er_blockNumber = pe_blockNumber ev, er_blockTimestamp = pe_blockTimestamp ev,
       er_transactionHash = pe_transactionHash ev, er_logIndex = pe_logIndex ev,
       er_args = pe_args ev, er_recordedAt = now\<rparr>)"

text \<open>Up to the request for the block: the event to go on with, if it is a new one.\<close>

definition begin_log ::
    "'s store_ops \<Rightarrow> log_decoder \<Rightarrow> chain_log \<Rightarrow> 's gateway \<Rightarrow> parsed_event option \<times> 's gateway" where
  "begin_log ops parseLog log gw =
     (case parse parseLog log of
        None \<Rightarrow> (None, gw)
      | Some ev \<Rightarrow>
          (let logKey = pe_key ev;
               seen = gw\<lparr>gw_processed := set_add logKey (gw_processed gw)\<rparr>
           in if logKey \<in> set (gw_processed gw) then (None, gw)
              else if so_hasEvent ops (gw_store gw) logKey then (None, seen)
              else (Some ev, seen)))"

text \<open>From the block's answer on; \<open>timestamp\<close> is \<open>None\<close> when the node does not know the block.\<close>

definition finish_log ::
    "'s store_ops \<Rightarrow> int \<Rightarrow> int option \<Rightarrow> parsed_event \<Rightarrow> 's gateway \<Rightarrow>
     (string option \<times> 's gateway) option" where
  "finish_log ops now timestamp ev gw =
     (let event = ev\<lparr>pe_blockTimestamp := timestamp\<rparr>;
          gw1 = gw\<lparr>gw_store :=
            so_recordEvent ops (toEventRecord ops (gw_store gw) now event) (gw_store gw)\<rparr>
      in applyEvent ops event gw1)"

text \<open>
  Awaited: what the backfill does with each log.  \<open>blocks\<close> is the node: \<open>None\<close> when the request
  for a block throws.
\<close>

definition handleLog ::
    "'s store_ops \<Rightarrow> log_decoder \<Rightarrow> (int \<Rightarrow> int option option) \<Rightarrow> int \<Rightarrow> chain_log \<Rightarrow> 's gateway \<Rightarrow>
     (string option \<times> 's gateway) option" where
  "handleLog ops parseLog blocks now log gw =
     (case begin_log ops parseLog log gw of
        (None, gw1) \<Rightarrow> Some (None, gw1)
      | (Some ev, gw1) \<Rightarrow>
          (case blocks (cl_blockNumber log) of
             None \<Rightarrow> Some (Some ''RPC error'', gw1)
           | Some timestamp \<Rightarrow> finish_log ops now timestamp ev gw1))"

fun handle_all ::
    "'s store_ops \<Rightarrow> log_decoder \<Rightarrow> (int \<Rightarrow> int option option) \<Rightarrow> int \<Rightarrow> chain_log list \<Rightarrow> 's gateway \<Rightarrow>
     (string option \<times> 's gateway) option" where
  "handle_all ops parseLog blocks now [] gw = Some (None, gw)"
| "handle_all ops parseLog blocks now (log # logs) gw =
     (case handleLog ops parseLog blocks now log gw of
        None \<Rightarrow> None
      | Some (Some e, gw1) \<Rightarrow> Some (Some e, gw1)
      | Some (None, gw1) \<Rightarrow> handle_all ops parseLog blocks now logs gw1)"

definition backfill ::
    "'s store_ops \<Rightarrow> log_decoder \<Rightarrow> (int \<Rightarrow> int option option) \<Rightarrow> int \<Rightarrow> chain_log list \<Rightarrow> 's gateway \<Rightarrow>
     ((string + nat) \<times> 's gateway) option" where
  "backfill ops parseLog blocks now logs gw =
     (let sorted = sort_key (\<lambda>l. (cl_blockNumber l, or_else (cl_index l) (or_else (cl_logIndex l) 0))) logs
      in map_option (\<lambda>(err, gw1). (case err of None \<Rightarrow> Inr (length logs) | Some e \<Rightarrow> Inl e, gw1))
           (handle_all ops parseLog blocks now sorted gw))"


section \<open>Ticks\<close>

definition accrue :: "int \<Rightarrow> stream_state \<Rightarrow> string + stream_state" where
  "accrue nowMs state =
     (if nowMs \<le> sm_lastCheckpoint state * 1000 then Inr state
      else if sm_lifespan state = 0 then Inr state
      else (case (BigInt (sm_velocity state), BigInt (sm_availableBalance state)) of
              (Some velocity, Some current) \<Rightarrow>
                (let projected = current - velocity * (nowMs div 1000 - sm_lastCheckpoint state) in
                 Inr (state\<lparr>sm_projectedAvailableBalance :=
                   Some (show_int (if 0 < projected then projected else 0))\<rparr>))
            | _ \<Rightarrow> Inl ''SyntaxError''))"

definition processAccruals ::
    "'s store_ops \<Rightarrow> int \<Rightarrow> 's gateway \<Rightarrow> string option \<times> 's gateway" where
  "processAccruals ops nowMs gw =
     (case so_updateActive ops (accrue nowMs) (gw_store gw) of
        (e, s) \<Rightarrow> (e, gw\<lparr>gw_store := s\<rparr>))"

definition expiry_event :: "string \<Rightarrow> parsed_event" where
  "expiry_event i =
     \<lparr>pe_eventName = ''StreamExpiredPendingSettlement'', pe_paycardId = i,
      pe_args = [(''reason'', ''lifespan_elapsed'')], pe_blockNumber = 0, pe_blockTimestamp = None,
      pe_transactionHash = [], pe_logIndex = 0\<rparr>"

fun sweep_ids ::
    "'s store_ops \<Rightarrow> string list \<Rightarrow> 's \<Rightarrow> 's \<times> parsed_event list" where
  "sweep_ids ops [] store = (store, [])"
| "sweep_ids ops (i # ids) store =
     (case so_get ops store i of
        None \<Rightarrow> sweep_ids ops ids store
      | Some state \<Rightarrow>
          if is_active state
          then (case sweep_ids ops ids (so_set ops i (state\<lparr>sm_status := PendingSettlement\<rparr>) store) of
                  (store', sent) \<Rightarrow> (store', expiry_event i # sent))
          else sweep_ids ops ids store)"

definition sweepExpired ::
    "'s store_ops \<Rightarrow> int \<Rightarrow> 's gateway \<Rightarrow> 's gateway \<times> parsed_event list" where
  "sweepExpired ops nowMs gw =
     (case checkExpired nowMs (gw_queue gw) of
        (expired, queue) \<Rightarrow>
          (case sweep_ids ops expired (gw_store gw) of
             (store, sent) \<Rightarrow> (gw\<lparr>gw_store := store, gw_queue := queue\<rparr>, sent)))"

text \<open>The timer's callback; the timer swallows what it throws.\<close>

definition tick ::
    "'s store_ops \<Rightarrow> int \<Rightarrow> 's gateway \<Rightarrow> string option \<times> 's gateway \<times> parsed_event list" where
  "tick ops nowMs gw =
     (case processAccruals ops nowMs gw of
        (Some e, gw1) \<Rightarrow> (Some e, gw1, [])
      | (None, gw1) \<Rightarrow> (None, sweepExpired ops nowMs gw1))"


section \<open>Metadata and start\<close>

definition bindVerifiedMetadata ::
    "deps \<Rightarrow> 's store_ops \<Rightarrow> string \<Rightarrow> canonical_metadata \<Rightarrow> 's gateway \<Rightarrow>
     (string + stream_state) \<times> 's gateway" where
  "bindVerifiedMetadata E ops i metadata gw =
     (case so_get ops (gw_store gw) i of
        None \<Rightarrow> (Inl ''Cannot bind metadata for unknown Paycard Stream'', gw)
      | Some state \<Rightarrow>
          if hashOpenRailsMetadata E metadata \<noteq> sm_metadataHash state
          then (Inl ''Cannot bind workflowId because metadataHash does not match stream'', gw)
          else (case so_bindWorkflow ops i (cm_workflowId metadata) (gw_store gw) of
                  (bound, store) \<Rightarrow> (Inr (or_else bound state), gw\<lparr>gw_store := store\<rparr>)))"

fun reschedule ::
    "stream_state list \<Rightarrow> termination_entry list \<Rightarrow> termination_entry list option" where
  "reschedule [] queue = Some queue"
| "reschedule (s # states) queue =
     (if 0 < sm_lifespan s
      then (case schedule (sm_paycardId s) (expires_at s) queue of
              None \<Rightarrow> None
            | Some q \<Rightarrow> reschedule states q)
      else reschedule states queue)"

definition start_gateway :: "'s store_ops \<Rightarrow> 's \<Rightarrow> 's gateway option" where
  "start_gateway ops store =
     map_option (\<lambda>q. \<lparr>gw_store = store, gw_queue = q, gw_processed = []\<rparr>)
       (reschedule (so_getActive ops store) [])"

end
