(* ===== verification/Gateway_Runs.thy ===== *)
theory Gateway_Runs
  imports Stream_Gateway
begin

text \<open>
  The stream gateway as a state machine: handlers waiting for a block, ticks, metadata bindings and
  restarts in any order.  The lemmas rest on the laws of the store interface, so they hold for
  every store that provides it.
\<close>


section \<open>Steps\<close>

text \<open>
  \<open>gs_applied\<close> is a ghost: the keys of the events whose handlers got to their effects.  A handler
  whose request for the block fails disappears, and a restart drops the ones that wait.
\<close>

record 's gateway_system =
  gs_gateway :: "'s gateway"
  gs_pending :: "parsed_event list"
  gs_applied :: "string list"

inductive gateway_step ::
    "deps \<Rightarrow> 's store_ops \<Rightarrow> log_decoder \<Rightarrow> ('s \<Rightarrow> 's) \<Rightarrow> 's gateway_system \<Rightarrow> 's gateway_system \<Rightarrow> bool"
  for E ops parseLog restart where
  receive: "begin_log ops parseLog log (gs_gateway y) = (out, g) \<Longrightarrow>
    gateway_step E ops parseLog restart y
      (y\<lparr>gs_gateway := g, gs_pending := gs_pending y @ (case out of None \<Rightarrow> [] | Some ev \<Rightarrow> [ev])\<rparr>)"
| resolve: "gs_pending y = before @ ev # later \<Longrightarrow>
    finish_log ops now timestamp ev (gs_gateway y) = Some (err, g) \<Longrightarrow>
    gateway_step E ops parseLog restart y
      (y\<lparr>gs_gateway := g, gs_pending := before @ later, gs_applied := gs_applied y @ [pe_key ev]\<rparr>)"
| lose: "gs_pending y = before @ ev # later \<Longrightarrow>
    gateway_step E ops parseLog restart y (y\<lparr>gs_pending := before @ later\<rparr>)"
| timer: "tick ops nowMs (gs_gateway y) = (err, g, sent) \<Longrightarrow>
    gateway_step E ops parseLog restart y (y\<lparr>gs_gateway := g\<rparr>)"
| bind: "bindVerifiedMetadata E ops i metadata (gs_gateway y) = (out, g) \<Longrightarrow>
    gateway_step E ops parseLog restart y (y\<lparr>gs_gateway := g\<rparr>)"
| restarted: "start_gateway ops (restart (gw_store (gs_gateway y))) = Some g \<Longrightarrow>
    gateway_step E ops parseLog restart y (y\<lparr>gs_gateway := g, gs_pending := []\<rparr>)"

definition new_system :: "'s gateway \<Rightarrow> 's gateway_system" where
  "new_system g = \<lparr>gs_gateway = g, gs_pending = [], gs_applied = []\<rparr>"


section \<open>Operations and the laws of the store\<close>

lemma expiry_members [simp]:
  "sm_paycardId (provisioned_state ev) = pe_paycardId ev"
  "sm_status (provisioned_state ev) = Active"
  "sm_paycardId (reclaimed_state s) = sm_paycardId s"
  "sm_status (reclaimed_state s) = Terminated"
  by (simp_all add: provisioned_state_def reclaimed_state_def Let_def)

lemma settled_members:
  assumes "settled_state ev s = Inr t"
  shows "sm_paycardId t = sm_paycardId s" "sm_genesis t = sm_genesis s" "sm_lifespan t = sm_lifespan s"
    "is_active t \<Longrightarrow> is_active s"
  using assms by (auto simp: settled_state_def Let_def is_active_def split: option.splits if_splits)

lemma accrue_projects: "only_projects (accrue now)"
  by (auto simp: only_projects_def accrue_def forget_def Let_def split: option.splits if_splits)

lemma record_key_event: "record_key (toEventRecord ops st now ev) = pe_key ev"
  by (simp add: record_key_def toEventRecord_def pe_key_def Let_def)

lemma begin_log_cases:
  assumes "begin_log ops parseLog log gw = (out, g)"
  shows "gw_store g = gw_store gw \<and> gw_queue g = gw_queue gw \<and>
    set (gw_processed gw) \<subseteq> set (gw_processed g) \<and>
    (\<forall>ev. out = Some ev \<longrightarrow> pe_key ev \<in> set (gw_processed g) \<and>
       pe_key ev \<notin> set (gw_processed gw) \<and> \<not> so_hasEvent ops (gw_store gw) (pe_key ev))"
  using assms by (auto simp: begin_log_def Let_def split: option.splits if_splits)

text \<open>Every effect of an event goes through one write to the store.\<close>

definition event_write :: "'s store_ops \<Rightarrow> parsed_event \<Rightarrow> 's gateway \<Rightarrow> 's gateway \<Rightarrow> bool" where
  "event_write ops ev gw g \<longleftrightarrow>
     gw_processed g = gw_processed gw \<and>
     (g = gw \<or>
      gw_store g = so_set ops (pe_paycardId ev) (provisioned_state ev) (gw_store gw) \<and>
        (if 0 < sm_lifespan (provisioned_state ev)
         then schedule (pe_paycardId ev) (expires_at (provisioned_state ev)) (gw_queue gw) = Some (gw_queue g)
         else gw_queue g = gw_queue gw) \<or>
      (\<exists>s t. so_get ops (gw_store gw) (pe_paycardId ev) = Some s \<and>
        (settled_state ev s = Inr t \<or> t = reclaimed_state s) \<and>
        gw_store g = so_set ops (pe_paycardId ev) t (gw_store gw) \<and> gw_queue g = gw_queue gw))"

lemma applyEvent_writes:
  assumes "applyEvent ops ev gw = Some (err, g)"
  shows "event_write ops ev gw g"
  using assms
  by (auto simp: applyEvent_def event_write_def onPaycardProvisioned_def onSettlementFlushed_def
      onResidualDeltaReclaimed_def Let_def split: if_splits option.splits sum.splits)

lemma finish_log_writes:
  assumes "finish_log ops now timestamp ev gw = Some (err, g)"
  shows "\<exists>r. record_key r = pe_key ev \<and> event_write ops (ev\<lparr>pe_blockTimestamp := timestamp\<rparr>)
    (gw\<lparr>gw_store := so_recordEvent ops r (gw_store gw)\<rparr>) g"
proof -
  let ?event = "ev\<lparr>pe_blockTimestamp := timestamp\<rparr>"
  have "pe_key ?event = pe_key ev" by (simp add: pe_key_def)
  moreover have "event_write ops ?event (gw\<lparr>gw_store :=
      so_recordEvent ops (toEventRecord ops (gw_store gw) now ?event) (gw_store gw)\<rparr>) g"
    by (rule applyEvent_writes) (use assms in \<open>simp add: finish_log_def Let_def\<close>)
  ultimately show ?thesis using record_key_event [of ops "gw_store gw" now ?event] by metis
qed

text \<open>What a sweep writes: ids become pending one by one.\<close>

lemma sweep_ids_Cons:
  "fst (sweep_ids ops (i # ids) store) =
     (case so_get ops store i of
        None \<Rightarrow> fst (sweep_ids ops ids store)
      | Some s \<Rightarrow> fst (sweep_ids ops ids
          (if is_active s then so_set ops i (s\<lparr>sm_status := PendingSettlement\<rparr>) store else store)))"
  by (auto split: option.split prod.split)

lemma sweep_ids_induct:
  assumes "P store"
    and "\<And>store i s. P store \<Longrightarrow> so_get ops store i = Some s \<Longrightarrow> is_active s \<Longrightarrow>
      P (so_set ops i (s\<lparr>sm_status := PendingSettlement\<rparr>) store)"
  shows "P (fst (sweep_ids ops ids store))"
  using assms(1)
proof (induction ids arbitrary: store)
  case (Cons i ids)
  then show ?case
    by (cases "so_get ops store i") (auto simp del: sweep_ids.simps simp: sweep_ids_Cons intro: assms(2))
qed simp

lemma tick_store:
  "gw_store (fst (snd (tick ops now gw))) =
     (case so_updateActive ops (accrue now) (gw_store gw) of
        (Some e, s) \<Rightarrow> s
      | (None, s) \<Rightarrow> fst (sweep_ids ops (fst (checkExpired now (gw_queue gw))) s))"
  "gw_queue (fst (snd (tick ops now gw))) =
     (case fst (so_updateActive ops (accrue now) (gw_store gw)) of
        Some e \<Rightarrow> gw_queue gw
      | None \<Rightarrow> snd (checkExpired now (gw_queue gw)))"
  "gw_processed (fst (snd (tick ops now gw))) = gw_processed gw"
  "fst (tick ops now gw) = fst (so_updateActive ops (accrue now) (gw_store gw))"
  by (auto simp: tick_def processAccruals_def sweepExpired_def split: prod.splits option.splits)

context stream_store
begin

lemma event_write_ok:
  assumes "event_write ops ev gw g" and "ok (gw_store gw)"
  shows "ok (gw_store g)"
  using assms ok_set keyed settled_members(1)
  by (auto simp: event_write_def)

lemma event_write_has:
  assumes "event_write ops ev gw g"
  shows "so_hasEvent ops (gw_store g) k = so_hasEvent ops (gw_store gw) k"
  using assms by (auto simp: event_write_def has_set)

lemma tick_ok:
  assumes "ok (gw_store gw)"
  shows "ok (gw_store (fst (snd (tick ops now gw))))"
proof -
  have u: "ok (snd (so_updateActive ops (accrue now) (gw_store gw)))"
    by (rule ok_update [OF assms accrue_projects])
  have "ok (fst (sweep_ids ops ids (snd (so_updateActive ops (accrue now) (gw_store gw)))))" for ids
    by (rule sweep_ids_induct [where P = ok]) (use u ok_set keyed in auto)
  with u show ?thesis by (auto simp: tick_store split: prod.splits option.splits)
qed

lemma tick_has: "so_hasEvent ops (gw_store (fst (snd (tick ops now gw)))) k = so_hasEvent ops (gw_store gw) k"
proof -
  have "so_hasEvent ops (fst (sweep_ids ops ids st)) k = so_hasEvent ops st k" for ids st
    by (rule sweep_ids_induct [where P = "\<lambda>s. so_hasEvent ops s k = so_hasEvent ops st k"]) (simp_all add: has_set)
  then show ?thesis
    using has_update [of "accrue now" "gw_store gw" k] by (auto simp: tick_store split: prod.splits option.splits)
qed

lemma bind_store:
  assumes "bindVerifiedMetadata E ops i metadata gw = (out, g)"
  shows "g = gw \<or> g = gw\<lparr>gw_store := snd (so_bindWorkflow ops i (cm_workflowId metadata) (gw_store gw))\<rparr>"
  using assms by (auto simp: bindVerifiedMetadata_def split: option.splits if_splits prod.splits)

end


section \<open>Events are applied at most once\<close>

definition applied_once :: "'s store_ops \<Rightarrow> 's gateway_system \<Rightarrow> bool" where
  "applied_once ops y \<longleftrightarrow>
     distinct (gs_applied y @ map pe_key (gs_pending y)) \<and>
     set (map pe_key (gs_pending y)) \<subseteq> set (gw_processed (gs_gateway y)) \<and>
     (\<forall>k \<in> set (gs_applied y). so_hasEvent ops (gw_store (gs_gateway y)) k)"

context durable_store
begin

lemma finish_log_has:
  assumes "finish_log ops now timestamp ev gw = Some (err, g)"
  shows "\<And>k. so_hasEvent ops (gw_store g) k \<longleftrightarrow> so_hasEvent ops (gw_store gw) k \<or> k = pe_key ev"
    and "gw_processed g = gw_processed gw"
proof -
  obtain r where r: "record_key r = pe_key ev"
      and w: "event_write ops (ev\<lparr>pe_blockTimestamp := timestamp\<rparr>) (gw\<lparr>gw_store := so_recordEvent ops r (gw_store gw)\<rparr>) g"
    using finish_log_writes [OF assms] by blast
  from event_write_has [OF w] r show "so_hasEvent ops (gw_store g) k \<longleftrightarrow>
      so_hasEvent ops (gw_store gw) k \<or> k = pe_key ev" for k
    using has_record [of r "gw_store gw" k] has_kept [of "gw_store gw" k r] has_recorded [of r "gw_store gw"] by auto
  from w show "gw_processed g = gw_processed gw" by (simp add: event_write_def)
qed

lemma gateway_step_ok:
  assumes "gateway_step E ops parseLog restart y y'" and "ok (gw_store (gs_gateway y))"
  shows "ok (gw_store (gs_gateway y'))"
  using assms
proof cases
  case (receive log out g)
  with begin_log_cases [OF receive(2)] assms(2) show ?thesis by simp
next
  case (resolve before ev later now timestamp err g)
  obtain r where w: "event_write ops (ev\<lparr>pe_blockTimestamp := timestamp\<rparr>)
      ((gs_gateway y)\<lparr>gw_store := so_recordEvent ops r (gw_store (gs_gateway y))\<rparr>) g"
    using finish_log_writes [OF resolve(3)] by blast
  have "ok (gw_store g)" by (rule event_write_ok [OF w]) (simp add: ok_record assms(2))
  with resolve show ?thesis by simp
next
  case (lose before ev later)
  with assms(2) show ?thesis by simp
next
  case (timer nowMs err g sent)
  with tick_ok [OF assms(2), of nowMs] show ?thesis by simp
next
  case (bind i metadata out g)
  from bind_store [OF bind(2)] assms(2) ok_bind bind show ?thesis by auto
next
  case (restarted g)
  with restart_ok [OF assms(2)] show ?thesis by (auto simp: start_gateway_def)
qed

lemma step_applied_once:
  assumes "gateway_step E ops parseLog restart y y'"
    and "ok (gw_store (gs_gateway y))" and "applied_once ops y"
  shows "applied_once ops y'"
  using assms(1)
proof cases
  case (receive log out g)
  note b = begin_log_cases [OF receive(2)]
  show ?thesis
  proof (cases out)
    case None
    with b assms(3) receive(1) show ?thesis by (auto simp: applied_once_def)
  next
    case (Some ev)
    with b assms(3) have "pe_key ev \<notin> set (map pe_key (gs_pending y))" "pe_key ev \<notin> set (gs_applied y)"
      by (auto simp: applied_once_def)
    with b assms(3) receive(1) Some show ?thesis by (auto simp: applied_once_def)
  qed
next
  case (resolve before ev later now timestamp err g)
  from finish_log_has [OF resolve(3)] assms(3) resolve(1,2) show ?thesis
    by (auto simp: applied_once_def)
next
  case (lose before ev later)
  with assms(3) show ?thesis by (auto simp: applied_once_def)
next
  case (timer nowMs err g sent)
  with assms(3) tick_has [of nowMs "gs_gateway y"] tick_store(3) [of ops nowMs "gs_gateway y"] show ?thesis
    by (simp add: applied_once_def)
next
  case (bind i metadata out g)
  from bind_store [OF bind(2)] bind(1) assms(3) has_bind show ?thesis
    by (auto simp: applied_once_def)
next
  case (restarted g)
  with assms(2,3) restart_has show ?thesis by (auto simp: applied_once_def start_gateway_def)
qed

lemma run_applied_once:
  assumes "(gateway_step E ops parseLog restart)\<^sup>*\<^sup>* y y'"
    and "ok (gw_store (gs_gateway y))" and "applied_once ops y"
  shows "ok (gw_store (gs_gateway y')) \<and> applied_once ops y'"
  using assms by (induction rule: rtranclp_induct) (auto intro: gateway_step_ok step_applied_once)

end

end
