(* ===== verification/Gateway_Streams.thy ===== *)
theory Gateway_Streams
  imports Gateway_Runs
begin

text \<open>
  What holds of every stream a gateway keeps, however its handlers interleave and however often it
  restarts: the balances, the workflow scopes, and the expirations still to come.
\<close>


section \<open>Facts about single streams\<close>

definition streams :: "'s store_ops \<Rightarrow> (stream_state \<Rightarrow> bool) \<Rightarrow> 's \<Rightarrow> bool" where
  "streams ops P st \<longleftrightarrow> (\<forall>i s. so_get ops st i = Some s \<longrightarrow> P s)"

text \<open>A fact that every write of the gateway keeps; \<open>Q\<close> is what is known of the events.\<close>

definition kept :: "deps \<Rightarrow> (parsed_event \<Rightarrow> bool) \<Rightarrow> (stream_state \<Rightarrow> bool) \<Rightarrow> bool" where
  "kept E Q P \<longleftrightarrow>
     (\<forall>s t. forget t = forget s \<longrightarrow> P s \<longrightarrow> P t) \<and>
     (\<forall>ev. Q ev \<longrightarrow> P (provisioned_state ev)) \<and>
     (\<forall>ev s t. Q ev \<longrightarrow> P s \<longrightarrow> settled_state ev s = Inr t \<longrightarrow> P t) \<and>
     (\<forall>s. P s \<longrightarrow> P (reclaimed_state s)) \<and>
     (\<forall>s. P s \<longrightarrow> is_active s \<longrightarrow> P (s\<lparr>sm_status := PendingSettlement\<rparr>)) \<and>
     (\<forall>s m. P s \<longrightarrow> hashOpenRailsMetadata E m = sm_metadataHash s \<longrightarrow> P (bound_to (cm_workflowId m) s))"

lemma keptI:
  assumes "\<And>s t. forget t = forget s \<Longrightarrow> P s \<Longrightarrow> P t"
    and "\<And>ev. Q ev \<Longrightarrow> P (provisioned_state ev)"
    and "\<And>ev s t. Q ev \<Longrightarrow> P s \<Longrightarrow> settled_state ev s = Inr t \<Longrightarrow> P t"
    and "\<And>s. P s \<Longrightarrow> P (reclaimed_state s)"
    and "\<And>s. P s \<Longrightarrow> is_active s \<Longrightarrow> P (s\<lparr>sm_status := PendingSettlement\<rparr>)"
    and "\<And>s m. P s \<Longrightarrow> hashOpenRailsMetadata E m = sm_metadataHash s \<Longrightarrow>
      P (bound_to (cm_workflowId m) s)"
  shows "kept E Q P"
  using assms unfolding kept_def by blast

text \<open>What the decoder guarantees of the events of the logs, whatever their timestamps.\<close>

definition decodes :: "log_decoder \<Rightarrow> (parsed_event \<Rightarrow> bool) \<Rightarrow> bool" where
  "decodes parseLog Q \<longleftrightarrow>
     (\<forall>log ev t. parse parseLog log = Some ev \<longrightarrow> Q (ev\<lparr>pe_blockTimestamp := t\<rparr>))"

definition pending_all :: "(parsed_event \<Rightarrow> bool) \<Rightarrow> 's gateway_system \<Rightarrow> bool" where
  "pending_all Q y \<longleftrightarrow> (\<forall>ev \<in> set (gs_pending y). \<forall>t. Q (ev\<lparr>pe_blockTimestamp := t\<rparr>))"

lemma begin_log_parses: "begin_log ops parseLog log gw = (Some ev, g) \<Longrightarrow> parse parseLog log = Some ev"
  by (auto simp: begin_log_def Let_def split: option.splits if_splits)

lemma step_pending:
  assumes "gateway_step E ops parseLog restart y y'" and "decodes parseLog Q" and "pending_all Q y"
  shows "pending_all Q y'"
  using assms(1)
proof cases
  case (receive log out g)
  then show ?thesis
    using assms(2,3) begin_log_parses [of ops parseLog log "gs_gateway y" _ g]
    by (cases out) (auto simp: pending_all_def decodes_def)
qed (use assms(3) in \<open>auto simp: pending_all_def\<close>)

context stream_store
begin

lemma streams_write:
  assumes "event_write ops ev gw g" and "kept E Q P" and "Q ev" and "streams ops P (gw_store gw)"
  shows "streams ops P (gw_store g)"
proof -
  have "P (provisioned_state ev)" and "\<And>s t. P s \<Longrightarrow> settled_state ev s = Inr t \<Longrightarrow> P t"
    and "\<And>s. P s \<Longrightarrow> P (reclaimed_state s)"
    using assms(2,3) unfolding kept_def by metis+
  with assms(1,4) show ?thesis
    unfolding event_write_def streams_def
    by (elim conjE disjE exE) (simp_all add: get_set, blast)
qed

lemma streams_update:
  assumes "kept E Q P" and "streams ops P st" and "only_projects f"
  shows "streams ops P (snd (so_updateActive ops f st))"
  unfolding streams_def
proof (intro allI impI)
  fix i t
  assume "so_get ops (snd (so_updateActive ops f st)) i = Some t"
  with get_update [of f st i] obtain s where "so_get ops st i = Some s" and u: "updated_by f s t"
    by (auto simp: option_rel_Some2)
  with assms(1,2) updated_forget [OF assms(3) u] show "P t"
    by (auto simp: kept_def streams_def)
qed

lemma streams_tick:
  assumes "kept E Q P" and "streams ops P (gw_store gw)"
  shows "streams ops P (gw_store (fst (snd (tick ops now gw))))"
proof -
  let ?st = "snd (so_updateActive ops (accrue now) (gw_store gw))"
  have u: "streams ops P ?st" by (rule streams_update [OF assms accrue_projects])
  have "streams ops P (fst (sweep_ids ops ids ?st))" for ids
  proof (rule sweep_ids_induct [where P = "streams ops P", OF u])
    fix store i s
    assume "streams ops P store" "so_get ops store i = Some s" "is_active s"
    with assms(1) show "streams ops P (so_set ops i (s\<lparr>sm_status := PendingSettlement\<rparr>) store)"
      by (auto simp: streams_def kept_def get_set)
  qed
  with u show ?thesis by (auto simp: tick_store split: prod.splits option.splits)
qed

lemma streams_bind:
  assumes "bindVerifiedMetadata E ops i metadata gw = (out, g)"
    and "kept E Q P" and "streams ops P (gw_store gw)"
  shows "streams ops P (gw_store g)"
proof (cases "g = gw")
  case False
  with assms(1) obtain s where s: "so_get ops (gw_store gw) i = Some s"
      "hashOpenRailsMetadata E metadata = sm_metadataHash s"
    by (auto simp: bindVerifiedMetadata_def split: option.splits if_splits)
  from bind_store [OF assms(1)] False
  have "gw_store g = snd (so_bindWorkflow ops i (cm_workflowId metadata) (gw_store gw))" by auto
  with s assms(2,3) show ?thesis by (auto simp: streams_def kept_def get_bind)
qed (use assms(3) in simp)

end

context durable_store
begin

lemma streams_restart:
  assumes "kept E Q P" and "streams ops P st" and "ok st"
  shows "streams ops P (restart st)"
  unfolding streams_def
proof (intro allI impI)
  fix i t
  assume "so_get ops (restart st) i = Some t"
  with restart_get [OF assms(3), of i] obtain s where "so_get ops st i = Some s" "forget t = forget s"
    by (cases "so_get ops st i") auto
  with assms(1,2) show "P t" by (auto simp: kept_def streams_def)
qed

lemma step_streams:
  assumes "gateway_step E ops parseLog restart y y'" and "kept E Q P" and "pending_all Q y"
    and "ok (gw_store (gs_gateway y))" and "streams ops P (gw_store (gs_gateway y))"
  shows "streams ops P (gw_store (gs_gateway y'))"
  using assms(1)
proof cases
  case (receive log out g)
  with begin_log_cases [OF receive(2)] assms(5) show ?thesis by simp
next
  case (resolve before ev later now timestamp err g)
  obtain r where w: "event_write ops (ev\<lparr>pe_blockTimestamp := timestamp\<rparr>)
      ((gs_gateway y)\<lparr>gw_store := so_recordEvent ops r (gw_store (gs_gateway y))\<rparr>) g"
    using finish_log_writes [OF resolve(3)] by blast
  have "Q (ev\<lparr>pe_blockTimestamp := timestamp\<rparr>)"
    using assms(3) resolve(2) by (simp add: pending_all_def)
  from streams_write [OF w assms(2) this] assms(5) have "streams ops P (gw_store g)"
    by (simp add: streams_def get_record)
  with resolve show ?thesis by simp
next
  case (timer nowMs err g sent)
  with streams_tick [OF assms(2,5), of nowMs] show ?thesis by simp
next
  case (bind i metadata out g)
  with streams_bind [OF bind(2) assms(2,5)] show ?thesis by simp
next
  case (restarted g)
  with streams_restart [OF assms(2,5,4)] show ?thesis by (auto simp: start_gateway_def)
qed (use assms(5) in simp)

lemma run_streams:
  assumes "(gateway_step E ops parseLog restart)\<^sup>*\<^sup>* y y'" and "kept E Q P" and "decodes parseLog Q"
    and "pending_all Q y" and "ok (gw_store (gs_gateway y))" and "streams ops P (gw_store (gs_gateway y))"
  shows "ok (gw_store (gs_gateway y')) \<and> pending_all Q y' \<and> streams ops P (gw_store (gs_gateway y'))"
  using assms(1)
proof (induction rule: rtranclp_induct)
  case base
  with assms show ?case by simp
next
  case (step y1 y2)
  with gateway_step_ok [OF step(2)] step_pending [OF step(2) assms(3)] step_streams [OF step(2) assms(2)]
  show ?case by blast
qed

end


section \<open>Balances\<close>

text \<open>
  The contract's amounts are \<open>uint256\<close> arguments: where an event has one, it is a decimal.
\<close>

definition amount_names :: "string list" where
  "amount_names = [''poolAllocation'', ''amountWithdrawn'', ''flowVelocityPerSecond'']"

definition amount_args :: "parsed_event \<Rightarrow> bool" where
  "amount_args ev \<longleftrightarrow>
     (\<forall>k \<in> set amount_names. \<forall>v. arg ev k = Some v \<longrightarrow> (\<exists>n. v = show_nat n))"

definition amounts_decoded :: "log_decoder \<Rightarrow> bool" where
  "amounts_decoded parseLog \<longleftrightarrow>
     (\<forall>topics data name vals. parseLog topics data = Some (name, vals) \<longrightarrow>
        (\<forall>(k, v) \<in> set vals. k \<in> set amount_names \<longrightarrow> (\<exists>n. v = Abi_uint n)))"

lemma amounts_decodes:
  assumes "amounts_decoded parseLog"
  shows "decodes parseLog amount_args"
  unfolding decodes_def
proof (intro allI impI)
  fix log ev t
  assume "parse parseLog log = Some ev"
  then obtain name vals where dec: "parseLog (cl_topics log) (cl_data log) = Some (name, vals)"
      and args: "pe_args ev = map (\<lambda>(k, v). (k, abi_string v)) vals"
    by (auto simp: parse_def Let_def split: option.splits)
  show "amount_args (ev\<lparr>pe_blockTimestamp := t\<rparr>)"
    unfolding amount_args_def
  proof (intro ballI allI impI)
    fix k v
    assume k: "k \<in> set amount_names" and "arg (ev\<lparr>pe_blockTimestamp := t\<rparr>) k = Some v"
    then have "map_of (map (\<lambda>(k, v). (k, abi_string v)) vals) k = Some v"
      by (simp add: arg_def args)
    then have "(k, v) \<in> set (map (\<lambda>(k, v). (k, abi_string v)) vals)" by (rule map_of_SomeD)
    then obtain w where w: "(k, w) \<in> set vals" "v = abi_string w" by auto
    with assms dec k obtain n where "w = Abi_uint n" by (fastforce simp: amounts_decoded_def)
    with w(2) have "v = show_nat n" by (simp add: abi_string_def)
    then show "\<exists>n. v = show_nat n" by (rule exI)
  qed
qed

definition balanced :: "stream_state \<Rightarrow> bool" where
  "balanced s \<longleftrightarrow>
     (\<exists>total left. sm_totalAllocation s = show_int total \<and> sm_availableBalance s = show_int left \<and>
        0 \<le> left \<and> left \<le> total \<and> (sm_status s = Terminated \<longrightarrow> left = 0))"

lemma show_int_nat: "show_nat n = show_int (int n)"
  by (simp add: show_int_def)

lemma show_int_zero: "''0'' = show_int 0"
  by code_simp

lemma amount_arg:
  assumes "amount_args ev" and "k \<in> set amount_names"
  shows "\<exists>n. 0 \<le> n \<and> or_else (arg ev k) ''0'' = show_int n"
proof (cases "arg ev k")
  case None
  then show ?thesis using show_int_zero by auto
next
  case (Some v)
  with assms obtain n where "v = show_nat n" by (auto simp: amount_args_def)
  with Some show ?thesis using show_int_nat [of n] by (intro exI [of _ "int n"]) simp
qed

lemma kept_balanced: "kept E amount_args balanced"
proof (rule keptI)
  show "balanced t" if ev: "amount_args ev" and s: "balanced s" and t: "settled_state ev s = Inr t" for ev s t
  proof -
    obtain w where w: "0 \<le> w" "or_else (arg ev ''amountWithdrawn'') ''0'' = show_int w"
      using amount_arg [OF ev, of "''amountWithdrawn''"] by (auto simp: amount_names_def)
    from s obtain total left where l: "sm_totalAllocation s = show_int total"
        "sm_availableBalance s = show_int left" "0 \<le> left" "left \<le> total"
        "sm_status s = Terminated \<longrightarrow> left = 0"
      by (auto simp: balanced_def)
    have "t = s\<lparr>sm_availableBalance := show_int (if 0 < left - w then left - w else 0),
        sm_lastCheckpoint := or_else (pe_blockTimestamp ev) (sm_lastCheckpoint s),
        sm_status := (if left - w \<le> 0 then Terminated else sm_status s)\<rparr>"
      using t by (simp add: settled_state_def w(2) l(2))
    with w(1) l show ?thesis
      unfolding balanced_def
      by (intro exI [of _ total] exI [of _ "if 0 < left - w then left - w else 0"]) auto
  qed
  show "balanced (provisioned_state ev)" if ev: "amount_args ev" for ev
  proof -
    obtain a where "0 \<le> a" "or_else (arg ev ''poolAllocation'') ''0'' = show_int a"
      using amount_arg [OF ev, of "''poolAllocation''"] by (auto simp: amount_names_def)
    then show ?thesis by (auto simp: balanced_def provisioned_state_def Let_def)
  qed
  show "balanced (reclaimed_state s)" if "balanced s" for s
  proof -
    from that obtain total where "sm_totalAllocation s = show_int total" "0 \<le> total"
      by (auto simp: balanced_def)
    then show ?thesis using show_int_zero
      unfolding balanced_def by (intro exI [of _ total] exI [of _ 0]) (simp add: reclaimed_state_def)
  qed
  show "balanced t" if "forget t = forget s" "balanced s" for s t
    using that(2) by (simp add: balanced_def forget_members [OF that(1)])
qed (auto simp: balanced_def bound_to_def)


text \<open>Members that the projection of balances reads as integers.\<close>

definition numeric :: "stream_state \<Rightarrow> bool" where
  "numeric s \<longleftrightarrow> (\<exists>v left. sm_velocity s = show_int v \<and> sm_availableBalance s = show_int left)"

lemma forget_velocity: "forget t = forget s \<Longrightarrow> sm_velocity t = sm_velocity s"
  by (cases s; cases t; simp add: forget_def)

lemma settled_velocity: "settled_state ev s = Inr t \<Longrightarrow> sm_velocity t = sm_velocity s"
  by (auto simp: settled_state_def Let_def split: option.splits)

lemma settled_numeric: "settled_state ev s = Inr t \<Longrightarrow> \<exists>left. sm_availableBalance t = show_int left"
  by (auto simp: settled_state_def Let_def split: option.splits)

lemma kept_numeric: "kept E amount_args numeric"
proof (rule keptI)
  show "numeric (provisioned_state ev)" if ev: "amount_args ev" for ev
    using amount_arg [OF ev, of "''poolAllocation''"] amount_arg [OF ev, of "''flowVelocityPerSecond''"]
    by (auto simp: numeric_def provisioned_state_def amount_names_def Let_def)
  show "numeric t" if "numeric s" "settled_state ev s = Inr t" for ev s t
    using that(1) settled_velocity [OF that(2)] settled_numeric [OF that(2)] by (auto simp: numeric_def)
  show "numeric (reclaimed_state s)" if "numeric s" for s
    using that show_int_zero by (auto simp: numeric_def reclaimed_state_def)
  show "numeric t" if "forget t = forget s" "numeric s" for s t
    using that(2) by (simp add: numeric_def forget_members [OF that(1)] forget_velocity [OF that(1)])
qed (auto simp: numeric_def bound_to_def)

lemma accrue_numeric: "numeric s \<Longrightarrow> \<exists>t. accrue now s = Inr t"
  by (auto simp: numeric_def accrue_def Let_def)


section \<open>Workflow scopes\<close>

text \<open>
  A stream carries a workflow only by metadata that hashes to the stream's own metadata hash.
\<close>

definition verified_scope :: "deps \<Rightarrow> stream_state \<Rightarrow> bool" where
  "verified_scope E s \<longleftrightarrow>
     (\<forall>w. sm_workflowId s = Some w \<longrightarrow> w \<noteq> [] \<and>
        (\<exists>m. cm_workflowId m = Some w \<and> hashOpenRailsMetadata E m = sm_metadataHash s))"

lemma settled_scope:
  assumes "settled_state ev s = Inr t"
  shows "sm_workflowId t = sm_workflowId s" "sm_metadataHash t = sm_metadataHash s"
  using assms by (auto simp: settled_state_def Let_def split: option.splits)

lemma forget_scope:
  assumes "forget t = forget s"
  shows "sm_workflowId t = sm_workflowId s" "sm_metadataHash t = sm_metadataHash s"
  using assms by (cases s; cases t; simp add: forget_def)+

lemma kept_verified: "kept E (\<lambda>ev. True) (verified_scope E)"
proof (rule keptI)
  show "verified_scope E t" if "forget t = forget s" "verified_scope E s" for s t
    using that(2) by (simp add: verified_scope_def forget_scope [OF that(1)])
  show "verified_scope E t" if "verified_scope E s" "settled_state ev s = Inr t" for ev s t
    using that(1) by (simp add: verified_scope_def settled_scope [OF that(2)])
qed (auto simp: verified_scope_def provisioned_state_def reclaimed_state_def bound_to_def Let_def
    split: option.splits if_splits)


section \<open>Expirations\<close>

text \<open>Every active stream with a lifespan waits in the queue.\<close>

definition awaited :: "'s store_ops \<Rightarrow> termination_entry list \<Rightarrow> 's \<Rightarrow> bool" where
  "awaited ops q st \<longleftrightarrow> queue_sorted q \<and>
     (\<forall>i s. so_get ops st i = Some s \<longrightarrow> is_active s \<longrightarrow> 0 < sm_lifespan s \<longrightarrow>
        entry_of (i, expires_at s) \<in> set q)"

lemma settled_expiry: "settled_state ev s = Inr t \<Longrightarrow> expires_at t = expires_at s"
  by (simp add: expires_at_def settled_members)

lemma queue_sorted_Nil: "queue_sorted []"
  by (simp add: queue_sorted_def)

lemma reschedule_covers:
  assumes "reschedule states q = Some q'" and "queue_sorted q"
  shows "queue_sorted q' \<and> set q \<subseteq> set q' \<and>
    (\<forall>s \<in> set states. 0 < sm_lifespan s \<longrightarrow> entry_of (sm_paycardId s, expires_at s) \<in> set q')"
  using assms
proof (induction states arbitrary: q)
  case (Cons s states)
  show ?case
  proof (cases "0 < sm_lifespan s")
    case True
    with Cons.prems(1) obtain q1 where q1: "schedule (sm_paycardId s) (expires_at s) q = Some q1"
        "reschedule states q1 = Some q'"
      by (auto split: option.splits)
    from schedule_set [OF Cons.prems(2) q1(1)] Cons.IH [OF q1(2)] show ?thesis by auto
  qed (use Cons in auto)
qed simp

context stream_store
begin

lemma awaited_write:
  assumes "event_write ops ev gw g" and "awaited ops (gw_queue gw) (gw_store gw)"
  shows "awaited ops (gw_queue g) (gw_store g)"
  using assms(1) unfolding event_write_def
proof (elim conjE disjE exE)
  assume "g = gw"
  with assms(2) show ?thesis by simp
next
  let ?s = "provisioned_state ev"
  assume store: "gw_store g = so_set ops (pe_paycardId ev) ?s (gw_store gw)"
    and q: "if 0 < sm_lifespan ?s
      then schedule (pe_paycardId ev) (expires_at ?s) (gw_queue gw) = Some (gw_queue g)
      else gw_queue g = gw_queue gw"
  show ?thesis
  proof (cases "0 < sm_lifespan ?s")
    case True
    with q schedule_set [of "gw_queue gw" "pe_paycardId ev" "expires_at ?s" "gw_queue g"] assms(2)
    have "queue_sorted (gw_queue g)"
        "set (gw_queue g) = insert (entry_of (pe_paycardId ev, expires_at ?s)) (set (gw_queue gw))"
      by (auto simp: awaited_def)
    with assms(2) store show ?thesis by (auto simp: awaited_def get_set)
  next
    case False
    with q assms(2) store show ?thesis by (auto simp: awaited_def get_set)
  qed
next
  fix s t
  assume s: "so_get ops (gw_store gw) (pe_paycardId ev) = Some s"
    and store: "gw_store g = so_set ops (pe_paycardId ev) t (gw_store gw)"
    and q: "gw_queue g = gw_queue gw" and t: "settled_state ev s = Inr t"
  have "entry_of (pe_paycardId ev, expires_at t) \<in> set (gw_queue gw)"
    if "is_active t" "0 < sm_lifespan t"
    using assms(2) s settled_members [OF t] settled_expiry [OF t] that by (auto simp: awaited_def)
  with assms(2) store q show ?thesis by (auto simp: awaited_def get_set)
next
  fix s t
  assume "gw_store g = so_set ops (pe_paycardId ev) t (gw_store gw)"
    and "gw_queue g = gw_queue gw" and "t = reclaimed_state s"
  with assms(2) show ?thesis by (auto simp: awaited_def get_set is_active_def)
qed

lemma awaited_update:
  assumes "only_projects f" and "awaited ops q st"
  shows "awaited ops q (snd (so_updateActive ops f st))"
  unfolding awaited_def
proof (intro conjI allI impI)
  fix i t
  assume "so_get ops (snd (so_updateActive ops f st)) i = Some t" and t: "is_active t" "0 < sm_lifespan t"
  with get_update [of f st i] obtain s where s: "so_get ops st i = Some s" and u: "updated_by f s t"
    by (auto simp: option_rel_Some2)
  from forget_members [OF updated_forget [OF assms(1) u]] t s assms(2)
  show "entry_of (i, expires_at t) \<in> set q" by (auto simp: awaited_def expires_at_def)
qed (use assms(2) in \<open>simp add: awaited_def\<close>)

text \<open>A sweep leaves no active stream under a swept id, and touches no other.\<close>

lemma sweep_ids_get:
  "so_get ops (fst (sweep_ids ops ids st)) i =
     (case so_get ops st i of
        None \<Rightarrow> None
      | Some s \<Rightarrow> Some (if i \<in> set ids \<and> is_active s then s\<lparr>sm_status := PendingSettlement\<rparr> else s))"
proof (induction ids arbitrary: st)
  case (Cons j ids)
  show ?case
    by (cases "so_get ops st j")
      (auto simp del: sweep_ids.simps simp: sweep_ids_Cons Cons.IH get_set is_active_def split: option.split)
qed (simp split: option.split)

lemma awaited_sweep:
  assumes "awaited ops q st"
  shows "awaited ops (snd (checkExpired now q)) (fst (sweep_ids ops (fst (checkExpired now q)) st)) \<and>
    (\<forall>i s. so_get ops (fst (sweep_ids ops (fst (checkExpired now q)) st)) i = Some s \<longrightarrow>
       is_active s \<longrightarrow> 0 < sm_lifespan s \<longrightarrow> now < expires_at s * 1000)"
proof -
  have q: "queue_sorted q" using assms by (simp add: awaited_def)
  have left: "entry_of (i, expires_at s) \<in> set (snd (checkExpired now q)) \<and> now < expires_at s * 1000"
    if get: "so_get ops (fst (sweep_ids ops (fst (checkExpired now q)) st)) i = Some s"
      and s: "is_active s" "0 < sm_lifespan s" for i s
  proof -
    have i: "i \<notin> set (fst (checkExpired now q))" "so_get ops st i = Some s"
      using get s(1) by (auto simp: sweep_ids_get is_active_def split: option.splits if_splits)
    with assms s have "entry_of (i, expires_at s) \<in> set q" by (auto simp: awaited_def)
    with i(1) show ?thesis
      by (force simp: checkExpired_sorted [OF q] entry_of_def)
  qed
  then show ?thesis using checkExpired_keeps_sorted [OF q] by (auto simp: awaited_def)
qed

lemma awaited_tick:
  assumes "awaited ops (gw_queue gw) (gw_store gw)"
  shows "awaited ops (gw_queue (fst (snd (tick ops now gw)))) (gw_store (fst (snd (tick ops now gw))))"
proof -
  obtain e st where u: "so_updateActive ops (accrue now) (gw_store gw) = (e, st)"
    by (cases "so_updateActive ops (accrue now) (gw_store gw)")
  have "awaited ops (gw_queue gw) st"
    using awaited_update [OF accrue_projects assms, of now] by (simp add: u)
  with awaited_sweep [OF this, of now] show ?thesis
    by (cases e) (simp_all add: tick_store u)
qed

text \<open>After a tick that got through, nothing that is overdue is still active.\<close>

lemma tick_expires:
  assumes "awaited ops (gw_queue gw) (gw_store gw)" and "tick ops now gw = (None, g, sent)"
    and "so_get ops (gw_store g) i = Some s" and "is_active s" and "0 < sm_lifespan s"
  shows "now < expires_at s * 1000"
proof -
  have g: "g = fst (snd (tick ops now gw))" "fst (so_updateActive ops (accrue now) (gw_store gw)) = None"
    using assms(2) tick_store(4) [of ops now gw] by simp_all
  then have "gw_store g = fst (sweep_ids ops (fst (checkExpired now (gw_queue gw)))
      (snd (so_updateActive ops (accrue now) (gw_store gw))))"
    by (auto simp: tick_store(1) split: prod.splits option.splits)
  with awaited_sweep [OF awaited_update [OF accrue_projects assms(1)], of now now] assms(3-5)
  show ?thesis by auto
qed

text \<open>A tick gets through while all balances are integers.\<close>

lemma tick_through:
  assumes "ok (gw_store gw)" and "streams ops numeric (gw_store gw)"
  shows "fst (tick ops now gw) = None"
  unfolding tick_store(4)
  by (rule update_through [OF assms(1)]) (use assms(2) accrue_numeric in \<open>auto simp: streams_def\<close>)

lemma awaited_start:
  assumes "start_gateway ops st = Some g" and "ok st"
  shows "gw_store g = st \<and> awaited ops (gw_queue g) (gw_store g)"
proof -
  obtain q where q: "reschedule (so_getActive ops st) [] = Some q" and g: "gw_store g = st" "gw_queue g = q"
    using assms(1) by (auto simp: start_gateway_def)
  from reschedule_covers [OF q queue_sorted_Nil] active_iff [OF assms(2)] keyed [OF assms(2)]
  show ?thesis by (auto simp: awaited_def g)
qed

end

context durable_store
begin

lemma step_awaited:
  assumes "gateway_step E ops parseLog restart y y'" and "ok (gw_store (gs_gateway y))"
    and "awaited ops (gw_queue (gs_gateway y)) (gw_store (gs_gateway y))"
  shows "awaited ops (gw_queue (gs_gateway y')) (gw_store (gs_gateway y'))"
  using assms(1)
proof cases
  case (receive log out g)
  with begin_log_cases [OF receive(2)] assms(3) show ?thesis by simp
next
  case (resolve before ev later now timestamp err g)
  obtain r where w: "event_write ops (ev\<lparr>pe_blockTimestamp := timestamp\<rparr>)
      ((gs_gateway y)\<lparr>gw_store := so_recordEvent ops r (gw_store (gs_gateway y))\<rparr>) g"
    using finish_log_writes [OF resolve(3)] by blast
  from awaited_write [OF w] assms(3) resolve(1) show ?thesis by (simp add: awaited_def get_record)
next
  case (timer nowMs err g sent)
  with awaited_tick [OF assms(3), of nowMs] show ?thesis by simp
next
  case (bind i metadata out g)
  have "awaited ops q (snd (so_bindWorkflow ops j w st))" if "awaited ops q st" for q j w st
    using that by (auto simp: awaited_def get_bind bound_to_def is_active_def expires_at_def)
  with bind_store [OF bind(2)] bind(1) assms(3) show ?thesis by auto
next
  case (restarted g)
  from awaited_start [OF restarted(2) restart_ok [OF assms(2)]]
  have "awaited ops (gw_queue g) (gw_store g)" by (rule conjunct2)
  with restarted(1) show ?thesis by simp
qed (use assms(3) in simp)

lemma run_awaited:
  assumes "(gateway_step E ops parseLog restart)\<^sup>*\<^sup>* y y'" and "ok (gw_store (gs_gateway y))"
    and "awaited ops (gw_queue (gs_gateway y)) (gw_store (gs_gateway y))"
  shows "ok (gw_store (gs_gateway y')) \<and>
    awaited ops (gw_queue (gs_gateway y')) (gw_store (gs_gateway y'))"
  using assms by (induction rule: rtranclp_induct) (auto intro: gateway_step_ok step_awaited)

end


section \<open>Runs on the file store\<close>

abbreviation gateway_run ::
    "deps \<Rightarrow> 's store_ops \<Rightarrow> log_decoder \<Rightarrow> ('s \<Rightarrow> 's) \<Rightarrow> 's gateway_system \<Rightarrow> 's gateway_system \<Rightarrow> bool" where
  "gateway_run E ops parseLog restart \<equiv> (gateway_step E ops parseLog restart)\<^sup>*\<^sup>*"

text \<open>The ghost starts with the events the files already hold.\<close>

definition started_system :: "file_store gateway \<Rightarrow> file_store gateway_system" where
  "started_system g = \<lparr>gs_gateway = g, gs_pending = [], gs_applied = fs_eventKeys (gw_store g)\<rparr>"

lemma load_events_distinct:
  "distinct (snd acc) \<Longrightarrow> distinct (snd (load_events ls acc))"
  by (induction ls acc rule: load_events.induct) auto

lemma open_keys_distinct: "distinct (fs_eventKeys (openStore d))"
  using load_events_distinct [of "([], [])" "dk_events d"]
  by (simp add: openStore_def case_prod_beta)

lemma started_once: "applied_once file_ops (started_system g)" if "distinct (fs_eventKeys (gw_store g))"
  using that by (simp add: applied_once_def started_system_def file_ops_def file_hasEvent_def)

lemma started_members [simp]:
  "gs_gateway (started_system g) = g" "gs_pending (started_system g) = []"
  "pending_all Q (started_system g)"
  by (simp_all add: started_system_def pending_all_def)

lemma run_applied_grows:
  "gateway_run E ops parseLog restart y y' \<Longrightarrow> \<exists>ks. gs_applied y' = gs_applied y @ ks"
  by (induction rule: rtranclp_induct) (auto elim!: gateway_step.cases)

lemma start_store: "start_gateway ops st = Some g \<Longrightarrow> gw_store g = st"
  by (auto simp: start_gateway_def)

lemma file_run_ok:
  assumes "start_gateway file_ops (openStore d) = Some g"
    and "gateway_run E file_ops parseLog restart_store (started_system g) y"
  shows "file_ok (gw_store (gs_gateway y))" "applied_once file_ops y"
  using file_streams.run_applied_once [OF assms(2)] start_store [OF assms(1)]
  by (simp_all add: file_ok_open started_once open_keys_distinct)

lemma file_run_streams:
  assumes "start_gateway file_ops (openStore d) = Some g"
    and "gateway_run E file_ops parseLog restart_store (started_system g) y"
    and "kept E Q P" and "decodes parseLog Q" and "streams file_ops P (openStore d)"
  shows "streams file_ops P (gw_store (gs_gateway y))"
  using file_streams.run_streams [OF assms(2-4)] start_store [OF assms(1)] assms(5)
  by (simp add: file_ok_open)

lemma file_run_awaited:
  assumes "start_gateway file_ops (openStore d) = Some g"
    and "gateway_run E file_ops parseLog restart_store (started_system g) y"
  shows "awaited file_ops (gw_queue (gs_gateway y)) (gw_store (gs_gateway y))"
  using file_streams.run_awaited [OF assms(2)] file_streams.awaited_start [OF assms(1)]
    start_store [OF assms(1)]
  by (simp add: file_ok_open)

lemma restart_events: "file_ok st \<Longrightarrow> file_getEvents (openStore (fs_disk st)) i = file_getEvents st i"
  by (simp add: file_ok_def openStore_def file_getEvents_def)

lemma no_streams: "streams file_ops P (openStore empty_disk)"
  by (simp add: streams_def file_ops_def file_get_def openStore_def empty_disk_def load_snapshot_def
      emptyCache_def cache_get_def)

text \<open>A log whose event the store already has changes nothing.\<close>

definition recorded_log :: "'s store_ops \<Rightarrow> log_decoder \<Rightarrow> 's \<Rightarrow> chain_log \<Rightarrow> bool" where
  "recorded_log ops parseLog st log \<longleftrightarrow>
     (case parse parseLog log of None \<Rightarrow> True | Some ev \<Rightarrow> so_hasEvent ops st (pe_key ev))"

lemma handle_all_recorded:
  assumes "\<And>log. log \<in> set logs \<Longrightarrow> recorded_log ops parseLog (gw_store g) log"
  shows "\<exists>g'. handle_all ops parseLog blocks now logs g = Some (None, g') \<and> gw_store g' = gw_store g"
  using assms
proof (induction logs arbitrary: g)
  case (Cons log logs)
  have "recorded_log ops parseLog (gw_store g) log" using Cons.prems by simp
  then have "fst (begin_log ops parseLog log g) = None" "gw_store (snd (begin_log ops parseLog log g)) = gw_store g"
    by (auto simp: begin_log_def recorded_log_def Let_def split: option.splits)
  then obtain g1 where "handleLog ops parseLog blocks now log g = Some (None, g1)" "gw_store g1 = gw_store g"
    by (cases "begin_log ops parseLog log g") (simp add: handleLog_def)
  moreover from this Cons.IH [of g1] Cons.prems
  obtain g' where "handle_all ops parseLog blocks now logs g1 = Some (None, g')" "gw_store g' = gw_store g1"
    by (metis list.set_intros(2))
  ultimately show ?case by simp
qed simp

end
