(* ===== verification/Gateway_Demo.thy ===== *)
theory Gateway_Demo
  imports Gateway_Streams
begin

text \<open>
  A run of the stream gateway on the file store, as functions that take one step each: a stream is
  provisioned and settled in part, its logs arrive twice, its metadata is bound, and the process
  restarts.  The witnesses of the gateway's properties are about the states of this run.
\<close>


section \<open>Steps as functions\<close>

definition sys_receive ::
    "'s store_ops \<Rightarrow> log_decoder \<Rightarrow> chain_log \<Rightarrow> 's gateway_system \<Rightarrow> 's gateway_system" where
  "sys_receive ops parseLog log y =
     (case begin_log ops parseLog log (gs_gateway y) of
        (out, g) \<Rightarrow> y\<lparr>gs_gateway := g,
          gs_pending := gs_pending y @ (case out of None \<Rightarrow> [] | Some ev \<Rightarrow> [ev])\<rparr>)"

definition sys_resolve ::
    "'s store_ops \<Rightarrow> int \<Rightarrow> int option \<Rightarrow> 's gateway_system \<Rightarrow> 's gateway_system" where
  "sys_resolve ops now timestamp y =
     (case gs_pending y of
        [] \<Rightarrow> y
      | ev # later \<Rightarrow>
          (case finish_log ops now timestamp ev (gs_gateway y) of
             None \<Rightarrow> y
           | Some (err, g) \<Rightarrow> y\<lparr>gs_gateway := g, gs_pending := later,
               gs_applied := gs_applied y @ [pe_key ev]\<rparr>))"

definition sys_tick :: "'s store_ops \<Rightarrow> int \<Rightarrow> 's gateway_system \<Rightarrow> 's gateway_system" where
  "sys_tick ops now y = (case tick ops now (gs_gateway y) of (err, g, sent) \<Rightarrow> y\<lparr>gs_gateway := g\<rparr>)"

definition sys_bind ::
    "deps \<Rightarrow> 's store_ops \<Rightarrow> string \<Rightarrow> canonical_metadata \<Rightarrow> 's gateway_system \<Rightarrow> 's gateway_system" where
  "sys_bind E ops i metadata y =
     (case bindVerifiedMetadata E ops i metadata (gs_gateway y) of (out, g) \<Rightarrow> y\<lparr>gs_gateway := g\<rparr>)"

definition sys_restart :: "'s store_ops \<Rightarrow> ('s \<Rightarrow> 's) \<Rightarrow> 's gateway_system \<Rightarrow> 's gateway_system" where
  "sys_restart ops restart y =
     (case start_gateway ops (restart (gw_store (gs_gateway y))) of
        None \<Rightarrow> y
      | Some g \<Rightarrow> y\<lparr>gs_gateway := g, gs_pending := []\<rparr>)"

lemma run_receive: "gateway_run E ops parseLog restart y z \<Longrightarrow>
  gateway_run E ops parseLog restart y (sys_receive ops parseLog log z)"
  by (cases "begin_log ops parseLog log (gs_gateway z)")
    (simp add: sys_receive_def rtranclp.rtrancl_into_rtrancl gateway_step.receive)

lemma run_resolve: "gateway_run E ops parseLog restart y z \<Longrightarrow>
  gateway_run E ops parseLog restart y (sys_resolve ops now timestamp z)"
  using gateway_step.resolve [of z "[]" _ _ ops now timestamp _ _ E parseLog restart]
  by (auto simp: sys_resolve_def split: list.split option.split intro: rtranclp.rtrancl_into_rtrancl)

lemma run_tick: "gateway_run E ops parseLog restart y z \<Longrightarrow>
  gateway_run E ops parseLog restart y (sys_tick ops now z)"
  by (cases "tick ops now (gs_gateway z)")
    (simp add: sys_tick_def rtranclp.rtrancl_into_rtrancl gateway_step.timer)

lemma run_bind: "gateway_run E ops parseLog restart y z \<Longrightarrow>
  gateway_run E ops parseLog restart y (sys_bind E ops i metadata z)"
  by (cases "bindVerifiedMetadata E ops i metadata (gs_gateway z)")
    (simp add: sys_bind_def rtranclp.rtrancl_into_rtrancl gateway_step.bind)

lemma run_restart: "gateway_run E ops parseLog restart y z \<Longrightarrow>
  gateway_run E ops parseLog restart y (sys_restart ops restart z)"
  by (auto simp: sys_restart_def split: option.split
      intro: rtranclp.rtrancl_into_rtrancl gateway_step.restarted)

lemmas run_intros = run_receive run_resolve run_tick run_bind run_restart


section \<open>The run\<close>

text \<open>An empty queue is not searched.\<close>

lemma schedule_code [code]:
  "schedule i e [] = Some [\<lparr>te_paycardId = i, te_expiresAt = e\<rparr>]"
  "schedule i e (x # q) =
     (case insert_index (x # q) e 0 (Suc (length q)) of
        None \<Rightarrow> None
      | Some lo \<Rightarrow> Some (take lo (x # q) @ \<lparr>te_paycardId = i, te_expiresAt = e\<rparr> # drop lo (x # q)))"
  by (simp_all add: schedule_def insert_index.simps [of "[]"])

definition demo_decode :: log_decoder where
  "demo_decode topics data =
     (if topics = [''provision'', ''0xa1'']
      then Some (''PaycardProvisioned'',
        [(''paycardId'', Abi_text ''0xa1''), (''payer'', Abi_text ''0xp''), (''recipient'', Abi_text ''0xr''),
         (''metadataHash'', Abi_text ''0xm''), (''poolAllocation'', Abi_uint 100),
         (''flowVelocityPerSecond'', Abi_uint 1), (''genesisTimestamp'', Abi_uint 10),
         (''lifespanSeconds'', Abi_uint 5)])
      else if topics = [''settle'', ''0xa1'']
      then Some (''SettlementFlushed'',
        [(''paycardId'', Abi_text ''0xa1''), (''recipient'', Abi_text ''0xr''), (''amountWithdrawn'', Abi_uint 40)])
      else None)"

definition demo_log :: "string \<Rightarrow> int \<Rightarrow> chain_log" where
  "demo_log topic index =
     \<lparr>cl_topics = [topic, ''0xa1''], cl_data = ''0x'', cl_blockNumber = 7,
      cl_transactionHash = ''0xt'', cl_logIndex = None, cl_index = Some index\<rparr>"

abbreviation "demo_provision \<equiv> demo_log ''provision'' 0"
abbreviation "demo_settle \<equiv> demo_log ''settle'' 1"

definition demo_metadata :: canonical_metadata where
  "demo_metadata =
     \<lparr>cm_version = ''1'', cm_mode = ''railsflow'', cm_originator = ''0xp'', cm_recipient = ''0xr'',
      cm_token = ''0xt'', cm_amount = ''100'', cm_flowVelocityPerSecond = ''1'',
      cm_lifespanSeconds = 5, cm_workflowId = Some ''wf'', cm_metadataRef = None,
      cm_descriptionHash = None, cm_expiresAt = None\<rparr>"

definition demo_hash :: deps where
  "demo_hash =
     \<lparr>ext_getAddress = Some, ext_canonicalize = (\<lambda>j. Some (js_stringify j)),
      ext_keccakUtf8 = (\<lambda>s. ''0xm''), ext_validate = (\<lambda>n j. None), ext_errorsText = (\<lambda>e. []),
      ext_verifyTypedData = (\<lambda>d v s. None), ext_hashTypedData = (\<lambda>d v. None),
      ext_encodeIsValidSignature = (\<lambda>h s. None), ext_decodeIsValidSignature = (\<lambda>s. None)\<rparr>"

definition demo_gateway0 :: "file_store gateway" where
  "demo_gateway0 = \<lparr>gw_store = openStore empty_disk, gw_queue = [], gw_processed = []\<rparr>"

lemma demo_starts: "start_gateway file_ops (openStore empty_disk) = Some demo_gateway0"
  by code_simp

definition demo_run1 :: "file_store gateway_system" where
  "demo_run1 =
     sys_resolve file_ops 8000 (Some 11)
       (sys_receive file_ops demo_decode demo_provision
         (sys_receive file_ops demo_decode demo_provision (started_system demo_gateway0)))"

definition demo_run2 :: "file_store gateway_system" where
  "demo_run2 =
     sys_bind demo_hash file_ops ''0xa1'' demo_metadata
       (sys_resolve file_ops 9000 (Some 12) (sys_receive file_ops demo_decode demo_settle demo_run1))"

definition demo_run3 :: "file_store gateway_system" where
  "demo_run3 =
     sys_receive file_ops demo_decode demo_settle (sys_restart file_ops restart_store demo_run2)"

lemma demo_runs:
  "gateway_run demo_hash file_ops demo_decode restart_store (started_system demo_gateway0) demo_run2"
  "gateway_run demo_hash file_ops demo_decode restart_store (started_system demo_gateway0) demo_run3"
  unfolding demo_run3_def demo_run2_def demo_run1_def
  by (intro run_intros rtranclp.rtrancl_refl)+

lemma demo_stream:
  "file_get (gw_store (gs_gateway demo_run3)) ''0xa1'' =
     Some \<lparr>sm_paycardId = ''0xa1'', sm_payer = ''0xp'', sm_recipient = ''0xr'', sm_metadataHash = ''0xm'',
       sm_workflowId = Some ''wf'', sm_totalAllocation = ''100'', sm_availableBalance = ''60'',
       sm_projectedAvailableBalance = None, sm_velocity = ''1'', sm_genesis = 10, sm_lifespan = 5,
       sm_lastCheckpoint = 12, sm_status = Active\<rparr>"
  by code_simp

lemma demo_applied: "gs_applied demo_run3 = [''0xt:0'', ''0xt:1'']"
  by code_simp

lemma demo_recorded: "file_hasEvent (gw_store (gs_gateway demo_run3)) ''0xt:1''"
  by code_simp

lemma demo_scoped:
  "\<exists>s. s \<in> set (cache_getByWorkflow (fs_inner (gw_store (gs_gateway demo_run3))) ''wf'')"
proof -
  have "cache_getByWorkflow (fs_inner (gw_store (gs_gateway demo_run3))) ''wf'' \<noteq> []" by code_simp
  then show ?thesis by (metis list.set_intros(1) neq_Nil_conv)
qed

lemma demo_swept:
  "map_option sm_status (file_get (gw_store (fst (snd (tick file_ops 15000 (gs_gateway demo_run3))))) ''0xa1'')
     = Some PendingSettlement"
  by code_simp

lemma demo_amounts: "amounts_decoded demo_decode"
  by (auto simp: amounts_decoded_def demo_decode_def amount_names_def split: if_splits)


section \<open>Files with a damaged snapshot, and answers out of order\<close>

definition demo_corrupt_disk :: disk where
  "demo_corrupt_disk = (fs_disk (gw_store (gs_gateway demo_run3)))\<lparr>dk_snapshot := Some Corrupt_snapshot\<rparr>"

definition demo_gateway_c :: "file_store gateway" where
  "demo_gateway_c = \<lparr>gw_store = openStore demo_corrupt_disk, gw_queue = [], gw_processed = []\<rparr>"

lemma demo_corrupt:
  "dk_snapshot demo_corrupt_disk = Some Corrupt_snapshot"
  "start_gateway file_ops (openStore demo_corrupt_disk) = Some demo_gateway_c"
proof -
  show "dk_snapshot demo_corrupt_disk = Some Corrupt_snapshot" by (simp add: demo_corrupt_disk_def)
  have "so_getActive file_ops (openStore demo_corrupt_disk) = []" by code_simp
  then show "start_gateway file_ops (openStore demo_corrupt_disk) = Some demo_gateway_c"
    by (simp add: start_gateway_def demo_gateway_c_def)
qed

lemma demo_logs_recorded:
  "recorded_log file_ops demo_decode (openStore demo_corrupt_disk) demo_settle"
  "recorded_log file_ops demo_decode (openStore demo_corrupt_disk) demo_provision"
  by code_simp+

definition demo_events :: "parsed_event \<times> parsed_event" where
  "demo_events = (the (parse demo_decode demo_provision), the (parse demo_decode demo_settle))"

definition demo_late2 :: "file_store gateway" where
  "demo_late2 = snd (begin_log file_ops demo_decode demo_settle
     (snd (begin_log file_ops demo_decode demo_provision demo_gateway0)))"

definition demo_late3 :: "file_store gateway" where
  "demo_late3 = snd (the (finish_log file_ops 0 None (snd demo_events) demo_late2))"

definition demo_late4 :: "file_store gateway" where
  "demo_late4 = snd (the (finish_log file_ops 1 None (fst demo_events) demo_late3))"

lemma demo_late:
  "begin_log file_ops demo_decode demo_provision demo_gateway0
     = (Some (fst demo_events), snd (begin_log file_ops demo_decode demo_provision demo_gateway0))"
  "begin_log file_ops demo_decode demo_settle
     (snd (begin_log file_ops demo_decode demo_provision demo_gateway0)) = (Some (snd demo_events), demo_late2)"
  "finish_log file_ops 0 None (snd demo_events) demo_late2 = Some (None, demo_late3)"
  "finish_log file_ops 1 None (fst demo_events) demo_late3 = Some (None, demo_late4)"
  by code_simp+

lemma demo_late_facts:
  "pe_eventName (fst demo_events) = ''PaycardProvisioned''"
  "pe_eventName (snd demo_events) = ''SettlementFlushed''"
  "pe_paycardId (fst demo_events) = ''0xa1''" "pe_paycardId (snd demo_events) = ''0xa1''"
  "file_get (gw_store demo_gateway0) ''0xa1'' = None"
  "or_else (arg (fst demo_events) ''poolAllocation'') ''0'' = ''100''"
  by code_simp+

end
