(* ===== verification/Gateway_Parts.thy ===== *)
theory Gateway_Parts
  imports Complex_Main Js_Collections
begin

text \<open>
  The self-contained parts of the stream gateway: the rotating pool of RPC providers
  (\<open>stream-gateway/provider-pool.ts\<close>), the drift-compensated timer (\<open>stream-gateway/timer.ts\<close>) and
  the delivery of webhooks (\<open>stream-gateway/webhook.ts\<close>).  Providers, the clock, random jitter,
  HTTP answers and Ed25519 are arguments.
\<close>


section \<open>The provider pool\<close>

record provider_entry =
  pe_url :: string
  pe_healthy :: bool
  pe_consecutiveFailures :: nat
  pe_lastCheckedMs :: int

record provider_pool =
  pl_entries :: "provider_entry list"
  pl_cursor :: nat

definition MAX_FAILURES :: nat where
  "MAX_FAILURES = 3"

definition newPool :: "string list \<Rightarrow> int \<Rightarrow> string + provider_pool" where
  "newPool urls now =
     (if urls = [] then Inl ''ArcJsonRpcProviderPool requires at least one RPC URL''
      else Inr \<lparr>pl_entries = map (\<lambda>u. \<lparr>pe_url = u, pe_healthy = True,
                   pe_consecutiveFailures = 0, pe_lastCheckedMs = now\<rparr>) urls,
                pl_cursor = 0\<rparr>)"

text \<open>The indices of the first pass, in the order the loop tries them.\<close>

definition rotation :: "nat \<Rightarrow> nat \<Rightarrow> nat list" where
  "rotation cursor count = map (\<lambda>i. (cursor + i) mod count) [0..<count]"

definition recovered :: "provider_entry \<Rightarrow> provider_entry" where
  "recovered e = e\<lparr>pe_healthy := True, pe_consecutiveFailures := 0\<rparr>"

text \<open>\<open>getProvider\<close>: the index of the provider it returns.\<close>

definition getProvider :: "provider_pool \<Rightarrow> nat \<times> provider_pool" where
  "getProvider p =
     (let count = length (pl_entries p) in
      case List.find (\<lambda>i. pe_healthy (pl_entries p ! i)) (rotation (pl_cursor p) count) of
        Some idx \<Rightarrow> (idx, p\<lparr>pl_cursor := (idx + 1) mod count\<rparr>)
      | None \<Rightarrow> (0, \<lparr>pl_entries = map recovered (pl_entries p), pl_cursor = 1 mod count\<rparr>))"

definition probe :: "int \<Rightarrow> bool \<Rightarrow> provider_entry \<Rightarrow> provider_entry" where
  "probe now answered e =
     (if answered then e\<lparr>pe_healthy := True, pe_consecutiveFailures := 0, pe_lastCheckedMs := now\<rparr>
      else (let failures = pe_consecutiveFailures e + 1 in
            e\<lparr>pe_consecutiveFailures := failures,
              pe_healthy := (if MAX_FAILURES \<le> failures then False else pe_healthy e),
              pe_lastCheckedMs := now\<rparr>))"

definition probeAll :: "(int \<times> bool) list \<Rightarrow> provider_pool \<Rightarrow> provider_pool" where
  "probeAll results p =
     p\<lparr>pl_entries := map2 (\<lambda>(now, answered) e. probe now answered e) results (pl_entries p)\<rparr>"


subsection \<open>Selection\<close>

lemma rotation_first:
  assumes "c < n"
  shows "rotation c n = c # map (\<lambda>i. (c + i) mod n) [1..<n]"
  using assms by (cases n) (simp_all add: rotation_def upt_conv_Cons)

lemma rotation_set:
  assumes "0 < n"
  shows "set (rotation c n) = {..<n}"
proof -
  have "x \<in> (\<lambda>i. (c + i) mod n) ` {0..<n}" if "x < n" for x
  proof (rule image_eqI)
    let ?i = "(x + (n - c mod n)) mod n"
    have "(c + ?i) mod n = (c mod n + (x + (n - c mod n))) mod n"
      by (metis mod_add_left_eq mod_add_right_eq)
    also have "c mod n + (x + (n - c mod n)) = x + n"
      using mod_less_divisor [OF assms, of c] by linarith
    finally show "x = (c + ?i) mod n" using that by simp
    show "?i \<in> {0..<n}" using assms by simp
  qed
  then show ?thesis using assms by (auto simp: rotation_def)
qed

lemma getProvider_cases:
  assumes "pl_entries p \<noteq> []" and "getProvider p = (i, p')"
  shows "i < length (pl_entries p)" and "length (pl_entries p') = length (pl_entries p)"
    and "pl_cursor p' < length (pl_entries p')" and "pe_healthy (pl_entries p' ! i)"
    and "(\<exists>e \<in> set (pl_entries p). pe_healthy e) \<Longrightarrow>
      pl_entries p' = pl_entries p \<and> pe_healthy (pl_entries p ! i)"
proof -
  let ?n = "length (pl_entries p)"
  have n: "0 < ?n" using assms(1) by simp
  consider (found) "List.find (\<lambda>i. pe_healthy (pl_entries p ! i)) (rotation (pl_cursor p) ?n) = Some i"
      "p' = p\<lparr>pl_cursor := (i + 1) mod ?n\<rparr>"
    | (none) "List.find (\<lambda>i. pe_healthy (pl_entries p ! i)) (rotation (pl_cursor p) ?n) = None"
      "i = 0" "p' = \<lparr>pl_entries = map recovered (pl_entries p), pl_cursor = 1 mod ?n\<rparr>"
    using assms(2) by (auto simp: getProvider_def Let_def split: option.splits)
  note cases = this
  have all: "\<not> pe_healthy e" if "List.find (\<lambda>i. pe_healthy (pl_entries p ! i))
      (rotation (pl_cursor p) ?n) = None" "e \<in> set (pl_entries p)" for e
    using that rotation_set [OF n, of "pl_cursor p"] by (auto simp: find_None_iff in_set_conv_nth)
  have "i < ?n \<and> length (pl_entries p') = ?n \<and> pl_cursor p' < length (pl_entries p') \<and>
    pe_healthy (pl_entries p' ! i) \<and> ((\<exists>e \<in> set (pl_entries p). pe_healthy e) \<longrightarrow>
      pl_entries p' = pl_entries p \<and> pe_healthy (pl_entries p ! i))"
    using cases
  proof cases
    case found
    then have "pe_healthy (pl_entries p ! i)" "i \<in> set (rotation (pl_cursor p) ?n)"
      by (auto simp: find_Some_iff)
    with found(2) n show ?thesis by (simp add: rotation_set)
  next
    case none
    have "1 mod ?n < ?n" using n by (rule mod_less_divisor)
    with none all n show ?thesis by (auto simp: recovered_def simp del: One_nat_def mod_less mod_less_divisor)
  qed
  then show "i < ?n" and "length (pl_entries p') = ?n" and "pl_cursor p' < length (pl_entries p')"
    and "pe_healthy (pl_entries p' ! i)"
    and "\<exists>e \<in> set (pl_entries p). pe_healthy e \<Longrightarrow> pl_entries p' = pl_entries p \<and> pe_healthy (pl_entries p ! i)"
    by blast+
qed

text \<open>While all are healthy, successive calls walk round the pool.\<close>

fun providers :: "nat \<Rightarrow> provider_pool \<Rightarrow> nat list" where
  "providers 0 p = []"
| "providers (Suc k) p = (case getProvider p of (i, p') \<Rightarrow> i # providers k p')"

lemma getProvider_healthy:
  assumes "pl_cursor p < length (pl_entries p)" and "\<forall>e \<in> set (pl_entries p). pe_healthy e"
  shows "getProvider p = (pl_cursor p, p\<lparr>pl_cursor := (pl_cursor p + 1) mod length (pl_entries p)\<rparr>)"
  using assms by (simp add: getProvider_def rotation_first)

lemma providers_rotate:
  assumes "pl_cursor p < length (pl_entries p)" and "\<forall>e \<in> set (pl_entries p). pe_healthy e"
  shows "providers k p = map (\<lambda>j. (pl_cursor p + j) mod length (pl_entries p)) [0..<k]"
  using assms
proof (induction k arbitrary: p)
  case (Suc k)
  let ?n = "length (pl_entries p)"
  let ?p = "p\<lparr>pl_cursor := (pl_cursor p + 1) mod ?n\<rparr>"
  have "0 < ?n" using Suc.prems(1) by linarith
  then have "providers k ?p = map (\<lambda>j. ((pl_cursor p + 1) mod ?n + j) mod ?n) [0..<k]"
    using Suc.IH [of ?p] Suc.prems(2) by simp
  moreover have "((pl_cursor p + 1) mod ?n + j) mod ?n = (pl_cursor p + Suc j) mod ?n" for j
    by (simp add: mod_add_left_eq)
  ultimately show ?case
    using getProvider_healthy [OF Suc.prems] Suc.prems(1)
    by (simp add: upt_conv_Cons map_Suc_upt [symmetric] del: upt_Suc)
qed simp


subsection \<open>Probes\<close>

lemma probes_count:
  "pe_consecutiveFailures (fold (\<lambda>(t, a). probe t a) rs (recovered e)) = length (takeWhile Not (map snd (rev rs))) \<and>
   (pe_healthy (fold (\<lambda>(t, a). probe t a) rs (recovered e))
     \<longleftrightarrow> length (takeWhile Not (map snd (rev rs))) < MAX_FAILURES)"
proof (induction rs rule: rev_induct)
  case Nil
  then show ?case by (simp add: recovered_def MAX_FAILURES_def)
next
  case (snoc r rs)
  obtain t a where "r = (t, a)" by (cases r)
  with snoc show ?case by (auto simp: probe_def Let_def MAX_FAILURES_def)
qed


section \<open>The timer\<close>

record timer_loop =
  tm_intervalMs :: int
  tm_running :: bool
  tm_expectedTickMs :: int
  tm_dueAt :: "int option"

definition newTimer :: "int \<Rightarrow> string + timer_loop" where
  "newTimer intervalMs =
     (if intervalMs \<le> 0 then Inl ''intervalMs must be positive''
      else Inr \<lparr>tm_intervalMs = intervalMs, tm_running = False, tm_expectedTickMs = 0,
                tm_dueAt = None\<rparr>)"

definition scheduleTick :: "int \<Rightarrow> timer_loop \<Rightarrow> timer_loop" where
  "scheduleTick now t =
     (if \<not> tm_running t then t
      else (let drift = now - tm_expectedTickMs t;
                adjustedDelay = max 0 (tm_intervalMs t - drift)
            in t\<lparr>tm_dueAt := Some (now + adjustedDelay)\<rparr>))"

definition start_timer :: "int \<Rightarrow> timer_loop \<Rightarrow> timer_loop" where
  "start_timer now t =
     (if tm_running t then t
      else scheduleTick now
        (t\<lparr>tm_running := True, tm_expectedTickMs := now + tm_intervalMs t\<rparr>))"

definition stop_timer :: "timer_loop \<Rightarrow> timer_loop" where
  "stop_timer t = t\<lparr>tm_running := False, tm_dueAt := None\<rparr>"

text \<open>The timeout fires; \<open>now\<close> is the time when the callback has returned.\<close>

definition fire :: "int \<Rightarrow> timer_loop \<Rightarrow> timer_loop" where
  "fire now t =
     (if \<not> tm_running t then t
      else scheduleTick now (t\<lparr>tm_expectedTickMs := tm_expectedTickMs t + tm_intervalMs t\<rparr>))"

lemma fire_members:
  assumes "tm_running t"
  shows "tm_running (fire now t)" "tm_intervalMs (fire now t) = tm_intervalMs t"
    "tm_expectedTickMs (fire now t) = tm_expectedTickMs t + tm_intervalMs t"
    "tm_dueAt (fire now t) = Some (max now (tm_expectedTickMs (fire now t) + tm_intervalMs t))"
  using assms by (auto simp: fire_def scheduleTick_def Let_def)

lemma fold_fire:
  assumes "tm_running t"
  shows "tm_running (fold fire nows t) \<and> tm_intervalMs (fold fire nows t) = tm_intervalMs t \<and>
    tm_expectedTickMs (fold fire nows t) = tm_expectedTickMs t + int (length nows) * tm_intervalMs t \<and>
    (nows \<noteq> [] \<longrightarrow> tm_dueAt (fold fire nows t) =
      Some (max (last nows) (tm_expectedTickMs (fold fire nows t) + tm_intervalMs t)))"
  using assms
proof (induction nows rule: rev_induct)
  case (snoc now nows)
  with fire_members [of "fold fire nows t" now] show ?case by (simp add: algebra_simps)
qed simp


section \<open>Webhooks\<close>

datatype http_result = Http_status int | Network_failure

definition response_ok :: "int \<Rightarrow> bool" where
  "response_ok status \<longleftrightarrow> 200 \<le> status \<and> status < 300"

definition BASE_DELAY_MS :: rat where
  "BASE_DELAY_MS = 500"

definition MAX_DELAY_MS :: rat where
  "MAX_DELAY_MS = 30000"

record webhook_request =
  wr_url :: string
  wr_body :: string
  wr_signature :: string

record delivery =
  dl_delivered :: bool
  dl_requests :: "webhook_request list"
  dl_delays :: "rat list"

text \<open>\<open>answers\<close> and \<open>random\<close>: what the endpoint and \<open>Math.random()\<close> give in an attempt.\<close>

definition backoff :: "(nat \<Rightarrow> rat) \<Rightarrow> nat \<Rightarrow> rat" where
  "backoff random attempt =
     min (BASE_DELAY_MS * 2 ^ attempt + random attempt * BASE_DELAY_MS) MAX_DELAY_MS"

function deliver_from ::
    "(nat \<Rightarrow> http_result) \<Rightarrow> (nat \<Rightarrow> rat) \<Rightarrow> webhook_request \<Rightarrow> nat \<Rightarrow> nat \<Rightarrow> delivery" where
  "deliver_from answers random request maxRetries attempt =
     (if maxRetries \<le> attempt
      then \<lparr>dl_delivered = False, dl_requests = [], dl_delays = []\<rparr>
      else (let stop = (\<lambda>result. \<lparr>dl_delivered = result, dl_requests = [request], dl_delays = []\<rparr>);
                again = (let rest = deliver_from answers random request maxRetries (attempt + 1);
                             wait = (if attempt + 1 < maxRetries then [backoff random attempt] else [])
                         in rest\<lparr>dl_requests := request # dl_requests rest,
                                 dl_delays := wait @ dl_delays rest\<rparr>)
            in case answers attempt of
                 Http_status status \<Rightarrow>
                   if response_ok status then stop True
                   else if 400 \<le> status \<and> status < 500 \<and> status \<noteq> 429 then stop False
                   else again
               | Network_failure \<Rightarrow> again))"
  by pat_completeness auto
termination
  by (relation "measure (\<lambda>(answers, random, request, maxRetries, attempt). maxRetries - attempt)") auto

declare deliver_from.simps [simp del]

definition deliver ::
    "(nat \<Rightarrow> http_result) \<Rightarrow> (nat \<Rightarrow> rat) \<Rightarrow> string \<Rightarrow> string \<Rightarrow> (string \<Rightarrow> string) \<Rightarrow> nat \<Rightarrow> delivery" where
  "deliver answers random url body signFn maxRetries =
     deliver_from answers random
       \<lparr>wr_url = url, wr_body = body, wr_signature = signFn body\<rparr> maxRetries 0"

text \<open>An attempt that ends the delivery, and one that is answered with success.\<close>

definition final_answer :: "http_result \<Rightarrow> bool" where
  "final_answer a \<longleftrightarrow> (case a of
     Http_status s \<Rightarrow> response_ok s \<or> 400 \<le> s \<and> s < 500 \<and> s \<noteq> 429 | Network_failure \<Rightarrow> False)"

definition accepted :: "http_result \<Rightarrow> bool" where
  "accepted a \<longleftrightarrow> (case a of Http_status s \<Rightarrow> response_ok s | Network_failure \<Rightarrow> False)"

lemma deliver_from_step:
  "attempt < maxRetries \<Longrightarrow> deliver_from answers random request maxRetries attempt =
     (if final_answer (answers attempt)
      then \<lparr>dl_delivered = accepted (answers attempt), dl_requests = [request], dl_delays = []\<rparr>
      else (let rest = deliver_from answers random request maxRetries (attempt + 1) in
            rest\<lparr>dl_requests := request # dl_requests rest,
              dl_delays := (if attempt + 1 < maxRetries then [backoff random attempt] else []) @ dl_delays rest\<rparr>))"
  by (subst deliver_from.simps)
    (auto simp: final_answer_def accepted_def Let_def split: http_result.split)

lemma deliver_from_end:
  "maxRetries \<le> attempt \<Longrightarrow>
     deliver_from answers random request maxRetries attempt
       = \<lparr>dl_delivered = False, dl_requests = [], dl_delays = []\<rparr>"
  by (simp add: deliver_from.simps)

lemma accepted_final: "accepted a \<Longrightarrow> final_answer a"
  by (auto simp: accepted_def final_answer_def split: http_result.splits)

text \<open>The first final answer from \<open>attempt\<close> on is an acceptance.\<close>

definition first_final_accepted :: "(nat \<Rightarrow> http_result) \<Rightarrow> nat \<Rightarrow> nat \<Rightarrow> bool" where
  "first_final_accepted answers maxRetries attempt \<longleftrightarrow>
     (\<exists>k. attempt \<le> k \<and> k < maxRetries \<and> accepted (answers k) \<and>
        (\<forall>j. attempt \<le> j \<longrightarrow> j < k \<longrightarrow> \<not> final_answer (answers j)))"

lemma first_final_accepted_step:
  assumes "attempt < maxRetries"
  shows "first_final_accepted answers maxRetries attempt \<longleftrightarrow>
    (if final_answer (answers attempt) then accepted (answers attempt)
     else first_final_accepted answers maxRetries (Suc attempt))"
proof (cases "final_answer (answers attempt)")
  case True
  have "k = attempt" if "attempt \<le> k" "\<forall>j. attempt \<le> j \<longrightarrow> j < k \<longrightarrow> \<not> final_answer (answers j)" for k
    using that True by (cases "attempt < k") auto
  with True assms show ?thesis by (auto simp: first_final_accepted_def)
next
  case False
  have "(attempt \<le> k \<and> k < maxRetries \<and> accepted (answers k) \<and>
        (\<forall>j. attempt \<le> j \<longrightarrow> j < k \<longrightarrow> \<not> final_answer (answers j))) \<longleftrightarrow>
      (Suc attempt \<le> k \<and> k < maxRetries \<and> accepted (answers k) \<and>
        (\<forall>j. Suc attempt \<le> j \<longrightarrow> j < k \<longrightarrow> \<not> final_answer (answers j)))" for k
  proof (cases "k = attempt")
    case True
    with False show ?thesis using accepted_final by auto
  next
    case neq: False
    with False show ?thesis by (metis Suc_leD Suc_leI le_neq_implies_less)
  qed
  with False show ?thesis by (simp add: first_final_accepted_def)
qed

lemma deliver_from_iff:
  "dl_delivered (deliver_from answers random request maxRetries attempt)
     \<longleftrightarrow> first_final_accepted answers maxRetries attempt"
proof (induction "maxRetries - attempt" arbitrary: attempt)
  case 0
  then show ?case by (auto simp: deliver_from_end first_final_accepted_def)
next
  case (Suc n)
  then have "attempt < maxRetries" and "n = maxRetries - Suc attempt" by simp_all
  with Suc.hyps(1) show ?case
    by (simp add: deliver_from_step first_final_accepted_step Let_def)
qed

lemma deliver_from_bounds:
  assumes "\<And>k. 0 \<le> random k"
  shows "length (dl_requests (deliver_from answers random request maxRetries attempt)) \<le> maxRetries - attempt \<and>
    set (dl_requests (deliver_from answers random request maxRetries attempt)) \<subseteq> {request} \<and>
    (\<forall>d \<in> set (dl_delays (deliver_from answers random request maxRetries attempt)).
      BASE_DELAY_MS \<le> d \<and> d \<le> MAX_DELAY_MS)"
proof (induction "maxRetries - attempt" arbitrary: attempt)
  case 0
  then show ?case by (simp add: deliver_from_end)
next
  case (Suc n)
  then have lt: "attempt < maxRetries" and IH: "n = maxRetries - (attempt + 1)" by simp_all
  have "BASE_DELAY_MS \<le> backoff random attempt" "backoff random attempt \<le> MAX_DELAY_MS"
  proof -
    have "(1::rat) \<le> 2 ^ attempt" by simp
    with assms [of attempt] have "(500::rat) \<le> 500 * 2 ^ attempt + random attempt * 500"
      by linarith
    then show "BASE_DELAY_MS \<le> backoff random attempt"
      by (simp add: backoff_def BASE_DELAY_MS_def MAX_DELAY_MS_def)
    show "backoff random attempt \<le> MAX_DELAY_MS" by (simp add: backoff_def)
  qed
  with Suc.hyps(1) [OF IH] lt show ?case by (auto simp: deliver_from_step Let_def)
qed

text \<open>
  The middleware in front of a webhook receiver: \<open>Some (status, error)\<close> is the answer it sends,
  \<open>None\<close> hands the request on.  \<open>verified\<close> is what \<open>crypto.verify\<close> says of the body and the
  signature, \<open>None\<close> when it throws.
\<close>

definition verify_signature_header ::
    "(string \<Rightarrow> string \<Rightarrow> bool option) \<Rightarrow> string \<Rightarrow> string option \<Rightarrow> (int \<times> string) option" where
  "verify_signature_header verified body header =
     (case header of
        None \<Rightarrow> Some (401, ''Missing X-OpenRails-Signature header'')
      | Some signature \<Rightarrow>
          if signature = [] then Some (401, ''Missing X-OpenRails-Signature header'')
          else (case verified body signature of
                  None \<Rightarrow> Some (403, ''Signature verification failed'')
                | Some valid \<Rightarrow> if valid then None else Some (403, ''Invalid signature'')))"

text \<open>\<open>HeartbeatMonitor.ping\<close>: one HEAD request.\<close>

definition ping :: "http_result \<Rightarrow> bool" where
  "ping head = accepted head"

definition registerWebhook :: "string \<Rightarrow> string list \<Rightarrow> string list" where
  "registerWebhook url urls = (if url \<in> set urls then urls else urls @ [url])"


section \<open>Examples\<close>

definition demo_pool :: provider_pool where
  "demo_pool = \<lparr>pl_entries =
     [\<lparr>pe_url = ''a'', pe_healthy = False, pe_consecutiveFailures = 3, pe_lastCheckedMs = 0\<rparr>,
      \<lparr>pe_url = ''b'', pe_healthy = True, pe_consecutiveFailures = 0, pe_lastCheckedMs = 0\<rparr>],
     pl_cursor = 0\<rparr>"

definition demo_answers :: "nat \<Rightarrow> http_result" where
  "demo_answers k = (if k = 0 then Network_failure else if k = 1 then Http_status 429 else Http_status 204)"

end
