(* ===== verification/Gateway_Properties.thy ===== *)
theory Gateway_Properties
  imports Gateway_Demo Gateway_Parts
begin

text \<open>
  The properties of the stream gateway: its expiration queue, its runs on the file store, its
  provider pool, timer and webhooks.  Those about runs rest on the interpretation of the durable
  store's interface on the file store, and their witnesses on the run of \<open>Gateway_Demo\<close>.
\<close>


section \<open>The termination queue\<close>

text \<open>
  C13: scheduling expirations one after the other, up to \<open>2^31\<close> entries, always returns and keeps
  the queue equal to a stable sort of everything scheduled; a sweep takes exactly the entries that
  are due, in order, and leaves the others.
\<close>

theorem queue_is_stable_sort:
  assumes "length es \<le> 2 ^ 31"
  shows "\<exists>q. schedule_all es [] = Some q \<and> q = sort_key te_expiresAt (map entry_of es) \<and>
    checkExpired now q =
      (map te_paycardId (filter (\<lambda>e. te_expiresAt e * 1000 \<le> now) q),
       filter (\<lambda>e. now < te_expiresAt e * 1000) q)"
proof -
  have "schedule_all es (sort_key te_expiresAt []) = Some (sort_key te_expiresAt ([] @ map entry_of es))"
    by (rule schedule_all_sorts) (use assms in simp)
  then show ?thesis using checkExpired_sorted [OF queue_sorted_sort] by simp
qed

theorem queue_is_stable_sort_witness:
  "map te_paycardId (the (schedule_all [(''a'', 30), (''b'', 10), (''c'', 30), (''d'', 20)] []))
     = [''b'', ''d'', ''a'', ''c''] \<and>
   fst (checkExpired 20000 (the (schedule_all [(''a'', 30), (''b'', 10), (''c'', 30), (''d'', 20)] [])))
     = [''b'', ''d'']"
  using queue_is_stable_sort [of "[(''a'', 30), (''b'', 10), (''c'', 30), (''d'', 20)]" 20000]
  by (auto simp: entry_of_def)


section \<open>Runs on the file store\<close>

text \<open>
  C14: whatever logs arrive, however often, in whatever order their blocks are answered, and
  however often the process restarts on its files, no event is applied twice: the keys of the
  events recorded before the start and of those applied since are all distinct.
\<close>

theorem events_applied_once:
  assumes "start_gateway file_ops (openStore d) = Some g"
    and "gateway_run E file_ops parseLog restart_store (started_system g) y"
  shows "distinct (gs_applied y) \<and> (\<exists>ks. gs_applied y = fs_eventKeys (openStore d) @ ks) \<and>
    (\<forall>k. k \<in> set (gs_applied y) \<longrightarrow> file_hasEvent (gw_store (gs_gateway y)) k)"
  using file_run_ok(2) [OF assms] run_applied_grows [OF assms(2)] start_store [OF assms(1)]
  by (auto simp: applied_once_def started_system_def file_ops_def)

theorem events_applied_once_witness:
  "distinct (gs_applied demo_run3) \<and> file_hasEvent (gw_store (gs_gateway demo_run3)) ''0xt:1''"
  using events_applied_once [OF demo_starts, of demo_hash demo_decode demo_run3] demo_runs(2) demo_applied
  by simp

text \<open>
  C15: a restart on the files finds the streams the store held, but for the projected balances,
  which are never written to disk, and knows the same events.
\<close>

theorem restart_keeps_streams:
  assumes "start_gateway file_ops (openStore d) = Some g"
    and "gateway_run E file_ops parseLog restart_store (started_system g) y"
  shows "map_option forget (file_get (openStore (fs_disk (gw_store (gs_gateway y)))) i)
      = map_option forget (file_get (gw_store (gs_gateway y)) i) \<and>
    file_getEvents (openStore (fs_disk (gw_store (gs_gateway y)))) i = file_getEvents (gw_store (gs_gateway y)) i \<and>
    file_hasEvent (openStore (fs_disk (gw_store (gs_gateway y)))) k = file_hasEvent (gw_store (gs_gateway y)) k"
  using file_run_ok(1) [OF assms] file_streams.restart_get [OF file_run_ok(1) [OF assms], of i]
    restart_hasEvent [OF file_run_ok(1) [OF assms], of k]
  by (simp add: restart_store_def file_ops_def restart_events)

theorem restart_keeps_streams_witness:
  "map_option forget (file_get (openStore (fs_disk (gw_store (gs_gateway demo_run3)))) ''0xa1'') \<noteq> None \<and>
   file_hasEvent (openStore (fs_disk (gw_store (gs_gateway demo_run3)))) ''0xt:1''"
  using restart_keeps_streams [OF demo_starts demo_runs(2), of "''0xa1''" "''0xt:1''"] demo_stream demo_recorded
  by auto

text \<open>
  C16: on a contract whose amounts are \<open>uint256\<close>, every stream's balance is a decimal between zero
  and its allocation, and zero once the stream is terminated, whatever the gateway handles in
  whatever order.
\<close>

theorem balances_bounded:
  assumes "start_gateway file_ops (openStore d) = Some g"
    and "gateway_run E file_ops parseLog restart_store (started_system g) y"
    and "amounts_decoded parseLog" and "streams file_ops balanced (openStore d)"
    and "file_get (gw_store (gs_gateway y)) i = Some s"
  shows "\<exists>total left. sm_totalAllocation s = show_int total \<and> sm_availableBalance s = show_int left \<and>
    0 \<le> left \<and> left \<le> total \<and> (sm_status s = Terminated \<longrightarrow> left = 0)"
  using file_run_streams [OF assms(1,2) kept_balanced amounts_decodes [OF assms(3)] assms(4)] assms(5)
  by (simp add: streams_def balanced_def file_ops_def)

theorem balances_bounded_witness:
  "\<exists>total left. ''100'' = show_int total \<and> ''60'' = show_int left \<and> 0 \<le> left \<and> left \<le> total"
  using balances_bounded [OF demo_starts demo_runs(2) demo_amounts no_streams demo_stream] by auto

text \<open>
  The streams of a workflow are exactly the kept ones that carry its id, and each carries it
  by metadata that names the workflow and hashes to the metadata hash of the stream itself.
\<close>

theorem workflow_verified:
  assumes "start_gateway file_ops (openStore d) = Some g"
    and "gateway_run E file_ops parseLog restart_store (started_system g) y"
    and "streams file_ops (verified_scope E) (openStore d)"
    and "s \<in> set (cache_getByWorkflow (fs_inner (gw_store (gs_gateway y))) w)"
  shows "file_get (gw_store (gs_gateway y)) (sm_paycardId s) = Some s \<and> sm_workflowId s = Some w \<and>
    (\<exists>m. cm_workflowId m = Some w \<and> hashOpenRailsMetadata E m = sm_metadataHash s)"
proof -
  have ok: "file_ok (gw_store (gs_gateway y))" by (rule file_run_ok(1) [OF assms(1,2)])
  obtain i where i: "so_get file_ops (gw_store (gs_gateway y)) i = Some s" "workflow_of s = Some w"
    using file_streams.workflow_iff [OF ok, of s w] assms(4) by (auto simp: file_ops_def)
  have "decodes parseLog (\<lambda>ev. True)" by (simp add: decodes_def)
  from file_run_streams [OF assms(1,2) kept_verified this assms(3)] i
  show ?thesis using file_streams.keyed [OF ok i(1)] by (auto simp: streams_def verified_scope_def file_ops_def)
qed

theorem workflow_verified_witness:
  "\<exists>s. s \<in> set (cache_getByWorkflow (fs_inner (gw_store (gs_gateway demo_run3))) ''wf'') \<and>
     (\<exists>m. cm_workflowId m = Some ''wf'' \<and> hashOpenRailsMetadata demo_hash m = sm_metadataHash s)"
  using workflow_verified [OF demo_starts demo_runs(2) no_streams] demo_scoped by blast

text \<open>
  C17: when the amounts are \<open>uint256\<close>, the tick of the timer always gets through, and after it no
  stream with a lifespan that has elapsed is still active: each was in the queue, also after a
  restart, and is now pending settlement.
\<close>

theorem overdue_streams_swept:
  assumes "start_gateway file_ops (openStore d) = Some g"
    and "gateway_run E file_ops parseLog restart_store (started_system g) y"
    and "amounts_decoded parseLog" and "streams file_ops numeric (openStore d)"
  shows "\<exists>g' sent. tick file_ops now (gs_gateway y) = (None, g', sent) \<and>
    (\<forall>i s. file_get (gw_store g') i = Some s \<longrightarrow> sm_status s = Active \<longrightarrow> 0 < sm_lifespan s \<longrightarrow>
       now < expires_at s * 1000)"
proof -
  have "streams file_ops numeric (gw_store (gs_gateway y))"
    by (rule file_run_streams [OF assms(1,2) kept_numeric amounts_decodes [OF assms(3)] assms(4)])
  from file_streams.tick_through [OF file_run_ok(1) [OF assms(1,2)] this, of now]
  obtain g' sent where t: "tick file_ops now (gs_gateway y) = (None, g', sent)"
    by (metis prod.collapse)
  have "now < expires_at s * 1000"
    if "file_get (gw_store g') i = Some s" "sm_status s = Active" "0 < sm_lifespan s" for i s
    by (rule file_streams.tick_expires [OF file_run_awaited [OF assms(1,2)] t])
      (use that in \<open>simp_all add: file_ops_def is_active_def\<close>)
  with t show ?thesis by blast
qed

theorem overdue_streams_swept_witness:
  "\<exists>g' sent. tick file_ops 15000 (gs_gateway demo_run3) = (None, g', sent) \<and>
     (\<exists>s. file_get (gw_store g') ''0xa1'' = Some s \<and> sm_status s = PendingSettlement)"
proof -
  obtain g' sent where t: "tick file_ops 15000 (gs_gateway demo_run3) = (None, g', sent)"
    and "\<forall>i s. file_get (gw_store g') i = Some s \<longrightarrow> sm_status s = Active \<longrightarrow> 0 < sm_lifespan s \<longrightarrow>
      15000 < expires_at s * 1000"
    using overdue_streams_swept [OF demo_starts demo_runs(2) demo_amounts no_streams, of 15000] by blast
  with demo_swept show ?thesis by simp
qed

text \<open>
  Over a snapshot file that does not parse, a backfill of events that are in the event file
  reports them all as processed and rebuilds nothing: the store keeps no stream at all.
\<close>

theorem corrupt_snapshot_never_rebuilt:
  assumes "dk_snapshot d = Some Corrupt_snapshot"
    and "start_gateway file_ops (openStore d) = Some g"
    and "\<And>log. log \<in> set logs \<Longrightarrow> recorded_log file_ops parseLog (openStore d) log"
  shows "\<exists>g'. backfill file_ops parseLog blocks now logs g = Some (Inr (length logs), g') \<and>
    file_get (gw_store g') i = None"
proof -
  let ?sorted = "sort_key (\<lambda>l. (cl_blockNumber l, or_else (cl_index l) (or_else (cl_logIndex l) 0))) logs"
  obtain g' where g': "handle_all file_ops parseLog blocks now ?sorted g = Some (None, g')"
      "gw_store g' = gw_store g"
    using handle_all_recorded [of ?sorted file_ops parseLog g blocks now] assms(3) start_store [OF assms(2)]
    by auto
  have "file_get (openStore d) i = None"
    by (simp add: openStore_def file_get_def load_snapshot_def assms(1) emptyCache_def cache_get_def
        split: prod.split)
  with g' start_store [OF assms(2)] show ?thesis by (simp add: backfill_def Let_def)
qed

theorem corrupt_snapshot_never_rebuilt_witness:
  "\<exists>g'. backfill file_ops demo_decode (\<lambda>n. Some None) 0 [demo_settle, demo_provision] demo_gateway_c
      = Some (Inr 2, g') \<and> file_get (gw_store g') ''0xa1'' = None"
proof -
  have "recorded_log file_ops demo_decode (openStore demo_corrupt_disk) log"
    if "log \<in> set [demo_settle, demo_provision]" for log
    using that demo_logs_recorded by auto
  from corrupt_snapshot_never_rebuilt [OF demo_corrupt this, of "[demo_settle, demo_provision]"
      "\<lambda>n. Some None" 0 "''0xa1''"]
  show ?thesis by (simp add: numeral_2_eq_2)
qed

text \<open>
  C18: when the block of a settlement is answered before the block of the provisioning the
  settlement refers to, the settlement is dropped for good: the stream keeps its full allocation,
  and the log of the settlement is ignored from then on, also after a restart.
\<close>

theorem late_provisioning_loses_settlement:
  assumes "begin_log file_ops parseLog provision g = (Some p, g1)"
    and "begin_log file_ops parseLog settle g1 = (Some s, g2)"
    and "pe_eventName p = ''PaycardProvisioned''" and "pe_eventName s = ''SettlementFlushed''"
    and "pe_paycardId s = pe_paycardId p" and "file_get (gw_store g) (pe_paycardId p) = None"
    and "finish_log file_ops now t s g2 = Some (e, g3)"
    and "finish_log file_ops now' t' p g3 = Some (e', g4)"
  shows "map_option sm_availableBalance (file_get (gw_store g4) (pe_paycardId p))
      = Some (or_else (arg p ''poolAllocation'') ''0'') \<and>
    (\<forall>h. gw_store h = restart_store (gw_store g4) \<longrightarrow> file_ok (gw_store g4) \<longrightarrow>
      fst (begin_log file_ops parseLog settle h) = None)"
proof -
  have st: "gw_store g2 = gw_store g"
    using begin_log_cases [OF assms(1)] begin_log_cases [OF assms(2)] by simp
  from assms(7) have g3: "gw_store g3 = snd (file_recordEvent
      (toEventRecord file_ops (gw_store g2) now (s\<lparr>pe_blockTimestamp := t\<rparr>)) (gw_store g2))"
    using assms(4-6) st
    by (auto simp: finish_log_def applyEvent_def onSettlementFlushed_def Let_def file_ops_def)
  have has: "file_hasEvent (gw_store g3) (pe_key s)"
    by (simp add: g3 record_key_event) (simp add: pe_key_def)
  obtain r where w: "gw_store g4 = file_set (pe_paycardId p) (provisioned_state (p\<lparr>pe_blockTimestamp := t'\<rparr>))
      (snd (file_recordEvent r (gw_store g3)))"
    using assms(3,8)
    by (auto simp: finish_log_def applyEvent_def onPaycardProvisioned_def Let_def file_ops_def split: if_splits)
  from has w have "file_hasEvent (gw_store g4) (pe_key s)" by simp
  moreover have "parse parseLog settle = Some s" by (rule begin_log_parses [OF assms(2)])
  ultimately have "fst (begin_log file_ops parseLog settle h) = None"
    if "gw_store h = restart_store (gw_store g4)" "file_ok (gw_store g4)" for h
    using that restart_hasEvent [OF that(2), of "pe_key s"] by (simp add: begin_log_def file_ops_def Let_def)
  with w show ?thesis by (simp add: provisioned_state_def arg_def Let_def)
qed

theorem late_provisioning_loses_settlement_witness:
  "map_option sm_availableBalance (file_get (gw_store demo_late4) ''0xa1'') = Some ''100''"
  using late_provisioning_loses_settlement [OF demo_late(1,2) _ _ _ _ demo_late(3,4)] demo_late_facts
  by simp


section \<open>Providers, timer, webhooks\<close>

text \<open>
  \<open>getProvider\<close> always returns a provider of the pool that is marked healthy: the next one
  round the pool from the cursor when there is one, and otherwise the first, with all marked
  healthy again; it never throws.
\<close>

theorem pool_selects:
  assumes "pl_entries p \<noteq> []" and "pl_cursor p < length (pl_entries p)"
  shows "\<exists>i p'. getProvider p = (i, p') \<and> i < length (pl_entries p) \<and> pe_healthy (pl_entries p' ! i) \<and>
    length (pl_entries p') = length (pl_entries p) \<and> pl_cursor p' < length (pl_entries p') \<and>
    ((\<exists>e \<in> set (pl_entries p). pe_healthy e) \<longrightarrow> pl_entries p' = pl_entries p) \<and>
    ((\<forall>e \<in> set (pl_entries p). pe_healthy e) \<longrightarrow>
       providers k p = map (\<lambda>j. (pl_cursor p + j) mod length (pl_entries p)) [0..<k])"
proof -
  obtain i p' where g: "getProvider p = (i, p')" by (cases "getProvider p")
  from getProvider_cases [OF assms(1) g] providers_rotate [OF assms(2), of k] g show ?thesis by auto
qed

theorem pool_selects_witness:
  "\<exists>i p'. getProvider demo_pool = (i, p') \<and> i < 2 \<and> pe_healthy (pl_entries p' ! i)"
proof -
  have "pl_entries demo_pool \<noteq> []" "pl_cursor demo_pool < length (pl_entries demo_pool)"
      "length (pl_entries demo_pool) = 2"
    by (simp_all add: demo_pool_def)
  with pool_selects [of demo_pool 0] show ?thesis by auto
qed

text \<open>
  The timer does not drift: however late each callback returns, after \<open>n\<close> ticks the next is
  due \<open>n + 2\<close> intervals after the start, or at once when that has passed.  The first tick is due two
  intervals after the start.
\<close>

theorem timer_never_drifts:
  assumes "newTimer interval = Inr t"
  shows "tm_dueAt (fold fire nows (start_timer t0 t)) =
    Some (max (last (t0 # nows)) (t0 + (int (length nows) + 2) * interval))"
proof -
  from assms have t: "tm_intervalMs t = interval" "0 < interval" "\<not> tm_running t"
    by (auto simp: newTimer_def split: if_splits)
  then have s: "tm_running (start_timer t0 t)" "tm_intervalMs (start_timer t0 t) = interval"
      "tm_expectedTickMs (start_timer t0 t) = t0 + interval"
      "tm_dueAt (start_timer t0 t) = Some (t0 + 2 * interval)"
    by (auto simp: start_timer_def scheduleTick_def Let_def)
  show ?thesis
  proof (cases "nows = []")
    case True
    with s t(2) show ?thesis by simp
  next
    case False
    with fold_fire [OF s(1), of nows] show ?thesis by (simp add: s algebra_simps)
  qed
qed

theorem timer_never_drifts_witness:
  "\<exists>t. newTimer 100 = Inr t \<and> tm_dueAt (fold fire [230, 350] (start_timer 0 t)) = Some 400"
  using timer_never_drifts [of 100 _ "[230, 350]" 0] by (auto simp: newTimer_def)

text \<open>
  A webhook delivery ends after at most \<open>maxRetries\<close> requests, each with the same body and
  signature, reports success exactly when the first answer that is not worth a retry is a success,
  and waits between half a second and 30 seconds between two requests.
\<close>

theorem webhook_delivery:
  assumes "\<And>k. 0 \<le> random k"
  shows "dl_delivered (deliver answers random url body signFn maxRetries) =
      (\<exists>k. k < maxRetries \<and> accepted (answers k) \<and> (\<forall>j. j < k \<longrightarrow> \<not> final_answer (answers j))) \<and>
    length (dl_requests (deliver answers random url body signFn maxRetries)) \<le> maxRetries \<and>
    set (dl_requests (deliver answers random url body signFn maxRetries))
      \<subseteq> {\<lparr>wr_url = url, wr_body = body, wr_signature = signFn body\<rparr>} \<and>
    (\<forall>d \<in> set (dl_delays (deliver answers random url body signFn maxRetries)). 500 \<le> d \<and> d \<le> 30000)"
  using deliver_from_iff [where answers = answers and random = random and maxRetries = maxRetries and attempt = 0]
    deliver_from_bounds [OF assms, where answers = answers and maxRetries = maxRetries and attempt = 0]
  by (simp add: deliver_def first_final_accepted_def BASE_DELAY_MS_def MAX_DELAY_MS_def)

theorem webhook_delivery_witness:
  "dl_delivered (deliver demo_answers (\<lambda>k. 1 / 2) ''u'' ''b'' (\<lambda>s. ''sig'') 5)"
proof -
  have "\<exists>k. k < 5 \<and> accepted (demo_answers k) \<and> (\<forall>j. j < k \<longrightarrow> \<not> final_answer (demo_answers j))"
    by (rule exI [of _ 2]) (auto simp: demo_answers_def accepted_def final_answer_def response_ok_def)
  then show ?thesis
    using webhook_delivery [of "\<lambda>k. 1 / 2" demo_answers "''u''" "''b''" "\<lambda>s. ''sig''" 5] by simp
qed

end
