(* ===== verification/Js_Parse.thy ===== *)
theory Js_Parse
  imports Js_Collections
begin

text \<open>
  \<open>JSON.parse\<close>, which reads the tokens and request bodies the SDK and the server accept.

  A text is its UTF-8 bytes, as in \<open>js_stringify\<close>, so an escape of a code point above 127 gives the
  bytes of its UTF-8 form.  Numbers are integers and rounded as doubles are; a text with a fraction
  or an exponent, which no producer in the repository writes, is refused.  \<open>None\<close> is the
  \<open>SyntaxError\<close>.  The fuel is a bound on the number of characters still to read:
  \<open>parse_fuel\<close> shows that more of it changes nothing.
\<close>


section \<open>Numbers and strings\<close>

definition is_json_space :: "char \<Rightarrow> bool" where
  "is_json_space c \<longleftrightarrow> char_code c \<in> {9, 10, 13, 32}"

definition skip_space :: "string \<Rightarrow> string" where
  "skip_space s = dropWhile is_json_space s"

definition parse_number :: "string \<Rightarrow> (json \<times> string) option" where
  "parse_number s =
     (let negative = (s \<noteq> [] \<and> hd s = CHR ''-'');
          t = (if negative then tl s else s);
          digits = takeWhile is_digit t;
          rest = dropWhile is_digit t;
          n = int (dec_value 0 digits)
      in if digits = [] \<or> (hd digits = CHR ''0'' \<and> digits \<noteq> ''0'') then None
         else if rest \<noteq> [] \<and> hd rest \<in> set ''.eE'' then None
         else Some (JNum (js_round (if negative then - n else n)), rest))"

definition utf8_bytes :: "nat \<Rightarrow> string" where
  "utf8_bytes n =
     (if n < 128 then [char_of n]
      else if n < 2048 then [char_of (192 + n div 64), char_of (128 + n mod 64)]
      else if n < 65536
      then [char_of (224 + n div 4096), char_of (128 + n div 64 mod 64), char_of (128 + n mod 64)]
      else [char_of (240 + n div 262144), char_of (128 + n div 4096 mod 64),
        char_of (128 + n div 64 mod 64), char_of (128 + n mod 64)])"

definition hex4 :: "string \<Rightarrow> (nat \<times> string) option" where
  "hex4 s = (if length s < 4 then None
     else map_option (\<lambda>n. (n, drop 4 s)) (radix_value 16 0 (take 4 s)))"

text \<open>After \<open>\u\<close>: a surrogate pair is one code point.\<close>

definition parse_unicode :: "string \<Rightarrow> (string \<times> string) option" where
  "parse_unicode s =
     (case hex4 s of
        None \<Rightarrow> None
      | Some (high, r) \<Rightarrow>
          (if 55296 \<le> high \<and> high < 56320 \<and> take 2 r = [char_of (92::nat), CHR ''u'']
           then (case hex4 (drop 2 r) of
                   Some (low, r') \<Rightarrow>
                     (if 56320 \<le> low \<and> low < 57344
                      then Some (utf8_bytes (65536 + (high - 55296) * 1024 + (low - 56320)), r')
                      else Some (utf8_bytes high, r))
                 | None \<Rightarrow> Some (utf8_bytes high, r))
           else Some (utf8_bytes high, r)))"

definition simple_escapes :: "(nat \<times> nat) list" where
  "simple_escapes = [(34, 34), (92, 92), (47, 47), (98, 8), (102, 12), (110, 10), (114, 13), (116, 9)]"

definition parse_escape :: "string \<Rightarrow> (string \<times> string) option" where
  "parse_escape s =
     (case s of
        [] \<Rightarrow> None
      | e # t \<Rightarrow>
          (if e = CHR ''u'' then parse_unicode t
           else map_option (\<lambda>n. ([char_of n], t)) (map_of simple_escapes (char_code e))))"

lemma hex4_shorter: "hex4 s = Some (n, r) \<Longrightarrow> length r < length s"
  by (auto simp: hex4_def split: if_splits)

lemma parse_escape_shorter: "parse_escape s = Some (x, r) \<Longrightarrow> length r < length s"
  by (auto simp: parse_escape_def parse_unicode_def split: list.splits option.splits if_splits
      dest!: hex4_shorter)

text \<open>The characters up to the closing quote.\<close>

function parse_chars :: "string \<Rightarrow> (string \<times> string) option" where
  "parse_chars [] = None"
| "parse_chars (c # s) =
     (if char_code c = 34 then Some ([], s)
      else if char_code c < 32 then None
      else if char_code c \<noteq> 92 then map_option (\<lambda>(y, r). (c # y, r)) (parse_chars s)
      else (case parse_escape s of
              None \<Rightarrow> None
            | Some (x, r) \<Rightarrow> map_option (\<lambda>(y, r). (x @ y, r)) (parse_chars r)))"
  by pat_completeness auto
termination
  by (relation "measure length") (auto dest: parse_escape_shorter)

definition parse_string :: "string \<Rightarrow> (string \<times> string) option" where
  "parse_string s =
     (case s of [] \<Rightarrow> None | c # t \<Rightarrow> if char_code c = 34 then parse_chars t else None)"

text \<open>A literal name.\<close>

definition parse_name :: "string \<Rightarrow> json \<Rightarrow> string \<Rightarrow> (json \<times> string) option" where
  "parse_name name v s = (if take (length name) s = name then Some (v, drop (length name) s) else None)"


section \<open>Values\<close>

text \<open>Of two members with one name the later value counts, in the place of the first.\<close>

definition js_object :: "(string \<times> json) list \<Rightarrow> json" where
  "js_object members = JObj (foldl (\<lambda>o' (k, v). js_set k v o') [] members)"

fun parse_value :: "nat \<Rightarrow> string \<Rightarrow> (json \<times> string) option"
  and parse_elements :: "nat \<Rightarrow> string \<Rightarrow> (json list \<times> string) option"
  and parse_members :: "nat \<Rightarrow> string \<Rightarrow> ((string \<times> json) list \<times> string) option" where
  "parse_value 0 s = None"
| "parse_value (Suc fuel) s =
     (case skip_space s of
        [] \<Rightarrow> None
      | c # t \<Rightarrow>
          (if c = CHR ''n'' then parse_name ''null'' JNull (c # t)
           else if c = CHR ''t'' then parse_name ''true'' (JBool True) (c # t)
           else if c = CHR ''f'' then parse_name ''false'' (JBool False) (c # t)
           else if char_code c = 34 then map_option (\<lambda>(x, r). (JStr x, r)) (parse_chars t)
           else if c = CHR ''['' then
             (case skip_space t of
                [] \<Rightarrow> None
              | d # u \<Rightarrow> if d = CHR '']'' then Some (JArr [], u)
                  else map_option (\<lambda>(vs, r). (JArr vs, r)) (parse_elements fuel t))
           else if c = CHR ''{'' then
             (case skip_space t of
                [] \<Rightarrow> None
              | d # u \<Rightarrow> if d = CHR ''}'' then Some (JObj [], u)
                  else map_option (\<lambda>(ms, r). (js_object ms, r)) (parse_members fuel t))
           else parse_number (c # t)))"
| "parse_elements 0 s = None"
| "parse_elements (Suc fuel) s =
     (case parse_value (Suc fuel) s of
        None \<Rightarrow> None
      | Some (v, r) \<Rightarrow>
          (case skip_space r of
             [] \<Rightarrow> None
           | c # t \<Rightarrow>
               (if c = CHR '']'' then Some ([v], t)
                else if c = CHR '','' then map_option (\<lambda>(vs, r). (v # vs, r)) (parse_elements fuel t)
                else None)))"
| "parse_members 0 s = None"
| "parse_members (Suc fuel) s =
     (case parse_string (skip_space s) of
        None \<Rightarrow> None
      | Some (k, r) \<Rightarrow>
          (case skip_space r of
             [] \<Rightarrow> None
           | c # t \<Rightarrow>
               (if c \<noteq> CHR '':'' then None
                else (case parse_value fuel t of
                        None \<Rightarrow> None
                      | Some (v, r) \<Rightarrow>
                          (case skip_space r of
                             [] \<Rightarrow> None
                           | c # t \<Rightarrow>
                               (if c = CHR ''}'' then Some ([(k, v)], t)
                                else if c = CHR '','' then
                                  map_option (\<lambda>(ms, r). ((k, v) # ms, r)) (parse_members fuel t)
                                else None))))))"

definition js_parse :: "string \<Rightarrow> json option" where
  "js_parse s =
     (case parse_value (Suc (length s)) s of
        None \<Rightarrow> None
      | Some (v, r) \<Rightarrow> if skip_space r = [] then Some v else None)"


section \<open>Fuel\<close>

lemma skip_space_le: "length (skip_space s) \<le> length s"
  by (simp add: skip_space_def length_dropWhile_le)

lemma skip_space_Cons: "skip_space s = c # t \<Longrightarrow> length t < length s"
  using skip_space_le [of s] by simp

lemma parse_chars_shorter: "parse_chars s = Some (x, r) \<Longrightarrow> length r < length s"
  by (induction s arbitrary: x r rule: parse_chars.induct)
    (fastforce split: if_splits option.splits dest: parse_escape_shorter)+

lemma parse_string_shorter: "parse_string s = Some (x, r) \<Longrightarrow> length r < length s"
  by (auto simp: parse_string_def split: list.splits if_splits dest!: parse_chars_shorter)

lemma parse_name_shorter: "parse_name name v s = Some (w, r) \<Longrightarrow> name \<noteq> [] \<Longrightarrow> length r < length s"
  by (cases s) (auto simp: parse_name_def split: if_splits)

lemma digits_shorter: "takeWhile is_digit t \<noteq> [] \<Longrightarrow> length (dropWhile is_digit t) < length t"
  by (cases t) (auto simp: less_Suc_eq_le length_dropWhile_le split: if_splits)

lemma parse_number_shorter: "parse_number s = Some (v, r) \<Longrightarrow> length r < length s"
  using digits_shorter [of s] digits_shorter [of "tl s"]
  by (cases s) (auto simp: parse_number_def Let_def split: if_splits)

lemma parse_shorter:
  "parse_value n s = Some (v, r) \<Longrightarrow> length r < length s"
  "parse_elements n s = Some (vs, r) \<Longrightarrow> length r < length s"
  "parse_members n s = Some (ms, r) \<Longrightarrow> length r < length s"
proof (induction n s and n s and n s arbitrary: v r and vs r and ms r
    rule: parse_value_parse_elements_parse_members.induct)
  case (2 fuel s)
  then show ?case
    using skip_space_le [of s]
    by (auto split: list.splits if_splits
        dest!: parse_chars_shorter parse_name_shorter parse_number_shorter skip_space_Cons) fastforce+
next
  case (4 fuel s)
  then show ?case
    by (auto split: option.splits list.splits if_splits dest!: skip_space_Cons) fastforce+
next
  case (6 fuel s)
  then show ?case
    using skip_space_le [of s]
    by (auto split: option.splits list.splits if_splits dest!: skip_space_Cons parse_string_shorter) fastforce+
qed simp_all

text \<open>Fuel beyond the length of the text changes nothing.\<close>

lemma parse_fuel:
  "length s < n \<Longrightarrow> length s < m \<Longrightarrow> parse_value n s = parse_value m s"
  "length s < n \<Longrightarrow> length s < m \<Longrightarrow> parse_elements n s = parse_elements m s"
  "length s < n \<Longrightarrow> length s < m \<Longrightarrow> parse_members n s = parse_members m s"
proof (induction n s and n s and n s arbitrary: m and m and m
    rule: parse_value_parse_elements_parse_members.induct)
  case (2 fuel s)
  obtain m' where m: "m = Suc m'" using 2(4) by (cases m) auto
  show ?case
  proof (cases "skip_space s")
    case (Cons c t)
    with skip_space_Cons [OF Cons] 2(3,4) m have "length t < fuel" "length t < m'" by simp_all
    note t = this
    have e: "parse_elements fuel t = parse_elements m' t"
      if "skip_space t = d # u" "c = CHR ''[''" "d \<noteq> CHR '']''" for d u
      using 2(1) [of c t d u m'] Cons that t by (simp add: char_code_def)
    have mem: "parse_members fuel t = parse_members m' t"
      if "skip_space t = d # u" "c = CHR ''{''" "d \<noteq> CHR ''}''" for d u
      using 2(2) [of c t d u m'] Cons that t by (simp add: char_code_def)
    show ?thesis
      by (cases "skip_space t") (simp_all add: m Cons e mem)
  qed (simp add: m)
next
  case (4 fuel s)
  obtain m' where m: "m = Suc m'" using 4(4) by (cases m) auto
  have same: "parse_value (Suc fuel) s = parse_value (Suc m') s" by (rule 4(1)) (use 4(3,4) m in simp_all)
  show ?case
  proof (cases "parse_value (Suc m') s")
    case (Some vr)
    obtain v r where vr: "vr = (v, r)" by (cases vr)
    have r: "length r < length s" using parse_shorter(1) [of "Suc m'" s v r] Some vr by simp
    show ?thesis
    proof (cases "skip_space r")
      case (Cons c t)
      with skip_space_Cons [OF Cons] r 4(3,4) m have "length t < fuel" "length t < m'" by simp_all
      with 4(2) [of "(v, r)" v r c t m'] same Some vr Cons
      have "c = CHR '','' \<Longrightarrow> parse_elements fuel t = parse_elements m' t" by simp
      with same Some vr Cons m show ?thesis by simp
    qed (use same Some vr m in simp)
  qed (use same m in simp)
next
  case (6 fuel s)
  obtain m' where m: "m = Suc m'" using 6(4) by (cases m) auto
  show ?case
  proof (cases "parse_string (skip_space s)")
    case (Some kr)
    obtain k r where kr: "kr = (k, r)" by (cases kr)
    have r: "length r < length s"
      using parse_string_shorter [of "skip_space s" k r] skip_space_le [of s] Some kr by simp
    show ?thesis
    proof (cases "skip_space r")
      case (Cons c t)
      with skip_space_Cons [OF Cons] r 6(3,4) m have t: "length t < fuel" "length t < m'" by simp_all
      with 6(1) [of "(k, r)" k r c t m'] Some kr Cons
      have same: "c = CHR '':'' \<Longrightarrow> parse_value fuel t = parse_value m' t" by simp
      show ?thesis
      proof (cases "c = CHR '':''")
        case True
        show ?thesis
        proof (cases "parse_value m' t")
          case (Some vq)
          obtain v q where vq: "vq = (v, q)" by (cases vq)
          have q: "length q < length t" using parse_shorter(1) [of m' t v q] Some vq by simp
          show ?thesis
          proof (cases "skip_space q")
            case (Cons d u)
            with skip_space_Cons [OF Cons] q t have "length u < fuel" "length u < m'" by simp_all
            with 6(2) [of "(k, r)" k r c t "(v, q)" v q d u m'] True same Some vq Cons
              \<open>parse_string (skip_space s) = Some kr\<close> kr \<open>skip_space r = c # t\<close>
            have "d = CHR '','' \<Longrightarrow> parse_members fuel u = parse_members m' u" by simp
            with True same Some vq Cons m \<open>parse_string (skip_space s) = Some kr\<close> kr \<open>skip_space r = c # t\<close>
            show ?thesis by simp
          qed (use True same Some vq m \<open>parse_string (skip_space s) = Some kr\<close> kr \<open>skip_space r = c # t\<close> in simp)
        qed (use True same m Some kr Cons in simp)
      qed (use m Some kr Cons in simp)
    qed (use m Some kr in simp)
  qed (use m in simp)
qed simp_all


section \<open>Reading back what was printed\<close>

text \<open>What JSON text can carry: numbers that are doubles, names that are distinct.\<close>

fun json_exact :: "json \<Rightarrow> bool" where
  "json_exact (JNum n) \<longleftrightarrow> js_round n = n"
| "json_exact (JArr vs) \<longleftrightarrow> (\<forall>v \<in> set vs. json_exact v)"
| "json_exact (JObj fs) \<longleftrightarrow> distinct (map fst fs) \<and> (\<forall>(k, v) \<in> set fs. json_exact v)"
| "json_exact v \<longleftrightarrow> True"

lemma radix_hex_char: "d < 16 \<Longrightarrow> radix_digit 16 (hex_char d) = Some d"
  by (auto simp: radix_digit_def hex_char_def digit_char_def char_code_def Let_def)

lemma hex4_pair:
  "n < 32 \<Longrightarrow> hex4 (CHR ''0'' # CHR ''0'' # hex_char (n div 16) # hex_char (n mod 16) # s) = Some (n, s)"
proof -
  have "radix_digit 16 CHR ''0'' = Some 0" by (simp add: radix_digit_def char_code_def)
  then show "n < 32 \<Longrightarrow> ?thesis" by (simp add: hex4_def radix_hex_char less_mult_imp_div_less)
qed

lemma char_of_char_code [simp]: "char_of (char_code c) = c"
  by (simp add: char_code_def)

lemma char_code_char_of: "n < 256 \<Longrightarrow> char_code (char_of n) = n"
  by (simp add: char_code_def)

lemma utf8_ascii: "n < 128 \<Longrightarrow> utf8_bytes n = [char_of n]"
  by (simp add: utf8_bytes_def)

lemma parse_chars_escape:
  "parse_chars (json_escape c @ s) = map_option (\<lambda>(y, r). (c # y, r)) (parse_chars s)"
proof -
  let ?n = "char_code c"
  have c: "c = char_of ?n" by simp
  consider (special) "?n \<in> {34, 92, 8, 9, 10, 12, 13}"
    | (control) "?n < 32" "?n \<notin> {8, 9, 10, 12, 13}" | (plain) "32 \<le> ?n" "?n \<noteq> 34" "?n \<noteq> 92"
    by force
  then show ?thesis
  proof cases
    case special
    have "parse_chars (json_escape (char_of m) @ s) = map_option (\<lambda>(y, r). (char_of m # y, r)) (parse_chars s)"
      if "m \<in> {34, 92, 8, 9, 10, 12, 13}" for m :: nat
    proof -
      have b: "parse_escape (e # s) = Some ([char_of v], s)"
        if "map_of simple_escapes (char_code e) = Some v" for e v
        using that by (auto simp: parse_escape_def simple_escapes_def char_code_def)
      show ?thesis
        using that
        by (elim insertE) (simp_all add: json_escape_def Let_def char_code_def b simple_escapes_def case_prod_beta)
    qed
    from this [OF special] show ?thesis by simp
  next
    case control
    then have "json_escape c = char_of (92::nat) # ''u00'' @ [hex_char (?n div 16), hex_char (?n mod 16)]"
      by (simp add: json_escape_def Let_def)
    with control show ?thesis
      by (simp add: char_code_char_of parse_escape_def parse_unicode_def hex4_pair utf8_ascii
          case_prod_beta)
  next
    case plain
    then show ?thesis by (simp add: json_escape_def Let_def)
  qed
qed

lemma parse_chars_quoted: "parse_chars (concat (map json_escape x) @ char_of (34::nat) # s) = Some (x, s)"
  by (induction x) (simp_all add: parse_chars_escape char_code_char_of)

definition ends_value :: "string \<Rightarrow> bool" where
  "ends_value rest \<longleftrightarrow> rest = [] \<or> hd rest \<in> set '',]}''"

lemma show_nat_no_leading_zero: "hd (show_nat n) = CHR ''0'' \<Longrightarrow> show_nat n = ''0''"
  using is_dec_string_show_nat [of n] by (auto simp: is_dec_string_def)

lemma ends_value_head:
  assumes "ends_value rest"
  shows "takeWhile is_digit rest = []" "dropWhile is_digit rest = rest"
    "rest \<noteq> [] \<Longrightarrow> hd rest \<noteq> CHR ''.'' \<and> hd rest \<noteq> CHR ''e'' \<and> hd rest \<noteq> CHR ''E''"
  using assms by (cases rest; auto simp: ends_value_def is_digit_def char_code_def)+

lemma digits_then:
  assumes "list_all is_digit ds" and "takeWhile is_digit rest = []"
  shows "takeWhile is_digit (ds @ rest) = ds" "dropWhile is_digit (ds @ rest) = rest"
proof -
  have rest: "dropWhile is_digit rest = rest" using assms(2) by (cases rest) (auto split: if_splits)
  show "takeWhile is_digit (ds @ rest) = ds" "dropWhile is_digit (ds @ rest) = rest"
    using assms rest by (simp_all add: list_all_iff takeWhile_append dropWhile_append)
qed

lemma parse_number_show:
  assumes "js_round i = i" and "ends_value rest"
  shows "parse_number (show_int i @ rest) = Some (JNum i, rest)"
proof -
  note tail = ends_value_head [OF assms(2)]
  have minus: "hd (show_nat n) \<noteq> CHR ''-''" for n
    using show_nat_digits [of n] by (cases "show_nat n") (auto simp: is_digit_def char_code_def)
  have read: "takeWhile is_digit (show_nat n @ rest) = show_nat n" "dropWhile is_digit (show_nat n @ rest) = rest" for n
    by (rule digits_then [OF show_nat_digits tail(1)])+
  show ?thesis
  proof (cases "i < 0")
    case True
    with assms(1) show ?thesis
      using tail(3) show_nat_no_leading_zero [of "nat (- i)"]
      by (auto simp: parse_number_def Let_def show_int_def read dec_value_show_nat)
  next
    case False
    with assms(1) show ?thesis
      using tail(3) show_nat_no_leading_zero [of "nat i"] minus [of "nat i"]
      by (auto simp: parse_number_def Let_def show_int_def read dec_value_show_nat)
  qed
qed

lemma parse_name_append: "parse_name name v (name @ rest) = Some (v, rest)"
  by (simp add: parse_name_def)

definition reads_value :: "json \<Rightarrow> bool" where
  "reads_value v \<longleftrightarrow> (\<forall>n rest. ends_value rest \<longrightarrow> length (js_stringify v @ rest) < n \<longrightarrow>
     parse_value n (js_stringify v @ rest) = Some (v, rest))"

lemma reads_valueD:
  "reads_value v \<Longrightarrow> ends_value rest \<Longrightarrow> length (js_stringify v @ rest) < n \<Longrightarrow>
    parse_value n (js_stringify v @ rest) = Some (v, rest)"
  by (simp add: reads_value_def)

lemma skip_space_Cons_eq: "\<not> is_json_space c \<Longrightarrow> skip_space (c # s) = c # s"
  by (simp add: skip_space_def)

lemma not_json_space [simp]:
  "\<not> is_json_space CHR '',''" "\<not> is_json_space CHR '']''" "\<not> is_json_space CHR ''}''"
  "\<not> is_json_space CHR '':''" "\<not> is_json_space CHR ''[''" "\<not> is_json_space CHR ''{''"
  "\<not> is_json_space (char_of (34::nat))"
  by (simp_all add: is_json_space_def char_code_def)

lemma ends_value_simps [simp]:
  "ends_value []" "ends_value (CHR '','' # s)" "ends_value (CHR '']'' # s)" "ends_value (CHR ''}'' # s)"
  by (simp_all add: ends_value_def)

lemma parse_elements_join:
  assumes "vs \<noteq> []" and "\<forall>v \<in> set vs. reads_value v"
    and "length (js_join CHR '','' (map js_stringify vs) @ CHR '']'' # rest) < n"
  shows "parse_elements n (js_join CHR '','' (map js_stringify vs) @ CHR '']'' # rest) = Some (vs, rest)"
  using assms
proof (induction vs arbitrary: n rule: induct_list012)
  case (2 v)
  then obtain m where n: "n = Suc m" by (cases n) auto
  with 2 reads_valueD [of v "CHR '']'' # rest" "Suc m"] show ?case
    by (simp add: skip_space_Cons_eq)
next
  case (3 v w vs)
  then obtain m where n: "n = Suc m" by (cases n) auto
  let ?tail = "js_join CHR '','' (map js_stringify (w # vs)) @ CHR '']'' # rest"
  have "parse_value (Suc m) (js_stringify v @ CHR '','' # ?tail) = Some (v, CHR '','' # ?tail)"
    using 3(3-) n by (intro reads_valueD) auto
  moreover have "parse_elements m ?tail = Some (w # vs, rest)"
    using 3(3-) n by (intro 3(2)) auto
  ultimately show ?case by (simp add: n skip_space_Cons_eq)
qed simp

definition show_member :: "string \<times> json \<Rightarrow> string" where
  "show_member = (\<lambda>(k, v). json_quote k @ '':'' @ js_stringify v)"

lemma parse_member:
  "parse_string (skip_space (show_member (k, v) @ s)) = Some (k, CHR '':'' # js_stringify v @ s)"
  by (simp add: show_member_def json_quote_def skip_space_Cons_eq parse_string_def
      char_code_char_of parse_chars_quoted [where s = "CHR '':'' # js_stringify v @ s"])

lemma parse_members_join:
  assumes "fs \<noteq> []" and "\<forall>f \<in> set fs. reads_value (snd f)"
    and "length (js_join CHR '','' (map show_member fs) @ CHR ''}'' # rest) < n"
  shows "parse_members n (js_join CHR '','' (map show_member fs) @ CHR ''}'' # rest) = Some (fs, rest)"
  using assms
proof (induction fs arbitrary: n rule: induct_list012)
  case (2 f)
  obtain k v where f: "f = (k, v)" by (cases f)
  obtain m where n: "n = Suc m" using 2 by (cases n) auto
  have "parse_value m (js_stringify v @ CHR ''}'' # rest) = Some (v, CHR ''}'' # rest)"
    using 2 n f by (intro reads_valueD) (auto simp: show_member_def json_quote_def)
  with parse_member [of k v "CHR ''}'' # rest"] show ?case
    by (simp add: n f skip_space_Cons_eq)
next
  case (3 f g fs)
  obtain k v where f: "f = (k, v)" by (cases f)
  obtain m where n: "n = Suc m" using 3 by (cases n) auto
  let ?tail = "js_join CHR '','' (map show_member (g # fs)) @ CHR ''}'' # rest"
  have "parse_value m (js_stringify v @ CHR '','' # ?tail) = Some (v, CHR '','' # ?tail)"
    using 3(3-) n f by (intro reads_valueD) (auto simp: show_member_def json_quote_def)
  moreover have "parse_members m ?tail = Some (g # fs, rest)"
    using 3(3-) n by (intro 3(2)) auto
  ultimately show ?case
    using parse_member [of k v "CHR '','' # ?tail"] by (simp add: n f skip_space_Cons_eq)
qed simp

lemma foldl_js_set:
  assumes "distinct (map fst (o' @ ms))"
  shows "foldl (\<lambda>o' (k, v). js_set k v o') o' ms = o' @ ms"
  using assms
proof (induction ms arbitrary: o')
  case (Cons m ms)
  obtain k v where m: "m = (k, v)" by (cases m)
  have "k \<notin> fst ` set o'" using Cons.prems m by auto
  then have "js_set k v o' = o' @ [(k, v)]"
    unfolding js_set_def by (induction o') auto
  with Cons.IH [of "o' @ [(k, v)]"] Cons.prems m show ?case by simp
qed simp

lemma js_object_distinct: "distinct (map fst ms) \<Longrightarrow> js_object ms = JObj ms"
  by (simp add: js_object_def foldl_js_set)

lemma js_join_head: "xs \<noteq> [] \<Longrightarrow> hd xs \<noteq> [] \<Longrightarrow> \<exists>r. js_join c xs @ s = hd (hd xs) # r"
  by (cases "(c, xs)" rule: js_join.cases) (auto simp: neq_Nil_conv)

lemma show_int_head:
  "\<exists>c r. show_int i @ s = c # r \<and> (is_digit c \<or> c = CHR ''-'')"
  using show_nat_digits [of "nat i"]
  by (cases "show_nat (nat i)") (auto simp: show_int_def)

lemma quote_char: "char_of (34::nat) = CHR 0x22"
  by code_simp

text \<open>No printed value begins with white space, a comma or a closing bracket.\<close>

lemma js_stringify_head:
  "\<exists>c r. js_stringify v @ s = c # r \<and> \<not> is_json_space c \<and> c \<notin> set '',]}''"
proof (cases v)
  case (JNum i)
  with show_int_head [of i s] show ?thesis
    by (auto simp: is_digit_def is_json_space_def char_code_def)
qed (auto simp: json_quote_def is_json_space_def char_code_def quote_char)

lemma reads_array:
  assumes "\<forall>v \<in> set vs. reads_value v"
  shows "reads_value (JArr vs)"
  unfolding reads_value_def
proof (intro allI impI)
  fix n rest
  assume n: "length (js_stringify (JArr vs) @ rest) < n"
  then obtain m where m: "n = Suc m" by (cases n) auto
  show "parse_value n (js_stringify (JArr vs) @ rest) = Some (JArr vs, rest)"
  proof (cases vs)
    case Nil
    then show ?thesis by (simp add: m skip_space_Cons_eq char_code_def)
  next
    case (Cons w ws)
    let ?t = "js_join CHR '','' (map js_stringify vs) @ CHR '']'' # rest"
    from js_stringify_head [of w "[]"] obtain c r where w: "js_stringify w = c # r"
        "\<not> is_json_space c" "c \<noteq> CHR '']''" by auto
    with js_join_head [of "map js_stringify vs" "CHR '',''" "CHR '']'' # rest"] Cons
    obtain r' where "?t = c # r'" by auto
    then have "skip_space ?t = c # r'" using w(2) by (simp add: skip_space_Cons_eq)
    moreover have "parse_elements m ?t = Some (vs, rest)"
      using n m Cons by (intro parse_elements_join assms) simp_all
    ultimately show ?thesis using w(3) by (simp add: m skip_space_Cons_eq char_code_def)
  qed
qed

lemma reads_object:
  assumes "\<forall>f \<in> set fs. reads_value (snd f)" and "distinct (map fst fs)"
  shows "reads_value (JObj fs)"
  unfolding reads_value_def
proof (intro allI impI)
  fix n rest
  assume n: "length (js_stringify (JObj fs) @ rest) < n"
  then obtain m where m: "n = Suc m" by (cases n) auto
  show "parse_value n (js_stringify (JObj fs) @ rest) = Some (JObj fs, rest)"
  proof (cases fs)
    case Nil
    then show ?thesis by (simp add: m skip_space_Cons_eq char_code_def)
  next
    case (Cons f gs)
    let ?t = "js_join CHR '','' (map show_member fs) @ CHR ''}'' # rest"
    have printed: "js_stringify (JObj fs) @ rest = CHR ''{'' # ?t" by (simp add: show_member_def)
    obtain r where "show_member f = char_of (34::nat) # r"
      by (cases f) (simp add: show_member_def json_quote_def)
    with js_join_head [of "map show_member fs" "CHR '',''" "CHR ''}'' # rest"] Cons
    obtain r' where "?t = char_of (34::nat) # r'" by auto
    then have "skip_space ?t = char_of (34::nat) # r'" by (simp add: skip_space_Cons_eq)
    moreover have "parse_members m ?t = Some (fs, rest)"
      using n m Cons unfolding printed by (intro parse_members_join assms(1)) simp_all
    moreover have "char_of (34::nat) \<noteq> CHR ''}''" by code_simp
    ultimately show ?thesis
      unfolding printed by (simp add: m skip_space_Cons_eq char_code_def js_object_distinct [OF assms(2)])
  qed
qed

lemma reads_exact: "json_exact v \<Longrightarrow> reads_value v"
proof (induction v)
  case (JNum i)
  show ?case
    unfolding reads_value_def
  proof (intro allI impI)
    fix n and rest :: string
    assume rest: "ends_value rest" and "length (js_stringify (JNum i) @ rest) < n"
    then obtain m where m: "n = Suc m" by (cases n) auto
    from show_int_head [of i rest] obtain c r where s: "show_int i @ rest = c # r"
        and c: "is_digit c \<or> c = CHR ''-''" by auto
    have "skip_space (c # r) = c # r"
      by (rule skip_space_Cons_eq) (use c in \<open>auto simp: is_digit_def is_json_space_def char_code_def\<close>)
    moreover have "c \<notin> set ''ntf[{''" "char_code c \<noteq> 34" using c by (auto simp: is_digit_def char_code_def)
    moreover have "parse_number (c # r) = Some (JNum i, rest)"
      using parse_number_show [OF _ rest, of i] JNum s by simp
    ultimately show "parse_value n (js_stringify (JNum i) @ rest) = Some (JNum i, rest)"
      by (simp add: m s)
  qed
next
  case (JStr x)
  show ?case
    unfolding reads_value_def
  proof (intro allI impI)
    fix n and rest :: string
    assume "length (js_stringify (JStr x) @ rest) < n"
    then obtain m where m: "n = Suc m" by (cases n) auto
    have "char_of (34::nat) \<notin> set ''ntf''" by code_simp
    then show "parse_value n (js_stringify (JStr x) @ rest) = Some (JStr x, rest)"
      by (simp add: m json_quote_def skip_space_Cons_eq parse_chars_quoted char_code_char_of)
  qed
next
  case (JArr vs)
  then show ?case by (intro reads_array) auto
next
  case (JObj fs)
  then show ?case by (intro reads_object) (auto simp: snds.simps)
qed (auto simp: reads_value_def parse_name_def is_json_space_def char_code_def skip_space_def gr0_conv_Suc
    less_iff_Suc_add)

text \<open>A value that JSON text can carry comes back.\<close>

lemma parse_stringify:
  assumes "json_exact v"
  shows "js_parse (js_stringify v) = Some v"
  using reads_valueD [OF reads_exact [OF assms] ends_value_simps(1), of "Suc (length (js_stringify v))"]
  by (simp add: js_parse_def skip_space_def)


section \<open>What a parsed value is\<close>

lemma bit_count_upper: "n < 2 ^ bit_count n"
proof (induction n rule: bit_count.induct)
  case (1 n)
  then show ?case by (cases "n = 0") (simp_all add: bit_count.simps [of n] less_mult_imp_div_less)
qed

lemma round_nat_aligned:
  assumes "2 ^ (bit_count n - 53) dvd n"
  shows "round_nat n = n"
  using assms by (auto simp: round_nat_def Let_def)

lemma round_nat_multiple:
  assumes "m \<le> 2 ^ 53"
  shows "round_nat (m * 2 ^ e) = m * 2 ^ e"
proof (rule round_nat_aligned)
  show "2 ^ (bit_count (m * 2 ^ e) - 53) dvd m * 2 ^ e"
  proof (cases "m = 2 ^ 53")
    case True
    have "m * 2 ^ e < 2 ^ (54 + e)" by (simp add: True power_add)
    then have "bit_count (m * 2 ^ e) - 53 \<le> e + 1" using bit_count_bound [of "m * 2 ^ e" "54 + e"] by simp
    then have "(2::nat) ^ (bit_count (m * 2 ^ e) - 53) dvd 2 ^ (53 + e)" by (intro le_imp_power_dvd) simp
    then show ?thesis by (simp add: True power_add)
  next
    case False
    with assms have "m * 2 ^ e < 2 ^ (53 + e)" by (simp add: power_add)
    then have "bit_count (m * 2 ^ e) - 53 \<le> e" using bit_count_bound [of "m * 2 ^ e" "53 + e"] by simp
    then show ?thesis by (intro dvd_mult le_imp_power_dvd)
  qed
qed

lemma round_nat_idem: "round_nat (round_nat n) = round_nat n"
proof (cases "bit_count n - 53 = 0")
  case True
  then show ?thesis by (simp add: round_nat_def)
next
  case False
  define e where "e = bit_count n - 53"
  have "bit_count n = 53 + e" using False by (simp add: e_def)
  then have "n < 2 ^ 53 * 2 ^ e" using bit_count_upper [of n] by (simp only: power_add)
  then have q: "n div 2 ^ e < 2 ^ 53" by (simp add: less_mult_imp_div_less)
  have "round_nat n = n div 2 ^ e * 2 ^ e \<or> round_nat n = (n div 2 ^ e + 1) * 2 ^ e"
    using False by (simp add: round_nat_def Let_def e_def)
  moreover have "round_nat (n div 2 ^ e * 2 ^ e) = n div 2 ^ e * 2 ^ e"
    by (rule round_nat_multiple) (use q in simp)
  moreover have "round_nat ((n div 2 ^ e + 1) * 2 ^ e) = (n div 2 ^ e + 1) * 2 ^ e"
    by (rule round_nat_multiple) (use q in simp)
  ultimately show ?thesis by metis
qed

lemma js_round_idem [simp]: "js_round (js_round i) = js_round i"
proof (cases "i < 0")
  case True
  then have "0 < round_nat (nat (- i))" by (simp add: round_nat_pos)
  with True show ?thesis by (simp add: js_round_def round_nat_idem)
qed (simp add: js_round_def round_nat_idem)

lemma js_object_names:
  "distinct (map fst o') \<Longrightarrow> distinct (map fst (foldl (\<lambda>o' (k, v). js_set k v o') o' ms))"
  by (induction ms arbitrary: o') (simp_all add: js_set_def distinct_update case_prod_beta)

lemma js_object_members:
  "(k, v) \<in> set (foldl (\<lambda>o' (k, v). js_set k v o') o' ms) \<Longrightarrow> (k, v) \<in> set o' \<or> (k, v) \<in> set ms"
proof (induction ms arbitrary: o')
  case (Cons m ms)
  obtain l w where m: "m = (l, w)" by (cases m)
  have "(k, v) \<in> set (js_set l w o') \<Longrightarrow> (k, v) = (l, w) \<or> (k, v) \<in> set o'"
    unfolding js_set_def by (induction o') (auto split: if_splits)
  with Cons m show ?case by auto
qed simp

lemma parse_name_exact: "parse_name name v s = Some (w, r) \<Longrightarrow> w = v"
  by (auto simp: parse_name_def split: if_splits)

lemma parse_number_exact: "parse_number s = Some (v, r) \<Longrightarrow> json_exact v"
  by (auto simp: parse_number_def Let_def split: if_splits)

lemma js_object_exact: "\<forall>(k, v) \<in> set ms. json_exact v \<Longrightarrow> json_exact (js_object ms)"
  using js_object_members [of _ _ "[]" ms] js_object_names [of "[]" ms]
  by (fastforce simp: js_object_def)

lemma parse_exact:
  "parse_value n s = Some (v, r) \<Longrightarrow> json_exact v"
  "parse_elements n s = Some (vs, r) \<Longrightarrow> \<forall>v \<in> set vs. json_exact v"
  "parse_members n s = Some (ms, r) \<Longrightarrow> \<forall>(k, v) \<in> set ms. json_exact v"
proof (induction n s and n s and n s arbitrary: v r and vs r and ms r
    rule: parse_value_parse_elements_parse_members.induct)
  case (2 fuel s)
  then show ?case
    by (auto split: list.splits if_splits dest!: parse_name_exact parse_number_exact intro!: js_object_exact)
      fastforce+
next
  case (4 fuel s)
  then show ?case by (auto split: option.splits list.splits if_splits)
next
  case (6 fuel s)
  then show ?case by (auto split: option.splits list.splits if_splits) fastforce
qed simp_all

lemma js_parse_exact: "js_parse s = Some v \<Longrightarrow> json_exact v"
proof -
  assume "js_parse s = Some v"
  then obtain r where "parse_value (Suc (length s)) s = Some (v, r)"
    by (auto simp: js_parse_def simp del: parse_value.simps split: option.splits if_splits)
  then show ?thesis by (rule parse_exact)
qed

end
