(* ===== verification/Base64_Url.thy ===== *)
theory Base64_Url
  imports Js_Values "HOL-Library.Word"
begin

text \<open>
  The URL-safe Base64 tokens of \<open>sdk/src/serialization.ts\<close>, over the Base64 of Node's \<open>Buffer\<close>.

  A \<open>Uint8Array\<close> is a list of 8-bit words.  A text is represented by its UTF-8 bytes, one
  character each, so \<open>TextEncoder\<close> and \<open>TextDecoder\<close> relabel characters as bytes; replacing
  malformed bytes on decoding is not modelled.
\<close>

type_synonym byte = "8 word"

definition text_bytes :: "string \<Rightarrow> byte list" where
  "text_bytes s = map (\<lambda>c. word_of_nat (char_code c)) s"

definition bytes_text :: "byte list \<Rightarrow> string" where
  "bytes_text bs = map (\<lambda>b. char_of (unat b)) bs"

lemma bytes_text_bytes [simp]: "bytes_text (text_bytes s) = s"
proof -
  have "char_of (unat (word_of_nat (char_code c) :: byte)) = c" for c
    by (simp add: char_code_def unat_of_nat)
  then show ?thesis by (simp add: bytes_text_def text_bytes_def map_idI)
qed

lemma length_text_bytes [simp]: "length (text_bytes s) = length s"
  by (simp add: text_bytes_def)


section \<open>Base64\<close>

definition b64_alphabet :: string where
  "b64_alphabet = ''ABCDEFGHIJKLMNOPQRSTUVWXYZabcdefghijklmnopqrstuvwxyz0123456789+/''"

definition b64_char :: "nat \<Rightarrow> char" where
  "b64_char n = b64_alphabet ! n"

definition b64_digit :: "char \<Rightarrow> nat option" where
  "b64_digit c = map_of (zip b64_alphabet [0..<64]) c"

text \<open>\<open>Buffer.from(bytes).toString('base64')\<close>\<close>

fun b64_groups :: "nat list \<Rightarrow> string" where
  "b64_groups (a # b # c # bs) =
     [b64_char (a div 4), b64_char (a mod 4 * 16 + b div 16),
      b64_char (b mod 16 * 4 + c div 64), b64_char (c mod 64)] @ b64_groups bs"
| "b64_groups [a, b] =
     [b64_char (a div 4), b64_char (a mod 4 * 16 + b div 16), b64_char (b mod 16 * 4), CHR ''='']"
| "b64_groups [a] = [b64_char (a div 4), b64_char (a mod 4 * 16), CHR ''='', CHR ''='']"
| "b64_groups [] = []"

definition encodeBase64Bytes :: "byte list \<Rightarrow> string" where
  "encodeBase64Bytes bytes = b64_groups (map unat bytes)"

text \<open>
  \<open>Buffer.from(data, 'base64')\<close>: characters outside the alphabet, the padding among them, are
  ignored, and so are bits that do not fill a byte.
\<close>

fun b64_ungroup :: "nat list \<Rightarrow> nat list" where
  "b64_ungroup (p # q # r # s # ds) =
     [p * 4 + q div 16, q mod 16 * 16 + r div 4, r mod 4 * 64 + s] @ b64_ungroup ds"
| "b64_ungroup [p, q, r] = [p * 4 + q div 16, q mod 16 * 16 + r div 4]"
| "b64_ungroup [p, q] = [p * 4 + q div 16]"
| "b64_ungroup [p] = []"
| "b64_ungroup [] = []"

definition decodeBase64Bytes :: "string \<Rightarrow> byte list" where
  "decodeBase64Bytes data = map word_of_nat (b64_ungroup (List.map_filter b64_digit data))"

text \<open>\<open>s.replace(/c/g, d)\<close> for single characters, and with the empty text.\<close>

definition replace_char :: "char \<Rightarrow> char \<Rightarrow> string \<Rightarrow> string" where
  "replace_char c d s = map (\<lambda>x. if x = c then d else x) s"

definition remove_char :: "char \<Rightarrow> string \<Rightarrow> string" where
  "remove_char c s = filter (\<lambda>x. x \<noteq> c) s"

definition base64UrlEncodeBytes :: "byte list \<Rightarrow> string" where
  "base64UrlEncodeBytes bytes =
     remove_char CHR ''='' (replace_char CHR ''/'' CHR ''_''
       (replace_char CHR ''+'' CHR ''-'' (encodeBase64Bytes bytes)))"

definition base64UrlDecodeBytes :: "string \<Rightarrow> byte list" where
  "base64UrlDecodeBytes token =
     (let base64 = replace_char CHR ''_'' CHR ''/'' (replace_char CHR ''-'' CHR ''+'' token);
          padLength = (4 - length base64 mod 4) mod 4
      in decodeBase64Bytes (base64 @ replicate padLength CHR ''=''))"

definition base64UrlEncode :: "string \<Rightarrow> string" where
  "base64UrlEncode data = base64UrlEncodeBytes (text_bytes data)"

definition base64UrlDecode :: "string \<Rightarrow> string" where
  "base64UrlDecode token = bytes_text (base64UrlDecodeBytes token)"

definition serializeEnvelope :: "json \<Rightarrow> string" where
  "serializeEnvelope payload = base64UrlEncode (js_stringify payload)"


section \<open>Round trip\<close>

lemma b64_digit_char: "n < 64 \<Longrightarrow> b64_digit (b64_char n) = Some n"
proof -
  have "list_all (\<lambda>n. b64_digit (b64_char n) = Some n) [0..<64]" by code_simp
  then show "n < 64 \<Longrightarrow> b64_digit (b64_char n) = Some n" by (simp add: list_all_iff)
qed

lemma b64_digit_pad: "b64_digit CHR ''='' = None"
  by code_simp

lemma map_filter_Cons:
  "List.map_filter f (x # xs) = (case f x of None \<Rightarrow> List.map_filter f xs | Some y \<Rightarrow> y # List.map_filter f xs)"
  by (simp add: List.map_filter_def split: option.split)

lemma map_filter_Nil: "List.map_filter f [] = []"
  by (simp add: List.map_filter_def)

lemma digit_pair:
  fixes x y k :: nat
  assumes "y < k"
  shows "(x * k + y) div k = x" "(x * k + y) mod k = y"
  using assms by simp_all

lemma split_bytes:
  fixes a b c :: nat
  assumes "a < 256" "b < 256" "c < 256"
  shows "a div 4 < 64" "a mod 4 * 16 + b div 16 < 64" "b mod 16 * 4 + c div 64 < 64"
    "a mod 4 * 16 < 64" "b mod 16 * 4 < 64" "c mod 64 < 64"
    "a div 4 * 4 + (a mod 4 * 16 + b div 16) div 16 = a"
    "(a mod 4 * 16 + b div 16) mod 16 * 16 + (b mod 16 * 4 + c div 64) div 4 = b"
    "(b mod 16 * 4 + c div 64) mod 4 * 64 + c mod 64 = c"
    "a div 4 * 4 + a mod 4 * 16 div 16 = a"
    "(a mod 4 * 16 + b div 16) mod 16 * 16 + b mod 16 * 4 div 4 = b"
proof -
  have parts: "a mod 4 \<le> 3" "b mod 16 \<le> 15" by simp_all
  have high: "a div 4 < 64" "b div 16 < 16" "c div 64 < 4"
    using assms by (simp_all add: less_mult_imp_div_less)
  with parts show "a div 4 < 64" "a mod 4 * 16 + b div 16 < 64" "b mod 16 * 4 + c div 64 < 64"
    "a mod 4 * 16 < 64" "b mod 16 * 4 < 64" "c mod 64 < 64"
    by linarith+
  note [simp] = digit_pair [OF high(2)] digit_pair [OF high(3)]
  show "a div 4 * 4 + (a mod 4 * 16 + b div 16) div 16 = a"
    "(a mod 4 * 16 + b div 16) mod 16 * 16 + (b mod 16 * 4 + c div 64) div 4 = b"
    "(b mod 16 * 4 + c div 64) mod 4 * 64 + c mod 64 = c"
    "a div 4 * 4 + a mod 4 * 16 div 16 = a"
    "(a mod 4 * 16 + b div 16) mod 16 * 16 + b mod 16 * 4 div 4 = b"
    using high by simp_all
qed

lemma ungroup_groups:
  assumes "\<forall>b \<in> set bs. b < 256"
  shows "b64_ungroup (List.map_filter b64_digit (b64_groups bs)) = bs"
  using assms
proof (induction bs rule: b64_groups.induct)
  case (1 a b c bs)
  with split_bytes [of a b c] show ?case by (simp add: map_filter_Cons b64_digit_char)
next
  case (2 a b)
  with split_bytes [of a b 0] show ?case
    by (simp add: map_filter_Cons map_filter_Nil b64_digit_char b64_digit_pad)
next
  case (3 a)
  with split_bytes [of a 0 0] show ?case
    by (simp add: map_filter_Cons map_filter_Nil b64_digit_char b64_digit_pad)
qed (simp add: map_filter_Nil)

text \<open>The URL-safe form drops the padding, which the decoder ignores, and swaps two characters.\<close>

definition b64_text :: "string \<Rightarrow> bool" where
  "b64_text s \<longleftrightarrow> (\<forall>c \<in> set s. c = CHR ''='' \<or> c \<in> set b64_alphabet)"

lemma b64_groups_text:
  assumes "\<forall>b \<in> set bs. b < 256"
  shows "b64_text (b64_groups bs)"
proof -
  have char: "b64_char n \<in> set b64_alphabet" if "n < 64" for n
    unfolding b64_char_def by (rule nth_mem) (use that in \<open>simp add: b64_alphabet_def\<close>)
  show ?thesis using assms
  proof (induction bs rule: b64_groups.induct)
    case (1 a b c bs)
    with split_bytes [of a b c] char show ?case by (simp add: b64_text_def)
  next
    case (2 a b)
    with split_bytes [of a b 0] char show ?case by (simp add: b64_text_def)
  next
    case (3 a)
    with split_bytes [of a 0 0] char show ?case by (simp add: b64_text_def)
  qed (simp add: b64_text_def)
qed

definition url_form :: "string \<Rightarrow> string" where
  "url_form s = remove_char CHR ''='' (replace_char CHR ''/'' CHR ''_'' (replace_char CHR ''+'' CHR ''-'' s))"

lemma url_form_back:
  assumes "b64_text s"
  shows "replace_char CHR ''_'' CHR ''/'' (replace_char CHR ''-'' CHR ''+'' (url_form s)) = remove_char CHR ''='' s"
  using assms
proof (induction s)
  case (Cons c s)
  have "c \<noteq> CHR ''-''" "c \<noteq> CHR ''_''"
    using Cons.prems by (auto simp: b64_text_def b64_alphabet_def)
  with Cons show ?case
    by (auto simp: url_form_def replace_char_def remove_char_def b64_text_def)
qed (simp add: url_form_def replace_char_def remove_char_def)

lemma decode_ignores_padding:
  "decodeBase64Bytes (remove_char CHR ''='' s @ replicate n CHR ''='') = decodeBase64Bytes s"
proof -
  have "List.map_filter b64_digit (xs @ replicate n CHR ''='') = List.map_filter b64_digit xs" for xs
    by (simp add: List.map_filter_def b64_digit_pad)
  moreover have "List.map_filter b64_digit (remove_char CHR ''='' s) = List.map_filter b64_digit s"
    by (induction s) (auto simp: remove_char_def map_filter_Cons b64_digit_pad split: option.split)
  ultimately show ?thesis by (simp add: decodeBase64Bytes_def)
qed

lemma base64Url_round_trip [simp]: "base64UrlDecodeBytes (base64UrlEncodeBytes bytes) = bytes"
proof -
  have small: "\<forall>b \<in> set (map unat bytes). b < 256"
    using unsigned_less [where 'b = 8 and 'a = nat] by auto
  have "base64UrlDecodeBytes (base64UrlEncodeBytes bytes) = decodeBase64Bytes (b64_groups (map unat bytes))"
    using url_form_back [OF b64_groups_text [OF small]]
    by (simp add: base64UrlDecodeBytes_def base64UrlEncodeBytes_def encodeBase64Bytes_def Let_def
        decode_ignores_padding flip: url_form_def)
  also have "\<dots> = bytes" by (simp add: decodeBase64Bytes_def ungroup_groups [OF small] map_idI)
  finally show ?thesis .
qed

lemma base64Url_text_round_trip: "base64UrlDecode (base64UrlEncode s) = s"
  by (simp add: base64UrlDecode_def base64UrlEncode_def)

text \<open>The characters of a token.\<close>

lemma base64Url_characters:
  "set (base64UrlEncodeBytes bytes) \<subseteq>
     set ''ABCDEFGHIJKLMNOPQRSTUVWXYZabcdefghijklmnopqrstuvwxyz0123456789-_''"
proof -
  have small: "\<forall>b \<in> set (map unat bytes). b < 256"
    using unsigned_less [where 'b = 8 and 'a = nat] by auto
  have "set (url_form s) \<subseteq> set ''ABCDEFGHIJKLMNOPQRSTUVWXYZabcdefghijklmnopqrstuvwxyz0123456789-_''"
    if "b64_text s" for s
    using that
    by (induction s) (auto simp: url_form_def replace_char_def remove_char_def b64_text_def b64_alphabet_def)
  from this [OF b64_groups_text [OF small]] show ?thesis
    by (simp add: base64UrlEncodeBytes_def encodeBase64Bytes_def flip: url_form_def)
qed

end
