(* ===== verification/Compact_Links.thy ===== *)
theory Compact_Links
  imports Base64_Url External Js_Collections
begin

text \<open>
  The link artifacts of \<open>sdk/src/links.ts\<close>: what a RailsFlow request or a RailsCard claim link
  carries, its validation, and the compact binary token it travels as.

  Ethers' \<open>getAddress\<close> is the parameter \<open>ext_getAddress\<close>, and \<open>isAddress\<close> says that it does not
  throw; \<open>isHexString\<close> is an argument of its own.  Errors are the texts of the thrown \<open>Error\<close>s.
  A \<open>CompactReader\<close> is the list of the bytes from its offset on.
\<close>


section \<open>Artifacts\<close>

definition ZeroAddress :: string where
  "ZeroAddress = ''0x'' @ replicate 40 CHR ''0''"

record flow_payload =
  fp_mode :: string
  fp_merchant :: string
  fp_recipient :: string
  fp_amount :: string
  fp_flowVelocityPerSecond :: string
  fp_lifespanSeconds :: int
  fp_workflowId :: "string option"
  fp_metadataRef :: "string option"
  fp_descriptionHash :: "string option"
  fp_expiresAt :: "int option"

record signed_payload =
  sp_mode :: string
  sp_envelopeToken :: string
  sp_claimHint :: "string option"

text \<open>\<open>'envelopeToken' in payload\<close> tells the two apart.\<close>

datatype link_payload = Flow_link flow_payload | Signed_link signed_payload

record link_artifact =
  la_version :: string
  la_kind :: string
  la_chainId :: int
  la_vault :: string
  la_token :: string
  la_metadataHash :: string
  la_payload :: link_payload

definition isAddress :: "deps \<Rightarrow> string \<Rightarrow> bool" where
  "isAddress E x \<longleftrightarrow> ext_getAddress E x \<noteq> None"

text \<open>\<open>!ethers.isAddress(x) || x === ethers.ZeroAddress\<close>\<close>

definition no_address :: "deps \<Rightarrow> string \<Rightarrow> bool" where
  "no_address E x \<longleftrightarrow> \<not> isAddress E x \<or> x = ZeroAddress"

definition link_version :: string where
  "link_version = ''openrails-link-v1''"

text \<open>\<open>Number.isInteger\<close> holds of the numbers of the model.\<close>

definition validateOpenRailsLinkArtifact ::
    "deps \<Rightarrow> (string \<Rightarrow> nat \<Rightarrow> bool) \<Rightarrow> link_artifact \<Rightarrow> string + unit" where
  "validateOpenRailsLinkArtifact E isHexString artifact =
     (if la_version artifact \<noteq> link_version then Inl ''Unsupported OpenRails link version''
      else if la_kind artifact \<noteq> ''railsflow'' \<and> la_kind artifact \<noteq> ''railscard''
      then Inl ''Unsupported OpenRails link kind''
      else if no_address E (la_vault artifact)
      then Inl ''OpenRails link vault must be a non-zero address''
      else if no_address E (la_token artifact)
      then Inl ''OpenRails link token must be a non-zero address''
      else if \<not> isHexString (la_metadataHash artifact) 32
      then Inl ''OpenRails link metadataHash must be bytes32''
      else if la_chainId artifact \<le> 0
      then Inl ''OpenRails link chainId must be a positive integer''
      else if la_kind artifact = ''railsflow''
      then (case la_payload artifact of
              Signed_link p \<Rightarrow>
                if sp_mode p \<noteq> ''railsflow'' then Inl ''RailsFlow link payload mode mismatch''
                else if sp_envelopeToken p = [] then Inl ''Signed RailsFlow link requires an envelopeToken''
                else Inr ()
            | Flow_link p \<Rightarrow>
                if fp_mode p \<noteq> ''railsflow'' then Inl ''RailsFlow link payload mode mismatch''
                else if no_address E (fp_merchant p) then Inl ''RailsFlow merchant must be a non-zero address''
                else if no_address E (fp_recipient p) then Inl ''RailsFlow recipient must be a non-zero address''
                else Inr ())
      else (case la_payload artifact of
              Signed_link p \<Rightarrow>
                if sp_mode p \<noteq> ''railscard_bearer'' \<and> sp_mode p \<noteq> ''railscard_recipient_bound''
                then Inl ''RailsCard link payload mode mismatch''
                else if sp_envelopeToken p = [] then Inl ''RailsCard link requires an envelopeToken''
                else Inr ()
            | Flow_link p \<Rightarrow>
                if fp_mode p \<noteq> ''railscard_bearer'' \<and> fp_mode p \<noteq> ''railscard_recipient_bound''
                then Inl ''RailsCard link payload mode mismatch''
                else Inl ''RailsCard link requires an envelopeToken''))"


section \<open>Hexadecimal texts\<close>

definition is_hex :: "char \<Rightarrow> bool" where
  "is_hex c \<longleftrightarrow> radix_digit 16 c \<noteq> None"

definition hex_nibble :: "char \<Rightarrow> nat" where
  "hex_nibble c = (case radix_digit 16 c of Some d \<Rightarrow> d | None \<Rightarrow> 0)"

fun hex_pairs :: "string \<Rightarrow> byte list" where
  "hex_pairs (a # b # cs) = word_of_nat (hex_nibble a * 16 + hex_nibble b) # hex_pairs cs"
| "hex_pairs cs = []"

definition hexToBytes :: "string \<Rightarrow> nat \<Rightarrow> string + byte list" where
  "hexToBytes hex expectedBytes =
     (let normalized = (if take 2 hex = ''0x'' then drop 2 hex else hex) in
      if length normalized \<noteq> expectedBytes * 2 \<or> normalized = [] \<or> \<not> list_all is_hex normalized
      then Inl (''Expected '' @ show_nat expectedBytes @ '' bytes hex value'')
      else Inr (hex_pairs normalized))"

definition bytesToHex :: "byte list \<Rightarrow> string" where
  "bytesToHex bytes =
     ''0x'' @ concat (map (\<lambda>b. [hex_char (unat b div 16), hex_char (unat b mod 16)]) bytes)"


section \<open>The writer\<close>

text \<open>The bytes \<open>(v >> 8 * (n - 1)) & 0xff, \<dots>, v & 0xff\<close>.\<close>

fun be_bytes :: "nat \<Rightarrow> int \<Rightarrow> byte list" where
  "be_bytes 0 v = []"
| "be_bytes (Suc n) v = word_of_int (drop_bit (8 * n) v mod 256) # be_bytes n v"

definition writeUint8 :: "int \<Rightarrow> byte list \<Rightarrow> string + byte list" where
  "writeUint8 v chunks =
     (if v < 0 \<or> 255 < v then Inl ''uint8 out of range'' else Inr (chunks @ [word_of_int v]))"

definition writeUint32 :: "int \<Rightarrow> byte list \<Rightarrow> string + byte list" where
  "writeUint32 v chunks =
     (if v < 0 \<or> 0xffffffff < v then Inl ''uint32 out of range'' else Inr (chunks @ be_bytes 4 v))"

definition writeUint64 :: "int \<Rightarrow> byte list \<Rightarrow> string + byte list" where
  "writeUint64 v chunks =
     (if v < 0 \<or> 0xffffffffffffffff < v then Inl ''uint64 out of range''
      else Inr (chunks @ be_bytes 8 v))"

definition writeAddress :: "deps \<Rightarrow> string \<Rightarrow> byte list \<Rightarrow> string + byte list" where
  "writeAddress E x chunks =
     (case ext_getAddress E x of
        None \<Rightarrow> Inl ''invalid address''
      | Some a \<Rightarrow> res_bind (hexToBytes a 20) (\<lambda>bytes. Inr (chunks @ bytes)))"

definition writeBytes32 :: "string \<Rightarrow> byte list \<Rightarrow> string + byte list" where
  "writeBytes32 x chunks = res_bind (hexToBytes x 32) (\<lambda>bytes. Inr (chunks @ bytes))"

definition writeString :: "string \<Rightarrow> byte list \<Rightarrow> string + byte list" where
  "writeString s chunks =
     (let bytes = text_bytes s in
      if 0xffff < length bytes then Inl ''Compact string too long''
      else Inr (chunks @ be_bytes 2 (int (length bytes)) @ bytes))"

text \<open>\<open>value ? 1 : 0\<close>: the empty text counts as missing.\<close>

definition writeOptionalString :: "string option \<Rightarrow> byte list \<Rightarrow> string + byte list" where
  "writeOptionalString v chunks =
     (case v of
        Some s \<Rightarrow> if s = [] then writeUint8 0 chunks else res_bind (writeUint8 1 chunks) (writeString s)
      | None \<Rightarrow> writeUint8 0 chunks)"

definition writeOptionalBytes32 :: "string option \<Rightarrow> byte list \<Rightarrow> string + byte list" where
  "writeOptionalBytes32 v chunks =
     (case v of
        Some s \<Rightarrow> if s = [] then writeUint8 0 chunks else res_bind (writeUint8 1 chunks) (writeBytes32 s)
      | None \<Rightarrow> writeUint8 0 chunks)"

definition writeOptionalUint64 :: "int option \<Rightarrow> byte list \<Rightarrow> string + byte list" where
  "writeOptionalUint64 v chunks =
     (case v of
        Some n \<Rightarrow> res_bind (writeUint8 1 chunks) (writeUint64 n)
      | None \<Rightarrow> writeUint8 0 chunks)"

definition writeCommonArtifact :: "deps \<Rightarrow> link_artifact \<Rightarrow> byte list \<Rightarrow> string + byte list" where
  "writeCommonArtifact E a chunks =
     res_bind (writeUint32 (la_chainId a) chunks) (\<lambda>w.
     res_bind (writeAddress E (la_vault a) w) (\<lambda>w.
     res_bind (writeAddress E (la_token a) w)
       (writeBytes32 (la_metadataHash a))))"


section \<open>The reader\<close>

type_synonym 'a reader = "byte list \<Rightarrow> string + ('a \<times> byte list)"

definition malformed :: string where
  "malformed = ''Malformed compact OpenRails link payload''"

definition readBytes :: "nat \<Rightarrow> byte list reader" where
  "readBytes n bytes =
     (if length bytes < n then Inl malformed else Inr (take n bytes, drop n bytes))"

definition reader_bind :: "'a reader \<Rightarrow> ('a \<Rightarrow> 'b reader) \<Rightarrow> 'b reader" where
  "reader_bind r f bytes = res_bind (r bytes) (\<lambda>(x, rest). f x rest)"

definition reader_return :: "'a \<Rightarrow> 'a reader" where
  "reader_return x bytes = Inr (x, bytes)"

definition reader_map :: "('a \<Rightarrow> 'b) \<Rightarrow> 'a reader \<Rightarrow> 'b reader" where
  "reader_map f r = reader_bind r (\<lambda>x. reader_return (f x))"

text \<open>\<open>value = (value << 8) + byte\<close> over the bytes.\<close>

definition be_value :: "byte list \<Rightarrow> int" where
  "be_value bytes = foldl (\<lambda>v b. push_bit 8 v + uint b) 0 bytes"

definition readUint8 :: "int reader" where
  "readUint8 = reader_map (\<lambda>bs. uint (bs ! 0)) (readBytes 1)"

definition readUint32 :: "int reader" where
  "readUint32 = reader_map (\<lambda>bs. uint (bs ! 0) * 0x1000000 + push_bit 16 (uint (bs ! 1))
     + push_bit 8 (uint (bs ! 2)) + uint (bs ! 3)) (readBytes 4)"

definition readUint64 :: "int reader" where
  "readUint64 = reader_map be_value (readBytes 8)"

definition readAddress :: "deps \<Rightarrow> string reader" where
  "readAddress E = reader_bind (readBytes 20) (\<lambda>bs.
     case ext_getAddress E (bytesToHex bs) of
       None \<Rightarrow> (\<lambda>rest. Inl ''invalid address'') | Some a \<Rightarrow> reader_return a)"

definition readBytes32 :: "string reader" where
  "readBytes32 = reader_map bytesToHex (readBytes 32)"

definition readString :: "string reader" where
  "readString = reader_bind (readBytes 2) (\<lambda>l.
     reader_map bytes_text (readBytes (nat (push_bit 8 (uint (l ! 0)) + uint (l ! 1)))))"

definition read_optional :: "'a reader \<Rightarrow> 'a option reader" where
  "read_optional r = reader_bind readUint8 (\<lambda>flag.
     if flag = 1 then reader_map Some r else reader_return None)"

definition readOptionalString :: "string option reader" where
  "readOptionalString = read_optional readString"

definition readOptionalBytes32 :: "string option reader" where
  "readOptionalBytes32 = read_optional readBytes32"

definition readOptionalNumber :: "int option reader" where
  "readOptionalNumber = read_optional (reader_map js_round readUint64)"

definition readCommonArtifact :: "deps \<Rightarrow> (int \<times> string \<times> string \<times> string) reader" where
  "readCommonArtifact E =
     reader_bind readUint32 (\<lambda>chainId. reader_bind (readAddress E) (\<lambda>vault.
     reader_bind (readAddress E) (\<lambda>token. reader_bind readBytes32 (\<lambda>metadataHash.
     reader_return (chainId, vault, token, metadataHash)))))"


section \<open>Tokens\<close>

definition COMPACT_LINK_PREFIX :: string where
  "COMPACT_LINK_PREFIX = ''orc1:''"

definition selectCompactProfile :: "link_artifact \<Rightarrow> char" where
  "selectCompactProfile a =
     (case la_payload a of
        Flow_link p \<Rightarrow> if la_kind a = ''railsflow'' then CHR ''f'' else CHR ''c''
      | Signed_link p \<Rightarrow> CHR ''c'')"

definition write_flow :: "deps \<Rightarrow> flow_payload \<Rightarrow> byte list \<Rightarrow> string + byte list" where
  "write_flow E p w =
     res_bind (writeAddress E (fp_merchant p) w) (\<lambda>w.
     res_bind (writeAddress E (fp_recipient p) w) (\<lambda>w.
     res_bind (writeString (fp_amount p) w) (\<lambda>w.
     res_bind (writeString (fp_flowVelocityPerSecond p) w) (\<lambda>w.
     res_bind (writeUint64 (fp_lifespanSeconds p) w) (\<lambda>w.
     res_bind (writeOptionalString (fp_metadataRef p) w) (\<lambda>w.
     res_bind (writeOptionalBytes32 (fp_descriptionHash p) w) (\<lambda>w.
     res_bind (writeOptionalUint64 (fp_expiresAt p) w)
       (writeOptionalString (fp_workflowId p)))))))))"

definition kind_mode :: "string \<Rightarrow> string \<Rightarrow> int" where
  "kind_mode kind mode =
     (if kind = ''railsflow'' then 0 else if mode = ''railscard_bearer'' then 1 else 2)"

definition write_signed :: "string \<Rightarrow> signed_payload \<Rightarrow> byte list \<Rightarrow> string + byte list" where
  "write_signed kind p w =
     res_bind (writeUint8 (kind_mode kind (sp_mode p)) w) (\<lambda>w.
     res_bind (writeString (sp_envelopeToken p) w)
       (writeOptionalString (sp_claimHint p)))"

text \<open>
  A flow payload under another kind never gets past the validation, so the branch for signed
  payloads only meets signed ones.
\<close>

definition serializeCompactOpenRailsLinkArtifact ::
    "deps \<Rightarrow> (string \<Rightarrow> nat \<Rightarrow> bool) \<Rightarrow> link_artifact \<Rightarrow> string + string" where
  "serializeCompactOpenRailsLinkArtifact E isHexString a =
     res_bind (validateOpenRailsLinkArtifact E isHexString a) (\<lambda>_.
     res_bind (writeCommonArtifact E a []) (\<lambda>w.
     res_bind (case la_payload a of
         Flow_link p \<Rightarrow> write_flow E p w | Signed_link p \<Rightarrow> write_signed (la_kind a) p w) (\<lambda>bytes.
     Inr (COMPACT_LINK_PREFIX @ [selectCompactProfile a] @ ''.'' @ base64UrlEncodeBytes bytes))))"

definition read_flow :: "deps \<Rightarrow> flow_payload reader" where
  "read_flow E =
     reader_bind (readAddress E) (\<lambda>merchant. reader_bind (readAddress E) (\<lambda>recipient.
     reader_bind readString (\<lambda>amount. reader_bind readString (\<lambda>velocity.
     reader_bind (reader_map js_round readUint64) (\<lambda>lifespan.
     reader_bind readOptionalString (\<lambda>metadataRef. reader_bind readOptionalBytes32 (\<lambda>descriptionHash.
     reader_bind readOptionalNumber (\<lambda>expiresAt. reader_bind readOptionalString (\<lambda>workflowId.
     reader_return
       \<lparr>fp_mode = ''railsflow'', fp_merchant = merchant, fp_recipient = recipient, fp_amount = amount,
        fp_flowVelocityPerSecond = velocity, fp_lifespanSeconds = lifespan, fp_workflowId = workflowId,
        fp_metadataRef = metadataRef, fp_descriptionHash = descriptionHash, fp_expiresAt = expiresAt\<rparr>)))))))))"

definition signed_parts :: "int \<Rightarrow> string \<Rightarrow> string option \<Rightarrow> (string \<times> signed_payload) option" where
  "signed_parts kindMode envelopeToken claimHint =
     (if kindMode = 0
      then Some (''railsflow'', \<lparr>sp_mode = ''railsflow'', sp_envelopeToken = envelopeToken, sp_claimHint = None\<rparr>)
      else if kindMode = 1 \<or> kindMode = 2
      then Some (''railscard'',
        \<lparr>sp_mode = (if kindMode = 1 then ''railscard_bearer'' else ''railscard_recipient_bound''),
         sp_envelopeToken = envelopeToken, sp_claimHint = claimHint\<rparr>)
      else None)"

definition read_signed :: "(string \<times> signed_payload) reader" where
  "read_signed =
     reader_bind readUint8 (\<lambda>kindMode. reader_bind readString (\<lambda>envelopeToken.
     reader_bind readOptionalString (\<lambda>claimHint.
       case signed_parts kindMode envelopeToken claimHint of
         None \<Rightarrow> (\<lambda>rest. Inl ''Unknown compact OpenRails claim mode'')
       | Some r \<Rightarrow> reader_return r)))"

definition link_of :: "int \<times> string \<times> string \<times> string \<Rightarrow> string \<Rightarrow> link_payload \<Rightarrow> link_artifact" where
  "link_of = (\<lambda>(chainId, vault, token, metadataHash) kind payload.
     \<lparr>la_version = link_version, la_kind = kind, la_chainId = chainId, la_vault = vault,
      la_token = token, la_metadataHash = metadataHash, la_payload = payload\<rparr>)"

definition read_artifact :: "deps \<Rightarrow> string \<Rightarrow> link_artifact reader" where
  "read_artifact E profile =
     reader_bind (readCommonArtifact E) (\<lambda>common.
     if profile = ''f''
     then reader_map (\<lambda>p. link_of common ''railsflow'' (Flow_link p)) (read_flow E)
     else reader_map (\<lambda>(kind, p). link_of common kind (Signed_link p)) read_signed)"

definition deserializeCompactOpenRailsLinkArtifact ::
    "deps \<Rightarrow> (string \<Rightarrow> nat \<Rightarrow> bool) \<Rightarrow> string \<Rightarrow> string + link_artifact" where
  "deserializeCompactOpenRailsLinkArtifact E isHexString token =
     (if take 5 token \<noteq> COMPACT_LINK_PREFIX then Inl ''Unsupported compact OpenRails link prefix''
      else (let body = drop 5 token;
                profile = takeWhile (\<lambda>c. c \<noteq> CHR ''.'') body
            in if CHR ''.'' \<notin> set body \<or> profile = []
               then Inl ''Malformed compact OpenRails link token''
               else if profile \<noteq> ''f'' \<and> profile \<noteq> ''c'' then Inl ''Unknown compact OpenRails link profile''
               else res_bind (read_artifact E profile (base64UrlDecodeBytes (drop (length profile + 1) body)))
                 (\<lambda>(artifact, rest).
                    if rest \<noteq> [] then Inl ''Compact OpenRails link has trailing bytes''
                    else res_bind (validateOpenRailsLinkArtifact E isHexString artifact) (\<lambda>_. Inr artifact))))"

definition serializeOpenRailsLinkArtifact ::
    "deps \<Rightarrow> (string \<Rightarrow> nat \<Rightarrow> bool) \<Rightarrow> link_artifact \<Rightarrow> string + string" where
  "serializeOpenRailsLinkArtifact E isHexString a =
     res_bind (validateOpenRailsLinkArtifact E isHexString a)
       (\<lambda>_. serializeCompactOpenRailsLinkArtifact E isHexString a)"

end
