(* ===== verification/Js_Dynamic.thy ===== *)
theory Js_Dynamic
  imports Js_Parse Compact_Links Metadata
begin

text \<open>
  Values of unknown type: what the program reads from parsed JSON text without checking it first.
  \<open>None\<close> is \<open>undefined\<close>.  The operations are those of the language on such values: property reads,
  truth, \<open>===\<close>, relational comparison, \<open>BigInt\<close> and \<open>toString\<close>.  A string with a fraction or an
  exponent converts to \<open>NaN\<close>, since numbers of the model are integers.

  Ethers' functions on such values are parameters, collected in the record \<open>ethers\<close>: they refuse
  values of a wrong type by throwing.  Errors are texts; those of the language itself are all
  \<open>TypeError\<close>.
\<close>

type_synonym js_value = "json option"

definition type_error :: string where
  "type_error = ''TypeError''"


section \<open>Properties, truth and equality\<close>

definition is_nullish :: "js_value \<Rightarrow> bool" where
  "is_nullish v \<longleftrightarrow> v = None \<or> v = Some JNull"

text \<open>\<open>v.name\<close>, for a \<open>v\<close> that is neither \<open>null\<close> nor \<open>undefined\<close>, and \<open>v?.name\<close>.\<close>

definition field :: "js_value \<Rightarrow> string \<Rightarrow> js_value" where
  "field v name = (case v of Some (JObj fs) \<Rightarrow> map_of fs name | _ \<Rightarrow> None)"

fun truthy :: "js_value \<Rightarrow> bool" where
  "truthy None = False"
| "truthy (Some JNull) = False"
| "truthy (Some (JBool b)) = b"
| "truthy (Some (JNum n)) = (n \<noteq> 0)"
| "truthy (Some (JStr s)) = (s \<noteq> [])"
| "truthy (Some v) = True"

text \<open>\<open>a === b\<close> for values of different sources: arrays and objects are never the same.\<close>

fun strictly_equal :: "js_value \<Rightarrow> js_value \<Rightarrow> bool" where
  "strictly_equal (Some (JArr vs)) b = False"
| "strictly_equal (Some (JObj fs)) b = False"
| "strictly_equal a b = (a = b)"

lemma strictly_equal_str [simp]: "strictly_equal a (Some (JStr s)) \<longleftrightarrow> a = Some (JStr s)"
  by (cases "(a, Some (JStr s))" rule: strictly_equal.cases) auto

lemma strict_eq_num [simp]: "strictly_equal a (Some (JNum n)) \<longleftrightarrow> a = Some (JNum n)"
  by (cases "(a, Some (JNum n))" rule: strictly_equal.cases) auto

lemma strict_eqD: "strictly_equal a b \<Longrightarrow> a = b"
  by (cases "(a, b)" rule: strictly_equal.cases) auto


section \<open>Conversions\<close>

fun to_text :: "json \<Rightarrow> string" where
  "to_text JNull = ''null''"
| "to_text (JBool b) = (if b then ''true'' else ''false'')"
| "to_text (JNum n) = show_int n"
| "to_text (JStr s) = s"
| "to_text (JArr vs) = js_join CHR '','' (map (\<lambda>v. if v = JNull then [] else to_text v) vs)"
| "to_text (JObj fs) = ''[object Object]''"

fun to_primitive :: "js_value \<Rightarrow> js_value" where
  "to_primitive (Some (JArr vs)) = Some (JStr (to_text (JArr vs)))"
| "to_primitive (Some (JObj fs)) = Some (JStr (to_text (JObj fs)))"
| "to_primitive v = v"

text \<open>\<open>Number(v)\<close>\<close>

definition to_number :: "js_value \<Rightarrow> js_number" where
  "to_number v =
     (case to_primitive v of
        Some JNull \<Rightarrow> Some 0
      | Some (JBool b) \<Rightarrow> Some (if b then 1 else 0)
      | Some (JNum n) \<Rightarrow> Some n
      | Some (JStr s) \<Rightarrow> map_option js_round (BigInt s)
      | _ \<Rightarrow> None)"

fun text_less :: "string \<Rightarrow> string \<Rightarrow> bool" where
  "text_less x [] = False"
| "text_less [] (d # y) = True"
| "text_less (c # x) (d # y) = (char_code c < char_code d \<or> char_code c = char_code d \<and> text_less x y)"

text \<open>\<open>a < b\<close> and \<open>a <= b\<close>: two texts are compared as texts, anything else as numbers.\<close>

definition js_lt :: "js_value \<Rightarrow> js_value \<Rightarrow> bool" where
  "js_lt a b =
     (case (to_primitive a, to_primitive b) of
        (Some (JStr x), Some (JStr y)) \<Rightarrow> text_less x y
      | _ \<Rightarrow> js_less (to_number a) (to_number b))"

definition js_lte :: "js_value \<Rightarrow> js_value \<Rightarrow> bool" where
  "js_lte a b =
     (case (to_primitive a, to_primitive b) of
        (Some (JStr x), Some (JStr y)) \<Rightarrow> \<not> text_less y x
      | _ \<Rightarrow> js_le (to_number a) (to_number b))"

lemma js_lt_num [simp]: "js_lt (Some (JNum a)) (Some (JNum b)) \<longleftrightarrow> a < b"
  by (simp add: js_lt_def to_number_def)

lemma js_lte_num [simp]: "js_lte (Some (JNum a)) (Some (JNum b)) \<longleftrightarrow> a \<le> b"
  by (simp add: js_lte_def to_number_def)

lemma js_lt_num_right: "js_lt v (Some (JNum b)) \<longleftrightarrow> js_less (to_number v) (Some b)"
  by (auto simp: js_lt_def to_number_def split: option.splits json.splits)

lemma js_lte_num_right: "js_lte v (Some (JNum b)) \<longleftrightarrow> js_le (to_number v) (Some b)"
  by (auto simp: js_lte_def to_number_def split: option.splits json.splits)

lemma js_lt_num_left: "js_lt (Some (JNum b)) v \<longleftrightarrow> js_less (Some b) (to_number v)"
  by (auto simp: js_lt_def to_number_def split: option.splits json.splits)

text \<open>\<open>BigInt(v)\<close>; \<open>None\<close> is the thrown error.\<close>

definition to_BigInt :: "js_value \<Rightarrow> int option" where
  "to_BigInt v =
     (case to_primitive v of
        Some (JBool b) \<Rightarrow> Some (if b then 1 else 0)
      | Some (JNum n) \<Rightarrow> Some n
      | Some (JStr s) \<Rightarrow> BigInt s
      | _ \<Rightarrow> None)"


section \<open>Ethers\<close>

definition starts_with :: "string \<Rightarrow> string \<Rightarrow> bool" where
  "starts_with prefix s \<longleftrightarrow> take (length prefix) s = prefix"

text \<open>
  \<^item> \<open>et_deps\<close>: the functions the Runtime uses too, of which \<open>getAddress\<close> and \<open>keccak256\<close> are used
    here.
  \<^item> \<open>et_isHexString\<close>: \<open>isHexString(s, n)\<close>.
  \<^item> \<open>et_verifyTypedData\<close>: \<open>verifyTypedData\<close> of a domain, a message and a signature, \<open>None\<close> when it
    throws.
  \<^item> \<open>et_hashTypedData\<close>: \<open>TypedDataEncoder.hash\<close> of a domain and a message, \<open>None\<close> when it throws.
\<close>

record ethers =
  et_deps :: deps
  et_isHexString :: "string \<Rightarrow> nat \<Rightarrow> bool"
  et_verifyTypedData :: "json \<Rightarrow> json \<Rightarrow> js_value \<Rightarrow> string option"
  et_hashTypedData :: "json \<Rightarrow> json \<Rightarrow> string option"

definition address_of :: "ethers \<Rightarrow> js_value \<Rightarrow> string option" where
  "address_of X v = (case v of Some (JStr s) \<Rightarrow> ext_getAddress (et_deps X) s | _ \<Rightarrow> None)"

text \<open>\<open>!ethers.isAddress(v) || v === ethers.ZeroAddress\<close>\<close>

definition not_address :: "ethers \<Rightarrow> js_value \<Rightarrow> bool" where
  "not_address X v \<longleftrightarrow> address_of X v = None \<or> v = Some (JStr ZeroAddress)"

definition is_hex_value :: "ethers \<Rightarrow> js_value \<Rightarrow> nat \<Rightarrow> bool" where
  "is_hex_value X v n = (case v of Some (JStr s) \<Rightarrow> et_isHexString X s n | _ \<Rightarrow> False)"

lemma not_address_str: "\<not> not_address X v \<Longrightarrow> \<exists>s. v = Some (JStr s) \<and> isAddress (et_deps X) s \<and> s \<noteq> ZeroAddress"
  by (auto simp: not_address_def address_of_def isAddress_def split: option.splits json.splits)

lemma is_hex_value_str: "is_hex_value X v n \<Longrightarrow> \<exists>s. v = Some (JStr s) \<and> et_isHexString X s n"
  by (auto simp: is_hex_value_def split: option.splits json.splits)

lemma not_address_simp [simp]: "not_address X (Some (JStr s)) \<longleftrightarrow> no_address (et_deps X) s"
  by (auto simp: not_address_def address_of_def no_address_def isAddress_def)

lemma is_hex_value_simp [simp]: "is_hex_value X (Some (JStr s)) n \<longleftrightarrow> et_isHexString X s n"
  by (simp add: is_hex_value_def)

text \<open>Two addresses as ethers spells them: a throw on either side is a throw.\<close>

definition same_address_js :: "ethers \<Rightarrow> js_value \<Rightarrow> string \<Rightarrow> string + bool" where
  "same_address_js X v s =
     (case (address_of X v, ext_getAddress (et_deps X) s) of
        (Some a, Some b) \<Rightarrow> Inr (a = b)
      | _ \<Rightarrow> Inl type_error)"


section \<open>Envelope tokens\<close>

text \<open>\<open>deserializeEnvelope\<close>; every failure is a \<open>PayloadSerializationError\<close>.\<close>

definition deserializeEnvelope :: "string \<Rightarrow> string + json" where
  "deserializeEnvelope token =
     (case js_parse (base64UrlDecode token) of
        None \<Rightarrow> Inl ''PayloadSerializationError''
      | Some v \<Rightarrow> Inr v)"

lemma deserialize_serialize: "json_exact v \<Longrightarrow> deserializeEnvelope (serializeEnvelope v) = Inr v"
  by (simp add: deserializeEnvelope_def serializeEnvelope_def base64Url_text_round_trip parse_stringify)

end
