(* ===== verification/Access_Credentials.thy ===== *)
theory Access_Credentials
  imports Js_Dynamic
begin

text \<open>
  Access credentials: \<open>sdk/src/access.ts\<close>, which issues, serializes and verifies them and builds the
  headers that carry them, and \<open>validateOpenRailsAccessRequest\<close> of \<open>server/validation.ts\<close>, which
  decides on a request that carries one.

  A credential that arrives is a JSON value of unknown shape.  A credential that is issued is built
  from typed parameters; the random bytes of its nonce, the clock (seconds) and the signer's answer
  are arguments.
\<close>

definition access_version :: string where
  "access_version = ''openrails-access-v1''"

definition hashOpenRailsAccessText :: "ethers \<Rightarrow> string \<Rightarrow> string" where
  "hashOpenRailsAccessText X t = ext_keccakUtf8 (et_deps X) t"

definition buildOpenRailsAccessDomain :: "js_value \<Rightarrow> js_value \<Rightarrow> json" where
  "buildOpenRailsAccessDomain chainId verifyingContract = jobj [
     (''name'', Some (JStr ''OpenRails Access'')),
     (''version'', Some (JStr ''1.0.0'')),
     (''chainId'', chainId),
     (''verifyingContract'', verifyingContract)]"


section \<open>Checks\<close>

text \<open>The parameters and a credential name these members alike.\<close>

definition validateAccessParams :: "ethers \<Rightarrow> json \<Rightarrow> string + unit" where
  "validateAccessParams X params =
     (let p = field (Some params) in
      if js_lte (p ''expiresAt'') (p ''issuedAt'')
      then Inl ''OpenRails access credential expiresAt must be after issuedAt''
      else if not_address X (p ''vault'')
      then Inl ''OpenRails access credential vault must be a non-zero address''
      else if not_address X (p ''service'')
      then Inl ''OpenRails access credential service must be a non-zero address''
      else if \<not> is_hex_value X (p ''paycardId'') 32
      then Inl ''OpenRails access credential paycardId must be bytes32''
      else if \<not> is_hex_value X (p ''metadataHash'') 32
      then Inl ''OpenRails access credential metadataHash must be bytes32''
      else Inr ())"

definition validateAccessCredentialShape :: "ethers \<Rightarrow> json \<Rightarrow> string + unit" where
  "validateAccessCredentialShape X credential =
     (if credential = JNull then Inl type_error
      else if field (Some credential) ''version'' \<noteq> Some (JStr access_version)
      then Inl ''Unsupported OpenRails access credential version''
      else res_bind (validateAccessParams X credential) (\<lambda>_.
        if not_address X (field (Some credential) ''signer'')
        then Inl ''OpenRails access credential signer must be a non-zero address''
        else if \<not> is_hex_value X (field (Some credential) ''nonce'') 32
        then Inl ''OpenRails access credential nonce must be bytes32''
        else if \<not> is_hex_value X (field (Some credential) ''serviceOriginHash'') 32
        then Inl ''OpenRails access credential serviceOriginHash must be bytes32''
        else if \<not> is_hex_value X (field (Some credential) ''scopeHash'') 32
        then Inl ''OpenRails access credential scopeHash must be bytes32''
        else Inr ()))"

definition serializeOpenRailsAccessCredential :: "ethers \<Rightarrow> json \<Rightarrow> string + string" where
  "serializeOpenRailsAccessCredential X credential =
     res_bind (validateAccessCredentialShape X credential) (\<lambda>_. Inr (serializeEnvelope credential))"

definition deserializeOpenRailsAccessCredential :: "ethers \<Rightarrow> string \<Rightarrow> string + json" where
  "deserializeOpenRailsAccessCredential X token =
     res_bind (deserializeEnvelope token) (\<lambda>credential.
     res_bind (validateAccessCredentialShape X credential) (\<lambda>_. Inr credential))"


section \<open>Issuing\<close>

record access_params =
  ap_chainId :: int
  ap_vault :: string
  ap_paycardId :: string
  ap_metadataHash :: string
  ap_mode :: string
  ap_service :: string
  ap_serviceOrigin :: string
  ap_scope :: string
  ap_issuedAt :: int
  ap_expiresAt :: int
  ap_nonce :: "string option"

definition json_of_access_params :: "access_params \<Rightarrow> json" where
  "json_of_access_params p = jobj [
     (''chainId'', Some (JNum (ap_chainId p))),
     (''vault'', Some (JStr (ap_vault p))),
     (''paycardId'', Some (JStr (ap_paycardId p))),
     (''metadataHash'', Some (JStr (ap_metadataHash p))),
     (''mode'', Some (JStr (ap_mode p))),
     (''service'', Some (JStr (ap_service p))),
     (''serviceOrigin'', Some (JStr (ap_serviceOrigin p))),
     (''scope'', Some (JStr (ap_scope p))),
     (''issuedAt'', Some (JNum (ap_issuedAt p))),
     (''expiresAt'', Some (JNum (ap_expiresAt p))),
     (''nonce'', map_option JStr (ap_nonce p))]"

text \<open>\<open>params.nonce ?? ethers.hexlify(ethers.randomBytes(32))\<close>\<close>

definition access_nonce :: "string \<Rightarrow> access_params \<Rightarrow> string" where
  "access_nonce random p = (case ap_nonce p of Some n \<Rightarrow> n | None \<Rightarrow> random)"

definition buildOpenRailsAccessValue :: "ethers \<Rightarrow> string \<Rightarrow> access_params \<Rightarrow> json" where
  "buildOpenRailsAccessValue X random p = jobj [
     (''paycardId'', Some (JStr (ap_paycardId p))),
     (''metadataHash'', Some (JStr (ap_metadataHash p))),
     (''mode'', Some (JStr (ap_mode p))),
     (''service'', Some (JStr (ap_service p))),
     (''serviceOriginHash'', Some (JStr (hashOpenRailsAccessText X (ap_serviceOrigin p)))),
     (''scopeHash'', Some (JStr (hashOpenRailsAccessText X (ap_scope p)))),
     (''issuedAt'', Some (JNum (ap_issuedAt p))),
     (''expiresAt'', Some (JNum (ap_expiresAt p))),
     (''nonce'', Some (JStr (access_nonce random p)))]"

text \<open>The signer: \<open>signTypedData\<close> of a domain and a message, and its address.\<close>

record typed_signer =
  sg_signTypedData :: "json \<Rightarrow> json \<Rightarrow> string + string"
  sg_address :: string

definition access_credential :: "ethers \<Rightarrow> string \<Rightarrow> access_params \<Rightarrow> string \<Rightarrow> string \<Rightarrow> json" where
  "access_credential X random p signer signature = JObj [
     (''version'', JStr access_version),
     (''chainId'', JNum (ap_chainId p)),
     (''vault'', JStr (ap_vault p)),
     (''paycardId'', JStr (ap_paycardId p)),
     (''metadataHash'', JStr (ap_metadataHash p)),
     (''mode'', JStr (ap_mode p)),
     (''service'', JStr (ap_service p)),
     (''serviceOriginHash'', JStr (hashOpenRailsAccessText X (ap_serviceOrigin p))),
     (''scopeHash'', JStr (hashOpenRailsAccessText X (ap_scope p))),
     (''issuedAt'', JNum (ap_issuedAt p)),
     (''expiresAt'', JNum (ap_expiresAt p)),
     (''nonce'', JStr (access_nonce random p)),
     (''signer'', JStr signer),
     (''signature'', JStr signature)]"

definition createOpenRailsAccessCredential ::
    "ethers \<Rightarrow> typed_signer \<Rightarrow> string \<Rightarrow> access_params \<Rightarrow> string + json" where
  "createOpenRailsAccessCredential X signer random p =
     res_bind (validateAccessParams X (json_of_access_params p)) (\<lambda>_.
     res_bind (sg_signTypedData signer
         (buildOpenRailsAccessDomain (Some (JNum (ap_chainId p))) (Some (JStr (ap_vault p))))
         (buildOpenRailsAccessValue X random p)) (\<lambda>signature.
     Inr (access_credential X random p (sg_address signer) signature)))"


section \<open>Verifying\<close>

text \<open>The message a credential claims to sign.\<close>

definition access_message :: "json \<Rightarrow> json" where
  "access_message c = jobj (map (\<lambda>k. (k, field (Some c) k))
     [''paycardId'', ''metadataHash'', ''mode'', ''service'', ''serviceOriginHash'', ''scopeHash'',
      ''issuedAt'', ''expiresAt'', ''nonce''])"

definition access_domain :: "json \<Rightarrow> json" where
  "access_domain c =
     buildOpenRailsAccessDomain (field (Some c) ''chainId'') (field (Some c) ''vault'')"

text \<open>\<open>expected && actual !== hashOpenRailsAccessText(expected)\<close>\<close>

definition hash_differs :: "ethers \<Rightarrow> string option \<Rightarrow> js_value \<Rightarrow> bool" where
  "hash_differs X expected actual =
     (case expected of
        None \<Rightarrow> False
      | Some t \<Rightarrow> t \<noteq> [] \<and> actual \<noteq> Some (JStr (hashOpenRailsAccessText X t)))"

definition text_of :: "js_value \<Rightarrow> string" where
  "text_of v = (case v of Some (JStr s) \<Rightarrow> s | _ \<Rightarrow> [])"

definition verifyOpenRailsAccessCredential ::
    "ethers \<Rightarrow> json \<Rightarrow> string option \<Rightarrow> string option \<Rightarrow> int \<Rightarrow> string + string" where
  "verifyOpenRailsAccessCredential X c expectedServiceOrigin expectedScope now =
     res_bind (validateAccessCredentialShape X c) (\<lambda>_.
     if js_lte (field (Some c) ''expiresAt'') (Some (JNum now))
     then Inl ''OpenRails access credential expired''
     else if js_lt (Some (JNum (now + 60))) (field (Some c) ''issuedAt'')
     then Inl ''OpenRails access credential issued in the future''
     else if hash_differs X expectedServiceOrigin (field (Some c) ''serviceOriginHash'')
     then Inl ''OpenRails access credential service origin mismatch''
     else if hash_differs X expectedScope (field (Some c) ''scopeHash'')
     then Inl ''OpenRails access credential scope mismatch''
     else (case et_verifyTypedData X (access_domain c) (access_message c) (field (Some c) ''signature'') of
             None \<Rightarrow> Inl type_error
           | Some recovered \<Rightarrow>
               if toLowerCase recovered \<noteq> toLowerCase (text_of (field (Some c) ''signer''))
               then Inl ''OpenRails access credential signer mismatch''
               else Inr recovered))"


section \<open>Headers\<close>

record access_headers =
  ah_authorization :: "string option"
  ah_openRailsCredentialType :: "string option"
  ah_openRailsPaycardId :: "string option"
  ah_openRailsMetadataHash :: "string option"
  ah_openRailsMode :: "string option"

definition auth_scheme :: string where
  "auth_scheme = ''OpenRails ''"

text \<open>The headers for a credential and for its token.\<close>

definition headers_of :: "string \<Rightarrow> json \<Rightarrow> access_headers" where
  "headers_of token parsed =
     \<lparr>ah_authorization = Some (auth_scheme @ token),
      ah_openRailsCredentialType = Some ''access-v1'',
      ah_openRailsPaycardId = Some (text_of (field (Some parsed) ''paycardId'')),
      ah_openRailsMetadataHash = Some (text_of (field (Some parsed) ''metadataHash'')),
      ah_openRailsMode = Some (text_of (field (Some parsed) ''mode''))\<rparr>"

definition buildOpenRailsAccessHeaders :: "ethers \<Rightarrow> json + string \<Rightarrow> string + access_headers" where
  "buildOpenRailsAccessHeaders X credential =
     (case credential of
        Inr token \<Rightarrow>
          res_bind (deserializeOpenRailsAccessCredential X token) (\<lambda>parsed. Inr (headers_of token parsed))
      | Inl c \<Rightarrow>
          res_bind (serializeOpenRailsAccessCredential X c) (\<lambda>token. Inr (headers_of token c)))"



text \<open>
  \<open>createOpenRailsFetch\<close>.  \<open>url\<close> stands for the platform's \<open>new URL(text)\<close>: the origin and the protocol
  of a text, \<open>None\<close> when it throws.  Header names are compared without case.  A request that is let
  through is its target, the redirect mode and the headers handed to \<open>fetch\<close>.
\<close>

type_synonym url_parser = "string \<Rightarrow> (string \<times> string) option"

definition normalizeOrigin :: "url_parser \<Rightarrow> string \<Rightarrow> string + string" where
  "normalizeOrigin url origin = (case url origin of None \<Rightarrow> Inl type_error | Some (o', _) \<Rightarrow> Inr o')"

definition header_list :: "access_headers \<Rightarrow> (string \<times> string option) list" where
  "header_list h = [
     (''authorization'', ah_authorization h),
     (''x-openrails-credential-type'', ah_openRailsCredentialType h),
     (''x-openrails-paycard-id'', ah_openRailsPaycardId h),
     (''x-openrails-metadata-hash'', ah_openRailsMetadataHash h),
     (''x-openrails-mode'', ah_openRailsMode h)]"

definition merge_headers :: "(string \<times> string) list \<Rightarrow> access_headers \<Rightarrow> (string \<times> string) list" where
  "merge_headers init h =
     foldl (\<lambda>m (k, v). AList.update k (case v of Some t \<Rightarrow> t | None \<Rightarrow> []) m)
       (map (\<lambda>(k, v). (toLowerCase k, v)) init) (header_list h)"

record fetch_request =
  fr_input :: string
  fr_redirect :: string
  fr_headers :: "(string \<times> string) list"

definition createOpenRailsFetch ::
    "ethers \<Rightarrow> url_parser \<Rightarrow> json + string \<Rightarrow> string list \<Rightarrow>
      string + (string \<Rightarrow> (string \<times> string) list \<Rightarrow> string option \<Rightarrow> string + fetch_request)" where
  "createOpenRailsFetch X url credential allowedOrigins =
     res_bind (res_mapM (normalizeOrigin url) allowedOrigins) (\<lambda>allowed.
     res_bind (buildOpenRailsAccessHeaders X credential) (\<lambda>headers.
     Inr (\<lambda>input init redirect.
       (case url input of
          None \<Rightarrow> Inl type_error
        | Some (url_origin, protocol) \<Rightarrow>
            res_bind (normalizeOrigin url url_origin) (\<lambda>origin.
            if origin \<notin> set allowed
            then Inl (''OpenRails interceptor blocked non-allowlisted origin: '' @ origin)
            else if protocol \<noteq> ''https:'' \<and> \<not> starts_with ''http://localhost'' origin \<and>
              \<not> starts_with ''http://127.0.0.1'' origin
            then Inl ''OpenRails interceptor requires HTTPS outside localhost''
            else Inr \<lparr>fr_input = input,
              fr_redirect = (case redirect of Some r \<Rightarrow> r | None \<Rightarrow> ''error''),
              fr_headers = merge_headers init headers\<rparr>)))))"


section \<open>The server's decision\<close>

record access_options =
  ao_expectedChainId :: int
  ao_expectedVault :: string
  ao_expectedService :: string
  ao_expectedServiceOrigin :: string
  ao_expectedScope :: string
  ao_now :: int

datatype 'a decision = Refused string | Granted 'a

text \<open>A header that is absent or empty.\<close>

definition blank :: "string option \<Rightarrow> bool" where
  "blank h \<longleftrightarrow> h = None \<or> h = Some []"

definition header_differs :: "string option \<Rightarrow> js_value \<Rightarrow> bool" where
  "header_differs h v \<longleftrightarrow> \<not> blank h \<and> map_option JStr h \<noteq> v"

text \<open>A throw of \<open>getAddress\<close> on an expected address leaves the function.\<close>

definition validateOpenRailsAccessRequest ::
    "ethers \<Rightarrow> access_headers \<Rightarrow> access_options \<Rightarrow> string + (json \<times> string) decision" where
  "validateOpenRailsAccessRequest X h ops =
     (let auth = (case ah_authorization h of Some a \<Rightarrow> a | None \<Rightarrow> []) in
      if \<not> starts_with auth_scheme auth then Inr (Refused ''Missing OpenRails access credential'')
      else if \<not> blank (ah_openRailsCredentialType h) \<and> ah_openRailsCredentialType h \<noteq> Some ''access-v1''
      then Inr (Refused ''Unsupported OpenRails credential type'')
      else (case deserializeOpenRailsAccessCredential X (trim (drop (length auth_scheme) auth)) of
        Inl _ \<Rightarrow> Inr (Refused ''Malformed OpenRails access credential'')
      | Inr c \<Rightarrow>
          let p = field (Some c) in
          if p ''chainId'' \<noteq> Some (JNum (ao_expectedChainId ops))
          then Inr (Refused ''OpenRails access credential chain mismatch'')
          else res_bind (same_address_js X (p ''vault'') (ao_expectedVault ops)) (\<lambda>vault_ok.
          if \<not> vault_ok then Inr (Refused ''OpenRails access credential vault mismatch'')
          else res_bind (same_address_js X (p ''service'') (ao_expectedService ops)) (\<lambda>service_ok.
          if \<not> service_ok then Inr (Refused ''OpenRails access credential service mismatch'')
          else if p ''serviceOriginHash'' \<noteq> Some (JStr (hashOpenRailsAccessText X (ao_expectedServiceOrigin ops)))
          then Inr (Refused ''OpenRails access credential service origin mismatch'')
          else if p ''scopeHash'' \<noteq> Some (JStr (hashOpenRailsAccessText X (ao_expectedScope ops)))
          then Inr (Refused ''OpenRails access credential scope mismatch'')
          else if blank (ah_openRailsPaycardId h) then Inr (Refused ''Missing OpenRails access paycard header'')
          else if blank (ah_openRailsMetadataHash h) then Inr (Refused ''Missing OpenRails access metadata header'')
          else if blank (ah_openRailsMode h) then Inr (Refused ''Missing OpenRails access mode header'')
          else if header_differs (ah_openRailsPaycardId h) (p ''paycardId'')
          then Inr (Refused ''OpenRails access paycard header mismatch'')
          else if header_differs (ah_openRailsMetadataHash h) (p ''metadataHash'')
          then Inr (Refused ''OpenRails access metadata header mismatch'')
          else if header_differs (ah_openRailsMode h) (p ''mode'')
          then Inr (Refused ''OpenRails access mode header mismatch'')
          else (case verifyOpenRailsAccessCredential X c (Some (ao_expectedServiceOrigin ops))
                  (Some (ao_expectedScope ops)) (ao_now ops) of
                  Inl _ \<Rightarrow> Inr (Refused ''Invalid OpenRails access credential signature or lifetime'')
                | Inr signer \<Rightarrow> Inr (Granted (c, signer)))))))"


section \<open>What a credential of the right shape is\<close>

definition access_shape :: "ethers \<Rightarrow> json \<Rightarrow> bool" where
  "access_shape X c \<longleftrightarrow>
     field (Some c) ''version'' = Some (JStr access_version) \<and>
     \<not> js_lte (field (Some c) ''expiresAt'') (field (Some c) ''issuedAt'') \<and>
     (\<forall>k \<in> {''vault'', ''service'', ''signer''}. \<not> not_address X (field (Some c) k)) \<and>
     (\<forall>k \<in> {''paycardId'', ''metadataHash'', ''nonce'', ''serviceOriginHash'', ''scopeHash''}.
       is_hex_value X (field (Some c) k) 32)"

lemma shape_Inr: "validateAccessCredentialShape X c = Inr u \<longleftrightarrow> access_shape X c"
proof -
  have "field (Some JNull) k = None" for k by (simp add: field_def)
  then show ?thesis
    by (auto simp: validateAccessCredentialShape_def validateAccessParams_def access_shape_def
        Let_def res_simps)
qed

lemma deserialize_Inr:
  "deserializeOpenRailsAccessCredential X token = Inr c \<longleftrightarrow>
    deserializeEnvelope token = Inr c \<and> access_shape X c"
  by (auto simp: deserializeOpenRailsAccessCredential_def res_simps shape_Inr)

text \<open>Within its lifetime, and signed by its signer.\<close>

definition access_current :: "json \<Rightarrow> int \<Rightarrow> bool" where
  "access_current c now \<longleftrightarrow>
     \<not> js_lte (field (Some c) ''expiresAt'') (Some (JNum now)) \<and>
     \<not> js_lt (Some (JNum (now + 60))) (field (Some c) ''issuedAt'')"

definition access_signed :: "ethers \<Rightarrow> json \<Rightarrow> string \<Rightarrow> bool" where
  "access_signed X c signer \<longleftrightarrow>
     et_verifyTypedData X (access_domain c) (access_message c) (field (Some c) ''signature'') = Some signer \<and>
     toLowerCase signer = toLowerCase (text_of (field (Some c) ''signer''))"

lemma verify_Inr:
  "verifyOpenRailsAccessCredential X c origin scope now = Inr signer \<longleftrightarrow>
    access_shape X c \<and> access_current c now \<and>
    \<not> hash_differs X origin (field (Some c) ''serviceOriginHash'') \<and>
    \<not> hash_differs X scope (field (Some c) ''scopeHash'') \<and> access_signed X c signer"
  by (auto simp: verifyOpenRailsAccessCredential_def res_simps shape_Inr access_current_def access_signed_def)

text \<open>For this service and this request.\<close>

definition same_address :: "ethers \<Rightarrow> js_value \<Rightarrow> string \<Rightarrow> bool" where
  "same_address X v s \<longleftrightarrow> (\<exists>a. address_of X v = Some a \<and> ext_getAddress (et_deps X) s = Some a)"

definition access_addressed :: "ethers \<Rightarrow> json \<Rightarrow> access_options \<Rightarrow> bool" where
  "access_addressed X c ops \<longleftrightarrow>
     field (Some c) ''chainId'' = Some (JNum (ao_expectedChainId ops)) \<and>
     same_address X (field (Some c) ''vault'') (ao_expectedVault ops) \<and>
     same_address X (field (Some c) ''service'') (ao_expectedService ops) \<and>
     field (Some c) ''serviceOriginHash'' = Some (JStr (hashOpenRailsAccessText X (ao_expectedServiceOrigin ops))) \<and>
     field (Some c) ''scopeHash'' = Some (JStr (hashOpenRailsAccessText X (ao_expectedScope ops)))"

definition headers_repeat :: "access_headers \<Rightarrow> json \<Rightarrow> bool" where
  "headers_repeat h c \<longleftrightarrow>
     (blank (ah_openRailsCredentialType h) \<or> ah_openRailsCredentialType h = Some ''access-v1'') \<and>
     (\<forall>(header, k) \<in> {(ah_openRailsPaycardId h, ''paycardId''), (ah_openRailsMetadataHash h, ''metadataHash''),
        (ah_openRailsMode h, ''mode'')}. \<not> blank header \<and> field (Some c) k = map_option JStr header)"

lemma starts_with_iff: "starts_with p s \<longleftrightarrow> (\<exists>t. s = p @ t)"
  unfolding starts_with_def by (metis append_eq_conv_conj append_take_drop_id)

lemma same_address_Inr: "same_address_js X v s = Inr True \<longleftrightarrow> same_address X v s"
  by (auto simp: same_address_js_def same_address_def split: option.splits)

lemma res_bind_bool:
  "res_bind m (\<lambda>b. if \<not> b then Inr (Refused e) else f) = Inr (Granted y) \<longleftrightarrow> m = Inr True \<and> f = Inr (Granted y)"
  by (cases m) auto

lemma refuse_guard: "(if c then Inr (Refused e) else f) = Inr (Granted y) \<longleftrightarrow> \<not> c \<and> f = Inr (Granted y)"
  by simp

lemma refuse_catch:
  "(case m of Inl x \<Rightarrow> Inr (Refused e) | Inr v \<Rightarrow> f v) = Inr (Granted y) \<longleftrightarrow>
    (\<exists>v. m = Inr v \<and> f v = Inr (Granted y))"
  by (cases m) auto

lemma access_granted_iff:
  "validateOpenRailsAccessRequest X h ops = Inr (Granted (c, signer)) \<longleftrightarrow>
    (\<exists>token. ah_authorization h = Some (auth_scheme @ token) \<and> deserializeEnvelope (trim token) = Inr c) \<and>
    access_shape X c \<and> access_addressed X c ops \<and> headers_repeat h c \<and>
    access_current c (ao_now ops) \<and> access_signed X c signer"
proof -
  have auth: "starts_with auth_scheme (case ah_authorization h of Some a \<Rightarrow> a | None \<Rightarrow> []) \<longleftrightarrow>
      (\<exists>t. ah_authorization h = Some (auth_scheme @ t))"
    by (auto simp: starts_with_iff auth_scheme_def split: option.splits)
  show ?thesis
    unfolding validateOpenRailsAccessRequest_def Let_def refuse_guard refuse_catch res_bind_bool
      same_address_Inr not_not deserialize_Inr verify_Inr auth
    by (auto simp: access_addressed_def headers_repeat_def header_differs_def hash_differs_def)
qed


text \<open>The interceptor hands a credential only to an origin on its list.\<close>

lemma fetch_stays_on_list:
  assumes "createOpenRailsFetch X url credential allowedOrigins = Inr call"
    and "call input init redirect = Inr request"
  shows "fr_input request = input \<and> (\<exists>source \<in> set allowedOrigins. \<exists>origin p url_origin q protocol.
    url source = Some (origin, p) \<and> url input = Some (url_origin, protocol) \<and> url url_origin = Some (origin, q) \<and>
    (protocol = ''https:'' \<or> starts_with ''http://localhost'' origin \<or> starts_with ''http://127.0.0.1'' origin))"
proof -
  from assms obtain allowed origin where a: "res_mapM (normalizeOrigin url) allowedOrigins = Inr allowed"
      "origin \<in> set allowed" "fr_input request = input"
      "\<exists>url_origin protocol q. url input = Some (url_origin, protocol) \<and> url url_origin = Some (origin, q) \<and>
        (protocol = ''https:'' \<or> starts_with ''http://localhost'' origin \<or> starts_with ''http://127.0.0.1'' origin)"
    by (fastforce simp: createOpenRailsFetch_def res_simps normalizeOrigin_def split: option.splits if_splits)
  from res_mapM_member [OF a(1,2)] obtain source p where "source \<in> set allowedOrigins" "url source = Some (origin, p)"
    by (auto simp: normalizeOrigin_def split: option.splits)
  with a(3,4) show ?thesis by blast
qed


section \<open>A credential that was issued is accepted\<close>

lemma text_has_no_space: "trim (base64UrlEncode t) = base64UrlEncode t"
proof (rule trim_no_space)
  have "\<forall>c \<in> set ''ABCDEFGHIJKLMNOPQRSTUVWXYZabcdefghijklmnopqrstuvwxyz0123456789-_''. \<not> is_space c"
    by (simp add: is_space_def char_code_def)
  then show "\<forall>c \<in> set (base64UrlEncode t). \<not> is_space c"
    using base64Url_characters [of "text_bytes t"] by (auto simp: base64UrlEncode_def)
qed

lemma field_access_credential [simp]:
  "field (Some (access_credential X random p signer signature)) k =
    map_of [
     (''version'', JStr access_version),
     (''chainId'', JNum (ap_chainId p)),
     (''vault'', JStr (ap_vault p)),
     (''paycardId'', JStr (ap_paycardId p)),
     (''metadataHash'', JStr (ap_metadataHash p)),
     (''mode'', JStr (ap_mode p)),
     (''service'', JStr (ap_service p)),
     (''serviceOriginHash'', JStr (hashOpenRailsAccessText X (ap_serviceOrigin p))),
     (''scopeHash'', JStr (hashOpenRailsAccessText X (ap_scope p))),
     (''issuedAt'', JNum (ap_issuedAt p)),
     (''expiresAt'', JNum (ap_expiresAt p)),
     (''nonce'', JStr (access_nonce random p)),
     (''signer'', JStr signer),
     (''signature'', JStr signature)] k"
  by (simp add: field_def access_credential_def)

lemma issued_message:
  "access_message (access_credential X random p signer signature) = buildOpenRailsAccessValue X random p"
  "access_domain (access_credential X random p signer signature) =
    buildOpenRailsAccessDomain (Some (JNum (ap_chainId p))) (Some (JStr (ap_vault p)))"
  by (simp_all add: access_message_def access_domain_def buildOpenRailsAccessValue_def)

definition access_numbers :: "access_params \<Rightarrow> bool" where
  "access_numbers p \<longleftrightarrow> (\<forall>n \<in> {ap_chainId p, ap_issuedAt p, ap_expiresAt p}. js_round n = n)"

lemma issued_exact: "access_numbers p \<Longrightarrow> json_exact (access_credential X random p signer signature)"
  by (simp add: access_numbers_def access_credential_def)

text \<open>Ethers recovers the signer of what the signer signed.\<close>

definition recovers :: "ethers \<Rightarrow> typed_signer \<Rightarrow> bool" where
  "recovers X signer \<longleftrightarrow> (\<forall>d m s. sg_signTypedData signer d m = Inr s \<longrightarrow>
     et_verifyTypedData X d m (Some (JStr s)) = Some (sg_address signer))"

lemma issued_granted:
  assumes "createOpenRailsAccessCredential X signer random p = Inr c"
    and "buildOpenRailsAccessHeaders X (Inl c) = Inr h"
    and "recovers X signer" and "access_numbers p" and "\<not> et_isHexString X [] 32" and "ap_mode p \<noteq> []"
    and "ao_expectedChainId ops = ap_chainId p"
    and "sameAddress (et_deps X) (ap_vault p) (ao_expectedVault ops)"
    and "sameAddress (et_deps X) (ap_service p) (ao_expectedService ops)"
    and "ao_expectedServiceOrigin ops = ap_serviceOrigin p" and "ao_expectedScope ops = ap_scope p"
    and "ap_issuedAt p \<le> ao_now ops + 60" and "ao_now ops < ap_expiresAt p"
  shows "validateOpenRailsAccessRequest X h ops = Inr (Granted (c, sg_address signer))"
proof -
  obtain signature where c: "c = access_credential X random p (sg_address signer) signature"
      and s: "sg_signTypedData signer (buildOpenRailsAccessDomain (Some (JNum (ap_chainId p))) (Some (JStr (ap_vault p))))
        (buildOpenRailsAccessValue X random p) = Inr signature"
    using assms(1) by (auto simp: createOpenRailsAccessCredential_def res_simps)
  have shape: "access_shape X c" and h: "h = headers_of (serializeEnvelope c) c"
    using assms(2) by (auto simp: buildOpenRailsAccessHeaders_def serializeOpenRailsAccessCredential_def
        res_simps shape_Inr)
  have "deserializeEnvelope (trim (serializeEnvelope c)) = Inr c"
    using deserialize_serialize [OF issued_exact [OF assms(4)]]
    by (simp add: serializeEnvelope_def text_has_no_space c)
  moreover have "ap_paycardId p \<noteq> []" "ap_metadataHash p \<noteq> []"
    using shape assms(5) by (auto simp: access_shape_def c)
  moreover have "access_signed X c (sg_address signer)"
    using assms(3) s by (simp add: access_signed_def c issued_message recovers_def text_of_def)
  moreover have "access_addressed X c ops"
    using assms(7-11) by (auto simp: access_addressed_def c same_address_def address_of_def sameAddress_iff)
  moreover have "access_current c (ao_now ops)"
    using assms(12,13) by (simp add: access_current_def c)
  ultimately show ?thesis
    using shape assms(6) by (simp add: access_granted_iff h headers_of_def headers_repeat_def blank_def c text_of_def)
qed

end
