(* ===== verification/Paycard_Requests.thy ===== *)
theory Paycard_Requests
  imports Access_Credentials
begin

text \<open>
  Permission envelopes: their signing (\<open>sdk/src/client.ts\<close>), the policy evaluation
  (\<open>sdk/src/policy.ts\<close>), the proofs built from them (\<open>sdk/src/proof.ts\<close>) and
  \<open>validateOpenPaycardRequest\<close> of \<open>server/validation.ts\<close>, which decides whether the relayer opens
  a paycard.

  A signing client works on typed intents; the envelope a request carries is a JSON value of unknown
  shape.  The clock (seconds) is an argument.
\<close>


section \<open>Intents and their typed data\<close>

record open_intent =
  oi_paycardId :: string
  oi_metadataHash :: string
  oi_recipient :: string
  oi_totalAllocationPool :: string
  oi_flowVelocityPerSecond :: string
  oi_genesisTimestamp :: int
  oi_lifespanSeconds :: int
  oi_residualDeltaRecipient :: string
  oi_nonceChannel :: "int option"
  oi_nonceValue :: "int option"

definition json_of_intent :: "open_intent \<Rightarrow> json" where
  "json_of_intent i = jobj [
     (''paycardId'', Some (JStr (oi_paycardId i))),
     (''metadataHash'', Some (JStr (oi_metadataHash i))),
     (''recipient'', Some (JStr (oi_recipient i))),
     (''totalAllocationPool'', Some (JStr (oi_totalAllocationPool i))),
     (''flowVelocityPerSecond'', Some (JStr (oi_flowVelocityPerSecond i))),
     (''genesisTimestamp'', Some (JNum (oi_genesisTimestamp i))),
     (''lifespanSeconds'', Some (JNum (oi_lifespanSeconds i))),
     (''residualDeltaRecipient'', Some (JStr (oi_residualDeltaRecipient i))),
     (''nonceChannel'', map_option JNum (oi_nonceChannel i)),
     (''nonceValue'', map_option JNum (oi_nonceValue i))]"

definition buildOpenRailsDomain :: "int \<Rightarrow> string \<Rightarrow> string \<Rightarrow> json" where
  "buildOpenRailsDomain chainId verifyingContract version = JObj [
     (''name'', JStr ''OpenRails Network''),
     (''version'', JStr version),
     (''chainId'', JNum chainId),
     (''verifyingContract'', JStr verifyingContract)]"

definition intent_fields :: "string list" where
  "intent_fields = [''paycardId'', ''metadataHash'', ''recipient'', ''totalAllocationPool'',
     ''flowVelocityPerSecond'', ''genesisTimestamp'', ''lifespanSeconds'', ''residualDeltaRecipient'',
     ''nonceChannel'', ''nonceValue'']"

definition buildSettlementIntentValue :: "json \<Rightarrow> json" where
  "buildSettlementIntentValue intent = jobj (map (\<lambda>k. (k, field (Some intent) k)) intent_fields)"

definition hashSettlementIntent :: "ethers \<Rightarrow> json \<Rightarrow> int \<Rightarrow> string \<Rightarrow> string \<Rightarrow> string option" where
  "hashSettlementIntent X intent chainId verifyingContract version =
     et_hashTypedData X (buildOpenRailsDomain chainId verifyingContract version)
       (buildSettlementIntentValue intent)"

text \<open>The version \<open>hashSettlementIntent\<close> and \<open>buildOpenRailsDomain\<close> take when none is given.\<close>

definition default_domain_version :: string where
  "default_domain_version = ''2.0.0''"

definition createRailsFlowIntent :: "open_intent \<Rightarrow> string + open_intent" where
  "createRailsFlowIntent params =
     (if oi_recipient params = ZeroAddress then Inl ''RailsFlow requires a fixed recipient'' else Inr params)"

definition createRailsCardIntent :: "open_intent \<Rightarrow> open_intent" where
  "createRailsCardIntent params = params\<lparr>oi_recipient := ZeroAddress\<rparr>"

definition createInstantSettlementIntent :: "open_intent \<Rightarrow> open_intent" where
  "createInstantSettlementIntent params = params\<lparr>oi_lifespanSeconds := 0\<rparr>"

definition inferEnvelopeModeFromIntent :: "js_value \<Rightarrow> string" where
  "inferEnvelopeModeFromIntent intent =
     (if field intent ''recipient'' = Some (JStr ZeroAddress) then ''railscard_bearer'' else ''railsflow'')"

definition hashMetadataValue :: "ethers \<Rightarrow> json \<Rightarrow> string" where
  "hashMetadataValue X v = ext_keccakUtf8 (et_deps X) (js_stringify (normalizeValue v))"

lemma hashMetadataValue_typed:
  "hashMetadataValue X (json_of_metadata m) = hashOpenRailsMetadata (et_deps X) m"
  by (simp add: hashMetadataValue_def hashOpenRailsMetadata_def canonicalizeMetadata_def)


section \<open>Signing\<close>

datatype sign_error =
    ClockSkewError int int int
  | PayloadSerializationError string
  | SignatureVerificationError string string
  | SignerError string

record signing_client =
  sc_signTypedData :: "json \<Rightarrow> json \<Rightarrow> string + string"
  sc_isSmartAccount :: bool
  sc_address :: string
  sc_contractAddress :: string
  sc_chainId :: int
  sc_clockSkewBufferSeconds :: int
  sc_domainVersion :: string

definition envelope_json :: "signing_client \<Rightarrow> string \<Rightarrow> open_intent \<Rightarrow> string \<Rightarrow> canonical_metadata option \<Rightarrow> json" where
  "envelope_json C signature intent mode metadata = jobj [
     (''payerAddress'', Some (JStr (sc_address C))),
     (''envelopeSignature'', Some (JStr signature)),
     (''intent'', Some (json_of_intent intent)),
     (''mode'', Some (JStr mode)),
     (''metadata'', map_option json_of_metadata metadata)]"

text \<open>\<open>options.mode ?? options.metadata?.mode ?? inferEnvelopeModeFromIntent(intent)\<close>\<close>

definition signed_mode :: "string option \<Rightarrow> canonical_metadata option \<Rightarrow> open_intent \<Rightarrow> string" where
  "signed_mode mode metadata intent =
     (case mode of
        Some m \<Rightarrow> m
      | None \<Rightarrow> (case metadata of
            Some m \<Rightarrow> cm_mode m
          | None \<Rightarrow> inferEnvelopeModeFromIntent (Some (json_of_intent intent))))"

definition recovered_elsewhere :: "ethers \<Rightarrow> signing_client \<Rightarrow> json \<Rightarrow> json \<Rightarrow> string \<Rightarrow> sign_error option" where
  "recovered_elsewhere X C domain v signature =
     (if sc_isSmartAccount C then None
      else (case et_verifyTypedData X domain v (Some (JStr signature)) of
              None \<Rightarrow> Some (SignerError type_error)
            | Some recovered \<Rightarrow>
                if toLowerCase recovered \<noteq> toLowerCase (sc_address C)
                then Some (SignatureVerificationError (sc_address C) recovered) else None))"

definition signPermissionEnvelope ::
    "ethers \<Rightarrow> signing_client \<Rightarrow> int \<Rightarrow> open_intent \<Rightarrow> string option \<Rightarrow> canonical_metadata option \<Rightarrow>
      sign_error + string" where
  "signPermissionEnvelope X C nowSeconds intent mode metadata =
     (if nowSeconds + sc_clockSkewBufferSeconds C < oi_genesisTimestamp intent
      then Inl (ClockSkewError nowSeconds (oi_genesisTimestamp intent) (sc_clockSkewBufferSeconds C))
      else if oi_nonceChannel intent = None \<or> oi_nonceValue intent = None
      then Inl (PayloadSerializationError ''nonceChannel and nonceValue are required'')
      else if (case metadata of None \<Rightarrow> False
          | Some m \<Rightarrow> hashOpenRailsMetadata (et_deps X) m \<noteq> oi_metadataHash intent)
      then Inl (PayloadSerializationError ''metadata does not match intent.metadataHash'')
      else
        let domain = buildOpenRailsDomain (sc_chainId C) (sc_contractAddress C) (sc_domainVersion C);
            v = buildSettlementIntentValue (json_of_intent intent)
        in (case sc_signTypedData C domain v of
              Inl e \<Rightarrow> Inl (SignerError e)
            | Inr signature \<Rightarrow>
                (case recovered_elsewhere X C domain v signature of
                   Some e \<Rightarrow> Inl e
                 | None \<Rightarrow> Inr (serializeEnvelope
                     (envelope_json C signature intent (signed_mode mode metadata intent) metadata)))))"


section \<open>Policies\<close>

text \<open>The reasons against an intent; a \<open>BigInt\<close> of something else throws.\<close>

definition exceeds :: "js_value \<Rightarrow> js_value \<Rightarrow> string \<Rightarrow> string + string list" where
  "exceeds limit actual reason =
     (if limit = None then Inr []
      else (case (to_BigInt limit, to_BigInt actual) of
              (Some m, Some a) \<Rightarrow> Inr (if m < a then [reason] else [])
            | _ \<Rightarrow> Inl ''SyntaxError''))"

definition evaluatePolicyEnvelope :: "js_value \<Rightarrow> js_value \<Rightarrow> int \<Rightarrow> string + string list" where
  "evaluatePolicyEnvelope intent policy nowSeconds =
     (if \<not> truthy policy then Inr []
      else
        let expiresAt = field policy ''expiresAt'';
            maxLifespan = field policy ''maxLifespanSeconds'';
            expired = (if expiresAt \<noteq> None \<and> js_lt expiresAt (Some (JNum nowSeconds))
              then [''policy_expired''] else []);
            lifespan = (if maxLifespan \<noteq> None \<and> js_lt maxLifespan (field intent ''lifespanSeconds'')
              then [''lifespan_exceeds_policy''] else []);
            wildcard = (if \<not> truthy (field policy ''allowWildcardRecipient'') \<and>
                field intent ''recipient'' = Some (JStr ZeroAddress)
              then [''wildcard_recipient_disallowed''] else [])
        in
        res_bind (exceeds (field policy ''maxAllocationPool'') (field intent ''totalAllocationPool'')
          ''allocation_exceeds_policy'') (\<lambda>allocation.
        res_bind (exceeds (field policy ''maxFlowVelocityPerSecond'') (field intent ''flowVelocityPerSecond'')
          ''velocity_exceeds_policy'') (\<lambda>velocity.
        Inr (expired @ allocation @ velocity @ lifespan @ wildcard))))"


section \<open>The request\<close>

record paycard_request =
  pr_envelopeToken :: js_value
  pr_claimRecipient :: js_value
  pr_policyEnvelope :: js_value
  pr_mode :: js_value
  pr_openRailsPaycardId :: js_value
  pr_openRailsMetadataHash :: js_value

record paycard_grant =
  pg_decoded :: json
  pg_envelopeMode :: string
  pg_isWildcardRailsCard :: bool
  pg_claimRecipient :: js_value
  pg_workflowId :: js_value

datatype paycard_refusal = Paycard_refused string "string list"

definition ZeroHash :: string where
  "ZeroHash = ''0x'' @ replicate 64 CHR ''0''"

definition header_mismatch :: "js_value \<Rightarrow> js_value \<Rightarrow> bool" where
  "header_mismatch h v \<longleftrightarrow> truthy h \<and> \<not> strictly_equal h v"

text \<open>The modes that are given, from the strongest source on; \<open>new Set(modes).size > 1\<close>.\<close>

definition given_modes :: "json \<Rightarrow> js_value \<Rightarrow> json list" where
  "given_modes decoded mode =
     List.map_filter id [field (field (Some decoded) ''metadata'') ''mode'', field (Some decoded) ''mode'', mode]"

fun conflicting :: "json list \<Rightarrow> bool" where
  "conflicting [] = False"
| "conflicting (m # ms) = ((\<exists>n \<in> set ms. \<not> strictly_equal (Some m) (Some n)) \<or> conflicting ms)"

definition envelope_modes :: "string list" where
  "envelope_modes = map envelope_mode_str [Railsflow, Railscard_bearer, Railscard_recipient_bound]"

text \<open>The mode that counts, and the first reason against it.\<close>

definition chosen_mode :: "json list \<Rightarrow> bool \<Rightarrow> string" where
  "chosen_mode modes wildcard =
     (case modes of
        [] \<Rightarrow> if wildcard then ''railscard_bearer'' else ''railsflow''
      | m # ms \<Rightarrow> text_of (Some m))"

definition mode_error :: "ethers \<Rightarrow> bool \<Rightarrow> js_value \<Rightarrow> js_value \<Rightarrow> string \<Rightarrow> string option" where
  "mode_error X wildcard metadata claimRecipient m =
     (if m = ''railscard_bearer'' \<and> \<not> wildcard
      then Some ''Bearer RailsCard requires wildcard recipient''
      else if m = ''railsflow'' \<and> wildcard then Some ''RailsFlow requires fixed recipient''
      else if m = ''railscard_recipient_bound'' \<and> wildcard
      then Some ''Recipient-bound RailsCard requires fixed recipient''
      else if m = ''railscard_bearer'' \<and> \<not> truthy claimRecipient
      then Some ''Wildcard RailsCard requires claimRecipient''
      else if m = ''railscard_bearer'' \<and> not_address X claimRecipient
      then Some ''Wildcard RailsCard claimRecipient must be a non-zero address''
      else if m = ''railscard_recipient_bound'' \<and>
        field metadata ''mode'' \<noteq> Some (JStr ''railscard_recipient_bound'')
      then Some ''Recipient-bound RailsCard mode must be metadata-bound''
      else None)"

definition resolve_mode :: "ethers \<Rightarrow> json \<Rightarrow> js_value \<Rightarrow> js_value \<Rightarrow> string + string" where
  "resolve_mode X decoded claimRecipient mode =
     (let modes = given_modes decoded mode;
          wildcard = (field (field (Some decoded) ''intent'') ''recipient'' = Some (JStr ZeroAddress));
          envelopeMode = chosen_mode modes wildcard
      in if conflicting modes then Inl ''Conflicting envelope modes''
      else if modes \<noteq> [] \<and> hd modes \<notin> JStr ` set envelope_modes
      then Inl ''Unknown envelope mode''
      else (case mode_error X wildcard (field (Some decoded) ''metadata'') claimRecipient envelopeMode of
              Some e \<Rightarrow> Inl e
            | None \<Rightarrow> Inr envelopeMode))"

text \<open>Metadata against the intent: a thrown error, the first reason, or nothing.\<close>

definition check_metadata ::
    "ethers \<Rightarrow> js_value \<Rightarrow> js_value \<Rightarrow> string \<Rightarrow> string option \<Rightarrow> string + string option" where
  "check_metadata X intent metadata envelopeMode tokenAddress =
     (if \<not> truthy metadata then Inr None
      else if \<not> strictly_equal (field metadata ''amount'') (field intent ''totalAllocationPool'')
      then Inr (Some ''metadata amount does not match intent totalAllocationPool'')
      else if \<not> strictly_equal (field metadata ''flowVelocityPerSecond'') (field intent ''flowVelocityPerSecond'')
      then Inr (Some ''metadata flowVelocityPerSecond does not match intent'')
      else if \<not> strictly_equal (field metadata ''lifespanSeconds'') (field intent ''lifespanSeconds'')
      then Inr (Some ''metadata lifespanSeconds does not match intent'')
      else if address_of X (field metadata ''recipient'') = None
      then Inr (Some ''metadata recipient must be an address'')
      else
        let expectedRecipient =
          (if envelopeMode = ''railscard_bearer'' then Some (JStr ZeroAddress) else field intent ''recipient'')
        in (case address_of X expectedRecipient of
              None \<Rightarrow> Inl type_error
            | Some expected \<Rightarrow>
                if address_of X (field metadata ''recipient'') \<noteq> Some expected
                then Inr (Some ''metadata recipient does not match intent mode'')
                else if address_of X (field metadata ''token'') = None
                then Inr (Some ''metadata token must be an address'')
                else (case tokenAddress of
                        None \<Rightarrow> Inr None
                      | Some t \<Rightarrow>
                          if t = [] then Inr None
                          else (case ext_getAddress (et_deps X) t of
                                  None \<Rightarrow> Inl type_error
                                | Some a \<Rightarrow>
                                    if address_of X (field metadata ''token'') \<noteq> Some a
                                    then Inr (Some ''metadata token does not match relayer token'')
                                    else Inr None))))"

definition decode_token :: "js_value \<Rightarrow> json option" where
  "decode_token v =
     (case v of
        Some (JStr token) \<Rightarrow> (case deserializeEnvelope token of Inr d \<Rightarrow> Some d | Inl _ \<Rightarrow> None)
      | _ \<Rightarrow> None)"

text \<open>
  \<open>Inl\<close> is an error that leaves the function.  Reading a member of an intent that is \<open>null\<close> or absent
  throws, and every request that gets so far reads one.
\<close>

definition validateOpenPaycardRequest ::
    "ethers \<Rightarrow> int \<Rightarrow> paycard_request \<Rightarrow> string option \<Rightarrow> string + (paycard_refusal + paycard_grant)" where
  "validateOpenPaycardRequest X nowSeconds body tokenAddress =
     (let refuse = (\<lambda>e. Inr (Inl (Paycard_refused e []))) in
      if \<not> truthy (pr_envelopeToken body) then refuse ''Missing envelopeToken''
      else (case decode_token (pr_envelopeToken body) of
        None \<Rightarrow> refuse ''Malformed envelopeToken''
      | Some decoded \<Rightarrow>
          let intent = field (Some decoded) ''intent''; metadata = field (Some decoded) ''metadata'' in
          if decoded = JNull \<or> is_nullish intent then Inl type_error
          else if header_mismatch (pr_openRailsPaycardId body) (field intent ''paycardId'')
          then refuse ''OpenRails paycard header does not match envelope''
          else if header_mismatch (pr_openRailsMetadataHash body) (field intent ''metadataHash'')
          then refuse ''OpenRails metadata header does not match envelope''
          else if field intent ''nonceChannel'' = None \<or> field intent ''nonceValue'' = None
          then refuse ''Missing nonceChannel or nonceValue''
          else if \<not> truthy (field intent ''metadataHash'') \<or> field intent ''metadataHash'' = Some (JStr ZeroHash)
          then refuse ''Missing metadataHash''
          else if truthy metadata \<and>
            Some (JStr (hashMetadataValue X (the metadata))) \<noteq> field intent ''metadataHash''
          then refuse ''metadata does not match metadataHash''
          else res_bind (evaluatePolicyEnvelope intent (pr_policyEnvelope body) nowSeconds) (\<lambda>reasons.
            if reasons \<noteq> [] then Inr (Inl (Paycard_refused ''Policy preflight rejected envelope'' reasons))
            else (case resolve_mode X decoded (pr_claimRecipient body) (pr_mode body) of
              Inl e \<Rightarrow> refuse e
            | Inr envelopeMode \<Rightarrow>
                res_bind (check_metadata X intent metadata envelopeMode tokenAddress) (\<lambda>reason.
                case reason of
                  Some e \<Rightarrow> refuse e
                | None \<Rightarrow> Inr (Inr \<lparr>pg_decoded = decoded, pg_envelopeMode = envelopeMode,
                    pg_isWildcardRailsCard = (field intent ''recipient'' = Some (JStr ZeroAddress)),
                    pg_claimRecipient = pr_claimRecipient body,
                    pg_workflowId = field metadata ''workflowId''\<rparr>))))))"


section \<open>Proofs of payable\<close>

text \<open>\<open>a ?? b\<close>\<close>

definition nullish_or :: "js_value \<Rightarrow> js_value \<Rightarrow> js_value" where
  "nullish_or a b = (if is_nullish a then b else a)"

text \<open>The members of a proof in the order of the code; members that are \<open>undefined\<close> are absent.\<close>

definition buildIntentProof ::
    "ethers \<Rightarrow> int \<Rightarrow> json \<Rightarrow> (int \<times> string) option \<Rightarrow> string option \<Rightarrow> string + json" where
  "buildIntentProof X nowSeconds envelope domain mode =
     (let e = field (Some envelope); intent = the (e ''intent'') in
      res_bind (case domain of
          Some (chainId, verifyingContract) \<Rightarrow>
            (case et_verifyTypedData X (buildOpenRailsDomain chainId verifyingContract default_domain_version)
                (buildSettlementIntentValue intent) (e ''envelopeSignature'') of
               None \<Rightarrow> Inl type_error
             | Some a \<Rightarrow> Inr (Some (JStr a)))
        | None \<Rightarrow> Inr (e ''payerAddress'')) (\<lambda>payer.
      res_bind (case domain of
          Some (chainId, verifyingContract) \<Rightarrow>
            (case hashSettlementIntent X intent chainId verifyingContract default_domain_version of
               None \<Rightarrow> Inl type_error
             | Some h \<Rightarrow> Inr (Some (JStr h)))
        | None \<Rightarrow> Inr None) (\<lambda>intentDigest.
      Inr (jobj [
        (''version'', Some (JStr ''openrails-proof-v1'')),
        (''stage'', Some (JStr ''signed_intent'')),
        (''paycardId'', field (Some intent) ''paycardId''),
        (''payer'', payer),
        (''recipient'', field (Some intent) ''recipient''),
        (''metadataHash'', field (Some intent) ''metadataHash''),
        (''workflowId'', field (e ''metadata'') ''workflowId''),
        (''intentDigest'', intentDigest),
        (''mode'', nullish_or (map_option JStr mode) (nullish_or (field (e ''metadata'') ''mode'')
          (nullish_or (e ''mode'') (Some (JStr (inferEnvelopeModeFromIntent (Some intent))))))),
        (''createdAt'', Some (JNum nowSeconds))]))))"

text \<open>The members of \<open>params\<close> follow the version and the time, and override them.\<close>

definition buildTransactionProof :: "int \<Rightarrow> (string \<times> json option) list \<Rightarrow> json" where
  "buildTransactionProof nowSeconds params =
     JObj (foldl (\<lambda>m (k, v). AList.update k v m)
       [(''version'', JStr ''openrails-proof-v1''), (''createdAt'', JNum nowSeconds)] (jfields params))"


section \<open>What a granted request is\<close>

text \<open>The mode that counts agrees with the recipient and with every mode that is given.\<close>

definition mode_fits :: "ethers \<Rightarrow> json \<Rightarrow> paycard_request \<Rightarrow> string \<Rightarrow> bool" where
  "mode_fits X decoded body m \<longleftrightarrow>
     (\<forall>g \<in> set (given_modes decoded (pr_mode body)). g = JStr m) \<and>
     (if field (field (Some decoded) ''intent'') ''recipient'' = Some (JStr ZeroAddress)
      then m = ''railscard_bearer'' \<and> \<not> not_address X (pr_claimRecipient body)
      else m = ''railsflow'' \<or> (m = ''railscard_recipient_bound'' \<and>
        field (field (Some decoded) ''metadata'') ''mode'' = Some (JStr m)))"

lemma conflicting_same:
  assumes "\<not> conflicting (m # ms)" and "n \<in> set ms"
  shows "n = m"
  using assms strict_eqD by fastforce

lemma resolve_mode_Inr:
  assumes "resolve_mode X decoded (pr_claimRecipient body) (pr_mode body) = Inr m"
  shows "mode_fits X decoded body m"
proof -
  let ?wildcard = "field (field (Some decoded) ''intent'') ''recipient'' = Some (JStr ZeroAddress)"
  let ?modes = "given_modes decoded (pr_mode body)"
  from assms have r: "\<not> conflicting ?modes" "?modes \<noteq> [] \<Longrightarrow> hd ?modes \<in> JStr ` set envelope_modes"
      "mode_error X ?wildcard (field (Some decoded) ''metadata'') (pr_claimRecipient body) m = None"
      "m = chosen_mode ?modes ?wildcard"
    by (auto simp: resolve_mode_def Let_def res_simps split: option.splits)
  have all: "\<forall>g \<in> set ?modes. g = JStr m"
  proof (cases ?modes)
    case (Cons g gs)
    with r(2,4) have "g = JStr m" by (auto simp: chosen_mode_def text_of_def)
    with r(1) Cons conflicting_same [of g gs] show ?thesis by auto
  qed simp
  have "m \<in> set envelope_modes"
    using r(2,4) by (cases ?modes) (auto simp: chosen_mode_def text_of_def envelope_modes_def)
  then consider "m = ''railsflow''" | "m = ''railscard_bearer''" | "m = ''railscard_recipient_bound''"
    by (auto simp: envelope_modes_def)
  then show ?thesis
    using all r(3) by cases (auto simp: mode_fits_def mode_error_def split: if_splits)
qed

text \<open>Metadata that is present hashes to the intent's hash and repeats its terms.\<close>

definition metadata_binds :: "ethers \<Rightarrow> json \<Rightarrow> string \<Rightarrow> string option \<Rightarrow> bool" where
  "metadata_binds X decoded m tokenAddress \<longleftrightarrow>
     (let intent = field (Some decoded) ''intent''; metadata = field (Some decoded) ''metadata'' in
      truthy metadata \<longrightarrow>
        field intent ''metadataHash'' = Some (JStr (hashMetadataValue X (the metadata))) \<and>
        field metadata ''amount'' = field intent ''totalAllocationPool'' \<and>
        field metadata ''flowVelocityPerSecond'' = field intent ''flowVelocityPerSecond'' \<and>
        field metadata ''lifespanSeconds'' = field intent ''lifespanSeconds'' \<and>
        address_of X (field metadata ''recipient'') =
          address_of X (if m = ''railscard_bearer'' then Some (JStr ZeroAddress) else field intent ''recipient'') \<and>
        (\<forall>t. tokenAddress = Some t \<longrightarrow> t \<noteq> [] \<longrightarrow>
          address_of X (field metadata ''token'') = ext_getAddress (et_deps X) t))"

lemma check_metadata_Inr:
  assumes "check_metadata X intent metadata m tokenAddress = Inr None" and "truthy metadata"
  shows "field metadata ''amount'' = field intent ''totalAllocationPool''"
    and "field metadata ''flowVelocityPerSecond'' = field intent ''flowVelocityPerSecond''"
    and "field metadata ''lifespanSeconds'' = field intent ''lifespanSeconds''"
    and "address_of X (field metadata ''recipient'') =
      address_of X (if m = ''railscard_bearer'' then Some (JStr ZeroAddress) else field intent ''recipient'')"
    and "\<And>t. tokenAddress = Some t \<Longrightarrow> t \<noteq> [] \<Longrightarrow>
      address_of X (field metadata ''token'') = ext_getAddress (et_deps X) t"
  using assms
  by (auto simp: check_metadata_def Let_def dest!: strict_eqD split: if_splits option.splits)

lemma paycard_granted:
  assumes "validateOpenPaycardRequest X nowSeconds body tokenAddress = Inr (Inr g)"
  shows "decode_token (pr_envelopeToken body) = Some (pg_decoded g)"
    and "\<not> is_nullish (field (Some (pg_decoded g)) ''intent'')"
    and "evaluatePolicyEnvelope (field (Some (pg_decoded g)) ''intent'') (pr_policyEnvelope body) nowSeconds = Inr []"
    and "mode_fits X (pg_decoded g) body (pg_envelopeMode g)"
    and "metadata_binds X (pg_decoded g) (pg_envelopeMode g) tokenAddress"
    and "pg_isWildcardRailsCard g \<longleftrightarrow>
      field (field (Some (pg_decoded g)) ''intent'') ''recipient'' = Some (JStr ZeroAddress)"
    and "pg_claimRecipient g = pr_claimRecipient body"
    and "\<forall>(h, k) \<in> {(pr_openRailsPaycardId body, ''paycardId''), (pr_openRailsMetadataHash body, ''metadataHash'')}.
      truthy h \<longrightarrow> field (field (Some (pg_decoded g)) ''intent'') k = h"
proof -
  obtain decoded m where d: "decode_token (pr_envelopeToken body) = Some decoded"
      "\<not> is_nullish (field (Some decoded) ''intent'')"
      "evaluatePolicyEnvelope (field (Some decoded) ''intent'') (pr_policyEnvelope body) nowSeconds = Inr []"
      "resolve_mode X decoded (pr_claimRecipient body) (pr_mode body) = Inr m"
      "check_metadata X (field (Some decoded) ''intent'') (field (Some decoded) ''metadata'') m tokenAddress = Inr None"
      "truthy (field (Some decoded) ''metadata'') \<longrightarrow>
        Some (JStr (hashMetadataValue X (the (field (Some decoded) ''metadata'')))) =
          field (field (Some decoded) ''intent'') ''metadataHash''"
      "\<not> header_mismatch (pr_openRailsPaycardId body) (field (field (Some decoded) ''intent'') ''paycardId'')"
      "\<not> header_mismatch (pr_openRailsMetadataHash body) (field (field (Some decoded) ''intent'') ''metadataHash'')"
      "g = \<lparr>pg_decoded = decoded, pg_envelopeMode = m,
        pg_isWildcardRailsCard = (field (field (Some decoded) ''intent'') ''recipient'' = Some (JStr ZeroAddress)),
        pg_claimRecipient = pr_claimRecipient body,
        pg_workflowId = field (field (Some decoded) ''metadata'') ''workflowId''\<rparr>"
    using assms unfolding validateOpenPaycardRequest_def Let_def
    by (auto simp: res_simps split: if_splits option.splits sum.splits)
  show "metadata_binds X (pg_decoded g) (pg_envelopeMode g) tokenAddress"
    using check_metadata_Inr [OF d(5)] d(6) by (simp add: metadata_binds_def Let_def d(9))
  show "mode_fits X (pg_decoded g) body (pg_envelopeMode g)"
    using resolve_mode_Inr [OF d(4)] by (simp add: d(9))
  show "\<forall>(h, k) \<in> {(pr_openRailsPaycardId body, ''paycardId''), (pr_openRailsMetadataHash body, ''metadataHash'')}.
      truthy h \<longrightarrow> field (field (Some (pg_decoded g)) ''intent'') k = h"
    using d(7,8) by (auto simp: header_mismatch_def d(9) dest: strict_eqD)
  show "decode_token (pr_envelopeToken body) = Some (pg_decoded g)"
    "\<not> is_nullish (field (Some (pg_decoded g)) ''intent'')"
    "evaluatePolicyEnvelope (field (Some (pg_decoded g)) ''intent'') (pr_policyEnvelope body) nowSeconds = Inr []"
    "pg_isWildcardRailsCard g \<longleftrightarrow>
      field (field (Some (pg_decoded g)) ''intent'') ''recipient'' = Some (JStr ZeroAddress)"
    "pg_claimRecipient g = pr_claimRecipient body"
    using d(1-3) by (simp_all add: d(9))
qed

text \<open>A policy that approves bounds the intent.\<close>

lemma policy_approves:
  assumes "evaluatePolicyEnvelope intent policy nowSeconds = Inr []" and "truthy policy"
  shows "field policy ''maxAllocationPool'' \<noteq> None \<Longrightarrow>
      \<exists>m a. to_BigInt (field policy ''maxAllocationPool'') = Some m \<and>
        to_BigInt (field intent ''totalAllocationPool'') = Some a \<and> a \<le> m"
    and "field policy ''maxFlowVelocityPerSecond'' \<noteq> None \<Longrightarrow>
      \<exists>m a. to_BigInt (field policy ''maxFlowVelocityPerSecond'') = Some m \<and>
        to_BigInt (field intent ''flowVelocityPerSecond'') = Some a \<and> a \<le> m"
    and "\<not> truthy (field policy ''allowWildcardRecipient'') \<Longrightarrow>
      field intent ''recipient'' \<noteq> Some (JStr ZeroAddress)"
  using assms
  by (auto simp: evaluatePolicyEnvelope_def Let_def res_simps exceeds_def split: if_splits option.splits)

end
