(* ===== verification/Wallet.thy ===== *)
theory Wallet
  imports Paycard_Requests
begin

text \<open>
  Wallet helpers of the SDK (\<open>sdk/src/wallet.ts\<close>): the recovery of a wallet's paycards from the hub's
  logs, the allowance a deferred card reserves, switching networks, signing and submitting an
  envelope.

  The provider is the record \<open>chain_provider\<close>: what \<open>getBlockNumber\<close>, \<open>getLogs\<close> of a block range and
  the registry answer, and how a log parses under the hub's interface.  An answer may be a thrown
  error.
\<close>


section \<open>Recovering paycards\<close>

text \<open>A log of \<open>PaycardProvisioned\<close>, parsed.\<close>

record provisioned =
  pv_paycardId :: string
  pv_payer :: string
  pv_recipient :: string
  pv_metadataHash :: string
  pv_poolAllocation :: int
  pv_flowVelocityPerSecond :: int
  pv_genesisTimestamp :: int
  pv_lifespanSeconds :: int

text \<open>A raw log; \<open>None\<close> where it does not parse as that event.\<close>

record chain_log =
  lg_blockNumber :: int
  lg_transactionHash :: string
  lg_index :: int
  lg_parsed :: "provisioned option"

datatype operational_status = Active_card | Terminated_card

record paycard_view =
  cv_payer :: string
  cv_recipient :: string
  cv_metadataHash :: string
  cv_totalAllocationPool :: string
  cv_availableBalance :: string
  cv_flowVelocityPerSecond :: string
  cv_genesisTimestamp :: int
  cv_lifespanSeconds :: int
  cv_lastCheckpointEpoch :: int
  cv_residualDeltaRecipient :: string
  cv_operationalStatus :: operational_status

record recovered_paycard =
  rp_paycardId :: string
  rp_registry :: paycard_view
  rp_provisioned :: provisioned
  rp_blockNumber :: int
  rp_transactionHash :: string
  rp_logIndex :: int

text \<open>The row the registry returns, and \<open>readPaycard\<close>.\<close>

record paycard_row =
  row_payer :: string
  row_recipient :: string
  row_metadataHash :: string
  row_totalAllocationPool :: int
  row_availableBalance :: int
  row_flowVelocityPerSecond :: int
  row_genesisTimestamp :: int
  row_lifespanSeconds :: int
  row_lastCheckpointEpoch :: int
  row_residualDeltaRecipient :: string
  row_operationalStatus :: int

definition view_of_row :: "paycard_row \<Rightarrow> paycard_view" where
  "view_of_row r =
     \<lparr>cv_payer = row_payer r, cv_recipient = row_recipient r, cv_metadataHash = row_metadataHash r,
      cv_totalAllocationPool = show_int (row_totalAllocationPool r),
      cv_availableBalance = show_int (row_availableBalance r),
      cv_flowVelocityPerSecond = show_int (row_flowVelocityPerSecond r),
      cv_genesisTimestamp = js_round (row_genesisTimestamp r),
      cv_lifespanSeconds = js_round (row_lifespanSeconds r),
      cv_lastCheckpointEpoch = js_round (row_lastCheckpointEpoch r),
      cv_residualDeltaRecipient = row_residualDeltaRecipient r,
      cv_operationalStatus = (if row_operationalStatus r = 0 then Active_card else Terminated_card)\<rparr>"

record chain_provider =
  cp_blockNumber :: "string + int"
  cp_getLogs :: "int \<Rightarrow> int \<Rightarrow> string + chain_log list"
  cp_registry :: "string \<Rightarrow> string + paycard_row"

definition readPaycard :: "chain_provider \<Rightarrow> string \<Rightarrow> string + paycard_view" where
  "readPaycard P paycardId = res_bind (cp_registry P paycardId) (\<lambda>r. Inr (view_of_row r))"

definition recovered_of :: "chain_log \<Rightarrow> provisioned \<Rightarrow> paycard_view \<Rightarrow> recovered_paycard" where
  "recovered_of l p v =
     \<lparr>rp_paycardId = pv_paycardId p, rp_registry = v,
      rp_provisioned = p\<lparr>pv_genesisTimestamp := js_round (pv_genesisTimestamp p),
        pv_lifespanSeconds := js_round (pv_lifespanSeconds p)\<rparr>,
      rp_blockNumber = lg_blockNumber l, rp_transactionHash = lg_transactionHash l, rp_logIndex = lg_index l\<rparr>"

text \<open>The results so far are also the set of keys seen: a key is added with each result.\<close>

definition paycard_key :: "recovered_paycard \<Rightarrow> string" where
  "paycard_key r = toLowerCase (rp_paycardId r)"

definition hash_wanted :: "string option \<Rightarrow> string \<Rightarrow> bool" where
  "hash_wanted metadataHash h = (case metadataHash of None \<Rightarrow> True | Some m \<Rightarrow> m = [] \<or> toLowerCase h = toLowerCase m)"

definition recover_log ::
    "chain_provider \<Rightarrow> string option \<Rightarrow> chain_log \<Rightarrow> recovered_paycard list \<Rightarrow> string + recovered_paycard list" where
  "recover_log P metadataHash l results =
     (case lg_parsed l of
        None \<Rightarrow> Inr results
      | Some p \<Rightarrow>
          if \<not> hash_wanted metadataHash (pv_metadataHash p) then Inr results
          else if toLowerCase (pv_paycardId p) \<in> paycard_key ` set results then Inr results
          else res_bind (readPaycard P (pv_paycardId p)) (\<lambda>v.
            if cv_payer v = ZeroAddress then Inr results
            else Inr (results @ [recovered_of l p v])))"

fun recover_logs ::
    "chain_provider \<Rightarrow> string option \<Rightarrow> nat \<Rightarrow> chain_log list \<Rightarrow> recovered_paycard list \<Rightarrow> string + recovered_paycard list" where
  "recover_logs P metadataHash limit [] results = Inr results"
| "recover_logs P metadataHash limit (l # ls) results =
     (if limit \<le> length results then Inr results
      else res_bind (recover_log P metadataHash l results) (recover_logs P metadataHash limit ls))"

text \<open>The loop over chunks of blocks, newest first; not to return would be \<open>None\<close>.\<close>

partial_function (option) recover_chunks ::
    "chain_provider \<Rightarrow> string option \<Rightarrow> nat \<Rightarrow> int \<Rightarrow> int \<Rightarrow> int \<Rightarrow> recovered_paycard list \<Rightarrow>
      (string + recovered_paycard list) option" where
  "recover_chunks P metadataHash limit chunkSize fromBlock chunkTo results =
     (if chunkTo < fromBlock \<or> limit \<le> length results then Some (Inr results)
      else
        let chunkFrom = max fromBlock (chunkTo - chunkSize + 1) in
        (case cp_getLogs P chunkFrom chunkTo of
           Inl e \<Rightarrow> Some (Inl e)
         | Inr logs \<Rightarrow>
             (case recover_logs P metadataHash limit (rev logs) results of
                Inl e \<Rightarrow> Some (Inl e)
              | Inr results' \<Rightarrow>
                  if chunkFrom = fromBlock then Some (Inr results')
                  else recover_chunks P metadataHash limit chunkSize fromBlock (chunkFrom - 1) results')))"

record recovery_options =
  ro_payer :: "string option"
  ro_recipient :: "string option"
  ro_metadataHash :: "string option"
  ro_fromBlock :: "int option"
  ro_toBlock :: "int option"
  ro_limit :: "int option"
  ro_chunkSize :: "int option"

definition or_default :: "'a option \<Rightarrow> 'a \<Rightarrow> 'a" where
  "or_default x d = (case x of Some v \<Rightarrow> v | None \<Rightarrow> d)"

text \<open>A text that is absent or empty.\<close>

definition no_text :: "string option \<Rightarrow> bool" where
  "no_text t \<longleftrightarrow> t = None \<or> t = Some []"

definition bad_address :: "ethers \<Rightarrow> string option \<Rightarrow> bool" where
  "bad_address X t = (case t of None \<Rightarrow> False | Some a \<Rightarrow> \<not> isAddress (et_deps X) a)"

definition recoverPaycardsFromLogs ::
    "ethers \<Rightarrow> chain_provider \<Rightarrow> string \<Rightarrow> recovery_options \<Rightarrow> (string + recovered_paycard list) option" where
  "recoverPaycardsFromLogs X P hubAddress ops =
     (if \<not> isAddress (et_deps X) hubAddress then Some (Inl ''hubAddress must be an EVM address'')
      else if bad_address X (ro_payer ops) then Some (Inl ''payer must be an EVM address'')
      else if bad_address X (ro_recipient ops) then Some (Inl ''recipient must be an EVM address'')
      else if no_text (ro_payer ops) \<and> no_text (ro_recipient ops)
      then Some (Inl ''payer or recipient is required'')
      else if \<not> no_text (ro_metadataHash ops) \<and> \<not> et_isHexString X (the (ro_metadataHash ops)) 32
      then Some (Inl ''metadataHash must be a bytes32 hex string'')
      else (case cp_blockNumber P of
        Inl e \<Rightarrow> Some (Inl e)
      | Inr latestBlock \<Rightarrow>
          let fromBlock = or_default (ro_fromBlock ops) 0;
              toBlock = or_default (ro_toBlock ops) latestBlock;
              limit = or_default (ro_limit ops) 25;
              chunkSize = or_default (ro_chunkSize ops) 5000
          in if fromBlock < 0 then Some (Inl ''fromBlock must be a non-negative integer'')
          else if toBlock < fromBlock
          then Some (Inl ''toBlock must be an integer greater than or equal to fromBlock'')
          else if limit \<le> 0 then Some (Inl ''limit must be a positive integer'')
          else if chunkSize \<le> 0 then Some (Inl ''chunkSize must be a positive integer'')
          else recover_chunks P (ro_metadataHash ops) (nat limit) chunkSize fromBlock (min toBlock latestBlock) []))"


subsection \<open>The search returns\<close>

lemma recover_chunks_returns:
  assumes "0 < chunkSize"
  shows "\<exists>r. recover_chunks P metadataHash limit chunkSize fromBlock chunkTo results = Some r"
proof (induction "nat (chunkTo + 1 - fromBlock)" arbitrary: chunkTo results rule: less_induct)
  case less
  define chunkFrom where "chunkFrom = max fromBlock (chunkTo - chunkSize + 1)"
  have "\<exists>r. recover_chunks P metadataHash limit chunkSize fromBlock (chunkFrom - 1) results' = Some r"
    if "\<not> chunkTo < fromBlock" for results'
    by (rule less) (use that assms in \<open>auto simp: chunkFrom_def\<close>)
  then show ?case
    by (subst recover_chunks.simps) (auto simp: Let_def chunkFrom_def split: sum.split)
qed

lemma recovery_returns: "\<exists>r. recoverPaycardsFromLogs X P hubAddress ops = Some r"
  by (auto simp: recoverPaycardsFromLogs_def Let_def recover_chunks_returns split: sum.split)


subsection \<open>What it finds\<close>

text \<open>The logs of the chain in order, and those of a range of blocks.\<close>

definition logs_between :: "chain_log list \<Rightarrow> int \<Rightarrow> int \<Rightarrow> chain_log list" where
  "logs_between chain a b = filter (\<lambda>l. a \<le> lg_blockNumber l \<and> lg_blockNumber l \<le> b) chain"

text \<open>A provider that serves one chain.\<close>

definition serves :: "chain_provider \<Rightarrow> chain_log list \<Rightarrow> bool" where
  "serves P chain \<longleftrightarrow> sorted (map lg_blockNumber chain) \<and>
     (\<forall>a b. cp_getLogs P a b = Inr (logs_between chain a b))"

lemma logs_between_split:
  assumes "sorted (map lg_blockNumber chain)" and "a \<le> c" and "c \<le> b + 1"
  shows "logs_between chain a b = logs_between chain a (c - 1) @ logs_between chain c b"
  using assms
proof (induction chain)
  case (Cons l chain)
  show ?case
  proof (cases "lg_blockNumber l < c")
    case True
    with Cons show ?thesis by (simp add: logs_between_def)
  next
    case False
    then have "logs_between chain a (c - 1) = []"
      using Cons.prems(1) by (auto simp: logs_between_def filter_empty_conv)
    with False Cons show ?thesis by (simp add: logs_between_def)
  qed
qed (simp add: logs_between_def)

lemma recover_logs_full: "limit \<le> length results \<Longrightarrow> recover_logs P metadataHash limit ls results = Inr results"
  by (cases ls) simp_all

lemma recover_logs_append:
  "recover_logs P metadataHash limit (xs @ ys) results =
    res_bind (recover_logs P metadataHash limit xs results) (recover_logs P metadataHash limit ys)"
proof (induction xs arbitrary: results)
  case (Cons x xs)
  show ?case
  proof (cases "limit \<le> length results")
    case False
    with Cons show ?thesis by (cases "recover_log P metadataHash x results") simp_all
  qed (simp add: recover_logs_full)
qed simp

text \<open>The chunks together are one pass over the logs of the range, newest first.\<close>

lemma recover_chunks_pass:
  assumes "serves P chain" and "0 < chunkSize"
  shows "recover_chunks P metadataHash limit chunkSize fromBlock chunkTo results =
    Some (recover_logs P metadataHash limit (rev (logs_between chain fromBlock chunkTo)) results)"
proof (induction "nat (chunkTo + 1 - fromBlock)" arbitrary: chunkTo results rule: less_induct)
  case less
  define chunkFrom where "chunkFrom = max fromBlock (chunkTo - chunkSize + 1)"
  let ?rest = "\<lambda>results'. recover_logs P metadataHash limit (rev (logs_between chain fromBlock (chunkFrom - 1))) results'"
  show ?case
  proof (cases "chunkTo < fromBlock \<or> limit \<le> length results")
    case True
    moreover have "logs_between chain fromBlock chunkTo = []" if "chunkTo < fromBlock"
      using that by (auto simp: logs_between_def filter_empty_conv)
    ultimately show ?thesis
      by (subst recover_chunks.simps) (auto simp: recover_logs_full)
  next
    case False
    have IH: "recover_chunks P metadataHash limit chunkSize fromBlock (chunkFrom - 1) results' = Some (?rest results')"
      for results'
      by (rule less) (use False assms(2) in \<open>auto simp: chunkFrom_def\<close>)
    have split: "logs_between chain fromBlock chunkTo =
        logs_between chain fromBlock (chunkFrom - 1) @ logs_between chain chunkFrom chunkTo"
      by (rule logs_between_split) (use assms False in \<open>auto simp: serves_def chunkFrom_def\<close>)
    have "?rest results' = Inr results'" if "chunkFrom = fromBlock" for results'
    proof -
      have "logs_between chain fromBlock (chunkFrom - 1) = []"
        using that by (auto simp: logs_between_def filter_empty_conv)
      then show ?thesis by simp
    qed
    moreover have "recover_chunks P metadataHash limit chunkSize fromBlock chunkTo results =
        (case recover_logs P metadataHash limit (rev (logs_between chain chunkFrom chunkTo)) results of
           Inl e \<Rightarrow> Some (Inl e)
         | Inr results' \<Rightarrow> if chunkFrom = fromBlock then Some (Inr results') else Some (?rest results'))"
      using False assms(1) IH
      by (subst recover_chunks.simps) (simp add: Let_def serves_def split: sum.split flip: chunkFrom_def)
    ultimately show ?thesis
      unfolding split rev_append recover_logs_append by (simp split: sum.split)
  qed
qed

text \<open>Of the entries with one key the first.\<close>

fun first_of_each :: "recovered_paycard list \<Rightarrow> recovered_paycard list" where
  "first_of_each [] = []"
| "first_of_each (r # rs) = r # filter (\<lambda>q. paycard_key q \<noteq> paycard_key r) (first_of_each rs)"

text \<open>What a log is worth when the registry answers: its paycard, if that exists.\<close>

definition paycard_of_log :: "chain_provider \<Rightarrow> string option \<Rightarrow> chain_log \<Rightarrow> recovered_paycard option" where
  "paycard_of_log P metadataHash l =
     (case lg_parsed l of
        None \<Rightarrow> None
      | Some p \<Rightarrow>
          (case readPaycard P (pv_paycardId p) of
             Inl e \<Rightarrow> None
           | Inr v \<Rightarrow> if hash_wanted metadataHash (pv_metadataHash p) \<and> cv_payer v \<noteq> ZeroAddress
               then Some (recovered_of l p v) else None))"

definition registry_answers :: "chain_provider \<Rightarrow> bool" where
  "registry_answers P \<longleftrightarrow> (\<forall>i. \<exists>row. cp_registry P i = Inr row)"

lemma readPaycard_answers: "registry_answers P \<Longrightarrow> \<exists>v. readPaycard P i = Inr v"
  by (metis readPaycard_def registry_answers_def res_bind.simps(2))

lemma paycard_key_recovered [simp]: "paycard_key (recovered_of l p v) = toLowerCase (pv_paycardId p)"
  by (simp add: paycard_key_def recovered_of_def)

definition unseen :: "recovered_paycard list \<Rightarrow> recovered_paycard list \<Rightarrow> recovered_paycard list" where
  "unseen results rs = filter (\<lambda>r. paycard_key r \<notin> paycard_key ` set results) (first_of_each rs)"

lemma unseen_Cons:
  "unseen results (r # rs) =
    (if paycard_key r \<in> paycard_key ` set results then unseen results rs
     else r # unseen (results @ [r]) rs)"
  by (auto simp: unseen_def intro!: filter_cong)

lemma recover_log_exact:
  assumes "registry_answers P"
  shows "recover_log P metadataHash l results = Inr (case paycard_of_log P metadataHash l of
      None \<Rightarrow> results
    | Some r \<Rightarrow> if paycard_key r \<in> paycard_key ` set results then results else results @ [r])"
proof (cases "lg_parsed l")
  case (Some p)
  from readPaycard_answers [OF assms] obtain v where "readPaycard P (pv_paycardId p) = Inr v" by blast
  with Some show ?thesis by (simp add: recover_log_def paycard_of_log_def)
qed (simp add: recover_log_def paycard_of_log_def)

lemma recover_logs_exact:
  assumes "registry_answers P" and "length results \<le> limit"
  shows "recover_logs P metadataHash limit ls results =
    Inr (take limit (results @ unseen results (List.map_filter (paycard_of_log P metadataHash) ls)))"
  using assms(2)
proof (induction ls arbitrary: results)
  case Nil
  then show ?case by (simp add: unseen_def List.map_filter_def)
next
  case (Cons l ls)
  show ?case
  proof (cases "limit \<le> length results")
    case True
    with Cons.prems show ?thesis by (simp add: recover_logs_full)
  next
    case False
    show ?thesis
    proof (cases "paycard_of_log P metadataHash l")
      case None
      with False Cons show ?thesis by (simp add: recover_log_exact [OF assms(1)] map_filter_Cons)
    next
      case (Some r)
      with False Cons.IH [of results] Cons.IH [of "results @ [r]"] Cons.prems show ?thesis
        by (simp add: recover_log_exact [OF assms(1)] map_filter_Cons unseen_Cons)
    qed
  qed
qed

text \<open>The options the search accepts.\<close>

definition recovery_accepts :: "ethers \<Rightarrow> recovery_options \<Rightarrow> int \<Rightarrow> bool" where
  "recovery_accepts X ops latestBlock \<longleftrightarrow>
     \<not> bad_address X (ro_payer ops) \<and> \<not> bad_address X (ro_recipient ops) \<and>
     \<not> (no_text (ro_payer ops) \<and> no_text (ro_recipient ops)) \<and>
     (no_text (ro_metadataHash ops) \<or> et_isHexString X (the (ro_metadataHash ops)) 32) \<and>
     0 \<le> or_default (ro_fromBlock ops) 0 \<and>
     or_default (ro_fromBlock ops) 0 \<le> or_default (ro_toBlock ops) latestBlock \<and>
     0 < or_default (ro_limit ops) 25 \<and> 0 < or_default (ro_chunkSize ops) 5000"

text \<open>The newest paycards of a range of blocks, one for each key.\<close>

definition newest_paycards ::
    "chain_provider \<Rightarrow> string option \<Rightarrow> nat \<Rightarrow> chain_log list \<Rightarrow> recovered_paycard list" where
  "newest_paycards P metadataHash limit logs =
     take limit (first_of_each (List.map_filter (paycard_of_log P metadataHash) (rev logs)))"

lemma recover_chunks_exact:
  assumes "serves P chain" and "registry_answers P" and "0 < chunkSize"
  shows "recover_chunks P metadataHash limit chunkSize fromBlock chunkTo [] =
    Some (Inr (newest_paycards P metadataHash limit (logs_between chain fromBlock chunkTo)))"
  by (simp add: recover_chunks_pass [OF assms(1,3)] recover_logs_exact [OF assms(2)] newest_paycards_def unseen_def)

lemma recovery_exact:
  assumes "serves P chain" and "registry_answers P" and "cp_blockNumber P = Inr latest"
    and "isAddress (et_deps X) hubAddress" and "recovery_accepts X ops latest"
  shows "recoverPaycardsFromLogs X P hubAddress ops =
    Some (Inr (newest_paycards P (ro_metadataHash ops) (nat (or_default (ro_limit ops) 25))
      (logs_between chain (or_default (ro_fromBlock ops) 0) (min (or_default (ro_toBlock ops) latest) latest))))"
  using assms(3-) recover_chunks_exact [OF assms(1,2)]
  by (auto simp: recoverPaycardsFromLogs_def Let_def recovery_accepts_def)


section \<open>Networks\<close>

definition assertOpenRailsNetwork :: "string + int \<Rightarrow> int \<Rightarrow> string + unit" where
  "assertOpenRailsNetwork network expectedChainId =
     res_bind network (\<lambda>n. let actual = js_round n in
       if actual \<noteq> expectedChainId
       then Inl (''Wrong network: expected chain '' @ show_int expectedChainId @ '', got '' @ show_int actual)
       else Inr ())"

fun show_hex :: "nat \<Rightarrow> string" where
  "show_hex n = (if n < 16 then [hex_char n] else show_hex (n div 16) @ [hex_char (n mod 16)])"

declare show_hex.simps [simp del]

definition toEip155ChainIdHex :: "int \<Rightarrow> string + string" where
  "toEip155ChainIdHex chainId =
     (if chainId \<le> 0 then Inl (''Invalid chain ID: '' @ show_int chainId)
      else Inr (''0x'' @ show_hex (nat chainId)))"

text \<open>An error of the wallet: its code, a number or a text, and its message.\<close>

record wallet_error =
  we_code :: js_value
  we_message :: "string option"

text \<open>\<open>s.includes(t)\<close>\<close>

fun includes_text :: "string \<Rightarrow> string \<Rightarrow> bool" where
  "includes_text [] t = (t = [])"
| "includes_text (c # s) t = (starts_with t (c # s) \<or> includes_text s t)"

definition isUnrecognizedChainError :: "wallet_error \<Rightarrow> bool" where
  "isUnrecognizedChainError err \<longleftrightarrow>
     (let message = toLowerCase (or_default (we_message err) []) in
      we_code err = Some (JNum 4902) \<or> we_code err = Some (JStr ''4902'') \<or>
      includes_text message ''unrecognized chain'' \<or> includes_text message ''unknown chain'')"

datatype switch_error = Wallet_failed wallet_error | Switch_error string

datatype switch_result = Switched | Added

text \<open>
  \<open>wallet n m\<close> is the wallet's answer to the \<open>n\<close>th request, of method \<open>m\<close>; the result comes with the
  methods requested.
\<close>

definition switchOrAddOpenRailsNetwork ::
    "(nat \<Rightarrow> string \<Rightarrow> wallet_error + unit) \<Rightarrow> int \<Rightarrow> string list option \<Rightarrow>
      (switch_error + switch_result) \<times> string list" where
  "switchOrAddOpenRailsNetwork wallet chainId rpcUrls =
     (let switch = ''wallet_switchEthereumChain''; add = ''wallet_addEthereumChain'' in
      case toEip155ChainIdHex chainId of
        Inl e \<Rightarrow> (Inl (Switch_error e), [])
      | Inr hex \<Rightarrow>
          (case wallet 0 switch of
             Inr _ \<Rightarrow> (Inr Switched, [switch])
           | Inl err \<Rightarrow>
               if \<not> isUnrecognizedChainError err then (Inl (Wallet_failed err), [switch])
               else if or_default rpcUrls [] = []
               then (Inl (Switch_error (''Wallet does not know this chain and no public RPC URL is configured '' @
                 ''for wallet_addEthereumChain'')), [switch])
               else (case wallet 1 add of
                       Inl e \<Rightarrow> (Inl (Wallet_failed e), [switch, add])
                     | Inr _ \<Rightarrow>
                         (case wallet 2 switch of
                            Inl e \<Rightarrow> (Inl (Wallet_failed e), [switch, add, switch])
                          | Inr _ \<Rightarrow> (Inr Added, [switch, add, switch])))))"


section \<open>Allowances\<close>

definition UINT256_MAX :: int where
  "UINT256_MAX = 2 ^ 256 - 1"

definition nextRailsCardAllowance :: "int \<Rightarrow> int \<Rightarrow> string + int" where
  "nextRailsCardAllowance currentAllowance allocation =
     (if allocation \<le> 0 then Inl ''RailsCard allocation must be positive''
      else if UINT256_MAX - allocation \<le> currentAllowance then Inr UINT256_MAX
      else Inr (currentAllowance + allocation))"

lemma next_allowance_exact:
  "nextRailsCardAllowance current allocation = Inr r \<Longrightarrow>
    0 < allocation \<and> r = min UINT256_MAX (current + allocation)"
  by (auto simp: nextRailsCardAllowance_def split: if_splits)

record token_answers =
  ta_balance :: "string + int"
  ta_allowance :: "string + int"
  ta_approve :: "string \<Rightarrow> string \<Rightarrow> int \<Rightarrow> string + string"

record allowance_reservation =
  ar_previousAllowance :: int
  ar_reservedAllowance :: int
  ar_transactionHash :: "string option"

text \<open>
  The amount is the allocation, a decimal text or a \<open>bigint\<close>.  \<open>ta_approve token hub amount\<close> sends the
  approval, waits for it and gives its hash.  The result comes with the approved amounts.
\<close>

definition reserveRailsCardAllowance ::
    "ethers \<Rightarrow> token_answers \<Rightarrow> string \<Rightarrow> string \<Rightarrow> string \<Rightarrow> string + int \<Rightarrow>
      (string + allowance_reservation) \<times> int list" where
  "reserveRailsCardAllowance X T ownerAddress tokenAddress hubAddress allocation =
     (case (ext_getAddress (et_deps X) ownerAddress, ext_getAddress (et_deps X) tokenAddress,
         ext_getAddress (et_deps X) hubAddress,
         (case allocation of Inl s \<Rightarrow> BigInt s | Inr n \<Rightarrow> Some n)) of
        (Some owner, Some token, Some hub, Some amount) \<Rightarrow>
          (case (ta_balance T, ta_allowance T) of
             (Inl e, _) \<Rightarrow> (Inl e, [])
           | (Inr balance, Inl e) \<Rightarrow> (Inl e, [])
           | (Inr balance, Inr previousAllowance) \<Rightarrow>
               if balance < amount then (Inl ''RailsCard amount exceeds the payer USDC balance'', [])
               else (case nextRailsCardAllowance previousAllowance amount of
                 Inl e \<Rightarrow> (Inl e, [])
               | Inr reservedAllowance \<Rightarrow>
                   if reservedAllowance = previousAllowance
                   then (Inr \<lparr>ar_previousAllowance = previousAllowance,
                     ar_reservedAllowance = reservedAllowance, ar_transactionHash = None\<rparr>, [])
                   else (res_bind (ta_approve T token hub reservedAllowance) (\<lambda>h.
                     Inr \<lparr>ar_previousAllowance = previousAllowance,
                       ar_reservedAllowance = reservedAllowance, ar_transactionHash = Some h\<rparr>),
                     [reservedAllowance])))
      | _ \<Rightarrow> (Inl type_error, []))"

text \<open>A reservation adds the amount to what was allowed before, up to the greatest \<open>uint256\<close>.\<close>

lemma reservation_exact:
  assumes "reserveRailsCardAllowance X T owner token hub (Inr amount) = (Inr r, approvals)"
  shows "0 < amount"
    and "ta_allowance T = Inr (ar_previousAllowance r)"
    and "ar_reservedAllowance r = min UINT256_MAX (ar_previousAllowance r + amount)"
    and "\<exists>balance. ta_balance T = Inr balance \<and> amount \<le> balance"
    and "approvals = (if ar_reservedAllowance r = ar_previousAllowance r then [] else [ar_reservedAllowance r])"
  using assms
  by (auto simp: reserveRailsCardAllowance_def res_simps dest!: next_allowance_exact
      split: option.splits sum.splits if_splits)


section \<open>Signing and submitting an envelope\<close>

definition signPermissionEnvelopeWithSigner ::
    "ethers \<Rightarrow> typed_signer \<Rightarrow> int \<Rightarrow> string \<Rightarrow> open_intent \<Rightarrow> string option \<Rightarrow> canonical_metadata option \<Rightarrow>
      sign_error + string" where
  "signPermissionEnvelopeWithSigner X signer chainId clearinghouse intent mode metadata =
     (let C = \<lparr>sc_signTypedData = sg_signTypedData signer, sc_isSmartAccount = False,
            sc_address = sg_address signer, sc_contractAddress = clearinghouse, sc_chainId = chainId,
            sc_clockSkewBufferSeconds = 0, sc_domainVersion = default_domain_version\<rparr>;
          domain = buildOpenRailsDomain chainId clearinghouse default_domain_version;
          v = buildSettlementIntentValue (json_of_intent intent)
      in if oi_nonceChannel intent = None \<or> oi_nonceValue intent = None
      then Inl (PayloadSerializationError ''nonceChannel and nonceValue are required'')
      else if (case metadata of None \<Rightarrow> False
          | Some m \<Rightarrow> hashOpenRailsMetadata (et_deps X) m \<noteq> oi_metadataHash intent)
      then Inl (PayloadSerializationError ''metadata does not match intent.metadataHash'')
      else (case sg_signTypedData signer domain v of
              Inl e \<Rightarrow> Inl (SignerError e)
            | Inr signature \<Rightarrow>
                (case recovered_elsewhere X C domain v signature of
                   Some e \<Rightarrow> Inl e
                 | None \<Rightarrow> Inr (serializeEnvelope
                     (envelope_json C signature intent (signed_mode mode metadata intent) metadata)))))"

record hub_call =
  hc_method :: string
  hc_args :: "js_value list"
  hc_nonce :: "int option"

text \<open>The call \<open>submitOpenPaycardWithSigner\<close> makes on the hub.\<close>

definition submitOpenPaycardWithSigner ::
    "ethers \<Rightarrow> string \<Rightarrow> string option \<Rightarrow> string option \<Rightarrow> string + hub_call" where
  "submitOpenPaycardWithSigner X envelopeToken mode claimRecipient =
     res_bind (deserializeEnvelope envelopeToken) (\<lambda>envelope.
     let e = field (Some envelope); intent = e ''intent''; i = field intent;
         resolvedMode = nullish_or (map_option JStr mode)
           (nullish_or (e ''mode'') (Some (JStr (inferEnvelopeModeFromIntent intent))));
         bearer = (resolvedMode = Some (JStr ''railscard_bearer''));
         args = [i ''paycardId'', i ''metadataHash'',
           (if bearer then map_option JStr claimRecipient else i ''recipient''),
           i ''totalAllocationPool'', i ''flowVelocityPerSecond'', i ''genesisTimestamp'', i ''lifespanSeconds'',
           i ''residualDeltaRecipient'', e ''envelopeSignature'', i ''nonceChannel'', i ''nonceValue'',
           e ''payerAddress'']
     in if envelope = JNull \<or> is_nullish intent then Inl type_error
     else if bearer then
       (if no_text claimRecipient \<or> no_address (et_deps X) (the claimRecipient)
        then Inl ''Bearer RailsCard claim requires a non-zero claim recipient''
        else Inr \<lparr>hc_method = ''claimWildcardPaycardChannel'', hc_args = args, hc_nonce = None\<rparr>)
     else Inr \<lparr>hc_method = ''openPaycardChannel'', hc_args = args, hc_nonce = None\<rparr>)"

end
