(* ===== verification/Gateway_Server.thy ===== *)
theory Gateway_Server
  imports Wallet
begin

text \<open>
  The REST handlers of the gateway server (\<open>server/index.ts\<close>) that act on the clearinghouse contract
  or unlock something: opening a paycard through the relayer, settling a drip, the demo flush and
  the demo resource behind an access credential; the artifact for a paid x402 request; and the
  checks they share.

  The configuration, which the module reads from the environment and from the chain at start, is a
  record.  The contract and the node answer as the record \<open>hub\<close> says, a different answer for every
  attempt to submit.  A handler gives its response and the transactions it submitted, in order.  The
  clock (seconds) is an argument.  The text of a 500 answer is the message of the error.
\<close>


section \<open>Configuration\<close>

record server_config =
  sv_dashboardMode :: string
  sv_enablePublicRelayer :: "string option"
  sv_maxAllocationUsdc :: string
  sv_maxLifespanSeconds :: js_number
  sv_maxVelocityUsdcPerSecond :: string
  sv_providerUrl :: string
  sv_chainId :: int
  sv_clearinghouseAddress :: string
  sv_usdcAddress :: string
  sv_relayerAddress :: string
  sv_hasRelayerWallet :: bool
  sv_serviceOrigin :: string
  sv_x402SellerAddress :: string
  sv_demoFlushKey :: "string option"
  sv_enableDemoCustodialFlush :: "string option"

definition ARC_PUBLIC_RELAYER_ENABLED :: "server_config \<Rightarrow> bool" where
  "ARC_PUBLIC_RELAYER_ENABLED cfg \<longleftrightarrow>
     sv_dashboardMode cfg = ''arc-testnet'' \<and> sv_enablePublicRelayer cfg = Some ''true''"

datatype capability =
  CanRelayOpen | CanMint | CanTimeTravel | CanAutoDrip | CanDemoFlush | CanGatewaySettle | CanUsePrivateKeySigning

definition currentCapabilities :: "server_config \<Rightarrow> capability \<Rightarrow> bool" where
  "currentCapabilities cfg cap =
     (if sv_dashboardMode cfg \<noteq> ''arc-testnet'' then True
      else if ARC_PUBLIC_RELAYER_ENABLED cfg then cap = CanRelayOpen
      else False)"

text \<open>The pattern \<open>/^https?:\/\/(127\.0\.0\.1|localhost)(:\d+)?/i\<close>, which says nothing of the rest.\<close>

definition isLoopbackProviderUrl :: "string \<Rightarrow> bool" where
  "isLoopbackProviderUrl url \<longleftrightarrow>
     (let u = toLowerCase url in
      \<exists>scheme \<in> {''http://'', ''https://''}. \<exists>host \<in> {''127.0.0.1'', ''localhost''}. starts_with (scheme @ host) u)"

definition isLocalSandboxMode :: "server_config \<Rightarrow> bool" where
  "isLocalSandboxMode cfg \<longleftrightarrow> sv_chainId cfg = 31337 \<and> isLoopbackProviderUrl (sv_providerUrl cfg)"


section \<open>Responses\<close>

record http_response =
  rs_status :: nat
  rs_body :: json

definition error_response :: "nat \<Rightarrow> string \<Rightarrow> http_response" where
  "error_response status e = \<lparr>rs_status = status, rs_body = JObj [(''error'', JStr e)]\<rparr>"

definition ok_response :: "(string \<times> json option) list \<Rightarrow> http_response" where
  "ok_response fs = \<lparr>rs_status = 200, rs_body = jobj fs\<rparr>"

definition forbiddenCapability :: "server_config \<Rightarrow> capability \<Rightarrow> string \<Rightarrow> http_response option" where
  "forbiddenCapability cfg cap action =
     (if currentCapabilities cfg cap then None
      else Some (error_response 403 (action @ '' is disabled in '' @ sv_dashboardMode cfg @ '' dashboard mode'')))"

text \<open>\<open>requireAddress(value, name)\<close>\<close>

definition requireAddress :: "ethers \<Rightarrow> js_value \<Rightarrow> string \<Rightarrow> string + string" where
  "requireAddress X v name =
     (let address = (if truthy v then to_text (the v) else []) in
      if no_address (et_deps X) address then Inl (name @ '' must be a non-zero EVM address'') else Inr address)"


section \<open>The contract and the node\<close>

text \<open>A log of a receipt: its address, and its name and arguments if the interface knows it.\<close>

record tx_log =
  tl_address :: string
  tl_parsed :: "(string \<times> (string \<times> int) list) option"

record tx_receipt =
  tr_blockNumber :: int
  tr_logs :: "tx_log list"

record sent_tx =
  st_hash :: string
  st_wait :: "string + tx_receipt"

record submit_error =
  se_code :: "string option"
  se_message :: "string option"

definition error_message :: "submit_error \<Rightarrow> string" where
  "error_message e = (case se_message e of Some m \<Rightarrow> m | None \<Rightarrow> [])"

record hub =
  hb_registry :: "js_value \<Rightarrow> string + paycard_row"
  hb_submit :: "nat \<Rightarrow> hub_call \<Rightarrow> submit_error + sent_tx"
  hb_pendingNonce :: "string + int"
  hb_parseUnits :: "string \<Rightarrow> nat \<Rightarrow> int option"
  hb_verifyMessage :: "string \<Rightarrow> js_value \<Rightarrow> string option"
  hb_walletAddress :: "string \<Rightarrow> string option"

definition isNonceError :: "submit_error \<Rightarrow> bool" where
  "isNonceError err \<longleftrightarrow>
     se_code err = Some ''NONCE_EXPIRED'' \<or>
     (let msg = toLowerCase (error_message err) in
      includes_text msg ''nonce too low'' \<or> includes_text msg ''nonce has already been used'')"

text \<open>The amounts of the events of one name in the logs of the clearinghouse.\<close>

definition extractVaultEventAmount :: "server_config \<Rightarrow> tx_receipt \<Rightarrow> string \<Rightarrow> string \<Rightarrow> int" where
  "extractVaultEventAmount cfg receipt eventName amountField =
     foldl (\<lambda>total log.
       if toLowerCase (tl_address log) \<noteq> toLowerCase (sv_clearinghouseAddress cfg) then total
       else (case tl_parsed log of
               Some (name, args) \<Rightarrow>
                 if name = eventName then (case map_of args amountField of Some n \<Rightarrow> total + n | None \<Rightarrow> total)
                 else total
             | None \<Rightarrow> total)) 0 (tr_logs receipt)"


section \<open>Caps of the public relayer\<close>

definition parsePublicRelayerUnits :: "hub \<Rightarrow> string \<Rightarrow> string \<Rightarrow> string + int" where
  "parsePublicRelayerUnits H v name =
     (case hb_parseUnits H v 6 of
        Some n \<Rightarrow> if 0 < n then Inr n else Inl (name @ '' must be a positive decimal USDC amount'')
      | None \<Rightarrow> Inl (name @ '' must be a positive decimal USDC amount''))"

text \<open>\<open>BigInt(v.toString())\<close>\<close>

definition big_of_text :: "js_value \<Rightarrow> string + int" where
  "big_of_text v =
     (if is_nullish v then Inl type_error
      else (case BigInt (to_text (the v)) of Some n \<Rightarrow> Inr n | None \<Rightarrow> Inl ''SyntaxError''))"

definition validatePublicRelayerCaps :: "server_config \<Rightarrow> hub \<Rightarrow> js_value \<Rightarrow> string + string list" where
  "validatePublicRelayerCaps cfg H intent =
     (if \<not> ARC_PUBLIC_RELAYER_ENABLED cfg then Inr []
      else
        res_bind (parsePublicRelayerUnits H (sv_maxAllocationUsdc cfg)
          ''OPENRAILS_PUBLIC_RELAYER_MAX_ALLOCATION_USDC'') (\<lambda>maxAllocationBase.
        res_bind (parsePublicRelayerUnits H (sv_maxVelocityUsdcPerSecond cfg)
          ''OPENRAILS_PUBLIC_RELAYER_MAX_VELOCITY_USDC_PER_SECOND'') (\<lambda>maxVelocityBase.
        res_bind (big_of_text (field intent ''totalAllocationPool'')) (\<lambda>allocation.
        res_bind (big_of_text (field intent ''flowVelocityPerSecond'')) (\<lambda>velocity.
        let lifespan = to_number (field intent ''lifespanSeconds'') in
        Inr (
          (if maxAllocationBase < allocation
           then [''totalAllocationPool exceeds public relayer cap of '' @ sv_maxAllocationUsdc cfg @ '' USDC''] else []) @
          (if lifespan = None \<or> js_less lifespan (Some 0) \<or> js_less (sv_maxLifespanSeconds cfg) lifespan
           then [''lifespanSeconds exceeds public relayer cap of '' @
             (case sv_maxLifespanSeconds cfg of Some n \<Rightarrow> show_int n | None \<Rightarrow> ''NaN'')] else []) @
          (if maxVelocityBase < velocity
           then [''flowVelocityPerSecond exceeds public relayer cap of '' @ sv_maxVelocityUsdcPerSecond cfg @ '' USDC/sec''] else [])))))))"

definition publicRelayerCaps :: "server_config \<Rightarrow> hub \<Rightarrow> string + json" where
  "publicRelayerCaps cfg H =
     res_bind (parsePublicRelayerUnits H (sv_maxAllocationUsdc cfg)
       ''OPENRAILS_PUBLIC_RELAYER_MAX_ALLOCATION_USDC'') (\<lambda>maxAllocationBase.
     res_bind (parsePublicRelayerUnits H (sv_maxVelocityUsdcPerSecond cfg)
       ''OPENRAILS_PUBLIC_RELAYER_MAX_VELOCITY_USDC_PER_SECOND'') (\<lambda>maxVelocityBase.
     Inr (JObj [
       (''maxAllocationUsdc'', JStr (sv_maxAllocationUsdc cfg)),
       (''maxAllocationBaseUnits'', JStr (show_int maxAllocationBase)),
       (''maxLifespanSeconds'', (case sv_maxLifespanSeconds cfg of Some n \<Rightarrow> JNum n | None \<Rightarrow> JNull)),
       (''maxVelocityUsdcPerSecond'', JStr (sv_maxVelocityUsdcPerSecond cfg)),
       (''maxVelocityBaseUnitsPerSecond'', JStr (show_int maxVelocityBase))])))"

text \<open>At the start of a server that relays publicly.\<close>

definition assertPublicRelayerConfig :: "server_config \<Rightarrow> hub \<Rightarrow> string + unit" where
  "assertPublicRelayerConfig cfg H =
     (if \<not> js_less (Some 0) (sv_maxLifespanSeconds cfg)
      then Inl ''OPENRAILS_PUBLIC_RELAYER_MAX_LIFESPAN_SECONDS must be a positive integer''
      else res_bind (parsePublicRelayerUnits H (sv_maxAllocationUsdc cfg)
          ''OPENRAILS_PUBLIC_RELAYER_MAX_ALLOCATION_USDC'') (\<lambda>_.
        res_bind (parsePublicRelayerUnits H (sv_maxVelocityUsdcPerSecond cfg)
          ''OPENRAILS_PUBLIC_RELAYER_MAX_VELOCITY_USDC_PER_SECOND'') (\<lambda>_. Inr ())))"


section \<open>Opening a paycard\<close>

text \<open>A request: its JSON body and its headers under their names in lower case.\<close>

record http_request =
  rq_body :: json
  rq_headers :: "(string \<times> string) list"

definition header :: "http_request \<Rightarrow> string \<Rightarrow> string option" where
  "header req name = map_of (rq_headers req) name"

text \<open>An \<open>Authorization: OpenRails\<close> header becomes the \<open>envelopeToken\<close> of the body.\<close>

definition envelopeHeaderParser :: "http_request \<Rightarrow> http_request" where
  "envelopeHeaderParser req =
     (case header req ''authorization'' of
        None \<Rightarrow> req
      | Some auth \<Rightarrow>
          let token = trim (drop (length auth_scheme) auth);
              fields = (case rq_body req of JObj fs \<Rightarrow> fs | _ \<Rightarrow> [])
          in if starts_with auth_scheme auth \<and> token \<noteq> []
             then req\<lparr>rq_body := JObj (AList.update ''envelopeToken'' (JStr token) fields)\<rparr>
             else req)"

definition paycard_request_of :: "http_request \<Rightarrow> paycard_request" where
  "paycard_request_of req =
     (let b = field (Some (rq_body req)) in
      \<lparr>pr_envelopeToken = b ''envelopeToken'',
       pr_claimRecipient = b ''claimRecipient'',
       pr_policyEnvelope = b ''policyEnvelope'',
       pr_mode = b ''mode'',
       pr_openRailsPaycardId = map_option JStr (header req ''x-openrails-paycard-id''),
       pr_openRailsMetadataHash = map_option JStr (header req ''x-openrails-metadata-hash'')\<rparr>)"

definition open_call :: "paycard_grant \<Rightarrow> int option \<Rightarrow> hub_call" where
  "open_call g nonce =
     (let intent = field (Some (pg_decoded g)) ''intent''; i = field intent in
      \<lparr>hc_method = (if pg_isWildcardRailsCard g then ''claimWildcardPaycardChannel'' else ''openPaycardChannel''),
       hc_args = [i ''paycardId'', i ''metadataHash'',
         (if pg_isWildcardRailsCard g then pg_claimRecipient g else i ''recipient''),
         i ''totalAllocationPool'', i ''flowVelocityPerSecond'', i ''genesisTimestamp'', i ''lifespanSeconds'',
         i ''residualDeltaRecipient'', field (Some (pg_decoded g)) ''envelopeSignature'',
         i ''nonceChannel'', i ''nonceValue''],
       hc_nonce = nonce\<rparr>)"

text \<open>One attempt, and after a nonce error one more with a fresh nonce: the transaction and the calls.\<close>

definition submit_with_retry ::
    "server_config \<Rightarrow> hub \<Rightarrow> (int option \<Rightarrow> hub_call) \<Rightarrow> (string + sent_tx) \<times> hub_call list" where
  "submit_with_retry cfg H call =
     (case hb_submit H 0 (call None) of
        Inr tx \<Rightarrow> (Inr tx, [call None])
      | Inl e \<Rightarrow>
          if \<not> isNonceError e then (Inl (error_message e), [call None])
          else if \<not> sv_hasRelayerWallet cfg then (Inl ''Relayer wallet is unavailable'', [call None])
          else (case hb_pendingNonce H of
                  Inl e' \<Rightarrow> (Inl e', [call None])
                | Inr freshNonce \<Rightarrow>
                    (case hb_submit H 1 (call (Some freshNonce)) of
                       Inr tx \<Rightarrow> (Inr tx, [call None, call (Some freshNonce)])
                     | Inl e' \<Rightarrow> (Inl (error_message e'), [call None, call (Some freshNonce)]))))"

text \<open>The version of the domain the hub of this server signs under.\<close>

definition hub_domain_version :: string where
  "hub_domain_version = ''1.0.0''"

definition opened_response ::
    "ethers \<Rightarrow> server_config \<Rightarrow> int \<Rightarrow> paycard_grant \<Rightarrow> sent_tx \<Rightarrow> tx_receipt \<Rightarrow> paycard_row \<Rightarrow> string + http_response" where
  "opened_response X cfg nowSeconds g tx receipt openedCard =
     (let intent = the (field (Some (pg_decoded g)) ''intent'') in
      res_bind (case hashSettlementIntent X intent (sv_chainId cfg) (sv_clearinghouseAddress cfg) hub_domain_version of
          None \<Rightarrow> Inl type_error | Some h \<Rightarrow> Inr h) (\<lambda>intentDigest.
      res_bind (buildIntentProof X nowSeconds (pg_decoded g)
          (Some (sv_chainId cfg, sv_clearinghouseAddress cfg)) (Some (pg_envelopeMode g))) (\<lambda>intentProof.
      Inr (ok_response [
        (''success'', Some (JBool True)),
        (''txHash'', Some (JStr (st_hash tx))),
        (''blockNumber'', Some (JNum (tr_blockNumber receipt))),
        (''paycardId'', field (Some intent) ''paycardId''),
        (''mode'', Some (JStr (pg_envelopeMode g))),
        (''workflowId'', pg_workflowId g),
        (''proof'', Some (buildTransactionProof nowSeconds [
          (''stage'', Some (JStr ''opened_escrow'')),
          (''paycardId'', field (Some intent) ''paycardId''),
          (''txHash'', Some (JStr (st_hash tx))),
          (''blockNumber'', Some (JNum (tr_blockNumber receipt))),
          (''payer'', Some (JStr (row_payer openedCard))),
          (''recipient'', Some (JStr (row_recipient openedCard))),
          (''amount'', Some (JStr (show_int (row_totalAllocationPool openedCard)))),
          (''metadataHash'', Some (JStr (row_metadataHash openedCard))),
          (''workflowId'', pg_workflowId g),
          (''intentDigest'', Some (JStr intentDigest)),
          (''mode'', Some (JStr (pg_envelopeMode g)))])),
        (''intentProof'', Some intentProof)]))))"

definition respond :: "string + http_response \<Rightarrow> http_response" where
  "respond r = (case r of Inr resp \<Rightarrow> resp | Inl e \<Rightarrow> error_response 500 e)"

definition refusal_response :: "paycard_refusal \<Rightarrow> http_response" where
  "refusal_response r =
     (case r of Paycard_refused e reasons \<Rightarrow>
        \<lparr>rs_status = 400, rs_body = JObj ((''error'', JStr e) #
           (if reasons = [] then [] else [(''reasons'', JArr (map JStr reasons))]))\<rparr>)"

text \<open>\<open>POST /api/paycard/open\<close>, after the rate limiter and the header parser.\<close>

definition open_paycard ::
    "ethers \<Rightarrow> server_config \<Rightarrow> hub \<Rightarrow> int \<Rightarrow> http_request \<Rightarrow> http_response \<times> hub_call list" where
  "open_paycard X cfg H nowSeconds req =
     (case forbiddenCapability cfg CanRelayOpen ''Local relayer submission'' of
        Some resp \<Rightarrow> (resp, [])
      | None \<Rightarrow>
          (case validateOpenPaycardRequest X nowSeconds (paycard_request_of (envelopeHeaderParser req))
               (Some (sv_usdcAddress cfg)) of
             Inl e \<Rightarrow> (error_response 500 e, [])
           | Inr (Inl r) \<Rightarrow> (refusal_response r, [])
           | Inr (Inr g) \<Rightarrow>
               let intent = field (Some (pg_decoded g)) ''intent'' in
               (case validatePublicRelayerCaps cfg H intent of
                  Inl e \<Rightarrow> (error_response 500 e, [])
                | Inr (r # rs) \<Rightarrow>
                    (respond (res_bind (publicRelayerCaps cfg H) (\<lambda>caps. Inr \<lparr>rs_status = 400,
                       rs_body = JObj [(''error'', JStr ''Public relayer cap exceeded''),
                         (''reasons'', JArr (map JStr (r # rs))), (''caps'', caps)]\<rparr>)), [])
                | Inr [] \<Rightarrow>
                    (case submit_with_retry cfg H (open_call g) of
                       (Inl e, calls) \<Rightarrow> (error_response 500 e, calls)
                     | (Inr tx, calls) \<Rightarrow>
                         (respond (res_bind (st_wait tx) (\<lambda>receipt.
                            res_bind (hb_registry H (field intent ''paycardId'')) (\<lambda>openedCard.
                            opened_response X cfg nowSeconds g tx receipt openedCard))), calls)))))"


section \<open>Settling and flushing\<close>

definition simple_call :: "string \<Rightarrow> js_value \<Rightarrow> hub_call" where
  "simple_call m paycardId = \<lparr>hc_method = m, hc_args = [paycardId], hc_nonce = None\<rparr>"

text \<open>One submission, its receipt, and what is answered from them.\<close>

definition submit_and_wait ::
    "hub \<Rightarrow> hub_call \<Rightarrow> (sent_tx \<Rightarrow> tx_receipt \<Rightarrow> http_response) \<Rightarrow> http_response \<times> hub_call list" where
  "submit_and_wait H call answer =
     (case hb_submit H 0 call of
        Inl e \<Rightarrow> (error_response 500 (error_message e), [call])
      | Inr tx \<Rightarrow> (respond (res_bind (st_wait tx) (\<lambda>receipt. Inr (answer tx receipt))), [call]))"

text \<open>\<open>POST /api/paycard/drip\<close>\<close>

definition drip :: "ethers \<Rightarrow> server_config \<Rightarrow> hub \<Rightarrow> int \<Rightarrow> http_request \<Rightarrow> http_response \<times> hub_call list" where
  "drip X cfg H nowSeconds req =
     (case forbiddenCapability cfg CanGatewaySettle ''Gateway drip settlement'' of
        Some resp \<Rightarrow> (resp, [])
      | None \<Rightarrow>
          let paycardId = field (Some (rq_body req)) ''paycardId'' in
          if \<not> truthy paycardId \<or> \<not> is_hex_value X paycardId 32
          then (error_response 400 ''paycardId must be a bytes32 hex string'', [])
          else (case hb_registry H paycardId of
                  Inl e \<Rightarrow> (error_response 500 e, [])
                | Inr row \<Rightarrow>
                    if row_payer row = ZeroAddress then (error_response 404 ''Paycard not found'', [])
                    else if row_operationalStatus row \<noteq> 0 then (error_response 400 ''Paycard is not active'', [])
                    else submit_and_wait H (simple_call ''processDripSettle'' paycardId) (\<lambda>tx receipt.
                      ok_response [
                        (''success'', Some (JBool True)),
                        (''txHash'', Some (JStr (st_hash tx))),
                        (''blockNumber'', Some (JNum (tr_blockNumber receipt))),
                        (''settledAmount'', Some (JStr (show_int
                          (extractVaultEventAmount cfg receipt ''SettlementFlushed'' ''amountWithdrawn'')))),
                        (''proof'', Some (buildTransactionProof nowSeconds [
                          (''stage'', Some (JStr ''settlement'')),
                          (''paycardId'', paycardId),
                          (''txHash'', Some (JStr (st_hash tx))),
                          (''blockNumber'', Some (JNum (tr_blockNumber receipt)))]))])))"

definition buildFlushAuthorizationMessage :: "server_config \<Rightarrow> string \<Rightarrow> string" where
  "buildFlushAuthorizationMessage cfg paycardId =
     js_join (char_of (10::nat)) [''OpenRails flush authorization'', ''chainId:'' @ show_int (sv_chainId cfg),
       ''hub:'' @ sv_clearinghouseAddress cfg, ''paycardId:'' @ paycardId]"

text \<open>
  The signer of the demo flush: the configured key if custody is enabled, else the impersonated
  caller; \<open>None\<close> if the key is another account's.
\<close>

definition demo_signer :: "server_config \<Rightarrow> hub \<Rightarrow> string \<Rightarrow> string + string option" where
  "demo_signer cfg H recovered =
     (case sv_demoFlushKey cfg of
        Some key \<Rightarrow>
          if sv_enableDemoCustodialFlush cfg = Some ''true'' \<and> key \<noteq> [] then
            (case hb_walletAddress H key of
               None \<Rightarrow> Inl type_error
             | Some a \<Rightarrow> Inr (if toLowerCase a \<noteq> toLowerCase recovered then None else Some a))
          else Inr (Some recovered)
      | None \<Rightarrow> Inr (Some recovered))"

text \<open>\<open>POST /api/paycard/flush\<close>; a call is made as the demo signer.\<close>

definition flush :: "ethers \<Rightarrow> server_config \<Rightarrow> hub \<Rightarrow> int \<Rightarrow> http_request \<Rightarrow>
    http_response \<times> (string \<times> hub_call) list" where
  "flush X cfg H nowSeconds req =
     (case forbiddenCapability cfg CanDemoFlush ''Demo residual flush'' of
        Some resp \<Rightarrow> (resp, [])
      | None \<Rightarrow>
          let b = field (Some (rq_body req)); paycardId = b ''paycardId''; caller = b ''caller'';
              authorizationSignature = b ''authorizationSignature'' in
          if \<not> truthy paycardId then (error_response 400 ''Missing paycardId'', [])
          else if \<not> truthy caller \<or> \<not> truthy authorizationSignature
          then (error_response 403 ''Flush requires caller authorization signature'', [])
          else (case hb_registry H paycardId of
            Inl e \<Rightarrow> (error_response 500 e, [])
          | Inr row \<Rightarrow>
            if row_payer row = ZeroAddress then (error_response 404 ''Paycard not found'', [])
            else (case hb_verifyMessage H (buildFlushAuthorizationMessage cfg (to_text (the paycardId)))
                authorizationSignature of
              None \<Rightarrow> (error_response 500 type_error, [])
            | Some recovered \<Rightarrow>
              (case caller of
                Some (JStr c) \<Rightarrow>
                  if toLowerCase recovered \<noteq> toLowerCase c
                  then (error_response 403 ''Flush authorization signer mismatch'', [])
                  else if toLowerCase recovered \<noteq> toLowerCase (row_payer row) \<and>
                    toLowerCase recovered \<noteq> toLowerCase (row_recipient row)
                  then (error_response 403 ''Caller is not payer or recipient for this paycard'', [])
                  else if \<not> isLocalSandboxMode cfg
                  then (error_response 403 (''Demo flush is available only in the local Hardhat sandbox. '' @
                    ''Submit flushResidualDelta from payer or recipient wallet.''), [])
                  else (case demo_signer cfg H recovered of
                    Inl e \<Rightarrow> (error_response 500 e, [])
                  | Inr None \<Rightarrow> (error_response 403 ''Configured demo flush key does not match authorized caller'', [])
                  | Inr (Some demo) \<Rightarrow>
                      apsnd (map (Pair demo))
                        (submit_and_wait H (simple_call ''flushResidualDelta'' paycardId) (\<lambda>tx receipt.
                        ok_response [
                          (''success'', Some (JBool True)),
                          (''txHash'', Some (JStr (st_hash tx))),
                          (''blockNumber'', Some (JNum (tr_blockNumber receipt))),
                          (''recoveredAmount'', Some (JStr (show_int
                            (extractVaultEventAmount cfg receipt ''ResidualDeltaReclaimed'' ''varianceSwept'')))),
                          (''settledAmount'', Some (JStr (show_int
                            (extractVaultEventAmount cfg receipt ''SettlementFlushed'' ''amountWithdrawn'')))),
                          (''proof'', Some (buildTransactionProof nowSeconds [
                            (''stage'', Some (JStr ''residual_reclaim'')),
                            (''paycardId'', paycardId),
                            (''txHash'', Some (JStr (st_hash tx))),
                            (''blockNumber'', Some (JNum (tr_blockNumber receipt)))]))])))
              | _ \<Rightarrow> (error_response 500 type_error, [])))))"


section \<open>What a credential unlocks\<close>

definition PROTECTED_SCOPE :: string where
  "PROTECTED_SCOPE = ''GET /api/demo/protected-resource''"

definition access_headers_of :: "http_request \<Rightarrow> access_headers" where
  "access_headers_of req =
     \<lparr>ah_authorization = header req ''authorization'',
      ah_openRailsCredentialType = header req ''x-openrails-credential-type'',
      ah_openRailsPaycardId = header req ''x-openrails-paycard-id'',
      ah_openRailsMetadataHash = header req ''x-openrails-metadata-hash'',
      ah_openRailsMode = header req ''x-openrails-mode''\<rparr>"

definition protected_options :: "server_config \<Rightarrow> int \<Rightarrow> access_options" where
  "protected_options cfg nowSeconds =
     \<lparr>ao_expectedChainId = sv_chainId cfg, ao_expectedVault = sv_clearinghouseAddress cfg,
      ao_expectedService = sv_relayerAddress cfg, ao_expectedServiceOrigin = sv_serviceOrigin cfg,
      ao_expectedScope = PROTECTED_SCOPE, ao_now = nowSeconds\<rparr>"

text \<open>\<open>GET /api/demo/protected-resource\<close>\<close>

definition protected_resource :: "ethers \<Rightarrow> server_config \<Rightarrow> hub \<Rightarrow> int \<Rightarrow> http_request \<Rightarrow> http_response" where
  "protected_resource X cfg H nowSeconds req =
     (if \<not> isLocalSandboxMode cfg \<or> \<not> sv_hasRelayerWallet cfg
      then error_response 403 ''Protected demo resource is available only in local sandbox mode''
      else (case validateOpenRailsAccessRequest X (access_headers_of req) (protected_options cfg nowSeconds) of
        Inl e \<Rightarrow> error_response 500 e
      | Inr (Refused e) \<Rightarrow> error_response 401 e
      | Inr (Granted (credential, signer)) \<Rightarrow>
          (case hb_registry H (field (Some credential) ''paycardId'') of
             Inl e \<Rightarrow> error_response 500 e
           | Inr row \<Rightarrow>
               if row_payer row = ZeroAddress then error_response 404 ''Paycard not found''
               else if Some (JStr (row_metadataHash row)) \<noteq> field (Some credential) ''metadataHash''
               then error_response 403 ''Credential metadataHash does not match Vault row''
               else if row_operationalStatus row \<noteq> 0 then error_response 403 ''Paycard is not active''
               else if toLowerCase signer \<noteq> toLowerCase (row_payer row) \<and>
                 toLowerCase signer \<noteq> toLowerCase (row_recipient row)
               then error_response 403 ''Credential signer is not payer or recipient''
               else ok_response [
                 (''success'', Some (JBool True)),
                 (''message'', Some (JStr ''OpenRails protected demo resource unlocked'')),
                 (''paycardId'', field (Some credential) ''paycardId''),
                 (''metadataHash'', field (Some credential) ''metadataHash''),
                 (''mode'', field (Some credential) ''mode''),
                 (''signer'', Some (JStr signer)),
                 (''availableBalance'', Some (JStr (show_int (row_availableBalance row)))),
                 (''scope'', Some (JStr PROTECTED_SCOPE))])))"


section \<open>Recovering paycards\<close>

definition parseRecoveryBlockParam :: "js_value \<Rightarrow> string \<Rightarrow> string + int option" where
  "parseRecoveryBlockParam v name =
     (case v of
        None \<Rightarrow> Inr None
      | Some w \<Rightarrow>
          let raw = to_text w in
          if raw = [] \<or> \<not> list_all is_digit raw then Inl (name @ '' must be a non-negative integer'')
          else let parsed = js_round (int (dec_value 0 raw)) in
            if 2 ^ 53 - 1 < parsed then Inl (name @ '' is too large'') else Inr (Some parsed))"

definition PAYCARD_RECOVERY_MAX_LIMIT :: int where
  "PAYCARD_RECOVERY_MAX_LIMIT = 50"

definition parseRecoveryLimitParam :: "js_value \<Rightarrow> string + int" where
  "parseRecoveryLimitParam v =
     (case v of
        None \<Rightarrow> Inr 20
      | Some w \<Rightarrow>
          let raw = to_text w in
          if raw = [] \<or> \<not> list_all is_digit raw then Inl ''limit must be a positive integer''
          else let parsed = js_round (int (dec_value 0 raw)) in
            if parsed \<le> 0 \<or> PAYCARD_RECOVERY_MAX_LIMIT < parsed
            then Inl (''limit must be between 1 and '' @ show_int PAYCARD_RECOVERY_MAX_LIMIT)
            else Inr parsed)"

text \<open>The query parameters, \<open>String\<close> of those that are truthy; the answer in terms of the search.\<close>

record recovery_query =
  rq_payer :: js_value
  rq_recipient :: js_value
  rq_metadataHash :: js_value
  rq_fromBlock :: js_value
  rq_toBlock :: js_value
  rq_limit :: js_value

definition query_text :: "js_value \<Rightarrow> string option" where
  "query_text v = (if truthy v then Some (to_text (the v)) else None)"

text \<open>The status of a thrown error goes by its message.\<close>

definition recovery_error :: "string \<Rightarrow> nat \<times> string" where
  "recovery_error e =
     (let m = toLowerCase e in
      (if \<exists>t \<in> {''must be'', ''invalid'', ''exceeds'', ''required''}. includes_text m t then 400 else 500, e))"

text \<open>The range and the limit of a request, from the latest block on.\<close>

definition recovery_range ::
    "int \<Rightarrow> recovery_query \<Rightarrow> (nat \<times> string) + int \<times> int \<times> int" where
  "recovery_range latestBlock q =
     (let thrown = (\<lambda>r. case r of Inl e \<Rightarrow> Inl (recovery_error e) | Inr v \<Rightarrow> Inr v) in
      res_bind (thrown (parseRecoveryBlockParam (rq_fromBlock q) ''fromBlock'')) (\<lambda>requestedFromBlock.
      res_bind (thrown (parseRecoveryBlockParam (rq_toBlock q) ''toBlock'')) (\<lambda>requestedToBlock.
      let fromBlock = or_default requestedFromBlock (max 0 (latestBlock - 50000));
          toBlock = or_default requestedToBlock latestBlock in
      res_bind (case parseRecoveryLimitParam (rq_limit q) of
          Inl e \<Rightarrow> Inl (recovery_error e) | Inr n \<Rightarrow> Inr n) (\<lambda>limit.
      if toBlock < fromBlock then Inl (400, ''toBlock must be greater than or equal to fromBlock'')
      else if 250000 < toBlock - fromBlock then Inl (400, ''Recovery block range exceeds 250000 blocks'')
      else Inr (fromBlock, toBlock, limit)))))"

text \<open>
  \<open>GET /api/paycards/recover\<close>: the range, the limit and the paycards found.  \<open>P\<close> gives the provider
  for the payer and the recipient the logs are asked of.
\<close>

definition recover_endpoint ::
    "ethers \<Rightarrow> server_config \<Rightarrow> (string option \<Rightarrow> string option \<Rightarrow> chain_provider) \<Rightarrow> recovery_query \<Rightarrow>
      ((nat \<times> string) + (int \<times> int \<times> int) \<times> recovered_paycard list) option" where
  "recover_endpoint X cfg P q =
     (let payer = query_text (rq_payer q); recipient = query_text (rq_recipient q);
          metadataHash = query_text (rq_metadataHash q); provider = P payer recipient in
      if no_text payer \<and> no_text recipient then Some (Inl (400, ''payer or recipient is required''))
      else if \<not> no_text payer \<and> bad_address X payer then Some (Inl (400, ''Invalid payer address''))
      else if \<not> no_text recipient \<and> bad_address X recipient then Some (Inl (400, ''Invalid recipient address''))
      else if \<not> no_text metadataHash \<and> \<not> et_isHexString X (the metadataHash) 32
      then Some (Inl (400, ''metadataHash must be a bytes32 hex string''))
      else (case cp_blockNumber provider of
        Inl e \<Rightarrow> Some (Inl (recovery_error e))
      | Inr latestBlock \<Rightarrow>
          (case recovery_range latestBlock q of
             Inl e \<Rightarrow> Some (Inl e)
           | Inr (fromBlock, toBlock, limit) \<Rightarrow>
               map_option (\<lambda>r. case r of
                   Inl e \<Rightarrow> Inl (recovery_error e)
                 | Inr results \<Rightarrow> Inr ((fromBlock, toBlock, limit), results))
                 (recoverPaycardsFromLogs X provider (sv_clearinghouseAddress cfg)
                   \<lparr>ro_payer = payer, ro_recipient = recipient, ro_metadataHash = metadataHash,
                    ro_fromBlock = Some fromBlock, ro_toBlock = Some toBlock, ro_limit = Some limit,
                    ro_chunkSize = Some 5000\<rparr>))))"


section \<open>Artifacts for paid requests\<close>

record x402_payment =
  xp_payer :: string
  xp_amount :: string
  xp_network :: string
  xp_transaction :: "string option"

definition requireArcX402Mode :: "server_config \<Rightarrow> http_response option" where
  "requireArcX402Mode cfg =
     (if sv_dashboardMode cfg \<noteq> ''arc-testnet'' \<or> sv_chainId cfg \<noteq> 5042002
      then Some (error_response 403 ''Circle x402 OpenRails artifacts require Arc testnet dashboard mode'')
      else None)"

definition X402_OPENRAILS_SCOPE :: string where
  "X402_OPENRAILS_SCOPE = ''GET /api/x402/openrails-artifact''"

definition x402_metadata :: "ethers \<Rightarrow> server_config \<Rightarrow> x402_payment \<Rightarrow> canonical_metadata" where
  "x402_metadata X cfg payment =
     (let settlementId = or_default (xp_transaction payment) [];
          descriptionHash = ext_keccakUtf8 (et_deps X) (js_stringify (JObj [
            (''amount'', JStr (xp_amount payment)),
            (''network'', JStr (xp_network payment)),
            (''payer'', JStr (xp_payer payment)),
            (''scope'', JStr X402_OPENRAILS_SCOPE),
            (''seller'', JStr (sv_x402SellerAddress cfg)),
            (''settlementId'', JStr settlementId)]))
      in \<lparr>cm_version = ''openrails-metadata-v1'', cm_mode = ''railsflow'', cm_originator = xp_payer payment,
          cm_recipient = sv_x402SellerAddress cfg, cm_token = sv_usdcAddress cfg, cm_amount = xp_amount payment,
          cm_flowVelocityPerSecond = ''0'', cm_lifespanSeconds = 0, cm_workflowId = None,
          cm_metadataRef = Some (if settlementId \<noteq> [] then ''circle-x402:'' @ settlementId else ''circle-x402:pending''),
          cm_descriptionHash = Some descriptionHash, cm_expiresAt = None\<rparr>)"

text \<open>The metadata and its hash, or the refusal; the rest of the answer repeats the configuration.\<close>

definition x402_artifact ::
    "ethers \<Rightarrow> server_config \<Rightarrow> x402_payment option \<Rightarrow> http_response + canonical_metadata \<times> string" where
  "x402_artifact X cfg payment =
     (case requireArcX402Mode cfg of
        Some resp \<Rightarrow> Inl resp
      | None \<Rightarrow>
          (case payment of
             None \<Rightarrow> Inl (error_response 502 ''Circle x402 payment metadata was not attached'')
           | Some p \<Rightarrow>
               if \<not> isAddress (et_deps X) (xp_payer p)
               then Inl (error_response 502 ''Circle x402 payment payer is not an EVM address'')
               else let metadata = x402_metadata X cfg p in
                 Inr (metadata, hashOpenRailsMetadata (et_deps X) metadata)))"


section \<open>What the handlers guarantee\<close>

lemma forbiddenCapability_None: "forbiddenCapability cfg cap action = None \<longleftrightarrow> currentCapabilities cfg cap"
  by (simp add: forbiddenCapability_def)

text \<open>The calls of one submission: one attempt, or two around a nonce error.\<close>

definition retried :: "hub \<Rightarrow> (int option \<Rightarrow> hub_call) \<Rightarrow> hub_call list \<Rightarrow> bool" where
  "retried H call calls \<longleftrightarrow>
     calls = [call None] \<or>
     (\<exists>e n. hb_submit H 0 (call None) = Inl e \<and> isNonceError e \<and> hb_pendingNonce H = Inr n \<and>
       calls = [call None, call (Some n)])"

lemma submit_with_retry_calls: "retried H call (snd (submit_with_retry cfg H call))"
  by (auto simp: submit_with_retry_def retried_def split: sum.split)

lemma open_paycard_calls:
  assumes "snd (open_paycard X cfg H nowSeconds req) \<noteq> []"
  shows "currentCapabilities cfg CanRelayOpen \<and>
    (\<exists>g. validateOpenPaycardRequest X nowSeconds (paycard_request_of (envelopeHeaderParser req))
          (Some (sv_usdcAddress cfg)) = Inr (Inr g) \<and>
      validatePublicRelayerCaps cfg H (field (Some (pg_decoded g)) ''intent'') = Inr [] \<and>
      retried H (open_call g) (snd (open_paycard X cfg H nowSeconds req)))"
proof -
  from assms obtain g where g: "forbiddenCapability cfg CanRelayOpen ''Local relayer submission'' = None"
      "validateOpenPaycardRequest X nowSeconds (paycard_request_of (envelopeHeaderParser req))
        (Some (sv_usdcAddress cfg)) = Inr (Inr g)"
      "validatePublicRelayerCaps cfg H (field (Some (pg_decoded g)) ''intent'') = Inr []"
    by (auto simp: open_paycard_def Let_def split: option.splits sum.splits list.splits)
  then have "snd (open_paycard X cfg H nowSeconds req) = snd (submit_with_retry cfg H (open_call g))"
    by (auto simp: open_paycard_def split: prod.split sum.split)
  with g submit_with_retry_calls show ?thesis by (auto simp: forbiddenCapability_None)
qed

lemma caps_bound:
  assumes "validatePublicRelayerCaps cfg H intent = Inr []" and "ARC_PUBLIC_RELAYER_ENABLED cfg"
  shows "\<exists>A V a v t. hb_parseUnits H (sv_maxAllocationUsdc cfg) 6 = Some A \<and>
      hb_parseUnits H (sv_maxVelocityUsdcPerSecond cfg) 6 = Some V \<and>
      big_of_text (field intent ''totalAllocationPool'') = Inr a \<and> a \<le> A \<and>
      big_of_text (field intent ''flowVelocityPerSecond'') = Inr v \<and> v \<le> V \<and>
      to_number (field intent ''lifespanSeconds'') = Some t \<and> 0 \<le> t \<and>
      (\<forall>m. sv_maxLifespanSeconds cfg = Some m \<longrightarrow> t \<le> m)"
  using assms
  by (auto simp: validatePublicRelayerCaps_def parsePublicRelayerUnits_def res_simps Let_def not_less
      split: if_splits option.splits)

text \<open>The protected resource opens exactly for the payer or the recipient of an active paycard.\<close>

lemma protected_resource_exact:
  "rs_status (protected_resource X cfg H nowSeconds req) = 200 \<longleftrightarrow>
    isLocalSandboxMode cfg \<and> sv_hasRelayerWallet cfg \<and>
    (\<exists>c signer row.
      validateOpenRailsAccessRequest X (access_headers_of req) (protected_options cfg nowSeconds) =
        Inr (Granted (c, signer)) \<and>
      hb_registry H (field (Some c) ''paycardId'') = Inr row \<and>
      row_payer row \<noteq> ZeroAddress \<and> field (Some c) ''metadataHash'' = Some (JStr (row_metadataHash row)) \<and>
      row_operationalStatus row = 0 \<and>
      (toLowerCase signer = toLowerCase (row_payer row) \<or> toLowerCase signer = toLowerCase (row_recipient row)))"
  by (auto simp: protected_resource_def error_response_def ok_response_def
      split: sum.split decision.split prod.split)

text \<open>A flush is signed by, and made for, the payer or the recipient.\<close>

lemma demo_signer_for: "demo_signer cfg H recovered = Inr (Some d) \<Longrightarrow> toLowerCase d = toLowerCase recovered"
  by (auto simp: demo_signer_def split: option.splits if_splits)

lemma flush_calls:
  assumes "(d, call) \<in> set (snd (flush X cfg H nowSeconds req))"
  shows "isLocalSandboxMode cfg \<and>
    (\<exists>i row recovered.
      field (Some (rq_body req)) ''paycardId'' = Some i \<and> call = simple_call ''flushResidualDelta'' (Some i) \<and>
      hb_registry H (Some i) = Inr row \<and>
      hb_verifyMessage H (buildFlushAuthorizationMessage cfg (to_text i))
        (field (Some (rq_body req)) ''authorizationSignature'') = Some recovered \<and>
      toLowerCase d = toLowerCase recovered \<and>
      (toLowerCase recovered = toLowerCase (row_payer row) \<or> toLowerCase recovered = toLowerCase (row_recipient row)))"
proof (cases "field (Some (rq_body req)) ''paycardId''")
  case (Some i)
  with assms show ?thesis
    by (auto simp: flush_def Let_def submit_and_wait_def dest!: demo_signer_for
        split: option.splits sum.splits if_splits json.splits)
next
  case None
  with assms show ?thesis by (simp add: flush_def Let_def split: option.splits)
qed

end
