(* ===== verification/Link_Codec.thy ===== *)
theory Link_Codec
  imports Compact_Links
begin

text \<open>
  The compact link token reads back: each writer is matched with its reader, the matches compose
  like the calls do, and the whole artifact comes back in canonical form.
\<close>


section \<open>Matching a writer with a reader\<close>

definition reads_back :: "(byte list \<Rightarrow> string + byte list) \<Rightarrow> 'a reader \<Rightarrow> 'a \<Rightarrow> bool" where
  "reads_back w r x \<longleftrightarrow>
     (\<forall>chunks out. w chunks = Inr out \<longrightarrow>
        (\<exists>bs. out = chunks @ bs \<and> (\<forall>rest. r (bs @ rest) = Inr (x, rest))))"

lemma reads_backI:
  assumes "\<And>chunks out. w chunks = Inr out \<Longrightarrow>
    \<exists>bs. out = chunks @ bs \<and> (\<forall>rest. r (bs @ rest) = Inr (x, rest))"
  shows "reads_back w r x"
  using assms by (simp add: reads_back_def)

lemma reads_backD:
  assumes "reads_back w r x" and "w chunks = Inr out"
  obtains bs where "out = chunks @ bs" "\<And>rest. r (bs @ rest) = Inr (x, rest)"
  using assms by (auto simp: reads_back_def)

lemma reads_seq:
  assumes "reads_back w r x" and "reads_back v (f x) y"
  shows "reads_back (\<lambda>c. res_bind (w c) v) (reader_bind r f) y"
proof (rule reads_backI)
  fix chunks out
  assume "res_bind (w chunks) v = Inr out"
  then obtain mid where "w chunks = Inr mid" "v mid = Inr out" by (auto simp: res_simps)
  from reads_backD [OF assms(1) this(1)] reads_backD [OF assms(2) this(2)]
  obtain bs cs where "out = chunks @ bs @ cs" "\<And>rest. r (bs @ rest) = Inr (x, rest)"
      "\<And>rest. f x (cs @ rest) = Inr (y, rest)"
    by (metis append.assoc)
  then show "\<exists>bs. out = chunks @ bs \<and> (\<forall>rest. reader_bind r f (bs @ rest) = Inr (y, rest))"
    by (intro exI [of _ "bs @ cs"]) (simp add: reader_bind_def)
qed

lemma reader_map_Inr: "r bs = Inr (x, rest) \<Longrightarrow> reader_map f r bs = Inr (f x, rest)"
  by (simp add: reader_map_def reader_bind_def reader_return_def)

lemma reads_map: "reads_back w r x \<Longrightarrow> reads_back w (reader_map f r) (f x)"
  unfolding reads_back_def
  by (meson res_bind.simps(2) reader_map_Inr)

text \<open>Reading on after the last write.\<close>

lemma reads_last:
  assumes "reads_back w r x" and "\<And>rest. f x rest = Inr (y, rest)"
  shows "reads_back w (reader_bind r f) y"
  unfolding reads_back_def
proof (intro allI impI)
  fix chunks out
  assume "w chunks = Inr out"
  from reads_backD [OF assms(1) this] obtain bs
    where "out = chunks @ bs" "\<And>rest. r (bs @ rest) = Inr (x, rest)" by blast
  then show "\<exists>bs. out = chunks @ bs \<and> (\<forall>rest. reader_bind r f (bs @ rest) = Inr (y, rest))"
    by (intro exI [of _ bs]) (simp add: reader_bind_def assms(2))
qed


section \<open>Numbers\<close>

lemma length_be_bytes [simp]: "length (be_bytes n v) = n"
  by (induction n) simp_all

lemma uint_byte: "0 \<le> v \<Longrightarrow> v < 256 \<Longrightarrow> uint (word_of_int v :: byte) = v"
  by (simp add: uint_word_of_int)

lemma be_value_acc:
  "foldl (\<lambda>v b. push_bit 8 v + uint b) acc (be_bytes n v) = acc * 256 ^ n + v mod 256 ^ n"
proof (induction n arbitrary: acc)
  case (Suc n)
  let ?d = "v div 256 ^ n mod 256"
  have d: "uint (word_of_int (drop_bit (8 * n) v mod 256) :: byte) = ?d"
    by (simp add: uint_byte drop_bit_eq_div power_mult)
  have "v mod (256 ^ n * 256) = 256 ^ n * ?d + v mod 256 ^ n"
    by (rule zmod_zmult2_eq) simp
  then have "v mod 256 ^ Suc n = 256 ^ n * ?d + v mod 256 ^ n" by (simp only: power_Suc2)
  moreover have "foldl (\<lambda>v b. push_bit 8 v + uint b) acc (be_bytes (Suc n) v)
      = (acc * 256 + ?d) * 256 ^ n + v mod 256 ^ n"
    by (simp only: be_bytes.simps foldl.simps Suc.IH d) (simp add: push_bit_eq_mult)
  ultimately show ?case by (simp add: algebra_simps)
qed simp

lemma be_value_bytes: "0 \<le> v \<Longrightarrow> v < 256 ^ n \<Longrightarrow> be_value (be_bytes n v) = v"
  by (simp add: be_value_def be_value_acc)

lemma reads_bytes:
  assumes "length bs = n"
  shows "readBytes n (bs @ rest) = Inr (bs, rest)"
  using assms by (simp add: readBytes_def)

lemma reads_uint8: "reads_back (writeUint8 v) readUint8 v"
proof (rule reads_backI)
  fix chunks out
  assume "writeUint8 v chunks = Inr out"
  then have "out = chunks @ [word_of_int v]" "0 \<le> v" "v < 256"
    by (auto simp: writeUint8_def split: if_splits)
  then show "\<exists>bs. out = chunks @ bs \<and> (\<forall>rest. readUint8 (bs @ rest) = Inr (v, rest))"
    by (intro exI [of _ "[word_of_int v]"])
      (simp add: readUint8_def reader_map_def reader_bind_def reader_return_def readBytes_def uint_byte)
qed

lemma be_value_4:
  "length bs = 4 \<Longrightarrow> uint (bs ! 0) * 0x1000000 + push_bit 16 (uint (bs ! 1)) + push_bit 8 (uint (bs ! 2))
     + uint (bs ! 3) = be_value bs"
  by (auto simp: be_value_def push_bit_eq_mult length_Suc_conv eval_nat_numeral algebra_simps)

lemma be_value_2: "length bs = 2 \<Longrightarrow> push_bit 8 (uint (bs ! 0)) + uint (bs ! 1) = be_value bs"
  by (auto simp: be_value_def length_Suc_conv eval_nat_numeral)

lemma reads_uint32: "reads_back (writeUint32 v) readUint32 v"
proof (rule reads_backI)
  fix chunks out
  assume "writeUint32 v chunks = Inr out"
  then have out: "out = chunks @ be_bytes 4 v" and v: "0 \<le> v" "v < 256 ^ 4"
    by (auto simp: writeUint32_def split: if_splits)
  have "readUint32 (be_bytes 4 v @ rest) = Inr (v, rest)" for rest
    by (simp only: readUint32_def reader_map_def reader_bind_def reader_return_def
        reads_bytes [OF length_be_bytes] be_value_4 [OF length_be_bytes] be_value_bytes [OF v]
        res_bind.simps prod.case)
  with out show "\<exists>bs. out = chunks @ bs \<and> (\<forall>rest. readUint32 (bs @ rest) = Inr (v, rest))" by blast
qed

lemma reads_uint64: "reads_back (writeUint64 v) readUint64 v"
proof (rule reads_backI)
  fix chunks out
  assume "writeUint64 v chunks = Inr out"
  then have "out = chunks @ be_bytes 8 v" "0 \<le> v" "v < 256 ^ 8"
    by (auto simp: writeUint64_def split: if_splits)
  then show "\<exists>bs. out = chunks @ bs \<and> (\<forall>rest. readUint64 (bs @ rest) = Inr (v, rest))"
    by (intro exI [of _ "be_bytes 8 v"])
      (simp add: readUint64_def reader_map_def reader_bind_def reader_return_def reads_bytes be_value_bytes)
qed

lemma reads_number:
  assumes "js_round v = v"
  shows "reads_back (writeUint64 v) (reader_map js_round readUint64) v"
  using reads_map [OF reads_uint64, of v js_round] assms by simp


section \<open>Texts and hexadecimals\<close>

lemma reads_string: "reads_back (writeString s) readString s"
proof (rule reads_backI)
  fix chunks out
  assume "writeString s chunks = Inr out"
  then have out: "out = chunks @ be_bytes 2 (int (length s)) @ text_bytes s" and len: "length s \<le> 0xffff"
    by (auto simp: writeString_def Let_def split: if_splits)
  have "be_value (be_bytes 2 (int (length s))) = int (length s)"
    by (rule be_value_bytes) (use len in simp_all)
  then have "push_bit 8 (uint (be_bytes 2 (int (length s)) ! 0)) + uint (be_bytes 2 (int (length s)) ! 1)
      = int (length s)"
    using be_value_2 [of "be_bytes 2 (int (length s))"] by simp
  then have "readString ((be_bytes 2 (int (length s)) @ text_bytes s) @ rest) = Inr (s, rest)" for rest
    by (simp only: append.assoc readString_def reader_bind_def reader_map_def reader_return_def
        reads_bytes [OF length_be_bytes] res_bind.simps prod.case nat_int
        reads_bytes [OF length_text_bytes] bytes_text_bytes)
  with out show "\<exists>bs. out = chunks @ bs \<and> (\<forall>rest. readString (bs @ rest) = Inr (s, rest))" by blast
qed

lemma hex_nibble_lower:
  assumes "is_hex c"
  shows "hex_char (hex_nibble c) = lower_char c" "hex_nibble c < 16"
proof -
  let ?n = "char_code c"
  have c: "char_of ?n = c" by (simp add: char_code_def)
  from assms consider "48 \<le> ?n \<and> ?n \<le> 57" | "97 \<le> ?n \<and> ?n \<le> 102" | "65 \<le> ?n \<and> ?n \<le> 70"
    by (auto simp: is_hex_def radix_digit_def Let_def split: if_splits)
  then have "hex_char (hex_nibble c) = lower_char c \<and> hex_nibble c < 16"
  proof cases
    case 1
    with c show ?thesis
      by (auto simp: hex_nibble_def radix_digit_def lower_char_def hex_char_def digit_char_def Let_def)
  next
    case 2
    with c show ?thesis
      by (auto simp: hex_nibble_def radix_digit_def lower_char_def hex_char_def Let_def)
  next
    case 3
    with c show ?thesis
      by (auto simp: hex_nibble_def radix_digit_def lower_char_def hex_char_def Let_def)
  qed
  then show "hex_char (hex_nibble c) = lower_char c" "hex_nibble c < 16" by simp_all
qed

lemma hex_pairs_back:
  assumes "list_all is_hex s" and "even (length s)"
  shows "bytesToHex (hex_pairs s) = ''0x'' @ toLowerCase s \<and> length (hex_pairs s) = length s div 2"
  using assms
proof (induction s rule: hex_pairs.induct)
  case (1 a b cs)
  from 1(2) hex_nibble_lower have ab: "hex_char (hex_nibble a) = lower_char a" "hex_nibble a < 16"
      "hex_char (hex_nibble b) = lower_char b" "hex_nibble b < 16"
    by simp_all
  have "unat (word_of_nat (hex_nibble a * 16 + hex_nibble b) :: byte) = hex_nibble a * 16 + hex_nibble b"
    using ab(2,4) by (simp add: unat_of_nat del: of_nat_add of_nat_mult)
  with 1 ab show ?case by (simp add: bytesToHex_def toLowerCase_def)
qed (simp_all add: bytesToHex_def toLowerCase_def)

text \<open>The form in which a hexadecimal text comes back.\<close>

definition strip_hex :: "string \<Rightarrow> string" where
  "strip_hex h = (if take 2 h = ''0x'' then drop 2 h else h)"

definition canonical_hex :: "string \<Rightarrow> string" where
  "canonical_hex h = ''0x'' @ toLowerCase (strip_hex h)"

lemma hexToBytes_Inr:
  assumes "hexToBytes h n = Inr bs"
  shows "length bs = n \<and> bytesToHex bs = canonical_hex h \<and> length (strip_hex h) = 2 * n \<and>
    list_all is_hex (strip_hex h)"
proof -
  have h: "list_all is_hex (strip_hex h)" "length (strip_hex h) = n * 2" "bs = hex_pairs (strip_hex h)"
    using assms by (auto simp: hexToBytes_def strip_hex_def Let_def split: if_splits)
  with hex_pairs_back [OF h(1)] show ?thesis by (simp add: canonical_hex_def)
qed

lemma reads_bytes32: "reads_back (writeBytes32 h) readBytes32 (canonical_hex h)"
proof (rule reads_backI)
  fix chunks out
  assume "writeBytes32 h chunks = Inr out"
  then obtain bs where "hexToBytes h 32 = Inr bs" "out = chunks @ bs"
    by (auto simp: writeBytes32_def res_simps)
  with hexToBytes_Inr show "\<exists>bs. out = chunks @ bs \<and> (\<forall>rest. readBytes32 (bs @ rest) = Inr (canonical_hex h, rest))"
    by (intro exI [of _ bs])
      (simp add: readBytes32_def reader_map_def reader_bind_def reader_return_def reads_bytes)
qed

text \<open>
  What ethers documents of \<open>getAddress\<close>: a checksummed address starts with \<open>0x\<close> and is its own
  checksummed form, and its lower-case form has the same checksum.
\<close>

definition checksums :: "deps \<Rightarrow> bool" where
  "checksums E \<longleftrightarrow> (\<forall>x a. ext_getAddress E x = Some a \<longrightarrow>
     take 2 a = ''0x'' \<and> ext_getAddress E a = Some a \<and>
     ext_getAddress E (''0x'' @ toLowerCase (drop 2 a)) = Some a)"

definition checksum :: "deps \<Rightarrow> string \<Rightarrow> string" where
  "checksum E x = (case ext_getAddress E x of Some a \<Rightarrow> a | None \<Rightarrow> x)"

lemma reads_address:
  assumes "checksums E"
  shows "reads_back (writeAddress E x) (readAddress E) (checksum E x)"
proof (rule reads_backI)
  fix chunks out
  assume "writeAddress E x chunks = Inr out"
  then obtain a bs where a: "ext_getAddress E x = Some a" and bs: "hexToBytes a 20 = Inr bs" "out = chunks @ bs"
    by (auto simp: writeAddress_def res_simps)
  from assms a have "ext_getAddress E (canonical_hex a) = Some a"
    by (auto simp: checksums_def canonical_hex_def strip_hex_def)
  with hexToBytes_Inr [OF bs(1)] a bs(2)
  show "\<exists>bs. out = chunks @ bs \<and> (\<forall>rest. readAddress E (bs @ rest) = Inr (checksum E x, rest))"
    by (intro exI [of _ bs])
      (simp add: readAddress_def reader_bind_def reader_return_def reads_bytes checksum_def)
qed


section \<open>Optional members\<close>

definition some_text :: "string option \<Rightarrow> string option" where
  "some_text v = (case v of Some s \<Rightarrow> if s = [] then None else Some s | None \<Rightarrow> None)"

lemma reads_none: "reads_back (writeUint8 0) (read_optional r) None"
  unfolding read_optional_def
  by (rule reads_last [OF reads_uint8]) (simp add: reader_return_def)

lemma reads_some:
  assumes "reads_back w r x"
  shows "reads_back (\<lambda>c. res_bind (writeUint8 1 c) w) (read_optional r) (Some x)"
  unfolding read_optional_def
  by (rule reads_seq [OF reads_uint8]) (simp add: reads_map [OF assms])

lemma write_optional_cases:
  "writeOptionalString v = (case some_text v of
     None \<Rightarrow> writeUint8 0 | Some s \<Rightarrow> (\<lambda>c. res_bind (writeUint8 1 c) (writeString s)))"
  "writeOptionalBytes32 v = (case some_text v of
     None \<Rightarrow> writeUint8 0 | Some s \<Rightarrow> (\<lambda>c. res_bind (writeUint8 1 c) (writeBytes32 s)))"
  "writeOptionalUint64 w = (case w of
     None \<Rightarrow> writeUint8 0 | Some n \<Rightarrow> (\<lambda>c. res_bind (writeUint8 1 c) (writeUint64 n)))"
  by (auto simp: fun_eq_iff writeOptionalString_def writeOptionalBytes32_def writeOptionalUint64_def
      some_text_def split: option.split)

lemma reads_optional_string: "reads_back (writeOptionalString v) readOptionalString (some_text v)"
  by (cases "some_text v")
    (simp_all add: write_optional_cases readOptionalString_def reads_none reads_some reads_string)

lemma reads_optional_bytes32:
  "reads_back (writeOptionalBytes32 v) readOptionalBytes32 (map_option canonical_hex (some_text v))"
  by (cases "some_text v")
    (simp_all add: write_optional_cases readOptionalBytes32_def reads_none reads_some reads_bytes32)

lemma reads_optional_number:
  assumes "\<And>n. v = Some n \<Longrightarrow> js_round n = n"
  shows "reads_back (writeOptionalUint64 v) readOptionalNumber v"
  using assms by (cases v)
    (simp_all add: write_optional_cases readOptionalNumber_def reads_none reads_some reads_number)


section \<open>Artifacts\<close>

lemmas reads_parts = reads_uint8 reads_uint32 reads_string reads_bytes32 reads_optional_string
  reads_optional_bytes32

lemma reads_common:
  assumes "checksums E"
  shows "reads_back (writeCommonArtifact E a) (readCommonArtifact E)
    (la_chainId a, checksum E (la_vault a), checksum E (la_token a), canonical_hex (la_metadataHash a))"
  unfolding writeCommonArtifact_def [abs_def] readCommonArtifact_def
  by (rule reads_seq [OF reads_uint32] reads_seq [OF reads_address [OF assms]]
      reads_last [OF reads_bytes32])+ (simp add: reader_return_def)

definition canonical_flow :: "deps \<Rightarrow> flow_payload \<Rightarrow> flow_payload" where
  "canonical_flow E p = p
     \<lparr>fp_mode := ''railsflow'', fp_merchant := checksum E (fp_merchant p),
      fp_recipient := checksum E (fp_recipient p), fp_workflowId := some_text (fp_workflowId p),
      fp_metadataRef := some_text (fp_metadataRef p),
      fp_descriptionHash := map_option canonical_hex (some_text (fp_descriptionHash p))\<rparr>"

text \<open>Numbers as JavaScript has them.\<close>

definition flow_numbers :: "flow_payload \<Rightarrow> bool" where
  "flow_numbers p \<longleftrightarrow> js_round (fp_lifespanSeconds p) = fp_lifespanSeconds p \<and>
     (\<forall>n. fp_expiresAt p = Some n \<longrightarrow> js_round n = n)"

lemma reads_flow:
  assumes "checksums E" and "flow_numbers p"
  shows "reads_back (write_flow E p) (read_flow E) (canonical_flow E p)"
  unfolding write_flow_def [abs_def] read_flow_def
  apply (rule reads_seq [OF reads_address [OF assms(1)]])+
  apply (rule reads_seq [OF reads_string])+
  apply (rule reads_seq [OF reads_number])
  subgoal using assms(2) by (simp add: flow_numbers_def)
  apply (rule reads_seq [OF reads_optional_string])
  apply (rule reads_seq [OF reads_optional_bytes32])
  apply (rule reads_seq [OF reads_optional_number])
  subgoal using assms(2) by (simp add: flow_numbers_def)
  apply (rule reads_last [OF reads_optional_string])
  by (simp add: reader_return_def canonical_flow_def)

text \<open>The claim hint of a signed RailsFlow link is not part of its type and does not come back.\<close>

definition canonical_signed :: "string \<Rightarrow> signed_payload \<Rightarrow> signed_payload" where
  "canonical_signed kind p = p\<lparr>sp_claimHint := (if kind = ''railsflow'' then None else some_text (sp_claimHint p))\<rparr>"

lemma reads_signed:
  assumes "kind = ''railsflow'' \<and> sp_mode p = ''railsflow'' \<or>
    kind = ''railscard'' \<and> (sp_mode p = ''railscard_bearer'' \<or> sp_mode p = ''railscard_recipient_bound'')"
  shows "reads_back (write_signed kind p) read_signed (kind, canonical_signed kind p)"
proof -
  have "signed_parts (kind_mode kind (sp_mode p)) (sp_envelopeToken p) (some_text (sp_claimHint p))
      = Some (kind, canonical_signed kind p)"
    using assms by (auto simp: signed_parts_def kind_mode_def canonical_signed_def)
  then show ?thesis
    unfolding write_signed_def [abs_def] read_signed_def
    by (intro reads_seq [OF reads_uint8] reads_seq [OF reads_string] reads_last [OF reads_optional_string])
      (simp add: reader_return_def)
qed


section \<open>Tokens\<close>

definition canonical_link :: "deps \<Rightarrow> link_artifact \<Rightarrow> link_artifact" where
  "canonical_link E a = link_of
     (la_chainId a, checksum E (la_vault a), checksum E (la_token a), canonical_hex (la_metadataHash a))
     (la_kind a)
     (case la_payload a of
        Flow_link p \<Rightarrow> Flow_link (canonical_flow E p)
      | Signed_link p \<Rightarrow> Signed_link (canonical_signed (la_kind a) p))"

definition link_numbers :: "link_artifact \<Rightarrow> bool" where
  "link_numbers a \<longleftrightarrow> (case la_payload a of Flow_link p \<Rightarrow> flow_numbers p | Signed_link p \<Rightarrow> True)"

text \<open>What a validated artifact is.\<close>

lemma validate_Inr:
  assumes "validateOpenRailsLinkArtifact E isHex a = Inr ()"
  shows "la_version a = link_version \<and> 0 < la_chainId a \<and> isHex (la_metadataHash a) 32 \<and>
    \<not> no_address E (la_vault a) \<and> \<not> no_address E (la_token a) \<and>
    (case la_payload a of
       Flow_link p \<Rightarrow> la_kind a = ''railsflow'' \<and> fp_mode p = ''railsflow'' \<and>
         \<not> no_address E (fp_merchant p) \<and> \<not> no_address E (fp_recipient p)
     | Signed_link p \<Rightarrow> sp_envelopeToken p \<noteq> [] \<and>
         (la_kind a = ''railsflow'' \<and> sp_mode p = ''railsflow'' \<or>
          la_kind a = ''railscard'' \<and> (sp_mode p = ''railscard_bearer'' \<or> sp_mode p = ''railscard_recipient_bound'')))"
  using assms
  by (auto simp: validateOpenRailsLinkArtifact_def split: if_splits link_payload.splits)

lemma read_artifact_back:
  assumes "checksums E" and "link_numbers a" and valid: "validateOpenRailsLinkArtifact E isHex a = Inr ()"
    and common: "writeCommonArtifact E a [] = Inr w"
    and payload: "(case la_payload a of
      Flow_link p \<Rightarrow> write_flow E p w | Signed_link p \<Rightarrow> write_signed (la_kind a) p w) = Inr bytes"
  shows "read_artifact E [selectCompactProfile a] bytes = Inr (canonical_link E a, [])"
proof -
  let ?c = "(la_chainId a, checksum E (la_vault a), checksum E (la_token a), canonical_hex (la_metadataHash a))"
  from reads_backD [OF reads_common [OF assms(1)] common]
  have head: "readCommonArtifact E (w @ rest) = Inr (?c, rest)" for rest
    by (metis append_Nil)
  show ?thesis
  proof (cases "la_payload a")
    case (Flow_link p)
    with validate_Inr [OF valid] have kind: "la_kind a = ''railsflow''" by simp
    from reads_backD [OF reads_flow [OF assms(1)], of p w bytes] payload Flow_link assms(2)
    obtain bs where "bytes = w @ bs" "\<And>rest. read_flow E (bs @ rest) = Inr (canonical_flow E p, rest)"
      by (auto simp: link_numbers_def)
    from this(1) this(2) [of "[]"] head [of bs] show ?thesis
      by (simp add: read_artifact_def reader_bind_def reader_map_Inr selectCompactProfile_def Flow_link
          kind canonical_link_def)
  next
    case (Signed_link p)
    with validate_Inr [OF valid] have "la_kind a = ''railsflow'' \<and> sp_mode p = ''railsflow'' \<or>
        la_kind a = ''railscard'' \<and> (sp_mode p = ''railscard_bearer'' \<or> sp_mode p = ''railscard_recipient_bound'')"
      by simp
    from reads_backD [OF reads_signed [OF this], of w bytes] payload Signed_link
    obtain bs where "bytes = w @ bs"
        "\<And>rest. read_signed (bs @ rest) = Inr ((la_kind a, canonical_signed (la_kind a) p), rest)"
      by auto
    from this(1) this(2) [of "[]"] head [of bs] show ?thesis
      by (simp add: read_artifact_def reader_bind_def reader_map_Inr selectCompactProfile_def Signed_link
          canonical_link_def)
  qed
qed

lemma deserialize_token:
  assumes "p = CHR ''f'' \<or> p = CHR ''c''"
  shows "deserializeCompactOpenRailsLinkArtifact E isHex (COMPACT_LINK_PREFIX @ [p] @ ''.'' @ base64UrlEncodeBytes bytes) =
    res_bind (read_artifact E [p] bytes) (\<lambda>(artifact, rest).
      if rest \<noteq> [] then Inl ''Compact OpenRails link has trailing bytes''
      else res_bind (validateOpenRailsLinkArtifact E isHex artifact) (\<lambda>_. Inr artifact))"
  using assms
  by (auto simp: deserializeCompactOpenRailsLinkArtifact_def COMPACT_LINK_PREFIX_def Let_def)

text \<open>A serialized artifact reads back in canonical form, if that form is valid.\<close>

lemma serialize_reads_back:
  assumes "checksums E" and "link_numbers a"
    and "serializeOpenRailsLinkArtifact E isHex a = Inr token"
  shows "deserializeCompactOpenRailsLinkArtifact E isHex token =
    res_bind (validateOpenRailsLinkArtifact E isHex (canonical_link E a)) (\<lambda>_. Inr (canonical_link E a))"
proof -
  from assms(3) obtain w bytes where valid: "validateOpenRailsLinkArtifact E isHex a = Inr ()"
      and w: "writeCommonArtifact E a [] = Inr w"
      and b: "(case la_payload a of Flow_link p \<Rightarrow> write_flow E p w | Signed_link p \<Rightarrow> write_signed (la_kind a) p w) = Inr bytes"
      and token: "token = COMPACT_LINK_PREFIX @ [selectCompactProfile a] @ ''.'' @ base64UrlEncodeBytes bytes"
    by (auto simp: serializeOpenRailsLinkArtifact_def serializeCompactOpenRailsLinkArtifact_def res_simps)
  have "selectCompactProfile a = CHR ''f'' \<or> selectCompactProfile a = CHR ''c''"
    by (simp add: selectCompactProfile_def split: link_payload.split)
  from deserialize_token [OF this, of E isHex bytes] read_artifact_back [OF assms(1,2) valid w b] token
  show ?thesis by simp
qed

text \<open>What ethers documents of \<open>isHexString\<close>, as far as the reader relies on it.\<close>

definition accepts_hex32 :: "(string \<Rightarrow> nat \<Rightarrow> bool) \<Rightarrow> bool" where
  "accepts_hex32 isHex \<longleftrightarrow> (\<forall>s. length s = 64 \<longrightarrow> list_all is_hex s \<longrightarrow> isHex (''0x'' @ s) 32)"

text \<open>No address of the artifact is another spelling of the zero address.\<close>

definition link_addresses :: "link_artifact \<Rightarrow> string list" where
  "link_addresses a = [la_vault a, la_token a] @
     (case la_payload a of Flow_link p \<Rightarrow> [fp_merchant p, fp_recipient p] | Signed_link p \<Rightarrow> [])"

definition link_nonzero :: "deps \<Rightarrow> link_artifact \<Rightarrow> bool" where
  "link_nonzero E a \<longleftrightarrow> list_all (\<lambda>x. ext_getAddress E x \<noteq> Some ZeroAddress) (link_addresses a)"

lemma is_hex_lower: "is_hex c \<Longrightarrow> is_hex (lower_char c)"
proof -
  assume "is_hex c"
  then have "48 \<le> char_code c \<and> char_code c \<le> 57 \<or> 97 \<le> char_code c \<and> char_code c \<le> 102 \<or>
      65 \<le> char_code c \<and> char_code c \<le> 70"
    by (auto simp: is_hex_def radix_digit_def Let_def split: if_splits)
  then show ?thesis
    by (auto simp: is_hex_def radix_digit_def lower_char_def char_code_def Let_def)
qed

lemma checksum_address:
  assumes "checksums E" and "\<not> no_address E x" and "ext_getAddress E x \<noteq> Some ZeroAddress"
  shows "\<not> no_address E (checksum E x)"
  using assms by (auto simp: no_address_def isAddress_def checksum_def checksums_def)

lemma canonical_valid:
  assumes "checksums E" and "accepts_hex32 isHex" and "link_nonzero E a"
    and "validateOpenRailsLinkArtifact E isHex a = Inr ()"
    and "hexToBytes (la_metadataHash a) 32 = Inr bs"
  shows "validateOpenRailsLinkArtifact E isHex (canonical_link E a) = Inr ()"
proof -
  note v = validate_Inr [OF assms(4)]
  have "isHex (canonical_hex (la_metadataHash a)) 32"
    using hexToBytes_Inr [OF assms(5)] assms(2) is_hex_lower
    by (auto simp: accepts_hex32_def canonical_hex_def toLowerCase_def list_all_iff)
  moreover have ok: "\<not> no_address E (checksum E x)" if "x \<in> set (link_addresses a)" for x
    using that assms(3) v
    by (intro checksum_address [OF assms(1)])
      (auto simp: link_nonzero_def link_addresses_def split: link_payload.splits)
  ultimately show ?thesis
    using v by (cases "la_payload a")
      (auto simp: validateOpenRailsLinkArtifact_def canonical_link_def link_of_def link_addresses_def
        canonical_flow_def canonical_signed_def)
qed

lemma serialize_hash:
  "serializeOpenRailsLinkArtifact E isHex a = Inr token \<Longrightarrow> \<exists>bs. hexToBytes (la_metadataHash a) 32 = Inr bs"
  by (auto simp: serializeOpenRailsLinkArtifact_def serializeCompactOpenRailsLinkArtifact_def
      writeCommonArtifact_def writeBytes32_def res_simps)

lemma serialize_valid:
  "serializeOpenRailsLinkArtifact E isHex a = Inr token \<Longrightarrow> validateOpenRailsLinkArtifact E isHex a = Inr ()"
  by (auto simp: serializeOpenRailsLinkArtifact_def res_simps)

end
