(* ===== verification/Server_Demo.thy ===== *)
theory Server_Demo
  imports Gateway_Server Link_Codec
begin

text \<open>
  A concrete environment for the SDK and the server: addresses of 40 hexadecimal digits whose
  checksummed form is the one in lower case, a hash that keeps the length of a text, and signatures
  that name the version of the domain and the signer.
\<close>

definition demo_address :: "string \<Rightarrow> string option" where
  "demo_address x =
     (let h = (if take 2 x = ''0x'' then drop 2 x else x) in
      if length h = 40 \<and> list_all is_hex h then Some (''0x'' @ toLowerCase h) else None)"

definition demo_hex :: "string \<Rightarrow> nat \<Rightarrow> bool" where
  "demo_hex s n \<longleftrightarrow> take 2 s = ''0x'' \<and> length s = 2 + 2 * n \<and> list_all is_hex (drop 2 s)"

definition demo_keccak :: "string \<Rightarrow> string" where
  "demo_keccak s = ''0x'' @ replicate 62 CHR ''a'' @ [digit_char (length s div 10 mod 10), digit_char (length s mod 10)]"

definition demo_server_deps :: deps where
  "demo_server_deps =
     \<lparr>ext_getAddress = demo_address, ext_canonicalize = (\<lambda>j. Some (js_stringify j)),
      ext_keccakUtf8 = demo_keccak, ext_validate = (\<lambda>r v. Some []), ext_errorsText = (\<lambda>es. []),
      ext_verifyTypedData = (\<lambda>d m s. None), ext_hashTypedData = (\<lambda>d m. None),
      ext_encodeIsValidSignature = (\<lambda>h s. None), ext_decodeIsValidSignature = (\<lambda>s. None)\<rparr>"

definition addr :: "char \<Rightarrow> string" where
  "addr c = ''0x'' @ replicate 40 c"

lemma demo_address_addr [simp]:
  assumes "is_hex c" and "lower_char c = c"
  shows "demo_address (addr c) = Some (addr c)"
  using assms by (simp add: demo_address_def addr_def Let_def list_all_iff toLowerCase_def)

lemma addr_inject [simp]: "addr c = addr d \<longleftrightarrow> c = d"
  by (simp add: addr_def)

lemma ZeroAddress_addr: "ZeroAddress = addr CHR ''0''"
  by (simp add: ZeroAddress_def addr_def)

lemma hexToBytes_addr: "is_hex c \<Longrightarrow> hexToBytes (addr c) 20 = Inr (hex_pairs (replicate 40 c))"
  by (simp add: hexToBytes_def addr_def list_all_iff)

definition demo_hash :: "char \<Rightarrow> string" where
  "demo_hash c = ''0x'' @ replicate 64 c"

lemma demo_hash_hex: "is_hex c \<Longrightarrow> demo_hex (demo_hash c) 32"
  by (simp add: demo_hex_def demo_hash_def list_all_iff)

lemma hexToBytes_hash: "is_hex c \<Longrightarrow> hexToBytes (demo_hash c) 32 = Inr (hex_pairs (replicate 64 c))"
  by (simp add: hexToBytes_def demo_hash_def list_all_iff)

lemma hex_chars [simp]:
  "is_hex CHR ''0''" "is_hex CHR ''1''" "is_hex CHR ''2''" "is_hex CHR ''9''"
  "is_hex CHR ''b''" "is_hex CHR ''c''" "is_hex CHR ''d''" "is_hex CHR ''e''" "is_hex CHR ''f''"
  by code_simp+

lemma lower_chars [simp]:
  "lower_char CHR ''0'' = CHR ''0''" "lower_char CHR ''1'' = CHR ''1''" "lower_char CHR ''2'' = CHR ''2''"
  "lower_char CHR ''9'' = CHR ''9''" "lower_char CHR ''b'' = CHR ''b''" "lower_char CHR ''c'' = CHR ''c''"
  "lower_char CHR ''d'' = CHR ''d''" "lower_char CHR ''e'' = CHR ''e''" "lower_char CHR ''f'' = CHR ''f''"
  by code_simp+

definition demo_sign :: "string \<Rightarrow> json \<Rightarrow> json \<Rightarrow> string + string" where
  "demo_sign a d m = Inr (text_of (field (Some d) ''version'') @ a)"

definition demo_verify :: "json \<Rightarrow> json \<Rightarrow> js_value \<Rightarrow> string option" where
  "demo_verify d m s =
     (let version = text_of (field (Some d) ''version'') in
      case s of
        Some (JStr t) \<Rightarrow> Some (if starts_with version t then drop (length version) t else addr CHR ''f'')
      | _ \<Rightarrow> None)"

definition demo_ethers :: ethers where
  "demo_ethers =
     \<lparr>et_deps = demo_server_deps, et_isHexString = demo_hex, et_verifyTypedData = demo_verify,
      et_hashTypedData = (\<lambda>d m. Some (text_of (field (Some d) ''version'') @ demo_keccak (js_stringify m)))\<rparr>"

lemma demo_simps [simp]:
  "et_deps demo_ethers = demo_server_deps" "et_isHexString demo_ethers = demo_hex"
  "et_verifyTypedData demo_ethers = demo_verify"
  "ext_getAddress demo_server_deps = demo_address" "ext_keccakUtf8 demo_server_deps = demo_keccak"
  by (simp_all add: demo_ethers_def demo_server_deps_def)

definition demo_signer_at :: "string \<Rightarrow> typed_signer" where
  "demo_signer_at a = \<lparr>sg_signTypedData = demo_sign a, sg_address = a\<rparr>"

lemma demo_recovers: "recovers demo_ethers (demo_signer_at a)"
  by (auto simp: recovers_def demo_signer_at_def demo_sign_def demo_verify_def starts_with_def Let_def)

lemma demo_checksums: "checksums demo_server_deps"
  using is_hex_lower
  by (auto simp: checksums_def demo_address_def Let_def toLowerCase_def list_all_iff split: if_splits)

lemma demo_accepts_hex: "accepts_hex32 demo_hex"
  by (simp add: accepts_hex32_def demo_hex_def)

definition demo_config :: server_config where
  "demo_config =
     \<lparr>sv_dashboardMode = ''local'', sv_enablePublicRelayer = None, sv_maxAllocationUsdc = ''1'',
      sv_maxLifespanSeconds = Some 3600, sv_maxVelocityUsdcPerSecond = ''0.1'',
      sv_providerUrl = ''http://127.0.0.1:8545'', sv_chainId = 31337,
      sv_clearinghouseAddress = addr CHR ''c'', sv_usdcAddress = addr CHR ''d'',
      sv_relayerAddress = addr CHR ''e'', sv_hasRelayerWallet = True,
      sv_serviceOrigin = ''http://localhost:3001'', sv_x402SellerAddress = addr CHR ''9'',
      sv_demoFlushKey = None, sv_enableDemoCustodialFlush = None\<rparr>"

definition demo_row :: paycard_row where
  "demo_row =
     \<lparr>row_payer = addr CHR ''1'', row_recipient = addr CHR ''2'', row_metadataHash = demo_hash CHR ''b'',
      row_totalAllocationPool = 100, row_availableBalance = 100, row_flowVelocityPerSecond = 0,
      row_genesisTimestamp = 1000, row_lifespanSeconds = 60, row_lastCheckpointEpoch = 1000,
      row_residualDeltaRecipient = addr CHR ''1'', row_operationalStatus = 0\<rparr>"

definition demo_hub :: hub where
  "demo_hub =
     \<lparr>hb_registry = (\<lambda>i. Inr demo_row),
      hb_submit = (\<lambda>n call. if n = 0 then Inl \<lparr>se_code = Some ''NONCE_EXPIRED'', se_message = None\<rparr>
        else Inr \<lparr>st_hash = ''0xt'', st_wait = Inr \<lparr>tr_blockNumber = 7, tr_logs = []\<rparr>\<rparr>),
      hb_pendingNonce = Inr 5, hb_parseUnits = (\<lambda>v n. Some 1000000),
      hb_verifyMessage = (\<lambda>m s. None), hb_walletAddress = (\<lambda>k. None)\<rparr>"

lemma demo_keccak_hex: "demo_hex (demo_keccak s) 32"
proof -
  have a: "is_hex CHR ''a''" by code_simp
  have "is_hex (digit_char d)" if "d < 10" for d
    using that by (auto simp: is_hex_def radix_digit_def digit_char_def char_code_def Let_def)
  then have d: "is_hex (digit_char (n mod 10))" for n by simp
  have drop: "drop 2 (demo_keccak s) = replicate 62 CHR ''a'' @
      [digit_char (length s div 10 mod 10), digit_char (length s mod 10)]"
    by (simp add: demo_keccak_def)
  show ?thesis
    unfolding demo_hex_def drop by (simp add: a d list_all_iff, simp add: demo_keccak_def)
qed


section \<open>A credential\<close>

definition demo_access :: access_params where
  "demo_access =
     \<lparr>ap_chainId = 31337, ap_vault = addr CHR ''c'', ap_paycardId = demo_hash CHR ''1'',
      ap_metadataHash = demo_hash CHR ''b'', ap_mode = ''railsflow'', ap_service = addr CHR ''e'',
      ap_serviceOrigin = ''http://localhost:3001'', ap_scope = PROTECTED_SCOPE, ap_issuedAt = 1000,
      ap_expiresAt = 2000, ap_nonce = Some (demo_hash CHR ''2'')\<rparr>"

definition demo_credential :: json where
  "demo_credential = access_credential demo_ethers [] demo_access (addr CHR ''1'') (''1.0.0'' @ addr CHR ''1'')"

lemma addr_not_zero: "addr c = ZeroAddress \<longleftrightarrow> c = CHR ''0''"
  by (simp add: ZeroAddress_addr)

lemma demo_issued:
  "createOpenRailsAccessCredential demo_ethers (demo_signer_at (addr CHR ''1'')) [] demo_access = Inr demo_credential"
  by (simp add: createOpenRailsAccessCredential_def demo_credential_def validateAccessParams_def Let_def
      json_of_access_params_def demo_access_def field_def jobj_def no_address_def isAddress_def addr_not_zero
      demo_hash_hex demo_signer_at_def demo_sign_def buildOpenRailsAccessDomain_def text_of_def
      access_credential_def)

lemma demo_credential_shape: "access_shape demo_ethers demo_credential"
  by (simp add: access_shape_def demo_credential_def demo_access_def no_address_def isAddress_def addr_not_zero
      demo_hash_hex access_nonce_def hashOpenRailsAccessText_def demo_keccak_hex)

lemma demo_headers:
  "buildOpenRailsAccessHeaders demo_ethers (Inl demo_credential) =
    Inr (headers_of (serializeEnvelope demo_credential) demo_credential)"
  using demo_credential_shape shape_Inr [of demo_ethers demo_credential "()"]
  by (simp add: buildOpenRailsAccessHeaders_def serializeOpenRailsAccessCredential_def)

end
