(* ===== verification/Nonce_Engine.thy ===== *)
theory Nonce_Engine
  imports Js_Collections "HOL-Library.Word"
begin

text \<open>
  Nonces of the SDK (\<open>sdk/src/nonce.ts\<close>): the channel of a task type, a 32-bit hash, and the engine
  that issues nonces under a lock per account and channel.

  A call of \<open>nextNonce\<close> is a task.  It waits for the promise the lock map held when it arrived, reads
  the cache, writes it and lets go of the lock; in between any other task may move.  The cache is
  the engine's own (as \<open>MemoryNonceCacheAdapter\<close> is), and a read or a write of it may fail.
\<close>


section \<open>Channels\<close>

text \<open>\<open>(hash << 5) + hash + code\<close>, kept to 32 bits by \<open>| 0\<close>.\<close>

definition channel_hash :: "string \<Rightarrow> 32 word" where
  "channel_hash taskType =
     foldl (\<lambda>hash c. push_bit 5 hash + hash + word_of_nat (char_code c)) 5381 taskType"

definition selectChannel :: "string \<Rightarrow> int" where
  "selectChannel taskType = \<bar>sint (channel_hash taskType)\<bar> mod 256"

definition cacheKey :: "string \<Rightarrow> int \<Rightarrow> string" where
  "cacheKey account channel = ''nonce:'' @ toLowerCase account @ '':'' @ show_int channel"

text \<open>\<open>randomRailsCardNonceChannel\<close> from seven random bytes.\<close>

definition nonce_channel :: "int list \<Rightarrow> int" where
  "nonce_channel bytes =
     (let channel = foldl (\<lambda>c b. push_bit 8 c + b) 0 bytes mod 2 ^ 53
      in if channel = 0 then 1 else channel)"

lemma nonce_channel_bounds: "0 < nonce_channel bytes \<and> nonce_channel bytes < 2 ^ 53"
proof -
  have "0 \<le> x mod 2 ^ 53 \<and> x mod 2 ^ 53 < (2 :: int) ^ 53" for x by simp
  then show ?thesis by (simp add: nonce_channel_def Let_def order.not_eq_order_implies_strict)
qed


section \<open>Tasks\<close>

datatype nonce_phase = Waiting "nat option" | Reading | Writing int | Written int
  | Issued int | Failed

record nonce_task =
  nt_key :: string
  nt_phase :: nonce_phase

record nonce_system =
  ns_tasks :: "nonce_task list"
  ns_locks :: "nat js_map"
  ns_cache :: "int js_map"

definition no_tasks :: nonce_system where
  "no_tasks = \<lparr>ns_tasks = [], ns_locks = [], ns_cache = []\<rparr>"

definition settled :: "nonce_task \<Rightarrow> bool" where
  "settled t \<longleftrightarrow> (case nt_phase t of Issued c \<Rightarrow> True | Failed \<Rightarrow> True | _ \<Rightarrow> False)"

definition set_phase :: "nat \<Rightarrow> nonce_phase \<Rightarrow> nonce_system \<Rightarrow> nonce_system" where
  "set_phase i p s = s\<lparr>ns_tasks := (ns_tasks s)[i := (ns_tasks s ! i)\<lparr>nt_phase := p\<rparr>]\<rparr>"

text \<open>A call: it waits for the task that last took the lock, and becomes that task.\<close>

definition call_nonce :: "string \<Rightarrow> nonce_system \<Rightarrow> nonce_system" where
  "call_nonce key s = s
     \<lparr>ns_tasks := ns_tasks s @ [\<lparr>nt_key = key, nt_phase = Waiting (map_get (ns_locks s) key)\<rparr>],
      ns_locks := map_put key (length (ns_tasks s)) (ns_locks s)\<rparr>"

definition cached :: "nonce_system \<Rightarrow> string \<Rightarrow> int" where
  "cached s key = (case map_get (ns_cache s) key of Some v \<Rightarrow> v | None \<Rightarrow> 0)"

text \<open>\<open>finally\<close>: the lock is removed unless a later task took it.\<close>

definition release :: "nat \<Rightarrow> nonce_phase \<Rightarrow> nonce_system \<Rightarrow> nonce_system" where
  "release i p s =
     (let key = nt_key (ns_tasks s ! i); s1 = set_phase i p s
      in if map_get (ns_locks s) key = Some i then s1\<lparr>ns_locks := map_delete key (ns_locks s)\<rparr> else s1)"

definition write_cache :: "string \<Rightarrow> int \<Rightarrow> nonce_system \<Rightarrow> nonce_system" where
  "write_cache key v s = s\<lparr>ns_cache := map_put key v (ns_cache s)\<rparr>"

inductive nonce_step :: "nonce_system \<Rightarrow> nonce_system \<Rightarrow> bool" where
  called: "nonce_step s (call_nonce (cacheKey account channel) s)"
| entered: "i < length (ns_tasks s) \<Longrightarrow> nt_phase (ns_tasks s ! i) = Waiting w \<Longrightarrow>
    (case w of None \<Rightarrow> True | Some p \<Rightarrow> settled (ns_tasks s ! p)) \<Longrightarrow>
    nonce_step s (set_phase i Reading s)"
| read: "i < length (ns_tasks s) \<Longrightarrow> nt_phase (ns_tasks s ! i) = Reading \<Longrightarrow>
    nonce_step s (set_phase i (Writing (cached s (nt_key (ns_tasks s ! i)))) s)"
| read_failed: "i < length (ns_tasks s) \<Longrightarrow> nt_phase (ns_tasks s ! i) = Reading \<Longrightarrow>
    nonce_step s (release i Failed s)"
| wrote: "i < length (ns_tasks s) \<Longrightarrow> nt_phase (ns_tasks s ! i) = Writing c \<Longrightarrow>
    nonce_step s (set_phase i (Written c) (write_cache (nt_key (ns_tasks s ! i)) (c + 1) s))"
| write_failed: "i < length (ns_tasks s) \<Longrightarrow> nt_phase (ns_tasks s ! i) = Writing c \<Longrightarrow>
    nonce_step s (release i Failed s)"
| write_unanswered: "i < length (ns_tasks s) \<Longrightarrow> nt_phase (ns_tasks s ! i) = Writing c \<Longrightarrow>
    nonce_step s (release i Failed (write_cache (nt_key (ns_tasks s ! i)) (c + 1) s))"
| issued: "i < length (ns_tasks s) \<Longrightarrow> nt_phase (ns_tasks s ! i) = Written c \<Longrightarrow>
    nonce_step s (release i (Issued c) s)"


section \<open>One task at a time\<close>

definition is_waiting :: "nonce_task \<Rightarrow> bool" where
  "is_waiting t \<longleftrightarrow> (case nt_phase t of Waiting w \<Rightarrow> True | _ \<Rightarrow> False)"

text \<open>
  \<open>earlier s i j\<close>: task \<open>i\<close> came before \<open>j\<close> for the same lock.  The lock holds the last task that is
  not settled; a task waits for the one just before it; one that does not wait has only settled
  ones before it.
\<close>

definition earlier :: "nonce_system \<Rightarrow> nat \<Rightarrow> nat \<Rightarrow> bool" where
  "earlier s i j \<longleftrightarrow> i < j \<and> j < length (ns_tasks s) \<and> nt_key (ns_tasks s ! i) = nt_key (ns_tasks s ! j)"

definition lock_ok :: "nonce_system \<Rightarrow> bool" where
  "lock_ok s \<longleftrightarrow>
     (\<forall>k t. map_get (ns_locks s) k = Some t \<longrightarrow>
        t < length (ns_tasks s) \<and> nt_key (ns_tasks s ! t) = k \<and> (\<forall>j. \<not> earlier s t j)) \<and>
     (\<forall>i < length (ns_tasks s). \<not> settled (ns_tasks s ! i) \<longrightarrow> map_get (ns_locks s) (nt_key (ns_tasks s ! i)) \<noteq> None)"

definition order_ok :: "nonce_system \<Rightarrow> bool" where
  "order_ok s \<longleftrightarrow>
     (\<forall>i j. earlier s i j \<longrightarrow> \<not> is_waiting (ns_tasks s ! j) \<longrightarrow> settled (ns_tasks s ! i)) \<and>
     (\<forall>j < length (ns_tasks s). \<forall>w. nt_phase (ns_tasks s ! j) = Waiting w \<longrightarrow>
        (case w of
           None \<Rightarrow> (\<forall>i. earlier s i j \<longrightarrow> settled (ns_tasks s ! i))
         | Some p \<Rightarrow> earlier s p j \<and> (\<forall>i. earlier s i j \<longrightarrow> i = p \<or> earlier s i p)))"

text \<open>What the cache holds while a task is at work, and after it.\<close>

definition value_ok :: "nonce_system \<Rightarrow> bool" where
  "value_ok s \<longleftrightarrow> (\<forall>i < length (ns_tasks s).
     (case nt_phase (ns_tasks s ! i) of
        Writing c \<Rightarrow> cached s (nt_key (ns_tasks s ! i)) = c
      | Written c \<Rightarrow> c < cached s (nt_key (ns_tasks s ! i))
      | Issued c \<Rightarrow> c < cached s (nt_key (ns_tasks s ! i))
      | _ \<Rightarrow> True))"

definition issued_ok :: "nonce_system \<Rightarrow> bool" where
  "issued_ok s \<longleftrightarrow> (\<forall>i j c d. earlier s i j \<longrightarrow> nt_phase (ns_tasks s ! i) = Issued c \<longrightarrow>
     nt_phase (ns_tasks s ! j) \<in> {Writing d, Written d, Issued d} \<longrightarrow> c < d)"

definition nonce_ok :: "nonce_system \<Rightarrow> bool" where
  "nonce_ok s \<longleftrightarrow> lock_ok s \<and> order_ok s \<and> value_ok s \<and> issued_ok s"

subsection \<open>Moving one task\<close>

text \<open>A step of task \<open>i\<close> to phase \<open>p\<close>, whatever it does to locks and cache.\<close>

definition moves_task :: "nat \<Rightarrow> nonce_phase \<Rightarrow> nonce_system \<Rightarrow> nonce_system \<Rightarrow> bool" where
  "moves_task i p s s' \<longleftrightarrow>
     ns_tasks s' = (ns_tasks s)[i := (ns_tasks s ! i)\<lparr>nt_phase := p\<rparr>]"

lemma moves_ops:
  "moves_task i p s (set_phase i p s)" "moves_task i p s (release i p s)"
  "moves_task i p s (set_phase i p (write_cache k v s))" "moves_task i p s (release i p (write_cache k v s))"
  "ns_locks (set_phase i p s) = ns_locks s" "ns_cache (set_phase i p s) = ns_cache s"
  "ns_cache (release i p s) = ns_cache s" "ns_locks (write_cache k v s) = ns_locks s"
  "ns_tasks (write_cache k v s) = ns_tasks s"
  "ns_cache (write_cache k v s) = map_put k v (ns_cache s)"
  "ns_locks (release i p s) = (if map_get (ns_locks s) (nt_key (ns_tasks s ! i)) = Some i
     then map_delete (nt_key (ns_tasks s ! i)) (ns_locks s) else ns_locks s)"
  by (simp_all add: moves_task_def set_phase_def release_def write_cache_def Let_def)

lemma cached_ops [simp]:
  "cached (write_cache k v s) j = (if j = k then v else cached s j)"
  "cached (set_phase i p s) j = cached s j" "cached (release i p s) j = cached s j"
  by (simp_all add: cached_def moves_ops)

lemma moves_members:
  assumes "moves_task i p s s'" and "i < length (ns_tasks s)"
  shows "length (ns_tasks s') = length (ns_tasks s)" "earlier s' = earlier s"
    "nt_key (ns_tasks s' ! j) = nt_key (ns_tasks s ! j)"
    "nt_phase (ns_tasks s' ! j) = (if j = i then p else nt_phase (ns_tasks s ! j))"
proof -
  show len: "length (ns_tasks s') = length (ns_tasks s)" using assms by (simp add: moves_task_def)
  show key: "nt_key (ns_tasks s' ! j) = nt_key (ns_tasks s ! j)" for j
    using assms by (cases "j = i") (simp_all add: moves_task_def)
  show "earlier s' = earlier s" by (simp add: earlier_def fun_eq_iff len key)
  show "nt_phase (ns_tasks s' ! j) = (if j = i then p else nt_phase (ns_tasks s ! j))"
    using assms by (cases "j = i") (simp_all add: moves_task_def)
qed

lemma settled_phase: "settled t \<longleftrightarrow> (case nt_phase t of Issued c \<Rightarrow> True | Failed \<Rightarrow> True | _ \<Rightarrow> False)"
  by (simp add: settled_def)

lemma moves_order:
  assumes "moves_task i p s s'" and "i < length (ns_tasks s)" and "order_ok s"
    and "\<not> settled (ns_tasks s ! i)"
    and "\<And>j. earlier s j i \<Longrightarrow> settled (ns_tasks s ! j)" and "\<And>w. p \<noteq> Waiting w"
  shows "order_ok s'"
proof -
  note m = moves_members [OF assms(1,2)]
  have settled': "settled (ns_tasks s ! j) \<Longrightarrow> settled (ns_tasks s' ! j)" for j
    using assms(4) by (auto simp: settled_phase m(4))
  have waiting': "is_waiting (ns_tasks s' ! j) \<longleftrightarrow> is_waiting (ns_tasks s ! j) \<and> j \<noteq> i" for j
    using assms(6) by (auto simp: is_waiting_def m(4) split: nonce_phase.splits)
  have "settled (ns_tasks s' ! k)" if "earlier s k j" "\<not> is_waiting (ns_tasks s' ! j)" for k j
    using that assms(3,5) settled' by (auto simp: waiting' order_ok_def)
  moreover have "case w of None \<Rightarrow> (\<forall>k. earlier s k j \<longrightarrow> settled (ns_tasks s' ! k))
      | Some q \<Rightarrow> earlier s q j \<and> (\<forall>k. earlier s k j \<longrightarrow> k = q \<or> earlier s k q)"
    if "j < length (ns_tasks s)" "nt_phase (ns_tasks s' ! j) = Waiting w" for j w
  proof -
    from that(2) assms(6) have "nt_phase (ns_tasks s ! j) = Waiting w" by (auto simp: m(4) split: if_splits)
    with assms(3) that(1) settled' show ?thesis by (auto simp: order_ok_def split: option.splits)
  qed
  ultimately show ?thesis unfolding order_ok_def m(1,2) by blast
qed

text \<open>A task at work has the lock to itself.\<close>

lemma alone:
  assumes "order_ok s" and "i < length (ns_tasks s)" and "j < length (ns_tasks s)"
    and "\<not> is_waiting (ns_tasks s ! i)" and "\<not> settled (ns_tasks s ! i)" and "j \<noteq> i"
    and "nt_key (ns_tasks s ! j) = nt_key (ns_tasks s ! i)"
  shows "j < i \<and> settled (ns_tasks s ! j) \<or> i < j \<and> is_waiting (ns_tasks s ! j)"
proof (cases "j < i")
  case True
  with assms show ?thesis by (auto simp: order_ok_def earlier_def)
next
  case False
  with assms have "earlier s i j" by (simp add: earlier_def)
  with assms(1,5) False assms(6) show ?thesis by (auto simp: order_ok_def)
qed

lemma lock_kept:
  assumes "moves_task i p s s'" and "i < length (ns_tasks s)" and "lock_ok s"
    and "\<not> settled (ns_tasks s ! i)" and "ns_locks s' = ns_locks s"
  shows "lock_ok s'"
proof -
  note m = moves_members [OF assms(1,2)]
  have "\<not> settled (ns_tasks s ! j)" if "\<not> settled (ns_tasks s' ! j)" for j
    using assms(4) that by (cases "j = i") (simp_all add: settled_phase m(4))
  with assms(3,5) show ?thesis unfolding lock_ok_def m(1-3) by metis
qed

lemma lock_released:
  assumes "moves_task i p s s'" and "i < length (ns_tasks s)" and "lock_ok s" and "order_ok s"
    and "\<not> settled (ns_tasks s ! i)" and "\<not> is_waiting (ns_tasks s ! i)"
    and locks: "ns_locks s' = (if map_get (ns_locks s) (nt_key (ns_tasks s ! i)) = Some i
       then map_delete (nt_key (ns_tasks s ! i)) (ns_locks s) else ns_locks s)"
    and p: "p = Failed \<or> (\<exists>c. p = Issued c)"
  shows "lock_ok s'"
proof -
  note m = moves_members [OF assms(1,2)]
  have i': "settled (ns_tasks s' ! i)" using p by (auto simp: settled_phase m(4))
  have old: "\<not> settled (ns_tasks s ! j)" if "\<not> settled (ns_tasks s' ! j)" for j
    using that p by (auto simp: settled_phase m(4) split: if_splits)
  have "map_get (ns_locks s') (nt_key (ns_tasks s ! j)) \<noteq> None"
    if j: "j < length (ns_tasks s)" "\<not> settled (ns_tasks s' ! j)" for j
  proof (cases "nt_key (ns_tasks s ! j) = nt_key (ns_tasks s ! i) \<and> map_get (ns_locks s) (nt_key (ns_tasks s ! i)) = Some i")
    case True
    then have "\<not> earlier s i j" using assms(3) unfolding lock_ok_def by metis
    with True j(1) have "\<not> i < j" by (simp add: earlier_def)
    moreover have "j \<noteq> i" using i' j(2) by auto
    ultimately have False
      using alone [OF assms(4,2) j(1) assms(6,5)] True old [OF j(2)] by auto
    then show ?thesis ..
  next
    case False
    have "map_get (ns_locks s) (nt_key (ns_tasks s ! j)) \<noteq> None"
      using assms(3) j(1) old [OF j(2)] by (simp add: lock_ok_def)
    with False show ?thesis by (auto simp: locks)
  qed
  moreover have "map_get (ns_locks s') k = Some t \<Longrightarrow> map_get (ns_locks s) k = Some t" for k t
    by (auto simp: locks split: if_splits)
  ultimately show ?thesis using assms(3) unfolding lock_ok_def m(1-3) by blast
qed

subsection \<open>The invariant\<close>

lemma others_idle:
  assumes "order_ok s" and "i < length (ns_tasks s)" and "\<not> is_waiting (ns_tasks s ! i)"
    and "\<not> settled (ns_tasks s ! i)" and "j < length (ns_tasks s)" and "j \<noteq> i"
    and "nt_key (ns_tasks s ! j) = nt_key (ns_tasks s ! i)"
  shows "nt_phase (ns_tasks s ! j) \<noteq> Writing c" "nt_phase (ns_tasks s ! j) \<noteq> Written c"
    "nt_phase (ns_tasks s ! j) = Issued c \<Longrightarrow> j < i"
  using alone [OF assms(1,2,5,3,4,6,7)] by (auto simp: settled_phase is_waiting_def)

text \<open>A step changes the phase of one task, and the cache only under that task's key.\<close>

lemma moves_values:
  assumes m: "moves_task i p s s'" and i: "i < length (ns_tasks s)" and ok: "order_ok s" "value_ok s"
    and at: "\<not> is_waiting (ns_tasks s ! i)" "\<not> settled (ns_tasks s ! i)"
    and cache: "\<And>k. cached s' k = (if k = nt_key (ns_tasks s ! i) then v else cached s k)"
      "cached s (nt_key (ns_tasks s ! i)) \<le> v"
    and here: "case p of Writing c \<Rightarrow> v = c | Written c \<Rightarrow> c < v | Issued c \<Rightarrow> c < v | _ \<Rightarrow> True"
  shows "value_ok s'"
  unfolding value_ok_def
proof (intro allI impI)
  note mm = moves_members [OF m i]
  fix j
  assume "j < length (ns_tasks s')"
  then have j: "j < length (ns_tasks s)" by (simp add: mm(1))
  show "case nt_phase (ns_tasks s' ! j) of
      Writing c \<Rightarrow> cached s' (nt_key (ns_tasks s' ! j)) = c
    | Written c \<Rightarrow> c < cached s' (nt_key (ns_tasks s' ! j))
    | Issued c \<Rightarrow> c < cached s' (nt_key (ns_tasks s' ! j)) | _ \<Rightarrow> True"
  proof (cases "j = i")
    case True
    with here show ?thesis by (simp add: mm(3,4) cache(1) split: nonce_phase.splits)
  next
    case False
    have old: "case nt_phase (ns_tasks s ! j) of
        Writing c \<Rightarrow> cached s (nt_key (ns_tasks s ! j)) = c
      | Written c \<Rightarrow> c < cached s (nt_key (ns_tasks s ! j))
      | Issued c \<Rightarrow> c < cached s (nt_key (ns_tasks s ! j)) | _ \<Rightarrow> True"
      using ok(2) j by (simp add: value_ok_def)
    show ?thesis
    proof (cases "nt_key (ns_tasks s ! j) = nt_key (ns_tasks s ! i)")
      case True
      with others_idle(1,2) [OF ok(1) i at j False True] old cache(2) False show ?thesis
        by (auto simp: mm(3,4) cache(1) split: nonce_phase.splits)
    next
      case key: False
      with old False show ?thesis by (simp add: mm(3,4) cache(1) split: nonce_phase.splits)
    qed
  qed
qed

lemma moves_issued:
  assumes m: "moves_task i p s s'" and i: "i < length (ns_tasks s)" and ok: "order_ok s" "value_ok s" "issued_ok s"
    and at: "\<not> is_waiting (ns_tasks s ! i)" "\<not> settled (ns_tasks s ! i)"
    and here: "\<And>d. p \<in> {Writing d, Written d, Issued d} \<Longrightarrow>
      nt_phase (ns_tasks s ! i) \<in> {Writing d, Written d} \<or> d = cached s (nt_key (ns_tasks s ! i))"
  shows "issued_ok s'"
  unfolding issued_ok_def
proof (intro allI impI)
  note mm = moves_members [OF m i]
  fix k j c d
  assume e: "earlier s' k j" and k: "nt_phase (ns_tasks s' ! k) = Issued c"
    and d: "nt_phase (ns_tasks s' ! j) \<in> {Writing d, Written d, Issued d}"
  from e have e: "earlier s k j" by (simp add: mm(2))
  then have kj: "k < j" "j < length (ns_tasks s)" "nt_key (ns_tasks s ! k) = nt_key (ns_tasks s ! j)"
    by (simp_all add: earlier_def)
  consider "k = i" | "j = i" "k \<noteq> i" | "j \<noteq> i" "k \<noteq> i" by blast
  then show "c < d"
  proof cases
    case 1
    with d kj have "nt_phase (ns_tasks s ! j) \<in> {Writing d, Written d, Issued d}" by (simp add: mm(4))
    then have "\<not> is_waiting (ns_tasks s ! j)" by (auto simp: is_waiting_def)
    with ok(1) e at(2) 1 show ?thesis by (auto simp: order_ok_def)
  next
    case 2
    from k 2 have kc: "nt_phase (ns_tasks s ! k) = Issued c" by (simp add: mm(4))
    from d 2(1) have "p \<in> {Writing d, Written d, Issued d}" by (simp add: mm(4))
    from here [OF this] show ?thesis
    proof
      assume "nt_phase (ns_tasks s ! i) \<in> {Writing d, Written d}"
      with ok(3) e kc 2(1) show ?thesis unfolding issued_ok_def by blast
    next
      have "c < cached s (nt_key (ns_tasks s ! k))"
        using spec [OF ok(2) [unfolded value_ok_def], of k] kc kj by simp
      moreover assume "d = cached s (nt_key (ns_tasks s ! i))"
      ultimately show ?thesis using kj(3) 2(1) by simp
    qed
  next
    case 3
    with k d have "nt_phase (ns_tasks s ! k) = Issued c" "nt_phase (ns_tasks s ! j) \<in> {Writing d, Written d, Issued d}"
      by (simp_all add: mm(4))
    with ok(3) e show ?thesis unfolding issued_ok_def by blast
  qed
qed

lemma call_ok:
  assumes "nonce_ok s"
  shows "nonce_ok (call_nonce key s)"
proof -
  let ?n = "length (ns_tasks s)" and ?s = "call_nonce key s"
  have lock: "lock_ok s" and order: "order_ok s" and rest: "value_ok s" "issued_ok s"
    using assms by (simp_all add: nonce_ok_def)
  have old: "j < ?n \<Longrightarrow> ns_tasks ?s ! j = ns_tasks s ! j" for j
    by (simp add: call_nonce_def nth_append)
  have new: "ns_tasks ?s ! ?n = \<lparr>nt_key = key, nt_phase = Waiting (map_get (ns_locks s) key)\<rparr>"
    by (simp add: call_nonce_def)
  have len: "length (ns_tasks ?s) = Suc ?n" by (simp add: call_nonce_def)
  have locks: "map_get (ns_locks ?s) k = (if k = key then Some ?n else map_get (ns_locks s) k)" for k
    by (simp add: call_nonce_def)
  have e: "earlier ?s i j \<longleftrightarrow> earlier s i j \<or> j = ?n \<and> i < ?n \<and> nt_key (ns_tasks s ! i) = key" for i j
  proof (cases "i < j \<and> j \<le> ?n")
    case True
    then have i: "ns_tasks ?s ! i = ns_tasks s ! i" by (simp add: old)
    show ?thesis
    proof (cases "j = ?n")
      case j: True
      show ?thesis unfolding j using True j by (simp add: earlier_def len i new)
    next
      case False
      with True have "ns_tasks ?s ! j = ns_tasks s ! j" by (simp add: old)
      with False True show ?thesis by (simp add: earlier_def len i)
    qed
  next
    case False
    then show ?thesis by (auto simp: earlier_def len)
  qed
  have "lock_ok ?s"
    unfolding lock_ok_def
  proof (intro conjI allI impI)
    fix k t
    assume "map_get (ns_locks ?s) k = Some t"
    with lock show "t < length (ns_tasks ?s)" "nt_key (ns_tasks ?s ! t) = k"
      by (auto simp: locks len lock_ok_def old new less_Suc_eq split: if_splits)
  next
    fix k t j
    assume "map_get (ns_locks ?s) k = Some t"
    with lock show "\<not> earlier ?s t j"
      by (auto simp: locks e lock_ok_def split: if_splits) (auto simp: earlier_def)
  next
    fix i
    assume "i < length (ns_tasks ?s)" "\<not> settled (ns_tasks ?s ! i)"
    with lock show "map_get (ns_locks ?s) (nt_key (ns_tasks ?s ! i)) \<noteq> None"
      by (cases "i = ?n") (auto simp: locks len lock_ok_def old new less_Suc_eq)
  qed
  moreover have "order_ok ?s"
    unfolding order_ok_def
  proof (intro conjI allI impI)
    fix i j
    assume "earlier ?s i j" "\<not> is_waiting (ns_tasks ?s ! j)"
    moreover have "is_waiting (ns_tasks ?s ! ?n)" by (simp add: new is_waiting_def)
    ultimately have "earlier s i j" by (auto simp: e)
    with order \<open>\<not> is_waiting (ns_tasks ?s ! j)\<close> show "settled (ns_tasks ?s ! i)"
      by (auto simp: order_ok_def earlier_def old)
  next
    fix j w
    assume "j < length (ns_tasks ?s)" and w: "nt_phase (ns_tasks ?s ! j) = Waiting w"
    then consider "j < ?n" | "j = ?n" by (auto simp: len less_Suc_eq)
    then show "case w of None \<Rightarrow> (\<forall>i. earlier ?s i j \<longrightarrow> settled (ns_tasks ?s ! i))
        | Some p \<Rightarrow> earlier ?s p j \<and> (\<forall>i. earlier ?s i j \<longrightarrow> i = p \<or> earlier ?s i p)"
    proof cases
      case 1
      with w order have "case w of None \<Rightarrow> (\<forall>i. earlier s i j \<longrightarrow> settled (ns_tasks s ! i))
          | Some p \<Rightarrow> earlier s p j \<and> (\<forall>i. earlier s i j \<longrightarrow> i = p \<or> earlier s i p)"
        by (auto simp: order_ok_def old)
      moreover have "earlier ?s i j \<longleftrightarrow> earlier s i j" for i using 1 by (auto simp: e)
      moreover have "earlier s i p \<Longrightarrow> earlier ?s i p" for i p by (simp add: e)
      moreover have "earlier s i j \<Longrightarrow> ns_tasks ?s ! i = ns_tasks s ! i" for i
        using 1 by (simp add: earlier_def old)
      ultimately show ?thesis by (cases w) auto
    next
      case 2
      then have w: "w = map_get (ns_locks s) key" using w by (simp add: new)
      show ?thesis
      proof (cases w)
        case None
        with lock w have "settled (ns_tasks s ! i)" if "i < ?n" "nt_key (ns_tasks s ! i) = key" for i
          using that by (auto simp: lock_ok_def)
        moreover have "i < ?n \<and> nt_key (ns_tasks s ! i) = key" if "earlier ?s i j" for i
          using that 2 by (auto simp: e) (auto simp: earlier_def)
        ultimately show ?thesis using None by (simp add: old)
      next
        case (Some p)
        with lock w have p: "p < ?n" "nt_key (ns_tasks s ! p) = key" "\<not> earlier s p i" for i
          by (auto simp: lock_ok_def)
        have "i = p \<or> earlier s i p" if "i < ?n" "nt_key (ns_tasks s ! i) = key" for i
          using that p(1,2) p(3) [of i] by (auto simp: earlier_def)
        with Some 2 p(1,2) show ?thesis by (auto simp: e) (auto simp: earlier_def)
      qed
    qed
  qed
  moreover have "cached ?s = cached s" by (simp add: cached_def call_nonce_def fun_eq_iff)
  have "value_ok ?s"
    unfolding value_ok_def
  proof (intro allI impI)
    fix i
    assume "i < length (ns_tasks ?s)"
    then consider "i < ?n" | "i = ?n" by (auto simp: len less_Suc_eq)
    then show "case nt_phase (ns_tasks ?s ! i) of Writing c \<Rightarrow> cached ?s (nt_key (ns_tasks ?s ! i)) = c
        | Written c \<Rightarrow> c < cached ?s (nt_key (ns_tasks ?s ! i))
        | Issued c \<Rightarrow> c < cached ?s (nt_key (ns_tasks ?s ! i)) | _ \<Rightarrow> True"
    proof cases
      case 1
      with rest(1) show ?thesis unfolding old [OF 1] \<open>cached ?s = cached s\<close> value_ok_def by blast
    qed (simp add: new)
  qed
  moreover have "issued_ok ?s"
    unfolding issued_ok_def
  proof (intro allI impI)
    fix i j c d
    assume ij: "earlier ?s i j" "nt_phase (ns_tasks ?s ! i) = Issued c"
      "nt_phase (ns_tasks ?s ! j) \<in> {Writing d, Written d, Issued d}"
    then have "j \<noteq> ?n" by (auto simp: new)
    with ij(1) have "earlier s i j" by (auto simp: e)
    with ij(2,3) rest(2) show "c < d" by (auto simp: issued_ok_def earlier_def old)
  qed
  ultimately show ?thesis by (simp add: nonce_ok_def)
qed

lemma phase_facts:
  assumes "nt_phase t \<in> {Reading, Writing c, Written c}"
  shows "\<not> is_waiting t" "\<not> settled t"
  using assms by (auto simp: is_waiting_def settled_phase)

text \<open>A task at work moves on.\<close>

lemma at_work_ok:
  assumes ok: "nonce_ok s" and i: "i < length (ns_tasks s)"
    and work: "nt_phase (ns_tasks s ! i) \<in> {Reading, Writing c, Written c}"
    and m: "moves_task i p s s'"
    and cache: "\<And>k. cached s' k = (if k = nt_key (ns_tasks s ! i) then v else cached s k)"
      "cached s (nt_key (ns_tasks s ! i)) \<le> v"
    and here: "case p of Writing c \<Rightarrow> v = c | Written c \<Rightarrow> c < v | Issued c \<Rightarrow> c < v
      | Failed \<Rightarrow> True | _ \<Rightarrow> False"
    and known: "\<And>d. p \<in> {Writing d, Written d, Issued d} \<Longrightarrow>
      nt_phase (ns_tasks s ! i) \<in> {Writing d, Written d} \<or> d = cached s (nt_key (ns_tasks s ! i))"
    and locks: "ns_locks s' = ns_locks s \<or> (p = Failed \<or> (\<exists>c. p = Issued c)) \<and>
      ns_locks s' = (if map_get (ns_locks s) (nt_key (ns_tasks s ! i)) = Some i
        then map_delete (nt_key (ns_tasks s ! i)) (ns_locks s) else ns_locks s)"
  shows "nonce_ok s'"
proof -
  note at = phase_facts [OF work]
  have lock: "lock_ok s" and order: "order_ok s" and val: "value_ok s" and iss: "issued_ok s"
    using ok by (simp_all add: nonce_ok_def)
  have "\<And>j. earlier s j i \<Longrightarrow> settled (ns_tasks s ! j)" using order at(1) by (auto simp: order_ok_def)
  moreover have "p \<noteq> Waiting w" for w using here by (auto split: nonce_phase.splits)
  ultimately have "order_ok s'" using moves_order [OF m i order at(2)] by blast
  moreover have "lock_ok s'"
    using locks lock_kept [OF m i lock at(2)] lock_released [OF m i lock order at(2,1)] by blast
  moreover have "value_ok s'"
    by (rule moves_values [OF m i order val at cache]) (use here in \<open>auto split: nonce_phase.splits\<close>)
  moreover have "issued_ok s'" by (rule moves_issued [OF m i order val iss at known])
  ultimately show ?thesis by (simp add: nonce_ok_def)
qed

lemma nonce_step_ok:
  assumes "nonce_step s s'" and "nonce_ok s"
  shows "nonce_ok s'"
  using assms
proof cases
  case (called account channel)
  with assms(2) show ?thesis by (simp add: call_ok)
next
  case (entered i w)
  have lock: "lock_ok s" and order: "order_ok s" and val: "value_ok s" and iss: "issued_ok s"
    using assms(2) by (simp_all add: nonce_ok_def)
  have unsettled: "\<not> settled (ns_tasks s ! i)" using entered(3) by (simp add: settled_phase)
  have before: "settled (ns_tasks s ! j)" if "earlier s j i" for j
  proof (cases w)
    case None
    with order entered(2,3) that show ?thesis by (fastforce simp: order_ok_def)
  next
    case (Some p)
    with order entered(2,3) have p: "earlier s p i" "\<And>k. earlier s k i \<Longrightarrow> k = p \<or> earlier s k p"
      by (fastforce simp: order_ok_def)+
    from entered(4) Some have "settled (ns_tasks s ! p)" by simp
    then have "\<not> is_waiting (ns_tasks s ! p)" by (auto simp: settled_phase is_waiting_def split: nonce_phase.splits)
    with order p(2) [OF that] \<open>settled (ns_tasks s ! p)\<close> show ?thesis by (auto simp: order_ok_def)
  qed
  note m = moves_ops(1) [of i Reading s]
  have order': "order_ok (set_phase i Reading s)"
    by (rule moves_order [OF m entered(2) order unsettled before]) simp_all
  note mm = moves_members [OF m entered(2)]
  have "value_ok (set_phase i Reading s)" using val unfolding value_ok_def mm cached_ops by simp
  moreover have "issued_ok (set_phase i Reading s)"
    using iss unfolding issued_ok_def mm by (auto split: if_splits)
  moreover have "lock_ok (set_phase i Reading s)"
    by (rule lock_kept [OF m entered(2) lock unsettled]) (simp add: moves_ops)
  ultimately show ?thesis using order' entered(1) by (simp add: nonce_ok_def)
next
  case (read i)
  show ?thesis unfolding read(1)
    by (rule at_work_ok [OF assms(2) read(2) _ moves_ops(1), where c = 0
          and v = "cached s (nt_key (ns_tasks s ! i))"])
      (use read(3) in \<open>simp_all add: moves_ops\<close>)
next
  case (read_failed i)
  show ?thesis unfolding read_failed(1)
    by (rule at_work_ok [OF assms(2) read_failed(2) _ moves_ops(2), where c = 0
          and v = "cached s (nt_key (ns_tasks s ! i))"])
      (use read_failed(3) in \<open>simp_all add: moves_ops\<close>)
next
  case (wrote i c)
  have "cached s (nt_key (ns_tasks s ! i)) = c"
    using spec [OF conjunct1 [OF conjunct2 [OF conjunct2 [OF assms(2) [unfolded nonce_ok_def]]], unfolded value_ok_def], of i]
      wrote(2,3) by simp
  then show ?thesis unfolding wrote(1)
    by (intro at_work_ok [OF assms(2) wrote(2) _ moves_ops(3), where c = c and v = "c + 1"])
      (use wrote(3) in \<open>simp_all add: moves_ops\<close>)
next
  case (write_failed i c)
  show ?thesis unfolding write_failed(1)
    by (rule at_work_ok [OF assms(2) write_failed(2) _ moves_ops(2), where c = c
          and v = "cached s (nt_key (ns_tasks s ! i))"])
      (use write_failed(3) in \<open>simp_all add: moves_ops\<close>)
next
  case (write_unanswered i c)
  have "cached s (nt_key (ns_tasks s ! i)) = c"
    using spec [OF conjunct1 [OF conjunct2 [OF conjunct2 [OF assms(2) [unfolded nonce_ok_def]]], unfolded value_ok_def], of i]
      write_unanswered(2,3) by simp
  then show ?thesis unfolding write_unanswered(1)
    by (intro at_work_ok [OF assms(2) write_unanswered(2) _ moves_ops(4), where c = c and v = "c + 1"])
      (use write_unanswered(3) in \<open>simp_all add: moves_ops\<close>)
next
  case (issued i c)
  have "c < cached s (nt_key (ns_tasks s ! i))"
    using spec [OF conjunct1 [OF conjunct2 [OF conjunct2 [OF assms(2) [unfolded nonce_ok_def]]], unfolded value_ok_def], of i]
      issued(2,3) by simp
  then show ?thesis unfolding issued(1)
    by (intro at_work_ok [OF assms(2) issued(2) _ moves_ops(2), where c = c
          and v = "cached s (nt_key (ns_tasks s ! i))"])
      (use issued(3) in \<open>simp_all add: moves_ops\<close>)
qed

lemma no_tasks_ok: "nonce_ok no_tasks"
  by (simp add: nonce_ok_def lock_ok_def order_ok_def value_ok_def issued_ok_def no_tasks_def earlier_def)

lemma nonce_run_ok: "nonce_step\<^sup>*\<^sup>* no_tasks s \<Longrightarrow> nonce_ok s"
  by (induction rule: rtranclp_induct) (auto intro: no_tasks_ok nonce_step_ok)

end
