(* ===== verification/Rate_Limiter.thy ===== *)
theory Rate_Limiter
  imports Complex_Main Js_Collections
begin

text \<open>
  The token-bucket middleware of the gateway server (\<open>server/rate-limiter.ts\<close>).  The clock
  (milliseconds) and the key of a request are arguments; tokens are rationals, so the rounding of
  floating-point numbers is not modelled.
\<close>

record token_bucket =
  tb_tokens :: rat
  tb_lastRefill :: int

definition new_bucket :: "rat \<Rightarrow> int \<Rightarrow> token_bucket" where
  "new_bucket maxTokens now = \<lparr>tb_tokens = maxTokens, tb_lastRefill = now\<rparr>"

definition refill :: "rat \<Rightarrow> rat \<Rightarrow> int \<Rightarrow> token_bucket \<Rightarrow> token_bucket" where
  "refill maxTokens refillRate now b =
     (let elapsed = of_int (now - tb_lastRefill b) / 1000
      in \<lparr>tb_tokens = min maxTokens (tb_tokens b + elapsed * refillRate), tb_lastRefill = now\<rparr>)"

definition consume_token :: "rat \<Rightarrow> rat \<Rightarrow> int \<Rightarrow> token_bucket \<Rightarrow> bool \<times> token_bucket" where
  "consume_token maxTokens refillRate now b =
     (let b1 = refill maxTokens refillRate now b
      in if 1 \<le> tb_tokens b1 then (True, b1\<lparr>tb_tokens := tb_tokens b1 - 1\<rparr>) else (False, b1))"

text \<open>\<open>True\<close>: \<open>next()\<close>; \<open>False\<close>: the answer is 429.\<close>

definition rate_limit ::
    "rat \<Rightarrow> rat \<Rightarrow> int \<Rightarrow> string \<Rightarrow> token_bucket js_map \<Rightarrow> bool \<times> token_bucket js_map" where
  "rate_limit maxTokens refillRate now key buckets =
     (let bucket = (case map_get buckets key of Some b \<Rightarrow> b | None \<Rightarrow> new_bucket maxTokens now)
      in case consume_token maxTokens refillRate now bucket of
           (passed, b) \<Rightarrow> (passed, map_put key b buckets))"

fun rate_limit_all ::
    "rat \<Rightarrow> rat \<Rightarrow> (int \<times> string) list \<Rightarrow> token_bucket js_map \<Rightarrow> bool list \<times> token_bucket js_map" where
  "rate_limit_all maxTokens refillRate [] buckets = ([], buckets)"
| "rate_limit_all maxTokens refillRate ((now, key) # requests) buckets =
     (case rate_limit maxTokens refillRate now key buckets of
        (passed, buckets1) \<Rightarrow>
          (case rate_limit_all maxTokens refillRate requests buckets1 of
             (later, buckets2) \<Rightarrow> (passed # later, buckets2)))"


section \<open>How many requests pass\<close>

lemma map_put_put: "map_put k v (map_put k w m) = map_put k v m"
  by (induction m) (auto simp: map_put_def)

text \<open>The requests of a key that pass.\<close>

definition passed_of :: "string \<Rightarrow> (int \<times> string) list \<Rightarrow> bool list \<Rightarrow> nat" where
  "passed_of key requests answers =
     length (filter (\<lambda>((now, k), passed). k = key \<and> passed) (zip requests answers))"

lemma passed_of_Cons:
  "passed_of key ((now, k) # requests) (p # answers) =
     (if k = key \<and> p then 1 else 0) + passed_of key requests answers"
  by (simp add: passed_of_def)

lemma consume_bounds:
  assumes "consume_token maxTokens refillRate now b = (passed, b')"
  shows "tb_lastRefill b' = now"
    and "tb_tokens b' + (if passed then 1 else 0) \<le> maxTokens"
    and "tb_tokens b' + (if passed then 1 else 0)
      \<le> tb_tokens b + of_int (now - tb_lastRefill b) / 1000 * refillRate"
    and "passed \<Longrightarrow> 0 \<le> tb_tokens b'"
  using assms by (auto simp: consume_token_def refill_def Let_def split: if_splits)

lemma consume_keeps:
  assumes "consume_token maxTokens refillRate now b = (passed, b')"
    and "0 \<le> tb_tokens b" and "tb_lastRefill b \<le> now" and "0 \<le> refillRate" and "0 \<le> maxTokens"
  shows "0 \<le> tb_tokens b'"
  using assms by (auto simp: consume_token_def refill_def Let_def split: if_splits)

text \<open>From a bucket on, until time \<open>t\<close>.\<close>

lemma limited_from:
  assumes "sorted (last_refill # map fst requests)" and "\<forall>r \<in> set requests. fst r \<le> t" and "last_refill \<le> t"
    and "map_get buckets key = Some b" and "tb_lastRefill b = last_refill"
    and "0 \<le> tb_tokens b" and "0 \<le> refillRate" and "0 \<le> maxTokens"
  shows "of_nat (passed_of key requests (fst (rate_limit_all maxTokens refillRate requests buckets)))
    \<le> tb_tokens b + of_int (t - last_refill) / 1000 * refillRate"
  using assms
proof (induction requests arbitrary: buckets b last_refill)
  case Nil
  have "0 \<le> of_int (t - last_refill) / 1000 * refillRate"
    using Nil.prems by (intro mult_nonneg_nonneg) simp_all
  with Nil.prems show ?case by (simp add: passed_of_def)
next
  case (Cons r requests)
  obtain now k where r: "r = (now, k)" by (cases r)
  obtain passed b' where c: "consume_token maxTokens refillRate now
      (case map_get buckets k of Some b \<Rightarrow> b | None \<Rightarrow> new_bucket maxTokens now) = (passed, b')"
    by fastforce
  let ?rest = "rate_limit_all maxTokens refillRate requests (map_put k b' buckets)"
  have all: "fst (rate_limit_all maxTokens refillRate (r # requests) buckets) = passed # fst ?rest"
    using c by (simp add: r rate_limit_def Let_def split: prod.split)
  have order: "sorted (now # map fst requests)" "last_refill \<le> now" "now \<le> t" "\<forall>r \<in> set requests. fst r \<le> t"
    using Cons.prems(1,2) by (simp_all add: r)
  show ?case
  proof (cases "k = key")
    case True
    with c Cons.prems(4) have c: "consume_token maxTokens refillRate now b = (passed, b')" by simp
    have b': "0 \<le> tb_tokens b'" "tb_lastRefill b' = now"
      using consume_keeps [OF c] consume_bounds(1) [OF c] Cons.prems order by auto
    have "of_nat (passed_of key requests (fst ?rest)) \<le> tb_tokens b' + of_int (t - now) / 1000 * refillRate"
      by (rule Cons.IH [OF order(1,4,3) _ b'(2,1) Cons.prems(7,8)]) (simp add: True)
    moreover have "of_int (now - last_refill) / 1000 * refillRate + of_int (t - now) / 1000 * refillRate
        = of_int (t - last_refill) / 1000 * refillRate"
      by (simp add: field_simps)
    ultimately show ?thesis
      using consume_bounds(3) [OF c] Cons.prems(5) unfolding r all [unfolded r] passed_of_Cons
      by (auto simp: True)
  next
    case False
    have "sorted (last_refill # map fst requests)" using Cons.prems(1) by (simp add: r)
    from Cons.IH [OF this order(4) Cons.prems(3) _ Cons.prems(5-8)] False Cons.prems(4)
    show ?thesis unfolding r all [unfolded r] passed_of_Cons by simp
  qed
qed

lemma passed_none:
  assumes "key \<notin> snd ` set requests"
  shows "passed_of key requests answers = 0"
  using assms unfolding passed_of_def by (force simp: filter_empty_conv dest: set_zip_leftD)

text \<open>From the first request of a key on, or from no bucket.\<close>

lemma limited:
  assumes "sorted (t0 # map fst requests)" and "\<forall>r \<in> set requests. fst r \<le> t" and "t0 \<le> t"
    and "map_get buckets key = None" and "0 \<le> refillRate" and "0 \<le> maxTokens"
  shows "of_nat (passed_of key requests (fst (rate_limit_all maxTokens refillRate requests buckets)))
    \<le> maxTokens + of_int (t - t0) / 1000 * refillRate"
  using assms
proof (induction requests arbitrary: buckets t0)
  case Nil
  have "0 \<le> of_int (t - t0) / 1000 * refillRate"
    using Nil.prems by (intro mult_nonneg_nonneg) simp_all
  with Nil.prems show ?case by (simp add: passed_of_def)
next
  case (Cons r requests)
  obtain now k where r: "r = (now, k)" by (cases r)
  have order: "sorted (now # map fst requests)" "t0 \<le> now" "now \<le> t" "\<forall>r \<in> set requests. fst r \<le> t"
    "sorted (now # map fst (r # requests))"
    using Cons.prems(1,2) by (simp_all add: r)
  have shrink: "of_int (t - now) / 1000 * refillRate \<le> of_int (t - t0) / 1000 * refillRate"
    using order(2) Cons.prems(5) by (intro mult_right_mono divide_right_mono) simp_all
  show ?case
  proof (cases "k = key")
    case True
    let ?b = "new_bucket maxTokens now"
    have "rate_limit maxTokens refillRate now key buckets
        = rate_limit maxTokens refillRate now key (map_put key ?b buckets)"
      using Cons.prems(4) by (simp add: rate_limit_def Let_def map_put_put split: prod.split)
    then have "fst (rate_limit_all maxTokens refillRate (r # requests) buckets)
        = fst (rate_limit_all maxTokens refillRate (r # requests) (map_put key ?b buckets))"
      by (simp add: r True)
    moreover have "of_nat (passed_of key (r # requests) (fst (rate_limit_all maxTokens refillRate (r # requests) (map_put key ?b buckets))))
        \<le> tb_tokens ?b + of_int (t - now) / 1000 * refillRate"
      by (rule limited_from [OF order(5) Cons.prems(2) order(3)])
        (use Cons.prems in \<open>simp_all add: new_bucket_def\<close>)
    ultimately show ?thesis using shrink by (simp add: new_bucket_def)
  next
    case False
    obtain passed b' where c: "consume_token maxTokens refillRate now
        (case map_get buckets k of Some b \<Rightarrow> b | None \<Rightarrow> new_bucket maxTokens now) = (passed, b')"
      by fastforce
    have "of_nat (passed_of key requests (fst (rate_limit_all maxTokens refillRate requests (map_put k b' buckets))))
        \<le> maxTokens + of_int (t - now) / 1000 * refillRate"
      by (rule Cons.IH [OF order(1,4,3)]) (use False Cons.prems in simp_all)
    moreover have "fst (rate_limit_all maxTokens refillRate (r # requests) buckets)
        = passed # fst (rate_limit_all maxTokens refillRate requests (map_put k b' buckets))"
      using c by (simp add: r rate_limit_def Let_def split: prod.split)
    ultimately show ?thesis using shrink False by (simp add: r passed_of_Cons)
  qed
qed

end
