(* ===== verification/Server_Properties.thy ===== *)
theory Server_Properties
  imports Server_Demo Nonce_Engine Rate_Limiter
begin

text \<open>
  The properties of the SDK and of the gateway server: link artifacts, envelope tokens, nonces, access
  credentials, the relayer, the recovery of paycards and the rate limiter.  Their witnesses are
  evaluated in the environment of \<open>Server_Demo\<close>.
\<close>


section \<open>Links\<close>









section \<open>Envelope tokens\<close>





section \<open>Nonces\<close>

text \<open>
  C25: however the tasks of an engine interleave, and whichever reads and writes of the cache fail, an
  earlier call for an account and channel that was given a nonce was given a smaller one than a
  later call; so no nonce is given twice.
\<close>

theorem nonces_increase:
  assumes "nonce_step\<^sup>*\<^sup>* no_tasks s" and "i < j" and "j < length (ns_tasks s)"
    and "nt_key (ns_tasks s ! i) = nt_key (ns_tasks s ! j)"
    and "nt_phase (ns_tasks s ! i) = Issued c" and "nt_phase (ns_tasks s ! j) = Issued d"
  shows "c < d"
  using nonce_run_ok [OF assms(1)] assms(2-)
  unfolding nonce_ok_def issued_ok_def earlier_def by blast

definition demo_key :: string where
  "demo_key = cacheKey (addr CHR ''1'') 7"

definition demo_tasks :: "nonce_phase \<Rightarrow> nonce_phase \<Rightarrow> nat js_map \<Rightarrow> int js_map \<Rightarrow> nonce_system" where
  "demo_tasks p q locks cache =
     \<lparr>ns_tasks = [\<lparr>nt_key = demo_key, nt_phase = p\<rparr>, \<lparr>nt_key = demo_key, nt_phase = q\<rparr>],
      ns_locks = locks, ns_cache = cache\<rparr>"

lemma demo_nonce_run:
  "nonce_step\<^sup>*\<^sup>* no_tasks (demo_tasks (Issued 0) (Issued 1) [] [(demo_key, 2)])"
proof -
  let ?l = "[(demo_key, 1::nat)]"
  note ops = demo_tasks_def call_nonce_def set_phase_def release_def write_cache_def no_tasks_def cached_def
    map_put_def map_get_def map_delete_def Let_def settled_def
  have "nonce_step no_tasks (call_nonce demo_key no_tasks)"
    unfolding demo_key_def by (rule called)
  moreover have "nonce_step (call_nonce demo_key no_tasks) (call_nonce demo_key (call_nonce demo_key no_tasks))"
    unfolding demo_key_def by (rule called)
  moreover have "call_nonce demo_key (call_nonce demo_key no_tasks) = demo_tasks (Waiting None) (Waiting (Some 0)) ?l []"
    by (simp add: ops)
  moreover have "nonce_step (demo_tasks (Waiting None) (Waiting (Some 0)) ?l []) (demo_tasks Reading (Waiting (Some 0)) ?l [])"
    using entered [of 0 "demo_tasks (Waiting None) (Waiting (Some 0)) ?l []" None] by (simp add: ops)
  moreover have "nonce_step (demo_tasks Reading (Waiting (Some 0)) ?l []) (demo_tasks (Writing 0) (Waiting (Some 0)) ?l [])"
    using read [of 0 "demo_tasks Reading (Waiting (Some 0)) ?l []"] by (simp add: ops)
  moreover have "nonce_step (demo_tasks (Writing 0) (Waiting (Some 0)) ?l [])
      (demo_tasks (Written 0) (Waiting (Some 0)) ?l [(demo_key, 1)])"
    using wrote [of 0 "demo_tasks (Writing 0) (Waiting (Some 0)) ?l []" 0] by (simp add: ops)
  moreover have "nonce_step (demo_tasks (Written 0) (Waiting (Some 0)) ?l [(demo_key, 1)])
      (demo_tasks (Issued 0) (Waiting (Some 0)) ?l [(demo_key, 1)])"
    using issued [of 0 "demo_tasks (Written 0) (Waiting (Some 0)) ?l [(demo_key, 1)]" 0] by (simp add: ops)
  moreover have "nonce_step (demo_tasks (Issued 0) (Waiting (Some 0)) ?l [(demo_key, 1)])
      (demo_tasks (Issued 0) Reading ?l [(demo_key, 1)])"
    using entered [of 1 "demo_tasks (Issued 0) (Waiting (Some 0)) ?l [(demo_key, 1)]" "Some 0"] by (simp add: ops)
  moreover have "nonce_step (demo_tasks (Issued 0) Reading ?l [(demo_key, 1)])
      (demo_tasks (Issued 0) (Writing 1) ?l [(demo_key, 1)])"
    using read [of 1 "demo_tasks (Issued 0) Reading ?l [(demo_key, 1)]"] by (simp add: ops)
  moreover have "nonce_step (demo_tasks (Issued 0) (Writing 1) ?l [(demo_key, 1)])
      (demo_tasks (Issued 0) (Written 1) ?l [(demo_key, 2)])"
    using wrote [of 1 "demo_tasks (Issued 0) (Writing 1) ?l [(demo_key, 1)]" 1] by (simp add: ops)
  moreover have "nonce_step (demo_tasks (Issued 0) (Written 1) ?l [(demo_key, 2)])
      (demo_tasks (Issued 0) (Issued 1) [] [(demo_key, 2)])"
    using issued [of 1 "demo_tasks (Issued 0) (Written 1) ?l [(demo_key, 2)]" 1] by (simp add: ops)
  ultimately show ?thesis by (metis (no_types, lifting) rtranclp.simps)
qed

theorem nonces_increase_witness: "(0::int) < 1 \<and> length (ns_tasks (demo_tasks (Issued 0) (Issued 1) [] [(demo_key, 2)])) = 2"
  using nonces_increase [OF demo_nonce_run, of 0 1 0 1] by (simp add: demo_tasks_def)


section \<open>Rate limiting\<close>




section \<open>Access credentials\<close>

text \<open>
  C21: a credential the SDK issues, carried in the headers the SDK builds from it, is granted by the
  server it is for, from its issue (less a minute) until just before its expiry, with the signer that
  signed it.
\<close>

theorem issued_credential_granted:
  assumes "createOpenRailsAccessCredential X signer random p = Inr c"
    and "buildOpenRailsAccessHeaders X (Inl c) = Inr h"
    and "recovers X signer" and "access_numbers p" and "\<not> et_isHexString X [] 32" and "ap_mode p \<noteq> []"
    and "ao_expectedChainId ops = ap_chainId p"
    and "sameAddress (et_deps X) (ap_vault p) (ao_expectedVault ops)"
    and "sameAddress (et_deps X) (ap_service p) (ao_expectedService ops)"
    and "ao_expectedServiceOrigin ops = ap_serviceOrigin p" and "ao_expectedScope ops = ap_scope p"
    and "ap_issuedAt p \<le> ao_now ops + 60" and "ao_now ops < ap_expiresAt p"
  shows "validateOpenRailsAccessRequest X h ops = Inr (Granted (c, sg_address signer))"
  using assms by (rule issued_granted)

theorem issued_credential_granted_witness:
  "validateOpenRailsAccessRequest demo_ethers (headers_of (serializeEnvelope demo_credential) demo_credential)
     (protected_options demo_config 1500) = Inr (Granted (demo_credential, addr CHR ''1''))"
  using issued_credential_granted [OF demo_issued demo_headers demo_recovers, of "protected_options demo_config 1500"]
  by (simp add: access_numbers_def demo_access_def js_round_exact demo_hex_def protected_options_def demo_config_def
      sameAddress_def demo_signer_at_def)

text \<open>
  C20: the protected resource is unlocked exactly for a request in the local sandbox whose
  authorization carries a well-formed credential that is current, is addressed to this chain, vault,
  service, origin and scope, is repeated by the headers and is signed by its signer, where the
  paycard it names is active, has its metadata hash, and has the signer as payer or recipient.
\<close>

theorem protected_resource_gated:
  "rs_status (protected_resource X cfg H nowSeconds req) = 200 \<longleftrightarrow>
    isLocalSandboxMode cfg \<and> sv_hasRelayerWallet cfg \<and>
    (\<exists>token c signer row.
      header req ''authorization'' = Some (auth_scheme @ token) \<and> deserializeEnvelope (trim token) = Inr c \<and>
      access_shape X c \<and> access_addressed X c (protected_options cfg nowSeconds) \<and>
      headers_repeat (access_headers_of req) c \<and> access_current c nowSeconds \<and> access_signed X c signer \<and>
      hb_registry H (field (Some c) ''paycardId'') = Inr row \<and> row_payer row \<noteq> ZeroAddress \<and>
      field (Some c) ''metadataHash'' = Some (JStr (row_metadataHash row)) \<and> row_operationalStatus row = 0 \<and>
      (toLowerCase signer = toLowerCase (row_payer row) \<or> toLowerCase signer = toLowerCase (row_recipient row)))"
  unfolding protected_resource_exact access_granted_iff
  by (simp add: access_headers_of_def protected_options_def) blast


section \<open>Recovering paycards\<close>

text \<open>
  C22: the search for paycards in the hub's logs always returns, whatever the provider answers; over a
  provider that serves one chain it returns the newest paycards of the range, one for each id, up to
  the limit, whatever the size of the chunks it reads.
\<close>

theorem recovery_returns_newest:
  "(\<exists>r. recoverPaycardsFromLogs X P hubAddress ops = Some r) \<and>
   (serves P chain \<longrightarrow> registry_answers P \<longrightarrow> cp_blockNumber P = Inr latest \<longrightarrow>
    isAddress (et_deps X) hubAddress \<longrightarrow> recovery_accepts X ops latest \<longrightarrow>
    recoverPaycardsFromLogs X P hubAddress ops =
      Some (Inr (newest_paycards P (ro_metadataHash ops) (nat (or_default (ro_limit ops) 25))
        (logs_between chain (or_default (ro_fromBlock ops) 0) (min (or_default (ro_toBlock ops) latest) latest)))))"
  using recovery_returns recovery_exact by blast

definition demo_log :: "int \<Rightarrow> char \<Rightarrow> chain_log" where
  "demo_log block c =
     \<lparr>lg_blockNumber = block, lg_transactionHash = demo_hash c, lg_index = 0,
      lg_parsed = Some \<lparr>pv_paycardId = demo_hash c, pv_payer = addr CHR ''1'', pv_recipient = addr CHR ''2'',
        pv_metadataHash = demo_hash CHR ''b'', pv_poolAllocation = 100, pv_flowVelocityPerSecond = 0,
        pv_genesisTimestamp = 1000, pv_lifespanSeconds = 60\<rparr>\<rparr>"

definition demo_chain :: "chain_log list" where
  "demo_chain = [demo_log 3 CHR ''1'', demo_log 5 CHR ''2'', demo_log 8 CHR ''1'', demo_log 9 CHR ''9'']"

definition demo_provider :: chain_provider where
  "demo_provider = \<lparr>cp_blockNumber = Inr 8, cp_getLogs = (\<lambda>a b. Inr (logs_between demo_chain a b)),
     cp_registry = (\<lambda>i. Inr demo_row)\<rparr>"

definition demo_recovery :: recovery_options where
  "demo_recovery = \<lparr>ro_payer = Some (addr CHR ''1''), ro_recipient = None, ro_metadataHash = None,
     ro_fromBlock = Some 2, ro_toBlock = Some 20, ro_limit = Some 5, ro_chunkSize = Some 2\<rparr>"

theorem recovery_returns_newest_witness:
  "map_option (map_sum id (map rp_paycardId))
     (recoverPaycardsFromLogs demo_ethers demo_provider (addr CHR ''c'') demo_recovery) =
   Some (Inr [demo_hash CHR ''1'', demo_hash CHR ''2''])"
proof -
  have "serves demo_provider demo_chain" "registry_answers demo_provider" "cp_blockNumber demo_provider = Inr 8"
      "isAddress (et_deps demo_ethers) (addr CHR ''c'')"
    by (simp_all add: serves_def registry_answers_def demo_provider_def demo_chain_def demo_log_def isAddress_def)
  moreover have "recovery_accepts demo_ethers demo_recovery 8"
    by (simp add: recovery_accepts_def demo_recovery_def bad_address_def isAddress_def no_text_def or_default_def,
        simp add: addr_def)
  ultimately have "recoverPaycardsFromLogs demo_ethers demo_provider (addr CHR ''c'') demo_recovery =
      Some (Inr (newest_paycards demo_provider None 5 (logs_between demo_chain 2 8)))"
    using conjunct2 [OF recovery_returns_newest, rule_format, of demo_provider demo_chain 8 demo_ethers
        "addr CHR ''c''" demo_recovery]
    by (simp add: demo_recovery_def or_default_def)
  moreover have "toLowerCase (demo_hash CHR ''1'') \<noteq> toLowerCase (demo_hash CHR ''2'')"
    by (simp add: demo_hash_def toLowerCase_def)
  moreover have "addr CHR ''1'' \<noteq> ZeroAddress" by (simp add: addr_not_zero)
  ultimately show ?thesis
    by (simp add: newest_paycards_def logs_between_def demo_chain_def demo_log_def List.map_filter_def
        paycard_of_log_def readPaycard_def demo_provider_def view_of_row_def demo_row_def hash_wanted_def
        recovered_of_def paycard_key_def)
qed


section \<open>The relayer\<close>

text \<open>
  C19: the relayer submits something only where its mode allows it, for an envelope that decodes and
  whose intent the request's policy approves, whose mode fits its recipient and whose metadata, if
  any, hashes to the signed hash and repeats the signed terms, within the public caps where they
  apply; it submits the signed terms, for a bearer card to a claim recipient that is a non-zero
  address, and once more only around a nonce error.
\<close>

theorem relayer_submits_only_granted:
  assumes "snd (open_paycard X cfg H nowSeconds req) \<noteq> []"
  shows "currentCapabilities cfg CanRelayOpen \<and>
    (\<exists>g body. body = paycard_request_of (envelopeHeaderParser req) \<and>
      decode_token (pr_envelopeToken body) = Some (pg_decoded g) \<and>
      evaluatePolicyEnvelope (field (Some (pg_decoded g)) ''intent'') (pr_policyEnvelope body) nowSeconds = Inr [] \<and>
      mode_fits X (pg_decoded g) body (pg_envelopeMode g) \<and>
      metadata_binds X (pg_decoded g) (pg_envelopeMode g) (Some (sv_usdcAddress cfg)) \<and>
      (if field (field (Some (pg_decoded g)) ''intent'') ''recipient'' = Some (JStr ZeroAddress)
       then hc_method (open_call g None) = ''claimWildcardPaycardChannel'' \<and>
         hc_args (open_call g None) ! 2 = pr_claimRecipient body
       else hc_method (open_call g None) = ''openPaycardChannel'' \<and>
         hc_args (open_call g None) ! 2 = field (field (Some (pg_decoded g)) ''intent'') ''recipient'') \<and>
      (ARC_PUBLIC_RELAYER_ENABLED cfg \<longrightarrow> (\<exists>A a.
        hb_parseUnits H (sv_maxAllocationUsdc cfg) 6 = Some A \<and>
        big_of_text (field (field (Some (pg_decoded g)) ''intent'') ''totalAllocationPool'') = Inr a \<and> a \<le> A)) \<and>
      retried H (open_call g) (snd (open_paycard X cfg H nowSeconds req)))"
proof -
  from open_paycard_calls [OF assms] obtain g where cap: "currentCapabilities cfg CanRelayOpen"
      and v: "validateOpenPaycardRequest X nowSeconds (paycard_request_of (envelopeHeaderParser req))
        (Some (sv_usdcAddress cfg)) = Inr (Inr g)"
      and caps: "validatePublicRelayerCaps cfg H (field (Some (pg_decoded g)) ''intent'') = Inr []"
      and calls: "retried H (open_call g) (snd (open_paycard X cfg H nowSeconds req))"
    by blast
  note granted = paycard_granted [OF v]
  show ?thesis
  proof (intro conjI exI [of _ g] exI [of _ "paycard_request_of (envelopeHeaderParser req)"] impI)
    assume "ARC_PUBLIC_RELAYER_ENABLED cfg"
    from caps_bound [OF caps this] show "\<exists>A a. hb_parseUnits H (sv_maxAllocationUsdc cfg) 6 = Some A \<and>
        big_of_text (field (field (Some (pg_decoded g)) ''intent'') ''totalAllocationPool'') = Inr a \<and> a \<le> A"
      by blast
  qed (use cap calls granted in \<open>simp_all add: open_call_def Let_def\<close>)
qed

definition demo_intent :: json where
  "demo_intent = JObj [
     (''paycardId'', JStr (demo_hash CHR ''1'')), (''metadataHash'', JStr (demo_hash CHR ''b'')),
     (''recipient'', JStr (addr CHR ''2'')), (''totalAllocationPool'', JStr ''100''),
     (''flowVelocityPerSecond'', JStr ''0''), (''genesisTimestamp'', JNum 1000), (''lifespanSeconds'', JNum 60),
     (''residualDeltaRecipient'', JStr (addr CHR ''1'')), (''nonceChannel'', JNum 7), (''nonceValue'', JNum 0)]"

definition demo_envelope :: json where
  "demo_envelope = JObj [(''payerAddress'', JStr (addr CHR ''1'')),
     (''envelopeSignature'', JStr (''1.0.0'' @ addr CHR ''1'')), (''intent'', demo_intent)]"

definition demo_open_request :: http_request where
  "demo_open_request = \<lparr>rq_body = JObj [(''envelopeToken'', JStr (serializeEnvelope demo_envelope))], rq_headers = []\<rparr>"

definition demo_grant :: paycard_grant where
  "demo_grant = \<lparr>pg_decoded = demo_envelope, pg_envelopeMode = ''railsflow'', pg_isWildcardRailsCard = False,
     pg_claimRecipient = None, pg_workflowId = None\<rparr>"

lemma demo_envelope_decodes: "deserializeEnvelope (serializeEnvelope demo_envelope) = Inr demo_envelope"
  by (rule deserialize_serialize) (simp add: demo_envelope_def demo_intent_def js_round_exact)

lemma serialize_nonempty: "serializeEnvelope (JObj fs) \<noteq> []"
  using base64Url_text_round_trip [of "js_stringify (JObj fs)"]
  by (auto simp: serializeEnvelope_def base64UrlDecode_def base64UrlDecodeBytes_def decodeBase64Bytes_def
      bytes_text_def replace_char_def map_filter_Nil Let_def)

lemma demo_fields:
  "field (Some demo_envelope) ''intent'' = Some demo_intent" "field (Some demo_envelope) ''metadata'' = None"
  "field (Some demo_envelope) ''mode'' = None" "demo_envelope \<noteq> JNull" "demo_intent \<noteq> JNull"
  "field (Some demo_intent) ''nonceChannel'' = Some (JNum 7)" "field (Some demo_intent) ''nonceValue'' = Some (JNum 0)"
  "field (Some demo_intent) ''metadataHash'' = Some (JStr (demo_hash CHR ''b''))"
  "field (Some demo_intent) ''recipient'' = Some (JStr (addr CHR ''2''))"
  "field None k = None"
  by (simp_all add: field_def demo_envelope_def demo_intent_def)

lemma demo_open_body:
  "paycard_request_of (envelopeHeaderParser demo_open_request) =
    \<lparr>pr_envelopeToken = Some (JStr (serializeEnvelope demo_envelope)), pr_claimRecipient = None,
     pr_policyEnvelope = None, pr_mode = None, pr_openRailsPaycardId = None, pr_openRailsMetadataHash = None\<rparr>"
  by (simp add: paycard_request_of_def envelopeHeaderParser_def header_def demo_open_request_def Let_def field_def)

lemma demo_open_granted:
  "validateOpenPaycardRequest demo_ethers 1000 (paycard_request_of (envelopeHeaderParser demo_open_request))
     (Some (sv_usdcAddress demo_config)) = Inr (Inr demo_grant)"
proof -
  have token: "serializeEnvelope demo_envelope \<noteq> []" unfolding demo_envelope_def by (rule serialize_nonempty)
  have hash: "demo_hash c \<noteq> []" "demo_hash CHR ''b'' \<noteq> ZeroHash" for c
    by (simp_all add: demo_hash_def ZeroHash_def)
  have decoded: "decode_token (Some (JStr (serializeEnvelope demo_envelope))) = Some demo_envelope"
    by (simp add: decode_token_def demo_envelope_decodes)
  have policy: "evaluatePolicyEnvelope (Some demo_intent) None 1000 = Inr []"
    by (simp add: evaluatePolicyEnvelope_def)
  have mode: "resolve_mode demo_ethers demo_envelope None None = Inr ''railsflow''"
    by (simp add: resolve_mode_def given_modes_def demo_fields List.map_filter_def chosen_mode_def mode_error_def
        addr_not_zero Let_def)
  have metadata: "check_metadata demo_ethers (Some demo_intent) None m t = Inr None" for m t
    by (simp add: check_metadata_def)
  show ?thesis
    unfolding demo_open_body validateOpenPaycardRequest_def Let_def
    by (simp add: token hash decoded policy mode metadata demo_fields is_nullish_def header_mismatch_def
        demo_grant_def addr_not_zero)
qed

theorem relayer_submits_only_granted_witness:
  "length (snd (open_paycard demo_ethers demo_config demo_hub 1000 demo_open_request)) = 2 \<and>
   currentCapabilities demo_config CanRelayOpen"
proof -
  have "snd (open_paycard demo_ethers demo_config demo_hub 1000 demo_open_request) =
      [open_call demo_grant None, open_call demo_grant (Some 5)]"
    by (simp add: open_paycard_def forbiddenCapability_def currentCapabilities_def demo_open_granted
        validatePublicRelayerCaps_def ARC_PUBLIC_RELAYER_ENABLED_def submit_with_retry_def demo_hub_def
        isNonceError_def)
      (simp add: demo_config_def)
  with relayer_submits_only_granted [of demo_ethers demo_config demo_hub 1000 demo_open_request] show ?thesis by simp
qed

lemma jfields_map_of: "distinct (map fst fs) \<Longrightarrow> map_of (jfields fs) k = Option.bind (map_of fs k) id"
proof (induction fs rule: jfields.induct)
  case (2 l fs)
  then have "l \<noteq> k \<or> map_of fs k = None" by (auto simp: map_of_eq_None_iff)
  with 2 show ?case by auto
qed auto

lemma field_jobj: "distinct (map fst fs) \<Longrightarrow> field (Some (jobj fs)) k = Option.bind (map_of fs k) id"
  by (simp add: field_def jobj_def jfields_map_of)

lemma map_of_updates:
  "map_of (foldl (\<lambda>m (k, v). AList.update k v m) m xs) k =
    (case map_of (rev xs) k of Some v \<Rightarrow> Some v | None \<Rightarrow> map_of m k)"
  by (induction xs arbitrary: m) (auto simp: update_conv' map_add_def split: option.split)

lemma distinct_jfields: "distinct (map fst fs) \<Longrightarrow> distinct (map fst (jfields fs))"
  by (induction fs rule: jfields.induct) (use jfields_keys in fastforce)+

lemma distinct_map_of_rev: "distinct (map fst xs) \<Longrightarrow> map_of (rev xs) k = map_of xs k"
  using map_of_inject_set [of "rev xs" xs] by (simp add: rev_map [symmetric])

lemma field_transaction_proof:
  assumes "distinct (map fst ps)" and "k \<noteq> ''version''" and "k \<noteq> ''createdAt''"
  shows "field (Some (buildTransactionProof n ps)) k = Option.bind (map_of ps k) id"
proof -
  have "map_of (rev (jfields ps)) k = map_of (jfields ps) k"
    using distinct_jfields [OF assms(1)] by (rule distinct_map_of_rev)
  with assms show ?thesis
    by (simp add: field_def buildTransactionProof_def map_of_updates jfields_map_of split: option.split)
qed

lemma intent_proof_fields:
  assumes "buildIntentProof X now envelope (Some (chainId, hub)) mode = Inr ip"
  shows "\<exists>p d.
    et_verifyTypedData X (buildOpenRailsDomain chainId hub default_domain_version)
      (buildSettlementIntentValue (the (field (Some envelope) ''intent''))) (field (Some envelope) ''envelopeSignature'') = Some p \<and>
    hashSettlementIntent X (the (field (Some envelope) ''intent'')) chainId hub default_domain_version = Some d \<and>
    field (Some ip) ''payer'' = Some (JStr p) \<and> field (Some ip) ''intentDigest'' = Some (JStr d)"
  using assms by (auto simp: buildIntentProof_def Let_def res_simps field_jobj split: option.splits)

text \<open>
  When the relayer has opened a paycard, the two proofs of its answer are made under different
  domains: the digest of the transaction proof is taken under version 1.0.0, which the hub verifies,
  while the digest and the payer of the intent proof are taken under the default version 2.0.0.
\<close>

theorem intent_proof_of_another_domain:
  assumes "opened_response X cfg now g tx receipt row = Inr resp"
    and "field (Some (pg_decoded g)) ''intent'' = Some intent"
  shows "\<exists>d1 d2 p.
    hashSettlementIntent X intent (sv_chainId cfg) (sv_clearinghouseAddress cfg) ''1.0.0'' = Some d1 \<and>
    hashSettlementIntent X intent (sv_chainId cfg) (sv_clearinghouseAddress cfg) ''2.0.0'' = Some d2 \<and>
    et_verifyTypedData X (buildOpenRailsDomain (sv_chainId cfg) (sv_clearinghouseAddress cfg) ''2.0.0'')
      (buildSettlementIntentValue intent) (field (Some (pg_decoded g)) ''envelopeSignature'') = Some p \<and>
    field (field (Some (rs_body resp)) ''proof'') ''intentDigest'' = Some (JStr d1) \<and>
    field (field (Some (rs_body resp)) ''intentProof'') ''intentDigest'' = Some (JStr d2) \<and>
    field (field (Some (rs_body resp)) ''intentProof'') ''payer'' = Some (JStr p)"
proof -
  from assms obtain d1 ip where d1: "hashSettlementIntent X intent (sv_chainId cfg) (sv_clearinghouseAddress cfg) hub_domain_version = Some d1"
      and ip: "buildIntentProof X now (pg_decoded g) (Some (sv_chainId cfg, sv_clearinghouseAddress cfg))
        (Some (pg_envelopeMode g)) = Inr ip"
      and "field (field (Some (rs_body resp)) ''proof'') ''intentDigest'' = Some (JStr d1)"
      and "field (Some (rs_body resp)) ''intentProof'' = Some ip"
    by (auto simp: opened_response_def Let_def res_simps ok_response_def field_jobj field_transaction_proof split: option.splits)
  with intent_proof_fields [OF ip] assms(2) show ?thesis
    by (auto simp: hub_domain_version_def default_domain_version_def)
qed

theorem intent_proof_of_another_domain_witness:
  "\<exists>resp. opened_response demo_ethers demo_config 1000 demo_grant \<lparr>st_hash = ''0xt'', st_wait = Inl []\<rparr>
     \<lparr>tr_blockNumber = 7, tr_logs = []\<rparr> demo_row = Inr resp \<and>
   field (field (Some (rs_body resp)) ''intentProof'') ''payer'' = Some (JStr (addr CHR ''f'')) \<and>
   demo_verify (buildOpenRailsDomain 31337 (addr CHR ''c'') ''1.0.0'') (buildSettlementIntentValue demo_intent)
     (field (Some demo_envelope) ''envelopeSignature'') = Some (addr CHR ''1'')"
proof -
  let ?tx = "\<lparr>st_hash = ''0xt'', st_wait = Inl []\<rparr>" and ?receipt = "\<lparr>tr_blockNumber = 7, tr_logs = []\<rparr>"
  have sig: "field (Some demo_envelope) ''envelopeSignature'' = Some (JStr (''1.0.0'' @ addr CHR ''1''))"
    by (simp add: demo_envelope_def field_def)
  have verify: "demo_verify (buildOpenRailsDomain c h ''1.0.0'') v (field (Some demo_envelope) ''envelopeSignature'') =
        Some (addr CHR ''1'')"
      "demo_verify (buildOpenRailsDomain c h ''2.0.0'') v (field (Some demo_envelope) ''envelopeSignature'') =
        Some (addr CHR ''f'')" for c h v
    by (simp_all add: demo_verify_def buildOpenRailsDomain_def field_def [of "Some (JObj _)"] text_of_def Let_def
        starts_with_def sig)
  have hash: "hashSettlementIntent demo_ethers i c h v = Some (v @ demo_keccak (js_stringify (buildSettlementIntentValue i)))"
    for i c h v
    by (simp add: hashSettlementIntent_def demo_ethers_def buildOpenRailsDomain_def field_def [of "Some (JObj _)"] text_of_def)
  have grant: "pg_decoded demo_grant = demo_envelope" by (simp add: demo_grant_def)
  obtain ip where ip: "buildIntentProof demo_ethers 1000 demo_envelope (Some (sv_chainId demo_config, sv_clearinghouseAddress demo_config))
      (Some (pg_envelopeMode demo_grant)) = Inr ip"
    by (simp add: buildIntentProof_def Let_def default_domain_version_def verify demo_fields hash)
  obtain resp where resp: "opened_response demo_ethers demo_config 1000 demo_grant ?tx ?receipt demo_row = Inr resp"
    by (simp add: opened_response_def Let_def grant demo_fields ip hash)
  from intent_proof_of_another_domain [OF resp, of demo_intent] show ?thesis
    using resp verify by (auto simp: grant demo_fields)
qed

end
