(* ===== verification/Worker_Effects.thy ===== *)
theory Worker_Effects
  imports Js_Dynamic
begin

text \<open>
  What the Cloudflare workers share: asynchronous work on a database that may be cut short, and the
  helpers of \<open>workers/shared\<close> (\<open>auth.ts\<close>, \<open>relay.ts\<close>, \<open>rpc.ts\<close>).

  A \<open>task\<close> is a function of the state and of how many more answers it will get.  Every \<open>await\<close> takes
  one; when none is left the worker is gone, in the middle of whatever it was doing, and nothing
  catches that.  \<open>None\<close> is a worker that runs to its end.  (A write that is made but not acknowledged
  is a worker cut at the next \<open>await\<close>.)
\<close>


section \<open>Tasks\<close>

datatype fault = Killed | Threw string

type_synonym 's tape = "nat option \<times> 's"
type_synonym ('s, 'a) task = "'s tape \<Rightarrow> (fault + 'a) \<times> 's tape"

definition give :: "'a \<Rightarrow> ('s, 'a) task" where
  "give x t = (Inr x, t)"

definition throw :: "string \<Rightarrow> ('s, 'a) task" where
  "throw e t = (Inl (Threw e), t)"

fun answers_left :: "nat option \<Rightarrow> nat option option" where
  "answers_left None = Some None"
| "answers_left (Some 0) = None"
| "answers_left (Some (Suc n)) = Some (Some n)"

definition await :: "('s \<Rightarrow> (string + 'a) \<times> 's) \<Rightarrow> ('s, 'a) task" where
  "await f t =
     (case answers_left (fst t) of
        None \<Rightarrow> (Inl Killed, t)
      | Some k \<Rightarrow> (case f (snd t) of
            (Inl e, s) \<Rightarrow> (Inl (Threw e), k, s)
          | (Inr x, s) \<Rightarrow> (Inr x, k, s)))"

definition bind_task :: "('s, 'a) task \<Rightarrow> ('a \<Rightarrow> ('s, 'b) task) \<Rightarrow> ('s, 'b) task" where
  "bind_task m f t = (case m t of (Inl e, t') \<Rightarrow> (Inl e, t') | (Inr x, t') \<Rightarrow> f x t')"

text \<open>\<open>try { m } catch (e) { h }\<close>\<close>

definition catch_task :: "('s, 'a) task \<Rightarrow> (string \<Rightarrow> ('s, 'a) task) \<Rightarrow> ('s, 'a) task" where
  "catch_task m h t = (case m t of (Inl (Threw e), t') \<Rightarrow> h e t' | r \<Rightarrow> r)"

text \<open>Work on the state that awaits nothing: counters and caches of the running worker.\<close>

definition local :: "('s \<Rightarrow> 's) \<Rightarrow> ('s, unit) task" where
  "local f t = (Inr (), fst t, f (snd t))"

definition peek :: "('s \<Rightarrow> 'a) \<Rightarrow> ('s, 'a) task" where
  "peek f t = (Inr (f (snd t)), t)"

fun for_each :: "('x \<Rightarrow> ('s, unit) task) \<Rightarrow> 'x list \<Rightarrow> ('s, unit) task" where
  "for_each f [] = give ()"
| "for_each f (x # xs) = bind_task (f x) (\<lambda>_. for_each f xs)"

text \<open>The kinds of \<open>await\<close>: a question to the node, a read and a write of the database.\<close>

definition ask :: "(string + 'a) \<Rightarrow> ('s, 'a) task" where
  "ask r = await (\<lambda>s. (r, s))"

definition db_read :: "('s \<Rightarrow> 'a) \<Rightarrow> ('s, 'a) task" where
  "db_read f = await (\<lambda>s. (Inr (f s), s))"

definition db_write :: "('s \<Rightarrow> 'a \<times> 's) \<Rightarrow> ('s, 'a) task" where
  "db_write f = await (\<lambda>s. case f s of (x, s') \<Rightarrow> (Inr x, s'))"


section \<open>What a task keeps\<close>

definition result_of :: "('s, 'a) task \<Rightarrow> 's tape \<Rightarrow> fault + 'a" where
  "result_of m t = fst (m t)"

definition state_after :: "('s, 'a) task \<Rightarrow> 's tape \<Rightarrow> 's" where
  "state_after m t = snd (snd (m t))"

text \<open>
  From a state in \<open>P\<close> the task leaves \<open>Q\<close> when it fails or is cut, and \<open>R\<close> when it gives a result.
  With \<open>live\<close> the claim is only about workers that are not cut.
\<close>

definition outcome :: "bool \<Rightarrow> ('s \<Rightarrow> bool) \<Rightarrow> ('a \<Rightarrow> 's \<Rightarrow> bool) \<Rightarrow> (fault + 'a) \<times> 's tape \<Rightarrow> bool" where
  "outcome live Q R o' \<longleftrightarrow> (live \<longrightarrow> fst (snd o') = None) \<and>
     (case fst o' of Inl e \<Rightarrow> Q (snd (snd o')) | Inr x \<Rightarrow> R x (snd (snd o')))"

definition task_ok :: "bool \<Rightarrow> ('s \<Rightarrow> bool) \<Rightarrow> ('s, 'a) task \<Rightarrow> ('s \<Rightarrow> bool) \<Rightarrow> ('a \<Rightarrow> 's \<Rightarrow> bool) \<Rightarrow> bool" where
  "task_ok live P m Q R \<longleftrightarrow> (\<forall>k s. (live \<longrightarrow> k = None) \<longrightarrow> P s \<longrightarrow> outcome live Q R (m (k, s)))"

abbreviation keeps :: "bool \<Rightarrow> ('s \<Rightarrow> bool) \<Rightarrow> ('s, 'a) task \<Rightarrow> bool" where
  "keeps live P m \<equiv> task_ok live P m P (\<lambda>_. P)"

named_theorems task_rules "rules that decompose a claim about a task"

lemma task_okD: "task_ok live P m Q R \<Longrightarrow> live \<longrightarrow> k = None \<Longrightarrow> P s \<Longrightarrow> outcome live Q R (m (k, s))"
  by (simp add: task_ok_def)

lemma task_ok_state:
  assumes "task_ok live P m Q (\<lambda>_. Q)" and "live \<longrightarrow> fst t = None" and "P (snd t)"
  shows "Q (state_after m t)"
  using task_okD [OF assms] by (simp add: state_after_def outcome_def split: sum.splits)

lemma task_ok_result:
  assumes "task_ok live P m Q R" and "live \<longrightarrow> fst t = None" and "P (snd t)" and "result_of m t = Inr x"
  shows "R x (state_after m t)"
  using task_okD [OF assms(1-3)] assms(4) by (simp add: state_after_def result_of_def outcome_def)

lemma task_ok_weaken:
  assumes "task_ok live P' m Q' R'" and "\<And>s. P s \<Longrightarrow> P' s" and "\<And>s. Q' s \<Longrightarrow> Q s" and "\<And>x s. R' x s \<Longrightarrow> R x s"
  shows "task_ok live P m Q R"
  unfolding task_ok_def
proof (intro allI impI)
  fix k :: "nat option" and s assume "live \<longrightarrow> k = None" and "P s"
  with task_okD [OF assms(1) _ assms(2)] have "outcome live Q' R' (m (k, s))" by blast
  with assms(3,4) show "outcome live Q R (m (k, s))" by (simp add: outcome_def split: sum.splits)
qed

lemma task_ok_bind [task_rules]:
  assumes "task_ok live P m Q R" and "\<And>x. task_ok live (R x) (f x) Q S"
  shows "task_ok live P (bind_task m f) Q S"
  unfolding task_ok_def
proof (intro allI impI)
  fix k :: "nat option" and s assume "live \<longrightarrow> k = None" and "P s"
  with assms(1) have first: "outcome live Q R (m (k, s))" by (rule task_okD)
  obtain r k' s' where m: "m (k, s) = (r, k', s')" by (cases "m (k, s)") auto
  show "outcome live Q S (bind_task m f (k, s))"
  proof (cases r)
    case (Inr x)
    with first task_okD [OF assms(2), of k' x s'] show ?thesis by (simp add: bind_task_def outcome_def m)
  qed (use first in \<open>simp add: bind_task_def outcome_def m\<close>)
qed

lemma task_ok_catch:
  assumes "task_ok live P m Q R" and "\<And>e. task_ok live Q (h e) Q R"
  shows "task_ok live P (catch_task m h) Q R"
  unfolding task_ok_def
proof (intro allI impI)
  fix k :: "nat option" and s assume "live \<longrightarrow> k = None" and "P s"
  with assms(1) have first: "outcome live Q R (m (k, s))" by (rule task_okD)
  obtain r k' s' where m: "m (k, s) = (r, k', s')" by (cases "m (k, s)") auto
  show "outcome live Q R (catch_task m h (k, s))"
  proof (cases "\<exists>e. r = Inl (Threw e)")
    case True
    then obtain e where "r = Inl (Threw e)" by blast
    with first task_okD [OF assms(2), of k' s' e] show ?thesis by (simp add: catch_task_def outcome_def m)
  qed (use first in \<open>auto simp: catch_task_def outcome_def m split: sum.splits fault.splits\<close>)
qed

lemma task_ok_give [task_rules]: "(\<And>s. P s \<Longrightarrow> R x s) \<Longrightarrow> task_ok live P (give x) Q R"
  by (simp add: task_ok_def outcome_def give_def)

lemma task_ok_throw [task_rules]: "(\<And>s. P s \<Longrightarrow> Q s) \<Longrightarrow> task_ok live P (throw e) Q R"
  by (simp add: task_ok_def outcome_def throw_def)

lemma task_ok_local [task_rules]: "(\<And>s. P s \<Longrightarrow> R () (f s)) \<Longrightarrow> task_ok live P (local f) Q R"
  by (simp add: task_ok_def outcome_def local_def)

lemma task_ok_peek [task_rules]: "(\<And>s. P s \<Longrightarrow> R (f s) s) \<Longrightarrow> task_ok live P (peek f) Q R"
  by (simp add: task_ok_def outcome_def peek_def)

lemma answers_left_None: "answers_left k = None \<longleftrightarrow> k = Some 0"
  by (cases k rule: answers_left.cases) simp_all

lemma task_ok_await:
  assumes "\<And>s. \<not> live \<Longrightarrow> P s \<Longrightarrow> Q s" and "\<And>s e s'. P s \<Longrightarrow> f s = (Inl e, s') \<Longrightarrow> Q s'"
    and "\<And>s x s'. P s \<Longrightarrow> f s = (Inr x, s') \<Longrightarrow> R x s'"
  shows "task_ok live P (await f) Q R"
  using assms
  by (auto simp: task_ok_def outcome_def await_def answers_left_None split: option.splits prod.splits sum.splits)

lemma task_ok_ask [task_rules]:
  assumes "\<And>s. P s \<Longrightarrow> Q s" and "\<And>x s. r = Inr x \<Longrightarrow> P s \<Longrightarrow> R x s"
  shows "task_ok live P (ask r) Q R"
  unfolding ask_def by (rule task_ok_await) (use assms in auto)

lemma task_ok_read [task_rules]:
  assumes "\<And>s. \<not> live \<Longrightarrow> P s \<Longrightarrow> Q s" and "\<And>s. P s \<Longrightarrow> R (f s) s"
  shows "task_ok live P (db_read f) Q R"
  unfolding db_read_def by (rule task_ok_await) (use assms in auto)

lemma task_ok_write [task_rules]:
  assumes "\<And>s. \<not> live \<Longrightarrow> P s \<Longrightarrow> Q s" and "\<And>s. P s \<Longrightarrow> R (fst (f s)) (snd (f s))"
  shows "task_ok live P (db_write f) Q R"
  unfolding db_write_def
  by (rule task_ok_await) (use assms in \<open>fastforce split: prod.splits\<close>)+

lemma task_ok_if [task_rules]:
  "(b \<Longrightarrow> task_ok live P m Q R) \<Longrightarrow> (\<not> b \<Longrightarrow> task_ok live P n Q R) \<Longrightarrow> task_ok live P (if b then m else n) Q R"
  by simp

lemma task_ok_conj:
  assumes "task_ok live P m Q R" and "task_ok live P' m Q' R'"
  shows "task_ok live (\<lambda>s. P s \<and> P' s) m (\<lambda>s. Q s \<and> Q' s) (\<lambda>x s. R x s \<and> R' x s)"
  unfolding task_ok_def
proof (intro allI impI)
  fix k :: "nat option" and s assume k: "live \<longrightarrow> k = None" and "P s \<and> P' s"
  then have "outcome live Q R (m (k, s))" and "outcome live Q' R' (m (k, s))"
    using assms k by (simp_all add: task_ok_def)
  then show "outcome live (\<lambda>s. Q s \<and> Q' s) (\<lambda>x s. R x s \<and> R' x s) (m (k, s))"
    by (simp add: outcome_def split: sum.splits)
qed

lemma task_ok_for_each:
  assumes "\<And>x. x \<in> set xs \<Longrightarrow> keeps live P (f x)"
  shows "keeps live P (for_each f xs)"
  using assms
proof (induction xs)
  case (Cons x xs)
  then show ?case unfolding for_each.simps by (intro task_ok_bind [where R = "\<lambda>_. P"]) auto
qed (simp add: task_ok_give)

text \<open>A loop whose rounds each leave something that the other rounds keep.\<close>

lemma task_ok_for_each_all:
  assumes "\<And>x. x \<in> set xs \<Longrightarrow> task_ok live P (f x) Q (\<lambda>_ s. P s \<and> D x s)"
    and "\<And>x y. x \<in> set xs \<Longrightarrow> y \<in> set xs \<Longrightarrow> task_ok live (\<lambda>s. P s \<and> D y s) (f x) Q (\<lambda>_ s. P s \<and> D y s)"
  shows "task_ok live P (for_each f xs) Q (\<lambda>_ s. P s \<and> (\<forall>x \<in> set xs. D x s))"
proof -
  have "task_ok live (\<lambda>s. P s \<and> (\<forall>x \<in> A. D x s)) (for_each f ys) Q (\<lambda>_ s. P s \<and> (\<forall>x \<in> A \<union> set ys. D x s))"
    if "A \<subseteq> set xs" "set ys \<subseteq> set xs" for A ys
    using that
  proof (induction ys arbitrary: A)
    case (Cons y ys)
    have "task_ok live (\<lambda>s. P s \<and> (\<forall>x \<in> A. D x s)) (f y) Q (\<lambda>_ s. P s \<and> (\<forall>x \<in> insert y A. D x s))"
      unfolding task_ok_def
    proof (intro allI impI)
      fix k :: "nat option" and s assume k: "live \<longrightarrow> k = None" and s: "P s \<and> (\<forall>x \<in> A. D x s)"
      have "outcome live Q (\<lambda>_ s. P s \<and> D y s) (f y (k, s))"
        using task_okD [OF assms(1) k] s Cons.prems by auto
      moreover have "outcome live Q (\<lambda>_ s. P s \<and> D x s) (f y (k, s))" if "x \<in> A" for x
        using task_okD [OF assms(2) k, of y x] s that Cons.prems by auto
      ultimately show "outcome live Q (\<lambda>_ s. P s \<and> (\<forall>x \<in> insert y A. D x s)) (f y (k, s))"
        by (auto simp: outcome_def split: sum.splits)
    qed
    moreover have "task_ok live (\<lambda>s. P s \<and> (\<forall>x \<in> insert y A. D x s)) (for_each f ys) Q
        (\<lambda>_ s. P s \<and> (\<forall>x \<in> A \<union> set (y # ys). D x s))"
      using Cons.IH [of "insert y A"] Cons.prems by simp
    ultimately show ?case unfolding for_each.simps by (rule task_ok_bind)
  qed (auto intro!: task_ok_give)
  from this [of "{}" xs] show ?thesis by simp
qed


section \<open>Shared helpers\<close>

definition readPositiveInt :: "string option \<Rightarrow> int \<Rightarrow> int" where
  "readPositiveInt v fallback =
     (case to_number (map_option JStr v) of
        Some n \<Rightarrow> if 0 < n then n else fallback
      | None \<Rightarrow> fallback)"

definition is_hex_text :: "nat \<Rightarrow> string \<Rightarrow> bool" where
  "is_hex_text n s \<longleftrightarrow> length s = n + 2 \<and> take 2 s = ''0x'' \<and> list_all (\<lambda>c. radix_digit 16 c \<noteq> None) (drop 2 s)"

definition isBytes32Hex :: "string \<Rightarrow> bool" where
  "isBytes32Hex = is_hex_text 64"

definition isEvmAddress :: "string \<Rightarrow> bool" where
  "isEvmAddress = is_hex_text 40"

text \<open>The bearer token or the fallback header, of a worker whose secret is set.\<close>

definition bearer_of :: "string option \<Rightarrow> string" where
  "bearer_of h = (case h of
      Some auth \<Rightarrow> if starts_with ''Bearer '' auth then trim (drop 7 auth) else []
    | None \<Rightarrow> [])"

definition authorized :: "(string \<Rightarrow> string option) \<Rightarrow> string option \<Rightarrow> string \<Rightarrow> bool" where
  "authorized headers secret fallbackHeader =
     (case secret of
        None \<Rightarrow> False
      | Some s \<Rightarrow> s \<noteq> [] \<and>
          (bearer_of (headers ''Authorization'') = s \<or> headers fallbackHeader = Some s))"

definition rpcUrlsFromEnv :: "string option \<Rightarrow> string option \<Rightarrow> string option \<Rightarrow> string list" where
  "rpcUrlsFromEnv canteen url fallback =
     fold set_add (filter (\<lambda>u. u \<noteq> []) (map trim (List.map_filter id [canteen, url, fallback]))) []"

end
