(* ===== verification/Indexer_Worker.thy ===== *)
theory Indexer_Worker
  imports Worker_Effects "HOL-Library.Product_Lexorder"
begin

text \<open>
  The indexer worker (\<open>workers/indexer-worker/src/index.ts\<close>): a scheduled pass over the contract's
  logs that discovers vaults, records their events in a D1 database and keeps a row of state per
  paycard; and the endpoints that query it.

  A table is the list of its rows in the order of insertion, and a table with a primary key a list
  of pairs.  \<open>args_json\<close> and \<open>event_name\<close> are kept as the event they are the text of.  The node's
  answers are those of one pass.  The clock of a pass (milliseconds) stands still.  Passes do not
  overlap; each may be cut at any \<open>await\<close>.
\<close>


section \<open>Tables\<close>

datatype hub_event =
    Paycard_provisioned (he_paycardId: string) (he_payer: string) (he_recipient: string) (he_metadataHash: string)
      (he_poolAllocation: nat) (he_flowVelocityPerSecond: nat) (he_genesisTimestamp: nat) (he_lifespanSeconds: nat)
  | Settlement_flushed (he_paycardId: string) (he_recipient: string) (he_amountWithdrawn: nat)
  | Residual_reclaimed (he_paycardId: string) (he_recoveryVault: string) (he_varianceSwept: nat)

record watched_vault =
  wv_address :: string
  wv_source :: string
  wv_owner :: "string option"
  wv_token :: "string option"
  wv_discoveredAtBlock :: int
  wv_createdAt :: int

record event_row =
  er_vault :: string
  er_paycardId :: string
  er_event :: hub_event
  er_metadataHash :: "string option"
  er_block :: int
  er_timestamp :: int
  er_tx :: string
  er_logIndex :: int
  er_recordedAt :: int

record paycard_state =
  xs_payer :: string
  xs_recipient :: string
  xs_metadataHash :: string
  xs_totalAllocation :: string
  xs_availableBalance :: string
  xs_velocity :: string
  xs_genesis :: int
  xs_lifespan :: int
  xs_lastCheckpoint :: int
  xs_status :: string
  xs_updatedAt :: int

record idx_db =
  db_vaults :: "watched_vault list"
  db_cursors :: "int js_map"
  db_events :: "event_row list"
  db_states :: "((string \<times> string) \<times> paycard_state) list"

definition empty_index :: idx_db where
  "empty_index = \<lparr>db_vaults = [], db_cursors = [], db_events = [], db_states = []\<rparr>"

text \<open>\<open>INSERT OR IGNORE\<close> answers whether it changed the table.\<close>

definition insert_vault :: "watched_vault \<Rightarrow> idx_db \<Rightarrow> bool \<times> idx_db" where
  "insert_vault row db =
     (if wv_address row \<in> set (map wv_address (db_vaults db)) then (False, db)
      else (True, db\<lparr>db_vaults := db_vaults db @ [row]\<rparr>))"

definition er_key :: "event_row \<Rightarrow> string \<times> int" where
  "er_key e = (er_tx e, er_logIndex e)"

definition insert_event :: "event_row \<Rightarrow> idx_db \<Rightarrow> bool \<times> idx_db" where
  "insert_event row db =
     (if er_key row \<in> set (map er_key (db_events db)) then (False, db)
      else (True, db\<lparr>db_events := db_events db @ [row]\<rparr>))"

definition getCursor :: "string \<Rightarrow> int \<Rightarrow> idx_db \<Rightarrow> int" where
  "getCursor scanKey defaultBlock db =
     (case map_get (db_cursors db) scanKey of Some b \<Rightarrow> b | None \<Rightarrow> defaultBlock)"

definition setCursor :: "string \<Rightarrow> int \<Rightarrow> idx_db \<Rightarrow> idx_db" where
  "setCursor scanKey block db = db\<lparr>db_cursors := map_put scanKey block (db_cursors db)\<rparr>"


section \<open>What an event does to the state of its paycard\<close>

definition provisioned_row :: "int \<Rightarrow> hub_event \<Rightarrow> paycard_state" where
  "provisioned_row now ev =
     \<lparr>xs_payer = toLowerCase (he_payer ev), xs_recipient = toLowerCase (he_recipient ev),
      xs_metadataHash = toLowerCase (he_metadataHash ev),
      xs_totalAllocation = show_nat (he_poolAllocation ev), xs_availableBalance = show_nat (he_poolAllocation ev),
      xs_velocity = show_nat (he_flowVelocityPerSecond ev),
      xs_genesis = js_round (int (he_genesisTimestamp ev)), xs_lifespan = js_round (int (he_lifespanSeconds ev)),
      xs_lastCheckpoint = js_round (int (he_genesisTimestamp ev)), xs_status = ''Active'', xs_updatedAt = now\<rparr>"

text \<open>The balance after a withdrawal, not below zero.\<close>

definition balance_after :: "string \<Rightarrow> nat \<Rightarrow> string + int" where
  "balance_after available withdrawn =
     (case BigInt available of
        None \<Rightarrow> Inl ''SyntaxError''
      | Some b \<Rightarrow> Inr (if b - int withdrawn > 0 then b - int withdrawn else 0))"

definition flushed_row :: "int \<Rightarrow> int \<Rightarrow> int \<Rightarrow> paycard_state \<Rightarrow> paycard_state" where
  "flushed_row now ts clamped row =
     row\<lparr>xs_availableBalance := show_int clamped, xs_lastCheckpoint := ts,
       xs_status := (if clamped = 0 then ''Terminated'' else ''Active''), xs_updatedAt := now\<rparr>"

definition reclaimed_row :: "int \<Rightarrow> paycard_state \<Rightarrow> paycard_state" where
  "reclaimed_row now row = row\<lparr>xs_availableBalance := ''0'', xs_status := ''Terminated'', xs_updatedAt := now\<rparr>"

text \<open>\<open>INSERT \<dots> ON CONFLICT DO UPDATE\<close> and \<open>UPDATE \<dots> WHERE\<close> of a row found by its primary key.\<close>

definition upsert_state :: "string \<times> string \<Rightarrow> paycard_state \<Rightarrow> idx_db \<Rightarrow> idx_db" where
  "upsert_state key row db = db\<lparr>db_states := AList.update key row (db_states db)\<rparr>"

definition update_state :: "string \<times> string \<Rightarrow> (paycard_state \<Rightarrow> paycard_state) \<Rightarrow> idx_db \<Rightarrow> idx_db" where
  "update_state key f db = db\<lparr>db_states := AList.map_entry key f (db_states db)\<rparr>"


section \<open>One pass\<close>

record 'e evm_log =
  el_block :: int
  el_index :: int
  el_tx :: string
  el_parsed :: "'e option"

record vault_deployed =
  vd_vaultAddress :: string
  vd_owner :: string
  vd_token :: string

record idx_node =
  nd_blockNumber :: "string + int"
  nd_factoryLogs :: "int \<Rightarrow> int \<Rightarrow> string + vault_deployed evm_log list"
  nd_hubLogs :: "string \<Rightarrow> int \<Rightarrow> int \<Rightarrow> string + hub_event evm_log list"
  nd_block :: "int \<Rightarrow> string + int option"

record idx_env =
  ev_canteenRpcUrl :: "string option"
  ev_rpcUrl :: "string option"
  ev_rpcFallbackUrl :: "string option"
  ev_hubAddress :: string
  ev_factoryAddress :: string
  ev_scanWindowBlocks :: "string option"
  ev_maxChunksPerTick :: "string option"
  ev_initialBackfillBlocks :: "string option"

definition windowBlocks :: "idx_env \<Rightarrow> int" where
  "windowBlocks env = readPositiveInt (ev_scanWindowBlocks env) 9000"

definition maxChunks :: "idx_env \<Rightarrow> int" where
  "maxChunks env = readPositiveInt (ev_maxChunksPerTick env) 20"

definition initialBackfill :: "idx_env \<Rightarrow> int" where
  "initialBackfill env = readPositiveInt (ev_initialBackfillBlocks env) 50000"

text \<open>The database, and what the running pass keeps in its variables.\<close>

record tick =
  tk_db :: idx_db
  tk_blockTimestamps :: "(int \<times> int) list"
  tk_vaultsDiscovered :: nat
  tk_eventsIngested :: nat

definition on_db :: "(idx_db \<Rightarrow> 'a \<times> idx_db) \<Rightarrow> tick \<Rightarrow> 'a \<times> tick" where
  "on_db f w = (case f (tk_db w) of (x, d) \<Rightarrow> (x, w\<lparr>tk_db := d\<rparr>))"

definition run_sql :: "(idx_db \<Rightarrow> idx_db) \<Rightarrow> (tick, unit) task" where
  "run_sql f = db_write (on_db (\<lambda>d. ((), f d)))"

definition select_sql :: "(idx_db \<Rightarrow> 'a) \<Rightarrow> (tick, 'a) task" where
  "select_sql f = db_read (\<lambda>w. f (tk_db w))"

definition vault_row :: "int \<Rightarrow> vault_deployed evm_log \<Rightarrow> vault_deployed \<Rightarrow> watched_vault" where
  "vault_row now log d =
     \<lparr>wv_address = toLowerCase (vd_vaultAddress d), wv_source = ''factory'',
      wv_owner = Some (toLowerCase (vd_owner d)), wv_token = Some (toLowerCase (vd_token d)),
      wv_discoveredAtBlock = el_block log, wv_createdAt = now\<rparr>"

definition canonical_row :: "idx_env \<Rightarrow> int \<Rightarrow> watched_vault" where
  "canonical_row env now =
     \<lparr>wv_address = toLowerCase (ev_hubAddress env), wv_source = ''canonical'', wv_owner = None, wv_token = None,
      wv_discoveredAtBlock = 0, wv_createdAt = now\<rparr>"

definition discover :: "int \<Rightarrow> vault_deployed evm_log \<Rightarrow> (tick, unit) task" where
  "discover now log =
     (case el_parsed log of
        None \<Rightarrow> give ()
      | Some d \<Rightarrow>
          bind_task (db_write (on_db (insert_vault (vault_row now log d)))) (\<lambda>changed.
          local (\<lambda>w. if changed then w\<lparr>tk_vaultsDiscovered := Suc (tk_vaultsDiscovered w)\<rparr> else w)))"

definition factory_key :: "idx_env \<Rightarrow> string" where
  "factory_key env = ''factory:'' @ toLowerCase (ev_factoryAddress env)"

text \<open>
  The scans, by the chunks that may still be used; each gives how many are left.
\<close>

fun scan_factory :: "idx_env \<Rightarrow> idx_node \<Rightarrow> int \<Rightarrow> int \<Rightarrow> nat \<Rightarrow> int \<Rightarrow> (tick, nat) task" where
  "scan_factory env P now head 0 from_block = give 0"
| "scan_factory env P now head (Suc n) from_block =
     (if head < from_block then give (Suc n)
      else
        let to_block = min (from_block + windowBlocks env - 1) head in
        bind_task (ask (nd_factoryLogs P from_block to_block)) (\<lambda>logs.
        bind_task (for_each (discover now) logs) (\<lambda>_.
        bind_task (run_sql (setCursor (factory_key env) to_block)) (\<lambda>_.
        scan_factory env P now head n (to_block + 1)))))"

definition blockTimestamp :: "idx_node \<Rightarrow> int \<Rightarrow> int \<Rightarrow> (tick, int) task" where
  "blockTimestamp P now b =
     bind_task (peek (\<lambda>w. map_of (tk_blockTimestamps w) b)) (\<lambda>cached.
     case cached of
       Some ts \<Rightarrow> give ts
     | None \<Rightarrow>
         bind_task (ask (nd_block P b)) (\<lambda>block.
         let ts = (case block of Some t \<Rightarrow> t | None \<Rightarrow> now div 1000) in
         bind_task (local (\<lambda>w. w\<lparr>tk_blockTimestamps := (b, ts) # tk_blockTimestamps w\<rparr>)) (\<lambda>_. give ts)))"

definition recorded :: "string \<Rightarrow> int \<Rightarrow> int \<Rightarrow> hub_event evm_log \<Rightarrow> hub_event \<Rightarrow> event_row" where
  "recorded vault now ts log ev =
     \<lparr>er_vault = vault, er_paycardId = toLowerCase (he_paycardId ev), er_event = ev,
      er_metadataHash = (case ev of Paycard_provisioned _ _ _ h _ _ _ _ \<Rightarrow> Some (toLowerCase h) | _ \<Rightarrow> None),
      er_block = el_block log, er_timestamp = ts, er_tx = toLowerCase (el_tx log), er_logIndex = el_index log,
      er_recordedAt = now\<rparr>"

definition project_event :: "string \<times> string \<Rightarrow> int \<Rightarrow> int \<Rightarrow> hub_event \<Rightarrow> (tick, unit) task" where
  "project_event key now ts ev =
     (case ev of
        Paycard_provisioned _ _ _ _ _ _ _ _ \<Rightarrow> run_sql (upsert_state key (provisioned_row now ev))
      | Settlement_flushed _ _ withdrawn \<Rightarrow>
          bind_task (select_sql (\<lambda>d. map_of (db_states d) key)) (\<lambda>existing.
          case existing of
            None \<Rightarrow> give ()
          | Some row \<Rightarrow>
              (case balance_after (xs_availableBalance row) withdrawn of
                 Inl e \<Rightarrow> throw e
               | Inr clamped \<Rightarrow> run_sql (update_state key (flushed_row now ts clamped))))
      | Residual_reclaimed _ _ _ \<Rightarrow> run_sql (update_state key (reclaimed_row now)))"

definition ingest :: "idx_node \<Rightarrow> string \<Rightarrow> int \<Rightarrow> hub_event evm_log \<Rightarrow> (tick, unit) task" where
  "ingest P vault now log =
     (case el_parsed log of
        None \<Rightarrow> give ()
      | Some ev \<Rightarrow>
          bind_task (blockTimestamp P now (el_block log)) (\<lambda>ts.
          bind_task (db_write (on_db (insert_event (recorded vault now ts log ev)))) (\<lambda>changed.
          if \<not> changed then give ()
          else
            bind_task (local (\<lambda>w. w\<lparr>tk_eventsIngested := Suc (tk_eventsIngested w)\<rparr>)) (\<lambda>_.
            project_event (vault, toLowerCase (he_paycardId ev)) now ts ev))))"

definition log_order :: "'e evm_log \<Rightarrow> int \<times> int" where
  "log_order l = (el_block l, el_index l)"

fun scan_vault :: "idx_env \<Rightarrow> idx_node \<Rightarrow> int \<Rightarrow> int \<Rightarrow> string \<Rightarrow> nat \<Rightarrow> int \<Rightarrow> (tick, nat) task" where
  "scan_vault env P now head vault 0 from_block = give 0"
| "scan_vault env P now head vault (Suc n) from_block =
     (if head < from_block then give (Suc n)
      else
        let to_block = min (from_block + windowBlocks env - 1) head in
        bind_task (ask (nd_hubLogs P vault from_block to_block)) (\<lambda>logs.
        bind_task (for_each (ingest P vault now) (sort_key log_order logs)) (\<lambda>_.
        bind_task (run_sql (setCursor vault to_block)) (\<lambda>_.
        scan_vault env P now head vault n (to_block + 1)))))"

definition default_start :: "idx_env \<Rightarrow> int \<Rightarrow> watched_vault \<Rightarrow> int" where
  "default_start env head v =
     (if 0 < wv_discoveredAtBlock v then wv_discoveredAtBlock v else max 0 (head - initialBackfill env))"

fun scan_vaults :: "idx_env \<Rightarrow> idx_node \<Rightarrow> int \<Rightarrow> int \<Rightarrow> nat \<Rightarrow> watched_vault list \<Rightarrow> (tick, nat) task" where
  "scan_vaults env P now head n [] = give n"
| "scan_vaults env P now head n (v # vs) =
     (if n = 0 then give 0
      else
        bind_task (select_sql (getCursor (wv_address v) (default_start env head v))) (\<lambda>from_block.
        bind_task (scan_vault env P now head (wv_address v) n from_block) (\<lambda>n'.
        scan_vaults env P now head n' vs)))"

record tick_report =
  tp_vaultsDiscovered :: nat
  tp_eventsIngested :: nat
  tp_chunksUsed :: nat
  tp_head :: int

definition runTick :: "idx_env \<Rightarrow> idx_node \<Rightarrow> int \<Rightarrow> (tick, tick_report) task" where
  "runTick env P now =
     (if rpcUrlsFromEnv (ev_canteenRpcUrl env) (ev_rpcUrl env) (ev_rpcFallbackUrl env) = []
      then throw ''No Arc RPC provider is configured''
      else
        bind_task (ask (nd_blockNumber P)) (\<lambda>head.
        bind_task (db_write (on_db (insert_vault (canonical_row env now)))) (\<lambda>_.
        bind_task (select_sql (getCursor (factory_key env) (max 0 (head - initialBackfill env)))) (\<lambda>from_block.
        bind_task (scan_factory env P now head (nat (maxChunks env)) from_block) (\<lambda>n.
        bind_task (select_sql db_vaults) (\<lambda>vaults.
        bind_task (scan_vaults env P now head n vaults) (\<lambda>n'.
        peek (\<lambda>w. \<lparr>tp_vaultsDiscovered = tk_vaultsDiscovered w, tp_eventsIngested = tk_eventsIngested w,
          tp_chunksUsed = nat (maxChunks env) - n', tp_head = head\<rparr>))))))))"

text \<open>A pass over a database: what it answers and what it leaves.\<close>

definition start_tick :: "idx_db \<Rightarrow> tick" where
  "start_tick db = \<lparr>tk_db = db, tk_blockTimestamps = [], tk_vaultsDiscovered = 0, tk_eventsIngested = 0\<rparr>"

definition tick_result :: "idx_env \<Rightarrow> idx_node \<Rightarrow> int \<Rightarrow> nat option \<Rightarrow> idx_db \<Rightarrow> fault + tick_report" where
  "tick_result env P now k db = result_of (runTick env P now) (k, start_tick db)"

definition after_tick :: "idx_env \<Rightarrow> idx_node \<Rightarrow> int \<Rightarrow> nat option \<Rightarrow> idx_db \<Rightarrow> idx_db" where
  "after_tick env P now k db = tk_db (state_after (runTick env P now) (k, start_tick db))"

end
