(* ===== verification/Indexer_Facts.thy ===== *)
theory Indexer_Facts
  imports Indexer_Worker
begin

text \<open>
  What holds of the indexer's tables over any sequence of passes on a growing chain, each cut
  anywhere, and what holds only when no pass is cut.
\<close>


section \<open>The chain and the runs\<close>

definition log_key :: "'e evm_log \<Rightarrow> string \<times> int" where
  "log_key l = (toLowerCase (el_tx l), el_index l)"

text \<open>
  All logs a vault ever emits; a log is identified by its transaction and its place in it.  A node
  whose head is \<open>h\<close> answers with the logs of the blocks it is asked for, in any order, or fails.
\<close>

type_synonym hub_logs = "string \<Rightarrow> hub_event evm_log set"

definition keys_unique :: "hub_logs \<Rightarrow> bool" where
  "keys_unique C \<longleftrightarrow> (\<forall>v v' l l'. l \<in> C v \<longrightarrow> l' \<in> C v' \<longrightarrow> log_key l = log_key l' \<longrightarrow> v = v' \<and> l = l')"

definition serves_logs :: "hub_logs \<Rightarrow> int \<Rightarrow> idx_node \<Rightarrow> bool" where
  "serves_logs C h P \<longleftrightarrow>
     (\<forall>b. nd_blockNumber P = Inr b \<longrightarrow> b = h) \<and>
     (\<forall>v f t ls. nd_hubLogs P v f t = Inr ls \<longrightarrow> t \<le> h \<longrightarrow> set ls = {l \<in> C v. f \<le> el_block l \<and> el_block l \<le> t}) \<and>
     (\<forall>f t ls l. nd_factoryLogs P f t = Inr ls \<longrightarrow> l \<in> set ls \<longrightarrow>
        f \<le> el_block l \<and> el_block l \<le> t \<and> (\<forall>d. el_parsed l = Some d \<longrightarrow> isEvmAddress (vd_vaultAddress d)))"

inductive idx_run :: "idx_env \<Rightarrow> hub_logs \<Rightarrow> bool \<Rightarrow> int \<Rightarrow> idx_db \<Rightarrow> bool" for env C live where
  created: "idx_run env C live 0 empty_index"
| passed: "idx_run env C live h db \<Longrightarrow> h \<le> h' \<Longrightarrow> serves_logs C h' P \<Longrightarrow> (live \<longrightarrow> k = None) \<Longrightarrow>
    idx_run env C live h' (after_tick env P now k db)"

text \<open>From one state of the database to a later one.\<close>

inductive idx_steps :: "idx_env \<Rightarrow> hub_logs \<Rightarrow> int \<Rightarrow> idx_db \<Rightarrow> int \<Rightarrow> idx_db \<Rightarrow> bool" for env C h0 db0 where
  stays: "idx_steps env C h0 db0 h0 db0"
| steps: "idx_steps env C h0 db0 h db \<Longrightarrow> h \<le> h' \<Longrightarrow> serves_logs C h' P \<Longrightarrow>
    idx_steps env C h0 db0 h' (after_tick env P now k db)"

lemma idx_steps_run: "idx_steps env C h db h' db' \<Longrightarrow> idx_run env C False h db \<Longrightarrow> idx_run env C False h' db'"
  by (induction rule: idx_steps.induct) (auto intro: idx_run.passed)


section \<open>Claims about tables during a pass\<close>

abbreviation tables :: "(idx_db \<Rightarrow> bool) \<Rightarrow> tick \<Rightarrow> bool" where
  "tables I w \<equiv> I (tk_db w)"

lemma tick_simps [simp]:
  "tk_db (snd (on_db f w)) = snd (f (tk_db w))" "fst (on_db f w) = fst (f (tk_db w))"
  by (simp_all add: on_db_def split: prod.split)

lemma run_sql_ok [task_rules]:
  assumes "\<And>d. \<not> live \<Longrightarrow> P d \<Longrightarrow> Q d" and "\<And>d. P d \<Longrightarrow> R (f d)"
  shows "task_ok live (tables P) (run_sql f) (tables Q) (\<lambda>_. tables R)"
  unfolding run_sql_def by (rule task_ok_write) (use assms in simp_all)

lemma write_ok:
  assumes "\<And>d. \<not> live \<Longrightarrow> P d \<Longrightarrow> Q d" and "\<And>d. P d \<Longrightarrow> R (fst (f d)) (snd (f d))"
  shows "task_ok live (tables P) (db_write (on_db f)) (tables Q) (\<lambda>x. tables (R x))"
  by (rule task_ok_write) (use assms in simp_all)

lemma select_ok:
  assumes "\<And>d. \<not> live \<Longrightarrow> P d \<Longrightarrow> Q d"
  shows "task_ok live (tables P) (select_sql f) (tables Q) (\<lambda>x. tables (\<lambda>d. P d \<and> x = f d))"
  unfolding select_sql_def by (rule task_ok_read) (use assms in simp_all)

lemma blockTimestamp_keeps:
  assumes "\<And>d. P d \<Longrightarrow> Q d"
  shows "task_ok live (tables P) (blockTimestamp N now b) (tables Q) (\<lambda>_. tables P)"
  unfolding blockTimestamp_def
proof (rule task_ok_bind [where R = "\<lambda>_. tables P"])
  fix cached
  show "task_ok live (tables P) (case cached of Some ts \<Rightarrow> give ts | None \<Rightarrow>
      bind_task (ask (nd_block N b)) (\<lambda>block. let ts = case block of Some t \<Rightarrow> t | None \<Rightarrow> now div 1000 in
        bind_task (local (\<lambda>w. w\<lparr>tk_blockTimestamps := (b, ts) # tk_blockTimestamps w\<rparr>)) (\<lambda>_. give ts)))
    (tables Q) (\<lambda>_. tables P)"
    by (cases cached)
      (auto simp: Let_def assms intro!: task_ok_give task_ok_ask task_ok_local task_ok_bind [where R = "\<lambda>_. tables P"])
qed (auto intro!: task_ok_peek)

text \<open>
  A pass changes the tables by five operations.  What each of them keeps, every pass keeps, but for the
  cursor of a vault, which moves only over a chunk whose events are recorded.
\<close>

definition same_tables :: "idx_db \<Rightarrow> idx_db \<Rightarrow> bool" where
  "same_tables d d' \<longleftrightarrow> db_vaults d' = db_vaults d \<and> db_cursors d' = db_cursors d \<and> db_events d' = db_events d"

lemma same_tables_simps [simp]:
  "same_tables d (upsert_state key row d)" "same_tables d (update_state key f d)"
  by (simp_all add: same_tables_def upsert_state_def update_state_def)

lemma project_keeps:
  assumes "\<And>d d'. I d \<Longrightarrow> same_tables d d' \<Longrightarrow> I d'"
  shows "keeps live (tables I) (project_event key now ts ev)"
proof (cases ev)
  case (Settlement_flushed p r a)
  have upd: "keeps live (tables I) (run_sql (update_state key f))" for f
    by (rule run_sql_ok) (auto intro: assms [OF _ same_tables_simps(2)])
  show ?thesis
    unfolding project_event_def Settlement_flushed hub_event.case
    by (rule task_ok_bind [where R = "\<lambda>_. tables I"], rule task_ok_weaken [OF select_ok [where P = I and Q = I]])
      (auto intro!: task_ok_give task_ok_throw upd split: option.split sum.split)
qed (auto simp: project_event_def intro!: run_sql_ok intro: assms [OF _ same_tables_simps(1)] assms [OF _ same_tables_simps(2)])

text \<open>After the events of a log are handled, the log is recorded.\<close>

definition has_log :: "hub_event evm_log \<Rightarrow> idx_db \<Rightarrow> bool" where
  "has_log l d \<longleftrightarrow> el_parsed l = None \<or> log_key l \<in> er_key ` set (db_events d)"

lemma er_key_recorded [simp]: "er_key (recorded v now ts l ev) = log_key l"
  by (simp add: er_key_def recorded_def log_key_def)

lemma has_log_insert: "el_parsed l = Some ev \<Longrightarrow> has_log l (snd (insert_event (recorded v now ts l ev) d))"
  by (auto simp: has_log_def insert_event_def)

lemma has_log_grows: "has_log l d \<Longrightarrow> has_log l (snd (insert_event row d))"
  by (auto simp: has_log_def insert_event_def)

lemma has_log_same: "same_tables d d' \<Longrightarrow> has_log l d' = has_log l d"
  by (simp add: has_log_def same_tables_def)

lemma ingest_ok:
  assumes row: "\<And>d ts ev. I d \<Longrightarrow> el_parsed l = Some ev \<Longrightarrow> I (snd (insert_event (recorded v now ts l ev) d))"
    and same: "\<And>d d'. I d \<Longrightarrow> same_tables d d' \<Longrightarrow> I d'"
  shows "task_ok live (tables I) (ingest P v now l) (tables I) (\<lambda>_ w. tables I w \<and> tables (has_log l) w)"
proof (cases "el_parsed l")
  case None
  then show ?thesis by (auto simp: ingest_def has_log_def intro!: task_ok_give)
next
  case (Some ev)
  let ?J = "\<lambda>d. I d \<and> has_log l d"
  have project: "task_ok live (tables ?J) (project_event key now ts ev) (tables I) (\<lambda>_. tables ?J)" for key ts
    by (rule task_ok_weaken [OF project_keeps [where I = ?J]]) (auto intro: same simp: has_log_same)
  show ?thesis
    unfolding ingest_def Some option.case
  proof (rule task_ok_bind [OF blockTimestamp_keeps])
    fix ts
    show "task_ok live (tables I) (bind_task (db_write (on_db (insert_event (recorded v now ts l ev))))
        (\<lambda>changed. if \<not> changed then give () else
          bind_task (local (\<lambda>w. w\<lparr>tk_eventsIngested := Suc (tk_eventsIngested w)\<rparr>))
            (\<lambda>_. project_event (v, toLowerCase (he_paycardId ev)) now ts ev)))
      (tables I) (\<lambda>_ w. tables I w \<and> tables (has_log l) w)"
      by (rule task_ok_bind [OF write_ok [where R = "\<lambda>_. ?J"]])
        (auto intro: row has_log_insert Some
          intro!: task_ok_if task_ok_give task_ok_local task_ok_bind [where R = "\<lambda>_. tables ?J"]
            project [simplified])
  qed simp
qed


lemma ingest_grows: "keeps live (tables (has_log y)) (ingest P v now l)"
  by (rule task_ok_weaken [OF ingest_ok [where I = "has_log y"]]) (auto simp: has_log_same intro: has_log_grows)


section \<open>The scans\<close>

definition chunk_of :: "hub_logs \<Rightarrow> string \<Rightarrow> int \<Rightarrow> int \<Rightarrow> hub_event evm_log set" where
  "chunk_of C v f t = {l \<in> C v. f \<le> el_block l \<and> el_block l \<le> t}"

text \<open>
  \<open>I\<close> holds at every moment of a scan, \<open>U f\<close> says what is done up to block \<open>f\<close>.  A round takes at least
  one chunk.
\<close>

lemma scan_vault_ok:
  assumes serves: "serves_logs C head P"
    and ingest: "\<And>l f. l \<in> C v \<Longrightarrow> f \<le> el_block l \<Longrightarrow>
      task_ok live (tables (\<lambda>d. I d \<and> U f d)) (ingest P v now l) (tables I) (\<lambda>_. tables (\<lambda>d. I d \<and> U f d))"
    and chunk: "\<And>f t d. I d \<Longrightarrow> U f d \<Longrightarrow> t \<le> head \<Longrightarrow> \<forall>l \<in> chunk_of C v f t. has_log l d \<Longrightarrow>
      I (setCursor v t d) \<and> U (t + 1) (setCursor v t d)"
  shows "task_ok live (tables (\<lambda>d. I d \<and> U f d)) (scan_vault env P now head v n f) (tables I)
    (\<lambda>n'. tables (\<lambda>d. I d \<and> n' \<le> n \<and> (f \<le> head \<longrightarrow> 0 < n \<longrightarrow> n' < n)))"
proof (induction n arbitrary: f)
  case 0
  show ?case by (auto intro: task_ok_give)
next
  case (Suc n)
  show ?case
  proof (cases "head < f")
    case True
    then show ?thesis by (auto intro!: task_ok_give)
  next
    case False
    let ?J = "\<lambda>d. I d \<and> U f d" and ?t = "min (f + windowBlocks env - 1) head"
    have round: "task_ok live (tables ?J) (for_each (ingest P v now) (sort_key log_order logs)) (tables I)
        (\<lambda>_ w. tables ?J w \<and> (\<forall>l \<in> chunk_of C v f ?t. tables (has_log l) w))"
      if answer: "nd_hubLogs P v f ?t = Inr logs" for logs
    proof -
      have logs: "set logs = chunk_of C v f ?t" using serves answer by (auto simp: serves_logs_def chunk_of_def)
      have J: "task_ok live (tables ?J) (ingest P v now l) (tables I) (\<lambda>_. tables ?J)" if "l \<in> set logs" for l
        using that by (auto simp: logs chunk_of_def intro: ingest)
      have grow: "task_ok live (\<lambda>w. tables ?J w \<and> tables (has_log y) w) (ingest P v now l) (tables I)
          (\<lambda>_ w. tables ?J w \<and> tables (has_log y) w)" if "l \<in> set logs" for l y
        by (rule task_ok_weaken [OF task_ok_conj [OF J [OF that] ingest_grows]]) auto
      have "task_ok live (tables ?J) (ingest P v now l) (tables I) (\<lambda>_ w. tables ?J w \<and> tables (has_log l) w)"
        if "l \<in> set logs" for l
        by (rule task_ok_weaken [OF task_ok_conj [OF J [OF that] ingest_ok [where I = "\<lambda>_. True"]]]) auto
      then show ?thesis
        using task_ok_for_each_all [where f = "ingest P v now" and D = "\<lambda>l. tables (has_log l)" and P = "tables ?J"
            and xs = "sort_key log_order logs" and live = live and Q = "tables I", OF _ grow] by (simp add: logs)
    qed
    have move: "task_ok live (\<lambda>w. tables ?J w \<and> (\<forall>l \<in> chunk_of C v f ?t. tables (has_log l) w)) (run_sql (setCursor v ?t))
        (tables I) (\<lambda>_. tables (\<lambda>d. I d \<and> U (?t + 1) d))"
      by (rule run_sql_ok [where P = "\<lambda>d. ?J d \<and> (\<forall>l \<in> chunk_of C v f ?t. has_log l d)" and Q = I
          and R = "\<lambda>d. I d \<and> U (?t + 1) d"]) (use chunk in auto)
    have rest: "task_ok live (tables (\<lambda>d. I d \<and> U (?t + 1) d)) (scan_vault env P now head v n (?t + 1)) (tables I)
        (\<lambda>n'. tables (\<lambda>d. I d \<and> n' \<le> Suc n \<and> (f \<le> head \<longrightarrow> 0 < Suc n \<longrightarrow> n' < Suc n)))"
      by (rule task_ok_weaken [OF Suc.IH]) auto
    from False show ?thesis
      unfolding scan_vault.simps Let_def if_not_P [OF False]
    proof (intro task_ok_bind [where R = "\<lambda>logs w. tables ?J w \<and> nd_hubLogs P v f ?t = Inr logs"])
      show "task_ok live (tables ?J) (ask (nd_hubLogs P v f ?t)) (tables I) (\<lambda>logs w. tables ?J w \<and> nd_hubLogs P v f ?t = Inr logs)"
        by (rule task_ok_ask) auto
    next
      fix logs
      show "task_ok live (\<lambda>w. tables ?J w \<and> nd_hubLogs P v f ?t = Inr logs)
          (bind_task (for_each (ingest P v now) (sort_key log_order logs))
            (\<lambda>_. bind_task (run_sql (setCursor v ?t)) (\<lambda>_. scan_vault env P now head v n (?t + 1)))) (tables I)
          (\<lambda>n'. tables (\<lambda>d. I d \<and> n' \<le> Suc n \<and> (f \<le> head \<longrightarrow> 0 < Suc n \<longrightarrow> n' < Suc n)))"
      proof (cases "nd_hubLogs P v f ?t = Inr logs")
        case True
        from task_ok_bind [OF round [OF True] task_ok_bind [OF move rest]] True show ?thesis by simp
      qed (simp add: task_ok_def)
    qed
  qed
qed


lemma discover_keeps:
  assumes "\<And>d x. el_parsed l = Some x \<Longrightarrow> I d \<Longrightarrow> I (snd (insert_vault (vault_row now l x) d))"
  shows "keeps live (tables I) (discover now l)"
proof (cases "el_parsed l")
  case (Some x)
  show ?thesis
    unfolding discover_def Some option.case
    by (rule task_ok_bind [where R = "\<lambda>_. tables I"], rule task_ok_write) (use Some assms in \<open>auto intro!: task_ok_local\<close>)
qed (auto simp: discover_def intro!: task_ok_give)

lemma scan_factory_ok:
  assumes serves: "serves_logs C head P"
    and watch: "\<And>d l x. I d \<Longrightarrow> el_block l \<le> head \<Longrightarrow> el_parsed l = Some x \<Longrightarrow> isEvmAddress (vd_vaultAddress x) \<Longrightarrow>
      I (snd (insert_vault (vault_row now l x) d))"
    and cursor: "\<And>d t. I d \<Longrightarrow> t \<le> head \<Longrightarrow> I (setCursor (factory_key env) t d)"
  shows "task_ok live (tables I) (scan_factory env P now head n f) (tables I)
    (\<lambda>n'. tables (\<lambda>d. I d \<and> n' \<le> n \<and> (f \<le> head \<longrightarrow> 0 < n \<longrightarrow> n' < n)))"
proof (induction n arbitrary: f)
  case 0
  show ?case by (auto intro: task_ok_give)
next
  case (Suc n)
  show ?case
  proof (cases "head < f")
    case True
    then show ?thesis by (auto intro!: task_ok_give)
  next
    case False
    let ?t = "min (f + windowBlocks env - 1) head"
    have round: "keeps live (tables I) (for_each (discover now) logs)" if "nd_factoryLogs P f ?t = Inr logs" for logs
      by (rule task_ok_for_each, rule discover_keeps) (use serves that in \<open>fastforce simp: serves_logs_def intro: watch\<close>)
    have move: "keeps live (tables I) (run_sql (setCursor (factory_key env) ?t))"
      by (rule run_sql_ok) (auto intro: cursor)
    have rest: "task_ok live (tables I) (scan_factory env P now head n (?t + 1)) (tables I)
        (\<lambda>n'. tables (\<lambda>d. I d \<and> n' \<le> Suc n \<and> (f \<le> head \<longrightarrow> 0 < Suc n \<longrightarrow> n' < Suc n)))"
      by (rule task_ok_weaken [OF Suc.IH]) auto
    show ?thesis
      unfolding scan_factory.simps Let_def if_not_P [OF False]
    proof (intro task_ok_bind [where R = "\<lambda>logs w. tables I w \<and> nd_factoryLogs P f ?t = Inr logs"])
      fix logs
      show "task_ok live (\<lambda>w. tables I w \<and> nd_factoryLogs P f ?t = Inr logs)
          (bind_task (for_each (discover now) logs)
            (\<lambda>_. bind_task (run_sql (setCursor (factory_key env) ?t)) (\<lambda>_. scan_factory env P now head n (?t + 1))))
          (tables I) (\<lambda>n'. tables (\<lambda>d. I d \<and> n' \<le> Suc n \<and> (f \<le> head \<longrightarrow> 0 < Suc n \<longrightarrow> n' < Suc n)))"
      proof (cases "nd_factoryLogs P f ?t = Inr logs")
        case True
        from task_ok_bind [OF round [OF True] task_ok_bind [OF move rest]] True show ?thesis by simp
      qed (simp add: task_ok_def)
    qed (rule task_ok_ask; simp)
  qed
qed

text \<open>
  A claim about a pass: the vault rows do not change in its second half, and the chunks left for them
  are fewer than there were.
\<close>

lemma runTick_ok:
  assumes serves: "serves_logs C head P"
    and canonical: "\<And>d. I d \<Longrightarrow> I (snd (insert_vault (canonical_row env now) d))"
    and watch: "\<And>d l x. I d \<Longrightarrow> el_block l \<le> head \<Longrightarrow> el_parsed l = Some x \<Longrightarrow> isEvmAddress (vd_vaultAddress x) \<Longrightarrow>
      I (snd (insert_vault (vault_row now l x) d))"
    and cursor: "\<And>d t. I d \<Longrightarrow> t \<le> head \<Longrightarrow> I (setCursor (factory_key env) t d)"
    and vaults: "\<And>V n. ((\<forall>d. I d \<longrightarrow> getCursor (factory_key env) (max 0 (head - initialBackfill env)) d \<le> head) \<longrightarrow>
        n < nat (maxChunks env)) \<Longrightarrow>
      keeps live (tables (\<lambda>d. I d \<and> db_vaults d = V)) (scan_vaults env P now head n V)"
  shows "keeps live (tables I) (runTick env P now)"
proof -
  let ?fc = "\<forall>d. I d \<longrightarrow> getCursor (factory_key env) (max 0 (head - initialBackfill env)) d \<le> head"
  have M: "0 < nat (maxChunks env)"
    by (auto simp: maxChunks_def readPositiveInt_def split: option.split)
  have phase1: "task_ok live (tables (\<lambda>d. I d \<and> f = getCursor (factory_key env) (max 0 (head - initialBackfill env)) d))
      (scan_factory env P now head (nat (maxChunks env)) f) (tables I)
      (\<lambda>n. tables (\<lambda>d. I d \<and> (?fc \<longrightarrow> n < nat (maxChunks env))))" for f
  proof (cases "?fc \<longrightarrow> f \<le> head")
    case True
    with M show ?thesis by (intro task_ok_weaken [OF scan_factory_ok [OF serves watch cursor]]) auto
  qed (auto simp: task_ok_def)
  have phase2: "task_ok live (tables (\<lambda>d. (I d \<and> (?fc \<longrightarrow> n < nat (maxChunks env))) \<and> V = db_vaults d))
      (bind_task (scan_vaults env P now head n V) (\<lambda>n'. peek (report n'))) (tables I) (\<lambda>_. tables I)" for n V report
  proof (cases "?fc \<longrightarrow> n < nat (maxChunks env)")
    case True
    from vaults [OF True, of V] show ?thesis
      by (intro task_ok_bind [where R = "\<lambda>_. tables I"] task_ok_peek) (auto elim!: task_ok_weaken)
  qed (auto simp: task_ok_def)
  have body: "keeps live (tables I)
      (bind_task (db_write (on_db (insert_vault (canonical_row env now)))) (\<lambda>_.
       bind_task (select_sql (getCursor (factory_key env) (max 0 (head - initialBackfill env)))) (\<lambda>f.
       bind_task (scan_factory env P now head (nat (maxChunks env)) f) (\<lambda>n.
       bind_task (select_sql db_vaults) (\<lambda>V.
       bind_task (scan_vaults env P now head n V) (\<lambda>n'. peek (report n')))))))" for report
    by (rule task_ok_bind [OF write_ok [where R = "\<lambda>_. I"]]
        | rule task_ok_bind [OF select_ok] | rule task_ok_bind [OF phase1] | rule phase2 | simp add: canonical)+
  show ?thesis
    unfolding runTick_def
  proof (rule task_ok_if [OF task_ok_throw])
    show "keeps live (tables I) (bind_task (ask (nd_blockNumber P)) (\<lambda>h.
      bind_task (db_write (on_db (insert_vault (canonical_row env now)))) (\<lambda>_.
       bind_task (select_sql (getCursor (factory_key env) (max 0 (h - initialBackfill env)))) (\<lambda>f.
       bind_task (scan_factory env P now h (nat (maxChunks env)) f) (\<lambda>n.
       bind_task (select_sql db_vaults) (\<lambda>V.
       bind_task (scan_vaults env P now h n V) (\<lambda>n'. peek (\<lambda>w. \<lparr>tp_vaultsDiscovered = tk_vaultsDiscovered w,
         tp_eventsIngested = tk_eventsIngested w, tp_chunksUsed = nat (maxChunks env) - n', tp_head = h\<rparr>))))))))"
      (is "keeps live (tables I) (bind_task _ ?body)")
    proof (rule task_ok_bind [where R = "\<lambda>h w. tables I w \<and> h = head"])
      show "task_ok live (tables I) (ask (nd_blockNumber P)) (tables I) (\<lambda>h w. tables I w \<and> h = head)"
        by (rule task_ok_ask) (use serves in \<open>auto simp: serves_logs_def\<close>)
    next
      fix h
      show "task_ok live (\<lambda>w. tables I w \<and> h = head) (?body h) (tables I) (\<lambda>_. tables I)"
      proof (cases "h = head")
        case True
        with body show ?thesis by simp
      qed (simp add: task_ok_def)
    qed
  qed simp
qed


lemma scan_vaults_keeps:
  assumes "\<And>v d. v \<in> set vs \<Longrightarrow> I d \<Longrightarrow> U v (getCursor (wv_address v) (default_start env head v) d) d"
    and "\<And>v n f. v \<in> set vs \<Longrightarrow> task_ok live (tables (\<lambda>d. I d \<and> U v f d)) (scan_vault env P now head (wv_address v) n f)
      (tables I) (\<lambda>_. tables I)"
  shows "keeps live (tables I) (scan_vaults env P now head n vs)"
  using assms
proof (induction vs arbitrary: n)
  case (Cons v vs)
  have rest: "keeps live (tables I) (scan_vaults env P now head n' vs)" for n'
    by (rule Cons.IH) (use Cons.prems in auto)
  have first: "task_ok live (tables I) (select_sql (getCursor (wv_address v) (default_start env head v))) (tables I)
      (\<lambda>f. tables (\<lambda>d. I d \<and> U v f d))"
    by (rule task_ok_weaken [OF select_ok [where P = I and Q = I]]) (use Cons.prems(1) in auto)
  have scan: "task_ok live (tables (\<lambda>d. I d \<and> U v f d)) (scan_vault env P now head (wv_address v) n f) (tables I) (\<lambda>_. tables I)" for f
    using Cons.prems(2) by simp
  show ?case
    unfolding scan_vaults.simps
    by (rule task_ok_if [OF task_ok_give task_ok_bind [OF first task_ok_bind [OF scan rest]]])
qed (auto intro: task_ok_give)


section \<open>Every event is recorded once, up to the cursor\<close>

text \<open>Up to the block \<open>f\<close> no event from block \<open>a\<close> on is missing.\<close>

definition upto :: "hub_logs \<Rightarrow> string \<Rightarrow> int \<Rightarrow> int \<Rightarrow> idx_db \<Rightarrow> bool" where
  "upto C v a f d \<longleftrightarrow> (\<forall>l \<in> C v. a \<le> el_block l \<longrightarrow> el_block l < f \<longrightarrow> has_log l d)"

definition covers :: "hub_logs \<Rightarrow> string \<Rightarrow> int \<Rightarrow> idx_db \<Rightarrow> bool" where
  "covers C v a d \<longleftrightarrow> (\<forall>c. map_get (db_cursors d) v = Some c \<longrightarrow> upto C v a (c + 1) d)"

abbreviation addresses :: "idx_db \<Rightarrow> string set" where
  "addresses d \<equiv> wv_address ` set (db_vaults d)"

text \<open>Vaults and the blocks their scans start from: those of the table, and given ones.\<close>

definition starts :: "(string \<times> int) set \<Rightarrow> idx_db \<Rightarrow> string \<Rightarrow> int \<Rightarrow> bool" where
  "starts X d v a \<longleftrightarrow> (v, a) \<in> X \<or> (\<exists>r \<in> set (db_vaults d). wv_address r = v \<and> wv_discoveredAtBlock r = a \<and> 0 < a)"

definition row_of_chain :: "hub_logs \<Rightarrow> event_row \<Rightarrow> bool" where
  "row_of_chain C e \<longleftrightarrow> (\<exists>l \<in> C (er_vault e). \<exists>now ts ev. el_parsed l = Some ev \<and> e = recorded (er_vault e) now ts l ev)"

definition events_ok :: "hub_logs \<Rightarrow> idx_db \<Rightarrow> bool" where
  "events_ok C d \<longleftrightarrow> distinct (map er_key (db_events d)) \<and> (\<forall>e \<in> set (db_events d). row_of_chain C e)"

definition vaults_ok :: "idx_env \<Rightarrow> (string \<times> int) set \<Rightarrow> idx_db \<Rightarrow> bool" where
  "vaults_ok env X d \<longleftrightarrow> distinct (map wv_address (db_vaults d)) \<and> factory_key env \<notin> addresses d \<and>
     (\<forall>v. map_get (db_cursors d) v \<noteq> None \<longrightarrow> v = factory_key env \<or> v \<in> addresses d) \<and>
     (\<forall>(v, a) \<in> X. v \<in> addresses d \<and> map_get (db_cursors d) v \<noteq> None)"

definition idx_inv :: "idx_env \<Rightarrow> hub_logs \<Rightarrow> (string \<times> int) set \<Rightarrow> idx_db \<Rightarrow> bool" where
  "idx_inv env C X d \<longleftrightarrow> events_ok C d \<and> vaults_ok env X d \<and> (\<forall>v a. starts X d v a \<longrightarrow> covers C v a d)"

lemmas idx_defs = idx_inv_def events_ok_def vaults_ok_def starts_def covers_def upto_def

lemma cursor_simps [simp]:
  "db_vaults (setCursor v t d) = db_vaults d" "db_events (setCursor v t d) = db_events d"
  "db_states (setCursor v t d) = db_states d"
  "map_get (db_cursors (setCursor v t d)) v' = (if v' = v then Some t else map_get (db_cursors d) v')"
  by (simp_all add: setCursor_def map_get_put)

lemma has_log_cursor [simp]: "has_log l (setCursor v t d) = has_log l d"
  by (simp add: has_log_def)

lemma event_simps [simp]:
  "db_vaults (snd (insert_event e d)) = db_vaults d" "db_cursors (snd (insert_event e d)) = db_cursors d"
  "db_states (snd (insert_event e d)) = db_states d"
  by (simp_all add: insert_event_def)

lemma insert_event_ok:
  assumes "events_ok C d" and "row_of_chain C e"
  shows "events_ok C (snd (insert_event e d))"
  using assms by (auto simp: events_ok_def insert_event_def)

lemma recorded_row: "l \<in> C v \<Longrightarrow> el_parsed l = Some ev \<Longrightarrow> row_of_chain C (recorded v now ts l ev)"
  unfolding row_of_chain_def by (rule bexI [of _ l]) (auto simp: recorded_def)

lemma inv_same: "idx_inv env C X d \<Longrightarrow> same_tables d d' \<Longrightarrow> idx_inv env C X d'"
  by (simp add: idx_defs has_log_def same_tables_def)

lemma upto_grows: "upto C v a f d \<Longrightarrow> upto C v a f (snd (insert_event e d))"
  by (simp add: upto_def has_log_grows)

lemma starts_event: "starts X (snd (insert_event e d)) = starts X d"
  by (rule ext)+ (simp add: starts_def)

lemma covers_mono:
  assumes "covers C v a d" and "db_cursors d' = db_cursors d" and "\<And>l. has_log l d \<Longrightarrow> has_log l d'"
  shows "covers C v a d'"
  using assms(1,3) unfolding covers_def upto_def assms(2) by blast

lemma inv_event:
  assumes "idx_inv env C X d" and "l \<in> C v" and "el_parsed l = Some ev"
  shows "idx_inv env C X (snd (insert_event (recorded v now ts l ev) d))" (is "idx_inv env C X ?d")
proof -
  have "events_ok C ?d"
    using assms(1) insert_event_ok [OF _ recorded_row [where C = C and v = v, OF assms(2,3)]] by (simp add: idx_inv_def)
  moreover have "vaults_ok env X ?d"
  proof -
    have "vaults_ok env X d" using assms(1) by (simp add: idx_inv_def)
    then show ?thesis by (simp add: vaults_ok_def)
  qed
  moreover have "starts X ?d = starts X d" by (rule starts_event)
  moreover have "covers C v' a ?d" if "starts X d v' a" for v' a
  proof (rule covers_mono [OF _ _ has_log_grows])
    show "covers C v' a d" using assms(1) that by (simp add: idx_inv_def)
  qed simp_all
  ultimately show ?thesis by (simp add: idx_inv_def)
qed

lemma factory_key_no_address: "isEvmAddress s \<Longrightarrow> toLowerCase s \<noteq> factory_key env"
proof
  assume "isEvmAddress s" and eq: "toLowerCase s = factory_key env"
  then obtain s' where "s = CHR ''0'' # s'"
    by (cases s) (auto simp: isEvmAddress_def is_hex_text_def)
  with eq show False by (simp add: factory_key_def toLowerCase_def lower_char_def char_code_def)
qed

lemma inv_watch:
  assumes inv: "idx_inv env C X d" and "wv_address r \<noteq> factory_key env"
  shows "idx_inv env C X (snd (insert_vault r d))"
proof (cases "wv_address r \<in> addresses d")
  case True
  with inv show ?thesis by (simp add: insert_vault_def)
next
  case False
  with inv assms(2) have "map_get (db_cursors d) (wv_address r) = None"
    by (auto simp: idx_inv_def vaults_ok_def)
  with False assms show ?thesis
    by (auto simp: insert_vault_def idx_defs has_log_def)
qed

lemma inv_factory_cursor:
  assumes "idx_inv env C X d"
  shows "idx_inv env C X (setCursor (factory_key env) t d)"
proof -
  have "starts X d v a \<Longrightarrow> v \<in> addresses d" for v a
    using assms by (auto simp: idx_inv_def vaults_ok_def starts_def)
  with assms show ?thesis
    unfolding idx_inv_def
    by (intro conjI) (auto simp: events_ok_def vaults_ok_def starts_def covers_def upto_def)
qed

lemma inv_cursor:
  assumes "idx_inv env C X d" and "v \<in> addresses d" and "\<And>a. starts X d v a \<Longrightarrow> upto C v a (t + 1) d"
  shows "idx_inv env C X (setCursor v t d)"
  using assms by (auto simp: idx_inv_def vaults_ok_def starts_def covers_def upto_def events_ok_def)


lemma scan_vaults_inv:
  assumes serves: "serves_logs C head P"
  shows "keeps live (tables (\<lambda>d. idx_inv env C X d \<and> db_vaults d = V)) (scan_vaults env P now head n V)"
proof -
  let ?I = "\<lambda>d. idx_inv env C X d \<and> db_vaults d = V"
  let ?U = "\<lambda>v f d. \<forall>a. starts X d (wv_address v) a \<longrightarrow> upto C (wv_address v) a f d"
  have start: "?U v (getCursor (wv_address v) (default_start env head v) d) d" if v: "v \<in> set V" and I: "?I d" for v d
  proof (intro allI impI)
    fix a assume a: "starts X d (wv_address v) a"
    show "upto C (wv_address v) a (getCursor (wv_address v) (default_start env head v) d) d"
    proof (cases "map_get (db_cursors d) (wv_address v)")
      case (Some c)
      with I a have "upto C (wv_address v) a (c + 1) d" by (auto simp: idx_inv_def covers_def)
      then show ?thesis by (auto simp: getCursor_def Some upto_def)
    next
      case None
      with I a have "(wv_address v, a) \<notin> X" by (auto simp: idx_inv_def vaults_ok_def)
      with a obtain r where r: "r \<in> set V" "wv_address r = wv_address v" "wv_discoveredAtBlock r = a" "0 < a"
        using I by (auto simp: starts_def)
      with I v have "r = v"
        by (auto simp: idx_inv_def vaults_ok_def distinct_map dest: inj_onD)
      with r show ?thesis by (auto simp: getCursor_def None default_start_def upto_def)
    qed
  qed
  show ?thesis
  proof (rule scan_vaults_keeps [where I = ?I and U = ?U, OF start])
    fix v n f assume v: "v \<in> set V"
    show "task_ok live (tables (\<lambda>d. ?I d \<and> ?U v f d)) (scan_vault env P now head (wv_address v) n f) (tables ?I) (\<lambda>_. tables ?I)"
    proof (rule task_ok_weaken [OF scan_vault_ok [where I = ?I and U = "?U v", OF serves]])
      fix l f assume l: "l \<in> C (wv_address v)"
      show "task_ok live (tables (\<lambda>d. ?I d \<and> ?U v f d)) (ingest P (wv_address v) now l) (tables ?I) (\<lambda>_. tables (\<lambda>d. ?I d \<and> ?U v f d))"
      proof (rule task_ok_weaken [OF ingest_ok [where I = "\<lambda>d. ?I d \<and> ?U v f d"]])
        fix d ts ev assume "?I d \<and> ?U v f d" and "el_parsed l = Some ev"
        with inv_event [where C = C and v = "wv_address v", OF _ l] show "?I (snd (insert_event (recorded (wv_address v) now ts l ev) d)) \<and>
            ?U v f (snd (insert_event (recorded (wv_address v) now ts l ev) d))"
          by (simp add: starts_event upto_grows)
      next
        fix d d' assume d: "?I d \<and> ?U v f d" and same: "same_tables d d'"
        then have "idx_inv env C X d'" using inv_same by blast
        with d same show "?I d' \<and> ?U v f d'"
          by (simp add: starts_def upto_def has_log_same) (simp add: same_tables_def)
      qed auto
    next
      fix f t d
      assume I: "?I d" and U: "?U v f d" and "t \<le> head"
        and chunk: "\<forall>l \<in> chunk_of C (wv_address v) f t. has_log l d"
      have U': "?U v (t + 1) d"
        using U chunk by (fastforce simp: upto_def chunk_of_def)
      moreover have "wv_address v \<in> addresses d" using v I by simp
      ultimately have "idx_inv env C X (setCursor (wv_address v) t d)" using I by (intro inv_cursor) auto
      with I U' show "?I (setCursor (wv_address v) t d) \<and> ?U v (t + 1) (setCursor (wv_address v) t d)"
        by (simp add: starts_def upto_def)
    qed auto
  qed auto
qed

lemma pass_keeps_inv:
  assumes serves: "serves_logs C head P" and hub: "isEvmAddress (ev_hubAddress env)"
  shows "keeps live (tables (idx_inv env C X)) (runTick env P now)"
proof (rule runTick_ok [OF serves])
  fix d assume "idx_inv env C X d"
  then show "idx_inv env C X (snd (insert_vault (canonical_row env now) d))"
    by (rule inv_watch) (simp add: canonical_row_def factory_key_no_address hub)
next
  fix d and l :: "vault_deployed evm_log" and x :: vault_deployed assume "idx_inv env C X d" "isEvmAddress (vd_vaultAddress x)"
  then show "idx_inv env C X (snd (insert_vault (vault_row now l x) d))"
    by (intro inv_watch) (simp_all add: vault_row_def factory_key_no_address)
qed (auto intro: inv_factory_cursor scan_vaults_inv [OF serves])

lemma after_tick_keeps:
  assumes "keeps live (tables I) (runTick env P now)" and "live \<longrightarrow> k = None" and "I db"
  shows "I (after_tick env P now k db)"
  using task_ok_state [OF assms(1), of "(k, start_tick db)"] assms(2,3)
  by (simp add: after_tick_def start_tick_def)

lemma empty_index_inv: "idx_inv env C {} empty_index"
  by (simp add: idx_defs empty_index_def)

lemma run_inv:
  assumes "idx_run env C live h db" and "isEvmAddress (ev_hubAddress env)"
  shows "idx_inv env C {} db"
  using assms(1)
  by induction (simp_all add: empty_index_inv after_tick_keeps [OF pass_keeps_inv [OF _ assms(2)]])

lemma steps_inv:
  assumes "idx_steps env C h db h' db'" and "isEvmAddress (ev_hubAddress env)" and "idx_inv env C X db"
  shows "idx_inv env C X db'"
  using assms(1)
  by induction (simp_all add: assms(3) after_tick_keeps [where live = False, OF pass_keeps_inv [OF _ assms(2)]])

text \<open>A log is recorded exactly once.\<close>

lemma recorded_once:
  assumes "keys_unique C" and "events_ok C d" and "l \<in> C v" and "el_parsed l \<noteq> None" and "has_log l d"
  shows "\<exists>!e. e \<in> set (db_events d) \<and> er_key e = log_key l"
proof -
  from assms(4,5) obtain e where e: "e \<in> set (db_events d)" "er_key e = log_key l" by (auto simp: has_log_def)
  moreover have "e' = e" if "e' \<in> set (db_events d)" "er_key e' = log_key l" for e'
    using assms(2) e that inj_onD [of er_key "set (db_events d)" e' e] by (simp add: events_ok_def distinct_map)
  ultimately show ?thesis by blast
qed


lemma filter_single: "distinct xs \<Longrightarrow> x \<in> set xs \<Longrightarrow> filter (\<lambda>y. y = x) xs = [x]"
  by (induction xs) (auto simp: filter_empty_conv)

lemma exactly_recorded:
  assumes "keys_unique C" and "events_ok C d" and "l \<in> C v" and "el_parsed l = Some ev" and "has_log l d"
  shows "\<exists>now ts. filter (\<lambda>e. er_key e = log_key l) (db_events d) = [recorded v now ts l ev]"
proof -
  have "\<exists>!e. e \<in> set (db_events d) \<and> er_key e = log_key l" using recorded_once [OF assms(1-3)] assms(4,5) by simp
  then obtain e where e: "e \<in> set (db_events d)" "er_key e = log_key l"
      and only: "\<And>e'. e' \<in> set (db_events d) \<Longrightarrow> er_key e' = log_key l \<Longrightarrow> e' = e" by blast
  have "distinct (db_events d)" using assms(2) by (simp add: events_ok_def distinct_map)
  then have "filter (\<lambda>x. x = e) (db_events d) = [e]"
    using e(1) by (rule filter_single)
  moreover have "filter (\<lambda>x. er_key x = log_key l) (db_events d) = filter (\<lambda>x. x = e) (db_events d)"
    using e(2) only by (intro filter_cong refl) blast
  moreover obtain l' now ts ev' where l': "l' \<in> C (er_vault e)" "el_parsed l' = Some ev'" "e = recorded (er_vault e) now ts l' ev'"
    using assms(2) e(1) by (auto simp: events_ok_def row_of_chain_def)
  moreover have "er_vault e = v \<and> l' = l"
    using assms(1,3) l'(1) e(2) er_key_recorded [of "er_vault e" now ts l' ev'] l'(3) unfolding keys_unique_def by metis
  ultimately show ?thesis using assms(4) by auto
qed


section \<open>While no pass is cut, the states are the replay of the events\<close>

definition replay_event ::
    "((string \<times> string) \<times> paycard_state) list \<Rightarrow> event_row \<Rightarrow> ((string \<times> string) \<times> paycard_state) list" where
  "replay_event m e =
     (let key = (er_vault e, er_paycardId e); now = er_recordedAt e in
      case er_event e of
        Paycard_provisioned _ _ _ _ _ _ _ _ \<Rightarrow> AList.update key (provisioned_row now (er_event e)) m
      | Settlement_flushed _ _ w \<Rightarrow>
          (case map_of m key of
             None \<Rightarrow> m
           | Some row \<Rightarrow>
               (case balance_after (xs_availableBalance row) w of
                  Inl _ \<Rightarrow> m
                | Inr clamped \<Rightarrow> AList.map_entry key (flushed_row now (er_timestamp e) clamped) m))
      | Residual_reclaimed _ _ _ \<Rightarrow> AList.map_entry key (reclaimed_row now) m)"

definition replay :: "event_row list \<Rightarrow> ((string \<times> string) \<times> paycard_state) list" where
  "replay = foldl replay_event []"

definition decimal_balances :: "((string \<times> string) \<times> paycard_state) list \<Rightarrow> bool" where
  "decimal_balances m \<longleftrightarrow> (\<forall>row \<in> snd ` set m. \<exists>n. xs_availableBalance row = show_nat n)"

definition replayed :: "idx_db \<Rightarrow> bool" where
  "replayed d \<longleftrightarrow> db_states d = replay (db_events d) \<and> decimal_balances (db_states d)"

lemma set_map_entry: "snd ` set (AList.map_entry k f m) \<subseteq> snd ` set m \<union> f ` snd ` set m"
  by (induction m) auto

lemma set_alist_update: "snd ` set (AList.update k v m) \<subseteq> insert v (snd ` set m)"
  by (induction m) auto

lemma balance_after_decimal:
  "balance_after (show_nat n) w = Inr (if int n - int w > 0 then int n - int w else 0)"
  by (simp add: balance_after_def BigInt_show_nat)

lemma decimal_update: "decimal_balances m \<Longrightarrow> xs_availableBalance row = show_nat n \<Longrightarrow> decimal_balances (AList.update k row m)"
  using set_alist_update [of k row m] unfolding decimal_balances_def by blast

lemma decimal_map_entry:
  assumes "decimal_balances m" and "\<And>row. row \<in> snd ` set m \<Longrightarrow> \<exists>n. xs_availableBalance (f row) = show_nat n"
  shows "decimal_balances (AList.map_entry k f m)"
  unfolding decimal_balances_def
proof
  fix row assume "row \<in> snd ` set (AList.map_entry k f m)"
  with set_map_entry [of k f m] consider "row \<in> snd ` set m" | row' where "row' \<in> snd ` set m" "row = f row'" by blast
  then show "\<exists>n. xs_availableBalance row = show_nat n"
    using assms by cases (auto simp: decimal_balances_def)
qed

lemma balance_after_text: "balance_after b w = Inr c \<Longrightarrow> \<exists>n. show_int c = show_nat n"
  by (rule exI [of _ "nat c"]) (auto simp: balance_after_def show_int_def split: option.splits if_splits)

text \<open>An event that is in the table and not yet in the states.\<close>

definition unprojected :: "event_row \<Rightarrow> idx_db \<Rightarrow> bool" where
  "unprojected e d \<longleftrightarrow> (\<exists>es. db_events d = es @ [e] \<and> db_states d = replay es \<and> decimal_balances (db_states d))"

lemma project_replays:
  assumes "unprojected e d" and "decimal_balances (replay_event (db_states d) e)"
  shows "replayed (d\<lparr>db_states := replay_event (db_states d) e\<rparr>)"
  using assms by (auto simp: unprojected_def replayed_def replay_def)

lemma decimal_replay:
  assumes "decimal_balances m"
  shows "decimal_balances (replay_event m e)"
proof (cases "er_event e")
  case (Paycard_provisioned p py r h a f g s)
  then show ?thesis
    using assms by (auto simp: replay_event_def Let_def provisioned_row_def intro: decimal_update)
next
  case (Settlement_flushed p r w)
  then show ?thesis
    using assms by (auto simp: replay_event_def Let_def flushed_row_def
        intro!: decimal_map_entry dest: balance_after_text split: option.split sum.split)
next
  case (Residual_reclaimed p r v)
  have "show_nat 0 = ''0''" by code_simp
  with Residual_reclaimed show ?thesis
    using assms by (auto simp: replay_event_def Let_def reclaimed_row_def intro!: decimal_map_entry exI [of _ 0])
qed

lemma project_event_live:
  assumes e: "er_event e = ev" "er_recordedAt e = now" "er_timestamp e = ts" "(er_vault e, er_paycardId e) = key"
  shows "task_ok True (tables (unprojected e)) (project_event key now ts ev) (tables replayed) (\<lambda>_. tables replayed)"
proof -
  have step: "unprojected e d \<Longrightarrow> replayed (d\<lparr>db_states := replay_event (db_states d) e\<rparr>)" for d
    by (rule project_replays) (auto simp: unprojected_def intro: decimal_replay)
  show ?thesis
  proof (cases ev)
    case (Settlement_flushed p r w)
    have body: "task_ok True (tables (\<lambda>d. unprojected e d \<and> existing = map_of (db_states d) key))
        (case existing of None \<Rightarrow> give () | Some row \<Rightarrow>
          (case balance_after (xs_availableBalance row) w of Inl e \<Rightarrow> throw e
           | Inr clamped \<Rightarrow> run_sql (update_state key (flushed_row now ts clamped))))
        (tables replayed) (\<lambda>_. tables replayed)" for existing
    proof (cases existing)
      case None
      have "replayed d" if "unprojected e d" "map_of (db_states d) key = None" for d
        using step [OF that(1)] that e by (simp add: replay_event_def Let_def Settlement_flushed)
      with None show ?thesis by (auto intro!: task_ok_give)
    next
      case (Some row)
      have row: "\<exists>n. xs_availableBalance row = show_nat n" if "unprojected e d" "map_of (db_states d) key = Some row" for d
        using that map_of_SomeD [OF that(2)] by (force simp: unprojected_def decimal_balances_def)
      show ?thesis
      proof (cases "balance_after (xs_availableBalance row) w")
        case (Inl x)
        have False if "unprojected e d" "Some row = map_of (db_states d) key" for d
          using row [OF that(1) that(2) [symmetric]] Inl by (auto simp: balance_after_decimal)
        then show ?thesis unfolding task_ok_def Some by blast
      next
        case (Inr c)
        have "replayed (update_state key (flushed_row now ts c) d)"
          if "unprojected e d" "map_of (db_states d) key = Some row" for d
          using step [OF that(1)] that e Inr by (simp add: replay_event_def Let_def Settlement_flushed update_state_def)
        then show ?thesis
          unfolding Some Inr option.case sum.case
          by (intro run_sql_ok [where P = "\<lambda>d. unprojected e d \<and> Some row = map_of (db_states d) key"]) auto
      qed
    qed
    show ?thesis
      unfolding project_event_def Settlement_flushed hub_event.case
      by (rule task_ok_bind [OF select_ok [where P = "unprojected e" and Q = replayed] body]) simp
  next
    case (Paycard_provisioned p py r h a f g s)
    then show ?thesis
      using step e by (auto simp: project_event_def replay_event_def Let_def upsert_state_def intro!: run_sql_ok)
  next
    case (Residual_reclaimed p r v)
    then show ?thesis
      using step e by (auto simp: project_event_def replay_event_def Let_def update_state_def intro!: run_sql_ok)
  qed
qed


lemma ingest_live: "keeps True (tables replayed) (ingest P v now l)"
proof (cases "el_parsed l")
  case (Some ev)
  have insert: "if changed then unprojected (recorded v now ts l ev) (snd (insert_event (recorded v now ts l ev) d))
      else replayed (snd (insert_event (recorded v now ts l ev) d))"
    if "replayed d" "changed = fst (insert_event (recorded v now ts l ev) d)" for d changed ts
    using that by (auto simp: insert_event_def replayed_def unprojected_def)
  have project: "task_ok True (tables (unprojected (recorded v now ts l ev)))
      (project_event (v, toLowerCase (he_paycardId ev)) now ts ev) (tables replayed) (\<lambda>_. tables replayed)" for ts
    by (rule project_event_live) (simp_all add: recorded_def)
  show ?thesis
    unfolding ingest_def Some option.case
  proof (rule task_ok_bind [OF blockTimestamp_keeps])
    fix ts
    let ?e = "recorded v now ts l ev"
    show "task_ok True (tables replayed) (bind_task (db_write (on_db (insert_event ?e)))
        (\<lambda>changed. if \<not> changed then give () else
          bind_task (local (\<lambda>w. w\<lparr>tk_eventsIngested := Suc (tk_eventsIngested w)\<rparr>))
            (\<lambda>_. project_event (v, toLowerCase (he_paycardId ev)) now ts ev)))
      (tables replayed) (\<lambda>_. tables replayed)"
    proof (rule task_ok_bind [OF write_ok [where P = replayed and Q = replayed
          and R = "\<lambda>changed d. if changed then unprojected ?e d else replayed d"]])
      fix changed
      show "task_ok True (tables (\<lambda>d. if changed then unprojected ?e d else replayed d))
        (if \<not> changed then give () else
          bind_task (local (\<lambda>w. w\<lparr>tk_eventsIngested := Suc (tk_eventsIngested w)\<rparr>))
            (\<lambda>_. project_event (v, toLowerCase (he_paycardId ev)) now ts ev)) (tables replayed) (\<lambda>_. tables replayed)"
        by (cases changed)
          (auto intro!: task_ok_give task_ok_local project task_ok_bind [where R = "\<lambda>_. tables (unprojected ?e)"])
    qed (use insert in auto)
  qed simp
qed (auto simp: ingest_def intro!: task_ok_give)


section \<open>An event whose projection was cut is never projected\<close>

definition is_provisioned :: "hub_event \<Rightarrow> bool" where
  "is_provisioned ev = (case ev of Paycard_provisioned _ _ _ _ _ _ _ _ \<Rightarrow> True | _ \<Rightarrow> False)"

definition lost :: "string \<Rightarrow> string \<Rightarrow> string \<times> int \<Rightarrow> idx_db \<Rightarrow> bool" where
  "lost v p key d \<longleftrightarrow> key \<in> er_key ` set (db_events d) \<and> map_of (db_states d) (v, p) = None"

text \<open>The one log that provisions the paycard.\<close>

definition only_provisioning :: "hub_logs \<Rightarrow> string \<Rightarrow> string \<Rightarrow> string \<times> int \<Rightarrow> bool" where
  "only_provisioning C v p key \<longleftrightarrow>
     (\<forall>l ev. l \<in> C v \<longrightarrow> el_parsed l = Some ev \<longrightarrow> is_provisioned ev \<longrightarrow> toLowerCase (he_paycardId ev) = p \<longrightarrow> log_key l = key)"

lemma events_update_state [simp]: "db_events (update_state k f d) = db_events d"
  by (simp add: update_state_def)

lemma map_of_update_state:
  "map_of (db_states (update_state k f d)) x = (if x = k then map_option f (map_of (db_states d) k) else map_of (db_states d) x)"
  by (simp add: update_state_def AList.map_of_map_entry split: option.split)

lemma project_lost:
  assumes "is_provisioned ev \<Longrightarrow> key \<noteq> (v, p)"
  shows "keeps live (tables (lost v p k)) (project_event key now ts ev)"
proof -
  have update: "keeps live (tables (lost v p k)) (run_sql (update_state key f))" for f
    by (rule run_sql_ok) (auto simp: lost_def map_of_update_state)
  show ?thesis
  proof (cases ev)
    case (Settlement_flushed a b c)
    show ?thesis
      unfolding project_event_def Settlement_flushed hub_event.case
      by (rule task_ok_bind [where R = "\<lambda>_. tables (lost v p k)"], rule task_ok_weaken [OF select_ok])
        (auto intro!: task_ok_give task_ok_throw update split: option.split sum.split)
  next
    case (Paycard_provisioned a b c d e f g h)
    then show ?thesis
      using assms
      by (auto simp: project_event_def is_provisioned_def lost_def upsert_state_def update_conv' intro!: run_sql_ok)
  next
    case (Residual_reclaimed a b c)
    then show ?thesis using update by (simp add: project_event_def)
  qed
qed


lemma ingest_lost:
  assumes only: "only_provisioning C v p key" and l: "l \<in> C v'"
  shows "keeps live (tables (lost v p key)) (ingest P v' now l)"
proof (cases "el_parsed l")
  case (Some ev)
  let ?hit = "is_provisioned ev \<and> (v', toLowerCase (he_paycardId ev)) = (v, p)"
  have ignored: "\<not> fst (insert_event (recorded v' now ts l ev) d)" if "lost v p key d" ?hit for d ts
  proof -
    from that only l Some have "log_key l = key" by (auto simp: only_provisioning_def)
    with that show ?thesis by (auto simp: lost_def insert_event_def)
  qed
  show ?thesis
    unfolding ingest_def Some option.case
  proof (rule task_ok_bind [OF blockTimestamp_keeps])
    fix ts
    let ?e = "recorded v' now ts l ev"
    show "keeps live (tables (lost v p key)) (bind_task (db_write (on_db (insert_event ?e)))
        (\<lambda>changed. if \<not> changed then give () else
          bind_task (local (\<lambda>w. w\<lparr>tk_eventsIngested := Suc (tk_eventsIngested w)\<rparr>))
            (\<lambda>_. project_event (v', toLowerCase (he_paycardId ev)) now ts ev)))"
    proof (rule task_ok_bind [OF write_ok [where P = "lost v p key" and Q = "lost v p key"
          and R = "\<lambda>changed d. lost v p key d \<and> (changed \<longrightarrow> \<not> ?hit)"]])
      fix d assume d: "lost v p key d"
      then have "lost v p key (snd (insert_event ?e d))" by (auto simp: lost_def insert_event_def)
      with ignored [OF d] show "lost v p key (snd (insert_event ?e d)) \<and> (fst (insert_event ?e d) \<longrightarrow> \<not> ?hit)" by blast
    next
      fix changed
      show "task_ok live (tables (\<lambda>d. lost v p key d \<and> (changed \<longrightarrow> \<not> ?hit)))
        (if \<not> changed then give () else
          bind_task (local (\<lambda>w. w\<lparr>tk_eventsIngested := Suc (tk_eventsIngested w)\<rparr>))
            (\<lambda>_. project_event (v', toLowerCase (he_paycardId ev)) now ts ev)) (tables (lost v p key)) (\<lambda>_. tables (lost v p key))"
      proof (cases "changed \<longrightarrow> \<not> ?hit")
        case True
        then show ?thesis
          by (auto intro!: task_ok_give task_ok_local project_lost task_ok_bind [where R = "\<lambda>_. tables (lost v p key)"])
      qed (simp add: task_ok_def)
    qed simp
  qed simp
qed (auto simp: ingest_def intro!: task_ok_give)

lemma lost_cursor [simp]: "lost v p key (setCursor v' t d) = lost v p key d"
  by (simp add: lost_def)

lemma lost_watch [simp]: "lost v p key (snd (insert_vault r d)) = lost v p key d"
  by (simp add: lost_def insert_vault_def)

text \<open>A claim about a pass that every recorded log and nothing else may touch.\<close>

lemma pass_keeps_simple:
  assumes serves: "serves_logs C head P"
    and ingest: "\<And>v l. l \<in> C v \<Longrightarrow> keeps live (tables I) (ingest P v now l)"
    and cursor: "\<And>v t d. I (setCursor v t d) = I d" and watch: "\<And>r d. I (snd (insert_vault r d)) = I d"
  shows "keeps live (tables I) (runTick env P now)"
proof (rule runTick_ok [OF serves])
  fix V n
  let ?I = "\<lambda>d. I d \<and> db_vaults d = V"
  have ingest': "keeps live (tables (\<lambda>d. ?I d \<and> True)) (ingest P v now l)" if "l \<in> C v" for v l
    by (rule task_ok_weaken [OF task_ok_conj [OF ingest [OF that] ingest_ok [where I = "\<lambda>d. db_vaults d = V"]]])
      (auto simp: same_tables_def)
  show "keeps live (tables ?I) (scan_vaults env P now head n V)"
  proof (rule scan_vaults_keeps [where U = "\<lambda>_ _ _. True"])
    fix v n f
    show "task_ok live (tables (\<lambda>d. ?I d \<and> True)) (scan_vault env P now head (wv_address v) n f) (tables ?I) (\<lambda>_. tables ?I)"
      by (rule task_ok_weaken [OF scan_vault_ok [where I = ?I and U = "\<lambda>_ _. True", OF serves]])
        (use ingest' cursor in auto)
  qed simp
qed (simp_all add: cursor watch)

lemma pass_replays:
  assumes "serves_logs C head P"
  shows "keeps True (tables replayed) (runTick env P now)"
  by (rule pass_keeps_simple [OF assms ingest_live]) (auto simp: replayed_def insert_vault_def)

lemma run_replays: "idx_run env C True h db \<Longrightarrow> replayed db"
proof (induction rule: idx_run.induct)
  case created
  show ?case by (simp add: replayed_def empty_index_def replay_def decimal_balances_def)
qed (simp add: after_tick_keeps [OF pass_replays])

lemma pass_lost:
  assumes "serves_logs C head P" and "only_provisioning C v p key"
  shows "keeps live (tables (lost v p key)) (runTick env P now)"
  by (rule pass_keeps_simple [OF assms(1) ingest_lost [OF assms(2)]]) simp_all

lemma steps_lost:
  assumes "idx_steps env C h db h' db'" and "only_provisioning C v p key" and "lost v p key db"
  shows "lost v p key db'"
  using assms(1)
  by induction (simp_all add: assms(3) after_tick_keeps [where live = False, OF pass_lost [OF _ assms(2)]])


section \<open>The first vaults take all chunks\<close>

text \<open>Nothing of a vault beyond the budget was ever scanned; cursors and discoveries are behind the head.\<close>

definition budgeted :: "nat \<Rightarrow> int \<Rightarrow> idx_db \<Rightarrow> bool" where
  "budgeted M h d \<longleftrightarrow>
     (\<forall>v c. map_get (db_cursors d) v = Some c \<longrightarrow> c \<le> h) \<and>
     (\<forall>r \<in> set (db_vaults d). wv_discoveredAtBlock r \<le> h) \<and>
     (\<forall>i < length (db_vaults d). M \<le> Suc i \<longrightarrow>
        map_get (db_cursors d) (wv_address (db_vaults d ! i)) = None \<and>
        (\<forall>e \<in> set (db_events d). er_vault e \<noteq> wv_address (db_vaults d ! i)))"

definition within_budget :: "idx_env \<Rightarrow> hub_logs \<Rightarrow> int \<Rightarrow> idx_db \<Rightarrow> bool" where
  "within_budget env C h d \<longleftrightarrow> idx_inv env C {} d \<and> budgeted (nat (maxChunks env)) h d \<and>
     (\<forall>e \<in> set (db_events d). er_vault e \<in> addresses d)"

lemma budgeted_mono: "budgeted M h d \<Longrightarrow> h \<le> h' \<Longrightarrow> budgeted M h' d"
  by (force simp: budgeted_def)


text \<open>What the second half of a pass keeps: it touches only vaults within the budget.\<close>

definition budget_of :: "nat \<Rightarrow> int \<Rightarrow> watched_vault list \<Rightarrow> idx_db \<Rightarrow> bool" where
  "budget_of M h V d \<longleftrightarrow> budgeted M h d \<and> db_vaults d = V \<and> (\<forall>e \<in> set (db_events d). er_vault e \<in> wv_address ` set V)"

lemma beyond_budget:
  assumes "distinct (map wv_address V)" and "j < length V" and "Suc j < M" and "i < length V" and "M \<le> Suc i"
  shows "wv_address (V ! i) \<noteq> wv_address (V ! j)"
  using assms nth_eq_iff_index_eq [OF assms(1), of i j] by auto

lemma budget_event:
  assumes "budget_of M h V d" and "distinct (map wv_address V)" and "j < length V" and "Suc j < M"
    and "er_vault e = wv_address (V ! j)"
  shows "budget_of M h V (snd (insert_event e d))"
proof -
  have "er_vault x \<noteq> wv_address (V ! i)"
    if "x \<in> set (db_events (snd (insert_event e d)))" "i < length V" "M \<le> Suc i" for x i
    using that assms(1) beyond_budget [OF assms(2-4) that(2,3)] assms(5)
    by (auto simp: insert_event_def budget_of_def budgeted_def split: if_splits)
  moreover have "er_vault x \<in> wv_address ` set V" if "x \<in> set (db_events (snd (insert_event e d)))" for x
    using that assms(1,3,5) by (auto simp: insert_event_def budget_of_def split: if_splits)
  ultimately show ?thesis using assms(1) by (auto simp: budget_of_def budgeted_def)
qed

lemma budget_cursor:
  assumes "budget_of M h V d" and "distinct (map wv_address V)" and "j < length V" and "Suc j < M" and "t \<le> h"
  shows "budget_of M h V (setCursor (wv_address (V ! j)) t d)"
proof -
  have "map_get (db_cursors (setCursor (wv_address (V ! j)) t d)) (wv_address (V ! i)) = None"
    if "i < length V" "M \<le> Suc i" for i
    using that assms(1) beyond_budget [OF assms(2-4) that] by (auto simp: budget_of_def budgeted_def)
  moreover have "c \<le> h" if "map_get (db_cursors (setCursor (wv_address (V ! j)) t d)) v = Some c" for v c
    using that assms(1,5) by (auto simp: budget_of_def budgeted_def split: if_splits)
  ultimately show ?thesis using assms(1) by (auto simp: budget_of_def budgeted_def)
qed

lemma budget_same: "budget_of M h V d \<Longrightarrow> same_tables d d' \<Longrightarrow> budget_of M h V d'"
  by (auto simp: budget_of_def budgeted_def same_tables_def)

lemma scan_start_behind:
  assumes "budget_of M h V d" and "v \<in> set V" and "0 \<le> h"
  shows "getCursor (wv_address v) (default_start env h v) d \<le> h"
  using assms by (auto simp: getCursor_def budget_of_def budgeted_def default_start_def initialBackfill_def
      readPositiveInt_def split: option.split)

lemma scan_vaults_budget:
  assumes serves: "serves_logs C head P" and "0 \<le> head" and distinct: "distinct (map wv_address V)" and "n + j < M"
  shows "keeps live (tables (budget_of M head V)) (scan_vaults env P now head n (drop j V))"
  using assms(4)
proof (induction "length V - j" arbitrary: j n)
  case 0
  then show ?case by (auto intro!: task_ok_give)
next
  case (Suc m)
  let ?B = "budget_of M head V"
  from Suc(2) have j: "j < length V" by simp
  then have drop: "drop j V = V ! j # drop (Suc j) V" by (simp add: Cons_nth_drop_Suc)
  show ?case
  proof (cases "n = 0")
    case False
    with Suc.prems have M: "Suc j < M" by simp
    have first: "task_ok live (tables ?B) (select_sql (getCursor (wv_address (V ! j)) (default_start env head (V ! j)))) (tables ?B)
        (\<lambda>f. tables (\<lambda>d. ?B d \<and> f \<le> head))"
      by (rule task_ok_weaken [OF select_ok [where P = ?B and Q = ?B]])
        (use scan_start_behind assms(2) j in auto)
    have scan: "task_ok live (tables (\<lambda>d. ?B d \<and> f \<le> head)) (scan_vault env P now head (wv_address (V ! j)) n f) (tables ?B)
        (\<lambda>n'. tables (\<lambda>d. ?B d \<and> n' < n))" for f
    proof (cases "f \<le> head")
      case True
      have ingest: "task_ok live (tables (\<lambda>d. ?B d \<and> True)) (ingest P (wv_address (V ! j)) now l) (tables ?B)
          (\<lambda>_. tables (\<lambda>d. ?B d \<and> True))" for l
        by (rule task_ok_weaken [OF ingest_ok [where I = ?B]])
          (auto intro: budget_event [OF _ distinct j M] budget_same simp: recorded_def)
      show ?thesis
        by (rule task_ok_weaken [OF scan_vault_ok [where I = ?B and U = "\<lambda>_ _. True", OF serves ingest]])
          (use True False budget_cursor [OF _ distinct j M] in auto)
    qed (simp add: task_ok_def)
    have rest: "task_ok live (tables (\<lambda>d. ?B d \<and> n' < n)) (scan_vaults env P now head n' (drop (Suc j) V)) (tables ?B) (\<lambda>_. tables ?B)" for n'
    proof (cases "n' < n")
      case True
      with Suc show ?thesis by auto
    qed (simp add: task_ok_def)
    show ?thesis
      unfolding drop scan_vaults.simps if_not_P [OF False]
      by (rule task_ok_bind [OF first task_ok_bind [OF scan rest]])
  qed (simp add: drop task_ok_give)
qed

lemma budgeted_watch:
  assumes "within_budget env C h d" and "wv_discoveredAtBlock r \<le> h" and "wv_address r \<noteq> factory_key env"
  shows "within_budget env C h (snd (insert_vault r d))"
proof (cases "wv_address r \<in> addresses d")
  case True
  with assms(1) show ?thesis by (simp add: insert_vault_def)
next
  case False
  then have "map_get (db_cursors d) (wv_address r) = None"
    using assms(1,3) by (auto simp: within_budget_def idx_inv_def vaults_ok_def)
  moreover have "\<forall>e \<in> set (db_events d). er_vault e \<noteq> wv_address r"
    using assms(1) False unfolding within_budget_def by metis
  moreover have "idx_inv env C {} (snd (insert_vault r d))"
    using assms(1,3) by (intro inv_watch) (simp_all add: within_budget_def)
  ultimately show ?thesis
    using False assms(1,2) by (auto simp: within_budget_def budgeted_def insert_vault_def nth_append less_Suc_eq)
qed

lemma budgeted_factory:
  assumes "within_budget env C h d" and "t \<le> h"
  shows "within_budget env C h (setCursor (factory_key env) t d)"
proof -
  have "wv_address (db_vaults d ! i) \<noteq> factory_key env" if "i < length (db_vaults d)" for i
    using assms(1) that by (metis idx_inv_def imageI nth_mem vaults_ok_def within_budget_def)
  with assms inv_factory_cursor show ?thesis
    by (auto simp: within_budget_def budgeted_def split: if_splits)
qed

lemma pass_within_budget:
  assumes serves: "serves_logs C head P" and hub: "isEvmAddress (ev_hubAddress env)" and "0 \<le> head"
  shows "keeps live (tables (within_budget env C head)) (runTick env P now)"
proof (rule runTick_ok [OF serves])
  fix V n
  assume "(\<forall>d. within_budget env C head d \<longrightarrow>
    getCursor (factory_key env) (max 0 (head - initialBackfill env)) d \<le> head) \<longrightarrow> n < nat (maxChunks env)"
  moreover have "0 < initialBackfill env"
    by (auto simp: initialBackfill_def readPositiveInt_def split: option.split)
  ultimately have n: "n + 0 < nat (maxChunks env)"
    using assms(3) by (force simp: getCursor_def within_budget_def budgeted_def split: option.split)
  show "keeps live (tables (\<lambda>d. within_budget env C head d \<and> db_vaults d = V)) (scan_vaults env P now head n V)"
  proof (cases "distinct (map wv_address V)")
    case True
    from scan_vaults_budget [OF serves assms(3) True n] have
      "keeps live (tables (budget_of (nat (maxChunks env)) head V)) (scan_vaults env P now head n V)" by simp
    from task_ok_conj [OF scan_vaults_inv [OF serves, of live env "{}" V now n] this] show ?thesis
      by (rule task_ok_weaken) (auto simp: within_budget_def budget_of_def)
  next
    case False
    then show ?thesis by (auto simp: task_ok_def within_budget_def idx_inv_def vaults_ok_def)
  qed
next
  fix d assume "within_budget env C head d"
  then show "within_budget env C head (snd (insert_vault (canonical_row env now) d))"
    by (rule budgeted_watch) (simp_all add: canonical_row_def factory_key_no_address hub assms(3))
next
  fix d and l :: "vault_deployed evm_log" and x :: vault_deployed
  assume "within_budget env C head d" "isEvmAddress (vd_vaultAddress x)" "el_block l \<le> head"
  then show "within_budget env C head (snd (insert_vault (vault_row now l x) d))"
    by (intro budgeted_watch) (simp_all add: vault_row_def factory_key_no_address)
qed (rule budgeted_factory)

lemma run_within_budget:
  assumes "idx_run env C live h db" and "isEvmAddress (ev_hubAddress env)"
  shows "0 \<le> h \<and> within_budget env C h db"
  using assms(1)
proof induction
  case created
  show ?case by (simp add: within_budget_def empty_index_inv) (simp add: budgeted_def empty_index_def)
next
  case (passed h db h' P k now)
  then have "within_budget env C h' db" by (auto simp: within_budget_def intro: budgeted_mono)
  with passed show ?case
    using after_tick_keeps [OF pass_within_budget [OF passed(3) assms(2)], where live = live] by auto
qed

end
