(* ===== verification/Play_Settlement.thy ===== *)
theory Play_Settlement
  imports Worker_Effects Gateway_Server
begin

text \<open>
  Plays and their settlement: the scrobble webhook of \<open>workers/music-scrobble-worker/src/index.ts\<close>, which
  logs a play in a D1 table, and the settler of \<open>workers/reconciliation-worker/src/index.ts\<close>, which
  settles the paycards of pending plays (mode \<open>d1\<close>) or of all recent streams of the hub (mode \<open>chain\<close>).

  Neither module imports or declares \<open>safeRpcError\<close>, which their handlers of errors call: evaluating the
  name throws a \<open>ReferenceError\<close>.  An answer \<open>Inl\<close> of a worker is a promise that rejects.
\<close>

definition not_defined :: "string \<Rightarrow> string" where
  "not_defined name = name @ '' is not defined''"


section \<open>The table of plays\<close>

text \<open>\<open>settled\<close>: 0 pending, 1 settled, 2 skipped or failed, 3 in progress.\<close>

record play =
  pl_sourceEventId :: "string option"
  pl_paycardId :: string
  pl_artistMbid :: string
  pl_artistWallet :: string
  pl_timestamp :: int
  pl_settled :: int
  pl_attempts :: int
  pl_lastError :: "string option"
  pl_updatedAt :: int

text \<open>The table, and the paycards whose settlement a settler saw confirmed.\<close>

record settler =
  sw_plays :: "play list"
  sw_confirmed :: "string list"

definition insert_play :: "play \<Rightarrow> play list \<Rightarrow> play list" where
  "insert_play p ps =
     (if pl_sourceEventId p \<noteq> None \<and> pl_sourceEventId p \<in> set (map pl_sourceEventId ps) then ps else ps @ [p])"

definition update_plays :: "(play \<Rightarrow> bool) \<Rightarrow> (play \<Rightarrow> play) \<Rightarrow> settler \<Rightarrow> nat \<times> settler" where
  "update_plays P f w = (length (filter P (sw_plays w)),
     w\<lparr>sw_plays := map (\<lambda>p. if P p then f p else p) (sw_plays w)\<rparr>)"


section \<open>The scrobble webhook\<close>

text \<open>
  \<open>kv\<close> is the registry of artists; a value that D1 cannot bind makes the insertion throw.  The result
  is the answer and the table.
\<close>

definition bindable :: "js_value \<Rightarrow> bool" where
  "bindable v = (case v of Some (JArr _) \<Rightarrow> False | Some (JObj _) \<Rightarrow> False | None \<Rightarrow> False | _ \<Rightarrow> True)"

definition source_event_id :: "js_value \<Rightarrow> string + string option" where
  "source_event_id event =
     (if is_nullish event then Inr None
      else (case event of
              Some (JStr s) \<Rightarrow> Inr (if trim s = [] then None else Some (trim s))
            | _ \<Rightarrow> Inl type_error))"

definition artist_name :: "js_value \<Rightarrow> js_value" where
  "artist_name payload =
     (let artist = field (field payload ''track'') ''artist'' in
      if is_nullish artist then Some (JStr ''Unknown Artist'') else artist)"

definition new_play :: "string option \<Rightarrow> string \<Rightarrow> string \<Rightarrow> string \<Rightarrow> int \<Rightarrow> play" where
  "new_play event paycardId mbid wallet timestamp =
     \<lparr>pl_sourceEventId = event, pl_paycardId = paycardId, pl_artistMbid = mbid, pl_artistWallet = wallet,
      pl_timestamp = timestamp, pl_settled = 0, pl_attempts = 0, pl_lastError = None, pl_updatedAt = timestamp\<rparr>"

definition log_play ::
    "(js_value \<Rightarrow> string + string option) \<Rightarrow> int \<Rightarrow> js_value \<Rightarrow> play list \<Rightarrow> (string + http_response) \<times> play list" where
  "log_play kv timestamp payload ps =
     (let mbid = field (field payload ''track'') ''mbid''; paycardId = field payload ''paycardId'' in
      if is_nullish payload then (Inl type_error, ps)
      else if \<not> truthy mbid then (Inr (error_response 400 ''Missing artist MusicBrainz ID (mbid)''), ps)
      else if \<not> truthy paycardId then (Inr (error_response 400 ''Missing OpenRails paycardId''), ps)
      else if \<not> isBytes32Hex (to_text (the paycardId))
      then (Inr (error_response 400 ''Invalid OpenRails paycardId; expected bytes32 hex''), ps)
      else (case kv mbid of
          Inl e \<Rightarrow> (Inl e, ps)
        | Inr None \<Rightarrow> (Inr (error_response 404 (''Artist '' @ [char_of (39::nat)] @ to_text (the (artist_name payload)) @
              [char_of (39::nat)] @ '' (MBID: '' @ to_text (the mbid) @ '') is not registered in the Payee Registry.'')), ps)
        | Inr (Some wallet) \<Rightarrow>
            if wallet = [] then (Inr (error_response 404 (''Artist '' @ [char_of (39::nat)] @ to_text (the (artist_name payload)) @
              [char_of (39::nat)] @ '' (MBID: '' @ to_text (the mbid) @ '') is not registered in the Payee Registry.'')), ps)
            else if \<not> isEvmAddress wallet
            then (Inr (error_response 502 ''Registered artist wallet is not a valid EVM address''), ps)
            else (case source_event_id (field payload ''event'') of
                Inl e \<Rightarrow> (Inl e, ps)
              | Inr event \<Rightarrow>
                  if \<not> bindable paycardId \<or> \<not> bindable mbid then (Inl type_error, ps)
                  else
                    (Inr (ok_response [
                       (''success'', Some (JBool True)),
                       (''message'', Some (JStr ''Scrobble royalty logged successfully'')),
                       (''details'', Some (jobj [
                          (''artist'', artist_name payload), (''mbid'', mbid), (''wallet'', Some (JStr wallet)),
                          (''paycardId'', paycardId),
                          (''sourceEventId'', Some (case event of Some s \<Rightarrow> JStr s | None \<Rightarrow> JNull))]))]),
                     insert_play (new_play event (to_text (the paycardId)) (to_text (the mbid)) wallet timestamp) ps))))"

text \<open>The route, whose \<open>catch\<close> turns every error into a \<open>ReferenceError\<close>.  \<open>body\<close> is the parsed JSON, if any.\<close>

definition handleScrobble ::
    "string option \<Rightarrow> (string \<Rightarrow> string option) \<Rightarrow> (js_value \<Rightarrow> string + string option) \<Rightarrow> int \<Rightarrow> json option \<Rightarrow>
      play list \<Rightarrow> (string + http_response) \<times> play list" where
  "handleScrobble secret headers kv timestamp body ps =
     (if secret = None \<or> secret = Some [] then (Inr (error_response 503 ''Webhook secret is not configured''), ps)
      else if \<not> authorized headers secret ''X-OpenRails-Webhook-Secret'' then (Inr (error_response 401 ''Unauthorized''), ps)
      else
        (case (case body of None \<Rightarrow> (Inl type_error, ps) | Some b \<Rightarrow> log_play kv timestamp (Some b) ps) of
           (Inl e, ps') \<Rightarrow> (Inl (not_defined ''safeRpcError''), ps')
         | r \<Rightarrow> r))"


section \<open>The settler of plays\<close>

record settle_node =
  sn_registry :: "string \<Rightarrow> string + paycard_row"
  sn_submit :: "string \<Rightarrow> string + string"
  sn_wait :: "string \<Rightarrow> string + unit"

record settle_env =
  se_signerKey :: "string option"
  se_rpcUrls :: "string list"
  se_hasDb :: bool
  se_batchLimit :: "string option"
  se_maxAttempts :: "string option"
  se_mode :: "string option"

definition maxAttempts :: "settle_env \<Rightarrow> int" where
  "maxAttempts env = readPositiveInt (se_maxAttempts env) 5"

definition batchLimit_d1 :: "settle_env \<Rightarrow> int" where
  "batchLimit_d1 env = readPositiveInt (se_batchLimit env) 10"

definition pending :: "int \<Rightarrow> play \<Rightarrow> bool" where
  "pending attempts p \<longleftrightarrow> pl_settled p = 0 \<and> pl_attempts p < attempts"

definition select_pending :: "settle_env \<Rightarrow> play list \<Rightarrow> string list" where
  "select_pending env ps =
     take (nat (batchLimit_d1 env)) (fold set_add (map pl_paycardId (filter (pending (maxAttempts env)) ps)) [])"

text \<open>The statements: \<open>UPDATE plays SET \<dots> WHERE paycard_id = ? AND settled = ?\<close>.\<close>

definition mark :: "string \<Rightarrow> int \<Rightarrow> int \<Rightarrow> string option \<Rightarrow> int \<Rightarrow> (settler, nat) task" where
  "mark paycardId old new err now =
     db_write (update_plays (\<lambda>p. pl_paycardId p = paycardId \<and> pl_settled p = old)
       (\<lambda>p. p\<lparr>pl_settled := new, pl_lastError := err, pl_updatedAt := now\<rparr>))"

definition lock_plays :: "settle_env \<Rightarrow> int \<Rightarrow> string \<Rightarrow> (settler, nat) task" where
  "lock_plays env now paycardId =
     db_write (update_plays (\<lambda>p. pl_paycardId p = paycardId \<and> pending (maxAttempts env) p)
       (\<lambda>p. p\<lparr>pl_settled := 3, pl_attempts := pl_attempts p + 1, pl_updatedAt := now\<rparr>))"

definition await_settlement :: "settle_node \<Rightarrow> string \<Rightarrow> string \<Rightarrow> (settler, unit) task" where
  "await_settlement N paycardId tx =
     await (\<lambda>w. case sn_wait N tx of
       Inl e \<Rightarrow> (Inl e, w)
     | Inr u \<Rightarrow> (Inr (), w\<lparr>sw_confirmed := sw_confirmed w @ [paycardId]\<rparr>))"

definition settle_on_chain :: "settle_node \<Rightarrow> int \<Rightarrow> string \<Rightarrow> (settler, nat) task" where
  "settle_on_chain N now paycardId =
     bind_task (ask (sn_registry N paycardId)) (\<lambda>row.
     if row_operationalStatus row \<noteq> 0
     then mark paycardId 3 2 (Some (''inactive status '' @ show_int (row_operationalStatus row))) now
     else
       bind_task (ask (sn_submit N paycardId)) (\<lambda>tx.
       bind_task (await_settlement N paycardId tx) (\<lambda>_.
       mark paycardId 3 1 None now)))"

text \<open>One paycard.  The handler of the error throws before its own statement runs.\<close>

definition settle_paycard :: "settle_env \<Rightarrow> settle_node \<Rightarrow> int \<Rightarrow> string \<Rightarrow> (settler, unit) task" where
  "settle_paycard env N now paycardId =
     (if \<not> isBytes32Hex paycardId
      then bind_task (mark paycardId 0 2 (Some ''invalid paycardId'') now) (\<lambda>_. give ())
      else
        bind_task (lock_plays env now paycardId) (\<lambda>changes.
        if changes = 0 then give ()
        else
          bind_task (catch_task (settle_on_chain N now paycardId) (\<lambda>e. throw (not_defined ''safeRpcError'')))
            (\<lambda>_. give ())))"

definition reconcileFromD1 :: "settle_env \<Rightarrow> settle_node \<Rightarrow> int \<Rightarrow> (settler, unit) task" where
  "reconcileFromD1 env N now =
     (if \<not> se_hasDb env then give ()
      else
        bind_task (db_read (\<lambda>w. select_pending env (sw_plays w))) (\<lambda>ids.
        if ids = [] then give ()
        else if se_rpcUrls env = [] then throw ''No Arc RPC provider is configured''
        else for_each (settle_paycard env N now) ids))"


section \<open>The settler of streams\<close>

definition batchLimit_chain :: "settle_env \<Rightarrow> int" where
  "batchLimit_chain env = readPositiveInt (se_batchLimit env) 25"

text \<open>What has accrued since the last checkpoint, at most the balance.\<close>

definition accrued_since :: "int \<Rightarrow> paycard_row \<Rightarrow> int" where
  "accrued_since now row =
     (let end_time = row_genesisTimestamp row + row_lifespanSeconds row;
          upto_time = (if now < end_time then now else end_time);
          elapsed = (if upto_time > row_lastCheckpointEpoch row then upto_time - row_lastCheckpointEpoch row else 0);
          accrued = row_flowVelocityPerSecond row * elapsed
      in if accrued > row_availableBalance row then row_availableBalance row else accrued)"

definition settle_due :: "int \<Rightarrow> int \<Rightarrow> paycard_row \<Rightarrow> bool" where
  "settle_due now minAccruedBase row \<longleftrightarrow>
     row_operationalStatus row = 0 \<and> row_availableBalance row \<noteq> 0 \<and>
     (row_lifespanSeconds row = 0 \<or> \<not> accrued_since now row < minAccruedBase)"

text \<open>
  The loop over the streams, by the settlements that may still be made: how it ends, and the streams
  it submitted a settlement for.
\<close>

fun settle_each ::
    "settle_node \<Rightarrow> int \<Rightarrow> int \<Rightarrow> nat \<Rightarrow> string list \<Rightarrow> (string + unit) \<times> string list" where
  "settle_each N now m left [] = (Inr (), [])"
| "settle_each N now m left (i # ids) =
     (if left = 0 then (Inr (), [])
      else (case sn_registry N i of
          Inl e \<Rightarrow> (Inl (not_defined ''safeRpcError''), [])
        | Inr row \<Rightarrow>
            if \<not> settle_due now m row then settle_each N now m left ids
            else (case sn_submit N i of
                Inl e \<Rightarrow> (Inl (not_defined ''safeRpcError''), [])
              | Inr tx \<Rightarrow>
                  (case sn_wait N tx of
                     Inl e \<Rightarrow> (Inl (not_defined ''safeRpcError''), [i])
                   | Inr u \<Rightarrow> (case settle_each N now m (left - 1) ids of (r, sent) \<Rightarrow> (r, i # sent))))))"

text \<open>\<open>logs\<close> are the paycards of the provisioning events in the window, if the node answers.\<close>

definition settleActiveRails ::
    "settle_env \<Rightarrow> settle_node \<Rightarrow> int \<Rightarrow> int \<Rightarrow> (string + string list) \<Rightarrow> (string + unit) \<times> string list" where
  "settleActiveRails env N now minAccruedBase logs =
     (if se_rpcUrls env = [] then (Inl ''No Arc RPC provider is configured'', [])
      else (case logs of
              Inl e \<Rightarrow> (Inl e, [])
            | Inr ids \<Rightarrow> settle_each N now minAccruedBase (nat (batchLimit_chain env)) (fold set_add ids [])))"

end
