(* ===== verification/Settlement_Facts.thy ===== *)
theory Settlement_Facts
  imports Play_Settlement
begin

text \<open>
  What holds of the table of plays, over any sequence of scrobbles and of settlement passes cut anywhere,
  and what a failing settlement leaves behind.
\<close>


section \<open>Marking and locking\<close>

definition marked :: "(play \<Rightarrow> bool) \<Rightarrow> (play \<Rightarrow> play) \<Rightarrow> settler \<Rightarrow> settler" where
  "marked P f w = snd (update_plays P f w)"

lemma marked_simps [simp]:
  "sw_plays (marked P f w) = map (\<lambda>p. if P p then f p else p) (sw_plays w)" "sw_confirmed (marked P f w) = sw_confirmed w"
  by (simp_all add: marked_def update_plays_def)

lemma update_plays_marked [simp]: "snd (update_plays P f w) = marked P f w"
  by (simp add: marked_def)

lemma mark_ok:
  assumes "\<And>w. I w \<Longrightarrow> I (marked (\<lambda>p. pl_paycardId p = i \<and> pl_settled p = old)
    (\<lambda>p. p\<lparr>pl_settled := new, pl_lastError := err, pl_updatedAt := now\<rparr>) w)"
  shows "keeps live I (mark i old new err now)"
  unfolding mark_def by (rule task_ok_write) (simp_all add: assms)

lemma lock_ok:
  assumes "\<And>w. I w \<Longrightarrow> I (marked (\<lambda>p. pl_paycardId p = i \<and> pending (maxAttempts env) p)
    (\<lambda>p. p\<lparr>pl_settled := 3, pl_attempts := pl_attempts p + 1, pl_updatedAt := now\<rparr>) w)"
  shows "keeps live I (lock_plays env now i)"
  unfolding lock_plays_def by (rule task_ok_write) (simp_all add: assms)

text \<open>
  A claim that a pass keeps: each statement keeps it, and the one that marks plays settled keeps it
  where the settlement was confirmed.
\<close>

lemma settle_on_chain_keeps:
  assumes "\<And>w. I w \<Longrightarrow> I (w\<lparr>sw_confirmed := sw_confirmed w @ [i]\<rparr>)"
    and "\<And>err. keeps live I (mark i 3 2 (Some err) now)"
    and "keeps live (\<lambda>w. I w \<and> i \<in> set (sw_confirmed w)) (mark i 3 1 None now)"
  shows "keeps live I (settle_on_chain N now i)"
proof -
  have confirm: "task_ok live I (await_settlement N i tx) I (\<lambda>_ w. I w \<and> i \<in> set (sw_confirmed w))" for tx
    unfolding await_settlement_def by (rule task_ok_await) (auto split: sum.splits intro: assms(1))
  have last: "task_ok live (\<lambda>w. I w \<and> i \<in> set (sw_confirmed w)) (mark i 3 1 None now) I (\<lambda>_. I)"
    by (rule task_ok_weaken [OF assms(3)]) auto
  show ?thesis
    unfolding settle_on_chain_def
    by (intro task_ok_bind [where R = "\<lambda>_. I"] task_ok_ask task_ok_if assms(2) task_ok_bind [OF confirm last]) auto
qed

lemma settle_paycard_keeps:
  assumes "keeps live I (mark i 0 2 (Some ''invalid paycardId'') now)" and "keeps live I (lock_plays env now i)"
    and "keeps live I (settle_on_chain N now i)"
  shows "keeps live I (settle_paycard env N now i)"
proof -
  have "keeps live I (catch_task (settle_on_chain N now i) (\<lambda>e. throw (not_defined ''safeRpcError'')))"
    by (rule task_ok_catch [OF assms(3)]) (rule task_ok_throw)
  then show ?thesis
    unfolding settle_paycard_def
    by (intro task_ok_if task_ok_bind [where R = "\<lambda>_. I"] assms(1,2) task_ok_give)
qed

lemma reconcile_keeps:
  assumes "\<And>w i. I w \<Longrightarrow> i \<in> set (select_pending env (sw_plays w)) \<Longrightarrow> D i"
    and "\<And>i. D i \<Longrightarrow> keeps live I (settle_paycard env N now i)"
  shows "keeps live I (reconcileFromD1 env N now)"
proof -
  have loop: "task_ok live (\<lambda>w. I w \<and> (\<forall>i \<in> set ids. D i)) (for_each (settle_paycard env N now) ids) I (\<lambda>_. I)" for ids
  proof (cases "\<forall>i \<in> set ids. D i")
    case True
    from task_ok_for_each [of ids live I "settle_paycard env N now"] True assms(2) show ?thesis
      by (auto elim: task_ok_weaken)
  qed (auto simp: task_ok_def)
  show ?thesis
    unfolding reconcileFromD1_def
    by (intro task_ok_if task_ok_give task_ok_throw loop task_ok_bind [where R = "\<lambda>ids w. I w \<and> (\<forall>i \<in> set ids. D i)"]
        task_ok_read) (use assms(1) in auto)
qed


section \<open>The system\<close>

text \<open>Scrobbles and passes, one after the other; \<open>live\<close> says that no pass is cut.\<close>

inductive play_step :: "settler \<Rightarrow> settler \<Rightarrow> bool" where
  scrobbled: "play_step w (w\<lparr>sw_plays := snd (handleScrobble secret headers kv timestamp body (sw_plays w))\<rparr>)"
| settled: "play_step w (state_after (reconcileFromD1 env N now) (k, w))"

definition play_same :: "play \<Rightarrow> play \<Rightarrow> bool" where
  "play_same p q \<longleftrightarrow> pl_sourceEventId q = pl_sourceEventId p \<and> pl_paycardId q = pl_paycardId p \<and>
     pl_artistMbid q = pl_artistMbid p \<and> pl_artistWallet q = pl_artistWallet p \<and> pl_timestamp q = pl_timestamp p"

text \<open>How a play may change: it stays the same play, and once settled or skipped it does not change at all.\<close>

definition play_moves :: "play \<Rightarrow> play \<Rightarrow> bool" where
  "play_moves p q \<longleftrightarrow> play_same p q \<and> (pl_settled p \<in> {1, 2} \<longrightarrow> q = p) \<and> pl_attempts p \<le> pl_attempts q"

definition plays_move :: "play list \<Rightarrow> play list \<Rightarrow> bool" where
  "plays_move ps qs \<longleftrightarrow> length ps \<le> length qs \<and> (\<forall>i < length ps. play_moves (ps ! i) (qs ! i))"

lemma play_moves_refl [simp]: "play_moves p p"
  by (simp add: play_moves_def play_same_def)

lemma play_moves_trans: "play_moves p q \<Longrightarrow> play_moves q r \<Longrightarrow> play_moves p r"
  by (auto simp: play_moves_def play_same_def)

lemma plays_move_refl [simp]: "plays_move ps ps"
  by (simp add: plays_move_def)

lemma plays_move_trans: "plays_move ps qs \<Longrightarrow> plays_move qs rs \<Longrightarrow> plays_move ps rs"
  by (auto simp: plays_move_def intro: play_moves_trans less_le_trans)

lemma plays_move_map:
  assumes "\<And>p. P p \<Longrightarrow> play_moves p (f p)"
  shows "plays_move ps (map (\<lambda>p. if P p then f p else p) ps)"
  using assms by (simp add: plays_move_def)

lemma insert_play_moves: "plays_move ps (insert_play p ps)"
  by (simp add: insert_play_def plays_move_def nth_append)

lemma log_play_cases: "snd (log_play kv t payload ps) = ps \<or>
  (\<exists>e i m w. snd (log_play kv t payload ps) = insert_play (new_play e i m w t) ps)"
  by (auto simp: log_play_def Let_def split: sum.split option.split)

lemma handleScrobble_cases: "snd (handleScrobble secret headers kv t body ps) = ps \<or>
  (\<exists>e i m w. snd (handleScrobble secret headers kv t body ps) = insert_play (new_play e i m w t) ps)"
proof (cases body)
  case (Some b)
  obtain r ps' where log: "log_play kv t (Some b) ps = (r, ps')" by (cases "log_play kv t (Some b) ps")
  with log_play_cases [of kv t "Some b" ps] Some show ?thesis
    by (cases r) (auto simp: handleScrobble_def)
qed (auto simp: handleScrobble_def)

text \<open>A settled play rests on a settlement of its paycard that was confirmed.\<close>

definition plays_ok :: "settler \<Rightarrow> bool" where
  "plays_ok w \<longleftrightarrow> (\<forall>p \<in> set (sw_plays w). pl_settled p \<in> {0, 1, 2, 3} \<and> (pl_settled p = 1 \<longrightarrow> pl_paycardId p \<in> set (sw_confirmed w)))"

definition kept :: "settler \<Rightarrow> settler \<Rightarrow> bool" where
  "kept w0 w \<longleftrightarrow> plays_ok w \<and> plays_move (sw_plays w0) (sw_plays w)"

lemma kept_marked:
  assumes "kept w0 w" and "\<And>p. P p \<Longrightarrow> pl_settled p \<notin> {1, 2} \<and> play_same p (f p) \<and> pl_attempts p \<le> pl_attempts (f p) \<and>
    pl_settled (f p) \<in> {0, 1, 2, 3} \<and> (pl_settled (f p) = 1 \<longrightarrow> pl_paycardId p \<in> set (sw_confirmed w))"
  shows "kept w0 (marked P f w)"
proof -
  have "plays_move (sw_plays w) (map (\<lambda>p. if P p then f p else p) (sw_plays w))"
    using assms(2) by (intro plays_move_map) (auto simp: play_moves_def)
  with assms(1) have "plays_move (sw_plays w0) (sw_plays (marked P f w))" by (auto simp: kept_def intro: plays_move_trans)
  moreover have "plays_ok (marked P f w)"
    using assms by (auto simp: kept_def plays_ok_def play_same_def)
  ultimately show ?thesis by (simp add: kept_def)
qed

lemma pass_kept: "keeps live (kept w0) (reconcileFromD1 env N now)"
proof (rule reconcile_keeps [where D = "\<lambda>_. True"])
  fix i
  have mark: "keeps live (kept w0) (mark i old new err now)" if "old \<in> {0, 3}" "new \<in> {0, 2, 3}" for old new err
    by (rule mark_ok, rule kept_marked) (use that in \<open>auto simp: play_same_def\<close>)
  have lock: "keeps live (kept w0) (lock_plays env now i)"
    by (rule lock_ok, rule kept_marked) (auto simp: play_same_def pending_def)
  have settle: "keeps live (\<lambda>w. kept w0 w \<and> i \<in> set (sw_confirmed w)) (mark i 3 1 None now)"
  proof (rule mark_ok)
    fix w assume "kept w0 w \<and> i \<in> set (sw_confirmed w)"
    then show "kept w0 (marked (\<lambda>p. pl_paycardId p = i \<and> pl_settled p = 3)
        (\<lambda>p. p\<lparr>pl_settled := 1, pl_lastError := None, pl_updatedAt := now\<rparr>) w) \<and>
      i \<in> set (sw_confirmed (marked (\<lambda>p. pl_paycardId p = i \<and> pl_settled p = 3)
        (\<lambda>p. p\<lparr>pl_settled := 1, pl_lastError := None, pl_updatedAt := now\<rparr>) w))"
      by (intro conjI kept_marked) (auto simp: play_same_def)
  qed
  show "keeps live (kept w0) (settle_paycard env N now i)"
    by (rule settle_paycard_keeps [OF mark lock settle_on_chain_keeps [OF _ mark settle]])
      (auto simp: kept_def plays_ok_def)
qed simp

lemma step_kept:
  assumes "play_step w w'" and "plays_ok w"
  shows "plays_ok w' \<and> plays_move (sw_plays w) (sw_plays w')"
  using assms(1)
proof cases
  case (scrobbled secret headers kv timestamp body)
  let ?ps = "snd (handleScrobble secret headers kv timestamp body (sw_plays w))"
  have "plays_move (sw_plays w) ?ps \<and> (\<forall>p \<in> set ?ps. p \<in> set (sw_plays w) \<or> pl_settled p = 0)"
    using handleScrobble_cases [of secret headers kv timestamp body "sw_plays w"]
  proof
    assume "\<exists>e i m w'. ?ps = insert_play (new_play e i m w' timestamp) (sw_plays w)"
    then obtain e i m w' where "?ps = insert_play (new_play e i m w' timestamp) (sw_plays w)" by blast
    moreover have "p \<in> set (sw_plays w) \<or> pl_settled p = 0"
      if "p \<in> set (insert_play (new_play e i m w' timestamp) (sw_plays w))" for p
      using that by (auto simp: insert_play_def new_play_def split: if_splits)
    ultimately show ?thesis using insert_play_moves by simp
  qed simp
  with scrobbled assms(2) show ?thesis by (fastforce simp: plays_ok_def)
next
  case (settled env N now k)
  have "kept w (state_after (reconcileFromD1 env N now) (k, w))"
    by (rule task_ok_state [where live = False, OF pass_kept]) (use assms(2) in \<open>simp_all add: kept_def\<close>)
  with settled show ?thesis by (simp add: kept_def)
qed

lemma steps_kept:
  assumes "play_step\<^sup>*\<^sup>* w w'" and "plays_ok w"
  shows "plays_ok w' \<and> plays_move (sw_plays w) (sw_plays w')"
  using assms by induction (auto dest: step_kept intro: plays_move_trans)


section \<open>A failing settlement\<close>

definition plays_of :: "string \<Rightarrow> settler \<Rightarrow> play list" where
  "plays_of i w = filter (\<lambda>p. pl_paycardId p = i) (sw_plays w)"

text \<open>No play of the paycard is pending, and these are its plays.\<close>

definition rests :: "string \<Rightarrow> play list \<Rightarrow> settler \<Rightarrow> bool" where
  "rests i ps w \<longleftrightarrow> plays_of i w = ps \<and> (\<forall>p \<in> set ps. pl_settled p \<noteq> 0)"

lemma filter_map_other:
  assumes "\<And>p. P p \<Longrightarrow> \<not> Q p \<and> \<not> Q (f p)"
  shows "filter Q (map (\<lambda>p. if P p then f p else p) ps) = filter Q ps"
  using assms by (induction ps) auto

lemma rests_marked:
  assumes "rests i ps w" and "\<And>p. P p \<Longrightarrow> pl_paycardId p \<noteq> i \<and> pl_paycardId (f p) \<noteq> i"
  shows "rests i ps (marked P f w)"
  using assms filter_map_other [of P "\<lambda>p. pl_paycardId p = i" f "sw_plays w"] by (simp add: rests_def plays_of_def)

lemma select_pending_sub: "set (select_pending env ps) \<subseteq> pl_paycardId ` set (filter (pending (maxAttempts env)) ps)"
proof -
  have "set (fold set_add xs ys) = set xs \<union> set ys" for xs ys :: "string list"
    by (induction xs arbitrary: ys) (auto simp: set_add_def)
  then show ?thesis unfolding select_pending_def using set_take_subset by fastforce
qed

lemma pass_rests: "keeps live (rests i ps) (reconcileFromD1 env N now)"
proof (rule reconcile_keeps [where D = "\<lambda>j. j \<noteq> i"])
  fix w j assume "rests i ps w" and "j \<in> set (select_pending env (sw_plays w))"
  with select_pending_sub [of env "sw_plays w"] show "j \<noteq> i"
    by (auto simp: rests_def plays_of_def pending_def)
next
  fix j assume j: "j \<noteq> i"
  have mark: "keeps live (rests i ps) (mark j old new err now)" for old new err
    by (rule mark_ok, rule rests_marked) (use j in auto)
  have lock: "keeps live (rests i ps) (lock_plays env now j)"
    by (rule lock_ok, rule rests_marked) (use j in auto)
  have settle: "keeps live (\<lambda>w. rests i ps w \<and> j \<in> set (sw_confirmed w)) (mark j 3 1 None now)"
    by (rule mark_ok, intro conjI rests_marked) (use j in auto)
  show "keeps live (rests i ps) (settle_paycard env N now j)"
    by (rule settle_paycard_keeps [OF mark lock settle_on_chain_keeps [OF _ mark settle]])
      (auto simp: rests_def plays_of_def)
qed

text \<open>Only passes from here on.\<close>

inductive passes :: "settler \<Rightarrow> settler \<Rightarrow> bool" where
  no_pass: "passes w w"
| one_pass: "passes w w' \<Longrightarrow> passes w (state_after (reconcileFromD1 env N now) (k, w'))"

lemma passes_rest: "passes w w' \<Longrightarrow> rests i ps w \<Longrightarrow> rests i ps w'"
  by (induction rule: passes.induct) (auto intro: task_ok_state [where live = False, OF pass_rests])

text \<open>The chain does not settle the paycard: one of the three answers is an error.\<close>

definition fails_on_chain :: "settle_node \<Rightarrow> string \<Rightarrow> bool" where
  "fails_on_chain N i \<longleftrightarrow>
     (case sn_registry N i of
        Inl e \<Rightarrow> True
      | Inr row \<Rightarrow> row_operationalStatus row = 0 \<and>
          (case sn_submit N i of Inl e \<Rightarrow> True | Inr tx \<Rightarrow> \<exists>e. sn_wait N tx = Inl e))"

definition locked :: "settle_env \<Rightarrow> int \<Rightarrow> string \<Rightarrow> settler \<Rightarrow> settler" where
  "locked env now i = marked (\<lambda>p. pl_paycardId p = i \<and> pending (maxAttempts env) p)
     (\<lambda>p. p\<lparr>pl_settled := 3, pl_attempts := pl_attempts p + 1, pl_updatedAt := now\<rparr>)"

lemma settle_on_chain_fails:
  assumes "fails_on_chain N i"
  shows "\<exists>e. settle_on_chain N now i (None, w) = (Inl (Threw e), None, w)"
  using assms
  by (auto simp: fails_on_chain_def settle_on_chain_def await_settlement_def bind_task_def ask_def await_def
      split: sum.splits)

lemma failing_pass:
  assumes "select_pending env (sw_plays w) = i # ids" and "isBytes32Hex i" and "fails_on_chain N i"
    and "se_hasDb env" and "se_rpcUrls env \<noteq> []"
  shows "reconcileFromD1 env N now (None, w) = (Inl (Threw (not_defined ''safeRpcError'')), None, locked env now i w)"
proof -
  obtain p where p: "p \<in> set (sw_plays w)" "pl_paycardId p = i" "pending (maxAttempts env) p"
    using select_pending_sub [of env "sw_plays w"] assms(1) by auto
  then have "length (filter (\<lambda>p. pl_paycardId p = i \<and> pending (maxAttempts env) p) (sw_plays w)) \<noteq> 0"
    by (auto simp: filter_empty_conv)
  then obtain n where "n \<noteq> 0" and lock: "lock_plays env now i (None, w) = (Inr n, None, locked env now i w)"
    by (simp add: lock_plays_def db_write_def await_def locked_def marked_def update_plays_def split: prod.split)
  moreover obtain e where "settle_on_chain N now i (None, locked env now i w) = (Inl (Threw e), None, locked env now i w)"
    using settle_on_chain_fails [OF assms(3)] by blast
  ultimately have "settle_paycard env N now i (None, w) = (Inl (Threw (not_defined ''safeRpcError'')), None, locked env now i w)"
    using assms(2) by (simp add: settle_paycard_def bind_task_def catch_task_def throw_def)
  then show ?thesis
    using assms(1,4,5) by (simp add: reconcileFromD1_def bind_task_def db_read_def await_def)
qed

lemma locked_rests:
  assumes "\<forall>p \<in> set (plays_of i w). pl_settled p = 0 \<longrightarrow> pl_attempts p < maxAttempts env"
  shows "rests i (plays_of i (locked env now i w)) (locked env now i w)"
  unfolding rests_def
proof (intro conjI refl ballI)
  let ?lock = "\<lambda>q. q\<lparr>pl_settled := 3, pl_attempts := pl_attempts q + 1, pl_updatedAt := now\<rparr>"
  fix p assume "p \<in> set (plays_of i (locked env now i w))"
  then have "p \<in> (\<lambda>q. if pl_paycardId q = i \<and> pending (maxAttempts env) q then ?lock q else q) ` set (sw_plays w)"
    and i: "pl_paycardId p = i"
    by (simp_all only: plays_of_def locked_def marked_simps set_filter set_map mem_Collect_eq)
  then obtain q where q: "q \<in> set (sw_plays w)"
      "p = (if pl_paycardId q = i \<and> pending (maxAttempts env) q then ?lock q else q)" by blast
  show "pl_settled p \<noteq> 0"
  proof (cases "pl_paycardId q = i \<and> pending (maxAttempts env) q")
    case True
    have "p = ?lock q" using q(2) unfolding if_P [OF True] .
    then show ?thesis by simp
  next
    case False
    have "p = q" using q(2) unfolding if_not_P [OF False] .
    with q(1) i have "q \<in> set (plays_of i w)" "pl_paycardId q = i" by (simp_all add: plays_of_def)
    with assms False \<open>p = q\<close> show ?thesis by (auto simp: pending_def)
  qed
qed


section \<open>The settler of streams\<close>

definition due :: "settle_node \<Rightarrow> int \<Rightarrow> int \<Rightarrow> string \<Rightarrow> bool" where
  "due N now m i \<longleftrightarrow> (case sn_registry N i of Inl e \<Rightarrow> False | Inr row \<Rightarrow> settle_due now m row)"

lemma settle_each_sent:
  "(\<exists>rest. take left (filter (due N now m) ids) = snd (settle_each N now m left ids) @ rest) \<and>
   (fst (settle_each N now m left ids) = Inr () \<longrightarrow>
      snd (settle_each N now m left ids) = take left (filter (due N now m) ids))"
proof (induction ids arbitrary: left)
  case (Cons i ids)
  show ?case
  proof (cases "sn_registry N i")
    case (Inr row)
    show ?thesis
    proof (cases "settle_due now m row")
      case True
      with Inr have i: "due N now m i" by (simp add: due_def)
      show ?thesis
      proof (cases left)
        case (Suc n)
        with Cons.IH [of n] Inr True i show ?thesis by (auto split: sum.split prod.split)
      qed simp
    qed (use Inr Cons.IH [of left] in \<open>simp add: due_def\<close>)
  qed simp
qed simp

lemma distinct_fold_add: "distinct ys \<Longrightarrow> distinct (fold set_add xs ys) \<and> set (fold set_add xs ys) = set xs \<union> set ys"
  by (induction xs arbitrary: ys) (auto simp: set_add_def)

end
