(* ===== verification/Worker_Demo.thy ===== *)
theory Worker_Demo
  imports Indexer_Facts Settlement_Facts
begin

text \<open>
  Concrete runs of the workers: a hub, a vault deployed at block 80 and a paycard it provisions at
  block 90, which the indexer records, or loses when its pass is cut; and a table of two plays whose
  settlement fails.
\<close>


section \<open>The indexer\<close>

definition ex_hub :: string where
  "ex_hub = ''0x'' @ replicate 40 (CHR ''1'')"

definition ex_vault :: string where
  "ex_vault = ''0x'' @ replicate 40 (CHR ''2'')"

definition ex_card :: string where
  "ex_card = ''0x'' @ replicate 64 (CHR ''3'')"

definition ex_env :: idx_env where
  "ex_env = \<lparr>ev_canteenRpcUrl = None, ev_rpcUrl = Some ''https://rpc'', ev_rpcFallbackUrl = None,
     ev_hubAddress = ex_hub, ev_factoryAddress = ''0xf'', ev_scanWindowBlocks = None,
     ev_maxChunksPerTick = None, ev_initialBackfillBlocks = None\<rparr>"

definition ex_event :: hub_event where
  "ex_event = Paycard_provisioned ex_card ''0xaa'' ''0xbb'' ''0xcc'' 500 2 1700 60"

definition ex_log :: "hub_event evm_log" where
  "ex_log = \<lparr>el_block = 90, el_index = 1, el_tx = ''0xdd'', el_parsed = Some ex_event\<rparr>"

definition ex_deployed :: "vault_deployed evm_log" where
  "ex_deployed = \<lparr>el_block = 80, el_index = 0, el_tx = ''0xee'',
     el_parsed = Some \<lparr>vd_vaultAddress = ex_vault, vd_owner = ''0xaa'', vd_token = ''0xff''\<rparr>\<rparr>"

definition ex_chain :: hub_logs where
  "ex_chain v = (if v = ex_vault then {ex_log} else {})"

definition ex_node :: idx_node where
  "ex_node = \<lparr>nd_blockNumber = Inr 100,
     nd_factoryLogs = (\<lambda>f t. Inr (if f \<le> 80 \<and> 80 \<le> t then [ex_deployed] else [])),
     nd_hubLogs = (\<lambda>v f t. Inr (if v = ex_vault \<and> f \<le> 90 \<and> 90 \<le> t then [ex_log] else [])),
     nd_block = (\<lambda>b. Inr (Some 1690))\<rparr>"

lemma ex_unique: "keys_unique ex_chain"
  by (simp add: keys_unique_def ex_chain_def)

lemma ex_addresses: "isEvmAddress ex_hub" "isEvmAddress ex_vault"
  by code_simp+

lemma ex_serves: "serves_logs ex_chain 100 ex_node"
  by (auto simp: serves_logs_def ex_node_def ex_chain_def ex_log_def ex_deployed_def ex_addresses split: if_splits)

definition ex_index :: idx_db where
  "ex_index = after_tick ex_env ex_node 1700000 None empty_index"

text \<open>The same pass, cut before the row of state is written.\<close>

definition ex_cut :: idx_db where
  "ex_cut = after_tick ex_env ex_node 1700000 (Some 14) empty_index"

lemma ex_run: "idx_run ex_env ex_chain live 100 ex_index"
  unfolding ex_index_def by (rule idx_run.passed [OF idx_run.created _ ex_serves]) simp_all

lemma ex_cut_run: "idx_run ex_env ex_chain False 100 ex_cut"
  unfolding ex_cut_def by (rule idx_run.passed [OF idx_run.created _ ex_serves]) simp_all

lemma ex_settings:
  "rpcUrlsFromEnv (ev_canteenRpcUrl ex_env) (ev_rpcUrl ex_env) (ev_rpcFallbackUrl ex_env) = [''https://rpc'']"
  "windowBlocks ex_env = 9000" "nat (maxChunks ex_env) = 20" "initialBackfill ex_env = 50000"
  "toLowerCase (ev_hubAddress ex_env) = ex_hub" "factory_key ex_env = ''factory:0xf''"
  by code_simp+

lemma ex_texts:
  "toLowerCase ex_vault = ex_vault" "toLowerCase ex_card = ex_card" "ex_vault \<noteq> ex_hub" "ex_hub \<noteq> ex_vault"
  "''factory:0xf'' \<noteq> ex_hub" "''factory:0xf'' \<noteq> ex_vault"
  "ex_hub \<noteq> ''factory:0xf''" "ex_vault \<noteq> ''factory:0xf''" "toLowerCase ''0xaa'' = ''0xaa''"
  "toLowerCase ''0xff'' = ''0xff''" "toLowerCase ''0xdd'' = ''0xdd''"
  by code_simp+

lemma ex_answers:
  "nd_blockNumber ex_node = Inr 100" "nd_block ex_node b = Inr (Some 1690)"
  "nd_factoryLogs ex_node f t = Inr (if f \<le> 80 \<and> 80 \<le> t then [ex_deployed] else [])"
  "nd_hubLogs ex_node v f t = Inr (if v = ex_vault \<and> f \<le> 90 \<and> 90 \<le> t then [ex_log] else [])"
  by (simp_all add: ex_node_def)

lemma scan_numeral:
  "scan_factory env P now head (numeral k) f =
     (if head < f then give (numeral k)
      else let t = min (f + windowBlocks env - 1) head in
        bind_task (ask (nd_factoryLogs P f t)) (\<lambda>logs. bind_task (for_each (discover now) logs) (\<lambda>_.
        bind_task (run_sql (setCursor (factory_key env) t)) (\<lambda>_. scan_factory env P now head (pred_numeral k) (t + 1)))))"
  "scan_vault env P now head v (numeral k) f =
     (if head < f then give (numeral k)
      else let t = min (f + windowBlocks env - 1) head in
        bind_task (ask (nd_hubLogs P v f t)) (\<lambda>logs. bind_task (for_each (ingest P v now) (sort_key log_order logs)) (\<lambda>_.
        bind_task (run_sql (setCursor v t)) (\<lambda>_. scan_vault env P now head v (pred_numeral k) (t + 1)))))"
  by (simp_all add: numeral_eq_Suc)

lemmas task_run = bind_task_def ask_def db_write_def db_read_def await_def run_sql_def select_sql_def on_db_def
  give_def throw_def peek_def local_def

lemmas tick_run = runTick_def task_run getCursor_def setCursor_def insert_vault_def canonical_row_def start_tick_def
  empty_index_def scan_numeral discover_def vault_row_def default_start_def ex_settings ex_texts ex_answers
  map_put_def map_get_def after_tick_def state_after_def ex_deployed_def ex_log_def ex_event_def ingest_def blockTimestamp_def insert_event_def
  project_event_def upsert_state_def

definition ex_vaults :: "watched_vault list" where
  "ex_vaults = [canonical_row ex_env 1700000, vault_row 1700000 ex_deployed (the (el_parsed ex_deployed))]"

lemmas ex_rows = ex_vaults_def canonical_row_def vault_row_def ex_deployed_def ex_texts ex_settings

lemma ex_index_is:
  "ex_index = \<lparr>db_vaults = ex_vaults, db_cursors = [(''factory:0xf'', 100), (ex_hub, 100), (ex_vault, 100)],
     db_events = [recorded ex_vault 1700000 1690 ex_log ex_event],
     db_states = [((ex_vault, ex_card), provisioned_row 1700000 ex_event)]\<rparr>"
  unfolding ex_index_def by (simp add: tick_run ex_vaults_def)

lemma answers_numeral: "answers_left (Some (numeral k)) = Some (Some (pred_numeral k))"
  by (simp add: numeral_eq_Suc)

lemma ex_cut_is:
  "ex_cut = \<lparr>db_vaults = ex_vaults, db_cursors = [(''factory:0xf'', 100), (ex_hub, 100)],
     db_events = [recorded ex_vault 1700000 1690 ex_log ex_event], db_states = []\<rparr>"
  unfolding ex_cut_def by (simp add: tick_run answers_numeral ex_vaults_def)

text \<open>The same pass with two chunks: the factory takes one, the hub the other.\<close>

definition ex_tight :: idx_env where
  "ex_tight = ex_env\<lparr>ev_maxChunksPerTick := Some ''2''\<rparr>"

definition ex_starved :: idx_db where
  "ex_starved = after_tick ex_tight ex_node 1700000 None empty_index"

lemma ex_starved_run: "idx_run ex_tight ex_chain live 100 ex_starved"
  unfolding ex_starved_def by (rule idx_run.passed [OF idx_run.created _ ex_serves]) simp_all

lemma ex_tight_settings:
  "rpcUrlsFromEnv (ev_canteenRpcUrl ex_tight) (ev_rpcUrl ex_tight) (ev_rpcFallbackUrl ex_tight) = [''https://rpc'']"
  "windowBlocks ex_tight = 9000" "nat (maxChunks ex_tight) = 2" "initialBackfill ex_tight = 50000"
  "toLowerCase (ev_hubAddress ex_tight) = ex_hub" "factory_key ex_tight = ''factory:0xf''" "isEvmAddress (ev_hubAddress ex_tight)"
  by code_simp+

lemma ex_starved_is:
  "ex_starved = \<lparr>db_vaults = ex_vaults, db_cursors = [(''factory:0xf'', 100), (ex_hub, 100)], db_events = [], db_states = []\<rparr>"
  unfolding ex_starved_def by (simp add: tick_run ex_tight_settings ex_vaults_def)

text \<open>A pass at block 85, before the event, and the pass at block 100 after it.\<close>

definition ex_early_node :: idx_node where
  "ex_early_node = ex_node\<lparr>nd_blockNumber := Inr 85\<rparr>"

lemma ex_early_serves: "serves_logs ex_chain 85 ex_early_node"
  using ex_serves by (auto simp: serves_logs_def ex_early_node_def ex_answers ex_chain_def ex_log_def split: if_splits)

lemma ex_early_answers:
  "nd_blockNumber ex_early_node = Inr 85"
  "nd_factoryLogs ex_early_node f t = Inr (if f \<le> 80 \<and> 80 \<le> t then [ex_deployed] else [])"
  "nd_hubLogs ex_early_node v f t = Inr (if v = ex_vault \<and> f \<le> 90 \<and> 90 \<le> t then [ex_log] else [])"
  by (simp_all add: ex_early_node_def ex_answers)

definition ex_early :: idx_db where
  "ex_early = after_tick ex_env ex_early_node 1600000 None empty_index"

lemma ex_early_run: "idx_run ex_env ex_chain live 85 ex_early"
  unfolding ex_early_def by (rule idx_run.passed [OF idx_run.created _ ex_early_serves]) simp_all

lemma ex_early_is:
  "ex_early = \<lparr>db_vaults = [canonical_row ex_env 1600000, vault_row 1600000 ex_deployed (the (el_parsed ex_deployed))],
     db_cursors = [(''factory:0xf'', 85), (ex_hub, 85), (ex_vault, 85)], db_events = [], db_states = []\<rparr>"
  unfolding ex_early_def by (simp add: tick_run ex_early_answers)

definition ex_late :: idx_db where
  "ex_late = after_tick ex_env ex_node 1700000 None ex_early"

lemma ex_late_is:
  "db_cursors ex_late = [(''factory:0xf'', 100), (ex_hub, 100), (ex_vault, 100)]"
  unfolding ex_late_def ex_early_is by (simp add: tick_run)


section \<open>The settler\<close>

definition ex_play :: "string \<Rightarrow> int \<Rightarrow> play" where
  "ex_play paycardId settled = (new_play (Some (''s'' @ paycardId)) paycardId ''mbid'' ex_hub 1000)\<lparr>pl_settled := settled\<rparr>"

definition ex_other :: string where
  "ex_other = ''0x'' @ replicate 64 (CHR ''4'')"

definition ex_plays :: settler where
  "ex_plays = \<lparr>sw_plays = [ex_play ex_card 0, ex_play ex_other 0], sw_confirmed = []\<rparr>"

definition ex_settings_d1 :: settle_env where
  "ex_settings_d1 = \<lparr>se_signerKey = Some ''key'', se_rpcUrls = [''https://rpc''], se_hasDb = True,
     se_batchLimit = None, se_maxAttempts = None, se_mode = Some ''d1''\<rparr>"

text \<open>A node with one paycard, whose settlement is refused, or succeeds.\<close>

definition ex_row :: paycard_row where
  "ex_row = \<lparr>row_payer = ex_hub, row_recipient = ex_vault, row_metadataHash = [], row_totalAllocationPool = 500,
     row_availableBalance = 500, row_flowVelocityPerSecond = 2, row_genesisTimestamp = 0, row_lifespanSeconds = 60,
     row_lastCheckpointEpoch = 0, row_residualDeltaRecipient = ex_hub, row_operationalStatus = 0\<rparr>"

definition ex_refusing :: settle_node where
  "ex_refusing = \<lparr>sn_registry = (\<lambda>_. Inr ex_row), sn_submit = (\<lambda>_. Inl ''reverted''), sn_wait = (\<lambda>_. Inr ())\<rparr>"

definition ex_settling :: settle_node where
  "ex_settling = \<lparr>sn_registry = (\<lambda>_. Inr ex_row), sn_submit = (\<lambda>i. Inr i), sn_wait = (\<lambda>_. Inr ())\<rparr>"

lemma ex_ids: "isBytes32Hex ex_card" "isBytes32Hex ex_other" "ex_other \<noteq> ex_card" "ex_card \<noteq> ex_other"
  by code_simp+

lemma ex_limits: "maxAttempts ex_settings_d1 = 5" "batchLimit_d1 ex_settings_d1 = 10" "se_hasDb ex_settings_d1"
  "se_rpcUrls ex_settings_d1 \<noteq> []"
  by code_simp+

lemma ex_pending: "select_pending ex_settings_d1 (sw_plays ex_plays) = [ex_card, ex_other]"
  by (simp add: select_pending_def ex_limits ex_plays_def ex_play_def new_play_def pending_def set_add_def ex_ids)

lemma ex_refused: "fails_on_chain ex_refusing i"
  by (simp add: fails_on_chain_def ex_refusing_def ex_row_def)

definition ex_settled :: settler where
  "ex_settled = state_after (reconcileFromD1 ex_settings_d1 ex_settling 2000) (None, ex_plays)"

lemma ex_settled_is:
  "ex_settled = \<lparr>sw_plays = map (\<lambda>i. (ex_play i 1)\<lparr>pl_attempts := 1, pl_updatedAt := 2000\<rparr>) [ex_card, ex_other],
     sw_confirmed = [ex_card, ex_other]\<rparr>"
  unfolding ex_settled_def state_after_def reconcileFromD1_def
  by (simp add: task_run ex_pending ex_limits)
   (simp add: ex_plays_def settle_paycard_def task_run catch_task_def ex_ids lock_plays_def mark_def update_plays_def
      settle_on_chain_def await_settlement_def ex_settling_def ex_row_def ex_play_def new_play_def pending_def ex_limits)

lemma ex_chain_limit: "nat (batchLimit_chain ex_settings_d1) = Suc (Suc 23)"
  by code_simp

lemma ex_streams:
  "nat (batchLimit_chain ex_settings_d1) = 25" "se_rpcUrls ex_settings_d1 \<noteq> []"
  "set_add ex_other (set_add ex_card []) = [ex_card, ex_other]"
  "settle_each ex_settling 2000 1 25 [ex_card, ex_other] = (Inr (), [ex_card, ex_other])"
  by (simp_all add: ex_chain_limit ex_limits set_add_def ex_ids ex_settling_def ex_row_def settle_due_def accrued_since_def)

lemma ex_due: "due ex_settling 2000 1 i"
  by (simp add: due_def ex_settling_def ex_row_def settle_due_def accrued_since_def)

text \<open>A play that was scrobbled and settled.\<close>

definition ex_scrobble :: "play list \<Rightarrow> play list" where
  "ex_scrobble ps = snd (handleScrobble (Some ''secret'') (\<lambda>h. if h = ''X-OpenRails-Webhook-Secret'' then Some ''secret'' else None)
     (\<lambda>_. Inr (Some ex_hub)) 1000
     (Some (JObj [(''event'', JStr ''e1''), (''paycardId'', JStr ex_card),
        (''track'', JObj [(''mbid'', JStr ''m''), (''artist'', JStr ''a'')])])) ps)"

lemma ex_scrobble_is: "ex_scrobble [] = [new_play (Some ''e1'') ex_card ''m'' ex_hub 1000]"
  by code_simp

definition ex_scrobbled_settled :: settler where
  "ex_scrobbled_settled = state_after (reconcileFromD1 ex_settings_d1 ex_settling 2000)
     (None, \<lparr>sw_plays = ex_scrobble [], sw_confirmed = []\<rparr>)"

lemma ex_scrobbled_run: "play_step\<^sup>*\<^sup>* \<lparr>sw_plays = [], sw_confirmed = []\<rparr> ex_scrobbled_settled"
proof -
  have "play_step \<lparr>sw_plays = [], sw_confirmed = []\<rparr> \<lparr>sw_plays = ex_scrobble [], sw_confirmed = []\<rparr>"
    using scrobbled [of "\<lparr>sw_plays = [], sw_confirmed = []\<rparr>"] unfolding ex_scrobble_def by simp
  with settled show ?thesis unfolding ex_scrobbled_settled_def by (blast intro: rtranclp.rtrancl_into_rtrancl)
qed

lemma ex_scrobbled_is: "sw_plays ex_scrobbled_settled =
  [(new_play (Some ''e1'') ex_card ''m'' ex_hub 1000)\<lparr>pl_settled := 1, pl_attempts := 1, pl_updatedAt := 2000\<rparr>]"
  unfolding ex_scrobbled_settled_def state_after_def reconcileFromD1_def
  by (simp add: task_run select_pending_def ex_limits ex_scrobble_is new_play_def pending_def set_add_def
      settle_paycard_def catch_task_def ex_ids lock_plays_def mark_def update_plays_def
      settle_on_chain_def await_settlement_def ex_settling_def ex_row_def)

end
