(* ===== verification/Worker_Properties.thy ===== *)
theory Worker_Properties
  imports Worker_Demo
begin

text \<open>
  The properties of the workers, each with a run at which it applies.
\<close>


section \<open>The indexer\<close>

lemma ex_hub_ok: "isEvmAddress (ev_hubAddress ex_env)"
  by (simp add: ex_env_def ex_addresses)

text \<open>C27: Over any sequence of passes, each cut anywhere and over any answers of the node that agree
  with the chain, an event of a discovered vault, from the block of its discovery to the block of its
  cursor, is recorded exactly once and with the fields of its log.\<close>

theorem indexed_events_exact:
  assumes "idx_run env C live h db" and "isEvmAddress (ev_hubAddress env)" and "keys_unique C"
    and "r \<in> set (db_vaults db)" and "0 < wv_discoveredAtBlock r"
    and "map_get (db_cursors db) (wv_address r) = Some c"
    and "l \<in> C (wv_address r)" and "el_parsed l = Some ev"
    and "wv_discoveredAtBlock r \<le> el_block l" and "el_block l \<le> c"
  shows "\<exists>now ts. filter (\<lambda>e. er_key e = log_key l) (db_events db) = [recorded (wv_address r) now ts l ev]"
proof -
  from run_inv [OF assms(1,2)] have inv: "idx_inv env C {} db" .
  with assms(4,5) have "covers C (wv_address r) (wv_discoveredAtBlock r) db"
    by (auto simp: idx_inv_def starts_def)
  with assms(6,7,9,10) have "has_log l db" by (simp add: covers_def upto_def)
  with inv exactly_recorded [OF assms(3) _ assms(7,8)] show ?thesis by (simp add: idx_inv_def)
qed

lemma indexed_events_exact_witness:
  "\<exists>now ts. filter (\<lambda>e. er_key e = log_key ex_log) (db_events ex_index) = [recorded ex_vault now ts ex_log ex_event]"
proof -
  let ?r = "ex_vaults ! 1"
  have r: "?r \<in> set (db_vaults ex_index)" "0 < wv_discoveredAtBlock ?r" "wv_address ?r = ex_vault"
    "map_get (db_cursors ex_index) (wv_address ?r) = Some 100" "ex_log \<in> ex_chain (wv_address ?r)"
    "el_parsed ex_log = Some ex_event" "wv_discoveredAtBlock ?r \<le> el_block ex_log" "el_block ex_log \<le> 100"
    by (simp_all add: ex_index_is ex_rows map_get_def ex_chain_def ex_log_def)
  show ?thesis
    using indexed_events_exact [OF ex_run ex_hub_ok ex_unique r(1,2,4,5,6,7,8)] by (simp only: r(3))
qed

text \<open>C28: Between two cursors of a watched vault no event is missing, however the passes in between
  were cut: each event of the blocks in between is recorded exactly once.\<close>

theorem no_gap_between_cursors:
  assumes "idx_run env C live h db" and "idx_steps env C h db h' db'" and "isEvmAddress (ev_hubAddress env)"
    and "keys_unique C" and "isEvmAddress v"
    and "map_get (db_cursors db) v = Some c" and "map_get (db_cursors db') v = Some c'"
    and "l \<in> C v" and "el_parsed l = Some ev" and "c < el_block l" and "el_block l \<le> c'"
  shows "\<exists>now ts. filter (\<lambda>e. er_key e = log_key l) (db_events db') = [recorded v now ts l ev]"
proof -
  from run_inv [OF assms(1,3)] have inv: "idx_inv env C {} db" .
  have "v \<noteq> factory_key env" using assms(5) by (auto simp: factory_key_def isEvmAddress_def is_hex_text_def)
  with inv assms(6) have "v \<in> addresses db" by (auto simp: idx_inv_def vaults_ok_def)
  with inv assms(6) have "idx_inv env C {(v, c + 1)} db"
    by (auto simp: idx_inv_def vaults_ok_def starts_def covers_def upto_def)
  from steps_inv [OF assms(2,3) this] have inv': "idx_inv env C {(v, c + 1)} db'" .
  then have "covers C v (c + 1) db'" by (simp add: idx_inv_def starts_def)
  with assms(7,8,10,11) have "has_log l db'" by (simp add: covers_def upto_def)
  with inv' exactly_recorded [OF assms(4) _ assms(8,9)] show ?thesis by (simp add: idx_inv_def)
qed

lemma no_gap_between_cursors_witness:
  "\<exists>now ts. filter (\<lambda>e. er_key e = log_key ex_log) (db_events ex_late) = [recorded ex_vault now ts ex_log ex_event]"
proof (rule no_gap_between_cursors [OF ex_early_run _ ex_hub_ok ex_unique ex_addresses(2)])
  show "idx_steps ex_env ex_chain 85 ex_early 100 ex_late"
    unfolding ex_late_def by (rule idx_steps.steps [OF idx_steps.stays _ ex_serves]) simp
  show "map_get (db_cursors ex_early) ex_vault = Some 85" "map_get (db_cursors ex_late) ex_vault = Some 100"
    by (simp_all add: ex_early_is ex_late_is map_get_def ex_texts)
qed (simp_all add: ex_chain_def ex_log_def)

text \<open>C29: When no pass is cut, the table of states is at any time the replay of the table of events, so
  it is recomputed from what was recorded.\<close>

theorem states_replay_events:
  assumes "idx_run env C True h db"
  shows "db_states db = replay (db_events db)"
  using run_replays [OF assms] by (simp add: replayed_def)

lemma states_replay_events_witness:
  "db_states ex_index = [((ex_vault, ex_card), provisioned_row 1700000 ex_event)] \<and>
   db_states ex_index = replay (db_events ex_index)"
  using states_replay_events [OF ex_run] by (simp add: ex_index_is)

text \<open>C30: An event is recorded before its paycard's row of state is written.  When a pass is cut in
  between, the row is never written: every later pass ignores the event as already recorded, so the
  paycard stays unknown although its provisioning is in the table.\<close>

theorem cut_provisioning_is_lost:
  assumes "idx_steps env C h db h' db'" and "only_provisioning C v p key"
    and "key \<in> er_key ` set (db_events db)" and "map_of (db_states db) (v, p) = None"
  shows "map_of (db_states db') (v, p) = None"
  using steps_lost [OF assms(1,2)] assms(3,4) by (simp add: lost_def)

lemma cut_provisioning_is_lost_witness:
  "idx_run ex_env ex_chain False 100 ex_cut \<and>
   map_of (db_states (after_tick ex_env ex_node 1800000 None ex_cut)) (ex_vault, ex_card) = None"
proof
  have only: "only_provisioning ex_chain ex_vault ex_card (''0xdd'', 1)"
    by (simp add: only_provisioning_def ex_chain_def ex_log_def log_key_def ex_texts)
  have "idx_steps ex_env ex_chain 100 ex_cut 100 (after_tick ex_env ex_node 1800000 None ex_cut)"
    by (rule idx_steps.steps [OF idx_steps.stays _ ex_serves]) simp
  from cut_provisioning_is_lost [OF this only]
  show "map_of (db_states (after_tick ex_env ex_node 1800000 None ex_cut)) (ex_vault, ex_card) = None"
    by (simp add: ex_cut_is er_key_def recorded_def ex_log_def ex_texts)
qed (rule ex_cut_run)

text \<open>C31: Every pass rescans the block of each cursor and takes a chunk for it, and the factory takes one
  as well.  So with \<open>n\<close> chunks per pass no vault from the place \<open>n - 1\<close> on in the table is ever
  scanned: it has no cursor, and none of its events is recorded.\<close>

theorem later_vaults_never_scanned:
  assumes "idx_run env C live h db" and "isEvmAddress (ev_hubAddress env)"
    and "i < length (db_vaults db)" and "nat (maxChunks env) \<le> Suc i"
  shows "map_get (db_cursors db) (wv_address (db_vaults db ! i)) = None \<and>
    (\<forall>e \<in> set (db_events db). er_vault e \<noteq> wv_address (db_vaults db ! i))"
  using run_within_budget [OF assms(1,2)] assms(3,4) by (simp add: within_budget_def budgeted_def)

lemma later_vaults_never_scanned_witness:
  "wv_address (db_vaults ex_starved ! 1) = ex_vault \<and>
   map_get (db_cursors ex_starved) (wv_address (db_vaults ex_starved ! 1)) = None"
  using later_vaults_never_scanned [OF ex_starved_run ex_tight_settings(7), of 1]
  by (simp add: ex_tight_settings ex_starved_is ex_rows)


section \<open>The settlement of plays\<close>

text \<open>C32: Over any sequence of scrobbles and of settlement passes, each cut anywhere and over any answers
  of the chain: a play marked settled rests on a settlement of its paycard that was confirmed, and a
  play that is settled or skipped never changes again.\<close>

theorem plays_settled_once:
  assumes "play_step\<^sup>*\<^sup>* \<lparr>sw_plays = [], sw_confirmed = []\<rparr> w" and "play_step\<^sup>*\<^sup>* w w'"
    and "n < length (sw_plays w)" and "pl_settled (sw_plays w ! n) \<in> {1, 2}"
  shows "sw_plays w' ! n = sw_plays w ! n \<and>
    (pl_settled (sw_plays w ! n) = 1 \<longrightarrow> pl_paycardId (sw_plays w ! n) \<in> set (sw_confirmed w))"
proof -
  have "plays_ok w" using steps_kept [OF assms(1)] by (simp add: plays_ok_def)
  with steps_kept [OF assms(2)] assms(3,4) show ?thesis
    by (auto simp: plays_move_def play_moves_def plays_ok_def)
qed


lemma plays_settled_once_witness:
  "sw_plays (state_after (reconcileFromD1 ex_settings_d1 ex_settling 4000) (None, ex_scrobbled_settled)) ! 0 =
   sw_plays ex_scrobbled_settled ! 0"
  using plays_settled_once [OF ex_scrobbled_run, of _ 0] r_into_rtranclp [of play_step, OF play_step.settled]
  by (simp add: ex_scrobbled_is)



text \<open>The settler of streams submits settlements for a prefix of the streams that are due, each stream
  once and in the order of their provisioning, at most as many as the batch limit; and when nothing
  fails, for all of those.\<close>

theorem due_streams_settled_in_order:
  assumes "se_rpcUrls env \<noteq> []"
  shows "let wanted = take (nat (batchLimit_chain env)) (filter (due N now m) (fold set_add ids []));
      sent = snd (settleActiveRails env N now m (Inr ids)) in
    (\<exists>rest. wanted = sent @ rest) \<and> distinct wanted \<and> set wanted \<subseteq> set ids \<and>
    length wanted \<le> nat (batchLimit_chain env) \<and>
    (fst (settleActiveRails env N now m (Inr ids)) = Inr () \<longrightarrow> sent = wanted)"
proof -
  let ?wanted = "take (nat (batchLimit_chain env)) (filter (due N now m) (fold set_add ids []))"
  have ids: "distinct (fold set_add ids []) \<and> set (fold set_add ids []) = set ids"
    using distinct_fold_add [of "[]" ids] by simp
  then have "distinct ?wanted \<and> set ?wanted \<subseteq> set ids"
    using set_take_subset [of "nat (batchLimit_chain env)" "filter (due N now m) (fold set_add ids [])"] by auto
  with assms settle_each_sent [of "nat (batchLimit_chain env)" N now m "fold set_add ids []"] show ?thesis
    by (simp add: settleActiveRails_def Let_def)
qed

lemma due_streams_settled_in_order_witness:
  "snd (settleActiveRails ex_settings_d1 ex_settling 2000 1 (Inr [ex_card, ex_other])) = [ex_card, ex_other]"
proof -
  have "fst (settleActiveRails ex_settings_d1 ex_settling 2000 1 (Inr [ex_card, ex_other])) = Inr ()"
    by (simp add: settleActiveRails_def ex_streams del: settle_each.simps)
  with due_streams_settled_in_order [OF ex_streams(2), of ex_settling 2000 1 "[ex_card, ex_other]"] show ?thesis
    by (simp add: ex_streams ex_due Let_def del: settle_each.simps)
qed

end
