(* ===== verification/Interface_Worker.thy ===== *)
theory Interface_Worker
  imports Runtime_Service Js_Dynamic
begin

text \<open>
  The interface worker (\<open>workers/interface-worker/src/index.ts\<close>): the Runtime on a Postgres store behind
  HTTP routes, authenticated reads of the workspaces a wallet belongs to, and the checks on the bodies
  of requests.

  The Runtime and its store are those of \<open>Runtime_Exec\<close> and \<open>Runtime_Store\<close>; a request body the Runtime
  takes is a JSON value, and \<open>view\<close> is its reading as a typed request, as everywhere in the model of the
  Runtime.  The clock of a request stands still.
\<close>


section \<open>Errors\<close>

datatype worker_error = Http_error nat string "string option" | Raised rt_error

text \<open>\<open>errorResponse\<close>: the status and the body; \<open>failures\<close> are the records of the failure.\<close>

definition code_status :: "error_code \<Rightarrow> nat" where
  "code_status c =
     (if c = RPC_UNAVAILABLE then 503
      else if c = NONCE_CONFLICT \<or> c = STATE_STALE then 409
      else if c = AUTHORIZATION_REQUIRED \<or> c = SIGNATURE_INVALID then 401
      else if c = INTERNAL_ERROR then 503
      else 400)"

definition details_shown :: "error_details option \<Rightarrow> json option" where
  "details_shown d =
     (case d of
        None \<Rightarrow> None
      | Some x \<Rightarrow>
          if ed_field x = None \<and> ed_providerCode x = None \<and> ed_reason x = None then None
          else Some (json_of_error_details x))"

definition object_or :: "js_value \<Rightarrow> json \<Rightarrow> json" where
  "object_or v d = (if isRecord v then the v else d)"

definition runtimeFailureRecord ::
    "string \<Rightarrow> error_code \<Rightarrow> string \<Rightarrow> bool \<Rightarrow> error_details option \<Rightarrow> string \<Rightarrow> js_value \<Rightarrow> json" where
  "runtimeFailureRecord at code msg retryable details operationId body =
     (let bindingExpiresAt = field (field (field body ''data'') ''signatureBinding'') ''expiresAt'' in
      jobj [
       (''interfaceVersion'', Some (JStr ''1.2.0'')),
       (''code'', Some (JStr (error_code_str code))),
       (''message'', Some (JStr (take 1000 msg))),
       (''retryable'', Some (JBool (code = RPC_UNAVAILABLE \<or> retryable))),
       (''financialEffect'', Some (JStr ''NONE'')),
       (''lifecycleState'', Some (JStr (if code = POLICY_BLOCKED then ''BLOCKED'' else ''FAILED''))),
       (''transactionState'', Some (JStr ''NOT_REQUESTED'')),
       (''operationId'', Some (JStr (if operationId = [] then ''runtime.execute'' else operationId))),
       (''occurredAt'', Some (JStr at)),
       (''provenance'', Some (jobj [
          (''source'', Some (JStr ''runtime-evaluation'')),
          (''authority'', Some (JStr ''OpenRails Interface Worker'')),
          (''evidenceLevel'', Some (JStr ''runtime-observed'')),
          (''observedAt'', Some (JStr at))])),
       (''details'', details_shown details),
       (''expectedNetwork'', if code = WRONG_NETWORK then Some (json_of_network_reference arc_network) else None),
       (''actualNetwork'',
          if code = WRONG_NETWORK then Some (object_or (field body ''network'') (json_of_network_reference arc_network))
          else None),
       (''expiresAt'',
          if code = SIGNATURE_EXPIRED
          then Some (case bindingExpiresAt of Some (JStr s) \<Rightarrow> JStr s | _ \<Rightarrow> JStr at) else None)])"

record error_answer =
  ea_status :: nat
  ea_body :: json
  ea_allow :: "string option"

definition errorResponse :: "string \<Rightarrow> string \<Rightarrow> js_value \<Rightarrow> worker_error \<Rightarrow> error_answer" where
  "errorResponse at operationId body e =
     (case e of
        Http_error status msg allow \<Rightarrow>
          \<lparr>ea_status = status, ea_body = jobj [(''valid'', Some (JBool False)), (''error'', Some (JStr msg))],
           ea_allow = (if allow = Some [] then None else allow)\<rparr>
      | Raised (RuntimeError code msg retryable details) \<Rightarrow>
          \<lparr>ea_status = code_status code,
           ea_body = jobj [
             (''valid'', Some (JBool False)),
             (''error'', Some (JStr (if code = INTERNAL_ERROR
                then ''Runtime temporarily unavailable. Retry shortly.'' else msg))),
             (''code'', Some (JStr (error_code_str code))),
             (''retryable'', Some (JBool retryable)),
             (''errors'', Some (JArr [runtimeFailureRecord at code msg retryable details operationId body])),
             (''transaction'', Some (jobj [
                (''status'', Some (JStr ''NOT_REQUESTED'')), (''financialEffect'', Some (JStr ''NONE''))]))],
           ea_allow = None\<rparr>
      | Raised (JsError msg) \<Rightarrow>
          \<lparr>ea_status = 500,
           ea_body = jobj [(''valid'', Some (JBool False)), (''error'', Some (JStr ''Internal server error.'')),
             (''code'', Some (JStr ''INTERNAL_ERROR''))],
           ea_allow = None\<rparr>)"


section \<open>Bodies\<close>

text \<open>
  The pattern \<open>/private.?key|seed.?phrase|mnemonic|secret.?key|signer.?key/i\<close>.  \<open>.\<close> is one UTF-16 unit
  that ends no line: in UTF-8 one, two or three bytes.
\<close>

definition after_unit :: "string \<Rightarrow> string option" where
  "after_unit s =
     (case s of
        [] \<Rightarrow> None
      | c # r \<Rightarrow>
          if char_code c = 10 \<or> char_code c = 13 then None
          else if char_code c < 128 then Some r
          else if 192 \<le> char_code c \<and> char_code c < 224 then Some (drop 1 r)
          else if 224 \<le> char_code c \<and> char_code c < 240 then
            (if char_code c = 226 \<and> map char_code (take 2 r) \<in> {[128, 168], [128, 169]} then None else Some (drop 2 r))
          else None)"

definition gapped :: "string \<Rightarrow> string \<Rightarrow> string \<Rightarrow> bool" where
  "gapped a b s \<longleftrightarrow> starts_with a s \<and>
     (starts_with b (drop (length a) s) \<or>
      (case after_unit (drop (length a) s) of None \<Rightarrow> False | Some r \<Rightarrow> starts_with b r))"

definition custody_here :: "string \<Rightarrow> bool" where
  "custody_here s \<longleftrightarrow> gapped ''private'' ''key'' s \<or> gapped ''seed'' ''phrase'' s \<or> starts_with ''mnemonic'' s \<or>
     gapped ''secret'' ''key'' s \<or> gapped ''signer'' ''key'' s"

fun custody_from :: "string \<Rightarrow> bool" where
  "custody_from [] = False"
| "custody_from (c # s) = (custody_here (c # s) \<or> custody_from s)"

definition custody_key :: "string \<Rightarrow> bool" where
  "custody_key k = custody_from (toLowerCase k)"

text \<open>The first offending member, in the order of the traversal, by its path.\<close>

fun custody_field :: "string \<Rightarrow> json \<Rightarrow> string option"
  and custody_items :: "string \<Rightarrow> nat \<Rightarrow> json list \<Rightarrow> string option"
  and custody_members :: "string \<Rightarrow> (string \<times> json) list \<Rightarrow> string option" where
  "custody_field p (JArr vs) = custody_items p 0 vs"
| "custody_field p (JObj fs) = custody_members p fs"
| "custody_field p v = None"
| "custody_items p i [] = None"
| "custody_items p i (v # vs) =
     (case custody_field (p @ ''['' @ show_nat i @ '']'') v of
        Some q \<Rightarrow> Some q | None \<Rightarrow> custody_items p (Suc i) vs)"
| "custody_members p [] = None"
| "custody_members p ((k, v) # fs) =
     (if custody_key k then Some (p @ ''.'' @ k)
      else (case custody_field (p @ ''.'' @ k) v of Some q \<Rightarrow> Some q | None \<Rightarrow> custody_members p fs))"

definition rejectCustodyFields :: "json \<Rightarrow> worker_error + unit" where
  "rejectCustodyFields body =
     (case custody_field ''body'' body of
        None \<Rightarrow> Inr ()
      | Some q \<Rightarrow> Inl (Http_error 400 (q @ '' is not accepted by the safe interface surface'') None))"

definition MAX_BODY_BYTES :: int where
  "MAX_BODY_BYTES = 64 * 1024"

definition bodyRecord :: "string option \<Rightarrow> string \<Rightarrow> worker_error + json" where
  "bodyRecord contentLength text =
     (let too_large = Http_error 413 (''JSON body exceeds the '' @ show_int MAX_BODY_BYTES @ '' byte interface limit'') None;
          declared = to_number (Some (JStr (case contentLength of Some s \<Rightarrow> s | None \<Rightarrow> ''0''))) in
      if (case declared of None \<Rightarrow> False | Some n \<Rightarrow> MAX_BODY_BYTES < n) then Inl too_large
      else if MAX_BODY_BYTES < int (length text) then Inl too_large
      else (case js_parse text of
          None \<Rightarrow> Inl (Http_error 400 ''Valid JSON is required.'' None)
        | Some v \<Rightarrow>
            if \<not> isRecord (Some v) then Inl (Http_error 400 ''JSON object body required.'' None)
            else res_bind (rejectCustodyFields v) (\<lambda>_. Inr v)))"


section \<open>The deployment\<close>

record worker_env =
  wn_rpcUrl :: "string option"
  wn_rpcFallbackUrl :: "string option"
  wn_enabled :: "string option"
  wn_adminToken :: "string option"
  wn_databaseUrl :: "string option"

definition the_or :: "string option \<Rightarrow> string \<Rightarrow> string" where
  "the_or v d = (case v of None \<Rightarrow> d | Some s \<Rightarrow> s)"

definition set_text :: "string option \<Rightarrow> bool" where
  "set_text v \<longleftrightarrow> v \<noteq> None \<and> v \<noteq> Some []"

definition assertRuntimeReady :: "worker_env \<Rightarrow> worker_error + unit" where
  "assertRuntimeReady env =
     (if wn_enabled env \<noteq> Some ''true''
      then Inl (Http_error 503 ''OpenRails Runtime execution is disabled for this deployment.'' None)
      else if \<not> set_text (wn_databaseUrl env)
      then Inl (Http_error 503 ''OpenRails Runtime persistence is not configured.'' None)
      else Inr ())"

definition assertRuntimeAdmin :: "string option \<Rightarrow> worker_env \<Rightarrow> worker_error + unit" where
  "assertRuntimeAdmin authorization env =
     (if \<not> set_text (wn_adminToken env)
      then Inl (Http_error 503 ''OpenRails Runtime attestor administration is not configured.'' None)
      else
        let header = (case authorization of None \<Rightarrow> [] | Some h \<Rightarrow> h);
            token = (if starts_with ''Bearer '' header then drop 7 header else []) in
        if token = [] \<or> Some token \<noteq> wn_adminToken env
        then Inl (Http_error 401 ''Runtime administrator authorization is required.'' None)
        else Inr ())"

text \<open>The capability the worker declares, and those of the manifest it declares live.\<close>

definition runtime_configured :: "worker_env \<Rightarrow> bool" where
  "runtime_configured env \<longleftrightarrow>
     wn_enabled env = Some ''true'' \<and> set_text (wn_databaseUrl env) \<and> set_text (wn_adminToken env)"

definition runtime_operations :: "string list" where
  "runtime_operations =
     [''workspace.list'', ''workspace.get'', ''workspace.register'', ''actor.register'', ''path.activate'', ''path.revoke'',
      ''intent.prepare'', ''proposal.evaluate'', ''proposal.submit'', ''pact.sign'', ''proof.submit'', ''proof.verify'']"

definition declared_status :: "worker_env \<Rightarrow> string \<times> string \<Rightarrow> string \<times> string" where
  "declared_status env c =
     (if runtime_configured env \<and> fst c \<in> set runtime_operations then (fst c, ''LIVE'') else c)"


section \<open>The owner's attestation of a Path\<close>

text \<open>\<open>V\<close> is \<open>verifyMessage(getBytes(digest), signature)\<close>, \<open>None\<close> when it throws.\<close>

definition attestation_digest :: "deps \<Rightarrow> path \<Rightarrow> rt_error + string" where
  "attestation_digest E path =
     hashRuntimePayload E (Some (jobj [
       (''purpose'', Some (JStr ''openrails-application-path-attestation-v1'')),
       (''path'', Some (json_of_path
          (path\<lparr>pa_signatureBinding := (pa_signatureBinding path)\<lparr>sb_signature := ''0x''\<rparr>\<rparr>)))]))"

definition attestApplicationPath :: "(string \<Rightarrow> string \<Rightarrow> string option) \<Rightarrow> deps \<Rightarrow> string \<Rightarrow> path_attestor" where
  "attestApplicationPath V E at path =
     res_bind (attestation_digest E path) (\<lambda>digest.
     (case V digest (sb_signature (pa_signatureBinding path)) of
        None \<Rightarrow> Inl (rt_err SIGNATURE_INVALID ''Path application signature is invalid.'')
      | Some recovered \<Rightarrow>
          if \<not> sameAddress E recovered (sb_signer (pa_signatureBinding path))
          then Inl (rt_err AUTHORIZATION_REQUIRED ''Path application signer does not match its signature binding.'')
          else Inr \<lparr>pv_authority = ''OpenRails Runtime Worker'', pv_commit = None,
            pv_evidenceLevel = EL_independently_verified, pv_evidenceRefs = None,
            pv_notes = Some ''Path accepted after verification of the application-specific owner attestation.'',
            pv_observedAt = at, pv_repository = None, pv_source = PSrc_wallet_signed\<rparr>))"


section \<open>The read provider\<close>

text \<open>The endpoints that are set, each once; \<open>connect\<close> is the provider of an endpoint.\<close>

definition read_endpoints :: "worker_env \<Rightarrow> string \<Rightarrow> string list" where
  "read_endpoints env manifest_url =
     fold set_add (filter (\<lambda>u. u \<noteq> []) [the_or (wn_rpcUrl env) manifest_url, the_or (wn_rpcFallbackUrl env) []]) []"

text \<open>The first endpoint that answers; when none does, the last error.\<close>

fun read_from :: "string \<Rightarrow> (arc_provider \<Rightarrow> rt_error + json) \<Rightarrow> rt_error option \<Rightarrow> arc_provider list \<Rightarrow> rt_error + json" where
  "read_from operation action prev [] =
     Inl (case prev of
       Some e \<Rightarrow> e | None \<Rightarrow> JsError (''No Arc read provider is configured for '' @ operation @ ''.''))"
| "read_from operation action prev (p # ps) =
     (case action p of Inr v \<Rightarrow> Inr v | Inl e \<Rightarrow> read_from operation action (Some e) ps)"

definition fallbackProvider :: "arc_provider list \<Rightarrow> arc_provider" where
  "fallbackProvider ps =
     \<lparr>prov_getCode = (\<lambda>a. read_from ''eth_getCode'' (\<lambda>p. prov_getCode p a) None ps),
      prov_call = (\<lambda>t d. read_from ''eth_call'' (\<lambda>p. prov_call p t d) None ps)\<rparr>"


section \<open>The Runtime of a request\<close>

definition postgres_url :: "string \<Rightarrow> bool" where
  "postgres_url s \<longleftrightarrow> starts_with ''postgres:'' (toLowerCase s) \<or> starts_with ''postgresql:'' (toLowerCase s)"

text \<open>Errors that are neither of the worker nor of the Runtime become a retryable internal error.\<close>

definition persistence_error :: worker_error where
  "persistence_error = Raised (RuntimeError INTERNAL_ERROR ''Runtime persistence is temporarily unavailable.'' True None)"

definition wrapped :: "rt_error + 'a \<Rightarrow> worker_error + 'a" where
  "wrapped r = (case r of
     Inr x \<Rightarrow> Inr x | Inl e \<Rightarrow> Inl (if isRuntimeError e then Raised e else persistence_error))"

definition runtime_resources :: "worker_env \<Rightarrow> worker_error + unit" where
  "runtime_resources env =
     res_bind (assertRuntimeReady env) (\<lambda>_.
     if postgres_url (the_or (wn_databaseUrl env) []) then Inr () else Inl persistence_error)"


section \<open>What a wallet may read\<close>

definition typed_ref_id :: "object_ref \<Rightarrow> object_type \<Rightarrow> string option" where
  "typed_ref_id r t = (if ref_type r = t then Some (ref_id r) else None)"

definition scoped_to :: "string \<Rightarrow> object_ref option \<Rightarrow> bool" where
  "scoped_to wid r \<longleftrightarrow> (case r of None \<Rightarrow> False | Some x \<Rightarrow> typed_ref_id x OT_Workspace = Some wid)"

record snapshot =
  sn_workspace :: workspace
  sn_actors :: "(string \<times> actor js_prop) list"
  sn_paths :: "path js_record"
  sn_intents :: "intent js_record"
  sn_proposals :: "proposal js_record"
  sn_decisions :: "baphomet_decision js_record"
  sn_pacts :: "pact js_record"
  sn_proofs :: "proof_object js_record"

text \<open>
  A stored decision names its Proposal and no workspace.  The ids of the actors that are shown, in the order of the set: the owner, the members, and the
  issuers and delegates of the workspace's Paths; those without an actor are dropped.
\<close>

definition path_actors :: "path \<Rightarrow> string list" where
  "path_actors p = List.map_filter (\<lambda>r. case typed_ref_id r OT_Actor of
     Some i \<Rightarrow> if i \<noteq> [] then Some i else None | None \<Rightarrow> None) [pa_issuerActorRef p, pa_delegateActorRef p]"

definition shown_actors :: "runtime_state \<Rightarrow> string \<Rightarrow> workspace \<Rightarrow> path js_record \<Rightarrow> string list" where
  "shown_actors st wid w paths =
     filter (\<lambda>i. js_get (st_actors st) i \<noteq> Absent)
       (fold set_add
         (ref_id (ws_ownerActorRef w) # map fst (filter (\<lambda>(i, x). x = wid) (st_actorWorkspaces st)) @
          concat (map (\<lambda>(i, p). path_actors p) paths)) [])"

definition workspaceSnapshot :: "runtime_state \<Rightarrow> string \<Rightarrow> snapshot option" where
  "workspaceSnapshot st wid =
     (case own (st_workspaces st) wid of
        None \<Rightarrow> None
      | Some w \<Rightarrow>
          let paths = filter (\<lambda>(k, p). scoped_to wid (Some (pa_workspaceRef p))) (st_paths st);
              proposals = filter (\<lambda>(k, p). scoped_to wid (Some (pr_workspaceRef p))) (st_proposals st)
          in Some \<lparr>sn_workspace = w,
            sn_actors = map (\<lambda>i. (i, js_get (st_actors st) i)) (shown_actors st wid w paths),
            sn_paths = paths,
            sn_intents = filter (\<lambda>(k, i). scoped_to wid (in_workspaceRef i)) (st_intents st),
            sn_proposals = proposals,
            sn_decisions = filter (\<lambda>(k, d).
              (case typed_ref_id (de_proposalRef d) OT_Proposal of
                 None \<Rightarrow> False | Some i \<Rightarrow> i \<noteq> [] \<and> js_get proposals i \<noteq> Absent)) (st_decisions st),
            sn_pacts = filter (\<lambda>(k, p). scoped_to wid (pc_workspaceRef p)) (st_pacts st),
            sn_proofs = filter (\<lambda>(k, p). scoped_to wid (pf_workspaceRef p)) (st_proofs st)\<rparr>)"

definition canReadWorkspace :: "deps \<Rightarrow> runtime_state \<Rightarrow> string \<Rightarrow> string \<Rightarrow> bool" where
  "canReadWorkspace E st wid wallet \<longleftrightarrow>
     (case js_get (st_workspaceAuthorities st) wid of Own a \<Rightarrow> a \<noteq> [] \<and> sameAddress E a wallet | _ \<Rightarrow> False) \<or>
     (\<exists>(i, x) \<in> set (st_actorWorkspaces st). x = wid \<and>
        (case js_get (st_actors st) i of Own a \<Rightarrow> walletIs E (ac_walletAddress a) wallet | _ \<Rightarrow> False))"


section \<open>Authenticated reads\<close>

text \<open>
  The request and the binding as \<open>assertRuntimeBinding\<close> reads them from the body.  A member of the
  network or the subject that is no text differs from every text it is compared with.
\<close>

definition no_text :: string where
  "no_text = ''(no text)''"

definition text_or :: "js_value \<Rightarrow> string \<Rightarrow> string" where
  "text_or v d = (case v of Some (JStr s) \<Rightarrow> s | _ \<Rightarrow> d)"

definition binding_of :: "js_value \<Rightarrow> sig_value" where
  "binding_of v =
     (case v of
        None \<Rightarrow> No_sig
      | Some j \<Rightarrow>
          let text = (\<lambda>k. field (Some j) k); domain = field (Some j) ''domain'' in
          if \<not> isRecord (Some j) \<or> \<not> isRecord domain \<or>
             \<not> list_all (\<lambda>k. is_string (text k))
               [''operationId'', ''signatureStandard'', ''primaryType'', ''signaturePurpose'', ''payloadHash'', ''signer'',
                ''signature'', ''nonce'', ''issuedAt'', ''expiresAt'', ''chainId'', ''anchorContract''] \<or>
             \<not> list_all (\<lambda>k. is_string (field domain k)) [''name'', ''version'', ''chainId'', ''salt'']
          then Malformed_sig j
          else Sig
            \<lparr>rb_anchorContract = text_or (text ''anchorContract'') [], rb_chainId = text_or (text ''chainId'') [],
             rb_domain = \<lparr>rd_chainId = text_or (field domain ''chainId'') [], rd_name = text_or (field domain ''name'') [],
               rd_salt = text_or (field domain ''salt'') [],
               rd_verifyingContract = map_option (\<lambda>x. text_or (Some x) no_text) (field domain ''verifyingContract''),
               rd_version = text_or (field domain ''version'') []\<rparr>,
             rb_expiresAt = text_or (text ''expiresAt'') [], rb_issuedAt = text_or (text ''issuedAt'') [],
             rb_nonce = text_or (text ''nonce'') [], rb_operationId = text_or (text ''operationId'') [],
             rb_payloadHash = text_or (text ''payloadHash'') [], rb_primaryType = text_or (text ''primaryType'') [],
             rb_signature = text_or (text ''signature'') [], rb_signaturePurpose = text_or (text ''signaturePurpose'') [],
             rb_signatureStandard = text_or (text ''signatureStandard'') [], rb_signer = text_or (text ''signer'') []\<rparr>)"

definition discovery_request :: "json \<Rightarrow> operation_request" where
  "discovery_request body =
     (let wallet = field (field (Some body) ''subject'') ''walletAddress'' in
      \<lparr>rq_authorizationClass = [], rq_canonicalRecordRef = None, rq_capability = [], rq_createdAt = [],
       rq_data = RD_other (the (field (Some body) ''data'')), rq_decisionRef = None,
       rq_executionProfile = EP_delegated_runtime, rq_intentRef = None,
       rq_interfaceVersion = (if field (Some body) ''interfaceVersion'' = Some (JStr ''1.2.0'') then IV_1_2_0 else IV_1_1_0),
       rq_network = \<lparr>nr_chainId = text_or (field (field (Some body) ''network'') ''chainId'') no_text,
         nr_networkId = text_or (field (field (Some body) ''network'') ''networkId'') no_text\<rparr>,
       rq_operationId = text_or (field (Some body) ''operationId'') [], rq_pactRef = None, rq_pathRef = None,
       rq_proofRefs = None, rq_proposalRef = None, rq_provenance = runtimeProvenance [],
       rq_subject = \<lparr>su_actorRef = None, su_role = None,
         su_walletAddress = (if truthy wallet then Some (text_or wallet no_text) else None)\<rparr>,
       rq_workspaceRef = None\<rparr>)"

text \<open>The checks of a read before the store is opened: the operation, the wallet, the workspace asked for and the binding.\<close>

definition default_binding_options :: "int \<Rightarrow> binding_options" where
  "default_binding_options now =
     \<lparr>bo_now = now, bo_maxSignatureLifetimeSeconds = MAX_SIGNATURE_LIFETIME_SECONDS,
      bo_clockSkewSeconds = DEFAULT_CLOCK_SKEW_SECONDS\<rparr>"

record discovery =
  ds_operationId :: string
  ds_wallet :: string
  ds_workspaceId :: "string option"
  ds_binding :: runtime_signature_binding

definition admit_discovery :: "deps \<Rightarrow> int \<Rightarrow> json \<Rightarrow> worker_error + discovery" where
  "admit_discovery E now body =
     (let operationId = text_or (field (Some body) ''operationId'') [];
          data = field (Some body) ''data''; wallet = field data ''walletAddress'';
          workspaceId = field data ''workspaceId''; binding = field data ''signatureBinding'';
          rt = (\<lambda>r. case r of Inl e \<Rightarrow> Inl (Raised e) | Inr x \<Rightarrow> Inr x) in
      if operationId \<noteq> ''workspace.list'' \<and> operationId \<noteq> ''workspace.get''
      then Inl (Http_error 400 ''workspace.list or workspace.get is required.'' None)
      else if \<not> isRecord data then Inl (Http_error 400 ''data object is required.'' None)
      else if \<not> is_string wallet then Inl (Http_error 400 ''data.walletAddress is required.'' None)
      else if operationId = ''workspace.get'' \<and> \<not> is_string workspaceId
      then Inl (Http_error 400 ''data.workspaceId is required for workspace.get.'' None)
      else if \<not> isRecord binding
      then Inl (Raised (rt_err INPUT_INVALID ''Workspace discovery payload is missing signatureBinding.''))
      else if \<not> isRecord (field (Some body) ''network'') \<or> \<not> isRecord (field (Some body) ''subject'')
      then Inl (Raised (rt_err INPUT_INVALID ''Signed runtime requests require network and subject fields.''))
      else
        res_bind (rt (assertRuntimeBinding E operationId (discovery_request body) (binding_of binding)
            (default_binding_options now))) (\<lambda>b.
        if \<not> sameAddress E (text_or wallet []) (rb_signer b)
        then Inl (Raised (rt_err AUTHORIZATION_REQUIRED ''Discovery wallet does not match the runtime signer.''))
        else Inr \<lparr>ds_operationId = operationId, ds_wallet = text_or wallet [],
          ds_workspaceId = (if operationId = ''workspace.get'' then Some (text_or workspaceId []) else None), ds_binding = b\<rparr>))"

record discovered =
  dw_id :: string
  dw_name :: string
  dw_status :: workspace_status
  dw_updatedAt :: string
  dw_owner :: "string js_prop"
  dw_workspace :: workspace
  dw_runtime :: snapshot

text \<open>An id asked for that is the empty text asks for every workspace.\<close>

definition readable :: "deps \<Rightarrow> runtime_state \<Rightarrow> string option \<Rightarrow> string \<Rightarrow> string list" where
  "readable E st wid wallet =
     filter (\<lambda>i. canReadWorkspace E st i wallet)
       (filter (\<lambda>i. \<not> set_text wid \<or> Some i = wid) (map fst (st_workspaces st)))"

definition shown :: "runtime_state \<Rightarrow> snapshot \<Rightarrow> discovered" where
  "shown st v =
     (let w = sn_workspace v in
      \<lparr>dw_id = ws_id w, dw_name = ws_name w, dw_status = ws_status w, dw_updatedAt = ws_updatedAt w,
       dw_owner = js_get (st_workspaceAuthorities st) (ws_id w), dw_workspace = w, dw_runtime = v\<rparr>)"

definition discoverRuntime ::
    "deps \<Rightarrow> arc_provider \<Rightarrow> pg_connection \<Rightarrow> worker_env \<Rightarrow> int \<Rightarrow> string option \<Rightarrow> string \<Rightarrow> pg_tables \<Rightarrow>
      worker_error + discovered list" where
  "discoverRuntime E P conn env now contentLength text db =
     res_bind (bodyRecord contentLength text) (\<lambda>body.
     res_bind (admit_discovery E now body) (\<lambda>d.
     res_bind (runtime_resources env) (\<lambda>_.
     res_bind (wrapped (verify E P (ds_binding d))) (\<lambda>_.
     res_bind (wrapped (pg_snapshot E conn db)) (\<lambda>st.
     let found = map (shown st) (List.map_filter (workspaceSnapshot st) (readable E st (ds_workspaceId d) (ds_wallet d))) in
     if ds_operationId d = ''workspace.get'' \<and> found = []
     then Inl (Http_error 404 ''Workspace not found.'' None)
     else Inr found)))))"


section \<open>The routes of the Runtime\<close>

record worker_request =
  wr_method :: string
  wr_path :: string
  wr_contentLength :: "string option"
  wr_authorization :: "string option"
  wr_body :: string

datatype worker_answer =
    Workspaces "discovered list"
  | Path_accepted path
  | Executed operation_response
  | State_of runtime_state
  | No_route

definition RUNTIME_BASE :: string where
  "RUNTIME_BASE = ''/api/interface/1.2.0/runtime''"

definition method_error :: "string \<Rightarrow> worker_error" where
  "method_error m = Http_error 405 (''Use '' @ m @ '' for this Runtime route.'') (Some (m @ '', OPTIONS''))"

definition worker_config :: runtime_config where
  "worker_config =
     \<lparr>cfg_maxSignatureLifetimeSeconds = MAX_SIGNATURE_LIFETIME_SECONDS, cfg_clockSkewSeconds = DEFAULT_CLOCK_SKEW_SECONDS\<rparr>"

definition handle_path ::
    "(string \<Rightarrow> string \<Rightarrow> string option) \<Rightarrow> deps \<Rightarrow> pg_connection \<Rightarrow> (json \<Rightarrow> path) \<Rightarrow> worker_env \<Rightarrow> int \<Rightarrow>
      worker_request \<Rightarrow> pg_tables \<Rightarrow> (worker_error + worker_answer) \<times> pg_tables" where
  "handle_path V E conn view_path env now req db =
     (case res_bind (bodyRecord (wr_contentLength req) (wr_body req)) (\<lambda>b.
         if \<not> isRecord (field (Some b) ''path'') then Inl (Http_error 400 ''path object is required'' None)
         else res_bind (runtime_resources env) (\<lambda>_. Inr (view_path (the (field (Some b) ''path''))))) of
        Inl e \<Rightarrow> (Inl e, db)
      | Inr p \<Rightarrow>
          (case ingestPath (pg_transact E conn) E (Some (attestApplicationPath V E (toISOString now))) p db of
             (r, db') \<Rightarrow> (res_bind (wrapped r) (\<lambda>x. Inr (Path_accepted x)), db')))"

definition handle_execute ::
    "deps \<Rightarrow> arc_provider \<Rightarrow> pg_connection \<Rightarrow> (json \<Rightarrow> operation_request) \<Rightarrow> worker_env \<Rightarrow> int \<Rightarrow>
      worker_request \<Rightarrow> pg_tables \<Rightarrow> (worker_error + worker_answer) \<times> pg_tables" where
  "handle_execute E P conn view env now req db =
     (case res_bind (bodyRecord (wr_contentLength req) (wr_body req)) (\<lambda>b.
         res_bind (runtime_resources env) (\<lambda>_. Inr (view b))) of
        Inl e \<Rightarrow> (Inl e, db)
      | Inr r \<Rightarrow>
          (case execute (pg_transact E conn) E P worker_config now now r db of
             (x, db') \<Rightarrow> (res_bind (wrapped x) (\<lambda>y. Inr (Executed y)), db')))"

definition handle_state ::
    "deps \<Rightarrow> pg_connection \<Rightarrow> worker_env \<Rightarrow> worker_request \<Rightarrow> pg_tables \<Rightarrow> worker_error + worker_answer" where
  "handle_state E conn env req db =
     res_bind (assertRuntimeAdmin (wr_authorization req) env) (\<lambda>_.
     res_bind (runtime_resources env) (\<lambda>_.
     res_bind (wrapped (pg_snapshot E conn db)) (\<lambda>st. Inr (State_of st))))"

definition handleRuntime ::
    "(string \<Rightarrow> string \<Rightarrow> string option) \<Rightarrow> deps \<Rightarrow> arc_provider \<Rightarrow> pg_connection \<Rightarrow> (json \<Rightarrow> operation_request) \<Rightarrow>
      (json \<Rightarrow> path) \<Rightarrow> worker_env \<Rightarrow> int \<Rightarrow> worker_request \<Rightarrow> pg_tables \<Rightarrow> (worker_error + worker_answer) \<times> pg_tables" where
  "handleRuntime V E P conn view view_path env now req db =
     (let route = (\<lambda>r. wr_path req = RUNTIME_BASE @ r); POST = (wr_method req = ''POST''); GET = (wr_method req = ''GET'') in
      if \<not> starts_with RUNTIME_BASE (wr_path req) then (Inr No_route, db)
      else if (route ''/path'' \<or> route ''/execute'' \<or> route ''/discover'') \<and> \<not> POST then (Inl (method_error ''POST''), db)
      else if route ''/state'' \<and> \<not> GET then (Inl (method_error ''GET''), db)
      else (case assertRuntimeReady env of
        Inl e \<Rightarrow> (Inl e, db)
      | Inr _ \<Rightarrow>
          if route ''/discover''
          then (res_bind (discoverRuntime E P conn env now (wr_contentLength req) (wr_body req) db) (\<lambda>ws. Inr (Workspaces ws)), db)
          else if route ''/path'' then handle_path V E conn view_path env now req db
          else if route ''/execute'' then handle_execute E P conn view env now req db
          else if route ''/state'' then (handle_state E conn env req db, db)
          else (Inr No_route, db)))"

end
