(* ===== verification/Interface_Worker_Facts.thy ===== *)
theory Interface_Worker_Facts
  imports Interface_Worker
begin

text \<open>
  What the interface worker guarantees: which members of a body it refuses, who may read which
  workspace, which routes write, and whom an accepted Path is signed by.
\<close>


section \<open>Custody fields\<close>

text \<open>The names of all members of a value, at any depth.\<close>

fun member_names :: "json \<Rightarrow> string set" where
  "member_names (JArr vs) = (\<Union>v \<in> set vs. member_names v)"
| "member_names (JObj fs) = (\<Union>(k, v) \<in> set fs. insert k (member_names v))"
| "member_names v = {}"

lemma custody_none:
  "custody_field p v = None \<longleftrightarrow> (\<forall>k \<in> member_names v. \<not> custody_key k)"
  "custody_items p i vs = None \<longleftrightarrow> (\<forall>v \<in> set vs. \<forall>k \<in> member_names v. \<not> custody_key k)"
  "custody_members p fs = None \<longleftrightarrow> (\<forall>(k, v) \<in> set fs. \<not> custody_key k \<and> (\<forall>n \<in> member_names v. \<not> custody_key n))"
  by (induction p v and p i vs and p fs rule: custody_field_custody_items_custody_members.induct)
    (auto split: option.splits)

lemma rejectCustodyFields_eq_Inr: "rejectCustodyFields v = Inr () \<longleftrightarrow> (\<forall>k \<in> member_names v. \<not> custody_key k)"
  unfolding custody_none(1) [of "''body''", symmetric] by (simp add: rejectCustodyFields_def split: option.split)

lemma bodyRecord_eq_Inr:
  "bodyRecord cl text = Inr v \<longleftrightarrow>
     (case to_number (Some (JStr (case cl of Some s \<Rightarrow> s | None \<Rightarrow> ''0''))) of None \<Rightarrow> True | Some n \<Rightarrow> n \<le> MAX_BODY_BYTES) \<and>
     int (length text) \<le> MAX_BODY_BYTES \<and> js_parse text = Some v \<and> isRecord (Some v) \<and>
     (\<forall>k \<in> member_names v. \<not> custody_key k)"
proof -
  obtain n where n: "to_number (Some (JStr (case cl of Some s \<Rightarrow> s | None \<Rightarrow> ''0''))) = n" by blast
  have reject: "(res_bind (rejectCustodyFields x) (\<lambda>_. Inr x) = (Inr v :: worker_error + json)) \<longleftrightarrow>
      x = v \<and> (\<forall>k \<in> member_names v. \<not> custody_key k)" for x
    using rejectCustodyFields_eq_Inr [of x] by (cases "rejectCustodyFields x") auto
  have if_Inr: "(if b then Inl e else r) = Inr v \<longleftrightarrow> \<not> b \<and> r = Inr v" for b and e :: worker_error and r by simp
  have rest: "(case js_parse text of None \<Rightarrow> Inl e | Some x \<Rightarrow> if \<not> isRecord (Some x) then Inl e'
      else res_bind (rejectCustodyFields x) (\<lambda>_. Inr x)) = Inr v \<longleftrightarrow>
    js_parse text = Some v \<and> isRecord (Some v) \<and> (\<forall>k \<in> member_names v. \<not> custody_key k)" for e e'
    by (cases "js_parse text") (simp_all only: option.case if_Inr reject, blast+)
  show ?thesis
    unfolding bodyRecord_def Let_def n if_Inr rest by (simp add: not_less split: option.split)
qed


section \<open>The deployment\<close>

lemma assertRuntimeReady_eq_Inr: "assertRuntimeReady env = Inr () \<longleftrightarrow>
  wn_enabled env = Some ''true'' \<and> set_text (wn_databaseUrl env)"
  by (simp add: assertRuntimeReady_def)

lemma starts_with_rest: "starts_with p s \<Longrightarrow> s = p @ drop (length p) s"
  using append_take_drop_id [of "length p" s] by (simp add: starts_with_def)

lemma assertRuntimeAdmin_eq_Inr: "assertRuntimeAdmin authorization env = Inr () \<longleftrightarrow>
  (\<exists>token. token \<noteq> [] \<and> wn_adminToken env = Some token \<and> authorization = Some (''Bearer '' @ token))"
proof
  assume "assertRuntimeAdmin authorization env = Inr ()"
  then obtain h where h: "authorization = Some h" "starts_with ''Bearer '' h" "drop 7 h \<noteq> []" "wn_adminToken env = Some (drop 7 h)"
    by (auto simp: assertRuntimeAdmin_def Let_def starts_with_def split: if_splits option.splits)
  have "h = ''Bearer '' @ drop 7 h" using starts_with_rest [OF h(2)] by (simp add: numeral_eq_Suc)
  with h show "\<exists>token. token \<noteq> [] \<and> wn_adminToken env = Some token \<and> authorization = Some (''Bearer '' @ token)" by metis
qed (auto simp: assertRuntimeAdmin_def starts_with_def set_text_def)

lemma wrapped_eq_Inr [res_simps]: "wrapped r = Inr x \<longleftrightarrow> r = Inr x"
  by (auto simp: wrapped_def split: sum.splits)


section \<open>The read provider\<close>

lemma read_from_find:
  "read_from operation action prev ps =
     (case find (\<lambda>p. \<not> throws (action p)) ps of
        Some p \<Rightarrow> action p
      | None \<Rightarrow>
          (case ps of
             [] \<Rightarrow> Inl (case prev of Some e \<Rightarrow> e | None \<Rightarrow> JsError (''No Arc read provider is configured for '' @ operation @ ''.''))
           | _ \<Rightarrow> action (last ps)))"
proof (induction ps arbitrary: prev)
  case (Cons p ps)
  show ?case
  proof (cases "action p")
    case (Inl e)
    then show ?thesis
      using Cons.IH [of "Some e"] by (cases ps) (auto simp: throws_def split: option.split)
  qed (simp add: throws_def)
qed simp

lemma read_from_first:
  "read_from operation action None ps =
     (case find (\<lambda>p. \<not> throws (action p)) ps of
        Some p \<Rightarrow> action p
      | None \<Rightarrow> if ps = [] then Inl (JsError (''No Arc read provider is configured for '' @ operation @ ''.'')) else action (last ps))"
  unfolding read_from_find by (cases ps) (simp_all split: option.split)


section \<open>Who reads what\<close>

text \<open>The wallet is the authority of the workspace, or that of an actor registered in it.\<close>

definition belongs_to :: "deps \<Rightarrow> runtime_state \<Rightarrow> string \<Rightarrow> string \<Rightarrow> bool" where
  "belongs_to E st wid wallet \<longleftrightarrow>
     (\<exists>a. own (st_workspaceAuthorities st) wid = Some a \<and> sameAddress E a wallet) \<or>
     (\<exists>i a w. (i, wid) \<in> set (st_actorWorkspaces st) \<and> own (st_actors st) i = Some a \<and>
        ac_walletAddress a = Some w \<and> sameAddress E w wallet)"

lemma case_own: "(case js_get r k of Own x \<Rightarrow> Q x | _ \<Rightarrow> False) \<longleftrightarrow> (\<exists>x. own r k = Some x \<and> Q x)"
  by (simp add: js_get_own split: option.split)

lemma canRead_iff: "canReadWorkspace E st wid wallet \<longleftrightarrow>
  (\<exists>x. own (st_workspaceAuthorities st) wid = Some x \<and> x \<noteq> [] \<and> sameAddress E x wallet) \<or>
  (\<exists>i a. (i, wid) \<in> set (st_actorWorkspaces st) \<and> own (st_actors st) i = Some a \<and> walletIs E (ac_walletAddress a) wallet)"
  unfolding canReadWorkspace_def case_own by auto

lemma canRead_belongs: "canReadWorkspace E st wid wallet \<Longrightarrow> belongs_to E st wid wallet"
  by (auto simp: canRead_iff belongs_to_def walletIs_iff)

lemma belongs_same: "belongs_to E st wid a \<Longrightarrow> sameAddress E a b \<Longrightarrow> belongs_to E st wid b"
  unfolding belongs_to_def by (blast intro: sameAddress_trans)

text \<open>Everything in a snapshot is of the workspace: its rows of the state, and no others.\<close>

definition of_workspace :: "runtime_state \<Rightarrow> string \<Rightarrow> snapshot \<Rightarrow> bool" where
  "of_workspace st wid v \<longleftrightarrow>
     (let refers = (\<lambda>r. \<exists>x. r = Some x \<and> ref_type x = OT_Workspace \<and> ref_id x = wid) in
      own (st_workspaces st) wid = Some (sn_workspace v) \<and>
      set (sn_paths v) = {(k, p) \<in> set (st_paths st). refers (Some (pa_workspaceRef p))} \<and>
      set (sn_intents v) = {(k, i) \<in> set (st_intents st). refers (in_workspaceRef i)} \<and>
      set (sn_proposals v) = {(k, p) \<in> set (st_proposals st). refers (Some (pr_workspaceRef p))} \<and>
      set (sn_pacts v) = {(k, p) \<in> set (st_pacts st). refers (pc_workspaceRef p)} \<and>
      set (sn_proofs v) = {(k, p) \<in> set (st_proofs st). refers (pf_workspaceRef p)} \<and>
      (\<forall>(k, d) \<in> set (sn_decisions v). (k, d) \<in> set (st_decisions st) \<and> ref_type (de_proposalRef d) = OT_Proposal \<and>
         js_get (sn_proposals v) (ref_id (de_proposalRef d)) \<noteq> Absent) \<and>
      (\<forall>(i, x) \<in> set (sn_actors v). x = js_get (st_actors st) i \<and>
         (i = ref_id (ws_ownerActorRef (sn_workspace v)) \<or> (i, wid) \<in> set (st_actorWorkspaces st) \<or>
          (\<exists>(k, p) \<in> set (sn_paths v). i = ref_id (pa_issuerActorRef p) \<or> i = ref_id (pa_delegateActorRef p)))))"

lemma scoped_to_iff: "scoped_to wid r \<longleftrightarrow> (\<exists>x. r = Some x \<and> ref_type x = OT_Workspace \<and> ref_id x = wid)"
  by (auto simp: scoped_to_def typed_ref_id_def split: option.splits if_splits)

lemma set_fold_add: "set (fold set_add xs ys) = set xs \<union> set ys"
  by (induction xs arbitrary: ys) (auto simp: set_add_def)

lemma path_actors_sub: "set (path_actors p) \<subseteq> {ref_id (pa_issuerActorRef p), ref_id (pa_delegateActorRef p)}"
  by (auto simp: path_actors_def typed_ref_id_def List.map_filter_def split: option.splits if_splits)

lemma snapshot_of_workspace:
  assumes "workspaceSnapshot st wid = Some v"
  shows "of_workspace st wid v"
proof -
  obtain w where w: "own (st_workspaces st) wid = Some w"
    using assms by (auto simp: workspaceSnapshot_def split: option.splits)
  let ?paths = "filter (\<lambda>(k, p). scoped_to wid (Some (pa_workspaceRef p))) (st_paths st)"
  have v: "sn_workspace v = w" "sn_paths v = ?paths"
    "sn_actors v = map (\<lambda>i. (i, js_get (st_actors st) i)) (shown_actors st wid w ?paths)"
    using assms w by (auto simp: workspaceSnapshot_def Let_def)
  have "i = ref_id (ws_ownerActorRef w) \<or> (i, wid) \<in> set (st_actorWorkspaces st) \<or>
      (\<exists>(k, p) \<in> set ?paths. i = ref_id (pa_issuerActorRef p) \<or> i = ref_id (pa_delegateActorRef p))"
    if "i \<in> set (shown_actors st wid w ?paths)" for i
    using that path_actors_sub unfolding shown_actors_def set_filter set_fold_add by fastforce
  then have "\<forall>(i, x) \<in> set (sn_actors v). x = js_get (st_actors st) i \<and>
     (i = ref_id (ws_ownerActorRef (sn_workspace v)) \<or> (i, wid) \<in> set (st_actorWorkspaces st) \<or>
      (\<exists>(k, p) \<in> set (sn_paths v). i = ref_id (pa_issuerActorRef p) \<or> i = ref_id (pa_delegateActorRef p)))"
    unfolding v by auto
  moreover have "set (sn_intents v) = {(k, i) \<in> set (st_intents st). scoped_to wid (in_workspaceRef i)}"
    "set (sn_proposals v) = {(k, p) \<in> set (st_proposals st). scoped_to wid (Some (pr_workspaceRef p))}"
    "set (sn_pacts v) = {(k, p) \<in> set (st_pacts st). scoped_to wid (pc_workspaceRef p)}"
    "set (sn_proofs v) = {(k, p) \<in> set (st_proofs st). scoped_to wid (pf_workspaceRef p)}"
    "set (sn_paths v) = {(k, p) \<in> set (st_paths st). scoped_to wid (Some (pa_workspaceRef p))}"
    "\<forall>(k, d) \<in> set (sn_decisions v). (k, d) \<in> set (st_decisions st) \<and> ref_type (de_proposalRef d) = OT_Proposal \<and>
         js_get (sn_proposals v) (ref_id (de_proposalRef d)) \<noteq> Absent"
    using assms w by (auto simp: workspaceSnapshot_def Let_def typed_ref_id_def split: option.splits if_splits)
  ultimately show ?thesis
    using w v(1) unfolding of_workspace_def Let_def scoped_to_iff by simp
qed

lemma workspaceSnapshot_eq_None: "workspaceSnapshot st wid = None \<longleftrightarrow> own (st_workspaces st) wid = None"
  by (simp add: workspaceSnapshot_def Let_def split: option.split)


section \<open>A read that is answered\<close>

text \<open>
  The body asks for a read of workspaces and is signed for it: the binding in it covers this
  operation and the hash of the data, is within its window, and its signature was verified.
\<close>

definition signed_read :: "deps \<Rightarrow> arc_provider \<Rightarrow> int \<Rightarrow> json \<Rightarrow> runtime_signature_binding \<Rightarrow> bool" where
  "signed_read E P now body b \<longleftrightarrow>
     (\<exists>data hash. field (Some body) ''data'' = Some data \<and> binding_of (field (Some data) ''signatureBinding'') = Sig b \<and>
        rb_operationId b \<in> {''workspace.list'', ''workspace.get''} \<and>
        field (Some body) ''operationId'' = Some (JStr (rb_operationId b)) \<and>
        hashRuntimePayload E (Some data) = Inr hash \<and> toLowerCase (rb_payloadHash b) = toLowerCase hash) \<and>
     assertSignatureWindow b (default_binding_options now) = Inr () \<and> verify E P b = Inr ()"

lemma assertRuntimeBinding_Inr:
  assumes "assertRuntimeBinding E operationId request sig opts = Inr b"
  shows "sig = Sig b \<and> rb_operationId b = operationId \<and> assertSignatureWindow b opts = Inr () \<and>
    (\<exists>hash. hashRuntimePayload E (Some (json_of_request_data (rq_data request))) = Inr hash \<and>
       toLowerCase (rb_payloadHash b) = toLowerCase hash)"
  using assms
  by (auto simp: assertRuntimeBinding_def res_simps split: sig_value.splits if_splits sum.splits option.splits)

lemma admit_discovery_Inr:
  assumes "admit_discovery E now body = Inr d"
  shows "(\<exists>data hash. field (Some body) ''data'' = Some data \<and>
        binding_of (field (Some data) ''signatureBinding'') = Sig (ds_binding d) \<and>
        rb_operationId (ds_binding d) = ds_operationId d \<and> ds_operationId d \<in> {''workspace.list'', ''workspace.get''} \<and>
        field (Some body) ''operationId'' = Some (JStr (ds_operationId d)) \<and>
        hashRuntimePayload E (Some data) = Inr hash \<and> toLowerCase (rb_payloadHash (ds_binding d)) = toLowerCase hash \<and>
        field (Some data) ''walletAddress'' = Some (JStr (ds_wallet d))) \<and>
     assertSignatureWindow (ds_binding d) (default_binding_options now) = Inr () \<and>
     sameAddress E (ds_wallet d) (rb_signer (ds_binding d)) \<and>
     (ds_operationId d = ''workspace.list'' \<longrightarrow> ds_workspaceId d = None)"
proof -
  let ?op = "text_or (field (Some body) ''operationId'') []"
  let ?data = "field (Some body) ''data''"
  let ?wallet = "field ?data ''walletAddress''"
  have op: "?op = ''workspace.list'' \<or> ?op = ''workspace.get''" and data: "isRecord ?data" and wallet: "is_string ?wallet"
    using assms by (auto simp: admit_discovery_def Let_def split: if_splits)
  from op have op': "field (Some body) ''operationId'' = Some (JStr ?op)"
    by (auto simp: text_or_def split: option.splits json.splits)
  from data obtain dj where dj: "?data = Some dj" by (cases ?data) auto
  from wallet have wallet': "?wallet = Some (JStr (text_or ?wallet []))"
    by (cases ?wallet rule: is_string.cases) (auto simp: text_or_def)
  obtain b where b: "assertRuntimeBinding E ?op (discovery_request body) (binding_of (field ?data ''signatureBinding''))
      (default_binding_options now) = Inr b"
    and same: "sameAddress E (text_or ?wallet []) (rb_signer b)"
    and d: "d = \<lparr>ds_operationId = ?op, ds_wallet = text_or ?wallet [],
      ds_workspaceId = (if ?op = ''workspace.get'' then Some (text_or (field ?data ''workspaceId'') []) else None),
      ds_binding = b\<rparr>"
    using assms by (auto simp: admit_discovery_def Let_def res_simps split: if_splits sum.splits)
  have "json_of_request_data (rq_data (discovery_request body)) = dj"
    by (simp add: discovery_request_def Let_def dj)
  with assertRuntimeBinding_Inr [OF b] op op' dj wallet' same show ?thesis by (auto simp: d)
qed

lemma discoverRuntime_Inr:
  assumes "discoverRuntime E P conn env now cl text db = Inr found"
  obtains body d st where "js_parse text = Some body" and "\<forall>k \<in> member_names body. \<not> custody_key k"
    and "admit_discovery E now body = Inr d" and "verify E P (ds_binding d) = Inr ()"
    and "stateFromRow E (pg_state db) = Inr st"
    and "found = map (shown st) (List.map_filter (workspaceSnapshot st) (readable E st (ds_workspaceId d) (ds_wallet d)))"
proof -
  from assms obtain body d st where b: "bodyRecord cl text = Inr body" "admit_discovery E now body = Inr d"
      "verify E P (ds_binding d) = Inr ()" "pg_snapshot E conn db = Inr st"
      "found = map (shown st) (List.map_filter (workspaceSnapshot st) (readable E st (ds_workspaceId d) (ds_wallet d)))"
    by (auto simp: discoverRuntime_def res_simps Let_def split: if_splits)
  moreover from b(4) have "stateFromRow E (pg_state db) = Inr st" by (auto simp: pg_snapshot_def res_simps)
  ultimately show ?thesis using that bodyRecord_eq_Inr [of cl "text" body] by blast
qed

lemma readable_iff: "i \<in> set (readable E st wid wallet) \<longleftrightarrow>
  (\<exists>w. own (st_workspaces st) i = Some w) \<and> (set_text wid \<longrightarrow> Some i = wid) \<and> canReadWorkspace E st i wallet"
proof -
  have "i \<in> fst ` set (st_workspaces st) \<longleftrightarrow> (\<exists>w. own (st_workspaces st) i = Some w)"
    by (metis map_of_eq_None_iff not_None_eq own_def)
  then show ?thesis by (auto simp: readable_def)
qed


section \<open>The routes\<close>

lemma handle_path_cases:
  obtains e where "handle_path V E conn view_path env now req db = (Inl e, db)"
  | p r db' where "ingestPath (pg_transact E conn) E (Some (attestApplicationPath V E (toISOString now))) p db = (r, db')"
    and "handle_path V E conn view_path env now req db = (res_bind (wrapped r) (\<lambda>x. Inr (Path_accepted x)), db')"
proof (cases "res_bind (bodyRecord (wr_contentLength req) (wr_body req)) (\<lambda>b.
    if \<not> isRecord (field (Some b) ''path'') then Inl (Http_error 400 ''path object is required'' None)
    else res_bind (runtime_resources env) (\<lambda>_. Inr (view_path (the (field (Some b) ''path'')))))")
  case (Inl e)
  then show ?thesis using that(1) by (simp add: handle_path_def)
next
  case (Inr p)
  then show ?thesis
    using that(2) by (cases "ingestPath (pg_transact E conn) E (Some (attestApplicationPath V E (toISOString now))) p db")
      (simp add: handle_path_def)
qed

lemma handle_execute_cases:
  obtains e where "handle_execute E P conn view env now req db = (Inl e, db)"
  | request x db' where "execute (pg_transact E conn) E P worker_config now now request db = (x, db')"
    and "handle_execute E P conn view env now req db = (res_bind (wrapped x) (\<lambda>y. Inr (Executed y)), db')"
proof (cases "res_bind (bodyRecord (wr_contentLength req) (wr_body req)) (\<lambda>b. res_bind (runtime_resources env) (\<lambda>_. Inr (view b)))")
  case (Inl e)
  then show ?thesis using that(1) by (simp add: handle_execute_def)
next
  case (Inr r)
  then show ?thesis
    using that(2) by (cases "execute (pg_transact E conn) E P worker_config now now r db") (simp add: handle_execute_def)
qed

lemma handleRuntime_cases:
  obtains "snd (handleRuntime V E P conn view view_path env now req db) = db"
      and "\<forall>x. fst (handleRuntime V E P conn view view_path env now req db) \<noteq> Inr (Path_accepted x)"
      and "\<forall>st. fst (handleRuntime V E P conn view view_path env now req db) = Inr (State_of st) \<longrightarrow>
        handle_state E conn env req db = Inr (State_of st)"
  | "wr_method req = ''POST''" and "wn_enabled env = Some ''true''" and "wr_path req = RUNTIME_BASE @ ''/path''"
      and "handleRuntime V E P conn view view_path env now req db = handle_path V E conn view_path env now req db"
  | "wr_method req = ''POST''" and "wn_enabled env = Some ''true''" and "wr_path req = RUNTIME_BASE @ ''/execute''"
      and "handleRuntime V E P conn view view_path env now req db = handle_execute E P conn view env now req db"
proof -
  have answers: "res_bind r (\<lambda>ws. Inr (Workspaces ws)) \<noteq> (Inr (Path_accepted x) :: worker_error + worker_answer)"
    "res_bind r (\<lambda>ws. Inr (Workspaces ws)) \<noteq> (Inr (State_of st) :: worker_error + worker_answer)" for r x st
    by (cases r; simp)+
  have state: "handle_state E conn env req db \<noteq> Inr (Path_accepted x)" for x
    by (auto simp: handle_state_def res_simps)
  show ?thesis
  proof (cases "assertRuntimeReady env")
    case (Inl e)
    then show ?thesis using that(1) by (auto simp: handleRuntime_def Let_def)
  next
    case (Inr u)
    then have env: "wn_enabled env = Some ''true''" using assertRuntimeReady_eq_Inr [of env] by simp
    show ?thesis
    proof (cases "wr_method req = ''POST'' \<and> (wr_path req = RUNTIME_BASE @ ''/path'' \<or> wr_path req = RUNTIME_BASE @ ''/execute'')")
      case True
      then show ?thesis
        using that(2,3) Inr env by (auto simp: handleRuntime_def Let_def starts_with_def)
    next
      case False
      let ?h = "handleRuntime V E P conn view view_path env now req db"
      from False consider "wr_method req = ''POST''" "wr_path req \<noteq> RUNTIME_BASE @ ''/path''" "wr_path req \<noteq> RUNTIME_BASE @ ''/execute''"
        | "wr_method req \<noteq> ''POST''" by blast
      then have "snd ?h = db \<and> (\<forall>x. fst ?h \<noteq> Inr (Path_accepted x)) \<and>
          (\<forall>st. fst ?h = Inr (State_of st) \<longrightarrow> handle_state E conn env req db = Inr (State_of st))"
        by cases (simp_all add: handleRuntime_def Let_def Inr answers state)
      then show ?thesis using that(1) by blast
    qed
  qed
qed

lemma attested_by_signer:
  assumes "ingestPath transact E (Some (attestApplicationPath V E at)) p s = (Inr accepted, s')"
  shows "\<exists>digest r. attestation_digest E p = Inr digest \<and> V digest (sb_signature (pa_signatureBinding p)) = Some r \<and>
    sameAddress E r (sb_signer (pa_signatureBinding p))"
proof -
  from assms obtain v where "attestApplicationPath V E at p = Inr v"
    by (auto simp: ingestPath_def attestedProvenance_def res_simps split: sum.splits if_splits)
  then show ?thesis
    by (auto simp: attestApplicationPath_def res_simps split: option.splits if_splits)
qed

text \<open>What a transaction of an ingestion answers is the Path with the attested provenance.\<close>

lemma pg_plain_answers:
  assumes "pg_transact E conn (plain_op f) db = (Inr x, db')"
  shows "\<exists>st st'. f st = Inr (x, st')"
  using assms
  by (auto simp: pg_transact_def pg_body_def plain_op_def res_simps Let_def split: sum.splits pg_answer.splits) blast

lemma ingest_accepts:
  assumes "ingestPath (pg_transact E conn) E (Some (attestApplicationPath V E at)) p db = (Inr accepted, db')"
  shows "\<exists>v. accepted = p\<lparr>pa_provenance := v\<rparr> \<and> pv_source v = PSrc_wallet_signed"
proof -
  from assms obtain v where v: "attestApplicationPath V E at p = Inr v"
      "pg_transact E conn (plain_op (ingest_op E p v)) db = (Inr accepted, db')"
    by (auto simp: ingestPath_def attestedProvenance_def res_simps split: sum.splits if_splits)
  from v(1) have "pv_source v = PSrc_wallet_signed"
    by (auto simp: attestApplicationPath_def res_simps split: option.splits if_splits)
  moreover from pg_plain_answers [OF v(2)] have "accepted = p\<lparr>pa_provenance := v\<rparr>"
    by (auto simp: ingest_op_def Let_def split: if_splits)
  ultimately show ?thesis by blast
qed

text \<open>The state is answered on its own route.\<close>

lemma handleRuntime_state:
  assumes "fst (handleRuntime V E P conn view view_path env now req db) = Inr (State_of st)"
    and "\<And>x. handle_path V E conn view_path env now req db \<noteq> (Inr (State_of st), x)"
    and "\<And>x. handle_execute E P conn view env now req db \<noteq> (Inr (State_of st), x)"
  shows "wr_method req = ''GET'' \<and> handle_state E conn env req db = Inr (State_of st) \<and>
    snd (handleRuntime V E P conn view view_path env now req db) = db"
proof -
  have "res_bind r (\<lambda>ws. Inr (Workspaces ws)) \<noteq> (Inr (State_of st) :: worker_error + worker_answer)" for r
    by (cases r) simp_all
  moreover have "fst (handle_path V E conn view_path env now req db) \<noteq> Inr (State_of st)"
    "fst (handle_execute E P conn view env now req db) \<noteq> Inr (State_of st)"
    using assms(2,3) by (metis prod.collapse)+
  ultimately show ?thesis
    using assms(1) by (auto simp: handleRuntime_def Let_def split: if_splits sum.splits)
qed

end
