(* ===== verification/Interface_Worker_Demo.thy ===== *)
theory Interface_Worker_Demo
  imports Interface_Worker_Facts Runtime_Walkthrough
begin

text \<open>
  Requests to the interface worker in the world of \<open>Runtime_Demo\<close>: the owner of a workspace lists the
  workspaces it belongs to, registers one, has a Path accepted, and the administrator reads the state.
\<close>

lemma binding_of_json [simp]: "binding_of (Some (json_of_runtime_signature_binding b)) = Sig b"
  by (cases "rd_verifyingContract (rb_domain b)")
    (simp_all add: binding_of_def json_of_runtime_signature_binding_def json_of_runtime_signature_domain_def jobj_def
      field_def text_or_def Let_def)

definition demo_env :: worker_env where
  "demo_env = \<lparr>wn_rpcUrl = Some ''https://rpc'', wn_rpcFallbackUrl = None, wn_enabled = Some ''true'',
     wn_adminToken = Some ''secret'', wn_databaseUrl = Some ''postgresql://db''\<rparr>"

definition list_data :: request_data where
  "list_data = RD_other (JObj [(''walletAddress'', JStr owner)])"

definition list_signature :: runtime_signature_binding where
  "list_signature = demo_signature ''workspace.list'' ''7'' owner list_data"

definition list_body :: json where
  "list_body = JObj [
     (''operationId'', JStr ''workspace.list''), (''interfaceVersion'', JStr ''1.2.0''),
     (''network'', json_of_network_reference arc_network), (''subject'', JObj []),
     (''data'', JObj [(''walletAddress'', JStr owner),
        (''signatureBinding'', json_of_runtime_signature_binding list_signature)])]"

definition list_text :: string where
  "list_text = js_stringify list_body"

definition stored :: "runtime_state \<Rightarrow> pg_tables" where
  "stored st = \<lparr>pg_state = Some (persist st), pg_nonces = []\<rparr>"

lemma list_body_read: "bodyRecord None list_text = Inr list_body"
proof -
  have "custody_field ''body'' list_body = None" by code_simp
  moreover have "int (length list_text) \<le> MAX_BODY_BYTES" by code_simp
  moreover have "json_exact list_body" by code_simp
  moreover have "(case to_number (Some (JStr ''0'')) of None \<Rightarrow> True | Some n \<Rightarrow> n \<le> MAX_BODY_BYTES)" by code_simp
  moreover have "isRecord (Some list_body)" by (simp add: list_body_def)
  ultimately show ?thesis
    by (simp add: bodyRecord_eq_Inr custody_none(1) list_text_def parse_stringify)
qed

definition list_discovery :: discovery where
  "list_discovery = \<lparr>ds_operationId = ''workspace.list'', ds_wallet = owner, ds_workspaceId = None, ds_binding = list_signature\<rparr>"

lemma list_binding_accepted:
  "assertRuntimeBinding demo_deps ''workspace.list'' (discovery_request list_body) (Sig list_signature)
     (default_binding_options demo_now) = Inr list_signature"
proof -
  let ?b = list_signature and ?r = "discovery_request list_body"
  have r: "rq_network ?r = arc_network" "rq_interfaceVersion ?r = IV_1_2_0"
      "su_walletAddress (rq_subject ?r) = None" "rq_data ?r = RD_other (JObj [(''walletAddress'', JStr owner),
        (''signatureBinding'', json_of_runtime_signature_binding list_signature)])"
    by (simp_all add: discovery_request_def list_body_def Let_def field_def text_or_def json_of_network_reference_def
        jobj_def arc_network_def)
  have b: "rb_operationId ?b = ''workspace.list''" "rb_signatureStandard ?b = ''eip-712''"
      "rb_primaryType ?b = RUNTIME_TRANSITION_PRIMARY_TYPE" "rb_signaturePurpose ?b = arc_signaturePurpose"
      "rb_domain ?b = arc_signatureDomain" "rb_chainId ?b = ''5042002''" "rb_anchorContract ?b = arc_anchorContract"
    by (simp_all add: list_signature_def demo_signature_def)
  have h: "hashRuntimePayload demo_deps (Some (json_of_request_data (rq_data ?r))) = Inr (rb_payloadHash ?b)"
    unfolding r
    by (simp add: hashRuntimePayload_def canonicalizeRuntimePayload_def unsigned_payload_def list_signature_def
        demo_signature_def list_data_def)
  have "default_binding_options demo_now = demo_options"
    by (simp add: default_binding_options_def demo_options_def MAX_SIGNATURE_LIFETIME_SECONDS_def DEFAULT_CLOCK_SKEW_SECONDS_def)
  then have w: "assertSignatureWindow ?b (default_binding_options demo_now) = Inr ()"
    unfolding list_signature_def by (simp add: demo_window)
  show ?thesis
    by (simp add: assertRuntimeBinding_def r(1-3) b h w assertNetwork_def matches_runtime_domain_def
        arc_signatureDomain_def arc_network_def sameAddress_def)
qed

lemma list_admitted: "admit_discovery demo_deps demo_now list_body = Inr list_discovery"
proof -
  have "field (Some list_body) ''operationId'' = Some (JStr ''workspace.list'')"
    "field (Some list_body) ''data'' = Some (JObj [(''walletAddress'', JStr owner),
        (''signatureBinding'', json_of_runtime_signature_binding list_signature)])"
    "isRecord (field (Some list_body) ''network'')" "isRecord (field (Some list_body) ''subject'')"
    by (simp_all add: list_body_def field_def json_of_network_reference_def jobj_def)
  moreover have "field (Some (JObj [(''walletAddress'', JStr owner),
        (''signatureBinding'', json_of_runtime_signature_binding list_signature)])) ''walletAddress'' = Some (JStr owner)"
    "field (Some (JObj [(''walletAddress'', JStr owner),
        (''signatureBinding'', json_of_runtime_signature_binding list_signature)])) ''signatureBinding'' =
        Some (json_of_runtime_signature_binding list_signature)"
    by (simp_all add: field_def)
  moreover have "isRecord (Some (json_of_runtime_signature_binding list_signature))"
    by (simp add: json_of_runtime_signature_binding_def jobj_def)
  moreover have "sameAddress demo_deps owner (rb_signer list_signature)"
    by (simp add: list_signature_def demo_signature_def sameAddress_def)
  ultimately show ?thesis
    by (simp add: admit_discovery_def Let_def text_or_def list_binding_accepted list_discovery_def)
qed

lemma demo_ready: "runtime_resources demo_env = Inr ()" "assertRuntimeReady demo_env = Inr ()"
  by code_simp+

lemma stored_state: "storable_state demo_deps st \<Longrightarrow> stateFromRow demo_deps (pg_state (stored st)) = Inr st"
  by (simp add: stored_def stateFromRow_def normalize_persist)

lemma demo_state1_storable: "storable_state demo_deps demo_state1"
  by (simp add: demo_state1_def storable_state_def emptyRuntimeState_def)

lemma list_verified: "verify demo_deps demo_provider list_signature = Inr ()"
  using demo_verified [of owner "''workspace.list''" "''7''" list_data] by (simp add: list_signature_def verifyBinding_def split: sum.splits)

lemma list_answered:
  "\<exists>x. discoverRuntime demo_deps demo_provider answering demo_env demo_now None list_text (stored demo_state1) = Inr [x] \<and>
     dw_workspace x = demo_workspace"
proof -
  have readable: "readable demo_deps demo_state1 None owner = [''w1'']"
    by (simp add: readable_def demo_state1_def set_text_def canReadWorkspace_def js_get_own sameAddress_def emptyRuntimeState_def)
  obtain v where v: "workspaceSnapshot demo_state1 ''w1'' = Some v" "sn_workspace v = demo_workspace"
    by (auto simp: workspaceSnapshot_def demo_state1_def Let_def)
  have "pg_snapshot demo_deps answering (stored demo_state1) = Inr demo_state1"
    using stored_state [OF demo_state1_storable] by (simp add: pg_snapshot_def query_def)
  with v readable have "discoverRuntime demo_deps demo_provider answering demo_env demo_now None list_text (stored demo_state1) =
      Inr [shown demo_state1 v]"
    by (simp add: discoverRuntime_def list_body_read list_admitted demo_ready list_verified wrapped_def list_discovery_def
        List.map_filter_def)
  with v show ?thesis by (simp add: shown_def Let_def)
qed


section \<open>Requests that write, and the administrator's\<close>

definition path_body :: json where
  "path_body = JObj [(''path'', JObj [])]"

definition path_text :: string where
  "path_text = js_stringify path_body"

definition demo_worker_request :: "string \<Rightarrow> string \<Rightarrow> string \<Rightarrow> worker_request" where
  "demo_worker_request m route body =
     \<lparr>wr_method = m, wr_path = RUNTIME_BASE @ route, wr_contentLength = None,
      wr_authorization = Some ''Bearer secret'', wr_body = body\<rparr>"

definition demo_view :: "json \<Rightarrow> operation_request" where
  "demo_view body = call_request register_call"

definition demo_view_path :: "json \<Rightarrow> path" where
  "demo_view_path body = demo_path"

definition owner_signs :: "string \<Rightarrow> string \<Rightarrow> string option" where
  "owner_signs digest signature = Some owner"

definition demo_handle :: "worker_request \<Rightarrow> pg_tables \<Rightarrow> (worker_error + worker_answer) \<times> pg_tables" where
  "demo_handle = handleRuntime owner_signs demo_deps demo_provider answering demo_view demo_view_path demo_env demo_now"

lemma path_body_read: "bodyRecord None path_text = Inr path_body" "field (Some path_body) ''path'' = Some (JObj [])"
proof -
  have "int (length path_text) \<le> MAX_BODY_BYTES" by code_simp
  moreover have "(case to_number (Some (JStr ''0'')) of None \<Rightarrow> True | Some n \<Rightarrow> n \<le> MAX_BODY_BYTES)" by code_simp
  moreover have "\<not> custody_key ''path''" by code_simp
  moreover have "js_parse path_text = Some path_body"
    unfolding path_text_def by (rule parse_stringify) (simp add: path_body_def)
  ultimately show "bodyRecord None path_text = Inr path_body" by (simp add: bodyRecord_eq_Inr path_body_def)
qed (simp add: path_body_def field_def)

lemma demo_routes: "RUNTIME_BASE @ r = RUNTIME_BASE @ r' \<longleftrightarrow> r = r'" "starts_with RUNTIME_BASE (RUNTIME_BASE @ r)"
  by (simp_all add: starts_with_def)

lemma pg_empty: "pg_ok demo_deps \<lparr>pg_state = None, pg_nonces = []\<rparr>"
    "pg_state_of demo_deps \<lparr>pg_state = None, pg_nonces = []\<rparr> = emptyRuntimeState"
  by (simp_all add: pg_ok_def pg_state_of_def stateFromRow_def)

lemma path_accepted:
  "\<exists>p. fst (demo_handle (demo_worker_request ''POST'' ''/path'' path_text) \<lparr>pg_state = None, pg_nonces = []\<rparr>) =
     Inr (Path_accepted p)"
proof -
  have "demo_path\<lparr>pa_status := PS_PREPARED\<rparr> = demo_path" by (simp add: demo_path_def)
  with demo_path_valid [of PS_PREPARED "''Path''"] have schema: "assertValidSchema demo_deps (schema_id ''path'') (json_of_path demo_path) = Inr ()"
    by (auto simp: assertValidStoredState_def split: sum.splits)
  obtain v where v: "attestApplicationPath owner_signs demo_deps (toISOString demo_now) demo_path = Inr v"
      "pv_source v = PSrc_wallet_signed" "pv_evidenceLevel v = EL_independently_verified"
    by (auto simp: attestApplicationPath_def attestation_digest_def hashRuntimePayload_def canonicalizeRuntimePayload_def
        jobj_def owner_signs_def sameAddress_def demo_path_def demo_binding_def)
  have "assertValidSchema demo_deps (schema_id ''provenance'') (json_of_provenance v) = Inr ()"
    by (simp add: assertValidSchema_def validatorFor_def demo_validate_other schema_id_def payload_schema_def)
  with v have attested: "attestedProvenance demo_deps (attestApplicationPath owner_signs demo_deps (toISOString demo_now)) demo_path = Inr v"
    by (simp add: attestedProvenance_def)
  show ?thesis
    by (simp add: demo_handle_def handleRuntime_def demo_worker_request_def demo_routes demo_ready handle_path_def
        path_body_read demo_view_path_def ingestPath_def schema attested v Let_def
        pg_transact_def pg_body_answering [OF pg_empty(1)] pg_empty(2) plain_op_def ingest_op_def emptyRuntimeState_def
        js_get_own conflicts_def present_def wrapped_def prototype_keys_def)
qed

end
