(* ===== verification/Interface_Worker_Properties.thy ===== *)
theory Interface_Worker_Properties
  imports Interface_Worker_Demo Runtime_Properties
begin

text \<open>
  The properties of the interface worker, each with a request at which it applies.
\<close>

lemma canRead_same: "canReadWorkspace E st wid a \<Longrightarrow> sameAddress E a b \<Longrightarrow> canReadWorkspace E st wid b"
  unfolding canRead_iff walletIs_iff using sameAddress_trans by blast

lemma set_map_filter: "set (List.map_filter f xs) = {y. \<exists>x \<in> set xs. f x = Some y}"
  by (induction xs) (auto simp: List.map_filter_simps split: option.split)

text \<open>C34: An answered read of workspaces was asked for by a signed body: the binding covers the operation
  and the hash of the data, is within its window and verified.  Each workspace in the answer is one
  that the signer is the authority or a registered actor of, and its part of the answer is exactly its
  own rows of the state; and a list misses no workspace the signer may read.\<close>

theorem discovery_reads_own_workspaces:
  assumes "discoverRuntime E P conn env now contentLength body_text db = Inr found"
  shows "\<exists>body b st. js_parse body_text = Some body \<and> signed_read E P now body b \<and>
    stateFromRow E (pg_state db) = Inr st \<and>
    (\<forall>x \<in> set found. \<exists>wid. own (st_workspaces st) wid = Some (dw_workspace x) \<and>
       belongs_to E st wid (rb_signer b) \<and> of_workspace st wid (dw_runtime x)) \<and>
    (rb_operationId b = ''workspace.list'' \<longrightarrow>
       (\<forall>wid w. own (st_workspaces st) wid = Some w \<longrightarrow> canReadWorkspace E st wid (rb_signer b) \<longrightarrow>
          (\<exists>x \<in> set found. dw_workspace x = w)))"
proof -
  obtain body d st where b: "js_parse body_text = Some body" "admit_discovery E now body = Inr d"
      "verify E P (ds_binding d) = Inr ()" "stateFromRow E (pg_state db) = Inr st"
    and found: "found = map (shown st) (List.map_filter (workspaceSnapshot st) (readable E st (ds_workspaceId d) (ds_wallet d)))"
    using discoverRuntime_Inr [OF assms] by blast
  note d = admit_discovery_Inr [OF b(2)]
  then have signed: "signed_read E P now body (ds_binding d)" using b(3) by (auto simp: signed_read_def)
  from d have same: "sameAddress E (ds_wallet d) (rb_signer (ds_binding d))" by simp
  have each: "\<exists>wid. own (st_workspaces st) wid = Some (dw_workspace x) \<and>
      belongs_to E st wid (rb_signer (ds_binding d)) \<and> of_workspace st wid (dw_runtime x)" if x: "x \<in> set found" for x
  proof -
    from x found obtain wid v where v: "wid \<in> set (readable E st (ds_workspaceId d) (ds_wallet d))"
        "workspaceSnapshot st wid = Some v" "x = shown st v"
      by (auto simp: set_map_filter)
    from v(2) have "of_workspace st wid v" by (rule snapshot_of_workspace)
    moreover from v(1) have "belongs_to E st wid (rb_signer (ds_binding d))"
      using canRead_belongs belongs_same [OF _ same] by (auto simp: readable_iff)
    ultimately show ?thesis by (auto simp: v(3) shown_def Let_def of_workspace_def)
  qed
  have all: "\<exists>x \<in> set found. dw_workspace x = w"
    if op: "rb_operationId (ds_binding d) = ''workspace.list''" and w: "own (st_workspaces st) wid = Some w"
      and r: "canReadWorkspace E st wid (rb_signer (ds_binding d))" for wid w
  proof -
    from d op have "ds_workspaceId d = None" by auto
    with w canRead_same [OF r sameAddress_sym [OF same]]
    have "wid \<in> set (readable E st (ds_workspaceId d) (ds_wallet d))" by (simp add: readable_iff set_text_def)
    moreover obtain v where v: "workspaceSnapshot st wid = Some v" "sn_workspace v = w"
      using w by (auto simp: workspaceSnapshot_def Let_def)
    ultimately have "shown st v \<in> set found" by (auto simp: found set_map_filter)
    with v(2) show ?thesis by (force simp: shown_def Let_def)
  qed
  from b(1,4) signed each all show ?thesis by blast
qed

lemma discovery_reads_own_workspaces_witness:
  "\<exists>x body b st. discoverRuntime demo_deps demo_provider answering demo_env demo_now None list_text (stored demo_state1) = Inr [x] \<and>
     signed_read demo_deps demo_provider demo_now body b \<and> stateFromRow demo_deps (pg_state (stored demo_state1)) = Inr st \<and>
     (\<exists>wid. own (st_workspaces st) wid = Some (dw_workspace x) \<and> belongs_to demo_deps st wid (rb_signer b))"
proof -
  obtain x where x: "discoverRuntime demo_deps demo_provider answering demo_env demo_now None list_text (stored demo_state1) = Inr [x]"
    using list_answered by blast
  from discovery_reads_own_workspaces [OF x] x show ?thesis by fastforce
qed








text \<open>The whole state is answered only to a GET whose header carries the administrator's token, which
  must be set and not empty.\<close>

theorem state_needs_admin:
  assumes "fst (handleRuntime V E P conn view view_path env now req db) = Inr (State_of st)"
  shows "wr_method req = ''GET'' \<and> (\<exists>token. token \<noteq> [] \<and> wn_adminToken env = Some token \<and>
    wr_authorization req = Some (''Bearer '' @ token)) \<and> snd (handleRuntime V E P conn view view_path env now req db) = db"
proof -
  have no: "handle_path V E conn view_path env now req db \<noteq> (Inr (State_of st), x)"
    "handle_execute E P conn view env now req db \<noteq> (Inr (State_of st), x)" for x
    by (rule handle_path_cases [of V E conn view_path env now req db]; auto simp: res_simps)
      (rule handle_execute_cases [of E P conn view env now req db]; auto simp: res_simps)
  from handleRuntime_state [OF assms no] show ?thesis
    using assertRuntimeAdmin_eq_Inr [of "wr_authorization req" env] by (auto simp: handle_state_def res_simps)
qed

lemma state_needs_admin_witness:
  "\<exists>st. fst (demo_handle (demo_worker_request ''GET'' ''/state'' []) \<lparr>pg_state = None, pg_nonces = []\<rparr>) = Inr (State_of st) \<and>
     (\<exists>token. wr_authorization (demo_worker_request ''GET'' ''/state'' []) = Some (''Bearer '' @ token) \<and>
        wn_adminToken demo_env = Some token)"
proof -
  have "pg_snapshot demo_deps answering \<lparr>pg_state = None, pg_nonces = []\<rparr> = Inr emptyRuntimeState"
    by (simp add: pg_snapshot_def query_def stateFromRow_def)
  moreover have "assertRuntimeAdmin (Some ''Bearer secret'') demo_env = Inr ()" by code_simp
  ultimately have "fst (demo_handle (demo_worker_request ''GET'' ''/state'' []) \<lparr>pg_state = None, pg_nonces = []\<rparr>) =
      Inr (State_of emptyRuntimeState)"
    by (simp add: demo_handle_def handleRuntime_def demo_worker_request_def demo_routes demo_ready handle_state_def
        wrapped_def Let_def)
  with state_needs_admin [OF this [unfolded demo_handle_def]] show ?thesis by auto
qed

text \<open>C38: The worker reads a body exactly when it is within the limit, is JSON text of an object, and no
  member at any depth of it, inside arrays too, is named like a key or a seed.\<close>

theorem bodies_without_custody:
  "bodyRecord contentLength body_text = Inr v \<longleftrightarrow>
     (\<not> (\<exists>n. to_number (Some (JStr (the_or contentLength ''0''))) = Some n \<and> 65536 < n)) \<and>
     length body_text \<le> 65536 \<and> js_parse body_text = Some v \<and> isRecord (Some v) \<and>
     (\<forall>k \<in> member_names v. \<not> custody_key k)"
  unfolding bodyRecord_eq_Inr
  by (cases "to_number (Some (JStr (the_or contentLength ''0'')))") (simp_all add: the_or_def MAX_BODY_BYTES_def not_less)

lemma bodies_without_custody_witness:
  "bodyRecord None list_text = Inr list_body \<and> \<not> custody_key ''walletAddress'' \<and>
   (\<forall>v. bodyRecord None (js_stringify (JObj [(''data'', JArr [JObj [(''PrivateKey'', JStr ''0x'')]])])) \<noteq> Inr v)"
proof -
  have key: "custody_key ''PrivateKey''" "\<not> custody_key ''walletAddress''" by code_simp+
  have "js_parse (js_stringify (JObj [(''data'', JArr [JObj [(''PrivateKey'', JStr ''0x'')]])])) =
      Some (JObj [(''data'', JArr [JObj [(''PrivateKey'', JStr ''0x'')]])])"
    by (rule parse_stringify) simp
  with key bodies_without_custody [of None "js_stringify (JObj [(''data'', JArr [JObj [(''PrivateKey'', JStr ''0x'')]])])"]
  show ?thesis by (auto simp: list_body_read simp del: js_stringify.simps)
qed

text \<open>A read of the chain over several endpoints gives the answer of the first endpoint that answers,
  and the error of the last one only when none does.\<close>

theorem fallback_first_answer:
  "prov_getCode (fallbackProvider ps) a =
     (case find (\<lambda>p. \<not> throws (prov_getCode p a)) ps of
        Some p \<Rightarrow> prov_getCode p a
      | None \<Rightarrow> if ps = [] then Inl (JsError ''No Arc read provider is configured for eth_getCode.'') else prov_getCode (last ps) a) \<and>
   prov_call (fallbackProvider ps) t d =
     (case find (\<lambda>p. \<not> throws (prov_call p t d)) ps of
        Some p \<Rightarrow> prov_call p t d
      | None \<Rightarrow> if ps = [] then Inl (JsError ''No Arc read provider is configured for eth_call.'') else prov_call (last ps) t d)"
  by (simp add: fallbackProvider_def read_from_first)

end
