(* ===== verification/Relay_Workers.thy ===== *)
theory Relay_Workers
  imports Play_Settlement
begin

text \<open>
  The routes that send a payer's signed envelope to the hub: \<open>/relay-claim\<close> and \<open>/relay-open\<close> of
  \<open>workers/reconciliation-worker/src/index.ts\<close>, with their rate limit, and \<open>/session/open\<close> of
  \<open>workers/music-scrobble-worker\<close> (\<open>index.ts\<close>, \<open>openSession.ts\<close>).

  The node's answers are those of one request; the state is what was sent to the chain.  A name that
  the module neither imports nor declares throws when it is evaluated, after the parts of the
  expression before it.
\<close>


section \<open>Envelope tokens\<close>

text \<open>\<open>atob\<close>: white space is dropped, then at most two \<open>=\<close> of a text of whole groups.\<close>

definition atob :: "string \<Rightarrow> string option" where
  "atob s =
     (let t = filter (\<lambda>c. char_code c \<notin> {9, 10, 12, 13, 32}) s;
          u = (if length t mod 4 \<noteq> 0 then t
            else if length t \<ge> 2 \<and> drop (length t - 2) t = ''=='' then take (length t - 2) t
            else if t \<noteq> [] \<and> last t = CHR ''='' then butlast t else t)
      in if length u mod 4 = 1 \<or> (\<exists>c \<in> set u. b64_digit c = None) then None
         else Some (map char_of (b64_ungroup (List.map_filter b64_digit u))))"

definition decodeEnvelope :: "js_value \<Rightarrow> json option" where
  "decodeEnvelope token =
     (case token of
        Some (JStr s) \<Rightarrow>
          let b64 = replace_char CHR ''_'' CHR ''/'' (replace_char CHR ''-'' CHR ''+'' s) in
          Option.bind (atob (b64 @ replicate ((4 - length b64 mod 4) mod 4) CHR ''='')) js_parse
      | _ \<Rightarrow> None)"


section \<open>The permit check\<close>

definition is_text :: "js_value \<Rightarrow> bool" where
  "is_text v = (case v of Some (JStr s) \<Rightarrow> True | _ \<Rightarrow> False)"

definition text_of_value :: "js_value \<Rightarrow> string" where
  "text_of_value v = (case v of None \<Rightarrow> ''undefined'' | Some x \<Rightarrow> to_text x)"

text \<open>\<open>validateRelayPermit\<close> (\<open>workers/shared/relay.ts\<close>): the reason to refuse, if any.\<close>

definition validateRelayPermit :: "js_value \<Rightarrow> string \<Rightarrow> string \<Rightarrow> int \<Rightarrow> int \<Rightarrow> string option" where
  "validateRelayPermit permit payer hubAddress allocation nowSeconds =
     (let text_at = (\<lambda>k. text_of_value (field permit k));
          invalid = Some ''Permit contains invalid authorization values'' in
      if is_nullish permit then invalid
      else if \<not> isEvmAddress (text_at ''owner'') then Some ''Permit owner does not match the signed payer''
      else if \<not> is_text (field permit ''owner'') then invalid
      else if toLowerCase (text_at ''owner'') \<noteq> toLowerCase payer then Some ''Permit owner does not match the signed payer''
      else if \<not> isEvmAddress (text_at ''spender'') then Some ''Permit spender does not match the OpenRails Hub''
      else if \<not> is_text (field permit ''spender'') then invalid
      else if toLowerCase (text_at ''spender'') \<noteq> toLowerCase hubAddress then Some ''Permit spender does not match the OpenRails Hub''
      else (case to_BigInt (field permit ''value'') of
          None \<Rightarrow> invalid
        | Some v \<Rightarrow>
            if v < allocation then Some ''Permit value is below the signed allocation''
            else (case field permit ''deadline'' of
                Some (JNum d) \<Rightarrow>
                  if \<bar>d\<bar> > 9007199254740991 \<or> d \<le> nowSeconds then Some ''Permit is expired or has an invalid deadline'' else None
              | _ \<Rightarrow> Some ''Permit is expired or has an invalid deadline'')))"


section \<open>The rate limit of the relay\<close>

definition RELAY_RATE_LIMIT_WINDOW_MS :: int where
  "RELAY_RATE_LIMIT_WINDOW_MS = 60000"

definition RELAY_RATE_LIMIT_MAX :: nat where
  "RELAY_RATE_LIMIT_MAX = 30"

type_synonym relay_limits = "(nat \<times> int) js_map"

definition checkRelayRateLimit ::
    "int \<Rightarrow> string option \<Rightarrow> string \<Rightarrow> relay_limits \<Rightarrow> http_response option \<times> relay_limits" where
  "checkRelayRateLimit now ip route limits =
     (let key = route @ '':'' @ (case ip of Some s \<Rightarrow> if s = [] then ''unknown'' else s | None \<Rightarrow> ''unknown'');
          limits' = (if length limits > 5000 then filter (\<lambda>(k, c, r). now < r) limits else limits) in
      case map_get limits' key of
        None \<Rightarrow> (None, map_put key (1, now + RELAY_RATE_LIMIT_WINDOW_MS) limits')
      | Some (used, resetAt) \<Rightarrow>
          if resetAt \<le> now then (None, map_put key (1, now + RELAY_RATE_LIMIT_WINDOW_MS) limits')
          else if RELAY_RATE_LIMIT_MAX \<le> used
          then (Some \<lparr>rs_status = 429, rs_body = jobj [
                  (''error'', Some (JStr ''Relay rate limit exceeded'')),
                  (''retryAfterSeconds'', Some (JNum ((resetAt - now + 999) div 1000)))]\<rparr>, limits')
          else (None, map_put key (Suc used, resetAt) limits'))"


section \<open>Relaying a claim\<close>

record relay_env =
  rl_enabled :: "string option"
  rl_signerKey :: "string option"
  rl_hub :: string
  rl_usdc :: "string option"
  rl_rpcUrls :: "string list"

record relay_node =
  rn_wallet :: "string + string"
  rn_balance :: "string \<Rightarrow> string + int"
  rn_nonce :: "string \<Rightarrow> int \<Rightarrow> string + int"
  rn_allowance :: "string \<Rightarrow> string + int"
  rn_allowance_after :: "string \<Rightarrow> string + int"
  rn_permit_check :: "string + unit"
  rn_permit_send :: "string + unit"
  rn_check :: "json list \<Rightarrow> string + unit"
  rn_send :: "json list \<Rightarrow> string + string"
  rn_wait :: "string \<Rightarrow> string + unit"

datatype relay_tx = Permit_tx | Hub_tx string "json list"

type_synonym sent = "relay_tx list"

text \<open>A transaction is sent, whatever becomes of it, unless sending throws.\<close>

definition send_tx :: "relay_tx \<Rightarrow> string + 'a \<Rightarrow> (sent, 'a) task" where
  "send_tx tx r = await (\<lambda>w. case r of Inl e \<Rightarrow> (Inl e, w) | Inr x \<Rightarrow> (Inr x, w @ [tx]))"

definition reply :: "nat \<Rightarrow> string \<Rightarrow> string + (http_response + 'a)" where
  "reply status e = Inr (Inl (error_response status e))"

definition present_text :: "string option \<Rightarrow> bool" where
  "present_text v \<longleftrightarrow> v \<noteq> None \<and> v \<noteq> Some []"

text \<open>\<open>/^0x0{40}$/i\<close>\<close>

definition zero_address_text :: "js_value \<Rightarrow> bool" where
  "zero_address_text v \<longleftrightarrow> toLowerCase (text_of_value v) = ''0x'' @ replicate 40 (CHR ''0'')"

record claim =
  cl_envelope :: json
  cl_bearer :: bool
  cl_recipient :: string

text \<open>The envelope of a request to the relay: the checks both routes begin with.\<close>

definition envelope_of :: "relay_env \<Rightarrow> json option \<Rightarrow> string + (http_response + json)" where
  "envelope_of env body =
     (if toLowerCase (case rl_enabled env of Some s \<Rightarrow> s | None \<Rightarrow> ''true'') = ''false''
      then reply 503 ''Claim relay is disabled''
      else if \<not> present_text (rl_signerKey env) then reply 503 ''Relay signer is not configured''
      else (case body of
        None \<Rightarrow> reply 400 ''Invalid JSON body''
      | Some b \<Rightarrow>
          if b = JNull then Inl type_error
          else if \<not> truthy (field body ''envelopeToken'') then reply 400 ''Missing envelopeToken''
          else (case decodeEnvelope (field body ''envelopeToken'') of
              None \<Rightarrow> reply 400 ''Could not decode envelopeToken''
            | Some e \<Rightarrow>
                if e = JNull then Inl type_error
                else if \<not> truthy (field (field (Some e) ''intent'') ''paycardId'') \<or> \<not> truthy (field (Some e) ''envelopeSignature'')
                then reply 400 ''Envelope is missing an intent or signature''
                else Inr (Inr e))))"

text \<open>What \<open>relayClaim\<close> checks before it asks the chain anything.\<close>

definition claim_of :: "ethers \<Rightarrow> relay_env \<Rightarrow> json option \<Rightarrow> string + (http_response + claim)" where
  "claim_of X env body =
     res_bind (envelope_of env body) (\<lambda>r. case r of Inl resp \<Rightarrow> Inr (Inl resp) | Inr e \<Rightarrow>
     (let i = field (Some e) ''intent''; mode = field (Some e) ''mode'';
          bearer = (mode = Some (JStr ''railscard_bearer'') \<or> zero_address_text (field i ''recipient''));
          recipient = (if bearer then field body ''claimRecipient'' else field i ''recipient'') in
      if mode \<noteq> Some (JStr ''railscard_bearer'') \<and> mode \<noteq> Some (JStr ''railscard_recipient_bound'')
      then reply 400 ''relay-claim only accepts RailsCard envelopes''
      else if \<not> present_text (rl_usdc env) then reply 503 ''USDC address is not configured''
      else if bearer \<and> \<not> truthy recipient then reply 400 ''Bearer card requires a claimRecipient address''
      else (case address_of X recipient of
          None \<Rightarrow> reply 400 ''Invalid claimRecipient address''
        | Some a \<Rightarrow> Inr (Inr \<lparr>cl_envelope = e, cl_bearer = bearer, cl_recipient = a\<rparr>))))"

text \<open>The permit of a legacy card.  A missing or mistyped member throws where the code reads it.\<close>

definition lower_of :: "js_value \<Rightarrow> string + string" where
  "lower_of v = (case v of Some (JStr s) \<Rightarrow> Inr (toLowerCase s) | _ \<Rightarrow> Inl type_error)"

definition bigint_of :: "js_value \<Rightarrow> string + int" where
  "bigint_of v = (case to_BigInt v of Some n \<Rightarrow> Inr n | None \<Rightarrow> Inl type_error)"

definition permit_usable :: "js_value \<Rightarrow> string \<Rightarrow> string \<Rightarrow> int \<Rightarrow> int \<Rightarrow> string + bool" where
  "permit_usable p payer hub allocation now =
     res_bind (lower_of (field p ''owner'')) (\<lambda>own'.
     res_bind (if own' \<noteq> toLowerCase payer then Inr False
       else res_bind (lower_of (field p ''spender'')) (\<lambda>spender.
         if spender \<noteq> toLowerCase hub then Inr False
         else res_bind (bigint_of (field p ''value'')) (\<lambda>v. Inr (allocation \<le> v)))) (\<lambda>matches.
     Inr (matches \<and> \<not> js_lte (field p ''deadline'') (Some (JNum now)))))"

definition try_permit :: "relay_node \<Rightarrow> js_value \<Rightarrow> (sent, unit) task" where
  "try_permit N p =
     catch_task
       (if to_BigInt (field p ''value'') = None \<or> to_BigInt (field p ''deadline'') = None then throw type_error
        else bind_task (ask (rn_permit_check N)) (\<lambda>_. send_tx Permit_tx (rn_permit_send N)))
       (\<lambda>e. give ())"

text \<open>The arguments of the call, in order: \<open>nonceChannel\<close> is not declared.\<close>

definition claim_args :: "claim \<Rightarrow> int \<Rightarrow> string \<Rightarrow> string + json list" where
  "claim_args c allocation payer =
     (let i = field (Some (cl_envelope c)) ''intent''; v = (\<lambda>k. case field i k of Some x \<Rightarrow> x | None \<Rightarrow> JNull) in
      res_bind (bigint_of (field i ''flowVelocityPerSecond'')) (\<lambda>velocity.
      res_bind (bigint_of (field i ''genesisTimestamp'')) (\<lambda>genesis.
      res_bind (bigint_of (field i ''lifespanSeconds'')) (\<lambda>lifespan.
      res_bind (Inl (not_defined ''nonceChannel'')) (\<lambda>(nonceChannel, nonceValue).
      Inr [v ''paycardId'', v ''metadataHash'', JStr (cl_recipient c), JNum allocation, JNum velocity, JNum genesis,
        JNum lifespan, v ''residualDeltaRecipient'', the (field (Some (cl_envelope c)) ''envelopeSignature''),
        nonceChannel, nonceValue, JStr payer])))))"

definition call_hub :: "relay_node \<Rightarrow> string \<Rightarrow> json list \<Rightarrow> json \<Rightarrow> js_value \<Rightarrow> js_value \<Rightarrow> (sent, http_response) task" where
  "call_hub N fn args paycardId recipient mode =
     bind_task (catch_task (ask (rn_check N args)) (\<lambda>e. throw (not_defined ''safeRpcError''))) (\<lambda>_.
     catch_task
       (bind_task (send_tx (Hub_tx fn args) (rn_send N args)) (\<lambda>hash.
        bind_task (ask (rn_wait N hash)) (\<lambda>_.
        give (ok_response [(''txHash'', Some (JStr hash)), (''paycardId'', Some paycardId), (''recipient'', recipient),
          (''mode'', mode)]))))
       (\<lambda>e. throw (not_defined ''safeRpcError'')))"

definition pay_claim :: "ethers \<Rightarrow> relay_env \<Rightarrow> relay_node \<Rightarrow> int \<Rightarrow> claim \<Rightarrow> (sent, http_response) task" where
  "pay_claim X env N now c =
     (let e = Some (cl_envelope c); i = field e ''intent''; refuse = (\<lambda>m. give (error_response 409 m)) in
      if rl_rpcUrls env = [] then throw ''No Arc RPC provider is configured''
      else (case rn_wallet N of Inl err \<Rightarrow> throw err | Inr _ \<Rightarrow>
      (case (bigint_of (field i ''totalAllocationPool''), address_of X (field e ''payerAddress''), bigint_of (field i ''nonceChannel'')) of
         (Inr allocation, Some payer, Inr channel) \<Rightarrow>
           bind_task (ask (rn_balance N payer)) (\<lambda>balance.
           bind_task (ask (rn_nonce N payer channel)) (\<lambda>nonce.
           (case bigint_of (field i ''nonceValue'') of Inl err \<Rightarrow> throw err | Inr nonceValue \<Rightarrow>
           if nonce \<noteq> nonceValue
           then refuse ''This RailsCard is stale or already claimed. Ask the sender to reissue it.''
           else if balance < allocation
           then refuse ''The sender no longer has enough USDC for this RailsCard. Ask the sender to reissue it.''
           else
           bind_task (ask (rn_allowance N payer)) (\<lambda>allowance.
           bind_task
             (if allowance < allocation \<and> truthy (field e ''permit'')
              then (case permit_usable (field e ''permit'') payer (rl_hub env) allocation now of
                  Inl err \<Rightarrow> throw err
                | Inr False \<Rightarrow> give None
                | Inr True \<Rightarrow>
                    bind_task (try_permit N (field e ''permit'')) (\<lambda>_.
                    bind_task (ask (rn_allowance_after N payer)) (\<lambda>a. give (Some a))))
              else give (Some allowance)) (\<lambda>usable.
           (case usable of
              None \<Rightarrow> refuse (''The sender'' @ [char_of (39::nat)] @ ''s RailsCard authorization expired or is invalid. Ask the sender to reissue it.'')
            | Some a \<Rightarrow>
                if a < allocation
                then refuse (''The sender'' @ [char_of (39::nat)] @ ''s RailsCard authorization is unavailable. Ask the sender to reissue it.'')
                else
                (case claim_args c allocation payer of
                   Inl err \<Rightarrow> throw err
                 | Inr args \<Rightarrow>
                     call_hub N (if cl_bearer c then ''claimWildcardPaycardChannel'' else ''openPaycardChannel'') args
                       (the (field i ''paycardId'')) (Some (JStr (cl_recipient c))) (field e ''mode''))))))))
       | _ \<Rightarrow> throw type_error)))"

definition relayClaim :: "ethers \<Rightarrow> relay_env \<Rightarrow> relay_node \<Rightarrow> int \<Rightarrow> json option \<Rightarrow> (sent, http_response) task" where
  "relayClaim X env N now body =
     (case claim_of X env body of
        Inl e \<Rightarrow> throw e
      | Inr (Inl resp) \<Rightarrow> give resp
      | Inr (Inr c) \<Rightarrow> pay_claim X env N now c)"


section \<open>Relaying an opening\<close>

text \<open>
  \<open>validateRelayPermit\<close> is not imported and \<open>allocation\<close>, the fourth argument of the call, not declared:
  nothing after them is ever evaluated.
\<close>

definition relayOpen :: "relay_env \<Rightarrow> relay_node \<Rightarrow> json option \<Rightarrow> (sent, http_response) task" where
  "relayOpen env N body =
     (case envelope_of env body of
        Inl e \<Rightarrow> throw e
      | Inr (Inl resp) \<Rightarrow> give resp
      | Inr (Inr e) \<Rightarrow>
          if zero_address_text (field (field (Some e) ''intent'') ''recipient'')
          then give (error_response 400 ''relay-open needs a fixed recipient; use /relay-claim for bearer cards'')
          else if rl_rpcUrls env = [] then throw ''No Arc RPC provider is configured''
          else (case rn_wallet N of
              Inl err \<Rightarrow> throw err
            | Inr _ \<Rightarrow>
                if \<not> truthy (field body ''permit'') then throw (not_defined ''allocation'')
                else if \<not> present_text (rl_usdc env) then give (error_response 503 ''USDC address not configured for permit'')
                else throw (not_defined ''validateRelayPermit'')))"

text \<open>The two routes (\<open>claim\<close> or not), behind the method and the rate limit of the caller's address.\<close>

definition handle_relay ::
    "ethers \<Rightarrow> relay_env \<Rightarrow> relay_node \<Rightarrow> int \<Rightarrow> bool \<Rightarrow> string \<Rightarrow> string option \<Rightarrow> json option \<Rightarrow> relay_limits \<Rightarrow>
      (sent, http_response) task \<times> relay_limits" where
  "handle_relay X env N now_ms claim verb ip body limits =
     (if verb = ''OPTIONS'' then (give \<lparr>rs_status = 204, rs_body = JNull\<rparr>, limits)
      else if verb \<noteq> ''POST'' then (give (error_response 405 ''Only POST requests allowed''), limits)
      else (case checkRelayRateLimit now_ms ip (if claim then ''/relay-claim'' else ''/relay-open'') limits of
          (Some resp, limits') \<Rightarrow> (give resp, limits')
        | (None, limits') \<Rightarrow>
            (if claim then relayClaim X env N (now_ms div 1000) body else relayOpen env N body, limits')))"

end
