(* ===== verification/Listening_Session.thy ===== *)
theory Listening_Session
  imports Relay_Workers
begin

text \<open>
  The registry of artists and the opening of listening sessions: \<open>PUT /artist/:mbid\<close> and
  \<open>POST /session/open\<close> of \<open>workers/music-scrobble-worker/src/index.ts\<close>, with \<open>openListeningSession\<close> of
  \<open>openSession.ts\<close>.

  A session is opened on terms that either the listener signed, in an envelope token, or the relayer
  signs itself as the payer.  The state of a task is what was sent to the chain.
\<close>


section \<open>The registry of artists\<close>

definition handle_artist ::
    "string option \<Rightarrow> (string \<Rightarrow> string option) \<Rightarrow> string \<Rightarrow> json option \<Rightarrow> string js_map \<Rightarrow>
      (string + http_response) \<times> string js_map" where
  "handle_artist secret headers mbid body registry =
     (let wallet = field body ''wallet'' in
      if \<not> authorized headers secret ''X-OpenRails-Webhook-Secret'' then (Inr (error_response 401 ''Unauthorized''), registry)
      else if mbid = [] then (Inr (error_response 400 ''Missing mbid''), registry)
      else if \<not> truthy wallet \<or> \<not> isEvmAddress (text_of_value wallet)
      then (Inr (error_response 400 ''Invalid or missing wallet address''), registry)
      else (case wallet of
          Some (JStr w) \<Rightarrow>
            (Inr (ok_response [(''mbid'', Some (JStr mbid)), (''wallet'', Some (JStr (toLowerCase w)))]),
             map_put mbid (toLowerCase w) registry)
        | _ \<Rightarrow> (Inl (not_defined ''safeRpcError''), registry)))"

text \<open>A key that is no text makes the registry throw.\<close>

definition registry_get :: "string js_map \<Rightarrow> js_value \<Rightarrow> string + string option" where
  "registry_get registry mbid = (case mbid of Some (JStr m) \<Rightarrow> Inr (map_get registry m) | _ \<Rightarrow> Inl type_error)"


section \<open>The terms of a session\<close>

record session_params =
  lp_hubAddress :: string
  lp_rpcUrls :: "string list"
  lp_listener :: js_value
  lp_artistWallet :: string
  lp_budget :: int
  lp_velocity :: int
  lp_lifespan :: int
  lp_envelopeToken :: js_value

record session_terms =
  st_paycardId :: js_value
  st_metadataHash :: js_value
  st_recipient :: string
  st_pool :: int
  st_velocity :: int
  st_genesis :: int
  st_lifespan :: int
  st_residual :: string
  st_signature :: js_value
  st_channel :: int
  st_nonce :: int
  st_payer :: string

text \<open>
  The relayer's wallet (its address, unless its key is refused) and the chain's answers;
  \<open>so_paycardId\<close> is \<open>solidityPackedKeccak256\<close> of the payer, the nonce and the hash of the metadata.
\<close>

record session_node =
  so_wallet :: "string + string"
  so_chainId :: "string + int"
  so_nonce :: "string \<Rightarrow> int \<Rightarrow> string + int"
  so_paycardId :: "string \<Rightarrow> int \<Rightarrow> int \<Rightarrow> string \<Rightarrow> string"
  so_sign :: "json \<Rightarrow> json \<Rightarrow> string + string"
  so_check :: "json list \<Rightarrow> string + unit"
  so_send :: "json list \<Rightarrow> string + string"
  so_wait :: "string \<Rightarrow> string + unit"

definition session_domain :: "int \<Rightarrow> string \<Rightarrow> json" where
  "session_domain chainId hub = jobj [
     (''name'', Some (JStr ''OpenRails Network'')), (''version'', Some (JStr ''2.0.0'')),
     (''chainId'', Some (JNum (js_round chainId))), (''verifyingContract'', Some (JStr hub))]"

definition number_json :: "js_value \<Rightarrow> json" where
  "number_json v = (case to_number v of Some n \<Rightarrow> JNum n | None \<Rightarrow> JNull)"

text \<open>The message of the signature, as the verification rebuilds it from an envelope's intent.\<close>

definition verification_intent :: "js_value \<Rightarrow> json" where
  "verification_intent i = jobj [
     (''paycardId'', field i ''paycardId''), (''metadataHash'', field i ''metadataHash''),
     (''recipient'', field i ''recipient''),
     (''totalAllocationPool'', Some (JStr (text_of_value (field i ''totalAllocationPool'')))),
     (''flowVelocityPerSecond'', Some (JStr (text_of_value (field i ''flowVelocityPerSecond'')))),
     (''genesisTimestamp'', Some (number_json (field i ''genesisTimestamp''))),
     (''lifespanSeconds'', Some (number_json (field i ''lifespanSeconds''))),
     (''residualDeltaRecipient'', field i ''residualDeltaRecipient''),
     (''nonceChannel'', Some (number_json (field i ''nonceChannel''))),
     (''nonceValue'', Some (number_json (field i ''nonceValue'')))]"

definition checked_address :: "ethers \<Rightarrow> js_value \<Rightarrow> string + string" where
  "checked_address X v = (case address_of X v of Some a \<Rightarrow> Inr a | None \<Rightarrow> Inl type_error)"

text \<open>The terms an envelope carries.\<close>

definition envelope_terms :: "ethers \<Rightarrow> json \<Rightarrow> string + session_terms" where
  "envelope_terms X envelope =
     (let e = Some envelope; i = field e ''intent'' in
      if envelope = JNull then Inl type_error
      else if \<not> truthy i \<or> \<not> truthy (field e ''envelopeSignature'') \<or> \<not> truthy (field e ''payerAddress'')
      then Inl ''Invalid cryptographic envelope: missing intent, signature, or payerAddress''
      else
        res_bind (checked_address X (field e ''payerAddress'')) (\<lambda>payer.
        res_bind (checked_address X (field i ''recipient'')) (\<lambda>recipient.
        res_bind (bigint_of (field i ''totalAllocationPool'')) (\<lambda>pool.
        res_bind (bigint_of (field i ''flowVelocityPerSecond'')) (\<lambda>velocity.
        res_bind (bigint_of (field i ''genesisTimestamp'')) (\<lambda>genesis.
        res_bind (bigint_of (field i ''lifespanSeconds'')) (\<lambda>lifespan.
        res_bind (checked_address X (field i ''residualDeltaRecipient'')) (\<lambda>residual.
        res_bind (bigint_of (field i ''nonceChannel'')) (\<lambda>channel.
        res_bind (bigint_of (field i ''nonceValue'')) (\<lambda>nonce.
        Inr \<lparr>st_paycardId = field i ''paycardId'', st_metadataHash = field i ''metadataHash'', st_recipient = recipient,
          st_pool = pool, st_velocity = velocity, st_genesis = genesis, st_lifespan = lifespan,
          st_residual = residual, st_signature = field e ''envelopeSignature'', st_channel = channel,
          st_nonce = nonce, st_payer = payer\<rparr>))))))))))"

text \<open>The verifications: the signer is the payer, the payer the listener, the recipient the artist, the pool the budget.\<close>

definition verify_terms :: "ethers \<Rightarrow> session_params \<Rightarrow> int \<Rightarrow> json \<Rightarrow> session_terms \<Rightarrow> string + unit" where
  "verify_terms X P chainId envelope t =
     (let e = Some envelope in
      case et_verifyTypedData X (session_domain chainId (lp_hubAddress P)) (verification_intent (field e ''intent''))
          (st_signature t) of
        None \<Rightarrow> Inl type_error
      | Some recovered \<Rightarrow>
          if toLowerCase recovered \<noteq> toLowerCase (st_payer t)
          then Inl (''Signature verification failed: recovered '' @ recovered @ '' does not match payer '' @ st_payer t)
          else
            res_bind (lower_of (lp_listener P)) (\<lambda>listener.
            if toLowerCase (st_payer t) \<noteq> listener
            then Inl (''Listener address mismatch: envelope payer '' @ st_payer t @ '' does not match request listener '' @
              text_of_value (lp_listener P))
            else if toLowerCase (st_recipient t) \<noteq> toLowerCase (lp_artistWallet P)
            then Inl (''Artist wallet mismatch: envelope recipient '' @ st_recipient t @
              '' does not match registered artist wallet '' @ lp_artistWallet P)
            else if st_pool t \<noteq> lp_budget P
            then Inl (''Budget mismatch: envelope pool '' @ show_int (st_pool t) @ '' does not match requested budget '' @
              show_int (lp_budget P))
            else Inr ()))"

definition signed_terms :: "ethers \<Rightarrow> session_params \<Rightarrow> session_node \<Rightarrow> (sent, session_terms) task" where
  "signed_terms X P N =
     (case decodeEnvelope (lp_envelopeToken P) of
        None \<Rightarrow> throw type_error
      | Some envelope \<Rightarrow>
          (case envelope_terms X envelope of
             Inl err \<Rightarrow> throw err
           | Inr t \<Rightarrow>
               bind_task (ask (so_chainId N)) (\<lambda>chainId.
               case verify_terms X P chainId envelope t of Inl err \<Rightarrow> throw err | Inr _ \<Rightarrow> give t)))"

text \<open>The fallback: the relayer pays, and signs as the payer.\<close>

definition fallback_metadata :: "session_params \<Rightarrow> string \<Rightarrow> string \<Rightarrow> json" where
  "fallback_metadata P payer recipient = jobj [
     (''version'', Some (JStr ''openrails-metadata-v1'')), (''mode'', Some (JStr ''railsflow'')),
     (''originator'', Some (JStr payer)), (''recipient'', Some (JStr recipient)),
     (''token'', Some (JStr ''0x3600000000000000000000000000000000000000'')),
     (''amount'', Some (JStr (show_int (lp_budget P)))),
     (''flowVelocityPerSecond'', Some (JStr (show_int (lp_velocity P)))),
     (''lifespanSeconds'', Some (JNum (js_round (lp_lifespan P)))),
     (''metadataRef'', Some (JStr ''openrails-scrobble-sidecar-demo''))]"

definition fallback_intent :: "session_terms \<Rightarrow> json" where
  "fallback_intent t = jobj [
     (''paycardId'', st_paycardId t), (''metadataHash'', st_metadataHash t),
     (''recipient'', Some (JStr (st_recipient t))),
     (''totalAllocationPool'', Some (JStr (show_int (st_pool t)))),
     (''flowVelocityPerSecond'', Some (JStr (show_int (st_velocity t)))),
     (''genesisTimestamp'', Some (JNum (js_round (st_genesis t)))),
     (''lifespanSeconds'', Some (JNum (js_round (st_lifespan t)))),
     (''residualDeltaRecipient'', Some (JStr (st_residual t))),
     (''nonceChannel'', Some (JNum (js_round (st_channel t)))),
     (''nonceValue'', Some (JNum (js_round (st_nonce t))))]"

definition fallback_terms ::
    "ethers \<Rightarrow> session_params \<Rightarrow> session_node \<Rightarrow> int \<Rightarrow> string \<Rightarrow> (sent, session_terms) task" where
  "fallback_terms X P N now payer =
     (case checked_address X (Some (JStr (lp_artistWallet P))) of
        Inl err \<Rightarrow> throw err
      | Inr recipient \<Rightarrow>
          bind_task (ask (so_nonce N payer 0)) (\<lambda>nonce.
          let metadataHash = ext_keccakUtf8 (et_deps X) (js_stringify (fallback_metadata P payer recipient));
              t = \<lparr>st_paycardId = Some (JStr (so_paycardId N payer 0 nonce metadataHash)),
                st_metadataHash = Some (JStr metadataHash), st_recipient = recipient, st_pool = lp_budget P,
                st_velocity = lp_velocity P, st_genesis = now, st_lifespan = lp_lifespan P, st_residual = payer,
                st_signature = None, st_channel = 0, st_nonce = nonce, st_payer = payer\<rparr> in
          bind_task (ask (so_chainId N)) (\<lambda>chainId.
          bind_task (ask (so_sign N (session_domain chainId (lp_hubAddress P)) (fallback_intent t))) (\<lambda>signature.
          give (t\<lparr>st_signature := Some (JStr signature)\<rparr>)))))"


section \<open>Opening the session\<close>

definition session_args :: "session_terms \<Rightarrow> json list" where
  "session_args t =
     (let v = (\<lambda>x. case x of Some j \<Rightarrow> j | None \<Rightarrow> JNull) in
      [v (st_paycardId t), v (st_metadataHash t), JStr (st_recipient t), JNum (st_pool t), JNum (st_velocity t),
       JNum (st_genesis t), JNum (st_lifespan t), JStr (st_residual t), v (st_signature t), JNum (st_channel t),
       JNum (st_nonce t), JStr (st_payer t)])"

definition openListeningSession ::
    "ethers \<Rightarrow> session_params \<Rightarrow> session_node \<Rightarrow> int \<Rightarrow> (sent, http_response) task" where
  "openListeningSession X P N now =
     (let signed = truthy (lp_envelopeToken P) in
      if lp_rpcUrls P = [] then throw ''No Arc RPC provider is configured''
      else (case so_wallet N of
          Inl err \<Rightarrow> throw err
        | Inr relayer \<Rightarrow>
            bind_task (if signed then signed_terms X P N else fallback_terms X P N now relayer) (\<lambda>t.
            bind_task (catch_task (ask (so_check N (session_args t))) (\<lambda>e. throw (not_defined ''safeRpcError''))) (\<lambda>_.
            bind_task (send_tx (Hub_tx ''openPaycardChannel'' (session_args t)) (so_send N (session_args t))) (\<lambda>hash.
            bind_task (ask (so_wait N hash)) (\<lambda>_.
            give (ok_response [
              (''paycardId'', st_paycardId t), (''vaultAddress'', Some (JStr (lp_hubAddress P))),
              (''txHash'', Some (JStr hash)),
              (''mode'', Some (JStr (if signed then ''non-custodial'' else ''self-funded-fallback'')))])))))))"

record session_env =
  me_secret :: "string option"
  me_relayerKey :: "string option"
  me_hubAddress :: string
  me_rpcUrl :: "string option"
  me_rpcFallbackUrl :: "string option"

text \<open>\<open>BigInt(v ?? d)\<close>\<close>

definition amount_or :: "js_value \<Rightarrow> string \<Rightarrow> string + int" where
  "amount_or v d = bigint_of (if is_nullish v then Some (JStr d) else v)"

definition session_params_of :: "session_env \<Rightarrow> string \<Rightarrow> json option \<Rightarrow> string + session_params" where
  "session_params_of env wallet body =
     res_bind (amount_or (field body ''budgetUsdc'') ''5000000'') (\<lambda>budget.
     res_bind (amount_or (field body ''velocityPerSecond'') ''1000'') (\<lambda>velocity.
     res_bind (amount_or (field body ''lifespanSeconds'') ''3600'') (\<lambda>lifespan.
     Inr \<lparr>lp_hubAddress = me_hubAddress env, lp_rpcUrls = rpcUrlsFromEnv None (me_rpcUrl env) (me_rpcFallbackUrl env),
       lp_listener = field body ''listenerAddress'', lp_artistWallet = wallet, lp_budget = budget,
       lp_velocity = velocity, lp_lifespan = lifespan, lp_envelopeToken = field body ''envelopeToken''\<rparr>)))"

text \<open>
  The route; \<open>body\<close> is the parsed JSON, if any.  Every error ends in the handler of the worker, which
  throws once more.
\<close>

definition handle_session ::
    "ethers \<Rightarrow> session_env \<Rightarrow> session_node \<Rightarrow> (string \<Rightarrow> string option) \<Rightarrow> string js_map \<Rightarrow> int \<Rightarrow> json option \<Rightarrow>
      (sent, http_response) task" where
  "handle_session X env N headers registry now body =
     (let listener = field body ''listenerAddress''; mbid = field body ''artistMbid'' in
      catch_task
       (if \<not> authorized headers (me_secret env) ''X-OpenRails-Webhook-Secret'' then give (error_response 401 ''Unauthorized'')
        else if \<not> truthy listener \<or> \<not> truthy mbid then give (error_response 400 ''Missing listenerAddress or artistMbid'')
        else if \<not> isEvmAddress (text_of_value listener) then give (error_response 400 ''Invalid listenerAddress'')
        else bind_task (ask (registry_get registry mbid)) (\<lambda>found.
          case found of
            None \<Rightarrow> give (error_response 404 (''Artist MBID '' @ [char_of (39::nat)] @ text_of_value mbid @
              [char_of (39::nat)] @ '' is not registered.''))
          | Some wallet \<Rightarrow>
              if wallet = [] then give (error_response 404 (''Artist MBID '' @ [char_of (39::nat)] @ text_of_value mbid @
                [char_of (39::nat)] @ '' is not registered.''))
              else if \<not> present_text (me_relayerKey env)
              then give (error_response 503 ''Relayer secret key is not configured'')
              else (case session_params_of env wallet body of
                  Inl err \<Rightarrow> throw err
                | Inr P \<Rightarrow> openListeningSession X P N now)))
       (\<lambda>e. throw (not_defined ''safeRpcError'')))"

end
