(* ===== verification/Relay_Facts.thy ===== *)
theory Relay_Facts
  imports Listening_Session
begin

text \<open>
  What the relay and the session route may send: a claim is relayed never, an opening never, and a
  session only on terms its listener signed or its relayer pays.  And envelope tokens: what the SDK
  serializes is what the workers decode.
\<close>


section \<open>Envelope tokens\<close>

lemma plain_length_mod:
  assumes "\<forall>b \<in> set bs. b < 256"
  shows "length (remove_char CHR ''='' (b64_groups bs)) mod 4 \<noteq> 1"
proof -
  have char: "b64_char n \<noteq> CHR ''=''" if "n < 64" for n
    using b64_digit_char [OF that] b64_digit_pad by auto
  show ?thesis using assms
  proof (induction bs rule: b64_groups.induct)
    case (1 a b c bs)
    then have "length (remove_char CHR ''='' (b64_groups bs)) mod 4 \<noteq> 1" by simp
    then have "(4 + length (remove_char CHR ''='' (b64_groups bs))) mod 4 \<noteq> 1" by simp
    moreover have "length (remove_char CHR ''='' (b64_groups (a # b # c # bs))) = 4 + length (remove_char CHR ''='' (b64_groups bs))"
      using split_bytes [of a b c] 1(2) by (simp add: remove_char_def char)
    ultimately show ?case by metis
  next
    case (2 a b)
    then show ?case using split_bytes [of a b 0] by (simp add: remove_char_def char)
  next
    case (3 a)
    then show ?case using split_bytes [of a 0 0] by (simp add: remove_char_def char)
  qed (simp add: remove_char_def)
qed

lemma b64_text_plain: "b64_text s \<Longrightarrow> c \<in> set (remove_char CHR ''='' s) \<Longrightarrow> c \<in> set b64_alphabet"
  by (auto simp: b64_text_def remove_char_def)

lemma alphabet_digits:
  assumes "c \<in> set b64_alphabet"
  shows "b64_digit c \<noteq> None" and "char_code c \<notin> {9, 10, 12, 13, 32}" and "c \<noteq> CHR ''=''"
proof -
  have "list_all (\<lambda>c. b64_digit c \<noteq> None \<and> char_code c \<notin> {9, 10, 12, 13, 32} \<and> c \<noteq> CHR ''='') b64_alphabet"
    by code_simp
  with assms show "b64_digit c \<noteq> None" and "char_code c \<notin> {9, 10, 12, 13, 32}" and "c \<noteq> CHR ''=''"
    by (simp_all add: list_all_iff)
qed

text \<open>\<open>atob\<close> of a padded text is the decoding of the text without its padding.\<close>

lemma atob_padded:
  assumes "\<forall>c \<in> set s. c \<in> set b64_alphabet" and "length s mod 4 \<noteq> 1"
  shows "atob (s @ replicate ((4 - length s mod 4) mod 4) CHR ''='') = Some (map char_of (b64_ungroup (List.map_filter b64_digit s)))"
proof -
  let ?t = "s @ replicate ((4 - length s mod 4) mod 4) CHR ''=''"
  have digits: "\<not> (\<exists>c \<in> set s. b64_digit c = None)" and spaces: "filter (\<lambda>c. char_code c \<notin> {9, 10, 12, 13, 32}) ?t = ?t"
    using assms(1) alphabet_digits by (auto simp: char_code_def)
  have pads: "s = [] \<or> last s \<noteq> CHR ''=''" "drop (length s - 2) s \<noteq> ''==''"
    using assms(1) alphabet_digits(3) last_in_set [of s] set_drop_subset [of "length s - 2" s] by force+
  consider "length s mod 4 = 0" | "length s mod 4 = 2" | "length s mod 4 = 3"
    using assms(2) mod_less_divisor [of 4 "length s"] by linarith
  then show ?thesis
  proof cases
    case 1
    with pads digits spaces show ?thesis by (auto simp: atob_def Let_def)
  next
    case 2
    then have "(length s + 2) mod 4 = 0" by presburger
    with 2 digits spaces show ?thesis by (simp add: atob_def Let_def numeral_2_eq_2)
  next
    case 3
    then have "(length s + 1) mod 4 = 0" and "s \<noteq> []" by (presburger, auto)
    moreover have "drop (length s - 1) (s @ ''='') \<noteq> ''==''"
      using \<open>s \<noteq> []\<close> pads(1) by (cases s rule: rev_cases) auto
    ultimately show ?thesis using 3 digits spaces by (simp add: atob_def Let_def butlast_append)
  qed
qed

lemma decode_serialized:
  assumes "json_exact v"
  shows "decodeEnvelope (Some (JStr (serializeEnvelope v))) = Some v"
proof -
  let ?bytes = "map unat (text_bytes (js_stringify v))" and ?plain = "remove_char CHR ''='' (b64_groups (map unat (text_bytes (js_stringify v))))"
  have small: "\<forall>b \<in> set ?bytes. b < 256" using unsigned_less [where 'b = 8 and 'a = nat] by auto
  have token: "replace_char CHR ''_'' CHR ''/'' (replace_char CHR ''-'' CHR ''+'' (serializeEnvelope v)) = ?plain"
    using url_form_back [OF b64_groups_text [OF small]]
    by (simp add: serializeEnvelope_def base64UrlEncode_def base64UrlEncodeBytes_def encodeBase64Bytes_def flip: url_form_def)
  have "List.map_filter b64_digit (remove_char CHR ''='' s) = List.map_filter b64_digit s" for s
    by (induction s) (auto simp: remove_char_def map_filter_Cons b64_digit_pad split: option.split)
  then have "atob (?plain @ replicate ((4 - length ?plain mod 4) mod 4) CHR ''='') = Some (map char_of ?bytes)"
    using atob_padded [of ?plain] b64_text_plain [OF b64_groups_text [OF small]] plain_length_mod [OF small]
    by (simp add: ungroup_groups [OF small])
  moreover have "map char_of ?bytes = js_stringify v"
    using bytes_text_bytes [of "js_stringify v"] by (simp add: bytes_text_def comp_def)
  ultimately show ?thesis using assms by (simp add: decodeEnvelope_def token Let_def parse_stringify)
qed


section \<open>The relay\<close>

lemma task_ok_sum:
  assumes "\<And>e. r = Inl e \<Longrightarrow> task_ok live P (f e) Q R" and "\<And>x. r = Inr x \<Longrightarrow> task_ok live P (g x) Q R"
  shows "task_ok live P (case r of Inl e \<Rightarrow> f e | Inr x \<Rightarrow> g x) Q R"
  using assms by (cases r) simp_all

lemma task_ok_option:
  assumes "r = None \<Longrightarrow> task_ok live P m Q R" and "\<And>x. r = Some x \<Longrightarrow> task_ok live P (g x) Q R"
  shows "task_ok live P (case r of None \<Rightarrow> m | Some x \<Rightarrow> g x) Q R"
  using assms by (cases r) simp_all

lemma task_ok_bool:
  assumes "b \<Longrightarrow> task_ok live P m Q R" and "\<not> b \<Longrightarrow> task_ok live P n Q R"
  shows "task_ok live P (case b of True \<Rightarrow> m | False \<Rightarrow> n) Q R"
  using assms by (cases b) simp_all

definition permits :: "sent \<Rightarrow> bool" where
  "permits w \<longleftrightarrow> set w \<subseteq> {Permit_tx}"

lemma keeps_ask: "keeps live P (ask r)"
  by (rule task_ok_ask)

lemma permits_permit: "task_ok False permits (send_tx Permit_tx r) permits (\<lambda>_. permits)"
  unfolding send_tx_def by (rule task_ok_await) (auto simp: permits_def split: sum.splits)

lemma permits_try: "task_ok False permits (try_permit N p) permits (\<lambda>_. permits)"
  unfolding try_permit_def
  by (intro task_ok_catch task_ok_if task_ok_throw task_ok_give task_ok_bind [OF keeps_ask] permits_permit)

lemma claim_args_throw: "\<exists>e. claim_args c allocation payer = Inl e"
  by (cases "claim_args c allocation payer") (simp_all add: claim_args_def Let_def res_simps)

definition refusal :: "http_response \<Rightarrow> sent \<Rightarrow> bool" where
  "refusal r w \<longleftrightarrow> permits w \<and> rs_status r \<in> {400, 409, 503}"

lemma refusal_give: "rs_status r \<in> {400, 409, 503} \<Longrightarrow> task_ok False permits (give r) permits refusal"
  by (rule task_ok_give) (simp add: refusal_def)

lemma error_status [simp]: "rs_status (error_response n m) = n"
  by (simp add: error_response_def)

lemma permits_throw: "task_ok live permits (throw e) permits R"
  by (rule task_ok_throw)

lemmas relay_rules =
  refusal_give permits_throw task_ok_if task_ok_sum task_ok_option task_ok_bool
  task_ok_bind [OF keeps_ask] task_ok_bind [OF permits_try]

lemma pay_claim_refuses: "task_ok False permits (pay_claim X env N now c) permits refusal"
proof -
  have call: "task_ok False permits (case claim_args c allocation payer of Inl err \<Rightarrow> throw err | Inr args \<Rightarrow> f args) permits refusal"
    for allocation payer f
    using claim_args_throw [of c allocation payer] by (auto intro: permits_throw)
  have usable: "task_ok False permits (if b then case u of Inl err \<Rightarrow> throw err | Inr False \<Rightarrow> give None
        | Inr True \<Rightarrow> bind_task (try_permit N p) (\<lambda>_. bind_task (ask r) (\<lambda>a. give (Some a)))
      else give (Some x)) permits (\<lambda>_. permits)" for b u p r and x :: int
    by (intro relay_rules task_ok_give)
  show ?thesis
    unfolding pay_claim_def Let_def case_prod_conv
    by (intro relay_rules task_ok_bind [OF usable] call) simp_all
qed

lemma relayClaim_refuses: "task_ok False permits (relayClaim X env N now body) permits refusal"
proof -
  have env_status: "rs_status r \<in> {400, 409, 503}" if "envelope_of env body = Inr (Inl r)" for r
    using that by (auto simp: envelope_of_def reply_def split: if_splits option.splits)
  have status: "rs_status r \<in> {400, 409, 503}" if "claim_of X env body = Inr (Inl r)" for r
  proof -
    consider x where "envelope_of env body = Inl x" | r' where "envelope_of env body = Inr (Inl r')"
      | e where "envelope_of env body = Inr (Inr e)"
      by (metis obj_sumE)
    then show ?thesis
    proof cases
      case 2
      with that env_status show ?thesis by (simp add: claim_of_def)
    next
      case 3
      with that show ?thesis
        by (auto simp: claim_of_def reply_def Let_def split: if_split_asm option.split_asm)
    qed (use that in \<open>simp add: claim_of_def\<close>)
  qed
  show ?thesis
    unfolding relayClaim_def by (intro relay_rules pay_claim_refuses) (use status in auto)
qed

lemma relayOpen_refuses: "task_ok False permits (relayOpen env N body) permits refusal"
proof -
  have env_status: "rs_status r \<in> {400, 409, 503}" if "envelope_of env body = Inr (Inl r)" for r
    using that by (auto simp: envelope_of_def reply_def split: if_splits option.splits)
  show ?thesis
    unfolding relayOpen_def by (intro relay_rules) (use env_status in auto)
qed


section \<open>Listening sessions\<close>

text \<open>Terms that may be sent: signed by the listener for this artist and budget, or paid by the relayer.\<close>

definition listener_signed :: "ethers \<Rightarrow> session_params \<Rightarrow> session_terms \<Rightarrow> bool" where
  "listener_signed X P t \<longleftrightarrow>
     (\<exists>envelope chainId signer listener.
        decodeEnvelope (lp_envelopeToken P) = Some envelope \<and> envelope_terms X envelope = Inr t \<and>
        et_verifyTypedData X (session_domain chainId (lp_hubAddress P)) (verification_intent (field (Some envelope) ''intent''))
          (st_signature t) = Some signer \<and>
        toLowerCase signer = toLowerCase (st_payer t) \<and>
        lp_listener P = Some (JStr listener) \<and> toLowerCase listener = toLowerCase (st_payer t) \<and>
        toLowerCase (st_recipient t) = toLowerCase (lp_artistWallet P) \<and> st_pool t = lp_budget P)"

definition relayer_paid :: "ethers \<Rightarrow> session_params \<Rightarrow> session_node \<Rightarrow> session_terms \<Rightarrow> bool" where
  "relayer_paid X P N t \<longleftrightarrow>
     so_wallet N = Inr (st_payer t) \<and> st_residual t = st_payer t \<and>
     address_of X (Some (JStr (lp_artistWallet P))) = Some (st_recipient t) \<and> st_pool t = lp_budget P"

definition agreed :: "ethers \<Rightarrow> session_params \<Rightarrow> session_node \<Rightarrow> session_terms \<Rightarrow> bool" where
  "agreed X P N t \<longleftrightarrow> (if truthy (lp_envelopeToken P) then listener_signed X P t else relayer_paid X P N t)"

definition nothing_sent :: "sent \<Rightarrow> bool" where
  "nothing_sent w \<longleftrightarrow> w = []"

definition agreed_sent :: "ethers \<Rightarrow> session_params \<Rightarrow> session_node \<Rightarrow> sent \<Rightarrow> bool" where
  "agreed_sent X P N w \<longleftrightarrow> w = [] \<or> (\<exists>t. w = [Hub_tx ''openPaycardChannel'' (session_args t)] \<and> agreed X P N t)"

lemma lower_of_eq_Inr [res_simps]: "lower_of v = Inr s \<longleftrightarrow> (\<exists>x. v = Some (JStr x) \<and> s = toLowerCase x)"
  by (auto simp: lower_of_def split: option.splits json.splits)

lemma verified_terms:
  assumes "decodeEnvelope (lp_envelopeToken P) = Some envelope" and "envelope_terms X envelope = Inr t"
    and "verify_terms X P chainId envelope t = Inr u"
  shows "listener_signed X P t"
proof -
  from assms(3) obtain signer where r: "et_verifyTypedData X (session_domain chainId (lp_hubAddress P))
      (verification_intent (field (Some envelope) ''intent'')) (st_signature t) = Some signer"
    by (auto simp: verify_terms_def Let_def split: option.splits)
  with assms(3) have checks: "toLowerCase signer = toLowerCase (st_payer t) \<and>
      (\<exists>listener. lp_listener P = Some (JStr listener) \<and> toLowerCase listener = toLowerCase (st_payer t)) \<and>
      toLowerCase (st_recipient t) = toLowerCase (lp_artistWallet P) \<and> st_pool t = lp_budget P"
    by (auto simp: verify_terms_def Let_def res_simps split: if_split_asm)
  with r assms(1,2) show ?thesis unfolding listener_signed_def by blast
qed

lemma signed_terms_ok: "task_ok False nothing_sent (signed_terms X P N) nothing_sent (\<lambda>t w. nothing_sent w \<and> listener_signed X P t)"
  unfolding signed_terms_def
  by (intro task_ok_option task_ok_sum task_ok_throw task_ok_bind [OF keeps_ask] task_ok_give)
    (auto intro: verified_terms)

lemma fallback_terms_ok:
  assumes "so_wallet N = Inr relayer"
  shows "task_ok False nothing_sent (fallback_terms X P N now relayer) nothing_sent
    (\<lambda>t w. nothing_sent w \<and> relayer_paid X P N t)"
  unfolding fallback_terms_def Let_def
  by (intro task_ok_sum task_ok_throw task_ok_bind [OF keeps_ask] task_ok_give)
    (use assms in \<open>auto simp: relayer_paid_def checked_address_def split: option.splits\<close>)

lemma session_sends_agreed:
  "task_ok False nothing_sent (openListeningSession X P N now) (agreed_sent X P N) (\<lambda>_. agreed_sent X P N)"
proof -
  let ?ok = "\<lambda>t w. nothing_sent w \<and> agreed X P N t"
  have quiet: "agreed_sent X P N w" if "nothing_sent w" for w
    using that by (simp add: agreed_sent_def nothing_sent_def)
  have terms: "task_ok False nothing_sent (if truthy (lp_envelopeToken P) then signed_terms X P N else fallback_terms X P N now relayer)
      (agreed_sent X P N) ?ok" if "so_wallet N = Inr relayer" for relayer
  proof (rule task_ok_if)
    assume "truthy (lp_envelopeToken P)"
    then show "task_ok False nothing_sent (signed_terms X P N) (agreed_sent X P N) ?ok"
      by (intro task_ok_weaken [OF signed_terms_ok]) (auto simp: agreed_def quiet)
  next
    assume "\<not> truthy (lp_envelopeToken P)"
    then show "task_ok False nothing_sent (fallback_terms X P N now relayer) (agreed_sent X P N) ?ok"
      by (intro task_ok_weaken [OF fallback_terms_ok [OF that]]) (auto simp: agreed_def quiet)
  qed
  have check: "task_ok False (?ok t) (catch_task (ask r) (\<lambda>e. throw err)) (agreed_sent X P N) (\<lambda>_. ?ok t)"
    for t err and r :: "string + unit"
    by (rule task_ok_weaken [where P' = "?ok t" and Q' = "?ok t", OF task_ok_catch [OF keeps_ask task_ok_throw]])
      (auto intro: quiet)
  have send: "task_ok False (?ok t) (send_tx (Hub_tx ''openPaycardChannel'' (session_args t)) r) (agreed_sent X P N)
      (\<lambda>_. agreed_sent X P N)" for t and r :: "string + string"
    unfolding send_tx_def
    by (rule task_ok_await) (auto simp: agreed_sent_def nothing_sent_def split: sum.split_asm)
  show ?thesis
    unfolding openListeningSession_def Let_def
    by (intro task_ok_if task_ok_sum task_ok_throw task_ok_bind [OF terms] task_ok_bind [OF check] task_ok_bind [OF send]
        task_ok_bind [OF keeps_ask] task_ok_give) (auto intro: quiet)
qed


text \<open>The route: what it sends follows from an authorised request and the registry.\<close>

definition route_sent ::
    "ethers \<Rightarrow> session_env \<Rightarrow> session_node \<Rightarrow> (string \<Rightarrow> string option) \<Rightarrow> string js_map \<Rightarrow> json option \<Rightarrow> sent \<Rightarrow> bool" where
  "route_sent X env N headers registry body w \<longleftrightarrow> nothing_sent w \<or>
     (\<exists>mbid wallet P. authorized headers (me_secret env) ''X-OpenRails-Webhook-Secret'' \<and>
        field body ''artistMbid'' = Some (JStr mbid) \<and> map_get registry mbid = Some wallet \<and>
        session_params_of env wallet body = Inr P \<and> agreed_sent X P N w)"

lemma session_route_sends:
  "task_ok False nothing_sent (handle_session X env N headers registry now body)
     (route_sent X env N headers registry body) (\<lambda>_. route_sent X env N headers registry body)"
proof -
  let ?Q = "route_sent X env N headers registry body"
  have quiet: "?Q w" if "nothing_sent w" for w using that by (simp add: route_sent_def)
  have get: "task_ok False nothing_sent (ask (registry_get registry mbid)) ?Q
      (\<lambda>found w. nothing_sent w \<and> registry_get registry mbid = Inr found)" for mbid
    by (rule task_ok_ask) (auto intro: quiet)
  have opened: "task_ok False (\<lambda>w. nothing_sent w \<and> registry_get registry (field body ''artistMbid'') = Inr (Some wallet))
      (openListeningSession X P N now) ?Q (\<lambda>_. ?Q)"
    if "authorized headers (me_secret env) ''X-OpenRails-Webhook-Secret''" and "session_params_of env wallet body = Inr P"
    for wallet P
  proof (cases "registry_get registry (field body ''artistMbid'') = Inr (Some wallet)")
    case True
    then obtain mbid where "field body ''artistMbid'' = Some (JStr mbid)" "map_get registry mbid = Some wallet"
      by (auto simp: registry_get_def split: option.splits json.splits)
    with that have "?Q w" if "agreed_sent X P N w" for w using that by (auto simp: route_sent_def)
    then show ?thesis by (intro task_ok_weaken [OF session_sends_agreed]) auto
  qed (simp add: task_ok_def)
  show ?thesis
    unfolding handle_session_def Let_def
    by (intro task_ok_catch task_ok_if task_ok_option task_ok_sum task_ok_bind [OF get] task_ok_give task_ok_throw)
      (auto intro: quiet opened)
qed

end
