(* ===== verification/Relay_Properties.thy ===== *)
theory Relay_Properties
  imports Relay_Facts Server_Demo
begin

text \<open>
  The properties of the relay and of listening sessions, each with a request at which it applies.
\<close>


section \<open>The relay\<close>

definition ex_relay_intent :: json where
  "ex_relay_intent = JObj [
     (''paycardId'', JStr (demo_hash CHR ''1'')), (''metadataHash'', JStr (demo_hash CHR ''2'')),
     (''recipient'', JStr (addr CHR ''2'')), (''totalAllocationPool'', JStr ''100''),
     (''flowVelocityPerSecond'', JStr ''1''), (''genesisTimestamp'', JNum 1700000000), (''lifespanSeconds'', JNum 100),
     (''residualDeltaRecipient'', JStr (addr CHR ''b'')), (''nonceChannel'', JNum 0), (''nonceValue'', JNum 0)]"

definition ex_relay_envelope :: json where
  "ex_relay_envelope = JObj [
     (''payerAddress'', JStr (addr CHR ''b'')), (''envelopeSignature'', JStr (''2.0.0'' @ addr CHR ''b'')),
     (''intent'', ex_relay_intent), (''mode'', JStr ''railscard_recipient_bound'')]"


definition ex_relay_env :: relay_env where
  "ex_relay_env = \<lparr>rl_enabled = None, rl_signerKey = Some ''key'', rl_hub = addr CHR ''9'', rl_usdc = Some (addr CHR ''d''),
     rl_rpcUrls = [''https://rpc'']\<rparr>"


lemma ex_relay_decoded: "decodeEnvelope (Some (JStr (serializeEnvelope ex_relay_envelope))) = Some ex_relay_envelope"
  by (rule decode_serialized) (simp add: ex_relay_envelope_def ex_relay_intent_def js_round_exact)

lemma ex_token: "serializeEnvelope ex_relay_envelope \<noteq> []"
proof
  assume "serializeEnvelope ex_relay_envelope = []"
  moreover have "decodeEnvelope (Some (JStr [])) = None" by code_simp
  ultimately show False using ex_relay_decoded by simp
qed

lemma ex_relay_fields:
  "field (Some ex_relay_envelope) ''intent'' = Some ex_relay_intent"
  "field (Some ex_relay_envelope) ''mode'' = Some (JStr ''railscard_recipient_bound'')"
  "field (Some ex_relay_envelope) ''payerAddress'' = Some (JStr (addr CHR ''b''))"
  "field (Some ex_relay_envelope) ''envelopeSignature'' = Some (JStr (''2.0.0'' @ addr CHR ''b''))"
  "field (Some ex_relay_envelope) ''permit'' = None"
  "field (Some ex_relay_intent) ''paycardId'' = Some (JStr (demo_hash CHR ''1''))"
  "field (Some ex_relay_intent) ''metadataHash'' = Some (JStr (demo_hash CHR ''2''))"
  "field (Some ex_relay_intent) ''recipient'' = Some (JStr (addr CHR ''2''))"
  "field (Some ex_relay_intent) ''totalAllocationPool'' = Some (JStr ''100'')"
  "field (Some ex_relay_intent) ''flowVelocityPerSecond'' = Some (JStr ''1'')"
  "field (Some ex_relay_intent) ''genesisTimestamp'' = Some (JNum 1700000000)"
  "field (Some ex_relay_intent) ''lifespanSeconds'' = Some (JNum 100)"
  "field (Some ex_relay_intent) ''residualDeltaRecipient'' = Some (JStr (addr CHR ''b''))"
  "field (Some ex_relay_intent) ''nonceChannel'' = Some (JNum 0)"
  "field (Some ex_relay_intent) ''nonceValue'' = Some (JNum 0)"
  by (simp_all add: field_def ex_relay_envelope_def ex_relay_intent_def)

lemma ex_numbers:
  "to_BigInt (Some (JStr ''100'')) = Some 100" "to_BigInt (Some (JStr ''1'')) = Some 1"
  "to_BigInt (Some (JNum n)) = Some n"
  by (code_simp, code_simp, simp add: to_BigInt_def)

lemma ex_addresses_read [simp]:
  "address_of demo_ethers (Some (JStr (addr CHR ''2''))) = Some (addr CHR ''2'')"
  "address_of demo_ethers (Some (JStr (addr CHR ''b''))) = Some (addr CHR ''b'')"
  "\<not> zero_address_text (Some (JStr (addr CHR ''2'')))"
  "demo_hash CHR ''1'' \<noteq> []" "addr c \<noteq> []"
proof -
  show "address_of demo_ethers (Some (JStr (addr CHR ''2''))) = Some (addr CHR ''2'')"
    "address_of demo_ethers (Some (JStr (addr CHR ''b''))) = Some (addr CHR ''b'')"
    by (simp_all add: address_of_def)
qed (simp_all add: zero_address_text_def text_of_value_def addr_def toLowerCase_def demo_hash_def)

lemma ex_not_null: "ex_relay_envelope \<noteq> JNull" "truthy (Some ex_relay_intent)"
  by (simp_all add: ex_relay_envelope_def ex_relay_intent_def)

lemma ex_relay_env_simps [simp]:
  "rl_enabled ex_relay_env = None" "rl_signerKey ex_relay_env = Some ''key''" "rl_hub ex_relay_env = addr CHR ''9''"
  "rl_usdc ex_relay_env = Some (addr CHR ''d'')" "rl_rpcUrls ex_relay_env = [''https://rpc'']"
  by (simp_all add: ex_relay_env_def)





section \<open>Listening sessions\<close>

definition ex_session_body :: json where
  "ex_session_body = JObj [
     (''listenerAddress'', JStr (addr CHR ''b'')), (''artistMbid'', JStr ''m1''), (''budgetUsdc'', JStr ''100''),
     (''envelopeToken'', JStr (serializeEnvelope ex_relay_envelope))]"

definition ex_session_env :: session_env where
  "ex_session_env = \<lparr>me_secret = Some ''secret'', me_relayerKey = Some ''key'', me_hubAddress = addr CHR ''9'',
     me_rpcUrl = Some ''https://rpc'', me_rpcFallbackUrl = None\<rparr>"

definition ex_session_node :: session_node where
  "ex_session_node = \<lparr>so_wallet = Inr (addr CHR ''c''), so_chainId = Inr 5042002, so_nonce = (\<lambda>a c. Inr 0),
     so_paycardId = (\<lambda>a c n h. h), so_sign = (\<lambda>d m. Inr ''0x''), so_check = (\<lambda>a. Inr ()),
     so_send = (\<lambda>a. Inr ''0xabc''), so_wait = (\<lambda>h. Inr ())\<rparr>"

definition ex_secret_header :: "string \<Rightarrow> string option" where
  "ex_secret_header h = (if h = ''X-OpenRails-Webhook-Secret'' then Some ''secret'' else None)"

definition ex_terms :: session_terms where
  "ex_terms = \<lparr>st_paycardId = Some (JStr (demo_hash CHR ''1'')), st_metadataHash = Some (JStr (demo_hash CHR ''2'')),
    st_recipient = addr CHR ''2'', st_pool = 100, st_velocity = 1, st_genesis = 1700000000, st_lifespan = 100,
    st_residual = addr CHR ''b'', st_signature = Some (JStr (''2.0.0'' @ addr CHR ''b'')), st_channel = 0, st_nonce = 0,
    st_payer = addr CHR ''b''\<rparr>"

definition ex_params :: session_params where
  "ex_params = \<lparr>lp_hubAddress = addr CHR ''9'', lp_rpcUrls = [''https://rpc''], lp_listener = Some (JStr (addr CHR ''b'')),
    lp_artistWallet = addr CHR ''2'', lp_budget = 100, lp_velocity = 1000, lp_lifespan = 3600,
    lp_envelopeToken = Some (JStr (serializeEnvelope ex_relay_envelope))\<rparr>"

definition ex_session :: "(sent, http_response) task" where
  "ex_session = handle_session demo_ethers ex_session_env ex_session_node ex_secret_header [(''m1'', addr CHR ''2'')] 5
     (Some ex_session_body)"

lemma ex_session_sent: "state_after ex_session (None, []) \<noteq> []"
proof -
  have body: "field (Some ex_session_body) ''listenerAddress'' = Some (JStr (addr CHR ''b''))"
    "field (Some ex_session_body) ''artistMbid'' = Some (JStr ''m1'')"
    "field (Some ex_session_body) ''budgetUsdc'' = Some (JStr ''100'')"
    "field (Some ex_session_body) ''velocityPerSecond'' = None" "field (Some ex_session_body) ''lifespanSeconds'' = None"
    "field (Some ex_session_body) ''envelopeToken'' = Some (JStr (serializeEnvelope ex_relay_envelope))"
    by (simp_all add: field_def ex_session_body_def)
  have numbers: "to_BigInt (Some (JStr ''1000'')) = Some 1000" "to_BigInt (Some (JStr ''3600'')) = Some 3600"
    "rpcUrlsFromEnv None (Some ''https://rpc'') None = [''https://rpc'']" "isEvmAddress (addr CHR ''b'')"
    by code_simp+
  have auth: "authorized ex_secret_header (Some ''secret'') ''X-OpenRails-Webhook-Secret''"
    by (simp add: authorized_def ex_secret_header_def)
  have params: "session_params_of ex_session_env (addr CHR ''2'') (Some ex_session_body) = Inr ex_params"
    by (simp add: session_params_of_def amount_or_def bigint_of_def body ex_numbers numbers is_nullish_def ex_session_env_def ex_params_def)
  have terms: "envelope_terms demo_ethers ex_relay_envelope = Inr ex_terms"
    by (simp add: envelope_terms_def ex_relay_fields checked_address_def bigint_of_def ex_numbers Let_def ex_not_null ex_terms_def)
  have verified: "verify_terms demo_ethers ex_params 5042002 ex_relay_envelope ex_terms = Inr ()"
  proof -
    have "demo_verify (session_domain 5042002 (addr CHR ''9'')) m (Some (JStr (''2.0.0'' @ addr CHR ''b''))) = Some (addr CHR ''b'')" for m
      by (simp add: demo_verify_def session_domain_def field_def jobj_def text_of_def starts_with_def Let_def)
    then show ?thesis by (simp add: verify_terms_def lower_of_def ex_terms_def ex_params_def Let_def)
  qed
  have params_fields: "lp_rpcUrls ex_params = [''https://rpc'']" "lp_hubAddress ex_params = addr CHR ''9''"
    "lp_envelopeToken ex_params = Some (JStr (serializeEnvelope ex_relay_envelope))"
    "st_paycardId ex_terms = Some (JStr (demo_hash CHR ''1''))"
    by (simp_all add: ex_params_def ex_terms_def)
  have opened: "openListeningSession demo_ethers ex_params ex_session_node 5 (None, []) =
      (Inr (ok_response [(''paycardId'', Some (JStr (demo_hash CHR ''1''))), (''vaultAddress'', Some (JStr (addr CHR ''9''))),
          (''txHash'', Some (JStr ''0xabc'')), (''mode'', Some (JStr ''non-custodial''))]),
       None, [Hub_tx ''openPaycardChannel'' (session_args ex_terms)])"
    using ex_token params_fields
    by (simp add: openListeningSession_def signed_terms_def ex_relay_decoded terms verified ex_session_node_def
        bind_task_def ask_def await_def catch_task_def send_tx_def give_def Let_def)
  show ?thesis
    using opened
    by (simp add: ex_session_def handle_session_def body auth numbers params registry_get_def map_get_def present_text_def
        text_of_value_def state_after_def bind_task_def ask_def await_def catch_task_def give_def Let_def)
      (simp add: ex_session_env_def auth)
qed

text \<open>C40: The session route sends at most one transaction, only for an authorised request and to the wallet
  the registry holds for the artist.  With an envelope its terms are those of the envelope, whose
  signature recovers to the listener, to this artist and for this budget; without one the relayer itself
  pays and gets back what is left.\<close>

theorem session_terms_agreed:
  assumes "tx \<in> set (state_after (handle_session X env N headers registry now body) (k, []))"
  shows "\<exists>t P mbid wallet.
    state_after (handle_session X env N headers registry now body) (k, []) = [Hub_tx ''openPaycardChannel'' (session_args t)] \<and>
    authorized headers (me_secret env) ''X-OpenRails-Webhook-Secret'' \<and>
    field body ''artistMbid'' = Some (JStr mbid) \<and> map_get registry mbid = Some wallet \<and>
    session_params_of env wallet body = Inr P \<and>
    (if truthy (field body ''envelopeToken'') then listener_signed X P t else relayer_paid X P N t)"
proof -
  have "outcome False (route_sent X env N headers registry body) (\<lambda>_. route_sent X env N headers registry body)
      (handle_session X env N headers registry now body (k, []))"
    by (rule task_okD [OF session_route_sends]) (simp_all add: nothing_sent_def)
  then have "route_sent X env N headers registry body (state_after (handle_session X env N headers registry now body) (k, []))"
    by (simp add: outcome_def state_after_def split: sum.splits)
  moreover have "lp_envelopeToken P = field body ''envelopeToken''" if "session_params_of env wallet body = Inr P" for wallet P
    using that by (auto simp: session_params_of_def res_simps)
  ultimately show ?thesis
    using assms by (fastforce simp: route_sent_def nothing_sent_def agreed_sent_def agreed_def)
qed


lemma session_terms_agreed_witness:
  "\<exists>t. state_after ex_session (None, []) = [Hub_tx ''openPaycardChannel'' (session_args t)] \<and>
     toLowerCase (st_payer t) = addr CHR ''b'' \<and> toLowerCase (st_recipient t) = addr CHR ''2'' \<and> st_pool t = 100"
proof -
  have token: "truthy (field (Some ex_session_body) ''envelopeToken'')"
    and listener: "field (Some ex_session_body) ''listenerAddress'' = Some (JStr (addr CHR ''b''))"
    and mbid: "field (Some ex_session_body) ''artistMbid'' = Some (JStr ''m1'')"
    and budget: "field (Some ex_session_body) ''budgetUsdc'' = Some (JStr ''100'')"
    using ex_token by (simp_all add: field_def ex_session_body_def)
  have lower: "toLowerCase (addr CHR ''b'') = addr CHR ''b''" "toLowerCase (addr CHR ''2'') = addr CHR ''2''"
    by code_simp+
  obtain tx where "tx \<in> set (state_after ex_session (None, []))"
    using ex_session_sent by (cases "state_after ex_session (None, [])") auto
  from session_terms_agreed [OF this [unfolded ex_session_def]] obtain t P where
    sent: "state_after ex_session (None, []) = [Hub_tx ''openPaycardChannel'' (session_args t)]" and
    params: "session_params_of ex_session_env (addr CHR ''2'') (Some ex_session_body) = Inr P" and
    signed: "listener_signed demo_ethers P t"
    unfolding ex_session_def [symmetric] by (auto simp: token mbid map_get_def)
  from params have "lp_listener P = Some (JStr (addr CHR ''b''))" "lp_artistWallet P = addr CHR ''2''" "lp_budget P = 100"
    by (auto simp: session_params_of_def amount_or_def bigint_of_def budget listener ex_numbers is_nullish_def res_simps)
  with signed have "toLowerCase (st_payer t) = addr CHR ''b'' \<and> toLowerCase (st_recipient t) = addr CHR ''2'' \<and> st_pool t = 100"
    by (auto simp: listener_signed_def lower)
  with sent show ?thesis by blast
qed

end
