(* ===== verification/Spec2Isabelle.thy ===== *)
theory Spec2Isabelle
  imports Runtime_Properties Gateway_Properties Server_Properties Worker_Properties Interface_Worker_Properties
    Relay_Properties
begin

text \<open>
  OpenRails: programmable payments over a clearinghouse contract on the Arc chain.  This development
  models the off-chain TypeScript that decides who may do what with a payment, and that keeps track
  of what the contract did.

  \<^bold>\<open>Parts of the program and how they interact.\<close>

  \<^item> The \<^emph>\<open>Runtime\<close> (\<open>src/packages/openrails-runtime\<close>) executes ten signed transitions on a state of
    Workspaces, Actors, Paths, Intents, Proposals, Decisions, Pacts and Proofs.  It validates envelopes
    with the \<^emph>\<open>Shared Interface\<close> (\<open>src/interface/src\<close>), verifies signatures through a provider, and
    keeps its state in memory or in Postgres.
  \<^item> The \<^emph>\<open>stream gateway\<close> (\<open>src/stream-gateway\<close>) follows the contract's events, keeps a projection of
    every stream in memory or in files, accrues and expires streams on a timer, and tells webhooks.
  \<^item> The \<^emph>\<open>SDK\<close> (\<open>src/sdk/src\<close>) signs permission envelopes and access credentials, encodes them as
    tokens and links, issues nonces, and recovers paycards from the chain.
  \<^item> The \<^emph>\<open>gateway server\<close> (\<open>src/server\<close>) relays envelopes to the contract, unlocks resources for
    access credentials and limits the rate of requests.  It uses the SDK for validation.
  \<^item> The \<^emph>\<open>workers\<close> (\<open>src/workers\<close>) run in the cloud: one indexes the contract's events in a database, one
    logs plays that a settler later settles on the chain, one puts the Runtime behind HTTP routes.

  \<^bold>\<open>Shared ground.\<close>  \<open>Prelude\<close> (statements that throw, objects used as dictionaries, the collections
  \<open>res_simps\<close> and \<open>js_simps\<close>), \<open>Js_Values\<close> (JSON values, bigint, text), \<open>Js_Date\<close> (\<open>Date.parse\<close> on the
  admitted format), \<open>Js_Collections\<close> (\<open>Map\<close> and \<open>Set\<close>), \<open>Js_Parse\<close> (\<open>JSON.parse\<close>, which inverts
  \<open>JSON.stringify\<close>), \<open>Js_Dynamic\<close> (values of unknown type: \<open>===\<close>, truth, conversions; the calls of
  ethers), \<open>External\<close> (the record of the functions the repository does not hold).

  \<^bold>\<open>The Runtime.\<close>

  \<^item> \<open>Interface_Types\<close>, \<open>Interface_Json\<close>: the objects of \<open>generated.ts\<close>, a record or datatype each, and
    their JSON values.  \<open>Envelope\<close>, \<open>Operations\<close>: requests, responses, the registry of
    \<open>artifacts.ts\<close> and the checks of \<open>operations.ts\<close> and \<open>runtime-signature.ts\<close>.
  \<^item> \<open>Runtime_Errors\<close>, \<open>Runtime_Signature\<close>: \<open>errors.ts\<close>, \<open>provider.ts\<close>, \<open>signature.ts\<close>.
  \<^item> \<open>Runtime_Store\<close>: \<open>types.ts\<close> (\<open>runtime_state\<close>), \<open>store.ts\<close>, with the locale \<open>runtime_store\<close>
    interpreted on the in-memory and on the Postgres store.
  \<^item> \<open>Path_Authority\<close>, \<open>Runtime_Checks\<close>, \<open>Runtime_Transitions\<close>, \<open>Runtime_Exec\<close>: \<open>runtime.ts\<close>, from the
    limits of a Path to \<open>execute\<close> and \<open>ingestPath\<close>.
  \<^item> \<open>Runtime_Spec\<close> is the abstract specification: which objects each operation may create or change and
    on whose signature.  \<open>Path_Spending\<close>, \<open>Runtime_Refinement\<close> show that the transitions implement it,
    \<open>Runtime_Invariants\<close> and \<open>Runtime_History\<close> what every sequence of steps keeps, \<open>Runtime_Service\<close>
    (locale \<open>runtime_service\<close>, interpreted on both stores) carries that to concurrent calls, and
    \<open>Envelope_Facts\<close> says what an accepted envelope guarantees.
  \<^item> \<open>Runtime_Demo\<close>, \<open>Runtime_Walkthrough\<close>: one run through every operation, on which the witnesses of
    \<open>Runtime_Properties\<close> are evaluated.

  \<^bold>\<open>The stream gateway.\<close>

  \<^item> \<open>Stream_Store\<close>, \<open>File_Store\<close>: the stores of \<open>state-store.ts\<close>; \<open>Store_Interface\<close> states what the
    gateway needs of a store as the locales \<open>stream_store\<close> and \<open>durable_store\<close>, interpreted on them.
  \<^item> \<open>Termination_Queue\<close> (the binary-search queue and its equality with a stable sort), \<open>Metadata\<close>
    (\<open>metadata.ts\<close>), \<open>Stream_Gateway\<close> (\<open>index.ts\<close> and \<open>log-parser.ts\<close>: \<open>begin_log\<close> and \<open>finish_log\<close> are
    \<open>handleLog\<close> before and after its \<open>await\<close>), \<open>Gateway_Parts\<close> (\<open>provider-pool.ts\<close>, \<open>timer.ts\<close>,
    \<open>webhook.ts\<close>).
  \<^item> \<open>Gateway_Runs\<close>: the state machine of handlers, ticks and restarts; \<open>Gateway_Streams\<close>: what holds of
    every stream in it; \<open>Gateway_Demo\<close>, \<open>Gateway_Properties\<close>.

  \<^bold>\<open>SDK and server.\<close>

  \<^item> \<open>Base64_Url\<close> (\<open>serialization.ts\<close>), \<open>Compact_Links\<close> (\<open>links.ts\<close>) and \<open>Link_Codec\<close> (each writer is
    inverted by its reader), \<open>Nonce_Engine\<close> (\<open>nonce.ts\<close>, a step relation over interleaved calls whose
    promises form a chain), \<open>Rate_Limiter\<close> (\<open>rate-limiter.ts\<close>).
  \<^item> \<open>Access_Credentials\<close> (\<open>access.ts\<close> and the access half of \<open>server/validation.ts\<close>),
    \<open>Paycard_Requests\<close> (\<open>client.ts\<close>, \<open>policy.ts\<close>, \<open>proof.ts\<close> and the paycard half of
    \<open>server/validation.ts\<close>), \<open>Wallet\<close> (\<open>wallet.ts\<close>), \<open>Gateway_Server\<close> (the handlers of
    \<open>server/index.ts\<close>: each gives its response and the transactions it submitted).
  \<^item> \<open>Server_Demo\<close>, \<open>Server_Properties\<close>.

  \<^bold>\<open>The workers.\<close>

  \<^item> \<open>Worker_Effects\<close>: asynchronous code over tables.  A task is a function on its state that may throw,
    and a run may be \<^emph>\<open>cut\<close> at any \<open>await\<close>, as when the platform ends it; \<open>task_ok\<close> is the rule by which
    its facts are proved.  Also the helpers the workers share (\<open>shared/auth.ts\<close>, \<open>shared/rpc.ts\<close>).
  \<^item> \<open>Indexer_Worker\<close> (\<open>indexer-worker/src/index.ts\<close>, \<open>runTick\<close> over its tables) and \<open>Indexer_Facts\<close>: what
    every sequence of passes keeps, over any answers that agree with a chain.
  \<^item> \<open>Play_Settlement\<close> (the scrobble webhook of \<open>music-scrobble-worker\<close>, the settlers of
    \<open>reconciliation-worker\<close>) and \<open>Settlement_Facts\<close>; \<open>Worker_Demo\<close>, \<open>Worker_Properties\<close>.
  \<^item> \<open>Relay_Workers\<close> (the relay routes of \<open>reconciliation-worker\<close>, \<open>shared/relay.ts\<close>), \<open>Listening_Session\<close>
    (artists and sessions of \<open>music-scrobble-worker\<close>); \<open>Relay_Facts\<close> shows what each may send to the chain,
    and that the workers decode what the SDK serializes; \<open>Relay_Properties\<close>.
  \<^item> \<open>Interface_Worker\<close> (\<open>interface-worker/src/index.ts\<close>: \<open>handleRuntime\<close> over the Postgres store of
    \<open>Runtime_Store\<close>), \<open>Interface_Worker_Facts\<close>, \<open>Interface_Worker_Demo\<close>, \<open>Interface_Worker_Properties\<close>.
    Its facts on the stored state are those of the interpretation of \<open>runtime_service\<close> on that store.

  \<^bold>\<open>Correspondence.\<close>  Functions keep the names of the source.  A thrown exception is the left side of a
  sum, \<open>undefined\<close> is \<open>None\<close>, a plain object used as a dictionary is an association list read through
  \<open>js_get\<close>, which knows the inherited members.  A promise that is awaited splits its function where other
  work may run in between: in \<open>handleLog\<close>, in \<open>execute\<close> (outside and inside the store's transaction) and in
  \<open>nextNonce\<close>.  Numbers are integers where the code has no fractions, with rounding to doubles
  (\<open>js_round\<close>) where they come from JSON, and 32-bit words where the code computes with \<open>>>>\<close> or \<open>DataView\<close>.

  \<^bold>\<open>What the properties show.\<close>  The Runtime: an invariant of every reachable state, refinement of the
  specification, all-or-nothing calls on both stores, no replay, spending within limits, finality of closed
  Paths and of decisions, authenticity of admitted calls.  The gateway: each event applied once, bounded
  balances, overdue streams terminated, restarts that keep the streams.  SDK and server: links and tokens
  that read back, increasing nonces, bounded request rates, credentials that are granted exactly when
  they should be, a relayer that submits only what was validated, a recovery that always returns and finds
  the newest paycards.  The workers: events indexed exactly once without gaps however passes are cut, states
  that replay the events, settled plays that rest on confirmed settlements, reads only of the signer's own
  workspaces.  Some properties and lemmas state behaviour one would not expect: an inherited id, an
  impossible date, a damaged snapshot, an overtaken provisioning, the zero address in another spelling, a
  proof made under another domain, a cut pass that loses a row, vaults that are never scanned, plays that
  stay locked, actors of other workspaces that are shown, a relay that never relays.

  \<^bold>\<open>Termination and bounds.\<close>  The binary search of the queue and the chunks of the recovery are
  \<open>partial_function (option)\<close>s, proved to return (the search for queues of at most \<open>2 ^ 31\<close> entries, since
  its midpoint is computed on 32-bit integers).  The parser of JSON text takes fuel, one more than the
  length of the text; \<open>Js_Parse\<close> shows it reads everything \<open>JSON.stringify\<close> writes.  All other
  functions are total by structural recursion or a measure.

  \<^bold>\<open>Parameters.\<close>  Not in the repository, and therefore arguments: keccak256, address checksums, hex
  and signature checks and the EIP-712 encoder of ethers; the canonicalization package; the generated
  schema validators; the database connection, which may fail at each statement; the RPC node, the ABI
  decoder and the contract; clocks, random numbers and HTTP answers.  Properties that rely on
  documented behaviour of these name it as a hypothesis (for example \<open>checksums\<close>, \<open>recovers\<close>, \<open>serves\<close>),
  and their witnesses instantiate it.

  \<^bold>\<open>Not modelled.\<close>  The generated validators and schemas (data, not logic); the HTTP framework and the start
  of processes; endpoints that forward one query to the node or to the store; the command line, the
  clients generated from the interface, wallet handoff, CCTP and Circle clients, canonical records of the
  SDK; of the workers the routes that query the index, declare capabilities or validate envelopes, the x402
  gateway and the faucet; the MCP server; the browser interfaces; the Solidity contracts and experiments.
  Numbers with a fraction or an exponent in JSON text are refused by the model, malformed UTF-8 is not
  replaced, and the quotients of the rate limiter are exact.
\<close>

end
